(* ===== verification/GoPrelude.thy ===== *)
theory GoPrelude
  imports Complex_Main "HOL-Library.Char_ord" "HOL-Library.List_Lexorder" "HOL-Library.Multiset"
begin

text \<open>
  What the components share: the parts of the Go language and its standard library that the
  modelled code uses, the automation collections of the development, and generic lemmas.

  \<^item> \<open>int64\<close> and \<open>int\<close> are the integers between \<open>min_int64\<close> and \<open>max_int64\<close>; an
    increment that the code performs is written with \<open>wrap64\<close>, so that overflow is part of
    the model.
  \<^item> \<open>time.Time\<close> is the number of nanoseconds since Go's zero time (1 January of year 1), so
    that \<open>IsZero\<close> is equality with 0; \<open>time.Duration\<close> is a number of nanoseconds, and
    \<open>Time.Sub\<close> saturates at the bounds of \<open>int64\<close> as Go's does.
  \<^item> a Go string is a list of bytes (\<open>string\<close>), compared byte by byte
    (\<open>HOL-Library.List_Lexorder\<close> with \<open>HOL-Library.Char_ord\<close>).
  \<^item> a pointer to a value that is only tested for nil and read is an \<open>option\<close>.
  \<^item> \<open>sort.Slice\<close>, \<open>sort.SliceStable\<close> and \<open>sort.Strings\<close> are \<open>sort_less\<close>, a stable sort by the
    code's comparison function; the locale \<open>strict_weak_order\<close> is the contract the
    comparison owes it.
\<close>

named_theorems machine_simps \<open>unfolding of the integer, time and string primitives\<close>
named_theorems machine_intros \<open>introduction rules about sorted and duplicate-free results\<close>

section \<open>Integers\<close>

type_synonym int64 = int
type_synonym duration = int
type_synonym instant = int

definition max_int64 :: int where
  "max_int64 = 9223372036854775807"

definition min_int64 :: int where
  "min_int64 = - 9223372036854775808"

definition wrap64 :: "int \<Rightarrow> int" where
  "wrap64 x = (x + 9223372036854775808) mod 18446744073709551616 - 9223372036854775808"

definition in_int64 :: "int \<Rightarrow> bool" where
  "in_int64 x \<longleftrightarrow> min_int64 \<le> x \<and> x \<le> max_int64"

lemma wrap64_id [simp]: "in_int64 x \<Longrightarrow> wrap64 x = x"
  by (simp add: in_int64_def wrap64_def max_int64_def min_int64_def)

lemma wrap64_in_int64: "in_int64 (wrap64 x)"
proof -
  have "0 \<le> (x + 9223372036854775808) mod 18446744073709551616"
    and "(x + 9223372036854775808) mod 18446744073709551616 < 18446744073709551616"
    by simp_all
  then show ?thesis
    by (simp add: in_int64_def wrap64_def max_int64_def min_int64_def)
qed

lemma wrap64_Suc:
  assumes "in_int64 x" and "x < max_int64"
  shows "wrap64 (x + 1) = x + 1"
  using assms by (intro wrap64_id) (simp add: in_int64_def max_int64_def min_int64_def)

definition sat64 :: "int \<Rightarrow> int" where
  "sat64 x = (if x < min_int64 then min_int64 else if max_int64 < x then max_int64 else x)"

lemma sat64_in_int64: "in_int64 (sat64 x)"
  by (simp add: sat64_def in_int64_def max_int64_def min_int64_def)

lemma sat64_mono: "x \<le> y \<Longrightarrow> sat64 x \<le> sat64 y"
  by (simp add: sat64_def max_int64_def min_int64_def)

lemma sat64_pos_iff [simp]: "0 < sat64 x \<longleftrightarrow> 0 < x"
  by (simp add: sat64_def max_int64_def min_int64_def)

section \<open>Time\<close>

definition is_zero_time :: "instant \<Rightarrow> bool" where
  "is_zero_time t \<longleftrightarrow> t = 0"

definition time_sub :: "instant \<Rightarrow> instant \<Rightarrow> duration" where
  "time_sub t u = sat64 (t - u)"

definition time_add :: "instant \<Rightarrow> duration \<Rightarrow> instant" where
  "time_add t d = t + d"

definition second :: duration where "second = 1000000000"
definition minute :: duration where "minute = 60 * second"
definition hour :: duration where "hour = 60 * minute"

lemmas duration_defs = hour_def minute_def second_def

lemma time_sub_pos_iff [simp]: "0 < time_sub t u \<longleftrightarrow> u < t"
  by (simp add: time_sub_def)

lemma time_sub_mono: "t \<le> t' \<Longrightarrow> time_sub t u \<le> time_sub t' u"
  by (simp add: time_sub_def sat64_mono)

lemma time_sub_antimono: "u \<le> u' \<Longrightarrow> time_sub t u' \<le> time_sub t u"
  by (simp add: time_sub_def sat64_mono)

text \<open>\<open>Time.Unix\<close>: whole seconds since 1970; the zero time is 62135596800 seconds earlier.\<close>

definition unix_seconds :: "instant \<Rightarrow> int" where
  "unix_seconds t = t div second - 62135596800"

section \<open>Decimal rendering\<close>

definition digit_char :: "nat \<Rightarrow> char" where
  "digit_char d = char_of (48 + d)"

fun show_nat :: "nat \<Rightarrow> string" where
  "show_nat n = (if n < 10 then [digit_char n] else show_nat (n div 10) @ [digit_char (n mod 10)])"

declare show_nat.simps [simp del]

definition show_int :: "int \<Rightarrow> string" where
  "show_int i = (if i < 0 then CHR ''-'' # show_nat (nat (- i)) else show_nat (nat i))"

definition read_digits :: "string \<Rightarrow> nat" where
  "read_digits s = foldl (\<lambda>n c. 10 * n + (of_char c - 48)) 0 s"

lemma of_char_digit: "d < 10 \<Longrightarrow> (of_char (digit_char d) :: nat) = 48 + d"
  by (simp add: digit_char_def of_char_of)

lemma read_show_nat: "read_digits (show_nat n) = n"
proof (induction n rule: show_nat.induct)
  case (1 n)
  show ?case
  proof (cases "n < 10")
    case True
    then show ?thesis by (simp add: show_nat.simps [of n] read_digits_def of_char_digit)
  next
    case False
    with "1.IH" show ?thesis
      by (simp add: show_nat.simps [of n] read_digits_def of_char_digit)
  qed
qed

lemma show_nat_first: "show_nat n \<noteq> [] \<and> hd (show_nat n) \<noteq> CHR ''-''"
proof (induction n rule: show_nat.induct)
  case (1 n)
  show ?case
  proof (cases "n < 10")
    case True
    have "digit_char n \<noteq> CHR ''-''"
    proof
      assume "digit_char n = CHR ''-''"
      then have "(of_char (digit_char n) :: nat) = of_char CHR ''-''" by simp
      with True show False by (simp add: of_char_digit)
    qed
    with True show ?thesis by (simp add: show_nat.simps [of n])
  next
    case False
    with "1.IH" show ?thesis by (simp add: show_nat.simps [of n] hd_append)
  qed
qed

lemma show_nat_inject: "show_nat m = show_nat n \<longleftrightarrow> m = n"
  by (metis read_show_nat)

lemma show_int_inject: "show_int i = show_int j \<longleftrightarrow> i = j"
proof
  assume eq: "show_int i = show_int j"
  have sign: "hd (show_int k) = CHR ''-'' \<longleftrightarrow> k < 0" for k
    using show_nat_first by (simp add: show_int_def)
  from eq sign [of i] sign [of j] have "i < 0 \<longleftrightarrow> j < 0" by simp
  with eq show "i = j" by (auto simp: show_int_def show_nat_inject split: if_splits)
qed simp

section \<open>Strings\<close>

text \<open>
  \<open>unicode.IsSpace\<close> runes in UTF-8. \<open>strings.TrimSpace\<close> removes them from both ends; the
  encodings are self-synchronising, so a suffix of the bytes is a space rune exactly when
  Go's backward decoding finds one there.
\<close>

definition bytes :: "nat list \<Rightarrow> string" where
  "bytes ns = map char_of ns"

definition space_runes :: "string list" where
  "space_runes =
     map (\<lambda>n. bytes [n]) [9, 10, 11, 12, 13, 32] @
     [bytes [194, 133], bytes [194, 160], bytes [225, 154, 128]] @
     map (\<lambda>n. bytes [226, 128, n]) [128, 129, 130, 131, 132, 133, 134, 135, 136, 137, 138, 168, 169, 175] @
     [bytes [226, 129, 159], bytes [227, 128, 128]]"

fun has_prefix :: "string \<Rightarrow> string \<Rightarrow> bool" where
  "has_prefix s [] = True"
| "has_prefix [] (p # ps) = False"
| "has_prefix (c # cs) (p # ps) = (c = p \<and> has_prefix cs ps)"

definition leading_space :: "string list \<Rightarrow> string \<Rightarrow> nat" where
  "leading_space runes s =
     (case filter (has_prefix s) runes of [] \<Rightarrow> 0 | r # _ \<Rightarrow> length r)"

function trim_left_runes :: "string list \<Rightarrow> string \<Rightarrow> string" where
  "trim_left_runes runes s =
     (if s = [] \<or> leading_space runes s = 0 then s
      else trim_left_runes runes (drop (leading_space runes s) s))"
  by pat_completeness auto
termination
  by (relation "measure (\<lambda>(runes, s). length s)") auto

declare trim_left_runes.simps [simp del]

definition trim_space :: "string \<Rightarrow> string" where
  "trim_space s =
     rev (trim_left_runes (map rev space_runes) (rev (trim_left_runes space_runes s)))"

definition blank :: "string \<Rightarrow> bool" where
  "blank s \<longleftrightarrow> trim_space s = []"

lemma blank_Nil [simp]: "blank []"
  by (simp add: blank_def trim_space_def trim_left_runes.simps)

text \<open>A string with a visible ASCII character is not blank: no space rune contains one.\<close>

definition graphic :: "char \<Rightarrow> bool" where
  "graphic c \<longleftrightarrow> 33 \<le> (of_char c :: nat) \<and> (of_char c :: nat) < 127"

lemma has_prefix_take: "has_prefix s r \<Longrightarrow> take (length r) s = r"
  by (induction s r rule: has_prefix.induct) auto

lemma leading_space_take:
  assumes "leading_space runes s \<noteq> 0"
  shows "take (leading_space runes s) s \<in> set runes"
proof (cases "filter (has_prefix s) runes")
  case Nil
  with assms show ?thesis by (simp add: leading_space_def)
next
  case (Cons r rs)
  then have "r \<in> set (filter (has_prefix s) runes)" by (metis list.set_intros(1))
  then have "has_prefix s r" and "r \<in> set runes" by auto
  with Cons show ?thesis by (simp add: leading_space_def has_prefix_take)
qed

lemma trim_left_keeps:
  "c \<in> set s \<Longrightarrow> (\<And>r. r \<in> set runes \<Longrightarrow> c \<notin> set r) \<Longrightarrow> c \<in> set (trim_left_runes runes s)"
proof (induction runes s rule: trim_left_runes.induct)
  case (1 runes s)
  let ?n = "leading_space runes s"
  show ?case
  proof (cases "s = [] \<or> ?n = 0")
    case True
    with "1.prems" show ?thesis by (simp add: trim_left_runes.simps [of runes s])
  next
    case False
    with "1.prems"(2) leading_space_take [of runes s] have "c \<notin> set (take ?n s)" by auto
    with "1.prems"(1) have "c \<in> set (drop ?n s)"
      by (metis Un_iff append_take_drop_id set_append)
    with "1.IH" "1.prems"(2) False show ?thesis by (simp add: trim_left_runes.simps [of runes s])
  qed
qed

lemma graphic_not_space_rune: "graphic c \<Longrightarrow> r \<in> set space_runes \<Longrightarrow> c \<notin> set r"
  by (auto simp: graphic_def space_runes_def bytes_def of_char_of)

lemma not_blank: "list_ex graphic s \<Longrightarrow> \<not> blank s"
proof -
  assume "list_ex graphic s"
  then obtain c where c: "c \<in> set s" "graphic c" by (auto simp: list_ex_iff)
  let ?t = "trim_left_runes space_runes s"
  have "c \<in> set ?t" using c graphic_not_space_rune by (intro trim_left_keeps) auto
  then have "c \<in> set (trim_left_runes (map rev space_runes) (rev ?t))"
    using c graphic_not_space_rune by (intro trim_left_keeps) auto
  then show ?thesis by (auto simp: blank_def trim_space_def)
qed

text \<open>A text between visible ASCII characters is trimmed already.\<close>

lemma trim_left_graphic:
  assumes "s \<noteq> []" and "\<And>r. r \<in> set spaces \<Longrightarrow> hd s \<notin> set r"
  shows "trim_left_runes spaces s = s"
proof -
  have "leading_space spaces s = 0"
  proof (rule ccontr)
    assume n: "leading_space spaces s \<noteq> 0"
    with assms(1) have "hd s \<in> set (take (leading_space spaces s) s)" by (cases s; cases "leading_space spaces s") auto
    with assms(2) leading_space_take [OF n] show False by blast
  qed
  then show ?thesis by (simp add: trim_left_runes.simps)
qed

lemma trim_space_graphic:
  assumes "s \<noteq> []" and "graphic (hd s)" and "graphic (last s)"
  shows "trim_space s = s"
proof -
  have "trim_left_runes space_runes s = s" using assms graphic_not_space_rune by (intro trim_left_graphic) auto
  moreover have "trim_left_runes (map rev space_runes) (rev s) = rev s"
    using assms graphic_not_space_rune by (intro trim_left_graphic) (auto simp: hd_rev)
  ultimately show ?thesis by (simp add: trim_space_def)
qed

text \<open>Code equations that decide the usual case first.\<close>

lemma graphic_code [code]:
  "graphic (Char b0 b1 b2 b3 b4 b5 b6 b7) \<longleftrightarrow>
     \<not> b7 \<and> (b6 \<or> b5 \<and> (b0 \<or> b1 \<or> b2 \<or> b3 \<or> b4)) \<and> \<not> (b0 \<and> b1 \<and> b2 \<and> b3 \<and> b4 \<and> b5 \<and> b6)"
  by (cases b0; cases b1; cases b2; cases b3; cases b4; cases b5; cases b6; cases b7) (simp_all add: graphic_def)

lemma trim_space_code [code]:
  "trim_space s = (if s \<noteq> [] \<and> graphic (hd s) \<and> graphic (last s) then s
     else rev (trim_left_runes (map rev space_runes) (rev (trim_left_runes space_runes s))))"
  using trim_space_graphic [of s] by (auto simp: trim_space_def)

text \<open>\<open>strings.Contains\<close>, \<open>strings.Split\<close> at one byte, \<open>strings.Join\<close>, and the ASCII part of
  \<open>strings.ToLower\<close>.\<close>

fun contains_str :: "string \<Rightarrow> string \<Rightarrow> bool" where
  "contains_str [] p = (p = [])"
| "contains_str (c # cs) p = (has_prefix (c # cs) p \<or> contains_str cs p)"

fun split_at :: "char \<Rightarrow> string \<Rightarrow> string list" where
  "split_at d [] = [[]]"
| "split_at d (c # cs) =
     (if c = d then [] # split_at d cs
      else (case split_at d cs of [] \<Rightarrow> [[c]] | w # ws \<Rightarrow> (c # w) # ws))"

fun join_with :: "char \<Rightarrow> string list \<Rightarrow> string" where
  "join_with d [] = []"
| "join_with d [w] = w"
| "join_with d (w # v # ws) = w @ d # join_with d (v # ws)"

definition lower_char :: "char \<Rightarrow> char" where
  "lower_char c = (if 65 \<le> (of_char c :: nat) \<and> (of_char c :: nat) \<le> 90
                   then char_of ((of_char c :: nat) + 32) else c)"

definition to_lower :: "string \<Rightarrow> string" where
  "to_lower s = map lower_char s"

lemma split_at_ne [simp]: "split_at d s \<noteq> []"
  by (induction s) (auto split: list.splits)

lemma join_split: "join_with d (split_at d s) = s"
proof (induction s)
  case (Cons c cs)
  then show ?case
    by (cases "split_at d cs"; cases "tl (split_at d cs)") auto
qed simp

lemma split_at_word: "d \<notin> set w \<Longrightarrow> split_at d w = [w]"
  by (induction w) auto

lemma split_at_append: "d \<notin> set w \<Longrightarrow> split_at d (w @ d # s) = w # split_at d s"
  by (induction w) auto

lemma split_join:
  "ws \<noteq> [] \<Longrightarrow> (\<And>w. w \<in> set ws \<Longrightarrow> d \<notin> set w) \<Longrightarrow> split_at d (join_with d ws) = ws"
  by (induction d ws rule: join_with.induct) (auto simp: split_at_word split_at_append)

section \<open>Sorting by a comparison function\<close>

fun insert_less :: "('a \<Rightarrow> 'a \<Rightarrow> bool) \<Rightarrow> 'a \<Rightarrow> 'a list \<Rightarrow> 'a list" where
  "insert_less lt x [] = [x]"
| "insert_less lt x (y # ys) = (if lt y x then y # insert_less lt x ys else x # y # ys)"

fun sort_less :: "('a \<Rightarrow> 'a \<Rightarrow> bool) \<Rightarrow> 'a list \<Rightarrow> 'a list" where
  "sort_less lt [] = []"
| "sort_less lt (x # xs) = insert_less lt x (sort_less lt xs)"

lemma mset_insert_less: "mset (insert_less lt x ys) = add_mset x (mset ys)"
  by (induction ys) auto

lemma mset_sort_less [simp]: "mset (sort_less lt xs) = mset xs"
  by (induction xs) (auto simp: mset_insert_less)

lemma set_insert_less [simp]: "set (insert_less lt x ys) = insert x (set ys)"
  by (induction ys) auto

lemma set_sort_less [simp]: "set (sort_less lt xs) = set xs"
  by (induction xs) auto

lemma length_sort_less [simp]: "length (sort_less lt xs) = length xs"
  using mset_sort_less [of lt xs] by (metis size_mset)

lemma distinct_sort_less [simp]: "distinct (sort_less lt xs) \<longleftrightarrow> distinct xs"
  by (metis mset_sort_less mset_eq_imp_distinct_iff)

lemma sort_less_Nil_iff [simp]: "sort_less lt xs = [] \<longleftrightarrow> xs = []"
  by (metis length_0_conv length_sort_less)

text \<open>
  What Go's sort functions ask of a comparison: irreflexivity, transitivity, and
  transitivity of "neither is less". Every comparison of the code is an instance.
\<close>

locale strict_weak_order =
  fixes lt :: "'a \<Rightarrow> 'a \<Rightarrow> bool"
  assumes irrefl: "\<not> lt x x"
    and trans: "lt x y \<Longrightarrow> lt y z \<Longrightarrow> lt x z"
    and weak: "lt x z \<Longrightarrow> lt x y \<or> lt y z"
begin

lemma asym: "lt x y \<Longrightarrow> \<not> lt y x"
  using irrefl trans by blast

lemma sorted_insert:
  "sorted_wrt (\<lambda>a b. \<not> lt b a) ys \<Longrightarrow> sorted_wrt (\<lambda>a b. \<not> lt b a) (insert_less lt x ys)"
proof (induction ys)
  case (Cons y ys)
  show ?case
  proof (cases "lt y x")
    case True
    with Cons show ?thesis using asym by auto
  next
    case False
    with Cons.prems show ?thesis using weak by auto
  qed
qed simp

lemma sorted_sort: "sorted_wrt (\<lambda>a b. \<not> lt b a) (sort_less lt xs)"
  by (induction xs) (auto simp: sorted_insert)

text \<open>Elements that the comparison cannot tell apart keep their order.\<close>

lemma insert_other: "\<not> P x \<Longrightarrow> filter P (insert_less lt x ys) = filter P ys"
  by (induction ys) auto

lemma insert_stable:
  assumes "\<And>y. P y \<longleftrightarrow> \<not> lt x y \<and> \<not> lt y x" and "sorted_wrt (\<lambda>a b. \<not> lt b a) ys"
  shows "filter P (insert_less lt x ys) = x # filter P ys"
  using assms(2) by (induction ys) (use assms(1) irrefl in auto)

end

text \<open>
  A comparison that also separates distinct elements of a list: its sorted form is unique,
  so the result does not depend on the order in which the code met the elements.
\<close>

lemma sorted_wrt_unique:
  assumes "\<And>x y. x \<in> set xs \<Longrightarrow> y \<in> set xs \<Longrightarrow> \<not> lt x y \<Longrightarrow> \<not> lt y x \<Longrightarrow> x = y"
    and "sorted_wrt (\<lambda>a b. \<not> lt b a) xs" and "sorted_wrt (\<lambda>a b. \<not> lt b a) ys"
    and "mset xs = mset ys"
  shows "xs = ys"
  using assms
proof (induction xs arbitrary: ys)
  case Nil
  then show ?case by simp
next
  case (Cons x xs)
  from Cons.prems(4) obtain y zs where ys: "ys = y # zs"
    by (cases ys) auto
  from Cons.prems(4) have set_eq: "set (x # xs) = set ys"
    by (metis set_mset_mset)
  have "x = y"
  proof (rule ccontr)
    assume ne: "x \<noteq> y"
    with set_eq ys have "x \<in> set zs" and "y \<in> set xs" by auto
    with Cons.prems(2,3) ys have "\<not> lt y x" and "\<not> lt x y" by auto
    with Cons.prems(1) [of x y] \<open>y \<in> set xs\<close> ne show False by auto
  qed
  moreover have "xs = zs"
    using Cons.prems \<open>x = y\<close> by (intro Cons.IH) (auto simp: ys)
  ultimately show ?case by (simp add: ys)
qed

context strict_weak_order
begin

lemma sort_unique:
  assumes "\<And>x y. x \<in> set xs \<Longrightarrow> y \<in> set xs \<Longrightarrow> \<not> lt x y \<Longrightarrow> \<not> lt y x \<Longrightarrow> x = y"
    and "mset xs = mset ys"
  shows "sort_less lt xs = sort_less lt ys"
  by (rule sorted_wrt_unique [where lt = lt]) (use assms sorted_sort in auto)

end

text \<open>The comparisons of the code compare one key, or one key and then the rest.\<close>

lemma strict_weak_order_key: "strict_weak_order (\<lambda>a b. f a < (f b :: 'b::linorder))"
  by unfold_locales auto

lemma strict_weak_order_then:
  fixes f :: "'a \<Rightarrow> 'b::linorder"
  assumes "strict_weak_order lt"
  shows "strict_weak_order (\<lambda>a b. if f a \<noteq> f b then f a < f b else lt a b)"
proof -
  have lt: "\<not> lt x x" "lt x y \<Longrightarrow> lt y z \<Longrightarrow> lt x z" "lt x z \<Longrightarrow> lt x y \<or> lt y z" for x y z
    using assms by (auto simp: strict_weak_order_def)
  show ?thesis
  proof
    fix x y z
    show "\<not> (if f x \<noteq> f x then f x < f x else lt x x)" using lt(1) by simp
    show "(if f x \<noteq> f y then f x < f y else lt x y) \<Longrightarrow> (if f y \<noteq> f z then f y < f z else lt y z)
        \<Longrightarrow> (if f x \<noteq> f z then f x < f z else lt x z)"
      using lt(2) [of x y z] by (auto split: if_splits)
    show "(if f x \<noteq> f z then f x < f z else lt x z)
        \<Longrightarrow> (if f x \<noteq> f y then f x < f y else lt x y) \<or> (if f y \<noteq> f z then f y < f z else lt y z)"
      using lt(3) [of x z y] by (cases "f x" "f y" rule: linorder_cases; cases "f y" "f z" rule: linorder_cases) auto
  qed
qed

interpretation linear_less: strict_weak_order "(<) :: 'a::linorder \<Rightarrow> 'a \<Rightarrow> bool"
  by unfold_locales auto

abbreviation sort_strings :: "string list \<Rightarrow> string list" where
  "sort_strings \<equiv> sort_less (<)"

lemma sort_strings_unique: "mset xs = mset ys \<Longrightarrow> sort_strings xs = sort_strings ys"
  by (rule linear_less.sort_unique) auto

section \<open>Errors\<close>

text \<open>
  An \<open>error\<close> built by \<open>fmt.Errorf\<close> or \<open>errors.New\<close>, kept as its format and the rendered
  arguments. An operation that returns only an \<open>error\<close> is an \<open>go_error option\<close>
  (\<open>None\<close> for nil), one that returns a value as well a sum.
\<close>

datatype go_error = Errorf string "string list"

type_synonym 'a go_result = "go_error + 'a"

section \<open>Lists and maps\<close>

lemma find_None_iff_all: "find P xs = None \<longleftrightarrow> (\<forall>x \<in> set xs. \<not> P x)"
  by (induction xs) auto

lemma find_SomeD: "find P xs = Some x \<Longrightarrow> x \<in> set xs \<and> P x"
  by (induction xs) (auto split: if_splits)

lemma list_ex_eq: "list_ex P xs \<longleftrightarrow> (\<exists>x \<in> set xs. P x)"
  by (induction xs) auto

lemma list_all_eq: "list_all P xs \<longleftrightarrow> (\<forall>x \<in> set xs. P x)"
  by (induction xs) auto

lemma last_in_set_ne: "xs \<noteq> [] \<Longrightarrow> last xs \<in> set xs"
  by simp

end
