(* ===== verification/SupervisionTypes.thy ===== *)
theory SupervisionTypes
  imports GoPrelude
begin

text \<open>
  The durable records of campaign supervision (\<open>internal/domain/supervision.go\<close>, first half,
  and the recovery configuration of \<open>internal/domain/recovery.go\<close>): actors, configuration,
  the supervision record, gates, holds, activations and incidents, with the predicates and
  validators defined on them.

  A Go type \<open>type X string\<close> with declared constants is a datatype with one constructor per
  constant, a constructor for the empty string where the code tests it, and a last
  constructor for any other text. Field names carry the record's name, since Isabelle
  records share one name space.
\<close>

section \<open>Guard errors and bounds\<close>

text \<open>The sentinels a caller distinguishes with \<open>errors.Is\<close>; the message text is left out.\<close>

datatype sup_error =
    ErrSupervisionStaleRevision
  | ErrSupervisionPrerequisite
  | ErrSupervisionUnauthorizedActor
  | ErrSupervisionBudgetExhausted
  | ErrSupervisionTerminal
  | ErrSupervisionIllegalTransition

definition MaxSupervisionActivations :: int where
  "MaxSupervisionActivations = 100"

definition MaxSupervisionTurnsPerActivation :: int where
  "MaxSupervisionTurnsPerActivation = 20"

definition MaxSupervisionActivationDeadline :: duration where
  "MaxSupervisionActivationDeadline = 24 * hour"

definition MaxSupervisionIdleEscalation :: duration where
  "MaxSupervisionIdleEscalation = 30 * 24 * hour"

definition MaxAutoRecoveredActivationsPerIncident :: int where
  "MaxAutoRecoveredActivationsPerIncident = 2"

lemmas supervision_bounds = MaxSupervisionActivations_def MaxSupervisionTurnsPerActivation_def
  MaxSupervisionActivationDeadline_def MaxSupervisionIdleEscalation_def duration_defs

section \<open>Actors\<close>

datatype ActorKind = ActorOverseer | ActorOperator | ActorKindOther string

record Actor =
  Actor_Kind :: ActorKind
  Actor_Principal :: string
  Actor_ActivationEpoch :: int64

definition Actor_SameIdentity :: "Actor \<Rightarrow> Actor \<Rightarrow> bool" where
  "Actor_SameIdentity a other =
     (if Actor_Kind a \<noteq> Actor_Kind other \<or> Actor_Principal a \<noteq> Actor_Principal other then False
      else if Actor_Kind a = ActorOverseer
      then Actor_ActivationEpoch a = Actor_ActivationEpoch other
      else True)"

definition Actor_Validate :: "Actor \<Rightarrow> sup_error option" where
  "Actor_Validate a =
     (case Actor_Kind a of
        ActorKindOther _ \<Rightarrow> Some ErrSupervisionUnauthorizedActor
      | _ \<Rightarrow> if blank (Actor_Principal a) then Some ErrSupervisionUnauthorizedActor else None)"

lemma Actor_Validate_None:
  "Actor_Validate a = None \<longleftrightarrow>
     Actor_Kind a \<in> {ActorOverseer, ActorOperator} \<and> \<not> blank (Actor_Principal a)"
  by (auto simp: Actor_Validate_def split: ActorKind.splits)

lemma Actor_Validate_Some:
  "Actor_Validate a = Some e \<Longrightarrow> e = ErrSupervisionUnauthorizedActor"
  by (auto simp: Actor_Validate_def split: ActorKind.splits if_splits)

section \<open>Configuration\<close>

record ProviderRoute =
  Route_WorkerID :: string
  Route_ProviderInstanceID :: string
  Route_Model :: string
  Route_Options :: "(string \<times> string) list"
  Route_QuotaPoolID :: string

record SupervisionEscalation =
  Escalation_NotifyThread :: bool
  Escalation_ThreadID :: string

definition RecoveryContractV1 :: string where
  "RecoveryContractV1 = ''recovery-v1''"

definition MaxRecoveryAttemptsPerIncident :: int where
  "MaxRecoveryAttemptsPerIncident = 20"

definition MaxRecoveryIncidentDeadline :: duration where
  "MaxRecoveryIncidentDeadline = 7 * 24 * hour"

definition MaxRecoveryStalledAfter :: duration where
  "MaxRecoveryStalledAfter = 24 * hour"

record RecoveryConfig =
  Recovery_Version :: string
  Recovery_Route :: ProviderRoute
  Recovery_PromptArtifactID :: string
  Recovery_MaxAttemptsPerIncident :: int
  Recovery_IncidentDeadline :: duration
  Recovery_StalledAfter :: duration

definition RecoveryConfig_Validate :: "RecoveryConfig \<Rightarrow> go_error option" where
  "RecoveryConfig_Validate c =
     (if Recovery_Version c \<noteq> RecoveryContractV1
      then Some (Errorf ''recovery version must be %q'' [RecoveryContractV1])
      else if blank (Route_ProviderInstanceID (Recovery_Route c)) \<or> blank (Route_Model (Recovery_Route c))
      then Some (Errorf ''recovery needs one route with a provider instance and a model'' [])
      else if blank (Recovery_PromptArtifactID c)
      then Some (Errorf ''recovery needs a repair prompt artifact'' [])
      else if Recovery_MaxAttemptsPerIncident c \<le> 0
            \<or> Recovery_MaxAttemptsPerIncident c > MaxRecoveryAttemptsPerIncident
      then Some (Errorf ''recovery needs max attempts per incident above zero and at most %d''
                   [show_int MaxRecoveryAttemptsPerIncident])
      else if Recovery_IncidentDeadline c \<le> 0
            \<or> Recovery_IncidentDeadline c > MaxRecoveryIncidentDeadline
      then Some (Errorf ''recovery needs an incident deadline above zero and at most %s'' [''168h0m0s''])
      else if Recovery_StalledAfter c \<le> 0 \<or> Recovery_StalledAfter c > MaxRecoveryStalledAfter
      then Some (Errorf ''recovery needs stalled after above zero and at most %s'' [''24h0m0s''])
      else if Recovery_StalledAfter c > Recovery_IncidentDeadline c
      then Some (Errorf ''recovery stalled after cannot exceed its incident deadline'' [])
      else None)"

record SupervisionConfig =
  Config_Route :: ProviderRoute
  Config_PromptArtifactID :: string
  Config_MaxActivations :: int
  Config_MaxTurnsPerActivation :: int
  Config_ActivationDeadline :: duration
  Config_IdleEscalationAfter :: duration
  Config_Escalation :: SupervisionEscalation
  Config_Recovery :: "RecoveryConfig option"

definition SupervisionConfig_Validate :: "SupervisionConfig \<Rightarrow> go_error option" where
  "SupervisionConfig_Validate c =
     (if blank (Route_ProviderInstanceID (Config_Route c)) \<or> blank (Route_Model (Config_Route c))
      then Some (Errorf ''supervision needs one route with a provider instance and a model'' [])
      else if blank (Config_PromptArtifactID c)
      then Some (Errorf ''supervision needs an overseer prompt artifact'' [])
      else if Config_MaxActivations c \<le> 0 \<or> Config_MaxActivations c > MaxSupervisionActivations
      then Some (Errorf ''supervision needs max activations above zero and at most %d''
                   [show_int MaxSupervisionActivations])
      else if Config_MaxTurnsPerActivation c \<le> 0
            \<or> Config_MaxTurnsPerActivation c > MaxSupervisionTurnsPerActivation
      then Some (Errorf ''supervision needs max turns per activation above zero and at most %d''
                   [show_int MaxSupervisionTurnsPerActivation])
      else if Config_ActivationDeadline c \<le> 0
            \<or> Config_ActivationDeadline c > MaxSupervisionActivationDeadline
      then Some (Errorf ''supervision needs an activation deadline above zero and at most %s'' [''24h0m0s''])
      else if Config_IdleEscalationAfter c < 0
            \<or> Config_IdleEscalationAfter c > MaxSupervisionIdleEscalation
      then Some (Errorf ''supervision needs an idle escalation of at most %s'' [''720h0m0s''])
      else (case Config_Recovery c of Some r \<Rightarrow> RecoveryConfig_Validate r | None \<Rightarrow> None))"

record SupervisionClosure =
  Closure_CommandID :: string
  Closure_Actor :: Actor
  Closure_ClosedAt :: instant

record SupervisionRecord =
  Record_RunID :: string
  Record_Config :: SupervisionConfig
  Record_EventCursor :: int64
  Record_ActivationEpoch :: int64
  Record_ActivationsUsed :: int
  Record_BudgetGrantedActivations :: int
  Record_Revision :: int64
  Record_CreatedAt :: instant
  Record_UpdatedAt :: instant
  Record_ClosedByCancel :: "SupervisionClosure option"

definition ActivationBudgetRemaining :: "SupervisionRecord \<Rightarrow> bool" where
  "ActivationBudgetRemaining r =
     (let budget = (if Record_BudgetGrantedActivations r \<le> 0
                    then Config_MaxActivations (Record_Config r)
                    else Record_BudgetGrantedActivations r)
      in Record_ActivationsUsed r < budget)"

section \<open>Evidence and gates\<close>

record ArtifactDigest =
  ArtifactDigest_ArtifactID :: string
  ArtifactDigest_Digest :: string

record CommitIdentity =
  CommitIdentity_Repository :: string
  CommitIdentity_Commit :: string

record ProducerEvidence =
  Producer_TaskID :: string
  Producer_AttemptID :: string
  Producer_ResultRevision :: int64
  Producer_ArtifactDigests :: "ArtifactDigest list"
  Producer_CommitIdentities :: "CommitIdentity list"

record EvidenceSnapshot =
  Evidence_ID :: string
  Evidence_GraphRevision :: int64
  Evidence_Producers :: "ProducerEvidence list"
  Evidence_TakenAt :: instant

datatype GateState =
    GateStateEmpty
  | GatePendingEvidence
  | GateReadyForReview
  | GateAccepted
  | GateHeld
  | GateEscalated
  | GateCancelled
  | GateStateOther string

fun GateState_text :: "GateState \<Rightarrow> string" where
  "GateState_text GateStateEmpty = ''''"
| "GateState_text GatePendingEvidence = ''pending-evidence''"
| "GateState_text GateReadyForReview = ''ready-for-review''"
| "GateState_text GateAccepted = ''accepted''"
| "GateState_text GateHeld = ''held''"
| "GateState_text GateEscalated = ''escalated''"
| "GateState_text GateCancelled = ''cancelled''"
| "GateState_text (GateStateOther s) = s"

record GateDefinition =
  GateDef_ID :: string
  GateDef_Name :: string
  GateDef_ObservedTaskIDs :: "string list"
  GateDef_ProtectedTaskIDs :: "string list"
  GateDef_RubricArtifactID :: string
  GateDef_Final :: bool

fun containsID :: "string list \<Rightarrow> string \<Rightarrow> bool" where
  "containsID [] i = False"
| "containsID (candidate # ids) i = (candidate = i \<or> containsID ids i)"

lemma containsID_iff [simp]: "containsID ids i \<longleftrightarrow> i \<in> set ids"
  by (induction ids) auto

definition GateDefinition_Validate :: "GateDefinition \<Rightarrow> go_error option" where
  "GateDefinition_Validate d =
     (if blank (GateDef_ID d) \<or> blank (GateDef_Name d)
      then Some (Errorf ''gate needs an id and a name'' [])
      else if GateDef_ObservedTaskIDs d = []
      then Some (Errorf ''gate needs at least one observed task'' [])
      else if GateDef_Final d \<and> GateDef_ProtectedTaskIDs d \<noteq> []
      then Some (Errorf ''a final-settlement gate protects no downstream task'' [])
      else if \<not> GateDef_Final d \<and> GateDef_ProtectedTaskIDs d = []
      then Some (Errorf ''gate protects no task and is not marked final'' [])
      else (case find (\<lambda>observed. list_ex (\<lambda>protected. observed = protected) (GateDef_ProtectedTaskIDs d))
                   (GateDef_ObservedTaskIDs d) of
              Some observed \<Rightarrow> Some (Errorf ''gate observes and protects the same task %q'' [observed])
            | None \<Rightarrow> None))"

definition GateDefinition_Observes :: "GateDefinition \<Rightarrow> string \<Rightarrow> bool" where
  "GateDefinition_Observes d taskID = containsID (GateDef_ObservedTaskIDs d) taskID"

definition GateDefinition_Protects :: "GateDefinition \<Rightarrow> string \<Rightarrow> bool" where
  "GateDefinition_Protects d taskID = containsID (GateDef_ProtectedTaskIDs d) taskID"

record Gate =
  Gate_Definition :: GateDefinition
  Gate_RunID :: string
  Gate_State :: GateState
  Gate_GraphRevision :: int64
  Gate_EvidenceSnapshotID :: string
  Gate_Revision :: int64
  Gate_UpdatedAt :: instant

datatype GateDecisionOutcome =
  GateDecisionAccept | GateDecisionReject | GateDecisionCancel | GateDecisionOutcomeOther string

record GateDecision =
  Decision_ID :: string
  Decision_RunID :: string
  Decision_GateID :: string
  Decision_Actor :: Actor
  Decision_ActivationEpoch :: int64
  Decision_GraphRevision :: int64
  Decision_Evidence :: EvidenceSnapshot
  Decision_Outcome :: GateDecisionOutcome
  Decision_RequestID :: string
  Decision_Reason :: string
  Decision_IncidentID :: string
  Decision_DecidedAt :: instant

section \<open>Holds\<close>

datatype HoldScopeKind = HoldScopeRun | HoldScopeBranch | HoldScopeKindOther string

record HoldScope =
  Scope_Kind :: HoldScopeKind
  Scope_BranchRootTaskID :: string

datatype HoldState = HoldStateEmpty | HoldActive | HoldReleased | HoldStateOther string

record Hold =
  Hold_ID :: string
  Hold_RunID :: string
  Hold_Scope :: HoldScope
  Hold_Owner :: Actor
  Hold_GraphRevision :: int64
  Hold_ResolvedTaskIDs :: "string list"
  Hold_State :: HoldState
  Hold_Reason :: string
  Hold_CreatedAt :: instant
  Hold_ReleasedAt :: "instant option"

definition Hold_Covers :: "Hold \<Rightarrow> string \<Rightarrow> bool" where
  "Hold_Covers h taskID =
     (if Hold_State h \<noteq> HoldActive then False
      else if Scope_Kind (Hold_Scope h) = HoldScopeRun then True
      else containsID (Hold_ResolvedTaskIDs h) taskID)"

section \<open>Activations\<close>

datatype ActivationState =
    ActivationStateEmpty
  | ActivationIdle
  | ActivationPendingDispatch
  | ActivationActive
  | ActivationSpent
  | ActivationRevoked
  | ActivationRecoveryRequired
  | ActivationEscalated
  | ActivationClosed
  | ActivationStateOther string

datatype ActivationOutcome =
    ActivationOutcomeNone
  | ActivationOutcomeDecided
  | ActivationOutcomeNoDecision
  | ActivationOutcomeExpired
  | ActivationOutcomeRevoked
  | ActivationOutcomeClosed
  | ActivationOutcomeDecidedByOperator
  | ActivationOutcomeOther string

definition RecoveryActivationRepair :: string where
  "RecoveryActivationRepair = ''repair''"

record Activation =
  Activation_ID :: string
  Activation_RunID :: string
  Activation_Epoch :: int64
  Activation_Purpose :: string
  Activation_GraphRevision :: int64
  Activation_DispatchIdentity :: string
  Activation_ReadyAt :: instant
  Activation_ReadyTieID :: string
  Activation_Principal :: string
  Activation_State :: ActivationState
  Activation_LeaseToken :: string
  Activation_LeaseExpiresAt :: "instant option"
  Activation_Deadline :: "instant option"
  Activation_IncidentID :: string
  Activation_TurnsUsed :: int
  Activation_RecoveredCount :: int
  Activation_OperatorDecisions :: int
  Activation_ConsumedEventCursor :: int64
  Activation_Outcome :: ActivationOutcome
  Activation_StartedAt :: "instant option"
  Activation_ClosedAt :: "instant option"

section \<open>Incidents\<close>

datatype IncidentState =
  IncidentStateEmpty | IncidentOpen | IncidentEscalated | IncidentResolved | IncidentStateOther string

datatype IncidentDisposition =
    DispositionGateDecision
  | DispositionConcludeFailure
  | DispositionOperatorAction
  | DispositionOther string

datatype IncidentOutcome =
    IncidentOutcomeGateAccepted
  | IncidentOutcomeConcludeFailure
  | IncidentOutcomeRemediated
  | IncidentOutcomeCancelled
  | IncidentOutcomeOther string

record ResolutionReceipt =
  Resolution_Actor :: Actor
  Resolution_Outcome :: IncidentOutcome
  Resolution_EvidenceSnapshotID :: string
  Resolution_ExpectedRevision :: int64
  Resolution_RequestID :: string
  Resolution_Reason :: string
  Resolution_ResolvedAt :: instant

datatype RecoveryState =
    RecoveryPendingDispatch
  | RecoveryRecovering
  | RecoveryExpectedWait
  | RecoveryNeedsHuman
  | RecoveryResolved
  | RecoveryStateOther string

datatype RecoveryNextAction =
    RecoveryDispatchRepair
  | RecoveryAwaitCapacity
  | RecoveryEscalateHuman
  | RecoveryNoAction
  | RecoveryNextActionOther string

record RecoveryOwner =
  RecoveryOwner_Role :: string
  RecoveryOwner_Route :: ProviderRoute
  RecoveryOwner_PromptArtifactID :: string

record RecoveryDiagnosticIdentity =
  Diagnostic_FailureFingerprint :: string
  Diagnostic_EvidenceFingerprint :: string
  Diagnostic_StrategyFingerprint :: string

record RecoveryIncident =
  RecIncident_Contract :: string
  RecIncident_Purpose :: string
  RecIncident_Owner :: RecoveryOwner
  RecIncident_State :: RecoveryState
  RecIncident_NextAction :: RecoveryNextAction
  RecIncident_AttemptBudget :: int
  RecIncident_AttemptsUsed :: int
  RecIncident_Deadline :: instant
  RecIncident_LastProgressAt :: instant
  RecIncident_RootDiagnostic :: RecoveryDiagnosticIdentity
  RecIncident_Diagnostic :: RecoveryDiagnosticIdentity
  RecIncident_CurrentAttemptID :: string
  RecIncident_ExhaustionReason :: string
  RecIncident_WaitReason :: string
  RecIncident_NextAttemptAt :: "instant option"

definition NewRecoveryIncident ::
  "RecoveryConfig \<Rightarrow> RecoveryDiagnosticIdentity \<Rightarrow> instant \<Rightarrow> RecoveryIncident" where
  "NewRecoveryIncident config diagnostic now =
     \<lparr>RecIncident_Contract = RecoveryContractV1,
      RecIncident_Purpose = RecoveryActivationRepair,
      RecIncident_Owner = \<lparr>RecoveryOwner_Role = ''repair-executor'',
                           RecoveryOwner_Route = Recovery_Route config,
                           RecoveryOwner_PromptArtifactID = Recovery_PromptArtifactID config\<rparr>,
      RecIncident_State = RecoveryPendingDispatch,
      RecIncident_NextAction = RecoveryDispatchRepair,
      RecIncident_AttemptBudget = Recovery_MaxAttemptsPerIncident config,
      RecIncident_AttemptsUsed = 0,
      RecIncident_Deadline = time_add now (Recovery_IncidentDeadline config),
      RecIncident_LastProgressAt = now,
      RecIncident_RootDiagnostic = diagnostic,
      RecIncident_Diagnostic = diagnostic,
      RecIncident_CurrentAttemptID = '''',
      RecIncident_ExhaustionReason = '''',
      RecIncident_WaitReason = '''',
      RecIncident_NextAttemptAt = None\<rparr>"

record ReviewIncident =
  Incident_ID :: string
  Incident_RunID :: string
  Incident_SourceEventID :: string
  Incident_SourceTaskID :: string
  Incident_SourceAttemptID :: string
  Incident_GateID :: string
  Incident_Revision :: int64
  Incident_RequiredDisposition :: IncidentDisposition
  Incident_State :: IncidentState
  Incident_Reason :: string
  Incident_Resolution :: "ResolutionReceipt option"
  Incident_OpenedAt :: instant
  Incident_Recovery :: "RecoveryIncident option"

section \<open>Lemmas\<close>

lemma Actor_SameIdentity_refl [simp]: "Actor_SameIdentity a a"
  by (simp add: Actor_SameIdentity_def)

lemma Actor_SameIdentity_kind: "Actor_SameIdentity a b \<Longrightarrow> Actor_Kind a = Actor_Kind b"
  by (simp add: Actor_SameIdentity_def split: if_splits)

lemma Hold_Covers_iff:
  "Hold_Covers h t \<longleftrightarrow>
     Hold_State h = HoldActive \<and>
     (Scope_Kind (Hold_Scope h) = HoldScopeRun \<or> t \<in> set (Hold_ResolvedTaskIDs h))"
  by (simp add: Hold_Covers_def)

text \<open>A valid gate observes something, protects exactly when it is not final, and never
  protects a task it reviews.\<close>

lemma GateDefinition_Validate_None:
  "GateDefinition_Validate d = None \<longleftrightarrow>
     \<not> blank (GateDef_ID d) \<and> \<not> blank (GateDef_Name d) \<and> GateDef_ObservedTaskIDs d \<noteq> [] \<and>
     (GateDef_Final d \<longleftrightarrow> GateDef_ProtectedTaskIDs d = []) \<and>
     set (GateDef_ObservedTaskIDs d) \<inter> set (GateDef_ProtectedTaskIDs d) = {}"
  by (auto simp: GateDefinition_Validate_def find_None_iff_all list_ex_eq split: option.splits
           dest: find_SomeD)

lemma SupervisionConfig_Validate_bounds:
  "SupervisionConfig_Validate c = None \<Longrightarrow>
     0 < Config_MaxActivations c \<and> Config_MaxActivations c \<le> 100 \<and>
     0 < Config_MaxTurnsPerActivation c \<and> Config_MaxTurnsPerActivation c \<le> 20 \<and>
     0 < Config_ActivationDeadline c \<and> Config_ActivationDeadline c \<le> 24 * hour"
  by (auto simp: SupervisionConfig_Validate_def supervision_bounds split: if_splits)

end
