(* ===== verification/SupervisionMachines.thy ===== *)
theory SupervisionMachines
  imports SupervisionTypes
begin

text \<open>
  The four supervision state machines of \<open>internal/domain/supervision.go\<close> (\<open>GateTransition\<close>,
  \<open>HoldTransition\<close>, \<open>ActivationTransition\<close>, \<open>IncidentTransition\<close>), each a total function from an
  input record to a guard error or the next state, and the authority rule of
  \<open>internal/domain/supervision_authority.go\<close>.

  The transition tables of the design document (\<open>docs/plans/campaign-supervision-seams.md\<close>,
  section 3) are the abstract specification: \<open>gate_row\<close>, \<open>hold_row\<close>, \<open>activation_row\<close> and
  \<open>incident_row\<close> are inductive relations with one rule per row. The locale
  \<open>guarded_machine\<close> is what the four machines have in common, and its lemmas on sequences of
  requests are obtained for each machine by interpretation.
\<close>

section \<open>The machines as the code has them\<close>

subsection \<open>Gates\<close>

datatype GateEvent =
    GateEventProducersSucceeded
  | GateEventProducerNotSucceeded
  | GateEventAccept
  | GateEventReject
  | GateEventReviewDeadlineExpired
  | GateEventProducerReplaced
  | GateEventActivationBudgetExhausted
  | GateEventAmendmentTouchesScope
  | GateEventAmendmentOutsideScope
  | GateEventReconsider
  | GateEventNewProducerEvidence
  | GateEventRunCancelled
  | GateEventOther string

record GateTransitionInput =
  GateIn_Gate :: Gate
  GateIn_Event :: GateEvent
  GateIn_Actor :: Actor
  GateIn_ExpectedGraphRevision :: int64
  GateIn_EvidenceMatches :: bool
  GateIn_ProducersVerified :: bool
  GateIn_SuccessorOfferedOrStarted :: bool
  GateIn_FreshSnapshot :: bool
  GateIn_RevalidationReceiptID :: string
  GateIn_SinkSettled :: bool

definition GateTransition :: "GateTransitionInput \<Rightarrow> sup_error + GateState" where
  "GateTransition i =
     (let state = (if Gate_State (GateIn_Gate i) = GateStateEmpty then GatePendingEvidence
                   else Gate_State (GateIn_Gate i));
          event = GateIn_Event i in
      if GateIn_SinkSettled i then Inl ErrSupervisionTerminal
      else if state = GateCancelled then Inl ErrSupervisionTerminal
      else if event = GateEventRunCancelled then Inr GateCancelled
      else (case state of
        GatePendingEvidence \<Rightarrow>
          (case event of
             GateEventProducersSucceeded \<Rightarrow>
               if \<not> GateIn_ProducersVerified i then Inl ErrSupervisionPrerequisite
               else Inr GateReadyForReview
           | GateEventProducerNotSucceeded \<Rightarrow> Inr GatePendingEvidence
           | GateEventAccept \<Rightarrow> Inl ErrSupervisionPrerequisite
           | GateEventReject \<Rightarrow> Inl ErrSupervisionPrerequisite
           | _ \<Rightarrow> Inl ErrSupervisionIllegalTransition)
      | GateReadyForReview \<Rightarrow>
          if event = GateEventAccept \<or> event = GateEventReject
          then (case Actor_Validate (GateIn_Actor i) of
                  Some err \<Rightarrow> Inl err
                | None \<Rightarrow>
                    if GateIn_ExpectedGraphRevision i \<noteq> Gate_GraphRevision (GateIn_Gate i)
                    then Inl ErrSupervisionStaleRevision
                    else if \<not> GateIn_EvidenceMatches i then Inl ErrSupervisionStaleRevision
                    else if event = GateEventAccept then Inr GateAccepted
                    else Inr GateHeld)
          else (case event of
                  GateEventReviewDeadlineExpired \<Rightarrow> Inr GateEscalated
                | GateEventActivationBudgetExhausted \<Rightarrow> Inr GateEscalated
                | GateEventProducerReplaced \<Rightarrow> Inr GatePendingEvidence
                | _ \<Rightarrow> Inl ErrSupervisionIllegalTransition)
      | GateAccepted \<Rightarrow>
          (case event of
             GateEventProducerReplaced \<Rightarrow>
               if GateIn_SuccessorOfferedOrStarted i then Inl ErrSupervisionPrerequisite
               else Inr GatePendingEvidence
           | GateEventAmendmentTouchesScope \<Rightarrow> Inr GatePendingEvidence
           | GateEventAmendmentOutsideScope \<Rightarrow>
               if blank (GateIn_RevalidationReceiptID i) then Inl ErrSupervisionPrerequisite
               else Inr GateAccepted
           | _ \<Rightarrow> Inl ErrSupervisionIllegalTransition)
      | GateHeld \<Rightarrow>
          (case event of
             GateEventReconsider \<Rightarrow>
               if Actor_Kind (GateIn_Actor i) \<noteq> ActorOperator then Inl ErrSupervisionUnauthorizedActor
               else if \<not> GateIn_FreshSnapshot i then Inl ErrSupervisionPrerequisite
               else Inr GateReadyForReview
           | GateEventNewProducerEvidence \<Rightarrow>
               if \<not> GateIn_ProducersVerified i then Inl ErrSupervisionPrerequisite
               else Inr GatePendingEvidence
           | GateEventAccept \<Rightarrow> Inl ErrSupervisionPrerequisite
           | GateEventReject \<Rightarrow> Inl ErrSupervisionPrerequisite
           | _ \<Rightarrow> Inl ErrSupervisionIllegalTransition)
      | GateEscalated \<Rightarrow>
          (case event of
             GateEventReconsider \<Rightarrow>
               if Actor_Kind (GateIn_Actor i) \<noteq> ActorOperator then Inl ErrSupervisionUnauthorizedActor
               else if \<not> GateIn_FreshSnapshot i then Inl ErrSupervisionPrerequisite
               else Inr GateReadyForReview
           | GateEventAccept \<Rightarrow> Inl ErrSupervisionPrerequisite
           | _ \<Rightarrow> Inl ErrSupervisionIllegalTransition)
      | _ \<Rightarrow> Inl ErrSupervisionIllegalTransition))"

subsection \<open>Holds\<close>

datatype HoldEvent =
    HoldEventPlace
  | HoldEventDuplicateSamePayload
  | HoldEventDuplicateChangedPayload
  | HoldEventRelease
  | HoldEventAmendmentAddsDescendants
  | HoldEventClosureMemberClaimed
  | HoldEventRunSettled
  | HoldEventOther string

record HoldTransitionInput =
  HoldIn_Hold :: Hold
  HoldIn_Event :: HoldEvent
  HoldIn_Actor :: Actor
  HoldIn_ActorScopeCoversRun :: bool
  HoldIn_BranchRootExists :: bool
  HoldIn_ClosureRecomputed :: bool

definition HoldTransition :: "HoldTransitionInput \<Rightarrow> sup_error + HoldState" where
  "HoldTransition i =
     (let hold = HoldIn_Hold i; actor = HoldIn_Actor i in
      case Hold_State hold of
        HoldStateEmpty \<Rightarrow>
          if HoldIn_Event i \<noteq> HoldEventPlace then Inl ErrSupervisionIllegalTransition
          else (case Actor_Validate actor of
            Some err \<Rightarrow> Inl err
          | None \<Rightarrow>
              if \<not> HoldIn_ActorScopeCoversRun i then Inl ErrSupervisionUnauthorizedActor
              else (case Scope_Kind (Hold_Scope hold) of
                  HoldScopeRun \<Rightarrow> Inr HoldActive
                | HoldScopeBranch \<Rightarrow>
                    if blank (Scope_BranchRootTaskID (Hold_Scope hold)) then Inl ErrSupervisionPrerequisite
                    else if \<not> HoldIn_BranchRootExists i then Inl ErrSupervisionPrerequisite
                    else if \<not> HoldIn_ClosureRecomputed i then Inl ErrSupervisionPrerequisite
                    else Inr HoldActive
                | HoldScopeKindOther _ \<Rightarrow> Inl ErrSupervisionPrerequisite))
      | HoldActive \<Rightarrow>
          (case HoldIn_Event i of
             HoldEventDuplicateSamePayload \<Rightarrow> Inr HoldActive
           | HoldEventClosureMemberClaimed \<Rightarrow> Inr HoldActive
           | HoldEventDuplicateChangedPayload \<Rightarrow> Inl ErrSupervisionStaleRevision
           | HoldEventRelease \<Rightarrow>
               (case Actor_Validate actor of
                  Some err \<Rightarrow> Inl err
                | None \<Rightarrow>
                    if \<not> Actor_SameIdentity actor (Hold_Owner hold) \<and> Actor_Kind actor \<noteq> ActorOperator
                    then Inl ErrSupervisionUnauthorizedActor
                    else if Actor_Kind actor = ActorOverseer \<and> Actor_Kind (Hold_Owner hold) = ActorOperator
                    then Inl ErrSupervisionUnauthorizedActor
                    else Inr HoldReleased)
           | HoldEventAmendmentAddsDescendants \<Rightarrow>
               if \<not> HoldIn_ClosureRecomputed i then Inl ErrSupervisionPrerequisite
               else Inr HoldActive
           | HoldEventRunSettled \<Rightarrow> Inr HoldReleased
           | _ \<Rightarrow> Inl ErrSupervisionIllegalTransition)
      | HoldReleased \<Rightarrow> Inl ErrSupervisionTerminal
      | HoldStateOther _ \<Rightarrow> Inl ErrSupervisionIllegalTransition)"

subsection \<open>Activations\<close>

datatype ActivationEvent =
    ActivationEventTriggerFired
  | ActivationEventDispatchConfirmed
  | ActivationEventDispatchUndelivered
  | ActivationEventDispatchAmbiguous
  | ActivationEventDecisionRecorded
  | ActivationEventLimitReached
  | ActivationEventLeaseExpired
  | ActivationEventOperatorTakeover
  | ActivationEventThreadLost
  | ActivationEventReconciliationAcknowledged
  | ActivationEventReconciliationAmbiguous
  | ActivationEventEventsArrived
  | ActivationEventRunSettled
  | ActivationEventOperatorContinuation
  | ActivationEventOther string

record ActivationTransitionInput =
  ActIn_Activation :: Activation
  ActIn_Event :: ActivationEvent
  ActIn_Actor :: Actor
  ActIn_Supervised :: bool
  ActIn_InboxNonEmpty :: bool
  ActIn_ActivationBudgetRemaining :: bool
  ActIn_TurnsRemaining :: bool
  ActIn_OtherValidActivation :: bool
  ActIn_LeaseValid :: bool
  ActIn_ExpectedEpoch :: int64
  ActIn_RevisionMatches :: bool
  ActIn_ExecutionObserved :: bool
  ActIn_RuntimeProvenStopped :: bool
  ActIn_RecoveryComplete :: bool
  ActIn_OperatorAuthorized :: bool

record ActivationTransitionResult =
  ActOut_State :: ActivationState
  ActOut_Epoch :: int64
  ActOut_CountsTowardBudget :: bool
  ActOut_FreshBudget :: bool

definition act_stay :: "int64 \<Rightarrow> ActivationState \<Rightarrow> sup_error + ActivationTransitionResult" where
  "act_stay epoch s =
     Inr \<lparr>ActOut_State = s, ActOut_Epoch = epoch, ActOut_CountsTowardBudget = False,
          ActOut_FreshBudget = False\<rparr>"

definition ActivationTransition ::
  "ActivationTransitionInput \<Rightarrow> sup_error + ActivationTransitionResult" where
  "ActivationTransition i =
     (let state = (if Activation_State (ActIn_Activation i) = ActivationStateEmpty then ActivationIdle
                   else Activation_State (ActIn_Activation i));
          epoch = Activation_Epoch (ActIn_Activation i);
          event = ActIn_Event i; actor = ActIn_Actor i in
      if state = ActivationClosed then Inl ErrSupervisionTerminal
      else if event = ActivationEventRunSettled then act_stay epoch ActivationClosed
      else if event = ActivationEventOperatorContinuation
      then (case Actor_Validate actor of
              Some err \<Rightarrow> Inl err
            | None \<Rightarrow>
                if Actor_Kind actor \<noteq> ActorOperator \<or> \<not> ActIn_OperatorAuthorized i
                then Inl ErrSupervisionUnauthorizedActor
                else Inr \<lparr>ActOut_State = ActivationIdle, ActOut_Epoch = wrap64 (epoch + 1),
                          ActOut_CountsTowardBudget = False, ActOut_FreshBudget = True\<rparr>)
      else (case state of
        ActivationIdle \<Rightarrow>
          if event \<noteq> ActivationEventTriggerFired then Inl ErrSupervisionIllegalTransition
          else if \<not> ActIn_Supervised i then Inl ErrSupervisionPrerequisite
          else if \<not> ActIn_InboxNonEmpty i then Inl ErrSupervisionPrerequisite
          else if ActIn_OtherValidActivation i then Inl ErrSupervisionPrerequisite
          else if \<not> ActIn_ActivationBudgetRemaining i then act_stay epoch ActivationEscalated
          else act_stay epoch ActivationPendingDispatch
      | ActivationPendingDispatch \<Rightarrow>
          (case event of
             ActivationEventEventsArrived \<Rightarrow>
               if \<not> ActIn_OperatorAuthorized i \<or> Actor_Kind actor \<noteq> ActorOperator
               then Inl ErrSupervisionUnauthorizedActor
               else if \<not> ActIn_InboxNonEmpty i then Inl ErrSupervisionPrerequisite
               else if \<not> ActIn_ActivationBudgetRemaining i then act_stay epoch ActivationEscalated
               else Inr \<lparr>ActOut_State = ActivationPendingDispatch, ActOut_Epoch = wrap64 (epoch + 1),
                         ActOut_CountsTowardBudget = False, ActOut_FreshBudget = False\<rparr>
           | ActivationEventDispatchConfirmed \<Rightarrow>
               if \<not> ActIn_LeaseValid i then Inl ErrSupervisionPrerequisite
               else Inr \<lparr>ActOut_State = ActivationActive, ActOut_Epoch = epoch,
                         ActOut_CountsTowardBudget = True, ActOut_FreshBudget = False\<rparr>
           | ActivationEventDispatchUndelivered \<Rightarrow>
               if ActIn_ExecutionObserved i then Inl ErrSupervisionPrerequisite
               else act_stay epoch ActivationPendingDispatch
           | ActivationEventDispatchAmbiguous \<Rightarrow> act_stay epoch ActivationRecoveryRequired
           | _ \<Rightarrow> Inl ErrSupervisionIllegalTransition)
      | ActivationActive \<Rightarrow>
          (case event of
             ActivationEventDecisionRecorded \<Rightarrow>
               if \<not> ActIn_LeaseValid i then Inl ErrSupervisionPrerequisite
               else if ActIn_ExpectedEpoch i \<noteq> epoch then Inl ErrSupervisionStaleRevision
               else if \<not> ActIn_RevisionMatches i then Inl ErrSupervisionStaleRevision
               else if \<not> ActIn_TurnsRemaining i then Inl ErrSupervisionBudgetExhausted
               else act_stay epoch ActivationActive
           | ActivationEventLimitReached \<Rightarrow> act_stay epoch ActivationSpent
           | ActivationEventLeaseExpired \<Rightarrow> act_stay epoch ActivationRevoked
           | ActivationEventOperatorTakeover \<Rightarrow>
               (case Actor_Validate actor of
                  Some err \<Rightarrow> Inl err
                | None \<Rightarrow>
                    if Actor_Kind actor \<noteq> ActorOperator then Inl ErrSupervisionUnauthorizedActor
                    else Inr \<lparr>ActOut_State = ActivationRevoked, ActOut_Epoch = wrap64 (epoch + 1),
                              ActOut_CountsTowardBudget = False, ActOut_FreshBudget = False\<rparr>)
           | ActivationEventThreadLost \<Rightarrow>
               if \<not> ActIn_RuntimeProvenStopped i then act_stay epoch ActivationRecoveryRequired
               else Inr \<lparr>ActOut_State = ActivationIdle, ActOut_Epoch = wrap64 (epoch + 1),
                         ActOut_CountsTowardBudget = ActIn_ExecutionObserved i,
                         ActOut_FreshBudget = False\<rparr>
           | _ \<Rightarrow> Inl ErrSupervisionIllegalTransition)
      | ActivationRevoked \<Rightarrow>
          (case event of
             ActivationEventReconciliationAcknowledged \<Rightarrow>
               if \<not> ActIn_RecoveryComplete i then Inl ErrSupervisionPrerequisite
               else Inr \<lparr>ActOut_State = ActivationIdle, ActOut_Epoch = wrap64 (epoch + 1),
                         ActOut_CountsTowardBudget = False, ActOut_FreshBudget = False\<rparr>
           | ActivationEventReconciliationAmbiguous \<Rightarrow> act_stay epoch ActivationRecoveryRequired
           | _ \<Rightarrow> Inl ErrSupervisionIllegalTransition)
      | ActivationSpent \<Rightarrow>
          if event \<noteq> ActivationEventEventsArrived then Inl ErrSupervisionIllegalTransition
          else if \<not> ActIn_ActivationBudgetRemaining i then act_stay epoch ActivationEscalated
          else Inr \<lparr>ActOut_State = ActivationIdle, ActOut_Epoch = wrap64 (epoch + 1),
                    ActOut_CountsTowardBudget = False, ActOut_FreshBudget = False\<rparr>
      | _ \<Rightarrow> Inl ErrSupervisionIllegalTransition))"

subsection \<open>Incidents\<close>

datatype IncidentEvent =
    IncidentEventRaise
  | IncidentEventGateAccepted
  | IncidentEventEscalate
  | IncidentEventConcludeFailure
  | IncidentEventDeadlineExpired
  | IncidentEventBulkClose
  | IncidentEventOperatorResolve
  | IncidentEventOperatorCancel
  | IncidentEventRunCancelled
  | IncidentEventOther string

record IncidentTransitionInput =
  IncIn_Incident :: ReviewIncident
  IncIn_Event :: IncidentEvent
  IncIn_Actor :: Actor
  IncIn_ReasonChangedOrThresholdCrossed :: bool
  IncIn_ActorScopeCoversRun :: bool
  IncIn_MatchingGateIncident :: bool
  IncIn_TaskTerminallyFailed :: bool
  IncIn_ExpectedRevision :: int64

definition IncidentTransition :: "IncidentTransitionInput \<Rightarrow> sup_error + IncidentState" where
  "IncidentTransition i =
     (let state = Incident_State (IncIn_Incident i); event = IncIn_Event i; actor = IncIn_Actor i in
      if state = IncidentResolved then Inl ErrSupervisionTerminal
      else if event = IncidentEventRunCancelled \<and> state \<noteq> IncidentStateEmpty then Inr IncidentResolved
      else (case state of
        IncidentStateEmpty \<Rightarrow>
          if event \<noteq> IncidentEventRaise then Inl ErrSupervisionIllegalTransition
          else if \<not> IncIn_ReasonChangedOrThresholdCrossed i then Inl ErrSupervisionPrerequisite
          else Inr IncidentOpen
      | IncidentOpen \<Rightarrow>
          (case event of
             IncidentEventGateAccepted \<Rightarrow>
               if \<not> IncIn_MatchingGateIncident i then Inl ErrSupervisionPrerequisite
               else Inr IncidentResolved
           | IncidentEventEscalate \<Rightarrow>
               (case Actor_Validate actor of
                  Some err \<Rightarrow> Inl err
                | None \<Rightarrow>
                    if \<not> IncIn_ActorScopeCoversRun i then Inl ErrSupervisionUnauthorizedActor
                    else Inr IncidentEscalated)
           | IncidentEventConcludeFailure \<Rightarrow>
               (case Actor_Validate actor of
                  Some err \<Rightarrow> Inl err
                | None \<Rightarrow>
                    if \<not> IncIn_ActorScopeCoversRun i then Inl ErrSupervisionUnauthorizedActor
                    else if \<not> IncIn_TaskTerminallyFailed i then Inl ErrSupervisionPrerequisite
                    else if IncIn_ExpectedRevision i \<noteq> Incident_Revision (IncIn_Incident i)
                    then Inl ErrSupervisionStaleRevision
                    else Inr IncidentResolved)
           | IncidentEventDeadlineExpired \<Rightarrow> Inr IncidentEscalated
           | IncidentEventBulkClose \<Rightarrow> Inl ErrSupervisionPrerequisite
           | _ \<Rightarrow> Inl ErrSupervisionIllegalTransition)
      | IncidentEscalated \<Rightarrow>
          (if event = IncidentEventOperatorResolve \<or> event = IncidentEventOperatorCancel
           then (case Actor_Validate actor of
                   Some err \<Rightarrow> Inl err
                 | None \<Rightarrow>
                     if Actor_Kind actor \<noteq> ActorOperator then Inl ErrSupervisionUnauthorizedActor
                     else if event = IncidentEventOperatorResolve
                           \<and> IncIn_ExpectedRevision i \<noteq> Incident_Revision (IncIn_Incident i)
                     then Inl ErrSupervisionStaleRevision
                     else Inr IncidentResolved)
           else if (event = IncidentEventConcludeFailure \<or> event = IncidentEventEscalate)
                 \<and> Actor_Kind actor = ActorOverseer
           then Inl ErrSupervisionUnauthorizedActor
           else Inl ErrSupervisionIllegalTransition)
      | _ \<Rightarrow> Inl ErrSupervisionIllegalTransition))"

subsection \<open>Authority\<close>

definition ActivationLeaseLive :: "Activation \<Rightarrow> instant \<Rightarrow> bool" where
  "ActivationLeaseLive activation now =
     (if blank (Activation_LeaseToken activation) then False
      else (case Activation_LeaseExpiresAt activation of
              None \<Rightarrow> False
            | Some expiry \<Rightarrow> now < expiry))"

definition ActivationPastDeadline :: "Activation \<Rightarrow> instant \<Rightarrow> bool" where
  "ActivationPastDeadline activation now =
     (case Activation_Deadline activation of None \<Rightarrow> False | Some d \<Rightarrow> \<not> now < d)"

definition AuthorizeSupervisionActor ::
  "SupervisionRecord \<Rightarrow> Activation \<Rightarrow> Actor \<Rightarrow> instant \<Rightarrow> sup_error option" where
  "AuthorizeSupervisionActor record activation actor now =
     (case Actor_Validate actor of
        Some err \<Rightarrow> Some err
      | None \<Rightarrow>
          if Actor_Kind actor = ActorOperator then None
          else if Actor_Kind actor \<noteq> ActorOverseer then Some ErrSupervisionUnauthorizedActor
          else if Actor_ActivationEpoch actor \<noteq> Record_ActivationEpoch record
          then Some ErrSupervisionStaleRevision
          else if Activation_RunID activation \<noteq> Record_RunID record
                \<or> Activation_Epoch activation \<noteq> Record_ActivationEpoch record
          then Some ErrSupervisionUnauthorizedActor
          else if Activation_State activation \<noteq> ActivationActive then Some ErrSupervisionPrerequisite
          else if Activation_Purpose activation = RecoveryActivationRepair
          then Some ErrSupervisionUnauthorizedActor
          else if \<not> ActivationLeaseLive activation now then Some ErrSupervisionPrerequisite
          else if ActivationPastDeadline activation now then Some ErrSupervisionPrerequisite
          else None)"

end
