(* ===== verification/SupervisionSpec.thy ===== *)
theory SupervisionSpec
  imports SupervisionMachines
begin

text \<open>
  The abstract specification of the supervision machines and their refinement.

  \<open>gate_row\<close>, \<open>hold_row\<close>, \<open>activation_row\<close> and \<open>incident_row\<close> are the tables of
  \<open>docs/plans/campaign-supervision-seams.md\<close> (sections 3.1 to 3.4), one rule per row, with the
  row's guard as its premise. \<open>machine_run\<close> is a sequence of requests against one record, in
  which a refused request leaves the record as it is. The locale \<open>guarded_machine\<close> carries the
  facts on such sequences; each of the four machines interprets it.
\<close>

section \<open>Sequences of requests\<close>

fun machine_run ::
  "('i \<Rightarrow> sup_error + 'o) \<Rightarrow> ('i \<Rightarrow> 's) \<Rightarrow> ('o \<Rightarrow> 's) \<Rightarrow> 's \<Rightarrow> 'i list \<Rightarrow> 's \<Rightarrow> bool" where
  "machine_run step source target s [] s' = (s' = s)"
| "machine_run step source target s (i # is) s' =
     (source i = s \<and>
      (case step i of
         Inl _ \<Rightarrow> machine_run step source target s is s'
       | Inr out \<Rightarrow> machine_run step source target (target out) is s'))"

locale guarded_machine =
  fixes step :: "'i \<Rightarrow> sup_error + 'o"
    and source :: "'i \<Rightarrow> 's"
    and target :: "'o \<Rightarrow> 's"
    and terminal :: "'s \<Rightarrow> bool"
    and row :: "'i \<Rightarrow> 's \<Rightarrow> 's \<Rightarrow> bool"
  assumes terminal_refuses: "terminal (source i) \<Longrightarrow> step i = Inl ErrSupervisionTerminal"
    and step_row: "step i = Inr out \<Longrightarrow> row i (source i) (target out)"
begin

abbreviation run :: "'s \<Rightarrow> 'i list \<Rightarrow> 's \<Rightarrow> bool" where
  "run \<equiv> machine_run step source target"

lemma terminal_absorbing: "run s is s' \<Longrightarrow> terminal s \<Longrightarrow> s' = s"
  by (induction "is" arbitrary: s) (auto split: sum.splits simp: terminal_refuses)

lemma run_invariant:
  assumes "\<And>i a b. row i a b \<Longrightarrow> I a \<Longrightarrow> I b"
  shows "run s is s' \<Longrightarrow> I s \<Longrightarrow> I s'"
  by (induction "is" arbitrary: s) (auto split: sum.splits dest: step_row intro: assms)

text \<open>A record that was outside a set of states and is now inside entered it by some request.\<close>

lemma run_entry:
  assumes "run s is s'" and "\<not> P s" and "P s'"
  shows "\<exists>i \<in> set is. \<exists>out. step i = Inr out \<and> \<not> P (source i) \<and> P (target out)
           \<and> row i (source i) (target out)"
  using assms
proof (induction "is" arbitrary: s)
  case Nil
  then show ?case by simp
next
  case (Cons i "is")
  show ?case
  proof (cases "step i")
    case (Inl e)
    with Cons show ?thesis by fastforce
  next
    case (Inr out)
    show ?thesis
    proof (cases "P (target out)")
      case True
      with Inr Cons.prems show ?thesis by (auto dest: step_row)
    next
      case False
      with Inr Cons show ?thesis by fastforce
    qed
  qed
qed

end

section \<open>Gates\<close>

definition gate_source :: "GateTransitionInput \<Rightarrow> GateState" where
  "gate_source i =
     (if Gate_State (GateIn_Gate i) = GateStateEmpty then GatePendingEvidence
      else Gate_State (GateIn_Gate i))"

definition valid_actor :: "Actor \<Rightarrow> bool" where
  "valid_actor a \<longleftrightarrow> Actor_Validate a = None"

inductive gate_row :: "GateTransitionInput \<Rightarrow> GateState \<Rightarrow> GateState \<Rightarrow> bool" for i where
  producers_succeeded:
    "GateIn_Event i = GateEventProducersSucceeded \<Longrightarrow> GateIn_ProducersVerified i \<Longrightarrow>
     gate_row i GatePendingEvidence GateReadyForReview"
| producer_not_succeeded:
    "GateIn_Event i = GateEventProducerNotSucceeded \<Longrightarrow>
     gate_row i GatePendingEvidence GatePendingEvidence"
| accept:
    "GateIn_Event i = GateEventAccept \<Longrightarrow> valid_actor (GateIn_Actor i) \<Longrightarrow>
     GateIn_ExpectedGraphRevision i = Gate_GraphRevision (GateIn_Gate i) \<Longrightarrow>
     GateIn_EvidenceMatches i \<Longrightarrow> gate_row i GateReadyForReview GateAccepted"
| reject:
    "GateIn_Event i = GateEventReject \<Longrightarrow> valid_actor (GateIn_Actor i) \<Longrightarrow>
     GateIn_ExpectedGraphRevision i = Gate_GraphRevision (GateIn_Gate i) \<Longrightarrow>
     GateIn_EvidenceMatches i \<Longrightarrow> gate_row i GateReadyForReview GateHeld"
| review_deadline:
    "GateIn_Event i = GateEventReviewDeadlineExpired \<Longrightarrow> gate_row i GateReadyForReview GateEscalated"
| budget_exhausted:
    "GateIn_Event i = GateEventActivationBudgetExhausted \<Longrightarrow> gate_row i GateReadyForReview GateEscalated"
| ready_replaced:
    "GateIn_Event i = GateEventProducerReplaced \<Longrightarrow> gate_row i GateReadyForReview GatePendingEvidence"
| accepted_replaced:
    "GateIn_Event i = GateEventProducerReplaced \<Longrightarrow> \<not> GateIn_SuccessorOfferedOrStarted i \<Longrightarrow>
     gate_row i GateAccepted GatePendingEvidence"
| scope_amended:
    "GateIn_Event i = GateEventAmendmentTouchesScope \<Longrightarrow> gate_row i GateAccepted GatePendingEvidence"
| carried_forward:
    "GateIn_Event i = GateEventAmendmentOutsideScope \<Longrightarrow> \<not> blank (GateIn_RevalidationReceiptID i) \<Longrightarrow>
     gate_row i GateAccepted GateAccepted"
| held_reconsidered:
    "GateIn_Event i = GateEventReconsider \<Longrightarrow> Actor_Kind (GateIn_Actor i) = ActorOperator \<Longrightarrow>
     GateIn_FreshSnapshot i \<Longrightarrow> gate_row i GateHeld GateReadyForReview"
| held_new_evidence:
    "GateIn_Event i = GateEventNewProducerEvidence \<Longrightarrow> GateIn_ProducersVerified i \<Longrightarrow>
     gate_row i GateHeld GatePendingEvidence"
| escalated_reconsidered:
    "GateIn_Event i = GateEventReconsider \<Longrightarrow> Actor_Kind (GateIn_Actor i) = ActorOperator \<Longrightarrow>
     GateIn_FreshSnapshot i \<Longrightarrow> gate_row i GateEscalated GateReadyForReview"
| run_cancelled:
    "GateIn_Event i = GateEventRunCancelled \<Longrightarrow> s \<noteq> GateCancelled \<Longrightarrow> gate_row i s GateCancelled"

inductive_cases gate_row_to_accepted: "gate_row i s GateAccepted"
inductive_cases gate_row_from_held: "gate_row i GateHeld s"
inductive_cases gate_row_from_escalated: "gate_row i GateEscalated s"

inductive_simps gate_row_simps:
  "gate_row i GatePendingEvidence s" "gate_row i GateReadyForReview s" "gate_row i GateAccepted s"
  "gate_row i GateHeld s" "gate_row i GateEscalated s" "gate_row i GateCancelled s"
  "gate_row i (GateStateOther x) s" "gate_row i GateStateEmpty s"

lemma GateTransition_row:
  "GateTransition i = Inr s \<longleftrightarrow> \<not> GateIn_SinkSettled i \<and> gate_row i (gate_source i) s"
  unfolding GateTransition_def Let_def gate_source_def [symmetric]
  by (cases "gate_source i"; cases "GateIn_Event i")
    (auto simp: gate_row_simps valid_actor_def split: option.splits if_splits)

lemma GateTransition_terminal:
  "gate_source i = GateCancelled \<Longrightarrow> GateTransition i = Inl ErrSupervisionTerminal"
  by (simp add: GateTransition_def gate_source_def Let_def split: if_splits)

interpretation gate_machine:
  guarded_machine GateTransition gate_source "\<lambda>s. s" "\<lambda>s. s = GateCancelled" gate_row
  by unfold_locales (simp_all add: GateTransition_terminal GateTransition_row)

section \<open>Holds\<close>

definition hold_source :: "HoldTransitionInput \<Rightarrow> HoldState" where
  "hold_source i = Hold_State (HoldIn_Hold i)"

definition branch_placeable :: "HoldTransitionInput \<Rightarrow> bool" where
  "branch_placeable i \<longleftrightarrow>
     (case Scope_Kind (Hold_Scope (HoldIn_Hold i)) of
        HoldScopeRun \<Rightarrow> True
      | HoldScopeBranch \<Rightarrow> \<not> blank (Scope_BranchRootTaskID (Hold_Scope (HoldIn_Hold i)))
          \<and> HoldIn_BranchRootExists i \<and> HoldIn_ClosureRecomputed i
      | HoldScopeKindOther _ \<Rightarrow> False)"

text \<open>The owner of a hold may release it, and so may any operator; an overseer that is the
  owner's successor, or that did not place the hold, may not.\<close>

definition may_release :: "Actor \<Rightarrow> Hold \<Rightarrow> bool" where
  "may_release a h \<longleftrightarrow> valid_actor a \<and> (Actor_Kind a = ActorOperator \<or> Actor_SameIdentity a (Hold_Owner h))"

inductive hold_row :: "HoldTransitionInput \<Rightarrow> HoldState \<Rightarrow> HoldState \<Rightarrow> bool" for i where
  place:
    "HoldIn_Event i = HoldEventPlace \<Longrightarrow> valid_actor (HoldIn_Actor i) \<Longrightarrow>
     HoldIn_ActorScopeCoversRun i \<Longrightarrow> branch_placeable i \<Longrightarrow> hold_row i HoldStateEmpty HoldActive"
| replayed:
    "HoldIn_Event i = HoldEventDuplicateSamePayload \<Longrightarrow> hold_row i HoldActive HoldActive"
| member_claimed:
    "HoldIn_Event i = HoldEventClosureMemberClaimed \<Longrightarrow> hold_row i HoldActive HoldActive"
| released_by:
    "HoldIn_Event i = HoldEventRelease \<Longrightarrow> may_release (HoldIn_Actor i) (HoldIn_Hold i) \<Longrightarrow>
     hold_row i HoldActive HoldReleased"
| descendants_added:
    "HoldIn_Event i = HoldEventAmendmentAddsDescendants \<Longrightarrow> HoldIn_ClosureRecomputed i \<Longrightarrow>
     hold_row i HoldActive HoldActive"
| run_settled:
    "HoldIn_Event i = HoldEventRunSettled \<Longrightarrow> hold_row i HoldActive HoldReleased"

inductive_simps hold_row_simps:
  "hold_row i HoldStateEmpty s" "hold_row i HoldActive s" "hold_row i HoldReleased s"
  "hold_row i (HoldStateOther x) s"

lemma HoldTransition_row:
  "HoldTransition i = Inr s \<longleftrightarrow> hold_row i (hold_source i) s"
  unfolding HoldTransition_def Let_def hold_source_def [symmetric]
  by (cases "hold_source i"; cases "HoldIn_Event i")
    (auto simp: hold_row_simps valid_actor_def branch_placeable_def may_release_def
       dest: Actor_SameIdentity_kind split: option.splits if_splits HoldScopeKind.splits)

lemma HoldTransition_terminal:
  "hold_source i = HoldReleased \<Longrightarrow> HoldTransition i = Inl ErrSupervisionTerminal"
  by (simp add: HoldTransition_def hold_source_def)

interpretation hold_machine:
  guarded_machine HoldTransition hold_source "\<lambda>s. s" "\<lambda>s. s = HoldReleased" hold_row
  by unfold_locales (simp_all add: HoldTransition_terminal HoldTransition_row)

section \<open>Activations\<close>

type_synonym act_point = "ActivationState \<times> int64"

definition act_source :: "ActivationTransitionInput \<Rightarrow> act_point" where
  "act_source i =
     (if Activation_State (ActIn_Activation i) = ActivationStateEmpty then ActivationIdle
      else Activation_State (ActIn_Activation i),
      Activation_Epoch (ActIn_Activation i))"

definition act_target :: "ActivationTransitionResult \<Rightarrow> act_point" where
  "act_target r = (ActOut_State r, ActOut_Epoch r)"

definition next_epoch :: "int64 \<Rightarrow> int64" where
  "next_epoch e = wrap64 (e + 1)"

definition operator_authorized :: "ActivationTransitionInput \<Rightarrow> bool" where
  "operator_authorized i \<longleftrightarrow> Actor_Kind (ActIn_Actor i) = ActorOperator \<and> ActIn_OperatorAuthorized i"

inductive activation_row :: "ActivationTransitionInput \<Rightarrow> act_point \<Rightarrow> act_point \<Rightarrow> bool" for i where
  trigger:
    "ActIn_Event i = ActivationEventTriggerFired \<Longrightarrow> ActIn_Supervised i \<Longrightarrow> ActIn_InboxNonEmpty i \<Longrightarrow>
     \<not> ActIn_OtherValidActivation i \<Longrightarrow> ActIn_ActivationBudgetRemaining i \<Longrightarrow>
     activation_row i (ActivationIdle, e) (ActivationPendingDispatch, e)"
| trigger_exhausted:
    "ActIn_Event i = ActivationEventTriggerFired \<Longrightarrow> ActIn_Supervised i \<Longrightarrow> ActIn_InboxNonEmpty i \<Longrightarrow>
     \<not> ActIn_OtherValidActivation i \<Longrightarrow> \<not> ActIn_ActivationBudgetRemaining i \<Longrightarrow>
     activation_row i (ActivationIdle, e) (ActivationEscalated, e)"
| dispatch_confirmed:
    "ActIn_Event i = ActivationEventDispatchConfirmed \<Longrightarrow> ActIn_LeaseValid i \<Longrightarrow>
     activation_row i (ActivationPendingDispatch, e) (ActivationActive, e)"
| dispatch_undelivered:
    "ActIn_Event i = ActivationEventDispatchUndelivered \<Longrightarrow> \<not> ActIn_ExecutionObserved i \<Longrightarrow>
     activation_row i (ActivationPendingDispatch, e) (ActivationPendingDispatch, e)"
| dispatch_ambiguous:
    "ActIn_Event i = ActivationEventDispatchAmbiguous \<Longrightarrow>
     activation_row i (ActivationPendingDispatch, e) (ActivationRecoveryRequired, e)"
| dispatch_replaced:
    "ActIn_Event i = ActivationEventEventsArrived \<Longrightarrow> operator_authorized i \<Longrightarrow> ActIn_InboxNonEmpty i \<Longrightarrow>
     ActIn_ActivationBudgetRemaining i \<Longrightarrow>
     activation_row i (ActivationPendingDispatch, e) (ActivationPendingDispatch, next_epoch e)"
| dispatch_replaced_exhausted:
    "ActIn_Event i = ActivationEventEventsArrived \<Longrightarrow> operator_authorized i \<Longrightarrow> ActIn_InboxNonEmpty i \<Longrightarrow>
     \<not> ActIn_ActivationBudgetRemaining i \<Longrightarrow>
     activation_row i (ActivationPendingDispatch, e) (ActivationEscalated, e)"
| decision_recorded:
    "ActIn_Event i = ActivationEventDecisionRecorded \<Longrightarrow> ActIn_LeaseValid i \<Longrightarrow> ActIn_ExpectedEpoch i = e \<Longrightarrow>
     ActIn_RevisionMatches i \<Longrightarrow> ActIn_TurnsRemaining i \<Longrightarrow>
     activation_row i (ActivationActive, e) (ActivationActive, e)"
| limit_reached:
    "ActIn_Event i = ActivationEventLimitReached \<Longrightarrow>
     activation_row i (ActivationActive, e) (ActivationSpent, e)"
| lease_expired:
    "ActIn_Event i = ActivationEventLeaseExpired \<Longrightarrow>
     activation_row i (ActivationActive, e) (ActivationRevoked, e)"
| operator_takeover:
    "ActIn_Event i = ActivationEventOperatorTakeover \<Longrightarrow> valid_actor (ActIn_Actor i) \<Longrightarrow>
     Actor_Kind (ActIn_Actor i) = ActorOperator \<Longrightarrow>
     activation_row i (ActivationActive, e) (ActivationRevoked, next_epoch e)"
| thread_lost_ambiguous:
    "ActIn_Event i = ActivationEventThreadLost \<Longrightarrow> \<not> ActIn_RuntimeProvenStopped i \<Longrightarrow>
     activation_row i (ActivationActive, e) (ActivationRecoveryRequired, e)"
| thread_lost:
    "ActIn_Event i = ActivationEventThreadLost \<Longrightarrow> ActIn_RuntimeProvenStopped i \<Longrightarrow>
     activation_row i (ActivationActive, e) (ActivationIdle, next_epoch e)"
| reconciled:
    "ActIn_Event i = ActivationEventReconciliationAcknowledged \<Longrightarrow> ActIn_RecoveryComplete i \<Longrightarrow>
     activation_row i (ActivationRevoked, e) (ActivationIdle, next_epoch e)"
| reconciliation_ambiguous:
    "ActIn_Event i = ActivationEventReconciliationAmbiguous \<Longrightarrow>
     activation_row i (ActivationRevoked, e) (ActivationRecoveryRequired, e)"
| events_arrived:
    "ActIn_Event i = ActivationEventEventsArrived \<Longrightarrow> ActIn_ActivationBudgetRemaining i \<Longrightarrow>
     activation_row i (ActivationSpent, e) (ActivationIdle, next_epoch e)"
| spent_exhausted:
    "ActIn_Event i = ActivationEventEventsArrived \<Longrightarrow> \<not> ActIn_ActivationBudgetRemaining i \<Longrightarrow>
     activation_row i (ActivationSpent, e) (ActivationEscalated, e)"
| run_settled:
    "ActIn_Event i = ActivationEventRunSettled \<Longrightarrow> s \<noteq> ActivationClosed \<Longrightarrow>
     activation_row i (s, e) (ActivationClosed, e)"
| operator_continuation:
    "ActIn_Event i = ActivationEventOperatorContinuation \<Longrightarrow> valid_actor (ActIn_Actor i) \<Longrightarrow>
     operator_authorized i \<Longrightarrow> s \<noteq> ActivationClosed \<Longrightarrow>
     activation_row i (s, e) (ActivationIdle, next_epoch e)"

inductive_simps activation_row_simps:
  "activation_row i (ActivationIdle, e) t" "activation_row i (ActivationPendingDispatch, e) t"
  "activation_row i (ActivationActive, e) t" "activation_row i (ActivationSpent, e) t"
  "activation_row i (ActivationRevoked, e) t" "activation_row i (ActivationRecoveryRequired, e) t"
  "activation_row i (ActivationEscalated, e) t" "activation_row i (ActivationClosed, e) t"
  "activation_row i (ActivationStateEmpty, e) t" "activation_row i (ActivationStateOther x, e) t"

lemmas act_outcome_defs = act_stay_def act_target_def next_epoch_def operator_authorized_def

lemma ActivationTransition_row:
  "(\<exists>r. ActivationTransition i = Inr r \<and> act_target r = t) \<longleftrightarrow> activation_row i (act_source i) t"
proof -
  obtain s e where src: "act_source i = (s, e)" by fastforce
  then have st: "(if Activation_State (ActIn_Activation i) = ActivationStateEmpty then ActivationIdle
      else Activation_State (ActIn_Activation i)) = s"
    and ep: "Activation_Epoch (ActIn_Activation i) = e"
    by (simp_all add: act_source_def)
  show ?thesis
    unfolding src ActivationTransition_def Let_def st ep
    by (cases s; cases "ActIn_Event i")
      (auto simp: activation_row_simps valid_actor_def act_outcome_defs split: option.splits if_splits)
qed

lemma ActivationTransition_terminal:
  "fst (act_source i) = ActivationClosed \<Longrightarrow> ActivationTransition i = Inl ErrSupervisionTerminal"
  by (simp add: ActivationTransition_def act_source_def Let_def split: if_splits)

interpretation activation_machine:
  guarded_machine ActivationTransition act_source act_target "\<lambda>p. fst p = ActivationClosed" activation_row
  by unfold_locales (auto simp: ActivationTransition_terminal ActivationTransition_row [symmetric])

text \<open>
  The epoch fence. \<open>act_floor\<close> is the least epoch at which a later dispatch of the same run can
  be confirmed: the current epoch while none was confirmed at it, the next one afterwards.
\<close>

definition act_floor :: "act_point \<Rightarrow> int" where
  "act_floor p = (if fst p \<in> {ActivationIdle, ActivationPendingDispatch} then snd p else snd p + 1)"

definition epoch_in_range :: "ActivationTransitionInput \<Rightarrow> bool" where
  "epoch_in_range i \<longleftrightarrow> in_int64 (Activation_Epoch (ActIn_Activation i))
     \<and> Activation_Epoch (ActIn_Activation i) < max_int64"

definition confirms_dispatch :: "ActivationTransitionInput \<Rightarrow> bool" where
  "confirms_dispatch i \<longleftrightarrow> ActIn_Event i = ActivationEventDispatchConfirmed
     \<and> (case ActivationTransition i of Inl _ \<Rightarrow> False | Inr _ \<Rightarrow> True)"

definition confirmed_epochs :: "ActivationTransitionInput list \<Rightarrow> int list" where
  "confirmed_epochs is = map (\<lambda>i. Activation_Epoch (ActIn_Activation i)) (filter confirms_dispatch is)"

lemma snd_act_source [simp]: "snd (act_source i) = Activation_Epoch (ActIn_Activation i)"
  by (simp add: act_source_def)

lemma next_epoch_in_range: "epoch_in_range i \<Longrightarrow>
    next_epoch (Activation_Epoch (ActIn_Activation i)) = Activation_Epoch (ActIn_Activation i) + 1"
  by (simp add: next_epoch_def epoch_in_range_def wrap64_Suc)

lemma activation_row_floor:
  "activation_row i p q \<Longrightarrow> snd p = Activation_Epoch (ActIn_Activation i) \<Longrightarrow> epoch_in_range i \<Longrightarrow>
     act_floor p \<le> act_floor q \<and> snd p \<le> snd q"
  by (induction rule: activation_row.induct) (auto simp: act_floor_def next_epoch_in_range)

lemma activation_row_confirm:
  "activation_row i p q \<Longrightarrow> ActIn_Event i = ActivationEventDispatchConfirmed \<Longrightarrow>
     act_floor p = snd p \<and> act_floor q = snd p + 1"
  by (induction rule: activation_row.induct) (auto simp: act_floor_def)

lemma activation_row_takeover:
  "activation_row i p q \<Longrightarrow> ActIn_Event i = ActivationEventOperatorTakeover \<Longrightarrow>
     snd q = next_epoch (snd p)"
  by (induction rule: activation_row.induct) auto

lemma confirmed_epochs_above_floor:
  assumes "machine_run ActivationTransition act_source act_target p is q"
    and "\<And>i. i \<in> set is \<Longrightarrow> epoch_in_range i"
  shows "sorted_wrt (<) (confirmed_epochs is) \<and> (\<forall>e \<in> set (confirmed_epochs is). act_floor p \<le> e)"
  using assms
proof (induction "is" arbitrary: p)
  case Nil
  then show ?case by (simp add: confirmed_epochs_def)
next
  case (Cons i "is")
  from Cons.prems have src: "act_source i = p" and rng: "epoch_in_range i" by auto
  show ?case
  proof (cases "ActivationTransition i")
    case (Inl err)
    with Cons.prems have "machine_run ActivationTransition act_source act_target p is q" by simp
    from Cons.IH [OF this] Cons.prems(2) Inl show ?thesis
      by (simp add: confirmed_epochs_def confirms_dispatch_def)
  next
    case (Inr r)
    then have row: "activation_row i p (act_target r)"
      using ActivationTransition_row [of i "act_target r"] src by blast
    from Inr Cons.prems have "machine_run ActivationTransition act_source act_target (act_target r) is q"
      by simp
    from Cons.IH [OF this] Cons.prems(2) have IH: "sorted_wrt (<) (confirmed_epochs is)"
      "\<forall>e \<in> set (confirmed_epochs is). act_floor (act_target r) \<le> e" by auto
    have ep: "snd p = Activation_Epoch (ActIn_Activation i)" using src [symmetric] by simp
    from activation_row_floor [OF row ep rng] have fl: "act_floor p \<le> act_floor (act_target r)" by simp
    show ?thesis
    proof (cases "ActIn_Event i = ActivationEventDispatchConfirmed")
      case True
      with activation_row_confirm [OF row] Inr IH ep fl show ?thesis
        by (auto simp: confirmed_epochs_def confirms_dispatch_def)
    next
      case False
      with IH fl show ?thesis by (auto simp: confirmed_epochs_def confirms_dispatch_def)
    qed
  qed
qed

section \<open>Incidents\<close>

definition incident_source :: "IncidentTransitionInput \<Rightarrow> IncidentState" where
  "incident_source i = Incident_State (IncIn_Incident i)"

inductive incident_row :: "IncidentTransitionInput \<Rightarrow> IncidentState \<Rightarrow> IncidentState \<Rightarrow> bool" for i where
  raised:
    "IncIn_Event i = IncidentEventRaise \<Longrightarrow> IncIn_ReasonChangedOrThresholdCrossed i \<Longrightarrow>
     incident_row i IncidentStateEmpty IncidentOpen"
| gate_accepted:
    "IncIn_Event i = IncidentEventGateAccepted \<Longrightarrow> IncIn_MatchingGateIncident i \<Longrightarrow>
     incident_row i IncidentOpen IncidentResolved"
| escalated:
    "IncIn_Event i = IncidentEventEscalate \<Longrightarrow> valid_actor (IncIn_Actor i) \<Longrightarrow>
     IncIn_ActorScopeCoversRun i \<Longrightarrow> incident_row i IncidentOpen IncidentEscalated"
| concluded:
    "IncIn_Event i = IncidentEventConcludeFailure \<Longrightarrow> valid_actor (IncIn_Actor i) \<Longrightarrow>
     IncIn_ActorScopeCoversRun i \<Longrightarrow> IncIn_TaskTerminallyFailed i \<Longrightarrow>
     IncIn_ExpectedRevision i = Incident_Revision (IncIn_Incident i) \<Longrightarrow>
     incident_row i IncidentOpen IncidentResolved"
| deadline:
    "IncIn_Event i = IncidentEventDeadlineExpired \<Longrightarrow> incident_row i IncidentOpen IncidentEscalated"
| operator_resolved:
    "IncIn_Event i = IncidentEventOperatorResolve \<Longrightarrow> valid_actor (IncIn_Actor i) \<Longrightarrow>
     Actor_Kind (IncIn_Actor i) = ActorOperator \<Longrightarrow>
     IncIn_ExpectedRevision i = Incident_Revision (IncIn_Incident i) \<Longrightarrow>
     incident_row i IncidentEscalated IncidentResolved"
| operator_cancelled:
    "IncIn_Event i = IncidentEventOperatorCancel \<Longrightarrow> valid_actor (IncIn_Actor i) \<Longrightarrow>
     Actor_Kind (IncIn_Actor i) = ActorOperator \<Longrightarrow> incident_row i IncidentEscalated IncidentResolved"
| run_cancelled:
    "IncIn_Event i = IncidentEventRunCancelled \<Longrightarrow> s \<noteq> IncidentStateEmpty \<Longrightarrow> s \<noteq> IncidentResolved \<Longrightarrow>
     incident_row i s IncidentResolved"

inductive_simps incident_row_simps:
  "incident_row i IncidentStateEmpty s" "incident_row i IncidentOpen s"
  "incident_row i IncidentEscalated s" "incident_row i IncidentResolved s"
  "incident_row i (IncidentStateOther x) s"

lemma IncidentTransition_row:
  "IncidentTransition i = Inr s \<longleftrightarrow> incident_row i (incident_source i) s"
  unfolding IncidentTransition_def Let_def incident_source_def [symmetric]
  by (cases "incident_source i"; cases "IncIn_Event i")
    (auto simp: incident_row_simps valid_actor_def split: option.splits if_splits)

lemma IncidentTransition_terminal:
  "incident_source i = IncidentResolved \<Longrightarrow> IncidentTransition i = Inl ErrSupervisionTerminal"
  by (simp add: IncidentTransition_def incident_source_def)

interpretation incident_machine:
  guarded_machine IncidentTransition incident_source "\<lambda>s. s" "\<lambda>s. s = IncidentResolved" incident_row
  by unfold_locales (simp_all add: IncidentTransition_terminal IncidentTransition_row)

section \<open>Authority\<close>

lemma AuthorizeSupervisionActor_overseer:
  "Actor_Kind a = ActorOverseer \<Longrightarrow>
   AuthorizeSupervisionActor r act a now = None \<longleftrightarrow>
     \<not> blank (Actor_Principal a) \<and> Actor_ActivationEpoch a = Record_ActivationEpoch r \<and>
     Activation_RunID act = Record_RunID r \<and> Activation_Epoch act = Record_ActivationEpoch r \<and>
     Activation_State act = ActivationActive \<and> Activation_Purpose act \<noteq> RecoveryActivationRepair \<and>
     ActivationLeaseLive act now \<and> \<not> ActivationPastDeadline act now"
  by (auto simp: AuthorizeSupervisionActor_def Actor_Validate_def)

lemma ActivationLeaseLive_earlier: "ActivationLeaseLive a t' \<Longrightarrow> t \<le> t' \<Longrightarrow> ActivationLeaseLive a t"
  by (auto simp: ActivationLeaseLive_def split: if_splits option.splits)

lemma ActivationPastDeadline_later: "ActivationPastDeadline a t \<Longrightarrow> t \<le> t' \<Longrightarrow> ActivationPastDeadline a t'"
  by (auto simp: ActivationPastDeadline_def split: option.splits)

text \<open>Every run of requests that takes a gate to \<open>accepted\<close> contains the review.\<close>

lemma gate_run_accepted:
  assumes "machine_run GateTransition gate_source (\<lambda>s. s) s reqs GateAccepted" and "s \<noteq> GateAccepted"
  shows "\<exists>i \<in> set reqs. GateIn_Event i = GateEventAccept \<and> gate_source i = GateReadyForReview \<and>
     valid_actor (GateIn_Actor i) \<and>
     GateIn_ExpectedGraphRevision i = Gate_GraphRevision (GateIn_Gate i) \<and>
     GateIn_EvidenceMatches i \<and> \<not> GateIn_SinkSettled i"
proof -
  from gate_machine.run_entry [where P = "\<lambda>x. x = GateAccepted", OF assms refl]
  obtain i where "i \<in> set reqs" "GateTransition i = Inr GateAccepted" "gate_source i \<noteq> GateAccepted"
    "gate_row i (gate_source i) GateAccepted"
    by auto
  then show ?thesis
    by (intro bexI [of _ i]) (auto simp: GateTransition_row elim: gate_row_to_accepted)
qed

end
