(* ===== verification/SupervisionProperties.thy ===== *)
theory SupervisionProperties
  imports SupervisionSpec
begin

text \<open>
  The properties of the supervision machines and of the authority rule, each with a concrete
  instance. The sample records below are the inputs of those instances.
\<close>

section \<open>Sample records\<close>

definition sample_operator :: Actor where
  "sample_operator = \<lparr>Actor_Kind = ActorOperator, Actor_Principal = ''ops'', Actor_ActivationEpoch = 0\<rparr>"

definition sample_overseer :: "int64 \<Rightarrow> Actor" where
  "sample_overseer e = \<lparr>Actor_Kind = ActorOverseer, Actor_Principal = ''reviewer'', Actor_ActivationEpoch = e\<rparr>"

definition sample_gate :: "GateState \<Rightarrow> Gate" where
  "sample_gate s =
     \<lparr>Gate_Definition = \<lparr>GateDef_ID = ''g1'', GateDef_Name = ''review'', GateDef_ObservedTaskIDs = [''build''],
        GateDef_ProtectedTaskIDs = [''deploy''], GateDef_RubricArtifactID = '''', GateDef_Final = False\<rparr>,
      Gate_RunID = ''run'', Gate_State = s, Gate_GraphRevision = 3, Gate_EvidenceSnapshotID = ''ev'',
      Gate_Revision = 1, Gate_UpdatedAt = 7\<rparr>"

definition sample_gate_in :: "GateState \<Rightarrow> GateEvent \<Rightarrow> GateTransitionInput" where
  "sample_gate_in s ev =
     \<lparr>GateIn_Gate = sample_gate s, GateIn_Event = ev, GateIn_Actor = sample_overseer 4,
      GateIn_ExpectedGraphRevision = 3, GateIn_EvidenceMatches = True, GateIn_ProducersVerified = True,
      GateIn_SuccessorOfferedOrStarted = True, GateIn_FreshSnapshot = False,
      GateIn_RevalidationReceiptID = '''', GateIn_SinkSettled = False\<rparr>"

definition sample_hold_in :: "Actor \<Rightarrow> Actor \<Rightarrow> HoldTransitionInput" where
  "sample_hold_in owner actor =
     \<lparr>HoldIn_Hold = \<lparr>Hold_ID = ''h1'', Hold_RunID = ''run'',
        Hold_Scope = \<lparr>Scope_Kind = HoldScopeRun, Scope_BranchRootTaskID = ''''\<rparr>, Hold_Owner = owner,
        Hold_GraphRevision = 3, Hold_ResolvedTaskIDs = [], Hold_State = HoldActive, Hold_Reason = ''stop'',
        Hold_CreatedAt = 5, Hold_ReleasedAt = None\<rparr>,
      HoldIn_Event = HoldEventRelease, HoldIn_Actor = actor, HoldIn_ActorScopeCoversRun = True,
      HoldIn_BranchRootExists = False, HoldIn_ClosureRecomputed = False\<rparr>"

definition sample_activation :: "ActivationState \<Rightarrow> int64 \<Rightarrow> Activation" where
  "sample_activation s e =
     \<lparr>Activation_ID = ''a'', Activation_RunID = ''run'', Activation_Epoch = e, Activation_Purpose = '''',
      Activation_GraphRevision = 3, Activation_DispatchIdentity = ''d'', Activation_ReadyAt = 1,
      Activation_ReadyTieID = '''', Activation_Principal = ''reviewer'', Activation_State = s,
      Activation_LeaseToken = ''t'', Activation_LeaseExpiresAt = Some 100, Activation_Deadline = Some 90,
      Activation_IncidentID = '''', Activation_TurnsUsed = 0, Activation_RecoveredCount = 0,
      Activation_OperatorDecisions = 0, Activation_ConsumedEventCursor = 0,
      Activation_Outcome = ActivationOutcomeNone, Activation_StartedAt = None, Activation_ClosedAt = None\<rparr>"

definition sample_act_in :: "ActivationState \<Rightarrow> int64 \<Rightarrow> ActivationEvent \<Rightarrow> ActivationTransitionInput" where
  "sample_act_in s e ev =
     \<lparr>ActIn_Activation = sample_activation s e, ActIn_Event = ev, ActIn_Actor = sample_operator,
      ActIn_Supervised = True, ActIn_InboxNonEmpty = True, ActIn_ActivationBudgetRemaining = True,
      ActIn_TurnsRemaining = True, ActIn_OtherValidActivation = False, ActIn_LeaseValid = True,
      ActIn_ExpectedEpoch = e, ActIn_RevisionMatches = True, ActIn_ExecutionObserved = True,
      ActIn_RuntimeProvenStopped = True, ActIn_RecoveryComplete = True, ActIn_OperatorAuthorized = True\<rparr>"

definition sample_incident_in :: "IncidentState \<Rightarrow> IncidentEvent \<Rightarrow> IncidentTransitionInput" where
  "sample_incident_in s ev =
     \<lparr>IncIn_Incident = \<lparr>Incident_ID = ''i1'', Incident_RunID = ''run'', Incident_SourceEventID = ''e'',
        Incident_SourceTaskID = ''build'', Incident_SourceAttemptID = ''build-1'', Incident_GateID = '''',
        Incident_Revision = 2, Incident_RequiredDisposition = DispositionOperatorAction, Incident_State = s,
        Incident_Reason = ''blocked'', Incident_Resolution = None, Incident_OpenedAt = 4,
        Incident_Recovery = None\<rparr>,
      IncIn_Event = ev, IncIn_Actor = sample_operator, IncIn_ReasonChangedOrThresholdCrossed = True,
      IncIn_ActorScopeCoversRun = True, IncIn_MatchingGateIncident = True, IncIn_TaskTerminallyFailed = True,
      IncIn_ExpectedRevision = 2\<rparr>"

definition sample_config :: SupervisionConfig where
  "sample_config =
     \<lparr>Config_Route = \<lparr>Route_WorkerID = '''', Route_ProviderInstanceID = ''claudeAgent'', Route_Model = ''opus'',
        Route_Options = [], Route_QuotaPoolID = ''pool''\<rparr>,
      Config_PromptArtifactID = ''prompt'', Config_MaxActivations = 5, Config_MaxTurnsPerActivation = 2,
      Config_ActivationDeadline = hour, Config_IdleEscalationAfter = 0,
      Config_Escalation = \<lparr>Escalation_NotifyThread = False, Escalation_ThreadID = ''''\<rparr>,
      Config_Recovery = None\<rparr>"

definition sample_record :: "int64 \<Rightarrow> SupervisionRecord" where
  "sample_record e =
     \<lparr>Record_RunID = ''run'', Record_Config = sample_config, Record_EventCursor = 0,
      Record_ActivationEpoch = e, Record_ActivationsUsed = 1, Record_BudgetGrantedActivations = 0,
      Record_Revision = 1, Record_CreatedAt = 1, Record_UpdatedAt = 1, Record_ClosedByCancel = None\<rparr>"

lemma sample_not_blank [simp]: "\<not> blank ''ops''" "\<not> blank ''reviewer''" "\<not> blank ''t''"
  by (rule not_blank, simp add: graphic_def)+

lemmas sample_defs = sample_operator_def sample_overseer_def sample_gate_def sample_gate_in_def
  sample_hold_in_def sample_activation_def sample_act_in_def sample_incident_in_def sample_record_def
  sample_config_def

lemma sample_valid [simp]: "valid_actor sample_operator" "valid_actor (sample_overseer e)"
  by (simp_all add: valid_actor_def sample_defs Actor_Validate_None)

section \<open>Gates\<close>

text \<open>
  C1. No gate is accepted without a review: in any sequence of requests that takes a gate from
  another state to \<open>accepted\<close>, some request accepted it while it was ready for review, by a
  valid actor, naming the graph revision the gate had and evidence that still matched, before
  the run settled.
\<close>

theorem gate_accepted_only_by_review:
  assumes "machine_run GateTransition gate_source (\<lambda>s. s) s reqs GateAccepted" and "s \<noteq> GateAccepted"
  shows "\<exists>i \<in> set reqs. GateIn_Event i = GateEventAccept \<and> gate_source i = GateReadyForReview \<and>
     valid_actor (GateIn_Actor i) \<and>
     GateIn_ExpectedGraphRevision i = Gate_GraphRevision (GateIn_Gate i) \<and>
     GateIn_EvidenceMatches i \<and> \<not> GateIn_SinkSettled i"
  using assms by (rule gate_run_accepted)

theorem gate_accepted_only_by_review_witness:
  "machine_run GateTransition gate_source (\<lambda>s. s) GateReadyForReview
     [sample_gate_in GateReadyForReview GateEventAccept] GateAccepted \<and>
   (\<exists>i \<in> set [sample_gate_in GateReadyForReview GateEventAccept]. GateIn_Event i = GateEventAccept \<and>
     gate_source i = GateReadyForReview \<and> valid_actor (GateIn_Actor i) \<and>
     GateIn_ExpectedGraphRevision i = Gate_GraphRevision (GateIn_Gate i) \<and>
     GateIn_EvidenceMatches i \<and> \<not> GateIn_SinkSettled i)"
proof -
  have run: "machine_run GateTransition gate_source (\<lambda>s. s) GateReadyForReview
     [sample_gate_in GateReadyForReview GateEventAccept] GateAccepted"
    by (simp add: GateTransition_def gate_source_def sample_defs Actor_Validate_def)
  show ?thesis using gate_accepted_only_by_review [OF run] run by blast
qed


text \<open>
  A rejected or escalated gate is not reopened by the overseer: in any sequence of requests
  that takes a held or escalated gate to \<open>accepted\<close>, some request that moved it out of \<open>held\<close> or
  \<open>escalated\<close> was an operator's reconsideration with a fresh evidence snapshot, or newly verified
  producer evidence.
\<close>

theorem gate_reopened_only_by_operator_or_new_evidence:
  assumes "machine_run GateTransition gate_source (\<lambda>s. s) s reqs GateAccepted"
    and "s \<in> {GateHeld, GateEscalated}"
  shows "\<exists>i \<in> set reqs. gate_source i \<in> {GateHeld, GateEscalated} \<and>
     (GateIn_Event i = GateEventReconsider \<and> Actor_Kind (GateIn_Actor i) = ActorOperator
        \<and> GateIn_FreshSnapshot i
      \<or> GateIn_Event i = GateEventNewProducerEvidence \<and> GateIn_ProducersVerified i)"
proof -
  let ?P = "\<lambda>x. x \<notin> {GateHeld, GateEscalated, GateCancelled}"
  from assms(2) have "\<not> ?P s" by auto
  from gate_machine.run_entry [where P = ?P, OF assms(1) this]
  obtain i out where i: "i \<in> set reqs" "\<not> ?P (gate_source i)" "?P out" "gate_row i (gate_source i) out"
    by auto
  from i(4,2,3) have "gate_source i \<in> {GateHeld, GateEscalated} \<and>
     (GateIn_Event i = GateEventReconsider \<and> Actor_Kind (GateIn_Actor i) = ActorOperator
        \<and> GateIn_FreshSnapshot i
      \<or> GateIn_Event i = GateEventNewProducerEvidence \<and> GateIn_ProducersVerified i)"
    by (induction rule: gate_row.induct) auto
  with i(1) show ?thesis by blast
qed

definition sample_reopening :: "GateTransitionInput list" where
  "sample_reopening =
     [sample_gate_in GateHeld GateEventAccept,
      (sample_gate_in GateHeld GateEventReconsider)
        \<lparr>GateIn_Actor := sample_operator, GateIn_FreshSnapshot := True\<rparr>,
      sample_gate_in GateReadyForReview GateEventAccept]"

theorem gate_reopened_only_by_operator_or_new_evidence_witness:
  "machine_run GateTransition gate_source (\<lambda>s. s) GateHeld sample_reopening GateAccepted \<and>
   (\<exists>i \<in> set sample_reopening. gate_source i \<in> {GateHeld, GateEscalated} \<and>
     (GateIn_Event i = GateEventReconsider \<and> Actor_Kind (GateIn_Actor i) = ActorOperator
        \<and> GateIn_FreshSnapshot i
      \<or> GateIn_Event i = GateEventNewProducerEvidence \<and> GateIn_ProducersVerified i))"
proof -
  have run: "machine_run GateTransition gate_source (\<lambda>s. s) GateHeld sample_reopening GateAccepted"
    by (simp add: sample_reopening_def GateTransition_def gate_source_def sample_defs Actor_Validate_def)
  show ?thesis using gate_reopened_only_by_operator_or_new_evidence [OF run] run by blast
qed

text \<open>
  An amendment that touches an accepted gate's scope invalidates the acceptance whether or not
  a protected task has already been offered or started; only a replaced producer is refused in
  that situation. (The comment on \<open>GateAcceptanceStands\<close> says \<open>GateTransition\<close> refuses any such
  invalidation; the refusal for amendments is left to the caller.)
\<close>

theorem accepted_gate_invalidation:
  assumes "gate_source i = GateAccepted" and "\<not> GateIn_SinkSettled i"
    and "GateIn_SuccessorOfferedOrStarted i"
  shows "GateTransition (i\<lparr>GateIn_Event := GateEventAmendmentTouchesScope\<rparr>) = Inr GatePendingEvidence \<and>
         GateTransition (i\<lparr>GateIn_Event := GateEventProducerReplaced\<rparr>) = Inl ErrSupervisionPrerequisite"
  using assms by (simp add: GateTransition_def gate_source_def split: if_splits)

theorem accepted_gate_invalidation_witness:
  "GateTransition (sample_gate_in GateAccepted GateEventAmendmentTouchesScope) = Inr GatePendingEvidence \<and>
   GateTransition (sample_gate_in GateAccepted GateEventProducerReplaced) = Inl ErrSupervisionPrerequisite"
proof -
  have "gate_source (sample_gate_in GateAccepted GateEventAccept) = GateAccepted"
    "\<not> GateIn_SinkSettled (sample_gate_in GateAccepted GateEventAccept)"
    "GateIn_SuccessorOfferedOrStarted (sample_gate_in GateAccepted GateEventAccept)"
    by (simp_all add: gate_source_def sample_defs)
  from accepted_gate_invalidation [OF this] show ?thesis by (simp add: sample_gate_in_def)
qed

section \<open>Holds\<close>

text \<open>
  C3. A hold is released only by the end of its run, by an operator, or by the very actor that
  placed it: in any sequence of requests against one hold that takes it from active to released,
  some request was one of these. An overseer therefore never clears an operator's hold, and a
  replacement overseer at another epoch never clears its predecessor's.
\<close>

theorem hold_released_only_by_owner_or_operator:
  assumes "machine_run HoldTransition hold_source (\<lambda>s. s) HoldActive reqs HoldReleased"
  shows "\<exists>i \<in> set reqs. HoldIn_Event i = HoldEventRunSettled \<or>
     HoldIn_Event i = HoldEventRelease \<and> valid_actor (HoldIn_Actor i) \<and>
     (Actor_Kind (HoldIn_Actor i) = ActorOperator \<or>
      Actor_Kind (HoldIn_Actor i) = Actor_Kind (Hold_Owner (HoldIn_Hold i)) \<and>
      Actor_Principal (HoldIn_Actor i) = Actor_Principal (Hold_Owner (HoldIn_Hold i)) \<and>
      Actor_ActivationEpoch (HoldIn_Actor i) = Actor_ActivationEpoch (Hold_Owner (HoldIn_Hold i)))"
proof -
  from hold_machine.run_entry [where P = "\<lambda>x. x = HoldReleased", OF assms]
  obtain i where i: "i \<in> set reqs" "hold_source i \<noteq> HoldReleased" "hold_row i (hold_source i) HoldReleased"
    by auto
  have "HoldIn_Event i = HoldEventRunSettled \<or>
      HoldIn_Event i = HoldEventRelease \<and> may_release (HoldIn_Actor i) (HoldIn_Hold i)"
    using i(3) by cases auto
  with i(1) show ?thesis
    by (intro bexI [of _ i])
      (auto simp: may_release_def Actor_SameIdentity_def valid_actor_def Actor_Validate_None split: if_splits)
qed

theorem hold_released_only_by_owner_or_operator_witness:
  "HoldTransition (sample_hold_in sample_operator (sample_overseer 4)) = Inl ErrSupervisionUnauthorizedActor \<and>
   HoldTransition (sample_hold_in (sample_overseer 3) (sample_overseer 4)) = Inl ErrSupervisionUnauthorizedActor \<and>
   machine_run HoldTransition hold_source (\<lambda>s. s) HoldActive
     [sample_hold_in (sample_overseer 4) (sample_overseer 4)] HoldReleased \<and>
   (\<exists>i \<in> set [sample_hold_in (sample_overseer 4) (sample_overseer 4)].
     HoldIn_Event i = HoldEventRunSettled \<or>
     HoldIn_Event i = HoldEventRelease \<and> valid_actor (HoldIn_Actor i) \<and>
     (Actor_Kind (HoldIn_Actor i) = ActorOperator \<or>
      Actor_Kind (HoldIn_Actor i) = Actor_Kind (Hold_Owner (HoldIn_Hold i)) \<and>
      Actor_Principal (HoldIn_Actor i) = Actor_Principal (Hold_Owner (HoldIn_Hold i)) \<and>
      Actor_ActivationEpoch (HoldIn_Actor i) = Actor_ActivationEpoch (Hold_Owner (HoldIn_Hold i))))"
proof -
  have run: "machine_run HoldTransition hold_source (\<lambda>s. s) HoldActive
     [sample_hold_in (sample_overseer 4) (sample_overseer 4)] HoldReleased"
    by (simp add: HoldTransition_def hold_source_def sample_defs Actor_Validate_def)
  have "HoldTransition (sample_hold_in sample_operator (sample_overseer 4)) = Inl ErrSupervisionUnauthorizedActor"
    "HoldTransition (sample_hold_in (sample_overseer 3) (sample_overseer 4)) = Inl ErrSupervisionUnauthorizedActor"
    by (simp_all add: HoldTransition_def sample_defs Actor_Validate_def Actor_SameIdentity_def)
  with hold_released_only_by_owner_or_operator [OF run] run show ?thesis by blast
qed

section \<open>Activations\<close>

text \<open>
  C4. Every confirmed activation of a run has its own epoch: in any sequence of requests against
  the run's activation record, the epochs of the confirmed dispatches are strictly increasing,
  as long as no epoch reaches the largest \<open>int64\<close>. Every identity of an activation is derived
  from the run and its epoch, so two review rounds never share one.
\<close>

theorem activation_epochs_strictly_increase:
  assumes "machine_run ActivationTransition act_source act_target p reqs q"
    and "\<And>i. i \<in> set reqs \<Longrightarrow> in_int64 (Activation_Epoch (ActIn_Activation i))
              \<and> Activation_Epoch (ActIn_Activation i) < max_int64"
  shows "sorted_wrt (<) (confirmed_epochs reqs)"
  using confirmed_epochs_above_floor [OF assms(1)] assms(2) by (simp add: epoch_in_range_def)

definition sample_two_rounds :: "ActivationTransitionInput list" where
  "sample_two_rounds =
     [sample_act_in ActivationIdle 1 ActivationEventTriggerFired,
      sample_act_in ActivationPendingDispatch 1 ActivationEventDispatchConfirmed,
      sample_act_in ActivationActive 1 ActivationEventLimitReached,
      sample_act_in ActivationSpent 1 ActivationEventTriggerFired,
      sample_act_in ActivationSpent 1 ActivationEventEventsArrived,
      sample_act_in ActivationIdle 2 ActivationEventTriggerFired,
      sample_act_in ActivationPendingDispatch 2 ActivationEventDispatchConfirmed]"

lemmas sample_act_evals = sample_act_in_def sample_activation_def sample_operator_def
  ActivationTransition_def act_stay_def act_source_def act_target_def Actor_Validate_def
  wrap64_def

theorem activation_epochs_strictly_increase_witness:
  "machine_run ActivationTransition act_source act_target (ActivationIdle, 1) sample_two_rounds
     (ActivationActive, 2) \<and>
   confirmed_epochs sample_two_rounds = [1, 2] \<and> sorted_wrt (<) (confirmed_epochs sample_two_rounds)"
proof -
  have run: "machine_run ActivationTransition act_source act_target (ActivationIdle, 1) sample_two_rounds
     (ActivationActive, 2)"
    by (simp add: sample_two_rounds_def sample_act_evals)
  have rng: "\<And>i. i \<in> set sample_two_rounds \<Longrightarrow> in_int64 (Activation_Epoch (ActIn_Activation i))
              \<and> Activation_Epoch (ActIn_Activation i) < max_int64"
    by (auto simp: sample_two_rounds_def sample_act_in_def sample_activation_def in_int64_def
          max_int64_def min_int64_def)
  have "confirmed_epochs sample_two_rounds = [1, 2]"
    by (simp add: confirmed_epochs_def confirms_dispatch_def sample_two_rounds_def sample_act_evals)
  with run activation_epochs_strictly_increase [OF run rng] show ?thesis by blast
qed

text \<open>
  C5. The activation machine is the documented table of section 3.3 extended with the code's
  operator-authorized replacement of a pending dispatch (two rows the document does not have):
  a request succeeds with state and epoch \<open>t\<close> exactly when the table has a satisfied row.
\<close>

theorem activation_transition_refines_table:
  "(\<exists>r. ActivationTransition i = Inr r \<and> act_target r = t) \<longleftrightarrow> activation_row i (act_source i) t"
  by (rule ActivationTransition_row)

text \<open>
  One started activation can be charged twice: an activation whose dispatch was confirmed
  (which counts against the run's budget) and whose thread is then lost with its runtime proven
  stopped counts again when its execution was observed.
\<close>

theorem lost_activation_charged_twice:
  assumes "act_source i = (ActivationPendingDispatch, e)" and "ActIn_Event i = ActivationEventDispatchConfirmed"
    and "ActIn_LeaseValid i"
    and "act_source j = (ActivationActive, e)" and "ActIn_Event j = ActivationEventThreadLost"
    and "ActIn_RuntimeProvenStopped j" and "ActIn_ExecutionObserved j"
  shows "\<exists>r r'. ActivationTransition i = Inr r \<and> ActOut_State r = ActivationActive \<and> ActOut_CountsTowardBudget r \<and>
     ActivationTransition j = Inr r' \<and> ActOut_State r' = ActivationIdle \<and> ActOut_CountsTowardBudget r'"
  using assms by (simp add: ActivationTransition_def act_source_def Let_def split: if_splits)

theorem lost_activation_charged_twice_witness:
  "\<exists>r r'. ActivationTransition (sample_act_in ActivationPendingDispatch 1 ActivationEventDispatchConfirmed) = Inr r \<and>
     ActOut_State r = ActivationActive \<and> ActOut_CountsTowardBudget r \<and>
     ActivationTransition (sample_act_in ActivationActive 1 ActivationEventThreadLost) = Inr r' \<and>
     ActOut_State r' = ActivationIdle \<and> ActOut_CountsTowardBudget r'"
  by (rule lost_activation_charged_twice [where e = 1])
    (simp_all add: act_source_def sample_act_in_def sample_activation_def)

text \<open>
  An operator takeover fences the replaced overseer out: once the run's record carries the
  epoch the takeover produced, an overseer actor at the replaced activation's epoch is refused,
  whatever activation record it presents and at whatever time.
\<close>

theorem takeover_fences_overseer:
  assumes "ActivationTransition i = Inr r" and "ActIn_Event i = ActivationEventOperatorTakeover"
    and "in_int64 (Activation_Epoch (ActIn_Activation i))"
    and "Activation_Epoch (ActIn_Activation i) < max_int64"
    and "Record_ActivationEpoch rec = ActOut_Epoch r"
    and "Actor_Kind a = ActorOverseer"
    and "Actor_ActivationEpoch a = Activation_Epoch (ActIn_Activation i)"
  shows "AuthorizeSupervisionActor rec act a now \<noteq> None"
proof -
  from assms(1) have "activation_row i (act_source i) (act_target r)"
    using ActivationTransition_row by blast
  then have "snd (act_target r) = next_epoch (snd (act_source i))"
    using assms(2)
    by (rule activation_row_takeover)
  with assms(3,4) have "ActOut_Epoch r = Activation_Epoch (ActIn_Activation i) + 1"
    by (simp add: act_target_def next_epoch_def wrap64_Suc)
  with assms(5-7) show ?thesis by (simp add: AuthorizeSupervisionActor_overseer)
qed

theorem takeover_fences_overseer_witness:
  "AuthorizeSupervisionActor (sample_record 4) (sample_activation ActivationActive 4) (sample_overseer 4) 50 = None \<and>
   ActivationTransition (sample_act_in ActivationActive 4 ActivationEventOperatorTakeover) =
     Inr \<lparr>ActOut_State = ActivationRevoked, ActOut_Epoch = 5, ActOut_CountsTowardBudget = False,
          ActOut_FreshBudget = False\<rparr> \<and>
   AuthorizeSupervisionActor (sample_record 5) (sample_activation ActivationActive 4) (sample_overseer 4) 50 \<noteq> None"
proof -
  have t: "ActivationTransition (sample_act_in ActivationActive 4 ActivationEventOperatorTakeover) =
     Inr \<lparr>ActOut_State = ActivationRevoked, ActOut_Epoch = 5, ActOut_CountsTowardBudget = False,
          ActOut_FreshBudget = False\<rparr>"
    by (simp add: sample_act_evals)
  have "AuthorizeSupervisionActor (sample_record 5) (sample_activation ActivationActive 4) (sample_overseer 4) 50 \<noteq> None"
    by (rule takeover_fences_overseer [OF t])
      (simp_all add: sample_defs in_int64_def max_int64_def min_int64_def)
  moreover have "AuthorizeSupervisionActor (sample_record 4) (sample_activation ActivationActive 4)
      (sample_overseer 4) 50 = None"
    by (simp add: AuthorizeSupervisionActor_overseer sample_defs ActivationLeaseLive_def
          ActivationPastDeadline_def RecoveryActivationRepair_def)
  ultimately show ?thesis using t by blast
qed

text \<open>
  Decision authority only lapses with time: an overseer that is authorized by a record and an
  activation at some moment was authorized by them at every earlier moment, and it holds the
  run's current activation, active, not a repair activation, inside its lease and deadline.
\<close>

theorem overseer_authority_lapses:
  assumes "Actor_Kind a = ActorOverseer" and "AuthorizeSupervisionActor rec act a t' = None" and "t \<le> t'"
  shows "AuthorizeSupervisionActor rec act a t = None \<and>
     Activation_Epoch act = Record_ActivationEpoch rec \<and> Actor_ActivationEpoch a = Activation_Epoch act \<and>
     Activation_State act = ActivationActive \<and> Activation_Purpose act \<noteq> RecoveryActivationRepair \<and>
     (\<exists>expiry. Activation_LeaseExpiresAt act = Some expiry \<and> t' < expiry) \<and>
     (\<forall>d. Activation_Deadline act = Some d \<longrightarrow> t' < d)"
proof -
  from assms(1,2) have live: "ActivationLeaseLive act t'" and dl: "\<not> ActivationPastDeadline act t'"
    by (simp_all add: AuthorizeSupervisionActor_overseer)
  from live assms(3) have "ActivationLeaseLive act t" by (rule ActivationLeaseLive_earlier)
  moreover from dl assms(3) have "\<not> ActivationPastDeadline act t"
    using ActivationPastDeadline_later by blast
  ultimately have "AuthorizeSupervisionActor rec act a t = None"
    using assms(1,2) by (simp add: AuthorizeSupervisionActor_overseer)
  with assms(1,2) live dl show ?thesis
    by (auto simp: AuthorizeSupervisionActor_overseer ActivationLeaseLive_def ActivationPastDeadline_def
          split: if_splits option.splits)
qed

theorem overseer_authority_lapses_witness:
  "AuthorizeSupervisionActor (sample_record 4) (sample_activation ActivationActive 4) (sample_overseer 4) 50 = None \<and>
   AuthorizeSupervisionActor (sample_record 4) (sample_activation ActivationActive 4) (sample_overseer 4) 90
     = Some ErrSupervisionPrerequisite"
proof -
  have "AuthorizeSupervisionActor (sample_record 4) (sample_activation ActivationActive 4) (sample_overseer 4) 80 = None"
    by (simp add: AuthorizeSupervisionActor_overseer sample_defs ActivationLeaseLive_def
          ActivationPastDeadline_def RecoveryActivationRepair_def)
  from overseer_authority_lapses [OF _ this, of 50] show ?thesis
    by (simp add: sample_defs AuthorizeSupervisionActor_def Actor_Validate_def
          ActivationLeaseLive_def ActivationPastDeadline_def RecoveryActivationRepair_def)
qed

section \<open>Incidents\<close>

text \<open>
  An escalation stays unresolved until an operator acts: any sequence of requests that takes
  an escalated incident to another state contains a valid operator's resolution at the
  incident's current revision, a valid operator's cancellation, or the cancellation of the run.
\<close>

theorem escalated_incident_needs_operator:
  assumes "machine_run IncidentTransition incident_source (\<lambda>s. s) IncidentEscalated reqs s"
    and "s \<noteq> IncidentEscalated"
  shows "s = IncidentResolved \<and> (\<exists>i \<in> set reqs.
     IncIn_Event i = IncidentEventRunCancelled \<or>
     valid_actor (IncIn_Actor i) \<and> Actor_Kind (IncIn_Actor i) = ActorOperator \<and>
     (IncIn_Event i = IncidentEventOperatorCancel \<or>
      IncIn_Event i = IncidentEventOperatorResolve
        \<and> IncIn_ExpectedRevision i = Incident_Revision (IncIn_Incident i)))"
proof -
  have "s \<in> {IncidentEscalated, IncidentResolved}"
    by (rule incident_machine.run_invariant [where I = "\<lambda>x. x \<in> {IncidentEscalated, IncidentResolved}",
          OF _ assms(1)]) (auto elim: incident_row.cases)
  with assms(2) have s: "s = IncidentResolved" by blast
  from incident_machine.run_entry [where P = "\<lambda>x. x \<noteq> IncidentEscalated", OF assms(1)] assms(2)
  obtain i out where i: "i \<in> set reqs" "incident_source i = IncidentEscalated" "incident_row i IncidentEscalated out"
    by auto
  from i(3) show ?thesis unfolding incident_row_simps using s i(1) by blast
qed

theorem escalated_incident_needs_operator_witness:
  "machine_run IncidentTransition incident_source (\<lambda>s. s) IncidentEscalated
     [(sample_incident_in IncidentEscalated IncidentEventConcludeFailure)\<lparr>IncIn_Actor := sample_overseer 1\<rparr>,
      sample_incident_in IncidentEscalated IncidentEventOperatorResolve] IncidentResolved \<and>
   (\<exists>i \<in> set [(sample_incident_in IncidentEscalated IncidentEventConcludeFailure)\<lparr>IncIn_Actor := sample_overseer 1\<rparr>,
      sample_incident_in IncidentEscalated IncidentEventOperatorResolve].
     IncIn_Event i = IncidentEventRunCancelled \<or>
     valid_actor (IncIn_Actor i) \<and> Actor_Kind (IncIn_Actor i) = ActorOperator \<and>
     (IncIn_Event i = IncidentEventOperatorCancel \<or>
      IncIn_Event i = IncidentEventOperatorResolve
        \<and> IncIn_ExpectedRevision i = Incident_Revision (IncIn_Incident i)))"
proof -
  have run: "machine_run IncidentTransition incident_source (\<lambda>s. s) IncidentEscalated
     [(sample_incident_in IncidentEscalated IncidentEventConcludeFailure)\<lparr>IncIn_Actor := sample_overseer 1\<rparr>,
      sample_incident_in IncidentEscalated IncidentEventOperatorResolve] IncidentResolved"
    by (simp add: IncidentTransition_def incident_source_def sample_defs Actor_Validate_def)
  show ?thesis using escalated_incident_needs_operator [OF run] run by blast
qed

end
