(* ===== verification/GoFloat.thy ===== *)
theory GoFloat
  imports GoPrelude "HOL-Library.Log_Nat"
begin

text \<open>
  The \<open>float64\<close> arithmetic of the quota code. A value is a rational, an infinity (\<open>True\<close> for
  the negative one) or not a number; an operation computes on rationals and rounds once to the
  nearest value with 53 significant bits and least exponent -1074, ties to even, and a
  magnitude of \<open>2 ^ 1024\<close> or more becomes infinite. The two zeros are one value: no modelled
  operation divides by a negative number. Comparisons with not-a-number are false. The
  conversion of a \<open>float64\<close> to a \<open>time.Duration\<close> truncates; where the value does not fit, Go
  leaves the result to the implementation and the model takes the one of amd64.
\<close>

section \<open>Rounding\<close>

definition exponent_of :: "rat \<Rightarrow> int" where
  "exponent_of x =
     (let (n, d) = quotient_of \<bar>x\<bar>; e = bitlen n - bitlen d
      in if 2 powi e \<le> \<bar>x\<bar> then e else e - 1)"

definition round_even :: "rat \<Rightarrow> int" where
  "round_even x =
     (let f = \<lfloor>x\<rfloor>; r = x - of_int f
      in if r < 1 / 2 then f else if r > 1 / 2 then f + 1 else if even f then f else f + 1)"

definition fl :: "rat \<Rightarrow> rat" where
  "fl x = (let u = 2 powi (max (exponent_of x - 52) (- 1074)) in of_int (round_even (x / u)) * u)"

text \<open>The exponent is the binary logarithm, rounded down.\<close>

lemma exponent_of_correct:
  assumes "x \<noteq> 0"
  shows "2 powi exponent_of x \<le> \<bar>x\<bar>" and "\<bar>x\<bar> < 2 powi (exponent_of x + 1)"
proof -
  obtain n d where q: "quotient_of \<bar>x\<bar> = (n, d)" by (cases "quotient_of \<bar>x\<bar>")
  have d: "0 < d" by (rule quotient_of_denom_pos [OF q])
  have x: "\<bar>x\<bar> = of_int n / of_int d" by (rule quotient_of_div [OF q])
  have n: "0 < n" using assms d x by (metis abs_not_less_zero not_less_iff_gr_or_eq of_int_pos
      zero_less_abs_iff zero_less_divide_iff of_int_0_less_iff)
  have bound: "2 powi (bitlen k - 1) \<le> (of_int k :: rat)" "(of_int k :: rat) < 2 powi bitlen k" if "0 < k" for k
  proof -
    from bitlen_bounds [OF that] have b: "2 ^ nat (bitlen k - 1) \<le> k" "k < 2 ^ nat (bitlen k)" by auto
    have "bitlen k \<noteq> 0" using b(2) that by auto
    then have "1 \<le> bitlen k" using bitlen_nonneg [of k] by simp
    then have e: "(2 :: rat) powi (bitlen k - 1) = of_int (2 ^ nat (bitlen k - 1))" "(2 :: rat) powi bitlen k = of_int (2 ^ nat (bitlen k))"
      by (simp_all add: power_int_def)
    show "2 powi (bitlen k - 1) \<le> (of_int k :: rat)" "(of_int k :: rat) < 2 powi bitlen k"
      unfolding e of_int_le_iff of_int_less_iff using b by simp_all
  qed
  let ?e = "bitlen n - bitlen d"
  have powi: "(2 :: rat) powi (i - j) = 2 powi i / 2 powi j" for i j by (simp add: power_int_diff)
  have "\<bar>x\<bar> < 2 powi bitlen n / 2 powi (bitlen d - 1)"
    unfolding x using bound(2) [OF n] bound(1) [OF d] d n by (intro frac_less) simp_all
  then have upper: "\<bar>x\<bar> < 2 powi (?e + 1)"
    using powi [of "bitlen n" "bitlen d - 1"] by (simp add: algebra_simps)
  have "2 powi (bitlen n - 1) / 2 powi bitlen d \<le> \<bar>x\<bar>"
    unfolding x using bound(1) [OF n] bound(2) [OF d] d n by (intro frac_le) simp_all
  then have lower: "2 powi (?e - 1) \<le> \<bar>x\<bar>"
    using powi [of "bitlen n - 1" "bitlen d"] by (simp add: algebra_simps)
  show "2 powi exponent_of x \<le> \<bar>x\<bar>" "\<bar>x\<bar> < 2 powi (exponent_of x + 1)"
    using upper lower by (auto simp: exponent_of_def q Let_def)
qed

text \<open>Rounding keeps the sign and moves by at most half a unit.\<close>

lemma round_even_near: "\<bar>of_int (round_even x) - x\<bar> \<le> 1 / 2"
proof -
  have "of_int \<lfloor>x\<rfloor> \<le> x" "x < of_int \<lfloor>x\<rfloor> + 1" by linarith+
  then show ?thesis by (auto simp: round_even_def Let_def abs_le_iff)
qed

lemma round_even_mono: "x \<le> y \<Longrightarrow> round_even x \<le> round_even y"
proof -
  assume le: "x \<le> y"
  then have f: "\<lfloor>x\<rfloor> \<le> \<lfloor>y\<rfloor>" by (rule floor_mono)
  show ?thesis
  proof (cases "\<lfloor>x\<rfloor> = \<lfloor>y\<rfloor>")
    case True
    with le show ?thesis by (auto simp: round_even_def Let_def)
  next
    case False
    with f show ?thesis by (auto simp: round_even_def Let_def)
  qed
qed

lemma fl_0 [simp]: "fl 0 = 0"
  by (simp add: fl_def round_even_def Let_def)

lemma fl_nonneg: "0 \<le> x \<Longrightarrow> 0 \<le> fl x"
proof -
  assume "0 \<le> x"
  let ?u = "2 powi (max (exponent_of x - 52) (- 1074)) :: rat"
  have "round_even 0 \<le> round_even (x / ?u)"
    using \<open>0 \<le> x\<close> by (intro round_even_mono) simp
  then have "0 \<le> round_even (x / ?u)" by (simp add: round_even_def)
  then show ?thesis by (simp add: fl_def Let_def)
qed

section \<open>Values and operations\<close>

datatype float64 = Fin rat | Infinite bool | NaN

text \<open>The least magnitude that is too large, \<open>2 ^ 1024\<close>, written out so that it evaluates.\<close>

definition float_limit :: rat where
  "float_limit = 179769313486231590772930519078902473361797697894230657273430081157732675805500963132708477322407536021120113879871393357658789768814416622492847430639474124377767893424865485276302219601246094119453082952085005768838150682342462881473913110540827237163350510684586298239947245938479716304835356329624224137216"

lemma float_limit_eq: "float_limit = 2 ^ 1024"
  by (simp add: float_limit_def)

definition round64 :: "rat \<Rightarrow> float64" where
  "round64 x = (let y = fl x in if float_limit \<le> \<bar>y\<bar> then Infinite (x < 0) else Fin y)"

text \<open>A value that has 53 significant bits is not changed.\<close>

lemma fl_exact:
  assumes "x = of_int k * 2 powi j" and "\<bar>k\<bar> < 2 ^ 53" and "- 1074 \<le> j"
  shows "fl x = x"
proof (cases "x = 0")
  case False
  let ?m = "max (exponent_of x - 52) (- 1074)"
  have "2 powi exponent_of x \<le> \<bar>x\<bar>" by (rule exponent_of_correct(1) [OF False])
  also have "\<bar>x\<bar> = of_int \<bar>k\<bar> * 2 powi j" by (simp add: assms(1) abs_mult)
  also have "of_int \<bar>k\<bar> * 2 powi j < (2 ^ 53 :: rat) * 2 powi j"
    using assms(2) by (intro mult_strict_right_mono) (simp_all flip: of_int_less_iff [where ?'a = rat])
  also have "(2 ^ 53 :: rat) * 2 powi j = 2 powi (53 + j)" by (simp add: power_int_add)
  finally have less: "(2 :: rat) powi exponent_of x < 2 powi (53 + j)" .
  have "exponent_of x < 53 + j"
  proof (rule ccontr)
    assume "\<not> exponent_of x < 53 + j"
    then have "(2 :: rat) powi (53 + j) \<le> 2 powi exponent_of x" by (intro power_int_increasing) simp_all
    with less show False by simp
  qed
  with assms(3) have m: "0 \<le> j - ?m" by simp
  have "x / 2 powi ?m = of_int k * 2 powi (j - ?m)" by (simp add: assms(1) power_int_diff)
  also have "\<dots> = of_int (k * 2 ^ nat (j - ?m))" using m by (simp add: power_int_def)
  finally have "of_int (round_even (x / 2 powi ?m)) = x / 2 powi ?m" by (simp add: round_even_def Let_def)
  then show ?thesis by (simp add: fl_def Let_def)
qed simp

text \<open>A code equation that recognises such values by their denominator.\<close>

lemma round64_code [code]:
  "round64 x =
     (let (n, d) = quotient_of x
      in if \<bar>n\<bar> < 9007199254740992 \<and> (d = 1 \<or> d = 2 \<or> d = 4 \<or> d = 8) then Fin x
         else let y = fl x in if float_limit \<le> \<bar>y\<bar> then Infinite (x < 0) else Fin y)"
proof -
  obtain n d where q: "quotient_of x = (n, d)" by (cases "quotient_of x")
  have x: "x = of_int n / of_int d" by (rule quotient_of_div [OF q])
  show ?thesis
  proof (cases "\<bar>n\<bar> < 9007199254740992 \<and> (d = 1 \<or> d = 2 \<or> d = 4 \<or> d = 8)")
    case True
    then obtain k :: nat where k: "d = 2 ^ k" "k \<le> 3"
      by (elim conjE disjE) (rule that [of 0], simp, simp, rule that [of 1], simp, simp, rule that [of 2], simp, simp, rule that [of 3], simp_all)
    have "x = of_int n * 2 powi (- int k)" using x k(1) by (simp add: power_int_minus divide_inverse)
    then have "fl x = x" using True k(2) by (intro fl_exact [of _ n "- int k"]) simp_all
    moreover have "\<bar>x\<bar> < float_limit"
    proof -
      have "\<bar>x\<bar> = of_int \<bar>n\<bar> / of_int d" using x k(1) by (simp add: abs_divide)
      also have "\<dots> \<le> of_int \<bar>n\<bar> / 1" using k(1) by (intro divide_left_mono) simp_all
      also have "(of_int \<bar>n\<bar> :: rat) < of_int 9007199254740992" using True by (simp only: of_int_less_iff)
      finally show ?thesis by (simp add: float_limit_def)
    qed
    ultimately show ?thesis using True q by (simp add: round64_def Let_def)
  next
    case False
    then show ?thesis using q by (auto simp: round64_def Let_def)
  qed
qed

fun f_lt :: "float64 \<Rightarrow> float64 \<Rightarrow> bool" where
  "f_lt (Fin a) (Fin b) = (a < b)"
| "f_lt (Fin a) (Infinite s) = (\<not> s)"
| "f_lt (Infinite s) (Fin b) = s"
| "f_lt (Infinite s) (Infinite s') = (s \<and> \<not> s')"
| "f_lt _ _ = False"

fun f_le :: "float64 \<Rightarrow> float64 \<Rightarrow> bool" where
  "f_le (Fin a) (Fin b) = (a \<le> b)"
| "f_le (Fin a) (Infinite s) = (\<not> s)"
| "f_le (Infinite s) (Fin b) = s"
| "f_le (Infinite s) (Infinite s') = (s \<or> \<not> s')"
| "f_le _ _ = False"

fun f_neg :: "float64 \<Rightarrow> float64" where
  "f_neg (Fin a) = Fin (- a)"
| "f_neg (Infinite s) = Infinite (\<not> s)"
| "f_neg NaN = NaN"

fun f_add :: "float64 \<Rightarrow> float64 \<Rightarrow> float64" where
  "f_add (Fin a) (Fin b) = round64 (a + b)"
| "f_add (Fin a) (Infinite s) = Infinite s"
| "f_add (Infinite s) (Fin b) = Infinite s"
| "f_add (Infinite s) (Infinite s') = (if s = s' then Infinite s else NaN)"
| "f_add _ _ = NaN"

definition f_sub :: "float64 \<Rightarrow> float64 \<Rightarrow> float64" where
  "f_sub x y = f_add x (f_neg y)"

fun f_mul :: "float64 \<Rightarrow> float64 \<Rightarrow> float64" where
  "f_mul (Fin a) (Fin b) = round64 (a * b)"
| "f_mul (Fin a) (Infinite s) = (if a = 0 then NaN else Infinite (s \<noteq> (a < 0)))"
| "f_mul (Infinite s) (Fin b) = (if b = 0 then NaN else Infinite (s \<noteq> (b < 0)))"
| "f_mul (Infinite s) (Infinite s') = Infinite (s \<noteq> s')"
| "f_mul _ _ = NaN"

fun f_div :: "float64 \<Rightarrow> float64 \<Rightarrow> float64" where
  "f_div (Fin a) (Fin b) =
     (if b = 0 then (if a = 0 then NaN else Infinite (a < 0)) else round64 (a / b))"
| "f_div (Fin a) (Infinite s) = Fin 0"
| "f_div (Infinite s) (Fin b) = Infinite (s \<noteq> (b < 0))"
| "f_div _ _ = NaN"

definition f_of_int :: "int \<Rightarrow> float64" where
  "f_of_int i = round64 (of_int i)"

definition trunc :: "rat \<Rightarrow> int" where
  "trunc x = (if 0 \<le> x then \<lfloor>x\<rfloor> else \<lceil>x\<rceil>)"

fun f_to_int64 :: "float64 \<Rightarrow> int64" where
  "f_to_int64 (Fin a) = (if in_int64 (trunc a) then trunc a else min_int64)"
| "f_to_int64 _ = min_int64"

text \<open>\<open>Duration.Minutes\<close>: whole minutes and the fraction are converted separately.\<close>

definition duration_minutes :: "duration \<Rightarrow> float64" where
  "duration_minutes d =
     (let q = (if 0 \<le> d then d div minute else - ((- d) div minute)); r = d - q * minute
      in f_add (f_of_int q) (f_div (f_of_int r) (f_of_int minute)))"

section \<open>Order\<close>

definition f_zero :: float64 where "f_zero = Fin 0"

lemma f_not_le: "\<not> f_le y x \<Longrightarrow> x \<noteq> NaN \<Longrightarrow> y \<noteq> NaN \<Longrightarrow> f_lt x y"
  by (cases x; cases y) auto

lemma f_lt_le: "f_lt x y \<Longrightarrow> f_le x y"
  by (cases x; cases y) auto

lemma f_lt_not_le: "f_lt x y \<Longrightarrow> \<not> f_le y x"
  by (cases x; cases y) auto

lemma f_le_trans: "f_le x y \<Longrightarrow> f_le y z \<Longrightarrow> f_le x z"
  by (cases x; cases y; cases z) auto

lemma f_lt_le_trans: "f_lt x y \<Longrightarrow> f_le y z \<Longrightarrow> f_lt x z"
  by (cases x; cases y; cases z) auto

lemma f_le_lt_trans: "f_le x y \<Longrightarrow> f_lt y z \<Longrightarrow> f_lt x z"
  by (cases x; cases y; cases z) auto

lemma f_le_not_NaN: "f_le x y \<Longrightarrow> x \<noteq> NaN \<and> y \<noteq> NaN"
  by (cases x; cases y) auto

lemma f_lt_not_NaN: "f_lt x y \<Longrightarrow> x \<noteq> NaN \<and> y \<noteq> NaN"
  by (cases x; cases y) auto

lemma round64_nonneg: "0 \<le> x \<Longrightarrow> f_le f_zero (round64 x)"
  using fl_nonneg [of x] by (simp add: round64_def Let_def f_zero_def)

lemma f_div_nonneg:
  "f_lt f_zero x \<Longrightarrow> f_le f_zero y \<Longrightarrow> x \<noteq> Infinite False \<Longrightarrow> f_le f_zero (f_div x y)"
  by (cases x; cases y) (auto simp: f_zero_def intro: round64_nonneg [unfolded f_zero_def])

lemma f_mul_nonneg:
  "f_le f_zero x \<Longrightarrow> f_lt f_zero y \<Longrightarrow> y \<noteq> Infinite False \<Longrightarrow> f_le f_zero (f_mul x y)"
  by (cases x; cases y) (auto simp: f_zero_def intro: round64_nonneg [unfolded f_zero_def])

text \<open>A converted non-negative value is non-negative, unless it did not fit.\<close>

lemma f_to_int64_nonneg: "f_le f_zero x \<Longrightarrow> 0 \<le> f_to_int64 x \<or> f_to_int64 x = min_int64"
  by (cases x) (auto simp: f_zero_def trunc_def)

lemma f_to_int64_in_int64: "in_int64 (f_to_int64 x)"
  by (cases x) (auto simp: in_int64_def max_int64_def min_int64_def)

section \<open>Formatted texts\<close>

text \<open>
  A text built by \<open>fmt.Sprintf\<close> is kept as its format and its arguments, unrendered; the code
  that is modelled depends on such a text only through whether it is empty. An empty message is
  \<open>None\<close> where the code tests for it.
\<close>

datatype go_text = Sprintf string "fmt_arg list"
  and fmt_arg =
    FloatArg float64
  | IntArg int
  | StrArg string
  | DurationArg duration
  | RoundedArg duration duration
  | TimeArg instant
  | TextArg go_text

end
