(* ===== verification/Capacity.thy ===== *)
theory Capacity
  imports GoFloat "HOL-Library.AList"
begin

text \<open>
  Executor capacity: the records and validators of \<open>internal/domain/capacity.go\<close> and
  \<open>resource_sizing.go\<close>, and the executor registry of \<open>internal/backlog/capacity.go\<close> with the
  planning session of \<open>capacity_planning.go\<close>.

  The registry's lock makes each operation one step. A Go map that is only looked up is a
  function to \<open>option\<close>; the reservations are also iterated, in an order Go leaves open, so they
  are an association list and the order is the parameter \<open>iterate\<close>. An operation reads the clock
  once. An error is its format and arguments, with the sentinel it wraps.
\<close>

section \<open>Sizes\<close>

datatype CPUClass = CPUClassEmpty | CPUClassLow | CPUClassMedium | CPUClassHigh | CPUClassOther string

fun CPUClass_Rank :: "CPUClass \<Rightarrow> int" where
  "CPUClass_Rank CPUClassLow = 1"
| "CPUClass_Rank CPUClassMedium = 2"
| "CPUClass_Rank CPUClassHigh = 3"
| "CPUClass_Rank _ = 0"

definition CPUClass_Valid :: "CPUClass \<Rightarrow> bool" where
  "CPUClass_Valid c \<longleftrightarrow> CPUClass_Rank c \<noteq> 0"

definition CPUClass_Compare :: "CPUClass \<Rightarrow> CPUClass \<Rightarrow> int" where
  "CPUClass_Compare c other = CPUClass_Rank c - CPUClass_Rank other"

fun CPUClass_text :: "CPUClass \<Rightarrow> string" where
  "CPUClass_text CPUClassEmpty = ''''"
| "CPUClass_text CPUClassLow = ''low''"
| "CPUClass_text CPUClassMedium = ''medium''"
| "CPUClass_text CPUClassHigh = ''high''"
| "CPUClass_text (CPUClassOther s) = s"

definition CPUClass_Validate :: "CPUClass \<Rightarrow> go_text option" where
  "CPUClass_Validate c =
     (if c = CPUClassEmpty \<or> CPUClass_Valid c then None
      else Some (Sprintf ''cpu class %q must be low, medium or high'' [StrArg (CPUClass_text c)]))"

record ResourceDemand =
  Demand_MinCPUClass :: CPUClass
  Demand_PreferredCPUClass :: CPUClass
  Demand_CPUUnits :: float64
  Demand_MemoryMB :: int64
  Demand_ScratchMB :: int64

definition Demand_IsZero :: "ResourceDemand \<Rightarrow> bool" where
  "Demand_IsZero d \<longleftrightarrow>
     Demand_MinCPUClass d = CPUClassEmpty \<and> Demand_PreferredCPUClass d = CPUClassEmpty \<and>
     Demand_CPUUnits d = Fin 0 \<and> Demand_MemoryMB d = 0 \<and> Demand_ScratchMB d = 0"

definition ResourceDemand_Validate :: "ResourceDemand \<Rightarrow> go_text option" where
  "ResourceDemand_Validate d =
     (case CPUClass_Validate (Demand_MinCPUClass d) of
        Some err \<Rightarrow> Some (Sprintf ''resource demand minimum %w'' [TextArg err])
      | None \<Rightarrow>
        (case CPUClass_Validate (Demand_PreferredCPUClass d) of
           Some err \<Rightarrow> Some (Sprintf ''resource demand preferred %w'' [TextArg err])
         | None \<Rightarrow>
             if Demand_MinCPUClass d \<noteq> CPUClassEmpty \<and> Demand_PreferredCPUClass d \<noteq> CPUClassEmpty
                \<and> CPUClass_Compare (Demand_PreferredCPUClass d) (Demand_MinCPUClass d) < 0
             then Some (Sprintf ''resource demand preferred cpu class %q is below its minimum %q''
                    [StrArg (CPUClass_text (Demand_PreferredCPUClass d)), StrArg (CPUClass_text (Demand_MinCPUClass d))])
             else if f_lt (Demand_CPUUnits d) (Fin 0) \<or> Demand_MemoryMB d < 0 \<or> Demand_ScratchMB d < 0
             then Some (Sprintf ''resource demand sizes must not be negative'' [])
             else None))"

definition TargetCPUClass :: "ResourceDemand \<Rightarrow> CPUClass" where
  "TargetCPUClass d =
     (if Demand_PreferredCPUClass d \<noteq> CPUClassEmpty then Demand_PreferredCPUClass d else Demand_MinCPUClass d)"

record AllocatableCapacity =
  Alloc_ExecutorSlots :: int64
  Alloc_CPUUnits :: float64
  Alloc_MemoryMB :: int64
  Alloc_ScratchMB :: int64

definition Alloc_IsZero :: "AllocatableCapacity \<Rightarrow> bool" where
  "Alloc_IsZero a \<longleftrightarrow> Alloc_ExecutorSlots a = 0 \<and> Alloc_CPUUnits a = Fin 0 \<and> Alloc_MemoryMB a = 0 \<and> Alloc_ScratchMB a = 0"

definition AllocatableCapacity_Validate :: "AllocatableCapacity \<Rightarrow> go_text option" where
  "AllocatableCapacity_Validate a =
     (if Alloc_ExecutorSlots a < 0 \<or> f_lt (Alloc_CPUUnits a) (Fin 0) \<or> Alloc_MemoryMB a < 0 \<or> Alloc_ScratchMB a < 0
      then Some (Sprintf ''allocatable capacity must not be negative'' []) else None)"

record ReservedCapacity =
  Reserved_ExecutorSlots :: int64
  Reserved_CPUUnits :: float64
  Reserved_MemoryMB :: int64
  Reserved_ScratchMB :: int64

definition zero_Reserved :: ReservedCapacity where
  "zero_Reserved = \<lparr>Reserved_ExecutorSlots = 0, Reserved_CPUUnits = Fin 0, Reserved_MemoryMB = 0, Reserved_ScratchMB = 0\<rparr>"

record CPUPressure =
  Pressure_Normalized :: float64
  Pressure_Load :: float64

definition Headroom :: "CPUPressure \<Rightarrow> float64" where
  "Headroom p =
     (if f_le (Pressure_Normalized p) (Fin 0) then Fin 1
      else if f_le (Fin 1) (Pressure_Normalized p) then Fin 0
      else f_sub (Fin 1) (Pressure_Normalized p))"

definition CPUPressure_Validate :: "CPUPressure \<Rightarrow> go_text option" where
  "CPUPressure_Validate p =
     (if f_lt (Pressure_Normalized p) (Fin 0) \<or> f_lt (Fin 1) (Pressure_Normalized p)
      then Some (Sprintf ''normalized cpu pressure %v must be between 0 and 1'' [FloatArg (Pressure_Normalized p)])
      else if f_lt (Pressure_Load p) (Fin 0)
      then Some (Sprintf ''cpu load %v must not be negative'' [FloatArg (Pressure_Load p)])
      else None)"

record WorkerCapacitySnapshot =
  Capacity_WorkerID :: string
  Capacity_WorkerEpoch :: string
  Capacity_Sequence :: int64
  Capacity_CPUClass :: CPUClass
  Capacity_Allocatable :: AllocatableCapacity
  Capacity_Reserved :: ReservedCapacity
  Capacity_Pressure :: CPUPressure
  Capacity_ObservedAt :: instant

definition WorkerCapacitySnapshot_Validate :: "WorkerCapacitySnapshot \<Rightarrow> go_text option" where
  "WorkerCapacitySnapshot_Validate s =
     (let worker = StrArg (Capacity_WorkerID s); r = Capacity_Reserved s;
          wrapped = (\<lambda>err. Some (Sprintf ''capacity snapshot for worker %q: %w'' [worker, TextArg err]))
      in if blank (Capacity_WorkerID s) then Some (Sprintf ''capacity snapshot requires a worker ID'' [])
         else (case CPUClass_Validate (Capacity_CPUClass s) of
           Some err \<Rightarrow> wrapped err
         | None \<Rightarrow> (case AllocatableCapacity_Validate (Capacity_Allocatable s) of
             Some err \<Rightarrow> wrapped err
           | None \<Rightarrow> (case CPUPressure_Validate (Capacity_Pressure s) of
               Some err \<Rightarrow> wrapped err
             | None \<Rightarrow>
                 if Reserved_ExecutorSlots r < 0 \<or> f_lt (Reserved_CPUUnits r) (Fin 0) \<or>
                    Reserved_MemoryMB r < 0 \<or> Reserved_ScratchMB r < 0
                 then Some (Sprintf ''capacity snapshot for worker %q has negative reservations'' [worker])
                 else if Capacity_Sequence s < 0
                 then Some (Sprintf ''capacity snapshot for worker %q has a negative sequence'' [worker])
                 else None))))"

definition Capacity_Fresh :: "WorkerCapacitySnapshot \<Rightarrow> instant \<Rightarrow> duration \<Rightarrow> bool" where
  "Capacity_Fresh s now maxAge \<longleftrightarrow>
     \<not> (is_zero_time (Capacity_ObservedAt s) \<or> maxAge \<le> 0) \<and> time_sub now (Capacity_ObservedAt s) \<le> maxAge"

text \<open>What is left of an integer size, never negative.\<close>

definition free_of :: "int64 \<Rightarrow> int64 \<Rightarrow> int64" where
  "free_of allocatable reserved = (let free = wrap64 (allocatable - reserved) in if free > 0 then free else 0)"

definition FreeSlots :: "WorkerCapacitySnapshot \<Rightarrow> int64" where
  "FreeSlots s = free_of (Alloc_ExecutorSlots (Capacity_Allocatable s)) (Reserved_ExecutorSlots (Capacity_Reserved s))"

definition FreeCPUUnits :: "WorkerCapacitySnapshot \<Rightarrow> float64" where
  "FreeCPUUnits s =
     (let free = f_sub (Alloc_CPUUnits (Capacity_Allocatable s)) (Reserved_CPUUnits (Capacity_Reserved s))
      in if f_lt (Fin 0) free then free else Fin 0)"

definition FreeMemoryMB :: "WorkerCapacitySnapshot \<Rightarrow> int64" where
  "FreeMemoryMB s = free_of (Alloc_MemoryMB (Capacity_Allocatable s)) (Reserved_MemoryMB (Capacity_Reserved s))"

definition FreeScratchMB :: "WorkerCapacitySnapshot \<Rightarrow> int64" where
  "FreeScratchMB s = free_of (Alloc_ScratchMB (Capacity_Allocatable s)) (Reserved_ScratchMB (Capacity_Reserved s))"

definition GoverningDemand :: "ResourceDemand \<Rightarrow> AllocatableCapacity \<Rightarrow> ResourceDemand" where
  "GoverningDemand demand allocatable =
     (let d1 = (if Alloc_CPUUnits allocatable = Fin 0 then demand\<lparr>Demand_CPUUnits := Fin 0\<rparr> else demand);
          d2 = (if Alloc_MemoryMB allocatable = 0 then d1\<lparr>Demand_MemoryMB := 0\<rparr> else d1)
      in if Alloc_ScratchMB allocatable = 0 then d2\<lparr>Demand_ScratchMB := 0\<rparr> else d2)"

definition CountsSizedDemandAsSlot :: "ResourceDemand \<Rightarrow> AllocatableCapacity \<Rightarrow> bool" where
  "CountsSizedDemandAsSlot demand allocatable \<longleftrightarrow>
     (f_lt (Fin 0) (Demand_CPUUnits demand) \<or> Demand_MemoryMB demand > 0) \<and>
     Alloc_CPUUnits allocatable = Fin 0 \<and> Alloc_MemoryMB allocatable = 0"

section \<open>Pools, slots and reservations\<close>

record ExecutorPool =
  Pool_WorkerID :: string
  Pool_Name :: string
  Pool_CatalogRevision :: string
  Pool_CPUClass :: CPUClass
  Pool_Allocatable :: AllocatableCapacity

definition ExecutorPool_Validate :: "ExecutorPool \<Rightarrow> go_text option" where
  "ExecutorPool_Validate p =
     (let worker = StrArg (Pool_WorkerID p); name = StrArg (Pool_Name p);
          wrapped = (\<lambda>err. Some (Sprintf ''executor pool %q on worker %q: %w'' [name, worker, TextArg err]))
      in if trim_space (Pool_WorkerID p) \<noteq> Pool_WorkerID p \<or> Pool_WorkerID p = ''''
         then Some (Sprintf ''executor pool requires a trimmed worker ID'' [])
         else if trim_space (Pool_Name p) \<noteq> Pool_Name p \<or> Pool_Name p = ''''
         then Some (Sprintf ''executor pool on worker %q requires a trimmed name'' [worker])
         else (case CPUClass_Validate (Pool_CPUClass p) of
           Some err \<Rightarrow> wrapped err
         | None \<Rightarrow> (case AllocatableCapacity_Validate (Pool_Allocatable p) of
             Some err \<Rightarrow> wrapped err
           | None \<Rightarrow>
               if Alloc_ExecutorSlots (Pool_Allocatable p) < 1
               then Some (Sprintf ''executor pool %q on worker %q requires at least one executor slot'' [name, worker])
               else None)))"

datatype ExecutorSlotState =
    ExecutorSlotFree | ExecutorSlotReserved | ExecutorSlotPreparing | ExecutorSlotRunning | ExecutorSlotFinishing
  | ExecutorSlotQuarantined | ExecutorSlotStateOther string

record ExecutorSlot =
  Slot_WorkerID :: string
  Slot_PoolName :: string
  Slot_Ordinal :: int64
  Slot_State :: ExecutorSlotState
  Slot_FencingToken :: string
  Slot_ReservationID :: string
  Slot_AssignmentID :: string
  Slot_UpdatedAt :: instant

definition ExecutorSlot_ID :: "ExecutorSlot \<Rightarrow> string" where
  "ExecutorSlot_ID s = Slot_WorkerID s @ ''/'' @ Slot_PoolName s @ ''/'' @ show_int (Slot_Ordinal s)"

definition Occupied :: "ExecutorSlot \<Rightarrow> bool" where
  "Occupied s \<longleftrightarrow> Slot_State s \<noteq> ExecutorSlotFree"

datatype ResourceReservationState =
    ResourceReservationHeld | ResourceReservationActive | ResourceReservationReleasing | ResourceReservationReleased
  | ResourceReservationOrphaned | ResourceReservationStateOther string

datatype ResourceReleaseReason =
    ResourceReleaseNone | ResourceReleaseSettled | ResourceReleaseCancelled | ResourceReleasePreparationFailed
  | ResourceReleaseLeaseRecovered | ResourceReleaseOther string

fun ReleaseReason_text :: "ResourceReleaseReason \<Rightarrow> string" where
  "ReleaseReason_text ResourceReleaseNone = ''''"
| "ReleaseReason_text ResourceReleaseSettled = ''settled''"
| "ReleaseReason_text ResourceReleaseCancelled = ''cancelled''"
| "ReleaseReason_text ResourceReleasePreparationFailed = ''preparation-failed''"
| "ReleaseReason_text ResourceReleaseLeaseRecovered = ''lease-recovered''"
| "ReleaseReason_text (ResourceReleaseOther s) = s"

definition ResourceReleaseReasons :: "ResourceReleaseReason list" where
  "ResourceReleaseReasons =
     [ResourceReleaseSettled, ResourceReleaseCancelled, ResourceReleasePreparationFailed, ResourceReleaseLeaseRecovered]"

definition ReleaseReason_Valid :: "ResourceReleaseReason \<Rightarrow> bool" where
  "ReleaseReason_Valid r = list_ex (\<lambda>candidate. r = candidate) ResourceReleaseReasons"

record ResourceReservation =
  Resv_ID :: string
  Resv_WorkerID :: string
  Resv_PoolName :: string
  Resv_SlotOrdinal :: int64
  Resv_SlotFencingToken :: string
  Resv_AssignmentID :: string
  Resv_AttemptID :: string
  Resv_LeaseToken :: string
  Resv_CPUUnits :: float64
  Resv_MemoryMB :: int64
  Resv_ScratchMB :: int64
  Resv_State :: ResourceReservationState
  Resv_ReleaseReason :: ResourceReleaseReason
  Resv_LeaseExpiresAt :: instant
  Resv_CreatedAt :: instant
  Resv_UpdatedAt :: instant
  Resv_ReleasedAt :: "instant option"

definition Released :: "ResourceReservation \<Rightarrow> bool" where
  "Released r \<longleftrightarrow> Resv_State r = ResourceReservationReleased"

definition ResourceReservation_Validate :: "ResourceReservation \<Rightarrow> go_text option" where
  "ResourceReservation_Validate r =
     (let i = StrArg (Resv_ID r) in
      if trim_space (Resv_ID r) \<noteq> Resv_ID r \<or> Resv_ID r = '''' then Some (Sprintf ''resource reservation requires a trimmed ID'' [])
      else if blank (Resv_WorkerID r) \<or> blank (Resv_PoolName r)
      then Some (Sprintf ''resource reservation %q requires a worker and pool'' [i])
      else if Resv_SlotOrdinal r < 0 then Some (Sprintf ''resource reservation %q has a negative slot ordinal'' [i])
      else if Resv_SlotFencingToken r = '''' then Some (Sprintf ''resource reservation %q requires a slot fencing token'' [i])
      else if f_lt (Resv_CPUUnits r) (Fin 0) \<or> Resv_MemoryMB r < 0 \<or> Resv_ScratchMB r < 0
      then Some (Sprintf ''resource reservation %q has negative sizes'' [i])
      else if Resv_State r = ResourceReservationReleased \<and> \<not> ReleaseReason_Valid (Resv_ReleaseReason r)
      then Some (Sprintf ''resource reservation %q is released without a terminal reason'' [i])
      else None)"

end
