(* ===== verification/TaskTypes.thy ===== *)
theory TaskTypes
  imports SupervisionTypes Capacity
begin

text \<open>
  The parts of a task definition that the planner reads: fenced directory identities
  (\<open>internal/directoryresource/resource.go\<close>, \<open>binding.go\<close>), the role receipt
  (\<open>internal/domain/role_selection.go\<close>), review requirements (\<open>task_review.go\<close>), placement
  constraints and the task class (\<open>orchestrator.go\<close>).
\<close>

section \<open>Directory resources\<close>

datatype Access = AccessEmpty | ReadOnly | ReadWrite | AccessOther string

record Registration =
  Reg_WorkerID :: string
  Reg_ResourceID :: string
  Reg_Revision :: string
  Reg_Path :: string
  Reg_Writable :: bool

record Object =
  Object_Device :: int
  Object_Inode :: int
  Object_BirthSeconds :: int64
  Object_BirthNanos :: int

record Identity =
  Identity_Registration :: Registration
  Identity_Object :: Object
  Identity_MountID :: int
  Identity_Ancestors :: "Object list"

record Binding =
  Binding_Identity :: Identity
  Binding_Access :: Access

text \<open>\<open>filepath.Clean\<close> of an absolute path: empty and \<open>.\<close> elements vanish, \<open>..\<close> removes the
  element before it, and the root has no parent.\<close>

fun clean_parts :: "string list \<Rightarrow> string list \<Rightarrow> string list" where
  "clean_parts acc [] = rev acc"
| "clean_parts acc (p # ps) =
     (if p = '''' \<or> p = ''.'' then clean_parts acc ps
      else if p = ''..'' then clean_parts (tl acc) ps
      else clean_parts (p # acc) ps)"

definition clean_path :: "string \<Rightarrow> string" where
  "clean_path path = CHR ''/'' # join_with CHR ''/'' (clean_parts [] (split_at CHR ''/'' path))"

definition Registration_Validate :: "Registration \<Rightarrow> go_error option" where
  "Registration_Validate r =
     (if blank (Reg_WorkerID r) \<or> blank (Reg_ResourceID r) \<or> blank (Reg_Revision r)
      then Some (Errorf ''directory resource requires worker, resource and revision'' [])
      else if \<not> has_prefix (Reg_Path r) ''/'' \<or> clean_path (Reg_Path r) \<noteq> Reg_Path r \<or> Reg_Path r = ''/''
      then Some (Errorf ''directory resource requires a canonical absolute non-root path'' [])
      else None)"

fun Access_text :: "Access \<Rightarrow> string" where
  "Access_text AccessEmpty = ''''"
| "Access_text ReadOnly = ''read-only''"
| "Access_text ReadWrite = ''read-write''"
| "Access_text (AccessOther s) = s"

definition Bind :: "Identity \<Rightarrow> Access \<Rightarrow> Binding go_result" where
  "Bind identity requested0 =
     (case Registration_Validate (Identity_Registration identity) of
        Some err \<Rightarrow> Inl err
      | None \<Rightarrow>
          if Object_Inode (Identity_Object identity) = 0 \<or> Identity_MountID identity = 0 \<or> Identity_Ancestors identity = []
          then Inl (Errorf ''directory resource identity evidence is incomplete'' [])
          else
            let requested = (if requested0 = AccessEmpty then ReadOnly else requested0) in
            if requested \<noteq> ReadOnly \<and> requested \<noteq> ReadWrite
            then Inl (Errorf ''invalid directory access %q'' [Access_text requested])
            else if requested = ReadWrite \<and> \<not> Reg_Writable (Identity_Registration identity)
            then Inl (Errorf ''registered directory does not permit writable access'' [])
            else Inr \<lparr>Binding_Identity = identity, Binding_Access = requested\<rparr>)"

definition ValidateBinding :: "Binding \<Rightarrow> go_error option" where
  "ValidateBinding binding =
     (if Binding_Access binding \<noteq> ReadOnly \<and> Binding_Access binding \<noteq> ReadWrite
      then Some (Errorf ''directory binding access is unresolved'' [])
      else (case Bind (Binding_Identity binding) (Binding_Access binding) of
        Inl err \<Rightarrow> Some err
      | Inr _ \<Rightarrow>
          if list_ex (\<lambda>ancestor. Object_Inode ancestor = 0) (Identity_Ancestors (Binding_Identity binding))
          then Some (Errorf ''directory ancestor identity is incomplete'' [])
          else None))"

definition Conflicts :: "Binding \<Rightarrow> Binding \<Rightarrow> bool" where
  "Conflicts a b =
     (let ai = Binding_Identity a; bi = Binding_Identity b;
          ap = Reg_Path (Identity_Registration ai); bp = Reg_Path (Identity_Registration bi)
      in if Reg_WorkerID (Identity_Registration ai) \<noteq> Reg_WorkerID (Identity_Registration bi) then False
         else if Binding_Access a = ReadOnly \<and> Binding_Access b = ReadOnly then False
         else ap = bp \<or> has_prefix ap (bp @ ''/'') \<or> has_prefix bp (ap @ ''/'')
              \<or> Identity_Object ai = Identity_Object bi
              \<or> list_ex (\<lambda>p. p = Identity_Object bi) (Identity_Ancestors ai)
              \<or> list_ex (\<lambda>p. p = Identity_Object ai) (Identity_Ancestors bi))"

lemma Conflicts_sym: "Conflicts a b = Conflicts b a"
  unfolding Conflicts_def Let_def by (auto simp: list_ex_eq)

section \<open>Roles, reviews and placement\<close>

datatype TaskClass = TaskClassRequired | TaskClassSurplus | TaskClassOther string

record RoleCandidateVerdict =
  Verdict_Ordinal :: int
  Verdict_Band :: string
  Verdict_Pool :: string
  Verdict_Route :: string
  Verdict_Eligible :: bool
  Verdict_Reason :: string
  Verdict_Effort :: string

record RoleDiversity =
  Diversity_ProducerFamilies :: "string list"
  Diversity_CrossProvider :: bool
  Diversity_Reason :: string

record RoleSelection =
  Selection_Role :: string
  Selection_Route :: string
  Selection_Effort :: string
  Selection_PolicyDigest :: string
  Selection_Reason :: string
  Selection_Ranking :: string
  Selection_Candidates :: "RoleCandidateVerdict list"
  Selection_Diversity :: RoleDiversity
  Selection_ResolvedAt :: instant

text \<open>\<open>strings.Cut\<close> at a one-byte separator.\<close>

fun cut_at :: "char \<Rightarrow> string \<Rightarrow> (string \<times> string) option" where
  "cut_at d [] = None"
| "cut_at d (c # cs) =
     (if c = d then Some ([], cs) else map_option (\<lambda>(before, after). (c # before, after)) (cut_at d cs))"

definition white_byte :: "char \<Rightarrow> bool" where
  "white_byte c \<longleftrightarrow> (of_char c :: nat) \<in> {32, 9, 13, 10}"

definition RoleSelection_Valid :: "RoleSelection \<Rightarrow> bool" where
  "RoleSelection_Valid selection =
     (length (Selection_Route selection) \<le> 256 \<and>
      (case cut_at CHR ''/'' (Selection_Route selection) of
         None \<Rightarrow> False
       | Some (inst, model) \<Rightarrow> inst \<noteq> '''' \<and> model \<noteq> '''') \<and>
      \<not> list_ex white_byte (Selection_Route selection) \<and>
      (Selection_Effort selection = ''low'' \<or> Selection_Effort selection = ''medium'' \<or> Selection_Effort selection = ''high''))"

text \<open>The route of a receipt; without a separator the whole text is the instance.\<close>

definition effort_options :: "string \<Rightarrow> (string \<times> string) list" where
  "effort_options effort = [(''effort'', effort)]"

definition Selection_ProviderRoute :: "RoleSelection \<Rightarrow> ProviderRoute" where
  "Selection_ProviderRoute selection =
     (let (inst, model) = (case cut_at CHR ''/'' (Selection_Route selection) of
            None \<Rightarrow> (Selection_Route selection, '''') | Some p \<Rightarrow> p)
      in \<lparr>Route_WorkerID = '''', Route_ProviderInstanceID = inst, Route_Model = model,
          Route_Options = effort_options (Selection_Effort selection), Route_QuotaPoolID = ''''\<rparr>)"

record TaskReviewRequirements =
  Review_Version :: int
  Review_Risk :: string
  Review_RequiredReviewers :: int
  Review_MinProviderFamilies :: int
  Review_RoundLimit :: int

record Placement =
  Placement_Hosts :: "string list"
  Placement_Capabilities :: "string list"

end
