(* ===== verification/FailureClass.thy ===== *)
theory FailureClass
  imports GoFloat
begin

text \<open>
  The typed causes of a failed attempt and the retry policy of a task
  (\<open>internal/domain/failure_class.go\<close>): the classification table, the function that searches
  it, and the delay before an automatic retry. The operations of that file that read a task or
  an attempt are in \<open>AutomaticRetry\<close>.
\<close>

section \<open>Classes and reasons\<close>

datatype FailureClass =
    FailureClassEmpty
  | FailureInfrastructure
  | FailureProtocol
  | FailureCode
  | FailurePolicy
  | FailureCancelled
  | FailureUnknown
  | FailureClassOther string

datatype FailureReasonCode =
    ReasonEmpty
  | ReasonPreparationFailed
  | ReasonThreadStartFailed
  | ReasonTurnStartRefused
  | ReasonProviderTurnFailed
  | ReasonSessionNotReady
  | ReasonQuotaPause
  | ReasonThreadIdentity
  | ReasonWorkspaceMissing
  | ReasonPreservedResultMismatch
  | ReasonHostMemory
  | ReasonExecutionUnknown
  | ReasonExecutionAbandoned
  | ReasonMissingOutput
  | ReasonMissingEvidence
  | ReasonUnfinishedWork
  | ReasonMissingSuccess
  | ReasonReviewOutputInvalid
  | ReasonResultRejected
  | ReasonPendingThreadWork
  | ReasonVerificationFailed
  | ReasonGateFailed
  | ReasonSecretScan
  | ReasonResultSize
  | ReasonTaskTimeout
  | ReasonMemoryLimit
  | ReasonReviewGate
  | ReasonCoordinatorStop
  | ReasonCancelled
  | ReasonUnrecognized
  | ReasonOther string

fun FailureClass_text :: "FailureClass \<Rightarrow> string" where
  "FailureClass_text FailureClassEmpty = ''''"
| "FailureClass_text FailureInfrastructure = ''infrastructure''"
| "FailureClass_text FailureProtocol = ''protocol''"
| "FailureClass_text FailureCode = ''code''"
| "FailureClass_text FailurePolicy = ''policy''"
| "FailureClass_text FailureCancelled = ''cancelled''"
| "FailureClass_text FailureUnknown = ''unknown''"
| "FailureClass_text (FailureClassOther s) = s"

fun FailureReasonCode_text :: "FailureReasonCode \<Rightarrow> string" where
  "FailureReasonCode_text ReasonEmpty = ''''"
| "FailureReasonCode_text ReasonPreparationFailed = ''preparation-failed''"
| "FailureReasonCode_text ReasonThreadStartFailed = ''thread-start-failed''"
| "FailureReasonCode_text ReasonTurnStartRefused = ''turn-start-refused''"
| "FailureReasonCode_text ReasonProviderTurnFailed = ''provider-turn-failed''"
| "FailureReasonCode_text ReasonSessionNotReady = ''session-not-ready''"
| "FailureReasonCode_text ReasonQuotaPause = ''quota-pause''"
| "FailureReasonCode_text ReasonThreadIdentity = ''thread-identity''"
| "FailureReasonCode_text ReasonWorkspaceMissing = ''workspace-missing''"
| "FailureReasonCode_text ReasonPreservedResultMismatch = ''preserved-result-mismatch''"
| "FailureReasonCode_text ReasonHostMemory = ''host-memory''"
| "FailureReasonCode_text ReasonExecutionUnknown = ''execution-unknown''"
| "FailureReasonCode_text ReasonExecutionAbandoned = ''execution-abandoned''"
| "FailureReasonCode_text ReasonMissingOutput = ''missing-output''"
| "FailureReasonCode_text ReasonMissingEvidence = ''missing-evidence''"
| "FailureReasonCode_text ReasonUnfinishedWork = ''unfinished-work''"
| "FailureReasonCode_text ReasonMissingSuccess = ''missing-success''"
| "FailureReasonCode_text ReasonReviewOutputInvalid = ''review-output-invalid''"
| "FailureReasonCode_text ReasonResultRejected = ''result-rejected''"
| "FailureReasonCode_text ReasonPendingThreadWork = ''pending-thread-work''"
| "FailureReasonCode_text ReasonVerificationFailed = ''verification-failed''"
| "FailureReasonCode_text ReasonGateFailed = ''gate-failed''"
| "FailureReasonCode_text ReasonSecretScan = ''secret-scan''"
| "FailureReasonCode_text ReasonResultSize = ''result-size''"
| "FailureReasonCode_text ReasonTaskTimeout = ''task-timeout''"
| "FailureReasonCode_text ReasonMemoryLimit = ''memory-limit''"
| "FailureReasonCode_text ReasonReviewGate = ''review-gate''"
| "FailureReasonCode_text ReasonCoordinatorStop = ''coordinator-stop''"
| "FailureReasonCode_text ReasonCancelled = ''cancelled''"
| "FailureReasonCode_text ReasonUnrecognized = ''unrecognized''"
| "FailureReasonCode_text (ReasonOther s) = s"

record FailureClassification =
  FC_Class :: FailureClass
  FC_Code :: FailureReasonCode

definition FailureClassification_String :: "FailureClassification \<Rightarrow> string" where
  "FailureClassification_String c =
     (if FC_Class c = FailureClassEmpty then ''''
      else FailureClass_text (FC_Class c) @ ''/'' @ FailureReasonCode_text (FC_Code c))"

section \<open>The table\<close>

record FailureRule =
  Rule_Match :: string
  Rule_Class :: FailureClass
  Rule_Code :: FailureReasonCode
  Rule_Description :: string

definition failure_rule :: "string \<Rightarrow> FailureClass \<Rightarrow> FailureReasonCode \<Rightarrow> string \<Rightarrow> FailureRule" where
  "failure_rule pattern cls code description =
     \<lparr>Rule_Match = pattern, Rule_Class = cls, Rule_Code = code, Rule_Description = description\<rparr>"

definition FailureClassificationTable :: "FailureRule list" where
  "FailureClassificationTable =
   [failure_rule ''permanent collection secret failure: '' FailurePolicy ReasonSecretScan
       ''the result secret scanner refused the collected result'',
    failure_rule ''withheld by secret scan'' FailurePolicy ReasonSecretScan
       ''the result secret scanner withheld a failed result'',
    failure_rule ''permanent collection size failure: '' FailurePolicy ReasonResultSize
       ''a collected artifact exceeded the transfer size limit'',
    failure_rule ''task timeout expired'' FailurePolicy ReasonTaskTimeout
       ''the task's declared timeout expired'',
    failure_rule ''MB memory reservation'' FailurePolicy ReasonMemoryLimit
       ''a contained run exceeded its declared memory reservation'',
    failure_rule ''review gate '' FailurePolicy ReasonReviewGate
       ''the review completion gate refused unreviewed or changed work'',
    failure_rule ''stopped by the coordinator before dispatch'' FailureCancelled ReasonCoordinatorStop
       ''the coordinator stopped the attempt before it was dispatched'',
    failure_rule ''verification command failed ('' FailureCode ReasonVerificationFailed
       ''a declared verification command exited non-zero'',
    failure_rule ''gate command failed ('' FailureCode ReasonGateFailed
       ''a declared gate command exited non-zero'',
    failure_rule ''review_output verification failed: '' FailureProtocol ReasonReviewOutputInvalid
       ''the declared review output is missing or malformed'',
    failure_rule ''verification failed'' FailureCode ReasonVerificationFailed
       ''verification failed without a recorded command'',
    failure_rule ''missing declared output: '' FailureProtocol ReasonMissingOutput
       ''the turn ended without writing a declared output'',
    failure_rule ''missing verification evidence: '' FailureProtocol ReasonMissingEvidence
       ''the result lacks verification evidence'',
    failure_rule ''missing gate evidence'' FailureProtocol ReasonMissingEvidence
       ''the result lacks gate evidence'',
    failure_rule ''agent reported unfinished work: '' FailureProtocol ReasonUnfinishedWork
       ''the agent ended its turn with continue or needs-input'',
    failure_rule ''result import rejected'' FailureProtocol ReasonResultRejected
       ''the result violates the import contract'',
    failure_rule ''thread still has pending input, approval, or background work'' FailureProtocol ReasonPendingThreadWork
       ''the turn ended with input, an approval or background work pending'',
    failure_rule ''missing explicit success'' FailureProtocol ReasonMissingSuccess
       ''the result carries no explicit success'',
    failure_rule ''preparation failed'' FailureInfrastructure ReasonPreparationFailed
       ''the worker could not prepare the workspace'',
    failure_rule ''preparation returned an empty workspace'' FailureInfrastructure ReasonPreparationFailed
       ''the worker could not prepare the workspace'',
    failure_rule ''T3 thread creation failed: '' FailureInfrastructure ReasonThreadStartFailed
       ''the worker could not create the T3 thread'',
    failure_rule ''T3 thread never started: '' FailureInfrastructure ReasonThreadStartFailed
       ''the T3 thread never started'',
    failure_rule ''T3 refused to start the provider turn'' FailureInfrastructure ReasonTurnStartRefused
       ''T3 or the provider refused to start the turn'',
    failure_rule ''provider turn did not complete successfully'' FailureInfrastructure ReasonProviderTurnFailed
       ''the provider turn ended in an error'',
    failure_rule ''paused by quota watchdog: '' FailureInfrastructure ReasonQuotaPause
       ''a quota pause ended the turn'',
    failure_rule ''provider session is not ready without an active turn or error'' FailureInfrastructure ReasonSessionNotReady
       ''the provider session was left in an unusable state'',
    failure_rule ''thread completion identity is missing or mismatched'' FailureInfrastructure ReasonThreadIdentity
       ''T3 reported a different thread than the attempt's'',
    failure_rule ''provider completion timestamps are missing or invalid'' FailureInfrastructure ReasonThreadIdentity
       ''T3 reported an incomplete turn record'',
    failure_rule ''workspace is missing; outputs cannot be collected'' FailureInfrastructure ReasonWorkspaceMissing
       ''the workspace vanished before collection'',
    failure_rule ''preserved result digest mismatch'' FailureInfrastructure ReasonPreservedResultMismatch
       ''the workspace changed between the end of the turn and a collection retry'',
    failure_rule ''contained run was killed for exceeding available memory'' FailureInfrastructure ReasonHostMemory
       ''the host ran out of memory'',
    failure_rule ''unknown execution resolved as failed'' FailureInfrastructure ReasonExecutionUnknown
       ''an operator resolved an execution of unknown state as failed'',
    failure_rule ''was parked on a task-bound wait; the execution cannot be resumed'' FailureInfrastructure ReasonExecutionAbandoned
       ''the assignment of a parked attempt settled'',
    failure_rule ''no longer owns parked attempt'' FailureInfrastructure ReasonExecutionAbandoned
       ''the assignment of a parked attempt was replaced'']"

definition ClassifyFailure :: "string \<Rightarrow> FailureClassification" where
  "ClassifyFailure reason =
     (case find (\<lambda>rule. contains_str reason (Rule_Match rule)) FailureClassificationTable of
        Some rule \<Rightarrow> \<lparr>FC_Class = Rule_Class rule, FC_Code = Rule_Code rule\<rparr>
      | None \<Rightarrow> \<lparr>FC_Class = FailureUnknown, FC_Code = ReasonUnrecognized\<rparr>)"

definition Retryable :: "FailureClass \<Rightarrow> bool" where
  "Retryable c \<longleftrightarrow> c = FailureInfrastructure"

section \<open>Retry policy\<close>

definition DefaultInfrastructureRetries :: int where "DefaultInfrastructureRetries = 2"
definition MaxInfrastructureRetries :: int where "MaxInfrastructureRetries = 5"
definition DefaultRetryBackoff :: duration where "DefaultRetryBackoff = 2 * minute"
definition MaxRetryBackoff :: duration where "MaxRetryBackoff = hour"

record TaskRetryPolicy =
  Retry_Infrastructure :: int
  Retry_Backoff :: duration

definition TaskRetryPolicy_Validate :: "TaskRetryPolicy \<Rightarrow> go_text option" where
  "TaskRetryPolicy_Validate p =
     (if Retry_Infrastructure p < 0 \<or> Retry_Infrastructure p > MaxInfrastructureRetries
      then Some (Sprintf ''retry.infrastructure must be between 0 and %d, got %d''
        [IntArg MaxInfrastructureRetries, IntArg (Retry_Infrastructure p)])
      else if Retry_Backoff p < 0 \<or> Retry_Backoff p > MaxRetryBackoff
      then Some (Sprintf ''retry.backoff must be between 0 and %s, got %s''
        [DurationArg MaxRetryBackoff, DurationArg (Retry_Backoff p)])
      else None)"

text \<open>The loop of \<open>RetryDelay\<close>: the variable \<open>i\<close> counts up to the ordinal, and the doubling is an
  \<open>int64\<close> multiplication.\<close>

function retry_delay_loop :: "int \<Rightarrow> int \<Rightarrow> duration \<Rightarrow> duration" where
  "retry_delay_loop ordinal i delay =
     (if i < ordinal \<and> delay < MaxRetryBackoff then retry_delay_loop ordinal (i + 1) (wrap64 (delay * 2)) else delay)"
  by pat_completeness auto
termination
  by (relation "measure (\<lambda>(ordinal, i, _). nat (ordinal - i))") auto

declare retry_delay_loop.simps [simp del]

definition RetryDelay :: "TaskRetryPolicy \<Rightarrow> int \<Rightarrow> duration" where
  "RetryDelay p ordinal =
     (let delay = retry_delay_loop ordinal 1 (Retry_Backoff p)
      in if delay > MaxRetryBackoff then MaxRetryBackoff else delay)"

record AutomaticRetry =
  AR_SourceAttemptID :: string
  AR_Class :: FailureClass
  AR_Code :: FailureReasonCode
  AR_Ordinal :: int
  AR_Budget :: int
  AR_NotBefore :: instant
  AR_CommandID :: string

definition AutomaticRetryRequestedBy :: string where
  "AutomaticRetryRequestedBy = ''steward-coordinator/automatic-retry''"

definition AutomaticRetryCommandID :: "string \<Rightarrow> string" where
  "AutomaticRetryCommandID attemptID = ''auto-retry-'' @ attemptID"

end
