(* ===== verification/Orchestrator.thy ===== *)
theory Orchestrator
  imports TaskTypes FailureClass
begin

text \<open>
  The durable scheduler records of \<open>internal/domain/orchestrator.go\<close> and the helpers every
  aggregate over a run's attempts uses: progress and control states, tasks, attempts,
  assignments and runs, the boundary between declared work and overseer activations
  (\<open>supervision_attempt.go\<close>) and the fix-loop summaries (\<open>fix_loop.go\<close>,
  \<open>fix_loop_progress.go\<close>).

  The records \<open>Task\<close>, \<open>Attempt\<close>, \<open>Assignment\<close> and \<open>WorkflowRun\<close> carry the fields of the Go
  structs that an operation of the development reads or writes. The remaining fields (prompts,
  artifacts, timeouts and receipts) are passed through unchanged by every modelled operation.
  A nil pointer is \<open>None\<close>; a nil map is the empty association list or map.
\<close>

section \<open>Progress and control\<close>

datatype ProgressState =
    ProgressEmpty
  | ProgressQueued
  | ProgressBlocked
  | ProgressReady
  | ProgressActive
  | ProgressNeedsInput
  | ProgressWaitingExternal
  | ProgressVerifying
  | ProgressSucceeded
  | ProgressFailed
  | ProgressCancelled
  | ProgressSkipped
  | ProgressOther string

fun ProgressState_text :: "ProgressState \<Rightarrow> string" where
  "ProgressState_text ProgressEmpty = ''''"
| "ProgressState_text ProgressQueued = ''queued''"
| "ProgressState_text ProgressBlocked = ''blocked''"
| "ProgressState_text ProgressReady = ''ready''"
| "ProgressState_text ProgressActive = ''active''"
| "ProgressState_text ProgressNeedsInput = ''needs-input''"
| "ProgressState_text ProgressWaitingExternal = ''waiting-external''"
| "ProgressState_text ProgressVerifying = ''verifying''"
| "ProgressState_text ProgressSucceeded = ''succeeded''"
| "ProgressState_text ProgressFailed = ''failed''"
| "ProgressState_text ProgressCancelled = ''cancelled''"
| "ProgressState_text ProgressSkipped = ''skipped''"
| "ProgressState_text (ProgressOther s) = s"

definition Terminal :: "ProgressState \<Rightarrow> bool" where
  "Terminal s = (case s of
       ProgressSucceeded \<Rightarrow> True
     | ProgressFailed \<Rightarrow> True
     | ProgressCancelled \<Rightarrow> True
     | ProgressSkipped \<Rightarrow> True
     | _ \<Rightarrow> False)"

lemma Terminal_simps [simp]:
  "\<not> Terminal ProgressEmpty" "\<not> Terminal ProgressQueued" "\<not> Terminal ProgressBlocked"
  "\<not> Terminal ProgressReady" "\<not> Terminal ProgressActive" "\<not> Terminal ProgressNeedsInput"
  "\<not> Terminal ProgressWaitingExternal" "\<not> Terminal ProgressVerifying"
  "Terminal ProgressSucceeded" "Terminal ProgressFailed" "Terminal ProgressCancelled"
  "Terminal ProgressSkipped" "\<not> Terminal (ProgressOther s)"
  by (simp_all add: Terminal_def)

lemma Terminal_iff:
  "Terminal s \<longleftrightarrow> s \<in> {ProgressSucceeded, ProgressFailed, ProgressCancelled, ProgressSkipped}"
  by (cases s) simp_all

datatype ControlState =
    ControlEmpty
  | ControlUnassigned
  | ControlPreparing
  | ControlRunning
  | ControlDraining
  | ControlPaused
  | ControlPausedUncheckpointed
  | ControlResuming
  | ControlStopped
  | ControlWaitingExternal
  | ControlOther string

definition HoldsProviderSlot :: "ControlState \<Rightarrow> bool" where
  "HoldsProviderSlot s = (case s of
       ControlPreparing \<Rightarrow> True
     | ControlRunning \<Rightarrow> True
     | ControlDraining \<Rightarrow> True
     | ControlResuming \<Rightarrow> True
     | _ \<Rightarrow> False)"

section \<open>Tasks\<close>

record NodeRef =
  NodeRef_RunID :: string
  NodeRef_TaskID :: string

definition NodeRef_String :: "NodeRef \<Rightarrow> string" where
  "NodeRef_String r = NodeRef_RunID r @ ''/'' @ NodeRef_TaskID r"

record ReviewOutput =
  ReviewOutput_Verdict :: string
  ReviewOutput_VerdictLine :: string

record ReviewVerdict =
  Verdict_Verdict :: string
  Verdict_BlockingFindings :: int
  Verdict_FindingTitles :: "string list"

record FixLoopTask =
  FixLoop_Name :: string
  FixLoop_Round :: int
  FixLoop_MaxRounds :: int
  FixLoop_Kind :: string

record Task =
  Task_ID :: string
  Task_WorkflowID :: string
  Task_Name :: string
  Task_Needs :: "string list"
  Task_NeedsVerdict :: "(string \<times> string) list"
  Task_ExternalNeeds :: "NodeRef list"
  Task_FixLoop :: "FixLoopTask option"
  Task_ReviewOutput :: "ReviewOutput option"
  Task_ReviewJudge :: bool
  Task_Role :: string
  Task_RoleEffort :: string
  Task_RoleSelection :: "RoleSelection option"
  Task_ReviewRequirements :: "TaskReviewRequirements option"
  Task_DirectoryBindings :: "Binding list"
  Task_Class :: TaskClass
  Task_DependencyInputs :: "(string \<times> string list) list"
  Task_Placement :: Placement
  Task_ResourceDemand :: ResourceDemand
  Task_ResourcePreset :: string
  Task_Routes :: "ProviderRoute list"
  Task_ResourceLocks :: "string list"
  Task_Importance :: int
  Task_Deadline :: "instant option"
  Task_RunID :: string
  Task_Retry :: "TaskRetryPolicy option"
  Task_NotBefore :: "instant option"
  Task_ExpiresAt :: "instant option"

definition zero_Task :: Task where
  "zero_Task =
     \<lparr>Task_ID = '''', Task_WorkflowID = '''', Task_Name = '''', Task_Needs = [], Task_NeedsVerdict = [],
      Task_ExternalNeeds = [], Task_FixLoop = None, Task_ReviewOutput = None, Task_ReviewJudge = False,
      Task_Role = '''', Task_RoleEffort = '''', Task_RoleSelection = None, Task_ReviewRequirements = None,
      Task_DirectoryBindings = [], Task_Class = TaskClassOther '''', Task_DependencyInputs = [],
      Task_Placement = \<lparr>Placement_Hosts = [], Placement_Capabilities = []\<rparr>,
      Task_ResourceDemand = \<lparr>Demand_MinCPUClass = CPUClassEmpty, Demand_PreferredCPUClass = CPUClassEmpty,
        Demand_CPUUnits = Fin 0, Demand_MemoryMB = 0, Demand_ScratchMB = 0\<rparr>,
      Task_ResourcePreset = '''', Task_Routes = [], Task_ResourceLocks = [], Task_Importance = 0, Task_Deadline = None,
      Task_RunID = '''', Task_Retry = None, Task_NotBefore = None, Task_ExpiresAt = None\<rparr>"

section \<open>Attempts\<close>

datatype TurnOutcomeMarker =
    TurnOutcomeNone
  | TurnOutcomeDone
  | TurnOutcomeContinue
  | TurnOutcomeMissing
  | TurnOutcomeWaiting
  | TurnOutcomeOther string

record Attempt =
  Attempt_ReviewVerdict :: "ReviewVerdict option"
  Attempt_SupervisionActivationID :: string
  Attempt_SupervisionActivationEpoch :: int64
  Attempt_ID :: string
  Attempt_WorkflowRunID :: string
  Attempt_TaskID :: string
  Attempt_Number :: int
  Attempt_Progress :: ProgressState
  Attempt_Control :: ControlState
  Attempt_Revision :: int64
  Attempt_LastTurnOutcomeID :: string
  Attempt_LastTurnOutcomeMarker :: TurnOutcomeMarker
  Attempt_AssignmentID :: string
  Attempt_ThreadID :: string
  Attempt_CheckpointArtifactID :: string
  Attempt_FinalSummaryArtifactID :: string
  Attempt_AdminNotBefore :: "instant option"
  Attempt_AdminForceStart :: bool
  Attempt_AdminImportance :: "int option"
  Attempt_Failure :: string
  Attempt_FailureClass :: FailureClass
  Attempt_FailureReason :: FailureReasonCode
  Attempt_AutomaticRetry :: "AutomaticRetry option"
  Attempt_StartedAt :: "instant option"
  Attempt_UpdatedAt :: instant
  Attempt_CompletedAt :: "instant option"

text \<open>The zero value of the struct: what a composite literal leaves unset and what a map of
  attempts yields for a missing key.\<close>

definition zero_Attempt :: Attempt where
  "zero_Attempt =
     \<lparr>Attempt_ReviewVerdict = None, Attempt_SupervisionActivationID = '''',
      Attempt_SupervisionActivationEpoch = 0, Attempt_ID = '''', Attempt_WorkflowRunID = '''',
      Attempt_TaskID = '''', Attempt_Number = 0, Attempt_Progress = ProgressEmpty,
      Attempt_Control = ControlEmpty, Attempt_Revision = 0, Attempt_LastTurnOutcomeID = '''',
      Attempt_LastTurnOutcomeMarker = TurnOutcomeNone, Attempt_AssignmentID = '''',
      Attempt_ThreadID = '''', Attempt_CheckpointArtifactID = '''',
      Attempt_FinalSummaryArtifactID = '''', Attempt_AdminNotBefore = None,
      Attempt_AdminForceStart = False, Attempt_AdminImportance = None, Attempt_Failure = '''',
      Attempt_FailureClass = FailureClassEmpty, Attempt_FailureReason = ReasonEmpty, Attempt_AutomaticRetry = None,
      Attempt_StartedAt = None, Attempt_UpdatedAt = 0, Attempt_CompletedAt = None\<rparr>"

definition TurnLive :: "Attempt \<Rightarrow> bool" where
  "TurnLive a =
     (case Attempt_Progress a of
        ProgressActive \<Rightarrow>
          Attempt_Control a \<in> {ControlPreparing, ControlRunning, ControlResuming, ControlWaitingExternal}
      | ProgressWaitingExternal \<Rightarrow>
          Attempt_Control a \<in> {ControlPreparing, ControlRunning, ControlResuming, ControlWaitingExternal}
      | _ \<Rightarrow> False)"

definition IsSupervisionActivation :: "Attempt \<Rightarrow> bool" where
  "IsSupervisionActivation a \<longleftrightarrow> Attempt_SupervisionActivationID a \<noteq> ''''"

fun count_activations :: "Attempt list \<Rightarrow> nat" where
  "count_activations [] = 0"
| "count_activations (a # attempts) =
     (if IsSupervisionActivation a then Suc (count_activations attempts) else count_activations attempts)"

definition DeclaredTaskAttempts :: "Attempt list \<Rightarrow> Attempt list" where
  "DeclaredTaskAttempts attempts =
     (if count_activations attempts = 0 then attempts
      else filter (\<lambda>a. \<not> IsSupervisionActivation a) attempts)"

definition SupervisionActivationAttempts :: "Attempt list \<Rightarrow> Attempt list" where
  "SupervisionActivationAttempts attempts = filter IsSupervisionActivation attempts"

lemma count_activations_0: "count_activations attempts = 0 \<longleftrightarrow> (\<forall>a \<in> set attempts. \<not> IsSupervisionActivation a)"
  by (induction attempts) auto

lemma DeclaredTaskAttempts_filter:
  "DeclaredTaskAttempts attempts = filter (\<lambda>a. \<not> IsSupervisionActivation a) attempts"
  by (auto simp: DeclaredTaskAttempts_def count_activations_0)

section \<open>Assignments and runs\<close>

datatype AssignmentState =
    AssignmentOffered
  | AssignmentClaimed
  | AssignmentUnknown
  | AssignmentReleased
  | AssignmentCompleted
  | AssignmentOther string

record Assignment =
  Assignment_ID :: string
  Assignment_AttemptID :: string
  Assignment_WorkerID :: string
  Assignment_WorkerEpoch :: string
  Assignment_State :: AssignmentState
  Assignment_UnknownSince :: "instant option"
  Assignment_Epoch :: int64
  Assignment_LeaseToken :: string
  Assignment_LeaseExpiresAt :: instant

definition Assignment_SetState :: "Assignment \<Rightarrow> AssignmentState \<Rightarrow> instant \<Rightarrow> Assignment" where
  "Assignment_SetState a state now =
     (let b = (if state \<noteq> AssignmentUnknown then a\<lparr>Assignment_UnknownSince := None\<rparr>
               else if Assignment_State a \<noteq> AssignmentUnknown
               then a\<lparr>Assignment_UnknownSince := Some now\<rparr>
               else a)
      in b\<lparr>Assignment_State := state\<rparr>)"

text \<open>An assignment that has left the unknown state carries no unknown-episode origin, and
  re-entering it while unknown keeps the first origin.\<close>

lemma SetState_UnknownSince:
  "Assignment_UnknownSince (Assignment_SetState a state now) =
     (if state \<noteq> AssignmentUnknown then None
      else if Assignment_State a = AssignmentUnknown then Assignment_UnknownSince a else Some now)"
  by (simp add: Assignment_SetState_def)

record FixLoopSummary =
  Summary_Name :: string
  Summary_Rounds :: int
  Summary_MaxRounds :: int
  Summary_FinalVerdict :: string
  Summary_Exhausted :: bool
  Summary_Escalation :: string

record SinkResult =
  SinkResult_FixLoops :: "FixLoopSummary list"
  SinkResult_FailedTaskIDs :: "string list"
  SinkResult_CancelledTaskIDs :: "string list"
  SinkResult_SkippedTaskIDs :: "string list"

record SinkTask =
  Sink_ID :: string
  Sink_Name :: string
  Sink_GraphRevision :: int64
  Sink_Needs :: "string list"
  Sink_Progress :: ProgressState
  Sink_Result :: "SinkResult option"
  Sink_CompletedAt :: "instant option"

record GraphDefinition =
  Graph_RunID :: string
  Graph_Revision :: int64
  Graph_Parent :: int64
  Graph_Digest :: string
  Graph_Tasks :: "Task list"

record WorkflowRun =
  Run_RouteSelections :: "(string \<times> RoleSelection) list"
  Run_Graph :: "GraphDefinition option"
  Run_ID :: string
  Run_WorkflowID :: string
  Run_GraphRevision :: int64
  Run_Sink :: "SinkTask option"
  Run_Supervision :: "SupervisionRecord option"
  Run_Progress :: ProgressState
  Run_InputArtifactIDs :: "string list"
  Run_Revision :: int64
  Run_CreatedAt :: instant
  Run_UpdatedAt :: instant
  Run_CompletedAt :: "instant option"

section \<open>Fix-loop summaries\<close>

definition VerdictBranchSkipped :: string where
  "VerdictBranchSkipped = ''verdict condition not matched''"

definition FixLoopExhausted :: string where
  "FixLoopExhausted = ''fix-loop-exhausted''"

definition latest_step :: "Attempt \<Rightarrow> (string \<rightharpoonup> Attempt) \<Rightarrow> (string \<rightharpoonup> Attempt)" where
  "latest_step a latest =
     (case latest (Attempt_TaskID a) of
        Some old \<Rightarrow> if Attempt_Number a > Attempt_Number old then latest(Attempt_TaskID a \<mapsto> a) else latest
      | None \<Rightarrow> latest(Attempt_TaskID a \<mapsto> a))"

definition latest_attempts :: "Attempt list \<Rightarrow> (string \<rightharpoonup> Attempt)" where
  "latest_attempts attempts = fold latest_step attempts Map.empty"

definition zero_Summary :: FixLoopSummary where
  "zero_Summary = \<lparr>Summary_Name = '''', Summary_Rounds = 0, Summary_MaxRounds = 0,
     Summary_FinalVerdict = '''', Summary_Exhausted = False, Summary_Escalation = ''''\<rparr>"

definition go_lookup :: "'b \<Rightarrow> ('a \<times> 'b) list \<Rightarrow> 'a \<Rightarrow> 'b" where
  "go_lookup d m k = (case map_of m k of Some v \<Rightarrow> v | None \<Rightarrow> d)"

text \<open>What the loop over the tasks does to the summary of the task's fix loop: it takes over
  the declared name and bound, raises the rounds when the task has started, and reads the
  verdict of a review.\<close>

definition summary_started :: "FixLoopTask \<Rightarrow> Attempt \<Rightarrow> FixLoopSummary \<Rightarrow> FixLoopSummary" where
  "summary_started f a old =
     (let s = old\<lparr>Summary_Name := FixLoop_Name f, Summary_MaxRounds := FixLoop_MaxRounds f\<rparr>
      in if (Attempt_StartedAt a \<noteq> None \<or> Attempt_Progress a = ProgressSucceeded
               \<or> Attempt_Progress a = ProgressFailed)
            \<and> FixLoop_Round f > Summary_Rounds s
         then s\<lparr>Summary_Rounds := FixLoop_Round f\<rparr> else s)"

definition summary_reviewed :: "FixLoopTask \<Rightarrow> ReviewVerdict \<Rightarrow> FixLoopSummary \<Rightarrow> FixLoopSummary" where
  "summary_reviewed f v s =
     (let exhausted = (FixLoop_Round f = FixLoop_MaxRounds f \<and> Verdict_Verdict v = ''changes-requested'')
      in s\<lparr>Summary_FinalVerdict := Verdict_Verdict v, Summary_Exhausted := exhausted,
           Summary_Escalation := (if exhausted then FixLoopExhausted else '''')\<rparr>)"

text \<open>One iteration of the loop; the state is the summaries and the round each loop's final
  verdict was read from, both keyed by loop name.\<close>

definition summarize_step ::
  "(string \<rightharpoonup> Attempt) \<Rightarrow> Task \<Rightarrow>
   (string \<times> FixLoopSummary) list \<times> (string \<times> int) list \<Rightarrow>
   (string \<times> FixLoopSummary) list \<times> (string \<times> int) list" where
  "summarize_step latest t st =
     (case Task_FixLoop t of
        None \<Rightarrow> st
      | Some f \<Rightarrow>
          let (summaries, verdictRound) = st;
              name = FixLoop_Name f;
              a = (case latest (Task_ID t) of Some a \<Rightarrow> a | None \<Rightarrow> zero_Attempt);
              s = summary_started f a (go_lookup zero_Summary summaries name)
          in case Attempt_ReviewVerdict a of
               Some v \<Rightarrow>
                 if FixLoop_Kind f = ''review'' \<and> Attempt_Progress a = ProgressSucceeded
                    \<and> FixLoop_Round f > go_lookup 0 verdictRound name
                 then (AList.update name (summary_reviewed f v s) summaries,
                       AList.update name (FixLoop_Round f) verdictRound)
                 else (AList.update name s summaries, verdictRound)
             | None \<Rightarrow> (AList.update name s summaries, verdictRound))"

definition SummarizeFixLoops :: "Task list \<Rightarrow> Attempt list \<Rightarrow> FixLoopSummary list" where
  "SummarizeFixLoops tasks attempts =
     (let summaries = fst (fold (summarize_step (latest_attempts attempts)) tasks ([], []))
      in map (go_lookup zero_Summary summaries) (sort_strings (map fst summaries)))"

section \<open>Fix-loop progress\<close>

record FindingLineageKey =
  Lineage_RootUnit :: string
  Lineage_ReviewerSlot :: string
  Lineage_ID :: string

record FixLoopProgress =
  LoopProgress_Progress :: bool
  LoopProgress_Reason :: string

fun lineage_set_from ::
  "FindingLineageKey list \<Rightarrow> string \<Rightarrow> FindingLineageKey list \<Rightarrow> FindingLineageKey list go_result" where
  "lineage_set_from seen label [] = Inr seen"
| "lineage_set_from seen label (key # keys) =
     (if key \<in> set seen
      then Inl (Errorf ''%s review contains duplicate blocking lineage key (%q, %q, %q)''
                  [label, Lineage_RootUnit key, Lineage_ReviewerSlot key, Lineage_ID key])
      else lineage_set_from (seen @ [key]) label keys)"

definition blockingLineageSet :: "FindingLineageKey list \<Rightarrow> string \<Rightarrow> FindingLineageKey list go_result" where
  "blockingLineageSet keys label = lineage_set_from [] label keys"

definition CompareFixLoopProgress ::
  "FindingLineageKey list \<Rightarrow> FindingLineageKey list \<Rightarrow> FixLoopProgress go_result" where
  "CompareFixLoopProgress previous current =
     (case blockingLineageSet previous ''previous'' of
        Inl e \<Rightarrow> Inl e
      | Inr previousSet \<Rightarrow>
          (case blockingLineageSet current ''current'' of
             Inl e \<Rightarrow> Inl e
           | Inr currentSet \<Rightarrow>
               if length currentSet = 0
               then Inr \<lparr>LoopProgress_Progress = True, LoopProgress_Reason = ''no current blocking findings''\<rparr>
               else if length currentSet = length previousSet
                       \<and> list_all (\<lambda>key. key \<in> set previousSet) currentSet
               then Inr \<lparr>LoopProgress_Progress = False, LoopProgress_Reason = ''blocking lineage key set unchanged''\<rparr>
               else if length currentSet \<ge> length previousSet
               then Inr \<lparr>LoopProgress_Progress = False, LoopProgress_Reason = ''blocking finding count did not shrink''\<rparr>
               else Inr \<lparr>LoopProgress_Progress = True, LoopProgress_Reason = ''blocking finding count shrank''\<rparr>))"

section \<open>The latest attempt of a task\<close>

text \<open>\<open>latest\<close> is a latest attempt of the task among \<open>attempts\<close>.\<close>

definition is_latest :: "Attempt list \<Rightarrow> string \<Rightarrow> Attempt \<Rightarrow> bool" where
  "is_latest attempts task a \<longleftrightarrow>
     a \<in> set attempts \<and> Attempt_TaskID a = task \<and>
     (\<forall>b \<in> set attempts. Attempt_TaskID b = task \<longrightarrow> Attempt_Number b \<le> Attempt_Number a)"

lemma latest_attempts_snoc:
  "latest_attempts (attempts @ [a]) = latest_step a (latest_attempts attempts)"
  by (simp add: latest_attempts_def)

lemma latest_attempts_None:
  "latest_attempts attempts task = None \<longleftrightarrow> (\<forall>a \<in> set attempts. Attempt_TaskID a \<noteq> task)"
  by (induction attempts rule: rev_induct)
    (auto simp: latest_attempts_def latest_step_def split: option.splits)

lemma latest_attempts_Some:
  "latest_attempts attempts task = Some a \<Longrightarrow> is_latest attempts task a"
proof (induction attempts arbitrary: a rule: rev_induct)
  case Nil
  then show ?case by (simp add: latest_attempts_def)
next
  case (snoc b attempts)
  note step = snoc.prems [unfolded latest_attempts_snoc latest_step_def]
  show ?case
  proof (cases "Attempt_TaskID b = task")
    case False
    with step have "latest_attempts attempts task = Some a"
      by (auto split: option.splits if_splits)
    with snoc.IH False show ?thesis by (auto simp: is_latest_def)
  next
    case task: True
    show ?thesis
    proof (cases "latest_attempts attempts task")
      case None
      with step task have "a = b" by simp
      with None task show ?thesis by (auto simp: is_latest_def latest_attempts_None)
    next
      case (Some old)
      with snoc.IH have "is_latest attempts task old" by simp
      with step Some task show ?thesis
        by (fastforce simp: is_latest_def split: if_splits)
    qed
  qed
qed

lemma latest_attempts_exists:
  "a \<in> set attempts \<Longrightarrow> \<exists>b. latest_attempts attempts (Attempt_TaskID a) = Some b"
  using latest_attempts_None by (metis option.exhaust)

section \<open>Fix-loop summaries are sound\<close>

text \<open>
  The evidence behind an entry of the summaries: the entry carries its key as its name, and an
  exhausted loop has a review task at its last round whose latest attempt succeeded with
  \<open>changes-requested\<close>, and says so in its escalation.
\<close>

definition exhausting_review :: "(string \<rightharpoonup> Attempt) \<Rightarrow> Task \<Rightarrow> string \<Rightarrow> bool" where
  "exhausting_review latest t name \<longleftrightarrow>
     (\<exists>f a v. Task_FixLoop t = Some f \<and> FixLoop_Name f = name \<and> FixLoop_Kind f = ''review'' \<and>
        FixLoop_Round f = FixLoop_MaxRounds f \<and> latest (Task_ID t) = Some a \<and>
        Attempt_Progress a = ProgressSucceeded \<and> Attempt_ReviewVerdict a = Some v \<and>
        Verdict_Verdict v = ''changes-requested'')"

definition summary_ok :: "(string \<rightharpoonup> Attempt) \<Rightarrow> Task list \<Rightarrow> string \<Rightarrow> FixLoopSummary \<Rightarrow> bool" where
  "summary_ok latest tasks name s \<longleftrightarrow>
     Summary_Name s = name \<and>
     (\<exists>t \<in> set tasks. \<exists>f. Task_FixLoop t = Some f \<and> FixLoop_Name f = name) \<and>
     (Summary_Exhausted s \<longrightarrow> (\<exists>t \<in> set tasks. exhausting_review latest t name)) \<and>
     Summary_Escalation s = (if Summary_Exhausted s then FixLoopExhausted else '''')"

definition summaries_ok where
  "summaries_ok latest tasks summaries \<longleftrightarrow>
     distinct (map fst summaries) \<and>
     (\<forall>name s. map_of summaries name = Some s \<longrightarrow> summary_ok latest tasks name s) \<and>
     (\<forall>t \<in> set tasks. \<forall>f. Task_FixLoop t = Some f \<longrightarrow> FixLoop_Name f \<in> fst ` set summaries)"

lemma summary_ok_snoc: "summary_ok latest tasks name s \<Longrightarrow> summary_ok latest (tasks @ [t]) name s"
  by (auto simp: summary_ok_def)

lemma go_lookup_zero [simp]: "go_lookup d [] k = d"
  by (simp add: go_lookup_def)

lemma summary_ok_default:
  assumes "summaries_ok latest tasks summaries"
  shows "let s = go_lookup zero_Summary summaries name in
     (Summary_Exhausted s \<longrightarrow> (\<exists>t \<in> set tasks. exhausting_review latest t name)) \<and>
     Summary_Escalation s = (if Summary_Exhausted s then FixLoopExhausted else '''')"
  using assms
  by (auto simp: summaries_ok_def summary_ok_def go_lookup_def zero_Summary_def split: option.splits)

lemma summaries_ok_update:
  assumes "summaries_ok latest tasks summaries"
    and "Task_FixLoop t = Some f" and "FixLoop_Name f = name"
    and "summary_ok latest (tasks @ [t]) name s"
  shows "summaries_ok latest (tasks @ [t]) (AList.update name s summaries)"
  using assms
  by (auto simp: summaries_ok_def distinct_update update_conv' dom_update summary_ok_snoc
        split: if_splits)

lemma summarize_step_ok:
  assumes "summaries_ok latest tasks (fst st)"
  shows "summaries_ok latest (tasks @ [t]) (fst (summarize_step latest t st))"
proof (cases "Task_FixLoop t")
  case None
  with assms show ?thesis
    by (auto simp: summarize_step_def summaries_ok_def intro: summary_ok_snoc)
next
  case (Some f)
  obtain summaries verdictRound where st: "st = (summaries, verdictRound)" by (cases st)
  with assms have ok: "summaries_ok latest tasks summaries" by simp
  let ?a = "case latest (Task_ID t) of Some a \<Rightarrow> a | None \<Rightarrow> zero_Attempt"
  let ?s = "summary_started f ?a (go_lookup zero_Summary summaries (FixLoop_Name f))"
  have base: "summary_ok latest (tasks @ [t]) (FixLoop_Name f) ?s"
    using summary_ok_default [OF ok, of "FixLoop_Name f"] Some
    by (auto simp: Let_def summary_started_def summary_ok_def)
  note update = summaries_ok_update [OF ok Some refl]
  show ?thesis
  proof (cases "Attempt_ReviewVerdict ?a")
    case None
    then show ?thesis
      using update [OF base] by (simp add: summarize_step_def st Some Let_def)
  next
    case verdict: (Some v)
    let ?review = "FixLoop_Kind f = ''review'' \<and> Attempt_Progress ?a = ProgressSucceeded
                    \<and> FixLoop_Round f > go_lookup 0 verdictRound (FixLoop_Name f)"
    have latest: "latest (Task_ID t) = Some ?a"
      using verdict by (auto simp: zero_Attempt_def split: option.splits)
    have "summary_ok latest (tasks @ [t]) (FixLoop_Name f) (summary_reviewed f v ?s)" if ?review
      using base that verdict latest Some
      by (auto simp: summary_ok_def exhausting_review_def summary_reviewed_def Let_def)
    with verdict Some update [OF base] update show ?thesis
      by (simp add: summarize_step_def st Let_def)
  qed
qed

lemma summaries_ok_fold:
  "summaries_ok latest tasks (fst (fold (summarize_step latest) tasks ([], [])))"
proof (induction tasks rule: rev_induct)
  case Nil
  show ?case by (simp add: summaries_ok_def)
next
  case (snoc t tasks)
  then show ?case using summarize_step_ok by simp
qed

lemma SummarizeFixLoops_ok:
  assumes "s \<in> set (SummarizeFixLoops tasks attempts)"
  shows "summary_ok (latest_attempts attempts) tasks (Summary_Name s) s"
proof -
  let ?m = "fst (fold (summarize_step (latest_attempts attempts)) tasks ([], []))"
  have ok: "summaries_ok (latest_attempts attempts) tasks ?m" by (rule summaries_ok_fold)
  from assms obtain name where name: "name \<in> fst ` set ?m" and s: "s = go_lookup zero_Summary ?m name"
    by (auto simp: SummarizeFixLoops_def Let_def)
  from name obtain s' where s': "map_of ?m name = Some s'" by (metis map_of_eq_None_iff option.exhaust)
  with ok have "summary_ok (latest_attempts attempts) tasks name s'" by (simp add: summaries_ok_def)
  with s s' show ?thesis by (simp add: go_lookup_def summary_ok_def)
qed

lemma SummarizeFixLoops_names:
  "map Summary_Name (SummarizeFixLoops tasks attempts) =
     sort_strings (map fst (fst (fold (summarize_step (latest_attempts attempts)) tasks ([], []))))"
proof -
  let ?m = "fst (fold (summarize_step (latest_attempts attempts)) tasks ([], []))"
  have "Summary_Name (go_lookup zero_Summary ?m name) = name" if "name \<in> fst ` set ?m" for name
    using that summaries_ok_fold [of "latest_attempts attempts" tasks]
    by (auto simp: summaries_ok_def summary_ok_def go_lookup_def map_of_eq_None_iff split: option.splits)
  then show ?thesis by (auto simp: SummarizeFixLoops_def Let_def intro!: map_idI)
qed

section \<open>Fix-loop progress\<close>

lemma lineage_set_from_Inr:
  "lineage_set_from seen label keys = Inr r \<longleftrightarrow>
     r = seen @ keys \<and> distinct keys \<and> set keys \<inter> set seen = {}"
  by (induction seen label keys rule: lineage_set_from.induct) auto

lemma blockingLineageSet_Inr: "blockingLineageSet keys label = Inr r \<longleftrightarrow> r = keys \<and> distinct keys"
  by (simp add: blockingLineageSet_def lineage_set_from_Inr)

lemma CompareFixLoopProgress_Inr:
  "CompareFixLoopProgress previous current = Inr r \<Longrightarrow>
     distinct previous \<and> distinct current \<and>
     (LoopProgress_Progress r \<longleftrightarrow> current = [] \<or> length current < length previous)"
  by (auto simp: CompareFixLoopProgress_def blockingLineageSet_Inr split: sum.splits if_splits)

end
