(* ===== verification/SupervisionReadiness.thy ===== *)
theory SupervisionReadiness
  imports SupervisionMachines Orchestrator
begin

text \<open>
  The supervision readiness predicate of \<open>internal/domain/supervision_readiness.go\<close>: the
  single function the planner, the offer transaction and the claim transaction ask whether a
  supervised task may be dispatched, the derived run status label, and whether a recorded
  gate acceptance survives a change. The comparison of the blocker sort is interpreted as a
  \<open>strict_weak_order\<close>, so that the verdict is a function of the set of gates and holds.
\<close>

section \<open>Blockers\<close>

datatype SupervisionBlockerCode =
    SupervisionBlockerGatePending
  | SupervisionBlockerGateAwaitingReview
  | SupervisionBlockerGateHeld
  | SupervisionBlockerGateEscalated
  | SupervisionBlockerGateCancelled
  | SupervisionBlockerBranchHold
  | SupervisionBlockerRunHold
  | SupervisionBlockerRouteUnavailable
  | SupervisionBlockerRunCancelled
  | SupervisionBlockerRunTerminal
  | SupervisionBlockerStaleSnapshot

fun BlockerCode_text :: "SupervisionBlockerCode \<Rightarrow> string" where
  "BlockerCode_text SupervisionBlockerGatePending = ''supervision-gate-pending''"
| "BlockerCode_text SupervisionBlockerGateAwaitingReview = ''supervision-gate-awaiting-review''"
| "BlockerCode_text SupervisionBlockerGateHeld = ''supervision-gate-held''"
| "BlockerCode_text SupervisionBlockerGateEscalated = ''supervision-gate-escalated''"
| "BlockerCode_text SupervisionBlockerGateCancelled = ''supervision-gate-cancelled''"
| "BlockerCode_text SupervisionBlockerBranchHold = ''supervision-branch-hold''"
| "BlockerCode_text SupervisionBlockerRunHold = ''supervision-run-hold''"
| "BlockerCode_text SupervisionBlockerRouteUnavailable = ''supervision-route-unavailable''"
| "BlockerCode_text SupervisionBlockerRunCancelled = ''supervision-run-cancelled''"
| "BlockerCode_text SupervisionBlockerRunTerminal = ''supervision-run-terminal''"
| "BlockerCode_text SupervisionBlockerStaleSnapshot = ''supervision-stale-snapshot''"

record SupervisionBlocker =
  Blocker_Code :: SupervisionBlockerCode
  Blocker_TaskID :: string
  Blocker_GateID :: string
  Blocker_HoldID :: string
  Blocker_Reason :: string

record SupervisionSnapshot =
  Snapshot_RunID :: string
  Snapshot_GraphRevision :: int64
  Snapshot_Supervised :: bool
  Snapshot_RunTerminal :: bool
  Snapshot_RunCancelled :: bool
  Snapshot_RouteAvailable :: bool
  Snapshot_Gates :: "Gate list"
  Snapshot_Holds :: "Hold list"

record SupervisionQuery =
  Query_TaskID :: string
  Query_ExpectedGraphRevision :: int64

record SupervisionVerdict =
  Verdict_Admitted :: bool
  Verdict_Blockers :: "SupervisionBlocker list"

definition blocker_less :: "SupervisionBlocker \<Rightarrow> SupervisionBlocker \<Rightarrow> bool" where
  "blocker_less a b =
     (if Blocker_Code a \<noteq> Blocker_Code b
      then BlockerCode_text (Blocker_Code a) < BlockerCode_text (Blocker_Code b)
      else if Blocker_GateID a \<noteq> Blocker_GateID b then Blocker_GateID a < Blocker_GateID b
      else Blocker_HoldID a < Blocker_HoldID b)"

definition sortSupervisionBlockers :: "SupervisionBlocker list \<Rightarrow> SupervisionBlocker list" where
  "sortSupervisionBlockers blockers = sort_less blocker_less blockers"

section \<open>Admission\<close>

definition blocker :: "SupervisionQuery \<Rightarrow> SupervisionBlockerCode \<Rightarrow> string \<Rightarrow> string \<Rightarrow> string \<Rightarrow> SupervisionBlocker" where
  "blocker query code gateID holdID reason =
     \<lparr>Blocker_Code = code, Blocker_TaskID = Query_TaskID query, Blocker_GateID = gateID,
      Blocker_HoldID = holdID, Blocker_Reason = reason\<rparr>"

definition hold_blockers :: "SupervisionQuery \<Rightarrow> Hold list \<Rightarrow> SupervisionBlocker list" where
  "hold_blockers query holds =
     concat (map (\<lambda>hold.
       if \<not> Hold_Covers hold (Query_TaskID query) then []
       else [blocker query
               (if Scope_Kind (Hold_Scope hold) = HoldScopeRun then SupervisionBlockerRunHold
                else SupervisionBlockerBranchHold)
               '''' (Hold_ID hold) (Hold_Reason hold)]) holds)"

text \<open>The code of a protecting gate that is not accepted, and whether its decision is still
  awaited.\<close>

definition gate_code :: "GateState \<Rightarrow> (SupervisionBlockerCode \<times> bool) option" where
  "gate_code state = (case state of
       GateAccepted \<Rightarrow> None
     | GateReadyForReview \<Rightarrow> Some (SupervisionBlockerGateAwaitingReview, True)
     | GateHeld \<Rightarrow> Some (SupervisionBlockerGateHeld, False)
     | GateEscalated \<Rightarrow> Some (SupervisionBlockerGateEscalated, False)
     | GateCancelled \<Rightarrow> Some (SupervisionBlockerGateCancelled, False)
     | _ \<Rightarrow> Some (SupervisionBlockerGatePending, True))"

fun gate_blockers :: "SupervisionQuery \<Rightarrow> Gate list \<Rightarrow> SupervisionBlocker list \<times> bool" where
  "gate_blockers query [] = ([], False)"
| "gate_blockers query (gate # gates) =
     (let (blockers, awaitingDecision) = gate_blockers query gates in
      if \<not> GateDefinition_Protects (Gate_Definition gate) (Query_TaskID query)
      then (blockers, awaitingDecision)
      else (case gate_code (Gate_State gate) of
              None \<Rightarrow> (blockers, awaitingDecision)
            | Some (code, awaiting) \<Rightarrow>
                (blocker query code (GateDef_ID (Gate_Definition gate)) '''' (GateState_text (Gate_State gate))
                   # blockers,
                 awaiting \<or> awaitingDecision)))"

definition run_blockers :: "SupervisionSnapshot \<Rightarrow> SupervisionQuery \<Rightarrow> SupervisionBlocker list" where
  "run_blockers snapshot query =
     (if Snapshot_RunCancelled snapshot
      then [blocker query SupervisionBlockerRunCancelled '''' ''''
              ''the run is cancelled; supervision authority is revoked''] else []) @
     (if Snapshot_RunTerminal snapshot
      then [blocker query SupervisionBlockerRunTerminal '''' '''' ''the run has settled''] else [])"

definition route_blockers :: "SupervisionSnapshot \<Rightarrow> SupervisionQuery \<Rightarrow> bool \<Rightarrow> SupervisionBlocker list" where
  "route_blockers snapshot query awaitingDecision =
     (if awaitingDecision \<and> \<not> Snapshot_RouteAvailable snapshot
      then [blocker query SupervisionBlockerRouteUnavailable '''' ''''
              ''the supervisor route cannot be admitted, so the gate stays closed''] else [])"

definition collected_blockers :: "SupervisionSnapshot \<Rightarrow> SupervisionQuery \<Rightarrow> SupervisionBlocker list" where
  "collected_blockers snapshot query =
     (let (gates, awaitingDecision) = gate_blockers query (Snapshot_Gates snapshot)
      in run_blockers snapshot query @ hold_blockers query (Snapshot_Holds snapshot)
           @ gates @ route_blockers snapshot query awaitingDecision)"

definition SupervisionAdmits :: "SupervisionSnapshot \<Rightarrow> SupervisionQuery \<Rightarrow> SupervisionVerdict" where
  "SupervisionAdmits snapshot query =
     (if \<not> Snapshot_Supervised snapshot then \<lparr>Verdict_Admitted = True, Verdict_Blockers = []\<rparr>
      else if Query_ExpectedGraphRevision query \<noteq> 0
              \<and> Query_ExpectedGraphRevision query \<noteq> Snapshot_GraphRevision snapshot
      then \<lparr>Verdict_Admitted = False,
            Verdict_Blockers = [blocker query SupervisionBlockerStaleSnapshot '''' ''''
              ''the supervision snapshot is not at the expected graph revision'']\<rparr>
      else
        let blockers = collected_blockers snapshot query
        in if length blockers = 0 then \<lparr>Verdict_Admitted = True, Verdict_Blockers = []\<rparr>
           else \<lparr>Verdict_Admitted = False, Verdict_Blockers = sortSupervisionBlockers blockers\<rparr>)"

section \<open>The derived run status\<close>

datatype SupervisedRunStatus =
    SupervisedRunActive
  | SupervisedRunWaitingExternal
  | SupervisedRunRunnable
  | SupervisedRunEscalated
  | SupervisedRunHeld
  | SupervisedRunBlocked
  | SupervisedRunTerminal

record SupervisedRunStatusInput =
  StatusIn_Snapshot :: SupervisionSnapshot
  StatusIn_Attempts :: "Attempt list"
  StatusIn_ReadyTaskIDs :: "string list"
  StatusIn_Incidents :: "ReviewIncident list"
  StatusIn_TasksRemaining :: bool
  StatusIn_SinkSettled :: bool

text \<open>The first loop: \<open>None\<close> is the early return of \<open>SupervisedRunActive\<close>, otherwise the
  flags \<open>parked\<close> and \<open>needsInput\<close>.\<close>

fun scan_attempts :: "bool \<Rightarrow> bool \<Rightarrow> Attempt list \<Rightarrow> (bool \<times> bool) option" where
  "scan_attempts parked needsInput [] = Some (parked, needsInput)"
| "scan_attempts parked needsInput (attempt # attempts) =
     (if \<not> TurnLive attempt
      then scan_attempts parked (needsInput \<or> Attempt_Progress attempt = ProgressNeedsInput) attempts
      else if Attempt_Progress attempt = ProgressWaitingExternal \<or> Attempt_Control attempt = ControlWaitingExternal
      then scan_attempts True needsInput attempts
      else None)"

definition SupervisedRunStatusLabel :: "SupervisedRunStatusInput \<Rightarrow> SupervisedRunStatus" where
  "SupervisedRunStatusLabel i =
     (case scan_attempts False False (StatusIn_Attempts i) of
        None \<Rightarrow> SupervisedRunActive
      | Some (parked, needsInput) \<Rightarrow>
          if parked then SupervisedRunWaitingExternal
          else if list_ex (\<lambda>taskID. Verdict_Admitted (SupervisionAdmits (StatusIn_Snapshot i)
                    \<lparr>Query_TaskID = taskID, Query_ExpectedGraphRevision = 0\<rparr>)) (StatusIn_ReadyTaskIDs i)
          then SupervisedRunRunnable
          else if list_ex (\<lambda>incident. Incident_State incident = IncidentEscalated) (StatusIn_Incidents i)
          then SupervisedRunEscalated
          else if needsInput then SupervisedRunEscalated
          else if list_ex (\<lambda>gate. Gate_State gate = GateReadyForReview \<or> Gate_State gate = GateHeld)
                    (Snapshot_Gates (StatusIn_Snapshot i))
          then SupervisedRunHeld
          else if list_ex (\<lambda>taskID. list_ex (\<lambda>hold. Hold_Covers hold taskID) (Snapshot_Holds (StatusIn_Snapshot i)))
                    (StatusIn_ReadyTaskIDs i)
          then SupervisedRunHeld
          else if StatusIn_TasksRemaining i then SupervisedRunBlocked
          else if StatusIn_SinkSettled i then SupervisedRunTerminal
          else SupervisedRunBlocked)"

section \<open>Standing of an acceptance\<close>

datatype GateChangeKind = GateChangeNewAttempt | GateChangeAmendment | GateChangeKindOther string

record GateChange =
  Change_Kind :: GateChangeKind
  Change_TaskID :: string
  Change_AmendedTaskIDs :: "string list"
  Change_RevalidationReceiptID :: string

datatype AcceptanceInvalidation =
    AcceptanceStandsUnaffected
  | AcceptanceStandsRevalidated
  | AcceptanceInvalidNotAnAcceptance
  | AcceptanceInvalidObservedRetried
  | AcceptanceInvalidScopeAmended
  | AcceptanceInvalidNoRevalidation

record AcceptanceVerdict =
  Acceptance_Stands :: bool
  Acceptance_Reason :: AcceptanceInvalidation

definition GateAcceptanceStands :: "GateDefinition \<Rightarrow> GateDecision \<Rightarrow> GateChange \<Rightarrow> AcceptanceVerdict" where
  "GateAcceptanceStands gate acceptance change =
     (if Decision_Outcome acceptance \<noteq> GateDecisionAccept
      then \<lparr>Acceptance_Stands = False, Acceptance_Reason = AcceptanceInvalidNotAnAcceptance\<rparr>
      else (case Change_Kind change of
        GateChangeNewAttempt \<Rightarrow>
          if GateDefinition_Observes gate (Change_TaskID change)
          then \<lparr>Acceptance_Stands = False, Acceptance_Reason = AcceptanceInvalidObservedRetried\<rparr>
          else \<lparr>Acceptance_Stands = True, Acceptance_Reason = AcceptanceStandsUnaffected\<rparr>
      | GateChangeAmendment \<Rightarrow>
          if list_ex (\<lambda>taskID. GateDefinition_Observes gate taskID \<or> GateDefinition_Protects gate taskID)
               (Change_AmendedTaskIDs change)
          then \<lparr>Acceptance_Stands = False, Acceptance_Reason = AcceptanceInvalidScopeAmended\<rparr>
          else if blank (Change_RevalidationReceiptID change)
          then \<lparr>Acceptance_Stands = False, Acceptance_Reason = AcceptanceInvalidNoRevalidation\<rparr>
          else \<lparr>Acceptance_Stands = True, Acceptance_Reason = AcceptanceStandsRevalidated\<rparr>
      | GateChangeKindOther _ \<Rightarrow>
          \<lparr>Acceptance_Stands = False, Acceptance_Reason = AcceptanceInvalidNoRevalidation\<rparr>))"

section \<open>Lemmas\<close>

lemma BlockerCode_text_inject [simp]: "BlockerCode_text a = BlockerCode_text b \<longleftrightarrow> a = b"
  by (cases a; cases b) simp_all

interpretation blocker_order: strict_weak_order blocker_less
proof -
  have "blocker_less =
    (\<lambda>a b. if BlockerCode_text (Blocker_Code a) \<noteq> BlockerCode_text (Blocker_Code b)
           then BlockerCode_text (Blocker_Code a) < BlockerCode_text (Blocker_Code b)
           else if Blocker_GateID a \<noteq> Blocker_GateID b then Blocker_GateID a < Blocker_GateID b
           else Blocker_HoldID a < Blocker_HoldID b)"
    by (intro ext) (simp add: blocker_less_def)
  then show "strict_weak_order blocker_less"
    by (rule ssubst) (intro strict_weak_order_then strict_weak_order_key)
qed

lemma blocker_less_total:
  assumes "\<not> blocker_less a b" and "\<not> blocker_less b a"
  shows "Blocker_Code a = Blocker_Code b \<and> Blocker_GateID a = Blocker_GateID b
    \<and> Blocker_HoldID a = Blocker_HoldID b"
proof -
  have "BlockerCode_text (Blocker_Code a) = BlockerCode_text (Blocker_Code b)"
    using assms by (cases "Blocker_Code a = Blocker_Code b") (auto simp: blocker_less_def)
  with assms show ?thesis by (auto simp: blocker_less_def split: if_splits)
qed


lemma gate_code_accepted [simp]: "gate_code GateAccepted = None"
  by (simp add: gate_code_def)

lemma gate_code_open: "state \<noteq> GateAccepted \<Longrightarrow> \<exists>code awaiting. gate_code state = Some (code, awaiting)"
  by (cases state) (auto simp: gate_code_def)

text \<open>The rendered blockers and the awaiting flag depend only on the multiset of the gates
  and holds.\<close>

definition gate_blocker :: "SupervisionQuery \<Rightarrow> Gate \<Rightarrow> SupervisionBlocker" where
  "gate_blocker query gate =
     blocker query (fst (the (gate_code (Gate_State gate)))) (GateDef_ID (Gate_Definition gate)) ''''
       (GateState_text (Gate_State gate))"

definition blocking_gate :: "SupervisionQuery \<Rightarrow> Gate \<Rightarrow> bool" where
  "blocking_gate query gate \<longleftrightarrow>
     GateDefinition_Protects (Gate_Definition gate) (Query_TaskID query) \<and> Gate_State gate \<noteq> GateAccepted"

lemma gate_blockers_eq:
  "gate_blockers query gates =
     (map (gate_blocker query) (filter (blocking_gate query) gates),
      \<exists>gate \<in> set (filter (blocking_gate query) gates). snd (the (gate_code (Gate_State gate))))"
proof (induction query gates rule: gate_blockers.induct)
  case (2 query gate gates)
  then show ?case
    using gate_code_open [of "Gate_State gate"]
    by (cases "Gate_State gate = GateAccepted") (auto simp: Let_def gate_blocker_def blocking_gate_def)
qed simp

definition hold_blocker :: "SupervisionQuery \<Rightarrow> Hold \<Rightarrow> SupervisionBlocker" where
  "hold_blocker query hold =
     blocker query (if Scope_Kind (Hold_Scope hold) = HoldScopeRun then SupervisionBlockerRunHold
                    else SupervisionBlockerBranchHold) '''' (Hold_ID hold) (Hold_Reason hold)"

lemma hold_blockers_eq:
  "hold_blockers query holds =
     map (hold_blocker query) (filter (\<lambda>hold. Hold_Covers hold (Query_TaskID query)) holds)"
  by (induction holds) (auto simp: hold_blockers_def hold_blocker_def)

lemma scan_attempts_None:
  "scan_attempts parked needsInput attempts = None \<longleftrightarrow>
     (\<exists>a \<in> set attempts. TurnLive a \<and> Attempt_Progress a \<noteq> ProgressWaitingExternal
        \<and> Attempt_Control a \<noteq> ControlWaitingExternal)"
  by (induction parked needsInput attempts rule: scan_attempts.induct) auto

lemma scan_attempts_Some:
  "scan_attempts parked needsInput attempts = Some (p, n) \<Longrightarrow>
     (p \<longleftrightarrow> parked \<or> (\<exists>a \<in> set attempts. TurnLive a)) \<and>
     (n \<longleftrightarrow> needsInput \<or> (\<exists>a \<in> set attempts. Attempt_Progress a = ProgressNeedsInput))"
  by (induction parked needsInput attempts rule: scan_attempts.induct)
    (auto simp: TurnLive_def split: if_splits)

end
