(* ===== verification/ReadinessProperties.thy ===== *)
theory ReadinessProperties
  imports SupervisionReadiness SupervisionProperties
begin

text \<open>
  The properties of the readiness predicate, of the status label and of acceptance standing,
  with the sample snapshot their instances use.
\<close>

definition sample_hold :: "HoldScopeKind \<Rightarrow> string \<Rightarrow> Hold" where
  "sample_hold kind holdID =
     \<lparr>Hold_ID = holdID, Hold_RunID = ''run'', Hold_Scope = \<lparr>Scope_Kind = kind, Scope_BranchRootTaskID = ''build''\<rparr>,
      Hold_Owner = sample_operator, Hold_GraphRevision = 3, Hold_ResolvedTaskIDs = [''build''],
      Hold_State = HoldActive, Hold_Reason = ''stop'', Hold_CreatedAt = 5, Hold_ReleasedAt = None\<rparr>"

definition sample_snapshot :: "Gate list \<Rightarrow> Hold list \<Rightarrow> SupervisionSnapshot" where
  "sample_snapshot gates holds =
     \<lparr>Snapshot_RunID = ''run'', Snapshot_GraphRevision = 3, Snapshot_Supervised = True,
      Snapshot_RunTerminal = False, Snapshot_RunCancelled = False, Snapshot_RouteAvailable = True,
      Snapshot_Gates = gates, Snapshot_Holds = holds\<rparr>"

definition sample_query :: SupervisionQuery where
  "sample_query = \<lparr>Query_TaskID = ''deploy'', Query_ExpectedGraphRevision = 3\<rparr>"

definition sample_acceptance :: GateDecision where
  "sample_acceptance =
     \<lparr>Decision_ID = ''d1'', Decision_RunID = ''run'', Decision_GateID = ''g1'', Decision_Actor = sample_operator,
      Decision_ActivationEpoch = 0, Decision_GraphRevision = 3,
      Decision_Evidence = \<lparr>Evidence_ID = ''ev'', Evidence_GraphRevision = 3, Evidence_Producers = [], Evidence_TakenAt = 4\<rparr>,
      Decision_Outcome = GateDecisionAccept, Decision_RequestID = ''q1'', Decision_Reason = '''',
      Decision_IncidentID = '''', Decision_DecidedAt = 5\<rparr>"

definition sample_amendment :: "string list \<Rightarrow> GateChange" where
  "sample_amendment ids =
     \<lparr>Change_Kind = GateChangeAmendment, Change_TaskID = '''', Change_AmendedTaskIDs = ids,
      Change_RevalidationReceiptID = ''r1''\<rparr>"

lemmas readiness_samples = sample_hold_def sample_snapshot_def sample_query_def sample_gate_def

section \<open>Admission\<close>

text \<open>What supervision permits, independent of how the blockers are collected.\<close>

definition unblocked :: "SupervisionSnapshot \<Rightarrow> SupervisionQuery \<Rightarrow> bool" where
  "unblocked snapshot query \<longleftrightarrow>
     Query_ExpectedGraphRevision query \<in> {0, Snapshot_GraphRevision snapshot} \<and>
     \<not> Snapshot_RunCancelled snapshot \<and> \<not> Snapshot_RunTerminal snapshot \<and>
     (\<forall>hold \<in> set (Snapshot_Holds snapshot). \<not> Hold_Covers hold (Query_TaskID query)) \<and>
     (\<forall>gate \<in> set (Snapshot_Gates snapshot).
        Query_TaskID query \<in> set (GateDef_ProtectedTaskIDs (Gate_Definition gate))
        \<longrightarrow> Gate_State gate = GateAccepted)"

lemma sort_blockers_Nil: "sortSupervisionBlockers bs = [] \<longleftrightarrow> bs = []"
  by (simp add: sortSupervisionBlockers_def)

lemma SupervisionAdmits_iff:
  "Verdict_Admitted (SupervisionAdmits snapshot query) \<longleftrightarrow>
     \<not> Snapshot_Supervised snapshot \<or> unblocked snapshot query"
  by (auto simp: SupervisionAdmits_def collected_blockers_def run_blockers_def route_blockers_def unblocked_def Let_def gate_blockers_eq hold_blockers_eq
      filter_empty_conv blocking_gate_def GateDefinition_Protects_def)

text \<open>
  C6. Supervision admits a task exactly when the run is unsupervised, or the snapshot is at the
  expected graph revision, the run is neither cancelled nor settled, no active hold covers the
  task and every gate protecting it is accepted; and the blockers are empty exactly when the
  task is admitted, so that a refusal always names a reason.
\<close>

theorem admission_exactly_unblocked:
  "(Verdict_Admitted (SupervisionAdmits snapshot query) \<longleftrightarrow>
      \<not> Snapshot_Supervised snapshot \<or> unblocked snapshot query) \<and>
   (Verdict_Blockers (SupervisionAdmits snapshot query) = [] \<longleftrightarrow>
      Verdict_Admitted (SupervisionAdmits snapshot query))"
  by (rule conjI [OF SupervisionAdmits_iff])
    (auto simp: SupervisionAdmits_def sort_blockers_Nil Let_def split: prod.splits)

theorem admission_exactly_unblocked_witness:
  "Verdict_Admitted (SupervisionAdmits (sample_snapshot [sample_gate GateAccepted] []) sample_query) \<and>
   Verdict_Blockers (SupervisionAdmits (sample_snapshot [sample_gate GateHeld] []) sample_query) \<noteq> []"
  using admission_exactly_unblocked [of "sample_snapshot [sample_gate GateAccepted] []" sample_query]
    admission_exactly_unblocked [of "sample_snapshot [sample_gate GateHeld] []" sample_query]
  by (simp add: unblocked_def readiness_samples)

text \<open>The blockers that name neither a gate nor a hold carry a text that their code determines,
  and two blockers of one snapshot with the same code, gate and hold are equal.\<close>

definition fixed_blockers :: "SupervisionQuery \<Rightarrow> SupervisionBlocker list \<Rightarrow> bool" where
  "fixed_blockers query bs \<longleftrightarrow>
     set bs \<subseteq> {blocker query SupervisionBlockerRunCancelled '''' ''''
                 ''the run is cancelled; supervision authority is revoked'',
               blocker query SupervisionBlockerRunTerminal '''' '''' ''the run has settled'',
               blocker query SupervisionBlockerRouteUnavailable '''' ''''
                 ''the supervisor route cannot be admitted, so the gate stays closed''}"

definition code_origin :: "SupervisionBlockerCode \<Rightarrow> nat" where
  "code_origin code = (case code of
       SupervisionBlockerRunHold \<Rightarrow> 2
     | SupervisionBlockerBranchHold \<Rightarrow> 2
     | SupervisionBlockerRunCancelled \<Rightarrow> 0
     | SupervisionBlockerRunTerminal \<Rightarrow> 0
     | SupervisionBlockerRouteUnavailable \<Rightarrow> 0
     | SupervisionBlockerStaleSnapshot \<Rightarrow> 0
     | _ \<Rightarrow> 1)"

lemma fixed_origin: "fixed_blockers query bs \<Longrightarrow> b \<in> set bs \<Longrightarrow> code_origin (Blocker_Code b) = 0"
  unfolding fixed_blockers_def by (drule (1) subsetD) (auto simp: blocker_def code_origin_def)

lemma run_route_fixed: "fixed_blockers query (run_blockers s query @ route_blockers s query awaiting)"
  by (auto simp: fixed_blockers_def run_blockers_def route_blockers_def)

lemma gate_origin:
  "Gate_State gate \<noteq> GateAccepted \<Longrightarrow> code_origin (Blocker_Code (gate_blocker query gate)) = 1"
  by (cases "Gate_State gate") (simp_all add: gate_blocker_def blocker_def gate_code_def code_origin_def)

lemma hold_origin: "code_origin (Blocker_Code (hold_blocker query hold)) = 2"
  by (simp add: hold_blocker_def blocker_def code_origin_def)

lemma blockers_determined:
  assumes gates: "distinct (map (\<lambda>g. GateDef_ID (Gate_Definition g)) gates)"
    and holds: "distinct (map Hold_ID holds)"
    and pre: "fixed_blockers query pre"
    and mem: "\<And>z. z \<in> {x, y} \<Longrightarrow> z \<in> set pre \<or>
        z \<in> gate_blocker query ` {g \<in> set gates. Gate_State g \<noteq> GateAccepted} \<or>
        z \<in> hold_blocker query ` set holds"
    and "\<not> blocker_less x y" and "\<not> blocker_less y x"
  shows "x = y"
proof -
  note eq = blocker_less_total [OF assms(5,6)]
  have same_gate: "g = g'" if "g \<in> set gates" "g' \<in> set gates"
    "GateDef_ID (Gate_Definition g) = GateDef_ID (Gate_Definition g')" for g g'
    using gates that by (auto simp: distinct_map dest: inj_onD)
  have same_hold: "h = h'" if "h \<in> set holds" "h' \<in> set holds" "Hold_ID h = Hold_ID h'" for h h'
    using holds that by (auto simp: distinct_map dest: inj_onD)
  have origin: "z \<in> set pre \<and> code_origin (Blocker_Code z) = 0 \<or>
      (\<exists>g \<in> set gates. z = gate_blocker query g \<and> code_origin (Blocker_Code z) = 1) \<or>
      (\<exists>h \<in> set holds. z = hold_blocker query h \<and> code_origin (Blocker_Code z) = 2)" if "z \<in> {x, y}" for z
    using mem [OF that] fixed_origin [OF pre] gate_origin hold_origin by blast
  consider (fixed) "x \<in> set pre" "y \<in> set pre"
    | (gate) g g' where "x = gate_blocker query g" "g \<in> set gates" "y = gate_blocker query g'" "g' \<in> set gates"
    | (hold) h h' where "x = hold_blocker query h" "h \<in> set holds" "y = hold_blocker query h'" "h' \<in> set holds"
    using origin [of x, OF insertI1] origin [of y, OF insertI2, OF insertI1] eq by (elim disjE conjE bexE) simp_all
  then show ?thesis
  proof cases
    case fixed
    note members = fixed [THEN subsetD [OF pre [unfolded fixed_blockers_def]]]
    from members eq show ?thesis by (elim insertE emptyE) (simp_all only: blocker_def SupervisionBlocker.simps SupervisionBlockerCode.distinct simp_thms)
  next
    case gate
    then show ?thesis using eq same_gate [of g g'] by (simp add: gate_blocker_def blocker_def)
  next
    case hold
    then show ?thesis using eq same_hold [of h h'] by (simp add: hold_blocker_def blocker_def)
  qed
qed

text \<open>
  The verdict does not depend on the order in which the store or the planner loaded the
  gates and holds: for two snapshots that differ only in that order, with distinct gate and hold
  identifiers, the verdicts are equal, blockers included.
\<close>

theorem admission_order_independent:
  assumes "mset gates = mset gates'" and "mset holds = mset holds'"
    and "distinct (map (\<lambda>g. GateDef_ID (Gate_Definition g)) gates)" and "distinct (map Hold_ID holds)"
  shows "SupervisionAdmits (s\<lparr>Snapshot_Gates := gates, Snapshot_Holds := holds\<rparr>) query =
         SupervisionAdmits (s\<lparr>Snapshot_Gates := gates', Snapshot_Holds := holds'\<rparr>) query"
proof -
  let ?s = "s\<lparr>Snapshot_Gates := gates, Snapshot_Holds := holds\<rparr>"
  let ?s' = "s\<lparr>Snapshot_Gates := gates', Snapshot_Holds := holds'\<rparr>"
  let ?gates = "\<lambda>gs. map (gate_blocker query) (filter (blocking_gate query) gs)"
  let ?holds = "\<lambda>hs. map (hold_blocker query) (filter (\<lambda>hold. Hold_Covers hold (Query_TaskID query)) hs)"
  let ?awaits = "\<lambda>gs. \<exists>gate \<in> set (filter (blocking_gate query) gs). snd (the (gate_code (Gate_State gate)))"
  let ?bs = "run_blockers ?s query @ ?holds holds @ ?gates gates @ route_blockers ?s query (?awaits gates)"
  let ?bs' = "run_blockers ?s' query @ ?holds holds' @ ?gates gates' @ route_blockers ?s' query (?awaits gates')"
  have "set (filter (blocking_gate query) gates) = set (filter (blocking_gate query) gates')"
    using assms(1) by (metis mset_filter set_mset_mset)
  then have permuted: "mset ?bs = mset ?bs'"
    using assms(1,2) by (simp add: run_blockers_def route_blockers_def)
  have collected: "collected_blockers ?s query = ?bs" "collected_blockers ?s' query = ?bs'"
    by (simp_all add: collected_blockers_def gate_blockers_eq hold_blockers_eq)
  have "sortSupervisionBlockers (collected_blockers ?s query) = sortSupervisionBlockers (collected_blockers ?s' query)"
    unfolding sortSupervisionBlockers_def collected
  proof (rule blocker_order.sort_unique [OF _ permuted])
    fix x y
    assume "x \<in> set ?bs" "y \<in> set ?bs"
    then have "z \<in> set (run_blockers ?s query @ route_blockers ?s query (?awaits gates)) \<or>
        z \<in> gate_blocker query ` {g \<in> set gates. Gate_State g \<noteq> GateAccepted} \<or> z \<in> hold_blocker query ` set holds"
      if "z \<in> {x, y}" for z
      using that by (auto simp: blocking_gate_def)
    then show "\<not> blocker_less x y \<Longrightarrow> \<not> blocker_less y x \<Longrightarrow> x = y"
      by (rule blockers_determined [OF assms(3,4) run_route_fixed])
  qed
  moreover have "length (collected_blockers ?s query) = length (collected_blockers ?s' query)"
    unfolding collected by (rule mset_eq_length [OF permuted])
  ultimately show ?thesis by (auto simp: SupervisionAdmits_def Let_def)
qed

theorem admission_order_independent_witness:
  "SupervisionAdmits (sample_snapshot [sample_gate GateHeld] [sample_hold HoldScopeRun ''h1'', sample_hold HoldScopeRun ''h2''])
     sample_query =
   SupervisionAdmits (sample_snapshot [sample_gate GateHeld] [sample_hold HoldScopeRun ''h2'', sample_hold HoldScopeRun ''h1''])
     sample_query"
proof -
  let ?gates = "[sample_gate GateHeld]"
  let ?h1 = "sample_hold HoldScopeRun ''h1''" and ?h2 = "sample_hold HoldScopeRun ''h2''"
  have "mset [?h1, ?h2] = mset [?h2, ?h1]" by (simp add: add_mset_commute)
  moreover have "distinct (map Hold_ID [?h1, ?h2])" by (simp add: sample_hold_def)
  ultimately have "SupervisionAdmits ((sample_snapshot [] [])\<lparr>Snapshot_Gates := ?gates, Snapshot_Holds := [?h1, ?h2]\<rparr>) sample_query =
      SupervisionAdmits ((sample_snapshot [] [])\<lparr>Snapshot_Gates := ?gates, Snapshot_Holds := [?h2, ?h1]\<rparr>) sample_query"
    by (intro admission_order_independent) simp_all
  then show ?thesis by (simp only: sample_snapshot_def SupervisionSnapshot.simps)
qed

section \<open>Status\<close>

text \<open>
  The status label is the highest-ranked condition that holds: active work first, then
  parked work, then a ready task supervision admits, then an escalation or a question to a
  human, then a hold or a review in progress over it, and only a run with no task remaining and
  a settled sink is terminal.
\<close>

theorem status_label_precedence:
  "SupervisedRunStatusLabel i =
    (if \<exists>a \<in> set (StatusIn_Attempts i). TurnLive a \<and> Attempt_Progress a \<noteq> ProgressWaitingExternal
          \<and> Attempt_Control a \<noteq> ControlWaitingExternal
     then SupervisedRunActive
     else if \<exists>a \<in> set (StatusIn_Attempts i). TurnLive a then SupervisedRunWaitingExternal
     else if \<exists>task \<in> set (StatusIn_ReadyTaskIDs i). Verdict_Admitted (SupervisionAdmits
            (StatusIn_Snapshot i) \<lparr>Query_TaskID = task, Query_ExpectedGraphRevision = 0\<rparr>)
     then SupervisedRunRunnable
     else if (\<exists>x \<in> set (StatusIn_Incidents i). Incident_State x = IncidentEscalated)
           \<or> (\<exists>a \<in> set (StatusIn_Attempts i). Attempt_Progress a = ProgressNeedsInput)
     then SupervisedRunEscalated
     else if (\<exists>g \<in> set (Snapshot_Gates (StatusIn_Snapshot i)). Gate_State g \<in> {GateReadyForReview, GateHeld})
           \<or> (\<exists>task \<in> set (StatusIn_ReadyTaskIDs i).
                \<exists>h \<in> set (Snapshot_Holds (StatusIn_Snapshot i)). Hold_Covers h task)
     then SupervisedRunHeld
     else if \<not> StatusIn_TasksRemaining i \<and> StatusIn_SinkSettled i then SupervisedRunTerminal
     else SupervisedRunBlocked)"
proof (cases "scan_attempts False False (StatusIn_Attempts i)")
  case None
  with scan_attempts_None [of False False "StatusIn_Attempts i"] show ?thesis
    by (simp add: SupervisedRunStatusLabel_def)
next
  case (Some pn)
  obtain p n where pn: "pn = (p, n)" by (cases pn)
  have none: "\<not> (\<exists>a \<in> set (StatusIn_Attempts i). TurnLive a \<and> Attempt_Progress a \<noteq> ProgressWaitingExternal
      \<and> Attempt_Control a \<noteq> ControlWaitingExternal)"
    unfolding scan_attempts_None [symmetric, of _ False False] using Some by simp
  from scan_attempts_Some [OF Some [unfolded pn]]
  have p: "p \<longleftrightarrow> (\<exists>a \<in> set (StatusIn_Attempts i). TurnLive a)"
    and n: "n \<longleftrightarrow> (\<exists>a \<in> set (StatusIn_Attempts i). Attempt_Progress a = ProgressNeedsInput)"
    by auto
  show ?thesis
    unfolding SupervisedRunStatusLabel_def Some pn option.case prod.case p n if_not_P [OF none] list_ex_iff
    by (auto simp del: bex_simps)
qed

section \<open>Acceptance\<close>

text \<open>
  The standing of an acceptance and the gate machine agree on amendments: for an accepted
  gate of an unsettled run, an amendment leaves the acceptance standing exactly when no amended
  task is observed or protected by the gate and the gate machine, told the amendment is outside
  the scope with the same receipt, keeps the gate accepted. A new attempt leaves it standing
  exactly when its task is not observed, and when it is, the gate machine sends a replaced
  producer's gate back to pending evidence or refuses because a protected task already started.
\<close>

theorem acceptance_standing_matches_gate:
  assumes "Decision_Outcome acceptance = GateDecisionAccept"
    and "Gate_State (GateIn_Gate i) = GateAccepted" and "\<not> GateIn_SinkSettled i"
    and "GateIn_RevalidationReceiptID i = Change_RevalidationReceiptID change"
    and "gate = Gate_Definition (GateIn_Gate i)"
  shows "(Change_Kind change = GateChangeAmendment \<longrightarrow>
      (Acceptance_Stands (GateAcceptanceStands gate acceptance change) \<longleftrightarrow>
        set (Change_AmendedTaskIDs change) \<inter>
          (set (GateDef_ObservedTaskIDs gate) \<union> set (GateDef_ProtectedTaskIDs gate)) = {} \<and>
        GateTransition (i\<lparr>GateIn_Event := GateEventAmendmentOutsideScope\<rparr>) = Inr GateAccepted)) \<and>
    (Change_Kind change = GateChangeNewAttempt \<longrightarrow>
      (Acceptance_Stands (GateAcceptanceStands gate acceptance change) \<longleftrightarrow>
        Change_TaskID change \<notin> set (GateDef_ObservedTaskIDs gate))) \<and>
    GateTransition (i\<lparr>GateIn_Event := GateEventProducerReplaced\<rparr>) =
      (if GateIn_SuccessorOfferedOrStarted i then Inl ErrSupervisionPrerequisite else Inr GatePendingEvidence)"
  using assms
  by (auto simp: GateAcceptanceStands_def GateTransition_def Let_def GateDefinition_Observes_def
      GateDefinition_Protects_def list_ex_iff)

theorem acceptance_standing_matches_gate_witness:
  "\<not> Acceptance_Stands (GateAcceptanceStands (Gate_Definition (sample_gate GateAccepted)) sample_acceptance
       (sample_amendment [''deploy''])) \<and>
   Acceptance_Stands (GateAcceptanceStands (Gate_Definition (sample_gate GateAccepted)) sample_acceptance
       (sample_amendment [''docs''])) \<and>
   GateTransition ((sample_gate_in GateAccepted GateEventAccept)
      \<lparr>GateIn_RevalidationReceiptID := ''r1'', GateIn_Event := GateEventAmendmentOutsideScope\<rparr>) = Inr GateAccepted"
proof -
  have receipt: "\<not> blank ''r1''" by (rule not_blank, simp add: graphic_def)
  then have keep: "GateTransition ((sample_gate_in GateAccepted GateEventAccept)
      \<lparr>GateIn_RevalidationReceiptID := ''r1'', GateIn_Event := GateEventAmendmentOutsideScope\<rparr>) = Inr GateAccepted"
    by (simp add: GateTransition_def sample_gate_in_def sample_gate_def)
  note rule = acceptance_standing_matches_gate [where acceptance = sample_acceptance
      and i = "(sample_gate_in GateAccepted GateEventAccept)\<lparr>GateIn_RevalidationReceiptID := ''r1''\<rparr>"
      and gate = "Gate_Definition (sample_gate GateAccepted)"]
  from rule [of "sample_amendment [''deploy'']"] rule [of "sample_amendment [''docs'']"] keep
  show ?thesis
    by (simp add: sample_acceptance_def sample_amendment_def sample_gate_in_def sample_gate_def)
qed

section \<open>From review to dispatch\<close>

text \<open>
  C7. No protected task of a supervised run is admitted without a review: when supervision
  admits a task and a gate of the snapshot protects it, any sequence of requests that took the
  gate from pending evidence to the state in the snapshot contains an accept request by a valid
  actor at the gate's graph revision with matching evidence.
\<close>

theorem dispatch_requires_review:
  assumes "Snapshot_Supervised snapshot" and "Verdict_Admitted (SupervisionAdmits snapshot query)"
    and "gate \<in> set (Snapshot_Gates snapshot)"
    and "Query_TaskID query \<in> set (GateDef_ProtectedTaskIDs (Gate_Definition gate))"
    and "machine_run GateTransition gate_source (\<lambda>s. s) GatePendingEvidence reqs (Gate_State gate)"
  shows "\<exists>i \<in> set reqs. GateIn_Event i = GateEventAccept \<and> gate_source i = GateReadyForReview \<and>
     valid_actor (GateIn_Actor i) \<and>
     GateIn_ExpectedGraphRevision i = Gate_GraphRevision (GateIn_Gate i) \<and>
     GateIn_EvidenceMatches i \<and> \<not> GateIn_SinkSettled i"
proof -
  from assms(1-4) have "Gate_State gate = GateAccepted"
    by (auto simp: SupervisionAdmits_iff unblocked_def)
  with assms(5) gate_run_accepted [of GatePendingEvidence reqs] show ?thesis by simp
qed

theorem dispatch_requires_review_witness:
  "Verdict_Admitted (SupervisionAdmits (sample_snapshot [sample_gate GateAccepted] []) sample_query) \<and>
   (\<exists>i \<in> set [sample_gate_in GatePendingEvidence GateEventProducersSucceeded, sample_gate_in GateReadyForReview GateEventAccept].
     GateIn_Event i = GateEventAccept \<and> gate_source i = GateReadyForReview \<and>
     valid_actor (GateIn_Actor i) \<and>
     GateIn_ExpectedGraphRevision i = Gate_GraphRevision (GateIn_Gate i) \<and>
     GateIn_EvidenceMatches i \<and> \<not> GateIn_SinkSettled i)"
proof -
  let ?reqs = "[sample_gate_in GatePendingEvidence GateEventProducersSucceeded, sample_gate_in GateReadyForReview GateEventAccept]"
  have run: "machine_run GateTransition gate_source (\<lambda>s. s) GatePendingEvidence ?reqs GateAccepted"
    by (simp add: GateTransition_def gate_source_def sample_defs Actor_Validate_def)
  have admitted: "Verdict_Admitted (SupervisionAdmits (sample_snapshot [sample_gate GateAccepted] []) sample_query)"
    by (simp add: SupervisionAdmits_iff unblocked_def readiness_samples)
  from dispatch_requires_review [OF _ admitted, of "sample_gate GateAccepted" ?reqs] run admitted
  show ?thesis by (simp add: readiness_samples)
qed

end
