(* ===== verification/Sink.thy ===== *)
theory Sink
  imports Orchestrator
begin

text \<open>
  Settlement of a run (\<open>internal/domain/sink.go\<close>): the coordinator-owned sink task that waits
  for every task of the graph, the quiescence question over old and new executions, the
  supervision barrier, and the projection that publishes the run's result once. An operation
  that returns a run and an error is a pair; on an error the code still returns the run it was
  working on, and so does the model. \<open>time.Time.UTC\<close> keeps the instant.
\<close>

section \<open>The supervision barrier\<close>

definition SinkTaskName :: string where
  "SinkTaskName = ''__sink''"

definition SinkTaskID :: "string \<Rightarrow> string" where
  "SinkTaskID runID = ''sink:'' @ runID"

datatype SinkBarrierReason =
  SinkBarrierNone | SinkBarrierUnresolvedIncident | SinkBarrierFinalGateUnaccepted

record SupervisionBarrier =
  Barrier_Supervised :: bool
  Barrier_Gates :: "Gate list"
  Barrier_Incidents :: "ReviewIncident list"

record SinkBarrierVerdict =
  BarrierVerdict_Settles :: bool
  BarrierVerdict_Reason :: SinkBarrierReason
  BarrierVerdict_IncidentID :: string
  BarrierVerdict_GateID :: string

definition barrier_settles :: SinkBarrierVerdict where
  "barrier_settles = \<lparr>BarrierVerdict_Settles = True, BarrierVerdict_Reason = SinkBarrierNone,
     BarrierVerdict_IncidentID = '''', BarrierVerdict_GateID = ''''\<rparr>"

definition unresolved_incident :: "ReviewIncident \<Rightarrow> bool" where
  "unresolved_incident incident \<longleftrightarrow>
     Incident_State incident = IncidentOpen \<or> Incident_State incident = IncidentEscalated"

definition unaccepted_final_gate :: "Gate \<Rightarrow> bool" where
  "unaccepted_final_gate gate \<longleftrightarrow>
     GateDef_Final (Gate_Definition gate)
     \<and> \<not> (Gate_State gate = GateAccepted \<or> Gate_State gate = GateCancelled)"

definition SupervisionSettlementBarrier :: "SupervisionBarrier \<Rightarrow> bool \<Rightarrow> SinkBarrierVerdict" where
  "SupervisionSettlementBarrier barrier runFailed =
     (if \<not> Barrier_Supervised barrier then barrier_settles
      else (case find unresolved_incident (Barrier_Incidents barrier) of
        Some incident \<Rightarrow>
          \<lparr>BarrierVerdict_Settles = False, BarrierVerdict_Reason = SinkBarrierUnresolvedIncident,
           BarrierVerdict_IncidentID = Incident_ID incident, BarrierVerdict_GateID = Incident_GateID incident\<rparr>
      | None \<Rightarrow>
          if runFailed then barrier_settles
          else (case find unaccepted_final_gate (Barrier_Gates barrier) of
            Some gate \<Rightarrow>
              \<lparr>BarrierVerdict_Settles = False, BarrierVerdict_Reason = SinkBarrierFinalGateUnaccepted,
               BarrierVerdict_IncidentID = '''', BarrierVerdict_GateID = GateDef_ID (Gate_Definition gate)\<rparr>
          | None \<Rightarrow> barrier_settles)))"

section \<open>Quiescence\<close>

definition assignment_settled :: "Assignment \<Rightarrow> bool" where
  "assignment_settled a \<longleftrightarrow>
     Assignment_State a = AssignmentCompleted \<or> Assignment_State a = AssignmentReleased"

definition assignments_by_id :: "Assignment list \<Rightarrow> (string \<rightharpoonup> Assignment)" where
  "assignments_by_id assignments = fold (\<lambda>a m. m(Assignment_ID a \<mapsto> a)) assignments Map.empty"

text \<open>The loop over the attempts: \<open>None\<close> is its early \<open>return false\<close>, otherwise the
  identifiers of the attempts the run owns.\<close>

fun owned_attempts :: "string \<Rightarrow> (string \<rightharpoonup> Assignment) \<Rightarrow> string list \<Rightarrow> Attempt list \<Rightarrow> string list option" where
  "owned_attempts runID byID owned [] = Some owned"
| "owned_attempts runID byID owned (attempt # attempts) =
     (if Attempt_WorkflowRunID attempt \<noteq> runID then owned_attempts runID byID owned attempts
      else if IsSupervisionActivation attempt then owned_attempts runID byID owned attempts
      else if Attempt_Control attempt \<noteq> ControlEmpty \<and> Attempt_Control attempt \<noteq> ControlStopped
              \<and> Attempt_Control attempt \<noteq> ControlUnassigned
      then None
      else if Attempt_AssignmentID attempt \<noteq> ''''
      then (case byID (Attempt_AssignmentID attempt) of
              None \<Rightarrow> None
            | Some assignment \<Rightarrow>
                if Assignment_AttemptID assignment \<noteq> Attempt_ID attempt \<or> \<not> assignment_settled assignment
                then None
                else owned_attempts runID byID (Attempt_ID attempt # owned) attempts)
      else owned_attempts runID byID (Attempt_ID attempt # owned) attempts)"

definition RunExecutionsQuiescent :: "string \<Rightarrow> Attempt list \<Rightarrow> Assignment list \<Rightarrow> bool" where
  "RunExecutionsQuiescent runID attempts assignments =
     (case owned_attempts runID (assignments_by_id assignments) [] attempts of
        None \<Rightarrow> False
      | Some owned \<Rightarrow>
          \<not> list_ex (\<lambda>assignment. Assignment_AttemptID assignment \<in> set owned
                       \<and> \<not> assignment_settled assignment) assignments)"

section \<open>Binding\<close>

definition CloneSink :: "SinkTask option \<Rightarrow> SinkTask option" where
  "CloneSink sink =
     (case sink of
        None \<Rightarrow> None
      | Some s \<Rightarrow> Some (s
          \<lparr>Sink_Needs := [] @ Sink_Needs s,
           Sink_Result := (case Sink_Result s of
              None \<Rightarrow> None
            | Some r \<Rightarrow> Some (r
                \<lparr>SinkResult_FixLoops := [] @ SinkResult_FixLoops r,
                 SinkResult_FailedTaskIDs := [] @ SinkResult_FailedTaskIDs r,
                 SinkResult_CancelledTaskIDs := [] @ SinkResult_CancelledTaskIDs r,
                 SinkResult_SkippedTaskIDs := [] @ SinkResult_SkippedTaskIDs r\<rparr>)),
           Sink_CompletedAt := (case Sink_CompletedAt s of None \<Rightarrow> None | Some t \<Rightarrow> Some t)\<rparr>))"

fun sink_needs :: "WorkflowRun \<Rightarrow> string list \<Rightarrow> string list \<Rightarrow> Task list \<Rightarrow> string list go_result" where
  "sink_needs run names needs [] = Inr needs"
| "sink_needs run names needs (task # tasks) =
     (if Task_WorkflowID task \<noteq> Run_WorkflowID run \<or> Task_ID task = '''' \<or> Task_Name task = ''''
         \<or> Task_Name task = SinkTaskName \<or> Task_ID task = SinkTaskID (Run_ID run)
      then Inl (Errorf ''invalid or reserved sink predecessor %q'' [Task_ID task])
      else if Task_Name task \<in> set names
      then Inl (Errorf ''duplicate sink predecessor name %q'' [Task_Name task])
      else sink_needs run (Task_Name task # names) (needs @ [Task_ID task]) tasks)"

definition fresh_sink :: "WorkflowRun \<Rightarrow> string list \<Rightarrow> SinkTask" where
  "fresh_sink run needs =
     \<lparr>Sink_ID = SinkTaskID (Run_ID run), Sink_Name = SinkTaskName, Sink_GraphRevision = Run_GraphRevision run,
      Sink_Needs = needs, Sink_Progress = ProgressBlocked, Sink_Result = None, Sink_CompletedAt = None\<rparr>"

definition BindRunSink :: "WorkflowRun \<Rightarrow> Task list \<Rightarrow> WorkflowRun \<times> go_error option" where
  "BindRunSink run0 tasks =
     (if Run_ID run0 = '''' \<or> Run_WorkflowID run0 = ''''
      then (run0, Some (Errorf ''sink requires run and workflow identity'' []))
      else
        let run = (if Run_GraphRevision run0 = 0 then run0\<lparr>Run_GraphRevision := 1\<rparr> else run0) in
        if Run_GraphRevision run < 1
        then (run, Some (Errorf ''sink requires a positive graph revision'' []))
        else (case sink_needs run [] [] tasks of
          Inl e \<Rightarrow> (run, Some e)
        | Inr unsorted \<Rightarrow>
            let needs = sort_strings unsorted in
            if length (remdups_adj needs) \<noteq> length needs
            then (run, Some (Errorf ''duplicate sink predecessor ID'' []))
            else (case Run_Sink run of
              None \<Rightarrow> (run\<lparr>Run_Sink := Some (fresh_sink run needs)\<rparr>, None)
            | Some previous \<Rightarrow>
                if Sink_ID previous \<noteq> SinkTaskID (Run_ID run) \<or> Sink_Name previous \<noteq> SinkTaskName
                   \<or> Sink_GraphRevision previous < 1
                then (run, Some (Errorf ''sink identity is inconsistent with its run'' []))
                else if Run_GraphRevision run < Sink_GraphRevision previous
                then (run, Some (Errorf ''sink graph revision moved backwards'' []))
                else
                  let changed = (needs \<noteq> Sink_Needs previous) in
                  if changed \<and> Run_GraphRevision run = Sink_GraphRevision previous
                  then (run, Some (Errorf ''sink dependencies changed without a graph revision'' []))
                  else if Terminal (Sink_Progress previous)
                  then if Run_GraphRevision run \<noteq> Sink_GraphRevision previous \<or> changed
                       then (run, Some (Errorf ''completed sink is immutable; submit a new run'' []))
                       else (run\<lparr>Run_Sink := CloneSink (Some previous)\<rparr>, None)
                  else (run\<lparr>Run_Sink := Some (fresh_sink run needs)\<rparr>, None))))"

section \<open>Projection\<close>

text \<open>The loop over the sink's needs: \<open>None\<close> is the early return of a task that has not
  finished; otherwise the failed, cancelled and skipped tasks and whether all succeeded.\<close>

fun sink_outcomes ::
  "(string \<rightharpoonup> Attempt) \<Rightarrow> string list \<Rightarrow> string list \<times> string list \<times> string list \<times> bool \<Rightarrow>
   (string list \<times> string list \<times> string list \<times> bool) option" where
  "sink_outcomes current [] acc = Some acc"
| "sink_outcomes current (i # needs) (failed, cancelled, skipped, allSucceeded) =
     (case current i of
        None \<Rightarrow> None
      | Some attempt \<Rightarrow>
          (case Attempt_Progress attempt of
             ProgressFailed \<Rightarrow> sink_outcomes current needs (failed @ [i], cancelled, skipped, False)
           | ProgressCancelled \<Rightarrow> sink_outcomes current needs (failed, cancelled @ [i], skipped, False)
           | ProgressSkipped \<Rightarrow>
               if Attempt_Failure attempt = VerdictBranchSkipped
               then sink_outcomes current needs (failed, cancelled, skipped, allSucceeded)
               else sink_outcomes current needs (failed, cancelled, skipped @ [i], False)
           | ProgressSucceeded \<Rightarrow> sink_outcomes current needs (failed, cancelled, skipped, allSucceeded)
           | _ \<Rightarrow> None))"

definition ProjectSupervisedRunSink ::
  "WorkflowRun \<Rightarrow> Task list \<Rightarrow> Attempt list \<Rightarrow> Assignment list \<Rightarrow> SupervisionBarrier \<Rightarrow> instant \<Rightarrow>
   WorkflowRun \<times> go_error option" where
  "ProjectSupervisedRunSink run0 tasks attempts assignments barrier now =
     (let (run, err) = BindRunSink run0 tasks in
      case (err, Run_Sink run) of
        (Some e, _) \<Rightarrow> (run, Some e)
      | (None, None) \<Rightarrow> (run, None)
      | (None, Some sink) \<Rightarrow>
          if Terminal (Sink_Progress sink) then (run, None)
          else if \<not> RunExecutionsQuiescent (Run_ID run) attempts assignments then (run, None)
          else
            let current = latest_attempts (filter (\<lambda>a. Attempt_WorkflowRunID a = Run_ID run) attempts);
                fixLoops = SummarizeFixLoops tasks attempts;
                exhausted = list_ex Summary_Exhausted fixLoops
            in case sink_outcomes current (Sink_Needs sink) ([], [], [], True) of
                 None \<Rightarrow> (run, None)
               | Some (failed, cancelled, skipped, allSucceeded) \<Rightarrow>
                   if \<not> BarrierVerdict_Settles (SupervisionSettlementBarrier barrier
                            (failed \<noteq> [] \<or> exhausted \<or> cancelled \<noteq> []))
                   then (run, None)
                   else if is_zero_time now
                   then (run, Some (Errorf ''sink settlement requires a timestamp'' []))
                   else
                     (run\<lparr>Run_Sink := Some (sink
                            \<lparr>Sink_Progress := (if failed \<noteq> [] \<or> exhausted then ProgressFailed else ProgressSucceeded),
                             Sink_Result := Some
                               \<lparr>SinkResult_FixLoops = fixLoops, SinkResult_FailedTaskIDs = failed,
                                SinkResult_CancelledTaskIDs = cancelled, SinkResult_SkippedTaskIDs = skipped\<rparr>,
                             Sink_CompletedAt := Some now\<rparr>),
                          Run_Progress :=
                            (if failed \<noteq> [] \<or> exhausted then ProgressFailed
                             else if cancelled \<noteq> [] then ProgressCancelled
                             else if allSucceeded then ProgressSucceeded
                             else ProgressSkipped),
                          Run_CompletedAt := Some now\<rparr>, None))"

definition no_barrier :: SupervisionBarrier where
  "no_barrier = \<lparr>Barrier_Supervised = False, Barrier_Gates = [], Barrier_Incidents = []\<rparr>"

definition ProjectRunSink ::
  "WorkflowRun \<Rightarrow> Task list \<Rightarrow> Attempt list \<Rightarrow> Assignment list \<Rightarrow> instant \<Rightarrow> WorkflowRun \<times> go_error option" where
  "ProjectRunSink run tasks attempts assignments now =
     ProjectSupervisedRunSink run tasks attempts assignments no_barrier now"

section \<open>Lemmas\<close>

lemma CloneSink_id [simp]: "CloneSink sink = sink"
  by (cases sink) (auto simp: CloneSink_def split: option.splits)

lemma sink_needs_Inr:
  "sink_needs run names needs tasks = Inr r \<Longrightarrow>
     r = needs @ map Task_ID tasks \<and>
     (\<forall>task \<in> set tasks. Task_WorkflowID task = Run_WorkflowID run \<and> Task_ID task \<noteq> '''' \<and>
        Task_ID task \<noteq> SinkTaskID (Run_ID run) \<and> Task_Name task \<noteq> SinkTaskName)"
proof (induction tasks arbitrary: names needs)
  case (Cons task tasks)
  from Cons.prems have ok: "Task_WorkflowID task = Run_WorkflowID run" "Task_ID task \<noteq> ''''"
    "Task_Name task \<noteq> SinkTaskName" "Task_ID task \<noteq> SinkTaskID (Run_ID run)"
    and rest: "sink_needs run (Task_Name task # names) (needs @ [Task_ID task]) tasks = Inr r"
    by (simp_all split: if_splits)
  with Cons.IH [OF rest] show ?case by simp
qed simp

lemma sorted_sort_strings: "sorted (sort_strings xs)"
  using linear_less.sorted_sort [of xs] by (simp add: not_less)

lemma sorted_no_adjacent: "sorted xs \<Longrightarrow> length (remdups_adj xs) = length xs \<Longrightarrow> distinct xs"
proof (induction xs rule: remdups_adj.induct)
  case (3 x y xs)
  have "length (remdups_adj (y # xs)) \<le> length (y # xs)" by (rule remdups_adj_length)
  with 3 have ne: "x \<noteq> y" by (auto split: if_splits)
  with 3 have "distinct (y # xs)" by simp
  moreover from ne "3.prems"(1) have "x < y" "\<forall>z \<in> set (y # xs). y \<le> z" by auto
  then have "x \<notin> set (y # xs)" by auto
  ultimately show ?case by simp
qed simp_all

text \<open>What a successful binding establishes: a sink over exactly the tasks of the run at the
  run's revision, the final sink kept as it was and any other sink fresh.\<close>

lemma BindRunSink_ok:
  assumes "BindRunSink run tasks = (run', None)"
  obtains sink where "Run_Sink run' = Some sink" "Sink_ID sink = SinkTaskID (Run_ID run)"
    "Sink_Needs sink = sort_strings (map Task_ID tasks)" "distinct (Sink_Needs sink)"
    "Sink_GraphRevision sink = Run_GraphRevision run'" "Run_ID run' = Run_ID run"
    "Run_Progress run' = Run_Progress run"
    "Run_Sink run = Some sink \<and> Terminal (Sink_Progress sink) \<or>
     sink = fresh_sink run' (sort_strings (map Task_ID tasks))
     \<and> (\<forall>previous. Run_Sink run = Some previous \<longrightarrow> \<not> Terminal (Sink_Progress previous))"
proof -
  define r where "r = (if Run_GraphRevision run = 0 then run\<lparr>Run_GraphRevision := 1\<rparr> else run)"
  have r: "Run_ID r = Run_ID run" "Run_Sink r = Run_Sink run" "Run_Progress r = Run_Progress run"
    by (simp_all add: r_def)
  from assms obtain unsorted where needs: "sink_needs r [] [] tasks = Inr unsorted"
    and adj: "length (remdups_adj (sort_strings unsorted)) = length (sort_strings unsorted)"
    by (auto simp: BindRunSink_def Let_def r_def [symmetric] split: if_splits sum.splits)
  from sink_needs_Inr [OF needs] have unsorted: "unsorted = map Task_ID tasks" by simp
  let ?needs = "sort_strings (map Task_ID tasks)"
  have distinct: "distinct ?needs"
    using adj by (intro sorted_no_adjacent sorted_sort_strings) (simp add: unsorted)
  show thesis
  proof (cases "Run_Sink run")
    case None
    with assms needs have "run' = r\<lparr>Run_Sink := Some (fresh_sink r ?needs)\<rparr>"
      by (auto simp: BindRunSink_def Let_def r_def [symmetric] r unsorted split: if_splits)
    with None distinct show thesis
      by (intro that [of "fresh_sink r ?needs"]) (simp_all add: fresh_sink_def r)
  next
    case (Some previous)
    consider (final) "Terminal (Sink_Progress previous)" "Sink_Needs previous = ?needs"
        "Sink_GraphRevision previous = Run_GraphRevision r" "Sink_ID previous = SinkTaskID (Run_ID run)"
        "run' = r\<lparr>Run_Sink := Some previous\<rparr>"
      | (rebound) "\<not> Terminal (Sink_Progress previous)" "run' = r\<lparr>Run_Sink := Some (fresh_sink r ?needs)\<rparr>"
      using assms needs Some
      by (auto simp: BindRunSink_def Let_def r_def [symmetric] r unsorted split: if_splits)
    then show thesis
    proof cases
      case final
      with Some distinct show thesis by (intro that [of previous]) (simp_all add: r)
    next
      case rebound
      with Some distinct show thesis
        by (intro that [of "fresh_sink r ?needs"]) (simp_all add: fresh_sink_def r)
    qed
  qed
qed

text \<open>The outcomes the projection collects.\<close>

definition outcome_is :: "(string \<rightharpoonup> Attempt) \<Rightarrow> ProgressState \<Rightarrow> string \<Rightarrow> bool" where
  "outcome_is current p task \<longleftrightarrow> (\<exists>a. current task = Some a \<and> Attempt_Progress a = p)"

definition branch_not_taken :: "(string \<rightharpoonup> Attempt) \<Rightarrow> string \<Rightarrow> bool" where
  "branch_not_taken current task \<longleftrightarrow>
     (\<exists>a. current task = Some a \<and> Attempt_Progress a = ProgressSkipped \<and> Attempt_Failure a = VerdictBranchSkipped)"

definition all_terminal :: "(string \<rightharpoonup> Attempt) \<Rightarrow> string list \<Rightarrow> bool" where
  "all_terminal current needs \<longleftrightarrow>
     (\<forall>task \<in> set needs. \<exists>a. current task = Some a \<and> Terminal (Attempt_Progress a))"

lemma sink_outcomes_eq:
  "sink_outcomes current needs (failed, cancelled, skipped, allSucceeded) =
     (if all_terminal current needs
      then Some (failed @ filter (outcome_is current ProgressFailed) needs,
                 cancelled @ filter (outcome_is current ProgressCancelled) needs,
                 skipped @ filter (\<lambda>t. outcome_is current ProgressSkipped t \<and> \<not> branch_not_taken current t) needs,
                 allSucceeded \<and> (\<forall>t \<in> set needs. outcome_is current ProgressSucceeded t \<or> branch_not_taken current t))
      else None)"
proof (induction needs arbitrary: failed cancelled skipped allSucceeded)
  case Nil
  show ?case by (simp add: all_terminal_def)
next
  case (Cons task needs)
  show ?case
  proof (cases "current task")
    case None
    then show ?thesis by (simp add: all_terminal_def)
  next
    case (Some a)
    have all: "all_terminal current (task # needs) \<longleftrightarrow>
        Terminal (Attempt_Progress a) \<and> all_terminal current needs"
      using Some by (simp add: all_terminal_def)
    have here: "outcome_is current p task \<longleftrightarrow> Attempt_Progress a = p"
      "branch_not_taken current task \<longleftrightarrow>
         Attempt_Progress a = ProgressSkipped \<and> Attempt_Failure a = VerdictBranchSkipped" for p
      using Some by (auto simp: outcome_is_def branch_not_taken_def)
    show ?thesis
      unfolding all using Some by (cases "Attempt_Progress a") (simp_all add: Cons.IH here)
  qed
qed

lemma owned_attempts_Some:
  "owned_attempts runID byID owned attempts = Some r \<longleftrightarrow>
     (let mine = filter (\<lambda>a. Attempt_WorkflowRunID a = runID \<and> \<not> IsSupervisionActivation a) attempts in
      r = rev (map Attempt_ID mine) @ owned \<and>
      (\<forall>a \<in> set mine. Attempt_Control a \<in> {ControlEmpty, ControlStopped, ControlUnassigned} \<and>
         (Attempt_AssignmentID a \<noteq> '''' \<longrightarrow>
            (\<exists>s. byID (Attempt_AssignmentID a) = Some s \<and> Assignment_AttemptID s = Attempt_ID a
               \<and> assignment_settled s))))"
  by (induction runID byID owned attempts rule: owned_attempts.induct)
    (auto simp: Let_def split: option.splits)

end
