(* ===== verification/SinkProperties.thy ===== *)
theory SinkProperties
  imports Sink SupervisionProperties
begin

text \<open>
  The properties of run settlement: when the supervision barrier lets a run settle, what
  quiescence means, when and with what result the sink settles, and that it settles once.
\<close>

section \<open>Sample run\<close>

definition sample_task :: "string \<Rightarrow> string list \<Rightarrow> Task" where
  "sample_task name needs =
     zero_Task\<lparr>Task_ID := name, Task_WorkflowID := ''wf'', Task_Name := name, Task_Needs := needs\<rparr>"

definition sample_attempt :: "string \<Rightarrow> ProgressState \<Rightarrow> Attempt" where
  "sample_attempt task p = zero_Attempt\<lparr>Attempt_ID := task @ ''-1'', Attempt_WorkflowRunID := ''run'',
     Attempt_TaskID := task, Attempt_Number := 1, Attempt_Progress := p, Attempt_Control := ControlStopped\<rparr>"

definition sample_run :: WorkflowRun where
  "sample_run =
     \<lparr>Run_RouteSelections = [], Run_Graph = None, Run_ID = ''run'', Run_WorkflowID = ''wf'', Run_GraphRevision = 1, Run_Sink = None, Run_Supervision = None,
      Run_Progress = ProgressActive, Run_InputArtifactIDs = [], Run_Revision = 4, Run_CreatedAt = 1,
      Run_UpdatedAt = 2, Run_CompletedAt = None\<rparr>"

lemma sample_task_sel [simp]:
  "Task_ID (sample_task n d) = n" "Task_Name (sample_task n d) = n" "Task_Needs (sample_task n d) = d"
  "Task_WorkflowID (sample_task n d) = ''wf''" "Task_FixLoop (sample_task n d) = None"
  "Task_NeedsVerdict (sample_task n d) = []" "Task_ExternalNeeds (sample_task n d) = []"
  "Task_ReviewJudge (sample_task n d) = False"
  by (simp_all add: sample_task_def zero_Task_def)

lemma sample_attempt_sel [simp]:
  "Attempt_ID (sample_attempt n p) = n @ ''-1''" "Attempt_WorkflowRunID (sample_attempt n p) = ''run''"
  "Attempt_TaskID (sample_attempt n p) = n" "Attempt_Progress (sample_attempt n p) = p"
  "Attempt_Control (sample_attempt n p) = ControlStopped" "Attempt_Number (sample_attempt n p) = 1"
  "Attempt_AssignmentID (sample_attempt n p) = ''''" "Attempt_SupervisionActivationID (sample_attempt n p) = ''''"
  "Attempt_ReviewVerdict (sample_attempt n p) = None" "Attempt_Failure (sample_attempt n p) = ''''"
  by (simp_all add: sample_attempt_def zero_Attempt_def)

section \<open>The barrier\<close>

lemma barrier_iff:
  "BarrierVerdict_Settles (SupervisionSettlementBarrier barrier runFailed) \<longleftrightarrow>
     \<not> Barrier_Supervised barrier \<or>
     (\<forall>incident \<in> set (Barrier_Incidents barrier). \<not> unresolved_incident incident) \<and>
     (runFailed \<or> (\<forall>gate \<in> set (Barrier_Gates barrier). \<not> unaccepted_final_gate gate))"
  by (auto simp: SupervisionSettlementBarrier_def barrier_settles_def find_None_iff_all
      dest: find_SomeD split: option.splits)

text \<open>
  Supervision withholds settlement for two reasons only: an unresolved review incident,
  even of a failed run, and an unaccepted final gate of a run that has not failed. A refusal
  names the incident or gate of the run that holds it open.
\<close>

theorem settlement_barrier_exact:
  "(BarrierVerdict_Settles (SupervisionSettlementBarrier barrier runFailed) \<longleftrightarrow>
      \<not> Barrier_Supervised barrier \<or>
      (\<forall>incident \<in> set (Barrier_Incidents barrier). \<not> unresolved_incident incident) \<and>
      (runFailed \<or> (\<forall>gate \<in> set (Barrier_Gates barrier). \<not> unaccepted_final_gate gate))) \<and>
   (BarrierVerdict_Reason (SupervisionSettlementBarrier barrier runFailed) = SinkBarrierUnresolvedIncident \<longrightarrow>
      (\<exists>incident \<in> set (Barrier_Incidents barrier). unresolved_incident incident \<and>
         Incident_ID incident = BarrierVerdict_IncidentID (SupervisionSettlementBarrier barrier runFailed))) \<and>
   (BarrierVerdict_Reason (SupervisionSettlementBarrier barrier runFailed) = SinkBarrierFinalGateUnaccepted \<longrightarrow>
      \<not> runFailed \<and> (\<exists>gate \<in> set (Barrier_Gates barrier). unaccepted_final_gate gate \<and>
         GateDef_ID (Gate_Definition gate) = BarrierVerdict_GateID (SupervisionSettlementBarrier barrier runFailed)))"
  by (rule conjI [OF barrier_iff])
    (auto simp: SupervisionSettlementBarrier_def barrier_settles_def dest!: find_SomeD split: option.splits)

definition sample_final_gate :: "GateState \<Rightarrow> Gate" where
  "sample_final_gate s = (sample_gate s)\<lparr>Gate_Definition := (Gate_Definition (sample_gate s))
     \<lparr>GateDef_Final := True, GateDef_ProtectedTaskIDs := []\<rparr>\<rparr>"

definition sample_barrier :: "GateState \<Rightarrow> SupervisionBarrier" where
  "sample_barrier s = \<lparr>Barrier_Supervised = True, Barrier_Gates = [sample_final_gate s], Barrier_Incidents = []\<rparr>"

theorem settlement_barrier_exact_witness:
  "\<not> BarrierVerdict_Settles (SupervisionSettlementBarrier (sample_barrier GateReadyForReview) False) \<and>
   BarrierVerdict_Settles (SupervisionSettlementBarrier (sample_barrier GateReadyForReview) True) \<and>
   BarrierVerdict_Settles (SupervisionSettlementBarrier (sample_barrier GateAccepted) False)"
  unfolding settlement_barrier_exact [THEN conjunct1]
  by (simp add: sample_barrier_def sample_final_gate_def unaccepted_final_gate_def sample_gate_def)

section \<open>Quiescence\<close>

lemma assignments_by_id_Some:
  "assignments_by_id assignments i = Some s \<Longrightarrow> s \<in> set assignments \<and> Assignment_ID s = i"
  by (induction assignments rule: rev_induct) (auto simp: assignments_by_id_def split: if_splits)

lemma assignments_by_id_distinct:
  "distinct (map Assignment_ID assignments) \<Longrightarrow> s \<in> set assignments \<Longrightarrow>
     assignments_by_id assignments (Assignment_ID s) = Some s"
  by (induction assignments rule: rev_induct)
    (auto simp: assignments_by_id_def rev_image_eqI)

lemma quiescent_iff:
  "RunExecutionsQuiescent runID attempts assignments \<longleftrightarrow>
     (\<forall>a \<in> set attempts. Attempt_WorkflowRunID a = runID \<and> \<not> IsSupervisionActivation a \<longrightarrow>
        (Attempt_Control a \<in> {ControlEmpty, ControlStopped, ControlUnassigned} \<and>
         (Attempt_AssignmentID a \<noteq> '''' \<longrightarrow> (\<exists>s. assignments_by_id assignments (Attempt_AssignmentID a) = Some s \<and>
            Assignment_AttemptID s = Attempt_ID a \<and> assignment_settled s))) \<and>
        (\<forall>s \<in> set assignments. Assignment_AttemptID s = Attempt_ID a \<longrightarrow> assignment_settled s))"
proof -
  let ?mine = "{a \<in> set attempts. Attempt_WorkflowRunID a = runID \<and> \<not> IsSupervisionActivation a}"
  let ?P = "\<lambda>a. Attempt_Control a \<in> {ControlEmpty, ControlStopped, ControlUnassigned} \<and>
         (Attempt_AssignmentID a \<noteq> '''' \<longrightarrow>
            (\<exists>s. assignments_by_id assignments (Attempt_AssignmentID a) = Some s \<and>
               Assignment_AttemptID s = Attempt_ID a \<and> assignment_settled s))"
  have "RunExecutionsQuiescent runID attempts assignments \<longleftrightarrow>
      (\<forall>a \<in> ?mine. ?P a) \<and>
      (\<forall>s \<in> set assignments. Assignment_AttemptID s \<in> Attempt_ID ` ?mine \<longrightarrow> assignment_settled s)"
  proof (cases "owned_attempts runID (assignments_by_id assignments) [] attempts")
    case None
    then have "\<not> (\<forall>a \<in> ?mine. ?P a)"
      using owned_attempts_Some [of runID "assignments_by_id assignments" "[]" attempts] by (auto simp: Let_def)
    with None show ?thesis by (simp only: RunExecutionsQuiescent_def option.case) blast
  next
    case (Some owned)
    then have "(\<forall>a \<in> ?mine. ?P a)" "set owned = Attempt_ID ` ?mine"
      using owned_attempts_Some [of runID "assignments_by_id assignments" "[]" attempts] by (auto simp: Let_def)
    with Some show ?thesis by (simp only: RunExecutionsQuiescent_def option.case list_ex_iff) blast
  qed
  then show ?thesis by blast
qed

text \<open>
  A run is quiescent exactly when every attempt of its declared tasks, old ones included, is
  stopped or was never assigned, its assignment is on record, belongs to it and is completed or
  released, and no assignment of one of its attempts is still live. A parked attempt is not
  quiescent, and an overseer activation never counts.
\<close>

theorem quiescence_exact:
  assumes "distinct (map Assignment_ID assignments)"
  shows "RunExecutionsQuiescent runID attempts assignments \<longleftrightarrow>
     (\<forall>a \<in> set (DeclaredTaskAttempts attempts). Attempt_WorkflowRunID a = runID \<longrightarrow>
        Attempt_Control a \<in> {ControlEmpty, ControlStopped, ControlUnassigned} \<and>
        (Attempt_AssignmentID a \<noteq> '''' \<longrightarrow> (\<exists>s \<in> set assignments. Assignment_ID s = Attempt_AssignmentID a \<and>
           Assignment_AttemptID s = Attempt_ID a \<and> assignment_settled s)) \<and>
        (\<forall>s \<in> set assignments. Assignment_AttemptID s = Attempt_ID a \<longrightarrow> assignment_settled s))"
proof -
  have "(\<exists>s. assignments_by_id assignments i = Some s \<and> P s) \<longleftrightarrow> (\<exists>s \<in> set assignments. Assignment_ID s = i \<and> P s)" for i P
    using assignments_by_id_Some assignments_by_id_distinct [OF assms] by metis
  then show ?thesis unfolding quiescent_iff by (simp only: DeclaredTaskAttempts_filter set_filter) blast
qed

theorem quiescence_exact_witness:
  "RunExecutionsQuiescent ''run'' [sample_attempt ''build'' ProgressSucceeded] [] \<and>
   \<not> RunExecutionsQuiescent ''run''
       [(sample_attempt ''build'' ProgressWaitingExternal)\<lparr>Attempt_Control := ControlWaitingExternal\<rparr>] []"
  using quiescence_exact [of "[]" "''run''" "[sample_attempt ''build'' ProgressSucceeded]"]
    quiescence_exact [of "[]" "''run''"
      "[(sample_attempt ''build'' ProgressWaitingExternal)\<lparr>Attempt_Control := ControlWaitingExternal\<rparr>]"]
  by (simp add: DeclaredTaskAttempts_filter IsSupervisionActivation_def)

section \<open>Settlement\<close>

definition final_sink :: "WorkflowRun \<Rightarrow> bool" where
  "final_sink run \<longleftrightarrow> (\<exists>sink. Run_Sink run = Some sink \<and> Terminal (Sink_Progress sink))"

definition current_attempts :: "string \<Rightarrow> Attempt list \<Rightarrow> (string \<rightharpoonup> Attempt)" where
  "current_attempts runID attempts = latest_attempts (filter (\<lambda>a. Attempt_WorkflowRunID a = runID) attempts)"

text \<open>The run has failed or been cancelled as the barrier sees it.\<close>

definition run_failed :: "(string \<rightharpoonup> Attempt) \<Rightarrow> Task list \<Rightarrow> Attempt list \<Rightarrow> bool" where
  "run_failed current tasks attempts \<longleftrightarrow>
     (\<exists>task \<in> set tasks. outcome_is current ProgressFailed (Task_ID task) \<or>
                         outcome_is current ProgressCancelled (Task_ID task)) \<or>
     list_ex Summary_Exhausted (SummarizeFixLoops tasks attempts)"

definition may_settle ::
  "string \<Rightarrow> Task list \<Rightarrow> Attempt list \<Rightarrow> Assignment list \<Rightarrow> SupervisionBarrier \<Rightarrow> bool" where
  "may_settle runID tasks attempts assignments barrier \<longleftrightarrow>
     RunExecutionsQuiescent runID attempts assignments \<and>
     all_terminal (current_attempts runID attempts) (map Task_ID tasks) \<and>
     BarrierVerdict_Settles (SupervisionSettlementBarrier barrier
       (run_failed (current_attempts runID attempts) tasks attempts))"

text \<open>The result a settlement publishes.\<close>

definition settled_result :: "string \<Rightarrow> Task list \<Rightarrow> Attempt list \<Rightarrow> SinkResult" where
  "settled_result runID tasks attempts =
     (let current = current_attempts runID attempts; needs = sort_strings (map Task_ID tasks) in
      \<lparr>SinkResult_FixLoops = SummarizeFixLoops tasks attempts,
       SinkResult_FailedTaskIDs = filter (outcome_is current ProgressFailed) needs,
       SinkResult_CancelledTaskIDs = filter (outcome_is current ProgressCancelled) needs,
       SinkResult_SkippedTaskIDs =
         filter (\<lambda>t. outcome_is current ProgressSkipped t \<and> \<not> branch_not_taken current t) needs\<rparr>)"

definition settled_progress :: "string \<Rightarrow> Task list \<Rightarrow> Attempt list \<Rightarrow> ProgressState" where
  "settled_progress runID tasks attempts =
     (let current = current_attempts runID attempts; result = settled_result runID tasks attempts in
      if SinkResult_FailedTaskIDs result \<noteq> [] \<or> list_ex Summary_Exhausted (SinkResult_FixLoops result)
      then ProgressFailed
      else if SinkResult_CancelledTaskIDs result \<noteq> [] then ProgressCancelled
      else if \<forall>task \<in> set tasks. outcome_is current ProgressSucceeded (Task_ID task)
                                \<or> branch_not_taken current (Task_ID task)
      then ProgressSucceeded else ProgressSkipped)"

lemma all_terminal_set: "set xs = set ys \<Longrightarrow> all_terminal current xs = all_terminal current ys"
  by (simp add: all_terminal_def)

lemma filter_sorted_ne: "filter P (sort_strings (map f xs)) \<noteq> [] \<longleftrightarrow> (\<exists>x \<in> set xs. P (f x))"
  by (auto simp: filter_empty_conv)

lemma ProjectSupervisedRunSink_open:
  assumes "BindRunSink run tasks = (bound, None)" and "\<not> final_sink run" and "now \<noteq> 0"
  shows "ProjectSupervisedRunSink run tasks attempts assignments barrier now =
    (if may_settle (Run_ID run) tasks attempts assignments barrier
     then (bound\<lparr>Run_Sink := Some ((fresh_sink bound (sort_strings (map Task_ID tasks)))
              \<lparr>Sink_Progress := (if settled_progress (Run_ID run) tasks attempts = ProgressFailed
                                 then ProgressFailed else ProgressSucceeded),
               Sink_Result := Some (settled_result (Run_ID run) tasks attempts), Sink_CompletedAt := Some now\<rparr>),
            Run_Progress := settled_progress (Run_ID run) tasks attempts, Run_CompletedAt := Some now\<rparr>, None)
     else (bound, None))"
proof -
  let ?needs = "sort_strings (map Task_ID tasks)" and ?current = "current_attempts (Run_ID run) attempts"
  let ?loops = "SummarizeFixLoops tasks attempts"
  from BindRunSink_ok [OF assms(1)] assms(2) have sink: "Run_Sink bound = Some (fresh_sink bound ?needs)"
    and bound: "Run_ID bound = Run_ID run"
    by (metis final_sink_def)+
  have fresh: "Sink_Needs (fresh_sink bound ?needs) = ?needs" "\<not> Terminal (Sink_Progress (fresh_sink bound ?needs))"
    by (simp_all add: fresh_sink_def)
  have terminal: "all_terminal ?current ?needs = all_terminal ?current (map Task_ID tasks)"
    by (rule all_terminal_set) simp
  have failed: "run_failed ?current tasks attempts \<longleftrightarrow>
      filter (outcome_is ?current ProgressFailed) ?needs \<noteq> [] \<or> list_ex Summary_Exhausted ?loops \<or>
      filter (outcome_is ?current ProgressCancelled) ?needs \<noteq> []"
    unfolding run_failed_def filter_sorted_ne by blast
  have succeeded: "(\<forall>t \<in> set ?needs. outcome_is ?current ProgressSucceeded t \<or> branch_not_taken ?current t) \<longleftrightarrow>
      (\<forall>task \<in> set tasks. outcome_is ?current ProgressSucceeded (Task_ID task) \<or> branch_not_taken ?current (Task_ID task))"
    by simp
  show ?thesis
    unfolding ProjectSupervisedRunSink_def assms(1) prod.case sink option.case Let_def bound fresh
      current_attempts_def [symmetric] sink_outcomes_eq terminal may_settle_def failed
      settled_progress_def settled_result_def succeeded
    using assms(3) fresh(2) by (simp add: is_zero_time_def)
qed

text \<open>
  C8. A run that has not settled settles exactly when its executions are quiescent, the latest
  attempt of every task in the run has finished, and supervision does not withhold it. It then
  publishes the failed, cancelled and skipped tasks in order, fails if a task failed or a fix
  loop is exhausted, and is otherwise cancelled, succeeded or skipped; in every other case the
  run keeps the state the binding gave it.
\<close>

theorem run_settles_exactly:
  assumes "BindRunSink run tasks = (bound, None)" and "\<not> final_sink run" and "now \<noteq> 0"
    and "ProjectSupervisedRunSink run tasks attempts assignments barrier now = (run', err)"
  shows "err = None \<and>
    (final_sink run' \<longleftrightarrow> may_settle (Run_ID run) tasks attempts assignments barrier) \<and>
    (final_sink run' \<longrightarrow>
       Run_Progress run' = settled_progress (Run_ID run) tasks attempts \<and> Run_CompletedAt run' = Some now \<and>
       (\<exists>sink. Run_Sink run' = Some sink \<and> Sink_Needs sink = sort_strings (map Task_ID tasks) \<and>
          Sink_Result sink = Some (settled_result (Run_ID run) tasks attempts) \<and> Sink_CompletedAt sink = Some now \<and>
          (Sink_Progress sink = ProgressFailed \<longleftrightarrow> Run_Progress run' = ProgressFailed))) \<and>
    (\<not> final_sink run' \<longrightarrow> run' = bound)"
proof -
  have open_sink: "\<not> final_sink bound"
    by (rule BindRunSink_ok [OF assms(1)]) (use assms(2) in \<open>auto simp: final_sink_def fresh_sink_def\<close>)
  show ?thesis
  proof (cases "may_settle (Run_ID run) tasks attempts assignments barrier")
    case False
    with assms(4) ProjectSupervisedRunSink_open [OF assms(1-3)] open_sink show ?thesis by auto
  next
    case True
    with assms(4) ProjectSupervisedRunSink_open [OF assms(1-3)] show ?thesis
      by (auto simp: final_sink_def fresh_sink_def split: if_splits)
  qed
qed

lemma sample_bind:
  "BindRunSink sample_run [sample_task ''build'' []] =
     (sample_run\<lparr>Run_Sink := Some (fresh_sink sample_run [''build''])\<rparr>, None)"
  by (simp add: BindRunSink_def sample_run_def SinkTaskName_def SinkTaskID_def)

lemma sample_latest:
  "current_attempts ''run'' [sample_attempt ''build'' p] = [''build'' \<mapsto> sample_attempt ''build'' p]"
  by (simp add: current_attempts_def latest_attempts_def latest_step_def)

lemma sample_no_loops: "SummarizeFixLoops [sample_task ''build'' []] attempts = []"
  by (simp add: SummarizeFixLoops_def summarize_step_def)

lemma sample_quiescent: "RunExecutionsQuiescent ''run'' [sample_attempt ''build'' p] []"
  by (simp add: RunExecutionsQuiescent_def IsSupervisionActivation_def)

lemma sample_may_settle:
  "may_settle ''run'' [sample_task ''build'' []] [sample_attempt ''build'' ProgressSucceeded] [] (sample_barrier s)
    \<longleftrightarrow> s = GateAccepted \<or> s = GateCancelled"
proof -
  have "\<not> run_failed [''build'' \<mapsto> sample_attempt ''build'' ProgressSucceeded] [sample_task ''build'' []]
      [sample_attempt ''build'' ProgressSucceeded]"
    by (simp add: run_failed_def sample_no_loops outcome_is_def)
  then show ?thesis
    by (simp add: may_settle_def sample_latest sample_quiescent all_terminal_def barrier_iff sample_barrier_def
        sample_final_gate_def unaccepted_final_gate_def sample_gate_def)
qed

theorem run_settles_exactly_witness:
  "\<exists>run'. ProjectSupervisedRunSink sample_run [sample_task ''build'' []]
       [sample_attempt ''build'' ProgressSucceeded] [] (sample_barrier GateAccepted) 9 = (run', None) \<and>
     final_sink run'"
proof -
  obtain run' err where eq: "ProjectSupervisedRunSink sample_run [sample_task ''build'' []]
       [sample_attempt ''build'' ProgressSucceeded] [] (sample_barrier GateAccepted) 9 = (run', err)"
    by (cases "ProjectSupervisedRunSink sample_run [sample_task ''build'' []]
       [sample_attempt ''build'' ProgressSucceeded] [] (sample_barrier GateAccepted) 9")
  have "\<not> final_sink sample_run" by (simp add: final_sink_def sample_run_def)
  from run_settles_exactly [OF sample_bind this _ eq] sample_may_settle [of GateAccepted] eq
  show ?thesis by (simp add: sample_run_def)
qed

lemma BindRunSink_keeps:
  "Run_Sink run = Some sink \<Longrightarrow> Terminal (Sink_Progress sink) \<Longrightarrow>
   Run_Sink (fst (BindRunSink run tasks)) = Some sink \<and>
   Run_Progress (fst (BindRunSink run tasks)) = Run_Progress run \<and>
   Run_CompletedAt (fst (BindRunSink run tasks)) = Run_CompletedAt run"
  by (simp add: BindRunSink_def Let_def split: sum.split)

text \<open>
  A settled sink is final: whatever tasks, attempts, assignments, supervision state and time
  a later projection is given, it leaves the sink, the run's progress and its completion time
  unchanged.
\<close>

theorem settled_sink_final:
  assumes "Run_Sink run = Some sink" and "Terminal (Sink_Progress sink)"
    and "ProjectSupervisedRunSink run tasks attempts assignments barrier now = (run', err)"
  shows "Run_Sink run' = Some sink \<and> Run_Progress run' = Run_Progress run
    \<and> Run_CompletedAt run' = Run_CompletedAt run"
proof -
  obtain bound e where bind: "BindRunSink run tasks = (bound, e)" by fastforce
  note keeps = BindRunSink_keeps [OF assms(1,2), of tasks, unfolded bind fst_conv]
  with assms(2,3) bind have "run' = bound"
    by (auto simp: ProjectSupervisedRunSink_def split: option.splits)
  with keeps show ?thesis by simp
qed

definition settled_sample :: WorkflowRun where
  "settled_sample = sample_run\<lparr>Run_Sink := Some ((fresh_sink sample_run [''build''])
     \<lparr>Sink_Progress := ProgressSucceeded, Sink_CompletedAt := Some 9\<rparr>), Run_Progress := ProgressSucceeded,
     Run_CompletedAt := Some 9\<rparr>"

theorem settled_sink_final_witness:
  "Run_Progress (fst (ProjectSupervisedRunSink settled_sample [sample_task ''build'' []]
     [sample_attempt ''build'' ProgressFailed] [] (sample_barrier GateHeld) 20)) = ProgressSucceeded"
proof -
  let ?p = "ProjectSupervisedRunSink settled_sample [sample_task ''build'' []]
     [sample_attempt ''build'' ProgressFailed] [] (sample_barrier GateHeld) 20"
  have "Run_Sink settled_sample = Some ((fresh_sink sample_run [''build''])
     \<lparr>Sink_Progress := ProgressSucceeded, Sink_CompletedAt := Some 9\<rparr>)"
    by (simp add: settled_sample_def)
  from settled_sink_final [OF this _ prod.collapse [symmetric, of ?p]]
  show ?thesis by (simp add: settled_sample_def)
qed

text \<open>Binding a settled run again at the same graph changes nothing.\<close>

lemma sink_needs_cong:
  "Run_ID run = Run_ID run' \<Longrightarrow> Run_WorkflowID run = Run_WorkflowID run' \<Longrightarrow>
   sink_needs run names needs tasks = sink_needs run' names needs tasks"
  by (induction tasks arbitrary: names needs) simp_all

lemma BindRunSink_again:
  assumes bind: "BindRunSink run tasks = (bound, None)" and bound: "Run_Sink bound = Some sink"
    and same: "Run_ID run' = Run_ID bound" "Run_WorkflowID run' = Run_WorkflowID bound"
      "Run_GraphRevision run' = Run_GraphRevision bound" "Run_Sink run' = Some sink'"
      "Sink_ID sink' = Sink_ID sink" "Sink_Name sink' = Sink_Name sink"
      "Sink_GraphRevision sink' = Sink_GraphRevision sink" "Sink_Needs sink' = Sink_Needs sink"
    and final: "Terminal (Sink_Progress sink')"
  shows "BindRunSink run' tasks = (run', None)"
proof -
  define r where "r = (if Run_GraphRevision run = 0 then run\<lparr>Run_GraphRevision := 1\<rparr> else run)"
  from bind obtain unsorted where ids: "Run_ID run \<noteq> ''''" "Run_WorkflowID run \<noteq> ''''"
    and revision: "1 \<le> Run_GraphRevision r"
    and needs: "sink_needs r [] [] tasks = Inr unsorted"
    and adj: "length (remdups_adj (sort_strings unsorted)) = length (sort_strings unsorted)"
    by (auto simp: BindRunSink_def Let_def r_def [symmetric] split: if_splits sum.splits)
  have r: "Run_ID r = Run_ID run" "Run_WorkflowID r = Run_WorkflowID run" by (simp_all add: r_def)
  have "\<exists>s. bound = r\<lparr>Run_Sink := Some s\<rparr> \<and> Sink_ID s = SinkTaskID (Run_ID run) \<and> Sink_Name s = SinkTaskName \<and>
      Sink_GraphRevision s = Run_GraphRevision r \<and> Sink_Needs s = sort_strings unsorted"
    using bind ids revision needs adj
    by (auto simp: BindRunSink_def Let_def r_def [symmetric] r fresh_sink_def split: if_splits option.splits)
  with bound r have eq: "Run_ID bound = Run_ID run" "Run_WorkflowID bound = Run_WorkflowID run"
    "Run_GraphRevision bound = Run_GraphRevision r" "Sink_ID sink = SinkTaskID (Run_ID run)"
    "Sink_Name sink = SinkTaskName" "Sink_GraphRevision sink = Run_GraphRevision r"
    "Sink_Needs sink = sort_strings unsorted"
    by auto
  have "sink_needs run' [] [] tasks = Inr unsorted"
    using needs sink_needs_cong [of run' r] by (simp add: same eq r)
  with ids revision adj final show ?thesis by (simp add: BindRunSink_def Let_def same eq)
qed

text \<open>
  A run settles once: after a projection that settled it, projecting the run again on the
  same tasks succeeds and returns the same run, with whatever attempts, assignments, supervision
  state and time.
\<close>

theorem settlement_idempotent:
  assumes "ProjectSupervisedRunSink run tasks attempts assignments barrier now = (run', None)"
    and "final_sink run'"
  shows "ProjectSupervisedRunSink run' tasks attempts2 assignments2 barrier2 now2 = (run', None)"
proof -
  obtain bound e where bind: "BindRunSink run tasks = (bound, e)" by fastforce
  from assms(1) have e: "e = None" by (auto simp: ProjectSupervisedRunSink_def bind split: option.splits)
  obtain sink where bound: "Run_Sink bound = Some sink" using bind e by (auto elim: BindRunSink_ok)
  obtain sink' where final: "Run_Sink run' = Some sink'" "Terminal (Sink_Progress sink')"
    using assms(2) by (auto simp: final_sink_def)
  have "Run_ID run' = Run_ID bound \<and> Run_WorkflowID run' = Run_WorkflowID bound \<and>
      Run_GraphRevision run' = Run_GraphRevision bound \<and> Sink_ID sink' = Sink_ID sink \<and>
      Sink_Name sink' = Sink_Name sink \<and> Sink_GraphRevision sink' = Sink_GraphRevision sink \<and>
      Sink_Needs sink' = Sink_Needs sink"
    using assms(1) final(1) bound
    by (auto simp: ProjectSupervisedRunSink_def bind e Let_def split: if_splits option.splits)
  with bind e bound final have "BindRunSink run' tasks = (run', None)"
    by (intro BindRunSink_again [of run tasks bound sink run' sink']) simp_all
  with final show ?thesis by (simp add: ProjectSupervisedRunSink_def)
qed

theorem settlement_idempotent_witness:
  "\<exists>run'. final_sink run' \<and> ProjectSupervisedRunSink run' [sample_task ''build'' []] [] []
     (sample_barrier GateHeld) 0 = (run', None)"
proof -
  have "\<not> final_sink sample_run" by (simp add: final_sink_def sample_run_def)
  note settle = ProjectSupervisedRunSink_open [OF sample_bind this, of 9
      "[sample_attempt ''build'' ProgressSucceeded]" "[]" "sample_barrier GateAccepted"]
  then obtain run' where run': "ProjectSupervisedRunSink sample_run [sample_task ''build'' []]
      [sample_attempt ''build'' ProgressSucceeded] [] (sample_barrier GateAccepted) 9 = (run', None)" "final_sink run'"
    using sample_may_settle [of GateAccepted] by (simp add: sample_run_def final_sink_def)
  from settlement_idempotent [OF run'] run'(2) show ?thesis by blast
qed

end
