(* ===== verification/Graph.thy ===== *)
theory Graph
  imports Orchestrator
begin

text \<open>
  Which task definitions a run executes (\<open>internal/domain/graph.go\<close>), and the snapshot of
  coordinator records that the passes over all runs read (\<open>internal/store/sqlite/coordinator.go\<close>,
  \<open>internal/domain/admin.go\<close>): the admin commands and the lists of runs, tasks, attempts and
  assignments. A Go map built by one loop over a list is \<open>index_by\<close>: the last element with a
  key wins. The copies the code takes of selections and review requirements are values here.

  The JSON payload of a command is kept as what its readers decode from it: a retry receipt, an
  \<open>until\<close> time, a pause mode, a scope, or some other document, in which every field those
  readers look for is missing.
\<close>

definition index_by :: "('a \<Rightarrow> 'k) \<Rightarrow> 'a list \<Rightarrow> 'k \<rightharpoonup> 'a" where
  "index_by key xs = map_of (rev (map (\<lambda>x. (key x, x)) xs))"

lemma index_by_SomeD: "index_by key xs k = Some x \<Longrightarrow> x \<in> set xs \<and> key x = k"
  by (auto simp: index_by_def dest!: map_of_SomeD)

lemma index_by_None: "index_by key xs k = None \<longleftrightarrow> (\<forall>x \<in> set xs. key x \<noteq> k)"
  by (auto simp: index_by_def map_of_eq_None_iff image_image)

lemma index_by_unique: "x \<in> set xs \<Longrightarrow> distinct (map key xs) \<Longrightarrow> index_by key xs (key x) = Some x"
  unfolding index_by_def by (rule map_of_is_SomeI) (auto simp: comp_def simp flip: rev_map)

section \<open>The tasks of a run\<close>

definition ApplyRoleSelection :: "Task \<Rightarrow> RoleSelection \<Rightarrow> Task" where
  "ApplyRoleSelection task selection =
     (let selected = task\<lparr>Task_RoleSelection := Some selection\<rparr> in
      case cut_at CHR ''/'' (Selection_Route selection) of
        None \<Rightarrow> selected
      | Some (inst, model) \<Rightarrow>
          if inst \<noteq> '''' \<and> model \<noteq> ''''
          then selected\<lparr>Task_Routes :=
                 [\<lparr>Route_WorkerID = '''', Route_ProviderInstanceID = inst, Route_Model = model,
                   Route_Options = [(''effort'', Selection_Effort selection)], Route_QuotaPoolID = ''''\<rparr>]\<rparr>
          else selected)"

definition taskWithRunSelection :: "WorkflowRun \<Rightarrow> Task \<Rightarrow> Task" where
  "taskWithRunSelection run task =
     (if Task_Role task \<noteq> '''' \<and> Task_Routes task = []
      then (case map_of (Run_RouteSelections run) (Task_ID task) of
              Some selection \<Rightarrow> ApplyRoleSelection task selection
            | None \<Rightarrow> task)
      else task)"

definition run_template :: "WorkflowRun \<Rightarrow> Task \<Rightarrow> bool" where
  "run_template run task \<longleftrightarrow>
     Task_WorkflowID task = Run_WorkflowID run \<and> (Task_RunID task = '''' \<or> Task_RunID task = Run_ID run)"

definition TasksForRun :: "WorkflowRun \<Rightarrow> Task list \<Rightarrow> Task list" where
  "TasksForRun run templates =
     (case Run_Graph run of
        Some graph \<Rightarrow> map (taskWithRunSelection run) (Graph_Tasks graph)
      | None \<Rightarrow> map (taskWithRunSelection run) (filter (run_template run) templates))"

definition TaskForAttempt :: "Attempt \<Rightarrow> WorkflowRun list \<Rightarrow> Task list \<Rightarrow> Task option" where
  "TaskForAttempt attempt runs templates =
     (case find (\<lambda>run. Run_ID run = Attempt_WorkflowRunID attempt) runs of
        None \<Rightarrow> None
      | Some run \<Rightarrow> find (\<lambda>task. Task_ID task = Attempt_TaskID attempt) (TasksForRun run templates))"

fun add_graph_tasks :: "Task list \<Rightarrow> Task list \<Rightarrow> Task list" where
  "add_graph_tasks result [] = result"
| "add_graph_tasks result (task # tasks) =
     add_graph_tasks (if Task_ID task \<in> Task_ID ` set result then result else result @ [task]) tasks"

definition TasksWithGraphAdditions :: "WorkflowRun list \<Rightarrow> Task list \<Rightarrow> Task list" where
  "TasksWithGraphAdditions runs templates =
     fold (\<lambda>run result. case Run_Graph run of None \<Rightarrow> result | Some graph \<Rightarrow> add_graph_tasks result (Graph_Tasks graph))
       runs templates"

text \<open>A selection never changes which task it is, what it needs or how it is retried.\<close>

lemma ApplyRoleSelection_keeps [simp]:
  "Task_ID (ApplyRoleSelection task s) = Task_ID task" "Task_Name (ApplyRoleSelection task s) = Task_Name task"
  "Task_Needs (ApplyRoleSelection task s) = Task_Needs task" "Task_WorkflowID (ApplyRoleSelection task s) = Task_WorkflowID task"
  "Task_Retry (ApplyRoleSelection task s) = Task_Retry task" "Task_FixLoop (ApplyRoleSelection task s) = Task_FixLoop task"
  by (simp_all add: ApplyRoleSelection_def Let_def split: option.split prod.split)

lemma taskWithRunSelection_keeps [simp]:
  "Task_ID (taskWithRunSelection run task) = Task_ID task" "Task_Name (taskWithRunSelection run task) = Task_Name task"
  "Task_Needs (taskWithRunSelection run task) = Task_Needs task"
  "Task_WorkflowID (taskWithRunSelection run task) = Task_WorkflowID task"
  "Task_Retry (taskWithRunSelection run task) = Task_Retry task"
  "Task_FixLoop (taskWithRunSelection run task) = Task_FixLoop task"
  by (simp_all add: taskWithRunSelection_def split: option.split)

lemma TaskForAttempt_SomeD:
  assumes "TaskForAttempt attempt runs templates = Some task"
  shows "\<exists>run \<in> set runs. Run_ID run = Attempt_WorkflowRunID attempt \<and> task \<in> set (TasksForRun run templates)
           \<and> Task_ID task = Attempt_TaskID attempt"
  using assms by (auto simp: TaskForAttempt_def split: option.splits dest!: find_SomeD)

section \<open>Commands and records\<close>

datatype AdminTargetType =
    AdminTargetAttempt
  | AdminTargetWorkflowRun
  | AdminTargetSchedule
  | AdminTargetAssignment
  | AdminTargetOther string

datatype AdminCommandKind =
    AdminCommandStart
  | AdminCommandDelay
  | AdminCommandPause
  | AdminCommandResume
  | AdminCommandCancel
  | AdminCommandRetry
  | AdminCommandSkip
  | AdminCommandScheduleRun
  | AdminCommandDelayNext
  | AdminCommandEnable
  | AdminCommandDisable
  | AdminCommandReprioritize
  | AdminCommandRewake
  | AdminCommandKindOther string

datatype AdminCommandState =
    AdminCommandPending
  | AdminCommandApplied
  | AdminCommandRejected
  | AdminCommandFailed
  | AdminCommandStateOther string

datatype AdminPayload =
    PayloadEmpty
  | PayloadRetry AutomaticRetry
  | PayloadUntil instant
  | PayloadPause bool
  | PayloadScope string
  | PayloadOther string

record AdminCommand =
  Command_ID :: string
  Command_Kind :: AdminCommandKind
  Command_TargetType :: AdminTargetType
  Command_TargetID :: string
  Command_ExpectedRevision :: int64
  Command_Reason :: go_text
  Command_RequestedBy :: string
  Command_Payload :: AdminPayload
  Command_State :: AdminCommandState
  Command_Failure :: string
  Command_CreatedAt :: instant
  Command_AppliedAt :: "instant option"

record CoordinatorRecords =
  Records_WorkflowRuns :: "WorkflowRun list"
  Records_Tasks :: "Task list"
  Records_Attempts :: "Attempt list"
  Records_Assignments :: "Assignment list"
  Records_AdminCommands :: "AdminCommand list"

end
