(* ===== verification/PlanningTypes.thy ===== *)
theory PlanningTypes
  imports SupervisionReadiness
begin

text \<open>
  What the planner and its constraints exchange (\<open>internal/backlog/planner.go\<close>): candidates,
  blockers and estimates. A text that the planner sorts or trims is rendered by \<open>fmt\<close>; the
  rendering of a format, the rendering of a time and the order in which a map is iterated are
  the fields of \<open>go_runtime\<close>, and every property holds for all of them.
\<close>

record go_runtime =
  Runtime_text :: "go_text \<Rightarrow> string"
  Runtime_time :: "instant \<Rightarrow> string"
  Runtime_order :: "string list \<Rightarrow> string list"

definition error_text :: "go_error \<Rightarrow> go_text" where
  "error_text err = (case err of Errorf format args \<Rightarrow> Sprintf format (map StrArg args))"

datatype AdmissionState =
    AdmissionEmpty
  | AdmissionOpen
  | AdmissionConstrained
  | AdmissionDraining
  | AdmissionClosed
  | AdmissionRecovering
  | AdmissionOther string

fun Admission_text :: "AdmissionState \<Rightarrow> string" where
  "Admission_text AdmissionEmpty = ''''"
| "Admission_text AdmissionOpen = ''open''"
| "Admission_text AdmissionConstrained = ''constrained''"
| "Admission_text AdmissionDraining = ''draining''"
| "Admission_text AdmissionClosed = ''closed''"
| "Admission_text AdmissionRecovering = ''recovering''"
| "Admission_text (AdmissionOther s) = s"

record TaskAdmissionEstimate =
  Estimate_RemainingCost :: float64
  Estimate_ExpectedRuntime :: duration
  Estimate_CheckpointMargin :: duration

record PlanningCandidate =
  Candidate_WorkflowRunID :: string
  Candidate_Task :: Task
  Candidate_Attempt :: Attempt
  Candidate_WorkerID :: string
  Candidate_RouteOrdinal :: int
  Candidate_Route :: "ProviderRoute option"
  Candidate_Estimate :: "TaskAdmissionEstimate option"

record PlanningBlocker =
  PB_Code :: string
  PB_Detail :: go_text
  PB_WorkerID :: string
  PB_Resource :: string
  PB_OwnerID :: string
  PB_DependsOn :: string
  PB_SupervisionCode :: "SupervisionBlockerCode option"
  PB_GateID :: string
  PB_HoldID :: string
  PB_ProviderInstanceID :: string
  PB_Model :: string
  PB_RouteOrdinal :: int
  PB_QuotaPoolID :: string
  PB_QuotaWindowID :: string
  PB_Admission :: AdmissionState
  PB_RequiredCost :: float64
  PB_Dimension :: string
  PB_Required :: float64
  PB_Available :: float64
  PB_MaxObservationAgeSeconds :: float64
  PB_ObservedAt :: "instant option"
  PB_EarliestAt :: "instant option"
  PB_DeadlineAt :: "instant option"

text \<open>A blocker literal with the two fields every blocker has; the rest are zero values.\<close>

definition planning_blocker :: "string \<Rightarrow> go_text \<Rightarrow> PlanningBlocker" where
  "planning_blocker code detail =
     \<lparr>PB_Code = code, PB_Detail = detail, PB_WorkerID = '''', PB_Resource = '''', PB_OwnerID = '''', PB_DependsOn = '''',
      PB_SupervisionCode = None, PB_GateID = '''', PB_HoldID = '''', PB_ProviderInstanceID = '''', PB_Model = '''',
      PB_RouteOrdinal = 0, PB_QuotaPoolID = '''', PB_QuotaWindowID = '''', PB_Admission = AdmissionEmpty,
      PB_RequiredCost = Fin 0, PB_Dimension = '''', PB_Required = Fin 0, PB_Available = Fin 0,
      PB_MaxObservationAgeSeconds = Fin 0, PB_ObservedAt = None, PB_EarliestAt = None, PB_DeadlineAt = None\<rparr>"

text \<open>
  \<open>PlanningConstraint\<close> and \<open>PlanningConstraintSession\<close>: a constraint starts a session for one
  pass (or returns nil), and the session evaluates candidates and records the ones that are
  proposed. Constraints of different kinds share one session type, a sum of theirs.
\<close>

record 's PlanningConstraint =
  Constraint_StartPlan :: "instant \<Rightarrow> 's option"
  Constraint_Evaluate :: "'s \<Rightarrow> PlanningCandidate \<Rightarrow> PlanningBlocker list"
  Constraint_Reserve :: "'s \<Rightarrow> PlanningCandidate \<Rightarrow> 's"

end
