(* ===== verification/Nodes.thy ===== *)
theory Nodes
  imports Sink Graph PlanningTypes
begin

text \<open>
  Nodes of other runs (\<open>internal/domain/node.go\<close>, \<open>internal/backlog/node_edges.go\<close>): the references
  that tasks and waits name, the observation of a node from the retained records, and what a wait
  for a state of a node reads from it; with the rules for identifiers (\<open>identifiers.go\<close>), the
  aggregate of review verdicts (\<open>review_output.go\<close>) and the states of a node wait (\<open>wait_kind.go\<close>).

  A text that \<open>fmt\<close> renders and the order in which a map is iterated are fields of \<open>go_runtime\<close>. An
  operation that returns a value and an error is a pair. Cloning of a value is the identity.
\<close>

section \<open>Identifiers and references\<close>

definition MaxPathComponentBytes :: nat where
  "MaxPathComponentBytes = 255"

text \<open>The code looks at runes; the control characters are ASCII, so the bytes decide.\<close>

definition control_char :: "char \<Rightarrow> bool" where
  "control_char c \<longleftrightarrow> (of_char c :: nat) < 32 \<or> (of_char c :: nat) = 127"

definition ContainsControl :: "string \<Rightarrow> bool" where
  "ContainsControl text \<longleftrightarrow> list_ex control_char text"

definition ValidateStorageComponent :: "string \<Rightarrow> string option" where
  "ValidateStorageComponent text =
     (if text = '''' then Some ''is empty''
      else if text = ''.'' \<or> text = ''..'' then Some ''must not be \".\" or \"..\"''
      else if CHR ''/'' \<in> set text \<or> CHR 0x5C \<in> set text then Some ''must not contain a path separator''
      else if ContainsControl text then Some ''must not contain control characters''
      else if has_prefix text ''-'' then Some ''must not start with -''
      else if length text > MaxPathComponentBytes then Some ''must be at most 255 bytes''
      else None)"

definition ParseNodeRef :: "string \<Rightarrow> NodeRef go_result" where
  "ParseNodeRef text =
     (case cut_at CHR ''/'' text of
        None \<Rightarrow> Inl (Errorf ''node must be <run>/<task>'' [])
      | Some (run, task) \<Rightarrow>
          if run = '''' \<or> task = '''' \<or> CHR ''/'' \<in> set task
          then Inl (Errorf ''node must be <run>/<task>'' [])
          else (case ValidateStorageComponent run of
            Some e \<Rightarrow> Inl (Errorf ''node %q: run %w'' [text, e])
          | None \<Rightarrow>
              if ContainsControl task
              then Inl (Errorf ''node %q: task must not contain control characters'' [text])
              else Inr \<lparr>NodeRef_RunID = run, NodeRef_TaskID = task\<rparr>))"

section \<open>Review verdicts\<close>

text \<open>One rune of a byte string as Go decodes it: its width and whether the bytes are valid UTF-8.
  An invalid byte is a rune of its own, which \<open>string([]rune)\<close> writes as the replacement character.\<close>

definition byte :: "string \<Rightarrow> nat \<Rightarrow> nat" where
  "byte s i = (if i < length s then of_char (s ! i) else 0)"

definition between :: "nat \<Rightarrow> nat \<Rightarrow> nat \<Rightarrow> bool" where
  "between lo hi n \<longleftrightarrow> lo \<le> n \<and> n \<le> hi"

definition rune_width :: "string \<Rightarrow> nat" where
  "rune_width s =
     (let b0 = byte s 0; b1 = byte s 1; cont = (\<lambda>i. between 0x80 0xBF (byte s i)) in
      if b0 < 0x80 then 1
      else if between 0xC2 0xDF b0 \<and> cont 1 then 2
      else if (b0 = 0xE0 \<and> between 0xA0 0xBF b1 \<or> (between 0xE1 0xEC b0 \<or> between 0xEE 0xEF b0) \<and> cont 1
               \<or> b0 = 0xED \<and> between 0x80 0x9F b1) \<and> cont 2 then 3
      else if (b0 = 0xF0 \<and> between 0x90 0xBF b1 \<or> between 0xF1 0xF3 b0 \<and> cont 1 \<or> b0 = 0xF4 \<and> between 0x80 0x8F b1)
              \<and> cont 2 \<and> cont 3 then 4
      else 0)"

definition replacement_rune :: string where
  "replacement_rune = bytes [0xEF, 0xBF, 0xBD]"

function rune_list :: "string \<Rightarrow> string list" where
  "rune_list s =
     (if s = [] then []
      else if rune_width s = 0 then replacement_rune # rune_list (drop 1 s)
      else take (rune_width s) s # rune_list (drop (rune_width s) s))"
  by pat_completeness auto
termination
  by (relation "measure length") auto

declare rune_list.simps [simp del]

text \<open>\<open>strings.Fields\<close> and the join with single spaces. An invalid byte is not a space, and it is
  kept; the bytes of a field are therefore a contiguous part of the text.\<close>

function space_fields :: "string \<Rightarrow> string \<Rightarrow> string list" where
  "space_fields field s =
     (if s = [] then (if field = [] then [] else [rev field])
      else if leading_space space_runes s \<noteq> 0
      then (if field = [] then [] else [rev field]) @ space_fields [] (drop (leading_space space_runes s) s)
      else space_fields (hd s # field) (tl s))"
  by pat_completeness auto
termination
  by (relation "measure (\<lambda>(field, s). length s)") auto

declare space_fields.simps [simp del]

definition bounded_title :: "string \<Rightarrow> string" where
  "bounded_title title = concat (take 160 (rune_list (join_with CHR '' '' (space_fields [] title))))"

definition BoundReviewTitles :: "string list \<Rightarrow> string list" where
  "BoundReviewTitles titles = take 5 (filter (\<lambda>t. t \<noteq> '''') (map bounded_title titles))"

definition ReviewVerdict_Summary :: "ReviewVerdict \<Rightarrow> string" where
  "ReviewVerdict_Summary r = ''review='' @ Verdict_Verdict r @ '' blocking='' @ show_int (Verdict_BlockingFindings r)"

definition ReviewVerdict_Prose :: "go_runtime \<Rightarrow> ReviewVerdict \<Rightarrow> string" where
  "ReviewVerdict_Prose rt r =
     fold (\<lambda>title out. out @ [CHR 0x0A] @ ''  - '' @ Runtime_text rt (Sprintf ''%q'' [StrArg title])) (Verdict_FindingTitles r)
       (ReviewVerdict_Summary r)"

definition verdict_attempts :: "string \<Rightarrow> string \<Rightarrow> Attempt list \<Rightarrow> Attempt list" where
  "verdict_attempts runID taskID attempts =
     filter (\<lambda>a. \<not> (Attempt_WorkflowRunID a \<noteq> runID \<or> taskID \<noteq> '''' \<and> Attempt_TaskID a \<noteq> taskID \<or> IsSupervisionActivation a)) attempts"

definition add_verdict :: "ReviewVerdict \<Rightarrow> ReviewVerdict option \<times> string list \<Rightarrow> ReviewVerdict option \<times> string list" where
  "add_verdict v acc =
     (let out = (case fst acc of None \<Rightarrow> \<lparr>Verdict_Verdict = ''accept'', Verdict_BlockingFindings = 0, Verdict_FindingTitles = []\<rparr> | Some o' \<Rightarrow> o');
          judged = (if Verdict_Verdict v = ''changes-requested'' then out\<lparr>Verdict_Verdict := ''changes-requested''\<rparr> else out);
          counted = (if Verdict_BlockingFindings v > wrap64 (max_int64 - Verdict_BlockingFindings judged)
                     then judged\<lparr>Verdict_BlockingFindings := max_int64\<rparr>
                     else judged\<lparr>Verdict_BlockingFindings := wrap64 (Verdict_BlockingFindings judged + Verdict_BlockingFindings v)\<rparr>)
      in (Some counted, snd acc @ Verdict_FindingTitles v))"

definition AggregateReviewVerdicts :: "go_runtime \<Rightarrow> string \<Rightarrow> string \<Rightarrow> Attempt list \<Rightarrow> ReviewVerdict option" where
  "AggregateReviewVerdicts rt runID taskID attempts =
     (let mine = verdict_attempts runID taskID attempts;
          latest = latest_attempts mine;
          keys = Runtime_order rt (remdups (map Attempt_TaskID mine));
          verdicts = concat (map (\<lambda>k. case latest k of
            Some a \<Rightarrow> (case Attempt_ReviewVerdict a of
                Some v \<Rightarrow> if Terminal (Attempt_Progress a) then [v] else [] | None \<Rightarrow> [])
          | None \<Rightarrow> []) keys)
      in case fold add_verdict verdicts (None, []) of
           (None, _) \<Rightarrow> None
         | (Some out, titles) \<Rightarrow> Some (out\<lparr>Verdict_FindingTitles := BoundReviewTitles (sort_strings titles)\<rparr>))"

section \<open>Observations\<close>

datatype TaskWaitOutcome =
  TaskWaitNone | TaskWaitMet | TaskWaitFailed | TaskWaitTimedOut | TaskWaitGaveUp | TaskWaitCancelled | TaskWaitOther string

record NodeObservation =
  Observation_ReviewVerdict :: "ReviewVerdict option"
  Observation_Target :: NodeRef
  Observation_RunRevision :: int64
  Observation_AttemptID :: string
  Observation_AttemptRevision :: int64
  Observation_Progress :: ProgressState
  Observation_ExitCode :: int
  Observation_Reason :: string
  Observation_Outcome :: TaskWaitOutcome
  Observation_Fields :: "string \<rightharpoonup> string"

definition observe :: "NodeRef \<Rightarrow> int \<Rightarrow> string \<Rightarrow> NodeObservation" where
  "observe ref code reason =
     \<lparr>Observation_ReviewVerdict = None, Observation_Target = ref, Observation_RunRevision = 0, Observation_AttemptID = '''',
      Observation_AttemptRevision = 0, Observation_Progress = ProgressEmpty, Observation_ExitCode = code,
      Observation_Reason = reason, Observation_Outcome = TaskWaitNone, Observation_Fields = Map.empty\<rparr>"

definition node_attempts :: "WorkflowRun \<Rightarrow> Task \<Rightarrow> Attempt list \<Rightarrow> Attempt list" where
  "node_attempts run task attempts =
     filter (\<lambda>a. Attempt_WorkflowRunID a = Run_ID run \<and> Attempt_TaskID a = Task_ID task) attempts"

definition latest_of :: "Attempt list \<Rightarrow> Attempt option" where
  "latest_of attempts =
     fold (\<lambda>a latest. case latest of None \<Rightarrow> Some a
        | Some b \<Rightarrow> if Attempt_Number a > Attempt_Number b then Some a else Some b) attempts None"

text \<open>The common end: a node that is over has succeeded or is settled against the waiter.\<close>

definition node_over :: "go_runtime \<Rightarrow> NodeObservation \<Rightarrow> NodeObservation" where
  "node_over rt out =
     (let settled = (if Observation_Progress out = ProgressSucceeded
            then out\<lparr>Observation_ExitCode := 0, Observation_Reason := ''succeeded''\<rparr>
            else out\<lparr>Observation_ExitCode := 2, Observation_Reason := ProgressState_text (Observation_Progress out)\<rparr>)
      in case Observation_ReviewVerdict settled of
           None \<Rightarrow> settled
         | Some v \<Rightarrow> settled\<lparr>Observation_Reason := Observation_Reason settled @ [CHR 0x0A] @ ''Review verdict: '' @ ReviewVerdict_Prose rt v\<rparr>)"

definition observe_sink :: "go_runtime \<Rightarrow> WorkflowRun \<Rightarrow> SinkTask \<Rightarrow> Attempt list \<Rightarrow> NodeObservation \<Rightarrow> NodeObservation" where
  "observe_sink rt run sink attempts out0 =
     (let out = out0\<lparr>Observation_Target := (Observation_Target out0)\<lparr>NodeRef_TaskID := Sink_ID sink\<rparr>,
            Observation_Progress := Sink_Progress sink\<rparr> in
      if \<not> Terminal (Sink_Progress sink) then out
      else node_over rt (out\<lparr>Observation_ReviewVerdict := AggregateReviewVerdicts rt (Run_ID run) '''' attempts,
             Observation_Progress := (if Run_Progress run = ProgressCancelled \<or> Run_Progress run = ProgressSkipped
                                      then Run_Progress run else Sink_Progress sink)\<rparr>))"

definition observe_task ::
  "go_runtime \<Rightarrow> WorkflowRun \<Rightarrow> Task \<Rightarrow> Attempt list \<Rightarrow> Assignment list \<Rightarrow> NodeObservation \<Rightarrow> NodeObservation" where
  "observe_task rt run task attempts assignments out0 =
     (let out = out0\<lparr>Observation_Target := (Observation_Target out0)\<lparr>NodeRef_TaskID := Task_ID task\<rparr>\<rparr>;
          owned = node_attempts run task attempts in
      case latest_of owned of
        None \<Rightarrow> out
      | Some latest \<Rightarrow>
          let seen = out\<lparr>Observation_Progress := Attempt_Progress latest, Observation_AttemptID := Attempt_ID latest,
                Observation_AttemptRevision := Attempt_Revision latest,
                Observation_ReviewVerdict := (if Terminal (Attempt_Progress latest) then Attempt_ReviewVerdict latest else None)\<rparr>
          in if \<not> Terminal (Attempt_Progress latest) \<or> \<not> RunExecutionsQuiescent (Run_ID run) owned assignments then seen
             else node_over rt (if Run_Progress run = ProgressCancelled
                                then seen\<lparr>Observation_Progress := ProgressCancelled\<rparr> else seen))"

definition names_sink :: "NodeRef \<Rightarrow> WorkflowRun \<Rightarrow> SinkTask option" where
  "names_sink ref run =
     (case Run_Sink run of
        None \<Rightarrow> None
      | Some sink \<Rightarrow> if NodeRef_TaskID ref = SinkTaskName \<or> NodeRef_TaskID ref = Sink_ID sink then Some sink else None)"

definition node_task :: "NodeRef \<Rightarrow> WorkflowRun \<Rightarrow> Task list \<Rightarrow> Task option" where
  "node_task ref run tasks =
     find (\<lambda>t. Task_WorkflowID t = Run_WorkflowID run \<and> (Task_ID t = NodeRef_TaskID ref \<or> Task_Name t = NodeRef_TaskID ref))
       (TasksForRun run tasks)"

definition ResolveNode ::
  "go_runtime \<Rightarrow> NodeRef \<Rightarrow> WorkflowRun list \<Rightarrow> Task list \<Rightarrow> Attempt list \<Rightarrow> Assignment list \<Rightarrow> NodeObservation \<times> go_error option" where
  "ResolveNode rt ref runs tasks attempts assignments =
     (let out = observe ref 1 ''pending'' in
      case find (\<lambda>run. Run_ID run = NodeRef_RunID ref) runs of
        None \<Rightarrow> (out, Some (Errorf ''run %q is unavailable'' [NodeRef_RunID ref]))
      | Some run \<Rightarrow>
          let seen = out\<lparr>Observation_RunRevision := Run_Revision run\<rparr> in
          (case names_sink ref run of
             Some sink \<Rightarrow> (observe_sink rt run sink attempts seen, None)
           | None \<Rightarrow> (case node_task ref run tasks of
               None \<Rightarrow> (seen, Some (Errorf ''task %q is unavailable in run %q'' [NodeRef_TaskID ref, NodeRef_RunID ref]))
             | Some task \<Rightarrow> (observe_task rt run task attempts assignments seen, None))))"

definition resolve_external ::
  "go_runtime \<Rightarrow> WorkflowRun list \<Rightarrow> Task list \<Rightarrow> Attempt list \<Rightarrow> Assignment list \<Rightarrow> NodeRef \<Rightarrow> NodeObservation" where
  "resolve_external rt runs tasks attempts assignments ref =
     (case ResolveNode rt ref runs tasks attempts assignments of
        (obs, None) \<Rightarrow> obs
      | (_, Some err) \<Rightarrow> observe ref 2 (Runtime_text rt (error_text err)))"

definition ResolveExternalNodes ::
  "go_runtime \<Rightarrow> Task list \<Rightarrow> WorkflowRun list \<Rightarrow> Task list \<Rightarrow> Attempt list \<Rightarrow> Assignment list \<Rightarrow> (string \<rightharpoonup> NodeObservation)" where
  "ResolveExternalNodes rt tasks runs allTasks attempts assignments =
     fold (\<lambda>ref result. result(NodeRef_String ref \<mapsto> resolve_external rt runs allTasks attempts assignments ref))
       (concat (map Task_ExternalNeeds tasks)) Map.empty"

section \<open>Waits for a state of a node\<close>

datatype NodeWaitState =
  NodeStateTerminal | NodeStateSucceeded | NodeStatePaused | NodeStateWaitingExternal | NodeStateActive | NodeStateOther string

text \<open>The empty text is \<open>NodeStateOther ''''\<close>.\<close>

fun NodeWaitState_text :: "NodeWaitState \<Rightarrow> string" where
  "NodeWaitState_text NodeStateTerminal = ''terminal''"
| "NodeWaitState_text NodeStateSucceeded = ''succeeded''"
| "NodeWaitState_text NodeStatePaused = ''paused''"
| "NodeWaitState_text NodeStateWaitingExternal = ''waiting-external''"
| "NodeWaitState_text NodeStateActive = ''active''"
| "NodeWaitState_text (NodeStateOther text) = text"

fun ControlState_text :: "ControlState \<Rightarrow> string" where
  "ControlState_text ControlEmpty = ''''"
| "ControlState_text ControlUnassigned = ''unassigned''"
| "ControlState_text ControlPreparing = ''preparing''"
| "ControlState_text ControlRunning = ''running''"
| "ControlState_text ControlDraining = ''draining''"
| "ControlState_text ControlPaused = ''paused''"
| "ControlState_text ControlPausedUncheckpointed = ''paused-uncheckpointed''"
| "ControlState_text ControlResuming = ''resuming''"
| "ControlState_text ControlStopped = ''stopped''"
| "ControlState_text ControlWaitingExternal = ''waiting-external''"
| "ControlState_text (ControlOther text) = text"

fun join_str :: "string \<Rightarrow> string list \<Rightarrow> string" where
  "join_str sep [] = []"
| "join_str sep [w] = w"
| "join_str sep (w # v # ws) = w @ sep @ join_str sep (v # ws)"

definition NodeWaitStates :: "NodeWaitState list" where
  "NodeWaitStates = [NodeStateTerminal, NodeStateSucceeded, NodeStatePaused, NodeStateWaitingExternal, NodeStateActive]"

definition joinNodeWaitStates :: string where
  "joinNodeWaitStates = join_str '', '' (map NodeWaitState_text NodeWaitStates)"

definition ParseNodeWaitState :: "string \<Rightarrow> NodeWaitState go_result" where
  "ParseNodeWaitState text =
     (if text = '''' then Inr NodeStateTerminal
      else (case find (\<lambda>state. NodeWaitState_text state = text) NodeWaitStates of
        Some state \<Rightarrow> Inr state
      | None \<Rightarrow> Inl (Errorf ''--state %q is not a node state; the states are %s'' [text, joinNodeWaitStates])))"

definition NodeWaitState_Terminal :: "NodeWaitState \<Rightarrow> bool" where
  "NodeWaitState_Terminal state \<longleftrightarrow> state = NodeStateOther '''' \<or> state = NodeStateTerminal \<or> state = NodeStateSucceeded"

record WorkerJournalExcerpt =
  Journal_PauseReason :: string

record WorkerAssignmentObservation =
  Observed_Journal :: "WorkerJournalExcerpt option"
  Observed_AssignmentID :: string
  Observed_AssignmentEpoch :: int64

record WorkerSnapshot =
  WorkerSnap_WorkerID :: string
  WorkerSnap_Assignments :: "WorkerAssignmentObservation list"

text \<open>The last matching assignment, and the first journal that a snapshot of its worker has of it.\<close>

definition attemptPauseReason :: "Attempt \<Rightarrow> Assignment list \<Rightarrow> WorkerSnapshot list \<Rightarrow> string" where
  "attemptPauseReason attempt assignments workers =
     (case find (\<lambda>s. Assignment_ID s = Attempt_AssignmentID attempt \<and> Assignment_AttemptID s = Attempt_ID attempt) (rev assignments) of
        None \<Rightarrow> ''''
      | Some assignment \<Rightarrow>
          (case concat (map (\<lambda>w. if WorkerSnap_WorkerID w \<noteq> Assignment_WorkerID assignment then []
               else concat (map (\<lambda>observed.
                      if Observed_AssignmentID observed = Assignment_ID assignment
                         \<and> Observed_AssignmentEpoch observed = Assignment_Epoch assignment
                      then (case Observed_Journal observed of None \<Rightarrow> [] | Some j \<Rightarrow> [Journal_PauseReason j]) else [])
                    (WorkerSnap_Assignments w))) workers) of
             [] \<Rightarrow> '''' | reason # _ \<Rightarrow> reason))"

definition review_fields :: "ReviewVerdict option \<Rightarrow> (string \<rightharpoonup> string) \<Rightarrow> (string \<rightharpoonup> string)" where
  "review_fields verdict noted_pairs =
     (case verdict of None \<Rightarrow> noted_pairs
      | Some v \<Rightarrow> noted_pairs(''review'' \<mapsto> Verdict_Verdict v, ''blocking'' \<mapsto> show_int (Verdict_BlockingFindings v)))"

definition failed_field :: "WorkflowRun option \<Rightarrow> (string \<rightharpoonup> string) \<Rightarrow> (string \<rightharpoonup> string)" where
  "failed_field run noted_pairs =
     (case Option.bind run Run_Sink of
        None \<Rightarrow> noted_pairs
      | Some sink \<Rightarrow> (case Sink_Result sink of
          None \<Rightarrow> noted_pairs
        | Some result \<Rightarrow>
            if Terminal (Sink_Progress sink) \<and> SinkResult_FailedTaskIDs result \<noteq> []
            then noted_pairs(''failed'' \<mapsto> join_str '','' (SinkResult_FailedTaskIDs result)) else noted_pairs))"

definition settled_outcome :: "NodeWaitState \<Rightarrow> ProgressState \<Rightarrow> TaskWaitOutcome" where
  "settled_outcome state progress =
     (if progress = ProgressCancelled then TaskWaitCancelled
      else if progress = ProgressSucceeded \<or> state = NodeStateTerminal then TaskWaitMet
      else TaskWaitFailed)"

text \<open>Whether an open attempt is in the state waited for; a reported pause also counts as paused.\<close>

definition attempt_meets :: "NodeWaitState \<Rightarrow> Attempt \<Rightarrow> string \<Rightarrow> bool" where
  "attempt_meets state latest pauseReason \<longleftrightarrow>
     (case state of
        NodeStateWaitingExternal \<Rightarrow>
          Attempt_Progress latest = ProgressWaitingExternal \<or> Attempt_Control latest = ControlWaitingExternal
      | NodeStateActive \<Rightarrow> Attempt_Progress latest = ProgressActive \<and> HoldsProviderSlot (Attempt_Control latest)
      | NodeStatePaused \<Rightarrow>
          Attempt_Control latest = ControlPaused \<or> Attempt_Control latest = ControlPausedUncheckpointed \<or> pauseReason \<noteq> ''''
      | _ \<Rightarrow> False)"

definition observe_attempt_state ::
  "go_runtime \<Rightarrow> NodeWaitState \<Rightarrow> Attempt option \<Rightarrow> Assignment list \<Rightarrow> WorkerSnapshot list \<Rightarrow> NodeObservation \<Rightarrow> NodeObservation" where
  "observe_attempt_state rt state latest assignments workers out =
     (if Observation_ExitCode out \<noteq> 1 \<or> (case latest of None \<Rightarrow> False | Some a \<Rightarrow> Terminal (Attempt_Progress a))
      then out\<lparr>Observation_ExitCode := 2, Observation_Outcome := TaskWaitFailed,
             Observation_Reason := ''the node reached '' @ ProgressState_text (Observation_Progress out)
               @ '' before it was '' @ NodeWaitState_text state\<rparr>
      else (case latest of
        None \<Rightarrow> out\<lparr>Observation_ExitCode := 1, Observation_Reason := ''pending: no attempt yet''\<rparr>
      | Some a \<Rightarrow>
          let stands = ProgressState_text (Attempt_Progress a) @ ''/'' @ ControlState_text (Attempt_Control a);
              pauseReason = (if state = NodeStatePaused then attemptPauseReason a assignments workers else '''');
              noted = (Observation_Fields out)(''control'' \<mapsto> ControlState_text (Attempt_Control a));
              seen = out\<lparr>Observation_Fields := (if pauseReason \<noteq> '''' then noted(''pauseReason'' \<mapsto> pauseReason) else noted)\<rparr>
          in if \<not> attempt_meets state a pauseReason
             then seen\<lparr>Observation_ExitCode := 1, Observation_Reason := ''pending: attempt is '' @ stands\<rparr>
             else seen\<lparr>Observation_ExitCode := 0, Observation_Outcome := TaskWaitMet, Observation_Reason := ''attempt is '' @ stands\<rparr>))"

definition ResolveNodeState ::
  "go_runtime \<Rightarrow> NodeRef \<Rightarrow> NodeWaitState \<Rightarrow> WorkflowRun list \<Rightarrow> Task list \<Rightarrow> Attempt list \<Rightarrow> Assignment list \<Rightarrow>
   WorkerSnapshot list \<Rightarrow> NodeObservation \<times> go_error option" where
  "ResolveNodeState rt ref state0 runs tasks attempts assignments workers =
     (let state = (if state0 = NodeStateOther '''' then NodeStateTerminal else state0) in
      case ParseNodeWaitState (NodeWaitState_text state) of
        Inl err \<Rightarrow> (observe ref 1 ''pending'', Some err)
      | Inr _ \<Rightarrow>
          (case ResolveNode rt ref runs tasks attempts assignments of
             (out, Some err) \<Rightarrow> (out, Some err)
           | (out, None) \<Rightarrow>
               let run = find (\<lambda>r. Run_ID r = NodeRef_RunID ref) (rev runs);
                   isSink = (case Option.bind run Run_Sink of
                               None \<Rightarrow> False | Some sink \<Rightarrow> NodeRef_TaskID (Observation_Target out) = Sink_ID sink)
               in if isSink \<and> \<not> NodeWaitState_Terminal state
                  then (out, Some (Errorf ''--state %s needs a task: a run's sink has no attempt to be %s; name <run>/<task>, or wait for the run with --state terminal or succeeded''
                         [NodeWaitState_text state, NodeWaitState_text state]))
                  else
                    let noted = out\<lparr>Observation_Fields :=
                          failed_field run (review_fields (Observation_ReviewVerdict out) Map.empty)\<rparr>
                    in if state = NodeStateTerminal \<or> state = NodeStateSucceeded
                       then if Observation_ExitCode noted = 1 then (noted, None)
                            else (noted\<lparr>Observation_Outcome := settled_outcome state (Observation_Progress noted)\<rparr>, None)
                       else (observe_attempt_state rt state
                               (find (\<lambda>a. Attempt_ID a = Observation_AttemptID noted) (rev attempts)) assignments workers noted, None)))"

section \<open>What a wake reports\<close>

definition NodeObservationOutcome :: "NodeObservation \<Rightarrow> TaskWaitOutcome" where
  "NodeObservationOutcome o' =
     (if Observation_Outcome o' \<noteq> TaskWaitNone then Observation_Outcome o'
      else if Observation_ExitCode o' = 0 then TaskWaitMet
      else if Observation_Reason o' = ''timed out'' then TaskWaitTimedOut
      else if Observation_Progress o' = ProgressCancelled then TaskWaitCancelled
      else TaskWaitFailed)"

definition NodeTrailerFields :: "NodeObservation \<Rightarrow> (string \<rightharpoonup> string)" where
  "NodeTrailerFields o' =
     (let noted_pairs = (review_fields (Observation_ReviewVerdict o') (Observation_Fields o'))
            (''run'' \<mapsto> NodeRef_RunID (Observation_Target o'), ''task'' \<mapsto> NodeRef_TaskID (Observation_Target o'),
             ''attempt'' \<mapsto> Observation_AttemptID o', ''revision'' \<mapsto> show_int (Observation_RunRevision o'),
             ''progress'' \<mapsto> ProgressState_text (Observation_Progress o'))
      in if Terminal (Observation_Progress o')
         then noted_pairs(''result'' \<mapsto> ''t3-steward task result '' @ NodeRef_RunID (Observation_Target o')) else noted_pairs)"

end
