(* ===== verification/Dag.thy ===== *)
theory Dag
  imports Nodes
begin

text \<open>
  Deterministic progress of one workflow run (\<open>internal/backlog/dag.go\<close> and
  \<open>internal/backlog/fix_loop.go\<close>): validation and indexing of the task graph, the transitions
  of attempts, the refresh that releases dependencies and skips verdict branches, and the
  projection of the run's progress.

  \<open>DAGExecution\<close> keeps the index maps of the code: a Go map that is ranged over is an
  association list, one that is only looked up a function, and a missing key of an index map
  reads as 0. Pointers into \<open>state.Attempts\<close> are indices into the list. That every index the
  code uses is in range is an invariant of \<open>DagSpec\<close>. The loops whose end the code leaves to
  the data take a fuel that the lemmas there show to be enough.
\<close>

section \<open>State\<close>

record DAGState =
  State_External :: "string \<rightharpoonup> NodeObservation"
  State_Run :: WorkflowRun
  State_Tasks :: "Task list"
  State_Attempts :: "Attempt list"

record CompletionResult =
  Result_ExplicitSuccess :: bool
  Result_VerificationPassed :: bool
  Result_Failure :: string

record DAGExecution =
  Exec_state :: DAGState
  Exec_taskByID :: "string \<rightharpoonup> nat"
  Exec_taskByName :: "(string \<times> nat) list"
  Exec_attempts :: "string \<Rightarrow> nat list"

abbreviation tasks_of :: "DAGExecution \<Rightarrow> Task list" where
  "tasks_of e \<equiv> State_Tasks (Exec_state e)"

abbreviation attempts_of :: "DAGExecution \<Rightarrow> Attempt list" where
  "attempts_of e \<equiv> State_Attempts (Exec_state e)"

abbreviation run_of :: "DAGExecution \<Rightarrow> WorkflowRun" where
  "run_of e \<equiv> State_Run (Exec_state e)"

definition set_attempt :: "nat \<Rightarrow> (Attempt \<Rightarrow> Attempt) \<Rightarrow> DAGExecution \<Rightarrow> DAGExecution" where
  "set_attempt i f e =
     e\<lparr>Exec_state := (Exec_state e)\<lparr>State_Attempts := (attempts_of e)[i := f (attempts_of e ! i)]\<rparr>\<rparr>"

definition set_run :: "(WorkflowRun \<Rightarrow> WorkflowRun) \<Rightarrow> DAGExecution \<Rightarrow> DAGExecution" where
  "set_run f e = e\<lparr>Exec_state := (Exec_state e)\<lparr>State_Run := f (run_of e)\<rparr>\<rparr>"

section \<open>Lookups\<close>

definition task_named :: "DAGExecution \<Rightarrow> string \<Rightarrow> Task" where
  "task_named e name = tasks_of e ! (case map_of (Exec_taskByName e) name of Some i \<Rightarrow> i | None \<Rightarrow> 0)"

definition taskSucceeded :: "DAGExecution \<Rightarrow> string \<Rightarrow> bool" where
  "taskSucceeded e taskID =
     list_ex (\<lambda>index. Attempt_Progress (attempts_of e ! index) = ProgressSucceeded) (Exec_attempts e taskID)"

definition currentAttemptIndex :: "DAGExecution \<Rightarrow> string \<Rightarrow> nat" where
  "currentAttemptIndex e taskID = (let indexes = Exec_attempts e taskID in indexes ! (length indexes - 1))"

definition current_attempt :: "DAGExecution \<Rightarrow> string \<Rightarrow> Attempt" where
  "current_attempt e taskID = attempts_of e ! currentAttemptIndex e taskID"

fun find_attempt :: "string \<Rightarrow> nat \<Rightarrow> Attempt list \<Rightarrow> nat option" where
  "find_attempt i index [] = None"
| "find_attempt i index (a # attempts) =
     (if Attempt_ID a = i then Some index else find_attempt i (Suc index) attempts)"

definition attemptIndex :: "DAGExecution \<Rightarrow> string \<Rightarrow> nat go_result" where
  "attemptIndex e i =
     (case find_attempt i 0 (attempts_of e) of
        Some index \<Rightarrow> Inr index
      | None \<Rightarrow> Inl (Errorf ''unknown attempt %q'' [i]))"

section \<open>Validation\<close>

fun index_tasks ::
  "string \<Rightarrow> nat \<Rightarrow> (string \<rightharpoonup> nat) \<Rightarrow> (string \<times> nat) list \<Rightarrow> Task list \<Rightarrow>
   ((string \<rightharpoonup> nat) \<times> (string \<times> nat) list) go_result" where
  "index_tasks workflowID index byID byName [] = Inr (byID, byName)"
| "index_tasks workflowID index byID byName (task # tasks) =
     (if Task_ID task = '''' \<or> Task_Name task = ''''
      then Inl (Errorf ''task at index %d has an empty ID or name'' [show_int (int index)])
      else if Task_WorkflowID task \<noteq> workflowID
      then Inl (Errorf ''task %q belongs to workflow %q, want %q'' [Task_Name task, Task_WorkflowID task, workflowID])
      else if byID (Task_ID task) \<noteq> None
      then Inl (Errorf ''duplicate task ID %q'' [Task_ID task])
      else if map_of byName (Task_Name task) \<noteq> None
      then Inl (Errorf ''duplicate task name %q'' [Task_Name task])
      else index_tasks workflowID (Suc index) (byID(Task_ID task \<mapsto> index))
             (AList.update (Task_Name task) index byName) tasks)"

fun check_needs :: "(string \<times> nat) list \<Rightarrow> Task \<Rightarrow> string list \<Rightarrow> string list \<Rightarrow> string list go_result" where
  "check_needs byName task seen [] = Inr seen"
| "check_needs byName task seen (dependency # needs) =
     (if dependency = Task_Name task
      then Inl (Errorf ''task %q depends on itself'' [Task_Name task])
      else if map_of byName dependency = None
      then Inl (Errorf ''task %q needs missing task %q'' [Task_Name task, dependency])
      else if dependency \<in> set seen
      then Inl (Errorf ''task %q repeats dependency %q'' [Task_Name task, dependency])
      else check_needs byName task (dependency # seen) needs)"

text \<open>The code ranges over the verdict conditions in no particular order; the model takes the
  order of the association list, which decides only which of several errors is reported.\<close>

fun check_verdicts :: "DAGExecution \<Rightarrow> Task \<Rightarrow> string list \<Rightarrow> (string \<times> string) list \<Rightarrow> go_error option" where
  "check_verdicts e task seen [] = None"
| "check_verdicts e task seen ((producer, verdict) # conditions) =
     (if producer \<notin> set seen
      then Some (Errorf ''task %s verdict producer %s is not a dependency'' [Task_Name task, producer])
      else if verdict \<noteq> ''accept'' \<and> verdict \<noteq> ''changes-requested''
      then Some (Errorf ''task %s has invalid verdict condition %q'' [Task_Name task, verdict])
      else if Task_ReviewOutput (task_named e producer) = None
      then Some (Errorf ''task %s verdict producer %s has no review output'' [Task_Name task, producer])
      else check_verdicts e task seen conditions)"

fun check_tasks :: "DAGExecution \<Rightarrow> Task list \<Rightarrow> go_error option" where
  "check_tasks e [] = None"
| "check_tasks e (task # tasks) =
     (case check_needs (Exec_taskByName e) task [] (Task_Needs task) of
        Inl err \<Rightarrow> Some err
      | Inr seen \<Rightarrow>
          (case check_verdicts e task seen (Task_NeedsVerdict task) of
             Some err \<Rightarrow> Some err
           | None \<Rightarrow> check_tasks e tasks))"

text \<open>The depth-first search of \<open>validateAcyclic\<close>; \<open>None\<close> is running out of fuel.\<close>

datatype visit_state = Unvisited | Visiting | Visited

fun visit :: "nat \<Rightarrow> DAGExecution \<Rightarrow> (string \<Rightarrow> visit_state) \<Rightarrow> string list \<Rightarrow>
    ((string \<Rightarrow> visit_state) go_result) option" where
  "visit fuel e state [] = Some (Inr state)"
| "visit 0 e state (name # names) = None"
| "visit (Suc fuel) e state (name # names) =
     (case state name of
        Visiting \<Rightarrow> Some (Inl (Errorf ''workflow graph contains a cycle at task %q'' [name]))
      | Visited \<Rightarrow> visit (Suc fuel) e state names
      | Unvisited \<Rightarrow>
          (case visit fuel e (state(name := Visiting)) (sort_strings (Task_Needs (task_named e name))) of
             None \<Rightarrow> None
           | Some (Inl err) \<Rightarrow> Some (Inl err)
           | Some (Inr state') \<Rightarrow> visit (Suc fuel) e (state'(name := Visited)) names))"

definition validateAcyclic :: "DAGExecution \<Rightarrow> (go_error option) option" where
  "validateAcyclic e =
     (case visit (Suc (length (Exec_taskByName e))) e (\<lambda>_. Unvisited) (sort_strings (map fst (Exec_taskByName e))) of
        None \<Rightarrow> None
      | Some (Inl err) \<Rightarrow> Some (Some err)
      | Some (Inr _) \<Rightarrow> Some None)"

fun index_attempts ::
  "DAGExecution \<Rightarrow> nat \<Rightarrow> string list \<Rightarrow> (string \<times> int) list \<Rightarrow> (string \<Rightarrow> nat list) \<Rightarrow> Attempt list \<Rightarrow>
   (string \<Rightarrow> nat list) go_result" where
  "index_attempts e index ids numbers byTask [] = Inr byTask"
| "index_attempts e index ids numbers byTask (attempt # attempts) =
     (if Attempt_ID attempt = ''''
      then Inl (Errorf ''attempt at index %d has an empty ID'' [show_int (int index)])
      else if Attempt_ID attempt \<in> set ids
      then Inl (Errorf ''duplicate attempt ID %q'' [Attempt_ID attempt])
      else if Attempt_WorkflowRunID attempt \<noteq> Run_ID (run_of e)
      then Inl (Errorf ''attempt %q belongs to run %q, want %q''
                  [Attempt_ID attempt, Attempt_WorkflowRunID attempt, Run_ID (run_of e)])
      else if Exec_taskByID e (Attempt_TaskID attempt) = None
      then Inl (Errorf ''attempt %q refers to missing task %q'' [Attempt_ID attempt, Attempt_TaskID attempt])
      else if Attempt_Number attempt < 1
      then Inl (Errorf ''attempt %q has invalid number %d'' [Attempt_ID attempt, show_int (Attempt_Number attempt)])
      else if (Attempt_TaskID attempt, Attempt_Number attempt) \<in> set numbers
      then Inl (Errorf ''task %q has duplicate attempt number %d''
                  [Attempt_TaskID attempt, show_int (Attempt_Number attempt)])
      else index_attempts e (Suc index) (Attempt_ID attempt # ids)
             ((Attempt_TaskID attempt, Attempt_Number attempt) # numbers)
             (byTask(Attempt_TaskID attempt := byTask (Attempt_TaskID attempt) @ [index])) attempts)"

fun order_attempts :: "DAGExecution \<Rightarrow> (string \<Rightarrow> nat list) \<Rightarrow> Task list \<Rightarrow> (string \<Rightarrow> nat list) go_result" where
  "order_attempts e byTask [] = Inr byTask"
| "order_attempts e byTask (task # tasks) =
     (if byTask (Task_ID task) = []
      then Inl (Errorf ''task %q has no attempt'' [Task_Name task])
      else order_attempts e
             (byTask(Task_ID task := sort_less
                (\<lambda>i j. Attempt_Number (attempts_of e ! i) < Attempt_Number (attempts_of e ! j))
                (byTask (Task_ID task)))) tasks)"

definition indexAndValidate :: "DAGExecution \<Rightarrow> DAGExecution go_result option" where
  "indexAndValidate e =
     (if Run_ID (run_of e) = '''' \<or> Run_WorkflowID (run_of e) = ''''
      then Some (Inl (Errorf ''workflow run ID and workflow ID are required'' []))
      else (case index_tasks (Run_WorkflowID (run_of e)) 0 Map.empty [] (tasks_of e) of
        Inl err \<Rightarrow> Some (Inl err)
      | Inr (byID, byName) \<Rightarrow>
          let e1 = e\<lparr>Exec_taskByID := byID, Exec_taskByName := byName\<rparr> in
          (case check_tasks e1 (tasks_of e1) of
             Some err \<Rightarrow> Some (Inl err)
           | None \<Rightarrow>
               (case validateAcyclic e1 of
                  None \<Rightarrow> None
                | Some (Some err) \<Rightarrow> Some (Inl err)
                | Some None \<Rightarrow>
                    (case index_attempts e1 0 [] [] (\<lambda>_. []) (attempts_of e1) of
                       Inl err \<Rightarrow> Some (Inl err)
                     | Inr byTask \<Rightarrow>
                         (case order_attempts e1 byTask (tasks_of e1) of
                            Inl err \<Rightarrow> Some (Inl err)
                          | Inr ordered \<Rightarrow> Some (Inr (e1\<lparr>Exec_attempts := ordered\<rparr>))))))))"

section \<open>Refresh\<close>

text \<open>Why an unstarted task will not run, from the current attempt of each need in turn: the
  last need that decides wins.\<close>

definition branch_decision :: "Task \<Rightarrow> string \<Rightarrow> Attempt \<Rightarrow> string \<Rightarrow> string" where
  "branch_decision task need prior reason =
     (if Attempt_Progress prior = ProgressSkipped \<and> Attempt_Failure prior = VerdictBranchSkipped
      then VerdictBranchSkipped
      else if (case (map_of (Task_NeedsVerdict task) need, Attempt_ReviewVerdict prior) of
                 (Some expected, Some v) \<Rightarrow>
                   Attempt_Progress prior = ProgressSucceeded \<and> Verdict_Verdict v \<noteq> expected
               | _ \<Rightarrow> False)
      then VerdictBranchSkipped
      else if Task_FixLoop task \<noteq> None \<and> Terminal (Attempt_Progress prior)
              \<and> Attempt_Progress prior \<noteq> ProgressSucceeded
      then ''fix loop stopped by unsuccessful dependency''
      else reason)"

definition branch_reason :: "DAGExecution \<Rightarrow> Task \<Rightarrow> string" where
  "branch_reason e task =
     fold (\<lambda>need. branch_decision task need (current_attempt e (Task_ID (task_named e need))))
       (Task_Needs task) ''''"

definition skip_branch :: "instant \<Rightarrow> string \<Rightarrow> Attempt \<Rightarrow> Attempt" where
  "skip_branch now reason a =
     (let b = a\<lparr>Attempt_Progress := ProgressSkipped, Attempt_Control := ControlStopped, Attempt_Failure := reason\<rparr>
      in if \<not> is_zero_time now then b\<lparr>Attempt_UpdatedAt := now, Attempt_CompletedAt := Some now\<rparr> else b)"

definition verdict_task :: "instant \<Rightarrow> Task \<Rightarrow> DAGExecution \<times> bool \<Rightarrow> DAGExecution \<times> bool" where
  "verdict_task now task st =
     (let (e, changed) = st; i = currentAttemptIndex e (Task_ID task); attempt = attempts_of e ! i in
      if Attempt_AssignmentID attempt \<noteq> ''''
         \<or> (Attempt_Progress attempt \<noteq> ProgressBlocked \<and> Attempt_Progress attempt \<noteq> ProgressReady)
      then (e, changed)
      else let reason = branch_reason e task in
        if reason \<noteq> '''' then (set_attempt i (skip_branch now reason) e, True) else (e, changed))"

definition verdict_pass :: "instant \<Rightarrow> DAGExecution \<Rightarrow> DAGExecution \<times> bool" where
  "verdict_pass now e = fold (verdict_task now) (tasks_of e) (e, False)"

fun verdict_loop :: "nat \<Rightarrow> instant \<Rightarrow> DAGExecution \<Rightarrow> DAGExecution" where
  "verdict_loop 0 now e = e"
| "verdict_loop (Suc fuel) now e =
     (let (e', changed) = verdict_pass now e in if changed then verdict_loop fuel now e' else e')"

definition refreshVerdictBranches :: "instant \<Rightarrow> DAGExecution \<Rightarrow> DAGExecution" where
  "refreshVerdictBranches now e = verdict_loop (Suc (length (attempts_of e))) now e"

definition verdictSatisfied :: "DAGExecution \<Rightarrow> Task \<Rightarrow> Task \<Rightarrow> bool" where
  "verdictSatisfied e task dependency =
     (case map_of (Task_NeedsVerdict task) (Task_Name dependency) of
        None \<Rightarrow> True
      | Some expected \<Rightarrow>
          let a = current_attempt e (Task_ID dependency) in
          (case Attempt_ReviewVerdict a of
             None \<Rightarrow> False
           | Some v \<Rightarrow> Attempt_Progress a = ProgressSucceeded \<and> Verdict_Verdict v = expected))"

definition dependency_met :: "DAGExecution \<Rightarrow> Task \<Rightarrow> string \<Rightarrow> bool" where
  "dependency_met e task dependency =
     (let dependencyTask = task_named e dependency;
          terminalLens = (Task_ReviewJudge task
            \<and> Terminal (Attempt_Progress (current_attempt e (Task_ID dependencyTask))))
      in (taskSucceeded e (Task_ID dependencyTask) \<or> terminalLens) \<and> verdictSatisfied e task dependencyTask)"

definition external_met :: "DAGExecution \<Rightarrow> NodeRef \<Rightarrow> bool" where
  "external_met e ref =
     (case State_External (Exec_state e) (NodeRef_String ref) of
        None \<Rightarrow> False
      | Some obs \<Rightarrow> Observation_ExitCode obs = 0)"

definition task_blockers :: "DAGExecution \<Rightarrow> Task \<Rightarrow> string list" where
  "task_blockers e task = sort_strings
     (filter (\<lambda>d. \<not> dependency_met e task d) (Task_Needs task) @
      map NodeRef_String (filter (\<lambda>r. \<not> external_met e r) (Task_ExternalNeeds task)))"

definition release_attempt :: "string list \<Rightarrow> Attempt \<Rightarrow> Attempt" where
  "release_attempt blockers a =
     (if length blockers = 0 then a\<lparr>Attempt_Progress := ProgressReady, Attempt_Failure := ''''\<rparr>
      else a\<lparr>Attempt_Progress := ProgressBlocked,
             Attempt_Failure := ''waiting for dependencies: '' @ join_str '', '' blockers\<rparr>)"

definition refresh_task :: "Task \<Rightarrow> DAGExecution \<Rightarrow> DAGExecution" where
  "refresh_task task e =
     (if taskSucceeded e (Task_ID task) then e
      else let i = currentAttemptIndex e (Task_ID task); attempt = attempts_of e ! i in
        if Attempt_Progress attempt \<noteq> ProgressBlocked \<and> Attempt_Progress attempt \<noteq> ProgressReady then e
        else set_attempt i (release_attempt (task_blockers e task)) e)"

text \<open>A task that no longer counts against the run: succeeded, or a verdict branch not taken.\<close>

definition task_done :: "DAGExecution \<Rightarrow> Task \<Rightarrow> bool" where
  "task_done e task \<longleftrightarrow>
     taskSucceeded e (Task_ID task)
     \<or> (Attempt_Progress (current_attempt e (Task_ID task)) = ProgressSkipped
        \<and> Attempt_Failure (current_attempt e (Task_ID task)) = VerdictBranchSkipped)"

definition runProgress :: "DAGExecution \<Rightarrow> ProgressState" where
  "runProgress e =
     (let open = filter (\<lambda>task. \<not> task_done e task) (tasks_of e);
          any = (\<lambda>ps. list_ex (\<lambda>task. Attempt_Progress (current_attempt e (Task_ID task)) \<in> ps) open);
          exhausted = list_ex Summary_Exhausted (SummarizeFixLoops (tasks_of e) (attempts_of e));
          allSucceeded = (length (tasks_of e) \<noteq> 0 \<and> open = [] \<and> \<not> exhausted)
      in if allSucceeded then ProgressSucceeded
         else if any {ProgressActive, ProgressVerifying, ProgressWaitingExternal} then ProgressActive
         else if any {ProgressReady, ProgressQueued} then ProgressReady
         else if any {ProgressNeedsInput} then ProgressNeedsInput
         else if any {ProgressFailed} \<or> exhausted then ProgressFailed
         else if any {ProgressCancelled} then ProgressCancelled
         else if any {ProgressSkipped} then ProgressSkipped
         else ProgressBlocked)"

definition run_sink_final :: "DAGExecution \<Rightarrow> bool" where
  "run_sink_final e = (case Run_Sink (run_of e) of None \<Rightarrow> False | Some sink \<Rightarrow> Terminal (Sink_Progress sink))"

definition refresh :: "instant \<Rightarrow> bool \<Rightarrow> DAGExecution \<Rightarrow> DAGExecution" where
  "refresh now touch e0 =
     (let e1 = refreshVerdictBranches now e0;
          e = fold refresh_task (tasks_of e1) e1;
          progress0 = runProgress e
      in if run_sink_final e then e
         else
           let progress = (if Run_Sink (run_of e) \<noteq> None \<and> Terminal progress0 then ProgressActive else progress0);
               touched = (\<lambda>run. if touch then run\<lparr>Run_Revision := wrap64 (Run_Revision run + 1), Run_UpdatedAt := now\<rparr>
                                else run);
               completed = (\<lambda>run. if Terminal progress
                                   then (if touch then run\<lparr>Run_CompletedAt := Some now\<rparr> else run)
                                   else run\<lparr>Run_CompletedAt := None\<rparr>)
           in set_run (\<lambda>run. completed (touched (run\<lparr>Run_Progress := progress\<rparr>))) e)"

section \<open>Operations\<close>

definition cloneDAGState :: "DAGState \<Rightarrow> DAGState" where
  "cloneDAGState state =
     state\<lparr>State_Run := (State_Run state)\<lparr>Run_Sink := CloneSink (Run_Sink (State_Run state))\<rparr>\<rparr>"

definition NewDAGExecution :: "DAGState \<Rightarrow> DAGExecution go_result option" where
  "NewDAGExecution state =
     (case indexAndValidate
        \<lparr>Exec_state = cloneDAGState state, Exec_taskByID = Map.empty, Exec_taskByName = [], Exec_attempts = (\<lambda>_. [])\<rparr> of
        None \<Rightarrow> None
      | Some (Inl err) \<Rightarrow> Some (Inl err)
      | Some (Inr e) \<Rightarrow> Some (Inr (refresh 0 False e)))"

definition task_less :: "Task \<Rightarrow> Task \<Rightarrow> bool" where
  "task_less a b =
     (if Task_Name a = Task_Name b then Task_ID a < Task_ID b else Task_Name a < Task_Name b)"

definition attempt_less :: "Attempt \<Rightarrow> Attempt \<Rightarrow> bool" where
  "attempt_less left right =
     (if Attempt_TaskID left = Attempt_TaskID right
      then (if Attempt_Number left = Attempt_Number right then Attempt_ID left < Attempt_ID right
            else Attempt_Number left < Attempt_Number right)
      else Attempt_TaskID left < Attempt_TaskID right)"

definition Snapshot :: "DAGExecution \<Rightarrow> DAGState" where
  "Snapshot e =
     (let state = cloneDAGState (Exec_state e)
      in state\<lparr>State_Tasks := sort_less task_less (State_Tasks state),
               State_Attempts := sort_less attempt_less (State_Attempts state)\<rparr>)"

definition StartAttempt :: "string \<Rightarrow> instant \<Rightarrow> DAGExecution \<Rightarrow> DAGExecution go_result" where
  "StartAttempt attemptID now e =
     (case attemptIndex e attemptID of
        Inl err \<Rightarrow> Inl err
      | Inr index \<Rightarrow>
          let attempt = attempts_of e ! index in
          if Attempt_Progress attempt \<noteq> ProgressReady
          then Inl (Errorf ''start attempt %q: progress is %q, want %q''
                      [attemptID, ProgressState_text (Attempt_Progress attempt), ProgressState_text ProgressReady])
          else Inr (refresh now True (set_attempt index
                 (\<lambda>a. a\<lparr>Attempt_Progress := ProgressActive, Attempt_Control := ControlRunning,
                        Attempt_StartedAt := Some now, Attempt_UpdatedAt := now\<rparr>) e)))"

definition firstNonEmpty :: "string \<Rightarrow> string \<Rightarrow> string" where
  "firstNonEmpty value fallback = (if value \<noteq> '''' then value else fallback)"

definition complete_attempt :: "CompletionResult \<Rightarrow> instant \<Rightarrow> Attempt \<Rightarrow> Attempt" where
  "complete_attempt result now a =
     (let b = a\<lparr>Attempt_Control := ControlStopped, Attempt_UpdatedAt := now, Attempt_CompletedAt := Some now\<rparr>
      in if \<not> Result_ExplicitSuccess result
         then b\<lparr>Attempt_Progress := ProgressFailed,
                Attempt_Failure := firstNonEmpty (Result_Failure result) ''missing explicit success''\<rparr>
         else if \<not> Result_VerificationPassed result
         then b\<lparr>Attempt_Progress := ProgressFailed,
                Attempt_Failure := firstNonEmpty (Result_Failure result) ''verification failed''\<rparr>
         else b\<lparr>Attempt_Progress := ProgressSucceeded, Attempt_Failure := ''''\<rparr>)"

definition CompleteAttempt :: "string \<Rightarrow> CompletionResult \<Rightarrow> instant \<Rightarrow> DAGExecution \<Rightarrow> DAGExecution go_result" where
  "CompleteAttempt attemptID result now e =
     (case attemptIndex e attemptID of
        Inl err \<Rightarrow> Inl err
      | Inr index \<Rightarrow>
          let attempt = attempts_of e ! index in
          if Attempt_Progress attempt \<noteq> ProgressActive \<and> Attempt_Progress attempt \<noteq> ProgressVerifying
          then Inl (Errorf ''complete attempt %q: progress is %q, want active or verifying''
                      [attemptID, ProgressState_text (Attempt_Progress attempt)])
          else Inr (refresh now True (set_attempt index (complete_attempt result now) e)))"

definition descend_task :: "Task \<Rightarrow> string list \<times> bool \<Rightarrow> string list \<times> bool" where
  "descend_task task st =
     (let (selected, changed) = st in
      if Task_Name task \<in> set selected then (selected, changed)
      else if list_ex (\<lambda>dependency. dependency \<in> set selected) (Task_Needs task)
      then (Task_Name task # selected, True)
      else (selected, changed))"

fun descend_loop :: "nat \<Rightarrow> Task list \<Rightarrow> string list \<Rightarrow> string list" where
  "descend_loop 0 tasks selected = selected"
| "descend_loop (Suc fuel) tasks selected =
     (let (selected', changed) = fold descend_task tasks (selected, False)
      in if changed then descend_loop fuel tasks selected' else selected')"

definition descendantNames :: "DAGExecution \<Rightarrow> string \<Rightarrow> string list" where
  "descendantNames e name = sort_strings (descend_loop (Suc (length (tasks_of e))) (tasks_of e) [name])"

definition stop_attempt :: "ProgressState \<Rightarrow> instant \<Rightarrow> Attempt \<Rightarrow> Attempt" where
  "stop_attempt p now a =
     a\<lparr>Attempt_Progress := p, Attempt_Control := ControlStopped, Attempt_UpdatedAt := now,
       Attempt_CompletedAt := Some now, Attempt_Failure := ''''\<rparr>"

definition cancel_named :: "instant \<Rightarrow> string \<Rightarrow> DAGExecution \<times> bool \<Rightarrow> DAGExecution \<times> bool" where
  "cancel_named now name st =
     (let (e, changed) = st; i = currentAttemptIndex e (Task_ID (task_named e name)); attempt = attempts_of e ! i in
      if Attempt_Progress attempt = ProgressSucceeded \<or> Terminal (Attempt_Progress attempt) then (e, changed)
      else (set_attempt i (stop_attempt ProgressCancelled now) e, True))"

definition sink_is_final :: go_error where
  "sink_is_final = Errorf ''run sink is final; submit a new workflow'' []"

definition CancelTask :: "string \<Rightarrow> instant \<Rightarrow> DAGExecution \<Rightarrow> DAGExecution go_result" where
  "CancelTask taskID now e =
     (if run_sink_final e then Inl sink_is_final
      else (case Exec_taskByID e taskID of
        None \<Rightarrow> Inl (Errorf ''cancel task %q: unknown task'' [taskID])
      | Some taskIndex \<Rightarrow>
          let names = descendantNames e (Task_Name (tasks_of e ! taskIndex));
              (e', changed) = fold (cancel_named now) names (e, False)
          in if \<not> changed
             then Inl (Errorf ''cancel task %q: task and descendants are already terminal'' [taskID])
             else Inr (refresh now True e')))"

definition SkipTask :: "string \<Rightarrow> instant \<Rightarrow> DAGExecution \<Rightarrow> DAGExecution go_result" where
  "SkipTask taskID now e =
     (if run_sink_final e then Inl sink_is_final
      else (case Exec_taskByID e taskID of
        None \<Rightarrow> Inl (Errorf ''skip task %q: unknown task'' [taskID])
      | Some taskIndex \<Rightarrow>
          let i = currentAttemptIndex e (Task_ID (tasks_of e ! taskIndex)); attempt = attempts_of e ! i in
          if Attempt_Progress attempt = ProgressSucceeded \<or> Attempt_Progress attempt = ProgressSkipped
          then Inl (Errorf ''skip task %q: progress is %q'' [taskID, ProgressState_text (Attempt_Progress attempt)])
          else Inr (refresh now True (set_attempt i (stop_attempt ProgressSkipped now) e))))"

definition retry_attempt :: "DAGExecution \<Rightarrow> string \<Rightarrow> string \<Rightarrow> int \<Rightarrow> instant \<Rightarrow> Attempt" where
  "retry_attempt e taskID attemptID number now =
     zero_Attempt\<lparr>Attempt_ID := attemptID, Attempt_WorkflowRunID := Run_ID (run_of e), Attempt_TaskID := taskID,
       Attempt_Number := number, Attempt_Progress := ProgressBlocked, Attempt_Control := ControlUnassigned,
       Attempt_UpdatedAt := now\<rparr>"

definition RetryTask :: "string \<Rightarrow> string \<Rightarrow> instant \<Rightarrow> DAGExecution \<Rightarrow> DAGExecution go_result" where
  "RetryTask taskID attemptID now e =
     (if run_sink_final e then Inl sink_is_final
      else (case Exec_taskByID e taskID of
        None \<Rightarrow> Inl (Errorf ''retry task %q: unknown task'' [taskID])
      | Some taskIndex \<Rightarrow>
          if attemptID = '''' then Inl (Errorf ''retry task %q: empty attempt ID'' [taskID])
          else if (case attemptIndex e attemptID of Inr _ \<Rightarrow> True | Inl _ \<Rightarrow> False)
          then Inl (Errorf ''retry task %q: duplicate attempt ID %q'' [taskID, attemptID])
          else if Task_FixLoop (tasks_of e ! taskIndex) \<noteq> None
          then Inl (Errorf ''fix loop retries require campaign rerun from %s so stopped descendants get fresh attempts''
                      [Task_Name (tasks_of e ! taskIndex)])
          else
            let current = current_attempt e taskID in
            if Attempt_Progress current \<noteq> ProgressFailed \<and> Attempt_Progress current \<noteq> ProgressCancelled
            then Inl (Errorf ''retry task %q: progress is %q, want failed or cancelled''
                        [taskID, ProgressState_text (Attempt_Progress current)])
            else
              let attempt = retry_attempt e (Task_ID (tasks_of e ! taskIndex)) attemptID
                              (wrap64 (Attempt_Number current + 1)) now;
                  e1 = e\<lparr>Exec_state := (Exec_state e)\<lparr>State_Attempts := attempts_of e @ [attempt]\<rparr>\<rparr>;
                  index = length (attempts_of e1) - 1
              in Inr (refresh now True
                   (e1\<lparr>Exec_attempts := (Exec_attempts e1)(taskID := Exec_attempts e1 taskID @ [index])\<rparr>))))"

end
