(* ===== verification/DagSpec.thy ===== *)
theory DagSpec
  imports Dag
begin

text \<open>
  What the workflow execution promises. \<open>dag_wf\<close> is the invariant of \<open>DAGExecution\<close>: the index
  maps describe the tasks and attempts, the dependency graph is closed and acyclic, and every
  task has attempts ordered by number, so that no index the code computes is out of range. The
  depth-first search decides acyclicity, and the two fuelled loops reach their fixed points.
\<close>

named_theorems dag_simps \<open>selectors of updated executions\<close>

section \<open>The dependency graph\<close>

definition needs_rel :: "Task list \<Rightarrow> (string \<times> string) set" where
  "needs_rel tasks = {(Task_Name t, d) | t d. t \<in> set tasks \<and> d \<in> set (Task_Needs t)}"

definition index_ok :: "DAGExecution \<Rightarrow> bool" where
  "index_ok e \<longleftrightarrow>
     distinct (map Task_ID (tasks_of e)) \<and> distinct (map Task_Name (tasks_of e)) \<and>
     (\<forall>i k. Exec_taskByID e i = Some k \<longleftrightarrow> k < length (tasks_of e) \<and> Task_ID (tasks_of e ! k) = i) \<and>
     (\<forall>n k. map_of (Exec_taskByName e) n = Some k \<longleftrightarrow> k < length (tasks_of e) \<and> Task_Name (tasks_of e ! k) = n) \<and>
     map fst (Exec_taskByName e) = map Task_Name (tasks_of e)"

definition needs_closed :: "DAGExecution \<Rightarrow> bool" where
  "needs_closed e \<longleftrightarrow> (\<forall>t \<in> set (tasks_of e). set (Task_Needs t) \<subseteq> Task_Name ` set (tasks_of e))"

lemma task_named_eq:
  assumes "index_ok e" and "t \<in> set (tasks_of e)"
  shows "task_named e (Task_Name t) = t"
proof -
  from assms(2) obtain k where k: "k < length (tasks_of e)" "tasks_of e ! k = t"
    by (auto simp: in_set_conv_nth)
  with assms(1) have "map_of (Exec_taskByName e) (Task_Name t) = Some k" by (auto simp: index_ok_def)
  with k show ?thesis by (simp add: task_named_def)
qed

lemma task_named_in:
  assumes "index_ok e" and "n \<in> Task_Name ` set (tasks_of e)"
  shows "task_named e n \<in> set (tasks_of e)" and "Task_Name (task_named e n) = n"
  using assms task_named_eq by auto

lemma needs_rel_task:
  assumes "index_ok e" and "n \<in> Task_Name ` set (tasks_of e)"
  shows "(n, d) \<in> needs_rel (tasks_of e) \<longleftrightarrow> d \<in> set (Task_Needs (task_named e n))"
  using assms task_named_eq [OF assms(1)] by (auto simp: needs_rel_def)

section \<open>The depth-first search\<close>

definition visiting :: "(string \<Rightarrow> visit_state) \<Rightarrow> string set" where
  "visiting state = {v. state v = Visiting}"

abbreviation node_names :: "DAGExecution \<Rightarrow> string set" where
  "node_names e \<equiv> Task_Name ` set (tasks_of e)"

lemma needs_in_nodes:
  "index_ok e \<Longrightarrow> needs_closed e \<Longrightarrow> n \<in> node_names e \<Longrightarrow> set (Task_Needs (task_named e n)) \<subseteq> node_names e"
  using task_named_in(1) [of e n] by (simp add: needs_closed_def)

text \<open>The fuel suffices: it bounds the nodes not yet on the current path.\<close>

lemma visit_total:
  "index_ok e \<Longrightarrow> needs_closed e \<Longrightarrow> set names \<subseteq> node_names e \<Longrightarrow> visiting state \<subseteq> node_names e \<Longrightarrow>
     card (node_names e - visiting state) < fuel \<Longrightarrow>
     \<exists>r. visit fuel e state names = Some r \<and> (\<forall>s. r = Inr s \<longrightarrow> visiting s = visiting state)"
proof (induction fuel e state names rule: visit.induct)
  case (3 fuel e state name names)
  note ok = "3.prems"(1,2)
  show ?case
  proof (cases "state name")
    case Visiting
    then show ?thesis by simp
  next
    case Visited
    with "3.IH"(3) "3.prems" show ?thesis by simp
  next
    case Unvisited
    let ?inner = "state(name := Visiting)"
    have inner: "visiting ?inner = insert name (visiting state)" by (auto simp: visiting_def)
    have fresh: "name \<in> node_names e - visiting state"
      using "3.prems"(3) Unvisited by (simp add: visiting_def)
    have "node_names e - visiting ?inner = (node_names e - visiting state) - {name}"
      unfolding inner by blast
    moreover have "finite (node_names e - visiting state)" by simp
    ultimately have "card (node_names e - visiting ?inner) < card (node_names e - visiting state)"
      using fresh by (metis card_Diff1_less)
    with "3.prems"(5) have fuel: "card (node_names e - visiting ?inner) < fuel" by linarith
    have "set (sort_strings (Task_Needs (task_named e name))) \<subseteq> node_names e"
      using needs_in_nodes [OF ok] fresh by simp
    moreover have "visiting ?inner \<subseteq> node_names e"
      using inner fresh "3.prems"(4) by simp
    ultimately obtain r where r: "visit fuel e ?inner (sort_strings (Task_Needs (task_named e name))) = Some r"
      "\<forall>s. r = Inr s \<longrightarrow> visiting s = visiting ?inner"
      using "3.IH"(1) [OF Unvisited ok] fuel by blast
    show ?thesis
    proof (cases r)
      case (Inl err)
      with r Unvisited show ?thesis by simp
    next
      case (Inr s)
      with r(2) have "visiting s = insert name (visiting state)" by (simp add: inner)
      then have restored: "visiting (s(name := Visited)) = visiting state"
        using Unvisited by (auto simp: visiting_def)
      have "set names \<subseteq> node_names e" using "3.prems"(3) by simp
      from "3.IH"(2) [OF Unvisited r(1) Inr ok this, unfolded restored, OF "3.prems"(4,5)]
      show ?thesis using r(1) Inr Unvisited by (simp add: fun_upd_def)
    qed
  qed
qed auto

text \<open>A search that ends without an error has seen only accessible nodes.\<close>

abbreviation settled_node :: "DAGExecution \<Rightarrow> string \<Rightarrow> bool" where
  "settled_node e \<equiv> Wellfounded.accp (\<lambda>d n. (n, d) \<in> needs_rel (tasks_of e))"

lemma visit_sound:
  "index_ok e \<Longrightarrow> needs_closed e \<Longrightarrow> set names \<subseteq> node_names e \<Longrightarrow>
     \<forall>v. state v = Visited \<longrightarrow> settled_node e v \<Longrightarrow> visit fuel e state names = Some (Inr state') \<Longrightarrow>
     (\<forall>v. state' v = Visited \<longrightarrow> settled_node e v) \<and> (\<forall>v. state v = Visited \<longrightarrow> state' v = Visited) \<and>
     (\<forall>v \<in> set names. state' v = Visited)"
proof (induction fuel e state names arbitrary: state' rule: visit.induct)
  case (3 fuel e state name names)
  note ok = "3.prems"(1,2)
  have rest: "set names \<subseteq> node_names e" and name: "name \<in> node_names e" using "3.prems"(3) by auto
  show ?case
  proof (cases "state name")
    case Visiting
    with "3.prems"(5) show ?thesis by simp
  next
    case Visited
    with "3.prems"(5) have "visit (Suc fuel) e state names = Some (Inr state')" by simp
    from "3.IH"(3) [OF Visited ok rest "3.prems"(4) this] Visited show ?thesis by simp
  next
    case Unvisited
    let ?needs = "sort_strings (Task_Needs (task_named e name))"
    from "3.prems"(5) Unvisited obtain s where
      inner: "visit fuel e (state(name := Visiting)) ?needs = Some (Inr s)" and
      outer: "visit (Suc fuel) e (s(name := Visited)) names = Some (Inr state')"
      by (auto split: option.splits sum.splits)
    have needs: "set ?needs \<subseteq> node_names e" using needs_in_nodes [OF ok name] by simp
    have start: "\<forall>v. (state(name := Visiting)) v = Visited \<longrightarrow> settled_node e v"
      using "3.prems"(4) by simp
    note IH = "3.IH"(1) [OF Unvisited ok needs start inner]
    have "settled_node e d" if "(name, d) \<in> needs_rel (tasks_of e)" for d
      using that IH unfolding needs_rel_task [OF ok(1) name] set_sort_less by blast
    then have "settled_node e name" by (rule accp.intros)
    with IH have next_ok: "\<forall>v. (s(name := Visited)) v = Visited \<longrightarrow> settled_node e v" by simp
    note after = "3.IH"(2) [OF Unvisited inner refl ok rest next_ok outer]
    from after have "state' name = Visited" by simp
    moreover have "state' v = Visited" if "state v = Visited" for v
      using that after IH Unvisited by (cases "v = name") simp_all
    ultimately show ?thesis using after by simp
  qed
qed auto

text \<open>In an acyclic graph the search meets no node of its own path.\<close>

lemma visit_complete:
  "index_ok e \<Longrightarrow> needs_closed e \<Longrightarrow> acyclic (needs_rel (tasks_of e)) \<Longrightarrow> set names \<subseteq> node_names e \<Longrightarrow>
     visiting state \<subseteq> node_names e \<Longrightarrow> card (node_names e - visiting state) < fuel \<Longrightarrow>
     \<forall>v \<in> visiting state. \<forall>n \<in> set names. (v, n) \<in> (needs_rel (tasks_of e))\<^sup>+ \<Longrightarrow>
     visit fuel e state names \<noteq> Some (Inl err)"
proof (induction fuel e state names arbitrary: err rule: visit.induct)
  case (3 fuel e state name names)
  note ok = "3.prems"(1,2) and acyclic = "3.prems"(3) and path = "3.prems"(7)
  have rest: "set names \<subseteq> node_names e" and name: "name \<in> node_names e" using "3.prems"(4) by auto
  show ?case
  proof (cases "state name")
    case Visiting
    then have "(name, name) \<in> (needs_rel (tasks_of e))\<^sup>+" using path by (simp add: visiting_def)
    with acyclic show ?thesis by (simp add: acyclic_def)
  next
    case Visited
    then have "visit (Suc fuel) e state names \<noteq> Some (Inl err)"
      using path by (intro "3.IH"(3) [OF Visited ok acyclic rest "3.prems"(5,6)]) simp
    with Visited show ?thesis by simp
  next
    case Unvisited
    let ?inner = "state(name := Visiting)"
    let ?needs = "sort_strings (Task_Needs (task_named e name))"
    have inner: "visiting ?inner = insert name (visiting state)" by (auto simp: visiting_def)
    have "node_names e - visiting ?inner = (node_names e - visiting state) - {name}" unfolding inner by blast
    moreover have "name \<in> node_names e - visiting state" using name Unvisited by (simp add: visiting_def)
    moreover have "finite (node_names e - visiting state)" by simp
    ultimately have "card (node_names e - visiting ?inner) < card (node_names e - visiting state)"
      by (metis card_Diff1_less)
    with "3.prems"(6) have fuel: "card (node_names e - visiting ?inner) < fuel" by linarith
    have needs: "set ?needs \<subseteq> node_names e" using needs_in_nodes [OF ok name] by simp
    have nodes: "visiting ?inner \<subseteq> node_names e" using inner name "3.prems"(5) by simp
    have deeper: "\<forall>v \<in> visiting ?inner. \<forall>d \<in> set ?needs. (v, d) \<in> (needs_rel (tasks_of e))\<^sup>+"
    proof (intro ballI)
      fix v d
      assume that: "v \<in> visiting ?inner" "d \<in> set ?needs"
      have edge: "(name, d) \<in> needs_rel (tasks_of e)" using that(2) needs_rel_task [OF ok(1) name] by simp
      show "(v, d) \<in> (needs_rel (tasks_of e))\<^sup>+"
      proof (cases "v = name")
        case True
        with edge show ?thesis by blast
      next
        case False
        with that(1) inner have "(v, name) \<in> (needs_rel (tasks_of e))\<^sup>+" using path by simp
        from this edge show ?thesis by (rule trancl_into_trancl)
      qed
    qed
    note no_error = "3.IH"(1) [OF Unvisited ok acyclic needs nodes fuel deeper]
    from visit_total [OF ok needs nodes fuel] obtain r where
      r: "visit fuel e ?inner ?needs = Some r" "\<forall>s. r = Inr s \<longrightarrow> visiting s = visiting ?inner" by blast
    from r(1) no_error obtain s where inr: "r = Inr s" by (metis sum.exhaust)
    note s = r(1) [unfolded inr] r(2) [rule_format, OF inr]
    have restored: "visiting (s(name := Visited)) = visiting state"
      using s(2) inner Unvisited by (auto simp: visiting_def)
    have path': "\<forall>v \<in> visiting state. \<forall>n \<in> set names. (v, n) \<in> (needs_rel (tasks_of e))\<^sup>+"
      using path by simp
    have "visit (Suc fuel) e (s(name := Visited)) names \<noteq> Some (Inl err)"
      by (rule "3.IH"(2) [OF Unvisited s(1) refl ok acyclic rest, unfolded restored, OF "3.prems"(5,6) path'])
    with s(1) Unvisited show ?thesis by simp
  qed
qed auto

lemma validateAcyclic_correct:
  assumes "index_ok e" and "needs_closed e"
  shows "\<exists>r. validateAcyclic e = Some r \<and> (r = None \<longleftrightarrow> acyclic (needs_rel (tasks_of e)))"
proof -
  let ?names = "sort_strings (map fst (Exec_taskByName e))" and ?start = "\<lambda>_ :: string. Unvisited"
  have names: "set ?names = node_names e" and len: "length (Exec_taskByName e) = length (tasks_of e)"
    using assms(1) by (metis index_ok_def list.set_map set_sort_less, metis index_ok_def length_map)
  have none: "visiting ?start = {}" by (simp add: visiting_def)
  have fuel: "card (node_names e - visiting ?start) < Suc (length (Exec_taskByName e))"
    unfolding none len by (simp add: card_image_le card_length le_less_trans less_Suc_eq_le order_trans [OF card_image_le])
  obtain r where r: "visit (Suc (length (Exec_taskByName e))) e ?start ?names = Some r"
    using visit_total [OF assms _ _ fuel, of ?names] names none by auto
  show ?thesis
  proof (cases r)
    case (Inl err)
    with visit_complete [OF assms _ _ _ fuel, of ?names err] r names none
    have "\<not> acyclic (needs_rel (tasks_of e))" by auto
    with r Inl show ?thesis by (simp add: validateAcyclic_def)
  next
    case (Inr s)
    have "set ?names \<subseteq> node_names e" using names by simp
    from visit_sound [OF assms this _ r [unfolded Inr]]
    have "(\<forall>v. s v = Visited \<longrightarrow> settled_node e v) \<and> (\<forall>v \<in> set ?names. s v = Visited)" by simp
    then have nodes: "settled_node e n" if "n \<in> node_names e" for n using that unfolding names by blast
    have "settled_node e n" for n
    proof (cases "n \<in> node_names e")
      case False
      then have "(n, d) \<notin> needs_rel (tasks_of e)" for d by (auto simp: needs_rel_def)
      then show ?thesis by (intro accp.intros [of _ n]) simp
    qed (rule nodes)
    then have "wfp (\<lambda>d n. (n, d) \<in> needs_rel (tasks_of e))" by (simp add: wfp_iff_accp)
    then have "wf ((needs_rel (tasks_of e))\<inverse>)" by (simp add: wfp_def converse_unfold)
    then have "acyclic (needs_rel (tasks_of e))" by (metis acyclic_converse wf_acyclic)
    with r Inr show ?thesis by (simp add: validateAcyclic_def)
  qed
qed

section \<open>Indexing\<close>

lemma update_fresh: "k \<notin> fst ` set al \<Longrightarrow> AList.update k v al = al @ [(k, v)]"
  by (induction al) auto

text \<open>The maps describe the list of tasks already indexed.\<close>

definition indexes :: "Task list \<Rightarrow> (string \<rightharpoonup> nat) \<Rightarrow> (string \<times> nat) list \<Rightarrow> bool" where
  "indexes tasks byID byName \<longleftrightarrow>
     distinct (map Task_ID tasks) \<and> distinct (map Task_Name tasks) \<and>
     (\<forall>i k. byID i = Some k \<longleftrightarrow> k < length tasks \<and> Task_ID (tasks ! k) = i) \<and>
     (\<forall>n k. map_of byName n = Some k \<longleftrightarrow> k < length tasks \<and> Task_Name (tasks ! k) = n) \<and>
     map fst byName = map Task_Name tasks"

lemma indexes_snoc:
  assumes "indexes tasks byID byName" and "byID (Task_ID t) = None" and "map_of byName (Task_Name t) = None"
  shows "indexes (tasks @ [t]) (byID(Task_ID t \<mapsto> length tasks)) (AList.update (Task_Name t) (length tasks) byName)"
proof -
  note d = assms(1) [unfolded indexes_def]
  have name: "Task_Name t \<notin> fst ` set byName" using assms(3) by (simp add: map_of_eq_None_iff)
  then have fresh_name: "Task_Name t \<notin> Task_Name ` set tasks" using d by (metis list.set_map)
  have fresh_id: "Task_ID t \<notin> Task_ID ` set tasks"
  proof
    assume "Task_ID t \<in> Task_ID ` set tasks"
    then obtain k where "k < length tasks" "Task_ID (tasks ! k) = Task_ID t" by (auto simp: in_set_conv_nth)
    with d assms(2) show False by (metis option.distinct(1))
  qed
  have other_id: "Task_ID (tasks ! k) \<noteq> Task_ID t" and other_name: "Task_Name (tasks ! k) \<noteq> Task_Name t"
    if "k < length tasks" for k
    using that fresh_id fresh_name by (metis image_eqI nth_mem)+
  have "map_of (AList.update (Task_Name t) (length tasks) byName) = (map_of byName)(Task_Name t \<mapsto> length tasks)"
    by (simp add: update_conv')
  moreover have "(byID(Task_ID t \<mapsto> length tasks)) i = Some k \<longleftrightarrow>
      k < length (tasks @ [t]) \<and> Task_ID ((tasks @ [t]) ! k) = i" for i k
    using d assms(2) other_id by (auto simp: nth_append less_Suc_eq)
  moreover have "((map_of byName)(Task_Name t \<mapsto> length tasks)) n = Some k \<longleftrightarrow>
      k < length (tasks @ [t]) \<and> Task_Name ((tasks @ [t]) ! k) = n" for n k
    using d assms(3) other_name by (auto simp: nth_append less_Suc_eq)
  ultimately show ?thesis
    using d fresh_id fresh_name name by (simp add: indexes_def update_fresh)
qed

lemma index_tasks_ok:
  "index_tasks workflowID (length pre) byID byName tasks = Inr (byID', byName') \<Longrightarrow> indexes pre byID byName \<Longrightarrow>
     indexes (pre @ tasks) byID' byName' \<and>
     (\<forall>t \<in> set tasks. Task_ID t \<noteq> '''' \<and> Task_Name t \<noteq> '''' \<and> Task_WorkflowID t = workflowID)"
proof (induction tasks arbitrary: pre byID byName)
  case (Cons t tasks)
  from Cons.prems(1) have ok: "Task_ID t \<noteq> ''''" "Task_Name t \<noteq> ''''" "Task_WorkflowID t = workflowID"
    and fresh: "byID (Task_ID t) = None" "map_of byName (Task_Name t) = None"
    and rest: "index_tasks workflowID (length (pre @ [t])) (byID(Task_ID t \<mapsto> length pre))
        (AList.update (Task_Name t) (length pre) byName) tasks = Inr (byID', byName')"
    by (simp_all split: if_splits)
  from Cons.IH [OF rest indexes_snoc [OF Cons.prems(2) fresh]] ok show ?case by simp
qed simp

lemma index_ok_indexes: "index_ok e \<longleftrightarrow> indexes (tasks_of e) (Exec_taskByID e) (Exec_taskByName e)"
  by (simp add: index_ok_def indexes_def)

lemma check_needs_Inr:
  "check_needs byName task seen needs = Inr r \<Longrightarrow>
     set needs \<subseteq> fst ` set byName \<and> distinct needs \<and> Task_Name task \<notin> set needs \<and> set r = set needs \<union> set seen \<and>
     set needs \<inter> set seen = {}"
proof (induction byName task seen needs rule: check_needs.induct)
  case (2 byName task seen dependency needs)
  from "2.prems" have ok: "dependency \<noteq> Task_Name task" "map_of byName dependency \<noteq> None" "dependency \<notin> set seen"
    and rest: "check_needs byName task (dependency # seen) needs = Inr r"
    by (simp_all split: if_splits)
  from ok(2) have "dependency \<in> fst ` set byName" by (simp add: map_of_eq_None_iff)
  with "2.IH" [OF ok(1,2) ok(3) rest] ok show ?case by auto
qed simp

lemma check_tasks_None:
  "check_tasks e tasks = None \<Longrightarrow> t \<in> set tasks \<Longrightarrow>
     set (Task_Needs t) \<subseteq> fst ` set (Exec_taskByName e) \<and> Task_Name t \<notin> set (Task_Needs t)"
proof (induction e tasks rule: check_tasks.induct)
  case (2 e task tasks)
  then show ?case
    using check_needs_Inr [of "Exec_taskByName e" task "[]" "Task_Needs task"]
    by (auto split: sum.splits option.splits)
qed simp

section \<open>Attempts\<close>

definition attempts_ok :: "DAGExecution \<Rightarrow> bool" where
  "attempts_ok e \<longleftrightarrow>
     distinct (map Attempt_ID (attempts_of e)) \<and>
     (\<forall>a \<in> set (attempts_of e). Attempt_TaskID a \<in> Task_ID ` set (tasks_of e)) \<and>
     (\<forall>t \<in> set (tasks_of e). Exec_attempts e (Task_ID t) \<noteq> [] \<and>
        set (Exec_attempts e (Task_ID t)) =
          {i. i < length (attempts_of e) \<and> Attempt_TaskID (attempts_of e ! i) = Task_ID t} \<and>
        sorted_wrt (\<lambda>i j. Attempt_Number (attempts_of e ! i) < Attempt_Number (attempts_of e ! j))
          (Exec_attempts e (Task_ID t)))"

lemma index_attempts_Inr:
  "index_attempts e (length pre) ids numbers byTask attempts = Inr r \<Longrightarrow>
     set ids = Attempt_ID ` set pre \<Longrightarrow> distinct (map Attempt_ID pre) \<Longrightarrow>
     set numbers = (\<lambda>a. (Attempt_TaskID a, Attempt_Number a)) ` set pre \<Longrightarrow>
     distinct (map (\<lambda>a. (Attempt_TaskID a, Attempt_Number a)) pre) \<Longrightarrow>
     (\<forall>a \<in> set pre. Exec_taskByID e (Attempt_TaskID a) \<noteq> None) \<Longrightarrow>
     (\<forall>i. byTask i = filter (\<lambda>k. Attempt_TaskID (pre ! k) = i) [0..<length pre]) \<Longrightarrow>
     distinct (map Attempt_ID (pre @ attempts)) \<and>
     distinct (map (\<lambda>a. (Attempt_TaskID a, Attempt_Number a)) (pre @ attempts)) \<and>
     (\<forall>a \<in> set (pre @ attempts). Exec_taskByID e (Attempt_TaskID a) \<noteq> None) \<and>
     (\<forall>i. r i = filter (\<lambda>k. Attempt_TaskID ((pre @ attempts) ! k) = i) [0..<length (pre @ attempts)])"
proof (induction attempts arbitrary: pre ids numbers byTask)
  case (Cons a attempts)
  from Cons.prems(1) have ok: "Attempt_ID a \<notin> set ids" "Exec_taskByID e (Attempt_TaskID a) \<noteq> None"
    "(Attempt_TaskID a, Attempt_Number a) \<notin> set numbers"
    and rest: "index_attempts e (length (pre @ [a])) (Attempt_ID a # ids) ((Attempt_TaskID a, Attempt_Number a) # numbers)
       (byTask(Attempt_TaskID a := byTask (Attempt_TaskID a) @ [length pre])) attempts = Inr r"
    by (simp_all split: if_splits)
  have shift: "filter (\<lambda>k. Attempt_TaskID ((pre @ [a]) ! k) = i) [0..<length pre] =
      filter (\<lambda>k. Attempt_TaskID (pre ! k) = i) [0..<length pre]" for i
    by (rule filter_cong) (simp_all add: nth_append)
  have "distinct (map Attempt_ID ((pre @ [a]) @ attempts)) \<and>
     distinct (map (\<lambda>a. (Attempt_TaskID a, Attempt_Number a)) ((pre @ [a]) @ attempts)) \<and>
     (\<forall>x \<in> set ((pre @ [a]) @ attempts). Exec_taskByID e (Attempt_TaskID x) \<noteq> None) \<and>
     (\<forall>i. r i = filter (\<lambda>k. Attempt_TaskID (((pre @ [a]) @ attempts) ! k) = i) [0..<length ((pre @ [a]) @ attempts)])"
    using Cons.prems ok by (intro Cons.IH [OF rest]) (auto simp: shift)
  then show ?case by simp
qed simp

lemma order_attempts_Inr:
  "order_attempts e byTask tasks = Inr r \<Longrightarrow> distinct (map Task_ID tasks) \<Longrightarrow>
     (\<forall>t \<in> set tasks. byTask (Task_ID t) \<noteq> [] \<and> r (Task_ID t) = sort_less
        (\<lambda>i j. Attempt_Number (attempts_of e ! i) < Attempt_Number (attempts_of e ! j)) (byTask (Task_ID t))) \<and>
     (\<forall>i. i \<notin> Task_ID ` set tasks \<longrightarrow> r i = byTask i)"
proof (induction tasks arbitrary: byTask)
  case (Cons t tasks)
  let ?sorted = "sort_less (\<lambda>i j. Attempt_Number (attempts_of e ! i) < Attempt_Number (attempts_of e ! j))
     (byTask (Task_ID t))"
  from Cons.prems(1) have ne: "byTask (Task_ID t) \<noteq> []"
    and rest: "order_attempts e (byTask(Task_ID t := ?sorted)) tasks = Inr r"
    by (simp_all split: if_splits)
  have fresh: "Task_ID t \<notin> Task_ID ` set tasks" "distinct (map Task_ID tasks)" using Cons.prems(2) by simp_all
  note IH = Cons.IH [OF rest fresh(2)]
  from IH fresh(1) have "r (Task_ID t) = ?sorted" by simp
  moreover have "(byTask(Task_ID t := ?sorted)) (Task_ID t') = byTask (Task_ID t')" if "t' \<in> set tasks" for t'
    using that fresh(1) by (metis fun_upd_other image_eqI)
  ultimately show ?case using IH ne by auto
qed simp

section \<open>What validation accepts\<close>

lemma indexes_None:
  assumes "indexes tasks byID byName"
  shows "byID i = None \<longleftrightarrow> i \<notin> Task_ID ` set tasks" and "map_of byName n = None \<longleftrightarrow> n \<notin> Task_Name ` set tasks"
proof -
  have "byID i \<noteq> None \<longleftrightarrow> (\<exists>k. k < length tasks \<and> Task_ID (tasks ! k) = i)"
    using assms by (metis indexes_def not_None_eq)
  moreover have "i \<in> Task_ID ` set tasks \<longleftrightarrow> (\<exists>k. k < length tasks \<and> Task_ID (tasks ! k) = i)"
    by (metis (no_types, lifting) image_iff in_set_conv_nth)
  ultimately show "byID i = None \<longleftrightarrow> i \<notin> Task_ID ` set tasks" by blast
  have "map fst byName = map Task_Name tasks" using assms by (simp add: indexes_def)
  then show "map_of byName n = None \<longleftrightarrow> n \<notin> Task_Name ` set tasks"
    by (metis list.set_map map_of_eq_None_iff)
qed

lemma strict_if_distinct:
  assumes "sorted_wrt (\<lambda>a b. \<not> lt b a) xs" and "distinct xs"
    and "\<And>x y. x \<in> set xs \<Longrightarrow> y \<in> set xs \<Longrightarrow> \<not> lt x y \<Longrightarrow> \<not> lt y x \<Longrightarrow> x = y"
  shows "sorted_wrt lt xs"
  using assms by (induction xs) (simp_all, metis)

definition task_fields_ok :: "string \<Rightarrow> Task \<Rightarrow> bool" where
  "task_fields_ok workflowID t \<longleftrightarrow> Task_ID t \<noteq> '''' \<and> Task_Name t \<noteq> '''' \<and> Task_WorkflowID t = workflowID"

lemma index_tasks_iff:
  "indexes pre byID byName \<Longrightarrow>
     (\<exists>r. index_tasks workflowID (length pre) byID byName tasks = Inr r) \<longleftrightarrow>
     (\<forall>t \<in> set tasks. task_fields_ok workflowID t) \<and>
     distinct (map Task_ID (pre @ tasks)) \<and> distinct (map Task_Name (pre @ tasks))"
proof (induction tasks arbitrary: pre byID byName)
  case Nil
  then show ?case by (simp add: indexes_def)
next
  case (Cons t tasks)
  note none = indexes_None [OF Cons.prems]
  show ?case
  proof (cases "task_fields_ok workflowID t \<and> byID (Task_ID t) = None \<and> map_of byName (Task_Name t) = None")
    case False
    then have "\<nexists>r. index_tasks workflowID (length pre) byID byName (t # tasks) = Inr r"
      by (auto simp: task_fields_ok_def)
    moreover have "\<not> (task_fields_ok workflowID t \<and> distinct (map Task_ID (pre @ t # tasks))
        \<and> distinct (map Task_Name (pre @ t # tasks)))"
      using False none by auto
    ultimately show ?thesis by auto
  next
    case True
    then have step: "index_tasks workflowID (length pre) byID byName (t # tasks) =
        index_tasks workflowID (length (pre @ [t])) (byID(Task_ID t \<mapsto> length pre))
          (AList.update (Task_Name t) (length pre) byName) tasks"
      by (simp add: task_fields_ok_def)
    have "indexes (pre @ [t]) (byID(Task_ID t \<mapsto> length pre)) (AList.update (Task_Name t) (length pre) byName)"
      using indexes_snoc [OF Cons.prems] True by blast
    from Cons.IH [OF this] True show ?thesis unfolding step by (simp del: fun_upd_apply)
  qed
qed

lemma check_needs_iff:
  "(\<exists>r. check_needs byName task seen needs = Inr r) \<longleftrightarrow>
     set needs \<subseteq> fst ` set byName \<and> distinct needs \<and> Task_Name task \<notin> set needs \<and> set needs \<inter> set seen = {}"
proof (induction needs arbitrary: seen)
  case (Cons dependency needs)
  show ?case
  proof (cases "dependency \<noteq> Task_Name task \<and> dependency \<in> fst ` set byName \<and> dependency \<notin> set seen")
    case True
    then have "check_needs byName task seen (dependency # needs) = check_needs byName task (dependency # seen) needs"
      by (simp add: map_of_eq_None_iff)
    with Cons.IH [of "dependency # seen"] True show ?thesis by auto
  next
    case False
    then have "\<nexists>r. check_needs byName task seen (dependency # needs) = Inr r"
      by (auto simp: map_of_eq_None_iff)
    with False show ?thesis by auto
  qed
qed simp

definition verdict_name :: "string \<Rightarrow> bool" where
  "verdict_name v \<longleftrightarrow> v = ''accept'' \<or> v = ''changes-requested''"

definition needs_valid :: "DAGExecution \<Rightarrow> Task \<Rightarrow> bool" where
  "needs_valid e t \<longleftrightarrow>
     set (Task_Needs t) \<subseteq> fst ` set (Exec_taskByName e) \<and> distinct (Task_Needs t) \<and> Task_Name t \<notin> set (Task_Needs t) \<and>
     (\<forall>(producer, verdict) \<in> set (Task_NeedsVerdict t). producer \<in> set (Task_Needs t) \<and>
        verdict_name verdict \<and> Task_ReviewOutput (task_named e producer) \<noteq> None)"

lemma check_verdicts_None:
  "check_verdicts e task seen conditions = None \<longleftrightarrow>
     (\<forall>(producer, verdict) \<in> set conditions. producer \<in> set seen \<and> verdict_name verdict \<and>
        Task_ReviewOutput (task_named e producer) \<noteq> None)"
  by (induction e task seen conditions rule: check_verdicts.induct) (simp_all add: verdict_name_def)

lemma check_tasks_iff: "check_tasks e tasks = None \<longleftrightarrow> (\<forall>t \<in> set tasks. needs_valid e t)"
proof (induction tasks)
  case (Cons t tasks)
  show ?case
  proof (cases "check_needs (Exec_taskByName e) t [] (Task_Needs t)")
    case (Inl err)
    then have "\<not> needs_valid e t"
      using check_needs_iff [of "Exec_taskByName e" t "[]" "Task_Needs t"] by (auto simp: needs_valid_def)
    with Inl show ?thesis by simp
  next
    case (Inr seen)
    with check_needs_Inr [OF Inr] have "needs_valid e t \<longleftrightarrow> check_verdicts e t seen (Task_NeedsVerdict t) = None"
      by (simp add: needs_valid_def check_verdicts_None)
    with Inr Cons.IH show ?thesis by (auto split: option.splits)
  qed
qed simp

definition attempt_fields_ok :: "DAGExecution \<Rightarrow> Attempt \<Rightarrow> bool" where
  "attempt_fields_ok e a \<longleftrightarrow>
     Attempt_ID a \<noteq> '''' \<and> Attempt_WorkflowRunID a = Run_ID (run_of e) \<and>
     Exec_taskByID e (Attempt_TaskID a) \<noteq> None \<and> 1 \<le> Attempt_Number a"

lemma index_attempts_iff:
  "set ids = Attempt_ID ` set pre \<Longrightarrow> set numbers = (\<lambda>a. (Attempt_TaskID a, Attempt_Number a)) ` set pre \<Longrightarrow>
   distinct (map Attempt_ID pre) \<Longrightarrow> distinct (map (\<lambda>a. (Attempt_TaskID a, Attempt_Number a)) pre) \<Longrightarrow>
     (\<exists>r. index_attempts e index ids numbers byTask attempts = Inr r) \<longleftrightarrow>
     (\<forall>a \<in> set attempts. attempt_fields_ok e a) \<and> distinct (map Attempt_ID (pre @ attempts)) \<and>
     distinct (map (\<lambda>a. (Attempt_TaskID a, Attempt_Number a)) (pre @ attempts))"
proof (induction attempts arbitrary: pre index ids numbers byTask)
  case (Cons a attempts)
  let ?pair = "\<lambda>a. (Attempt_TaskID a, Attempt_Number a)"
  show ?case
  proof (cases "attempt_fields_ok e a \<and> Attempt_ID a \<notin> set ids \<and> ?pair a \<notin> set numbers")
    case False
    then have "\<nexists>r. index_attempts e index ids numbers byTask (a # attempts) = Inr r"
      by (auto simp: attempt_fields_ok_def)
    moreover have "\<not> (attempt_fields_ok e a \<and> distinct (map Attempt_ID (pre @ a # attempts)) \<and>
        distinct (map ?pair (pre @ a # attempts)))"
      using False Cons.prems(1,2) by auto
    ultimately show ?thesis by auto
  next
    case True
    then have step: "index_attempts e index ids numbers byTask (a # attempts) =
        index_attempts e (Suc index) (Attempt_ID a # ids) (?pair a # numbers)
          (byTask(Attempt_TaskID a := byTask (Attempt_TaskID a) @ [index])) attempts"
      by (auto simp: attempt_fields_ok_def)
    have "(\<exists>r. index_attempts e (Suc index) (Attempt_ID a # ids) (?pair a # numbers)
          (byTask(Attempt_TaskID a := byTask (Attempt_TaskID a) @ [index])) attempts = Inr r) \<longleftrightarrow>
        (\<forall>x \<in> set attempts. attempt_fields_ok e x) \<and> distinct (map Attempt_ID ((pre @ [a]) @ attempts)) \<and>
        distinct (map ?pair ((pre @ [a]) @ attempts))"
      using Cons.prems True by (intro Cons.IH) auto
    with True show ?thesis unfolding step by simp
  qed
qed simp

lemma order_attempts_iff:
  "distinct (map Task_ID tasks) \<Longrightarrow>
     (\<exists>r. order_attempts e byTask tasks = Inr r) \<longleftrightarrow> (\<forall>t \<in> set tasks. byTask (Task_ID t) \<noteq> [])"
proof (induction tasks arbitrary: byTask)
  case (Cons t tasks)
  let ?byTask = "byTask(Task_ID t := sort_less
    (\<lambda>i j. Attempt_Number (attempts_of e ! i) < Attempt_Number (attempts_of e ! j)) (byTask (Task_ID t)))"
  have "?byTask (Task_ID t') = byTask (Task_ID t')" if "t' \<in> set tasks" for t'
  proof -
    have "Task_ID t' \<noteq> Task_ID t" using that Cons.prems by (metis distinct.simps(2) image_eqI list.set_map list.simps(9))
    then show ?thesis by simp
  qed
  moreover have "(\<exists>r. order_attempts e ?byTask tasks = Inr r) \<longleftrightarrow> (\<forall>t' \<in> set tasks. ?byTask (Task_ID t') \<noteq> [])"
    using Cons.prems by (intro Cons.IH) simp
  ultimately show ?case by (simp del: fun_upd_apply)
qed simp

text \<open>A run projection the constructor accepts, stated on the data alone.\<close>

definition valid_tasks :: "DAGState \<Rightarrow> bool" where
  "valid_tasks state \<longleftrightarrow>
     (\<forall>t \<in> set (State_Tasks state). task_fields_ok (Run_WorkflowID (State_Run state)) t) \<and>
     distinct (map Task_ID (State_Tasks state)) \<and> distinct (map Task_Name (State_Tasks state))"

definition valid_needs :: "DAGState \<Rightarrow> bool" where
  "valid_needs state \<longleftrightarrow>
     (\<forall>t \<in> set (State_Tasks state).
        set (Task_Needs t) \<subseteq> Task_Name ` set (State_Tasks state) \<and> distinct (Task_Needs t) \<and>
        Task_Name t \<notin> set (Task_Needs t) \<and>
        (\<forall>(producer, verdict) \<in> set (Task_NeedsVerdict t). producer \<in> set (Task_Needs t) \<and>
           verdict_name verdict \<and>
           (\<exists>q \<in> set (State_Tasks state). Task_Name q = producer \<and> Task_ReviewOutput q \<noteq> None)))"

definition valid_attempts :: "DAGState \<Rightarrow> bool" where
  "valid_attempts state \<longleftrightarrow>
     (\<forall>a \<in> set (State_Attempts state). Attempt_ID a \<noteq> '''' \<and>
        Attempt_WorkflowRunID a = Run_ID (State_Run state) \<and>
        Attempt_TaskID a \<in> Task_ID ` set (State_Tasks state) \<and> 1 \<le> Attempt_Number a) \<and>
     distinct (map Attempt_ID (State_Attempts state)) \<and>
     distinct (map (\<lambda>a. (Attempt_TaskID a, Attempt_Number a)) (State_Attempts state)) \<and>
     (\<forall>t \<in> set (State_Tasks state). \<exists>a \<in> set (State_Attempts state). Attempt_TaskID a = Task_ID t)"

definition valid_dag :: "DAGState \<Rightarrow> bool" where
  "valid_dag state \<longleftrightarrow>
     Run_ID (State_Run state) \<noteq> '''' \<and> Run_WorkflowID (State_Run state) \<noteq> '''' \<and> valid_tasks state \<and>
     valid_needs state \<and> acyclic (needs_rel (State_Tasks state)) \<and> valid_attempts state"

definition dag_wf :: "DAGExecution \<Rightarrow> bool" where
  "dag_wf e \<longleftrightarrow> index_ok e \<and> needs_closed e \<and> acyclic (needs_rel (tasks_of e)) \<and> attempts_ok e"

lemma needs_valid_iff:
  assumes "index_ok e"
  shows "needs_valid e t \<longleftrightarrow>
     set (Task_Needs t) \<subseteq> node_names e \<and> distinct (Task_Needs t) \<and> Task_Name t \<notin> set (Task_Needs t) \<and>
     (\<forall>(producer, verdict) \<in> set (Task_NeedsVerdict t). producer \<in> set (Task_Needs t) \<and>
        verdict_name verdict \<and>
        (\<exists>q \<in> set (tasks_of e). Task_Name q = producer \<and> Task_ReviewOutput q \<noteq> None))"
proof -
  have names: "fst ` set (Exec_taskByName e) = node_names e" using assms by (metis index_ok_def list.set_map)
  have review: "Task_ReviewOutput (task_named e p) \<noteq> None \<longleftrightarrow>
      (\<exists>q \<in> set (tasks_of e). Task_Name q = p \<and> Task_ReviewOutput q \<noteq> None)" if "p \<in> node_names e" for p
    using task_named_in [OF assms that] task_named_eq [OF assms] by metis
  show ?thesis
  proof (cases "set (Task_Needs t) \<subseteq> node_names e")
    case False
    then show ?thesis by (simp add: needs_valid_def names)
  next
    case True
    have "p \<in> set (Task_Needs t) \<and> verdict_name v \<and> Task_ReviewOutput (task_named e p) \<noteq> None \<longleftrightarrow>
        p \<in> set (Task_Needs t) \<and> verdict_name v \<and>
        (\<exists>q \<in> set (tasks_of e). Task_Name q = p \<and> Task_ReviewOutput q \<noteq> None)" for p v
      using True review by blast
    then show ?thesis by (simp only: needs_valid_def names)
  qed
qed

lemma attempts_ok_ordered:
  assumes index: "index_attempts e 0 [] [] (\<lambda>_. []) (attempts_of e) = Inr byTask"
    and order: "order_attempts e byTask (tasks_of e) = Inr ordered" and ok: "index_ok e"
  shows "attempts_ok (e\<lparr>Exec_attempts := ordered\<rparr>)"
proof -
  let ?as = "attempts_of e" and ?lt = "\<lambda>i j. Attempt_Number (attempts_of e ! i) < Attempt_Number (attempts_of e ! j)"
  have facts: "distinct (map Attempt_ID ?as)" "distinct (map (\<lambda>a. (Attempt_TaskID a, Attempt_Number a)) ?as)"
    "\<forall>a \<in> set ?as. Exec_taskByID e (Attempt_TaskID a) \<noteq> None"
    "\<forall>i. byTask i = filter (\<lambda>k. Attempt_TaskID (?as ! k) = i) [0..<length ?as]"
    using index_attempts_Inr [of e "[]" "[]" "[]" "\<lambda>_. []" ?as byTask] index by simp_all
  have ids: "distinct (map Task_ID (tasks_of e))" using ok by (simp add: index_ok_def)
  note ordered = order_attempts_Inr [OF order ids]
  have tasks: "Attempt_TaskID a \<in> Task_ID ` set (tasks_of e)" if "a \<in> set ?as" for a
    using facts(3) that ok indexes_None(1) by (metis index_ok_indexes)
  have each: "ordered (Task_ID t) \<noteq> [] \<and>
      set (ordered (Task_ID t)) = {i. i < length ?as \<and> Attempt_TaskID (?as ! i) = Task_ID t} \<and>
      sorted_wrt ?lt (ordered (Task_ID t))" if t: "t \<in> set (tasks_of e)" for t
  proof -
    let ?is = "byTask (Task_ID t)"
    have eq: "ordered (Task_ID t) = sort_less ?lt ?is" and ne: "?is \<noteq> []" using ordered t by auto
    have set_is: "set ?is = {i. i < length ?as \<and> Attempt_TaskID (?as ! i) = Task_ID t}" using facts(4) by auto
    have "strict_weak_order ?lt" by (rule strict_weak_order_key)
    then have weak: "sorted_wrt (\<lambda>a b. \<not> ?lt b a) (sort_less ?lt ?is)" by (rule strict_weak_order.sorted_sort)
    have "distinct (sort_less ?lt ?is)" using facts(4) by simp
    moreover have "i = j" if "i \<in> set ?is" "j \<in> set ?is" "\<not> ?lt i j" "\<not> ?lt j i" for i j
    proof (rule nth_eq_iff_index_eq [THEN iffD1, OF facts(2)])
      show "map (\<lambda>a. (Attempt_TaskID a, Attempt_Number a)) ?as ! i = map (\<lambda>a. (Attempt_TaskID a, Attempt_Number a)) ?as ! j"
        using that set_is by auto
    qed (use that set_is in auto)
    ultimately have "sorted_wrt ?lt (sort_less ?lt ?is)" by (intro strict_if_distinct [OF weak]) simp_all
    with eq ne set_is show ?thesis by simp
  qed
  show ?thesis using facts(1) tasks each by (simp add: attempts_ok_def)
qed

lemma indexes_Nil: "indexes [] Map.empty []"
  by (simp add: indexes_def)

lemma valid_tasks_iff:
  "valid_tasks (Exec_state e) \<longleftrightarrow>
     (\<exists>r. index_tasks (Run_WorkflowID (run_of e)) 0 Map.empty [] (tasks_of e) = Inr r)"
  using index_tasks_iff [OF indexes_Nil, of "Run_WorkflowID (run_of e)" "tasks_of e"]
  by (simp add: valid_tasks_def)

lemma valid_needs_iff:
  "index_ok e \<Longrightarrow> valid_needs (Exec_state e) \<longleftrightarrow> check_tasks e (tasks_of e) = None"
  by (simp only: valid_needs_def check_tasks_iff needs_valid_iff)

lemma valid_attempts_iff:
  assumes "index_ok e"
  shows "valid_attempts (Exec_state e) \<longleftrightarrow>
     (\<exists>byTask ordered. index_attempts e 0 [] [] (\<lambda>_. []) (attempts_of e) = Inr byTask \<and>
        order_attempts e byTask (tasks_of e) = Inr ordered)"
proof -
  have known: "Exec_taskByID e i \<noteq> None \<longleftrightarrow> i \<in> Task_ID ` set (tasks_of e)" for i
    using indexes_None(1) [OF assms [unfolded index_ok_indexes], of i] by simp
  have ids: "distinct (map Task_ID (tasks_of e))" using assms by (simp add: index_ok_def)
  note index = index_attempts_iff [of "[]" "[]" "[]" e 0 "\<lambda>_. []" "attempts_of e", simplified]
  have fields: "(\<forall>a \<in> set (attempts_of e). attempt_fields_ok e a) \<longleftrightarrow>
      (\<forall>a \<in> set (attempts_of e). Attempt_ID a \<noteq> '''' \<and> Attempt_WorkflowRunID a = Run_ID (run_of e) \<and>
        Attempt_TaskID a \<in> Task_ID ` set (tasks_of e) \<and> 1 \<le> Attempt_Number a)"
    by (simp only: attempt_fields_ok_def known)
  have each: "byTask (Task_ID t) \<noteq> [] \<longleftrightarrow> (\<exists>a \<in> set (attempts_of e). Attempt_TaskID a = Task_ID t)"
    if "index_attempts e 0 [] [] (\<lambda>_. []) (attempts_of e) = Inr byTask" for byTask t
  proof -
    have "byTask (Task_ID t) = filter (\<lambda>k. Attempt_TaskID (attempts_of e ! k) = Task_ID t) [0..<length (attempts_of e)]"
      using index_attempts_Inr [of e "[]" "[]" "[]" "\<lambda>_. []" "attempts_of e" byTask] that by simp
    then have "byTask (Task_ID t) \<noteq> [] \<longleftrightarrow>
        (\<exists>k < length (attempts_of e). Attempt_TaskID (attempts_of e ! k) = Task_ID t)"
      by (auto simp: filter_empty_conv)
    then show ?thesis by (metis in_set_conv_nth)
  qed
  show ?thesis
  proof (cases "index_attempts e 0 [] [] (\<lambda>_. []) (attempts_of e)")
    case (Inl err)
    with index show ?thesis unfolding valid_attempts_def fields [symmetric] by auto
  next
    case (Inr byTask)
    from Inr have "\<exists>r. index_attempts e 0 [] [] (\<lambda>_. []) (attempts_of e) = Inr r" by blast
    with index fields have "valid_attempts (Exec_state e) \<longleftrightarrow> (\<forall>t \<in> set (tasks_of e). byTask (Task_ID t) \<noteq> [])"
      unfolding valid_attempts_def by (simp add: each [OF Inr])
    also have "\<dots> \<longleftrightarrow> (\<exists>r. order_attempts e byTask (tasks_of e) = Inr r)"
      using order_attempts_iff [OF ids, of e byTask] by blast
    finally show ?thesis using Inr by simp
  qed
qed

text \<open>Validation always ends, accepts exactly the valid projections, and builds indexes that
  satisfy the invariant.\<close>

lemma indexAndValidate_correct:
  "\<exists>r. indexAndValidate e = Some r \<and>
     (\<forall>e'. r = Inr e' \<longrightarrow> dag_wf e' \<and> Exec_state e' = Exec_state e) \<and>
     ((\<exists>e'. r = Inr e') \<longleftrightarrow> valid_dag (Exec_state e))"
proof (cases "Run_ID (run_of e) \<noteq> '''' \<and> Run_WorkflowID (run_of e) \<noteq> '''' \<and> valid_tasks (Exec_state e)")
  case False
  then show ?thesis
    by (auto simp: indexAndValidate_def valid_dag_def valid_tasks_iff split: sum.splits)
next
  case True
  then obtain byID byName where maps:
    "index_tasks (Run_WorkflowID (run_of e)) 0 Map.empty [] (tasks_of e) = Inr (byID, byName)"
    by (auto simp: valid_tasks_iff)
  define e1 where "e1 = e\<lparr>Exec_taskByID := byID, Exec_taskByName := byName\<rparr>"
  have same: "Exec_state e1 = Exec_state e" by (simp add: e1_def)
  have index: "index_ok e1"
    using index_tasks_ok [of _ "[]", OF _ indexes_Nil, simplified, OF maps]
    by (simp add: index_ok_indexes e1_def)
  have unfold: "indexAndValidate e = (case check_tasks e1 (tasks_of e1) of
             Some err \<Rightarrow> Some (Inl err)
           | None \<Rightarrow>
               (case validateAcyclic e1 of
                  None \<Rightarrow> None
                | Some (Some err) \<Rightarrow> Some (Inl err)
                | Some None \<Rightarrow>
                    (case index_attempts e1 0 [] [] (\<lambda>_. []) (attempts_of e1) of
                       Inl err \<Rightarrow> Some (Inl err)
                     | Inr byTask \<Rightarrow>
                         (case order_attempts e1 byTask (tasks_of e1) of
                            Inl err \<Rightarrow> Some (Inl err)
                          | Inr ordered \<Rightarrow> Some (Inr (e1\<lparr>Exec_attempts := ordered\<rparr>))))))"
    unfolding indexAndValidate_def maps e1_def Let_def using True by simp
  show ?thesis
  proof (cases "check_tasks e1 (tasks_of e1)")
    case (Some err)
    then show ?thesis using valid_needs_iff [OF index] by (simp add: unfold valid_dag_def same)
  next
    case None
    then have valid: "valid_needs (Exec_state e1)" using valid_needs_iff [OF index] by simp
    then have closed: "needs_closed e1" by (simp add: valid_needs_def needs_closed_def)
    obtain r where r: "validateAcyclic e1 = Some r" "r = None \<longleftrightarrow> acyclic (needs_rel (tasks_of e1))"
      using validateAcyclic_correct [OF index closed] by blast
    have wf: "dag_wf (e1\<lparr>Exec_attempts := ordered\<rparr>)"
      if "r = None" "index_attempts e1 0 [] [] (\<lambda>_. []) (attempts_of e1) = Inr byTask"
        "order_attempts e1 byTask (tasks_of e1) = Inr ordered" for byTask ordered
      using attempts_ok_ordered [OF that(2,3) index] index closed r(2) that(1)
      by (simp add: dag_wf_def index_ok_def needs_closed_def)
    show ?thesis
      using None r valid True wf valid_attempts_iff [OF index]
      by (auto simp: unfold valid_dag_def same split: option.splits sum.splits)
  qed
qed

end
