(* ===== verification/DagRefresh.thy ===== *)
theory DagRefresh
  imports DagSpec
begin

text \<open>
  The refresh of a workflow execution. Every step of it keeps the identities of tasks and
  attempts (\<open>frame\<close>, through which the invariant \<open>dag_wf\<close> is preserved) and touches only
  attempts that wait to run. The verdict loop reaches its fixed point within its fuel, and the
  release pass leaves every waiting task ready exactly when nothing blocks it.
\<close>

section \<open>Frames\<close>

definition identity :: "Attempt \<Rightarrow> string \<times> string \<times> int \<times> string" where
  "identity a = (Attempt_ID a, Attempt_TaskID a, Attempt_Number a, Attempt_WorkflowRunID a)"

definition frame :: "DAGExecution \<Rightarrow> DAGExecution \<Rightarrow> bool" where
  "frame e e' \<longleftrightarrow>
     tasks_of e' = tasks_of e \<and> Exec_taskByID e' = Exec_taskByID e \<and> Exec_taskByName e' = Exec_taskByName e \<and>
     Exec_attempts e' = Exec_attempts e \<and> State_External (Exec_state e') = State_External (Exec_state e) \<and>
     map identity (attempts_of e') = map identity (attempts_of e) \<and>
     Run_ID (run_of e') = Run_ID (run_of e) \<and> Run_WorkflowID (run_of e') = Run_WorkflowID (run_of e)"

definition keeps_run :: "(WorkflowRun \<Rightarrow> WorkflowRun) \<Rightarrow> bool" where
  "keeps_run f \<longleftrightarrow> (\<forall>r. Run_ID (f r) = Run_ID r \<and> Run_WorkflowID (f r) = Run_WorkflowID r)"

lemma frame_refl [simp]: "frame e e"
  by (simp add: frame_def)

lemma frame_trans: "frame e e' \<Longrightarrow> frame e' e'' \<Longrightarrow> frame e e''"
  by (simp add: frame_def)

lemma frame_length: "frame e e' \<Longrightarrow> length (attempts_of e') = length (attempts_of e)"
  by (metis frame_def length_map)

lemma frame_nth:
  assumes "frame e e'" and "k < length (attempts_of e)"
  shows "identity (attempts_of e' ! k) = identity (attempts_of e ! k)"
proof -
  have "map identity (attempts_of e') ! k = map identity (attempts_of e) ! k"
    using assms(1) by (simp only: frame_def)
  with assms(2) frame_length [OF assms(1)] show ?thesis by simp
qed

lemma frame_index: "frame e e' \<Longrightarrow> currentAttemptIndex e' t = currentAttemptIndex e t"
  by (simp add: frame_def currentAttemptIndex_def)

lemma frame_task_named: "frame e e' \<Longrightarrow> task_named e' n = task_named e n"
  by (simp add: frame_def task_named_def)

lemma frame_wf:
  assumes "frame e e'" and "dag_wf e"
  shows "dag_wf e'"
proof -
  have len: "length (attempts_of e') = length (attempts_of e)" by (rule frame_length [OF assms(1)])
  have ids: "map Attempt_ID (attempts_of e') = map Attempt_ID (attempts_of e)"
  proof -
    have "map fst (map identity (attempts_of e')) = map fst (map identity (attempts_of e))"
      using assms(1) by (simp only: frame_def)
    then show ?thesis by (simp add: identity_def comp_def)
  qed
  have task: "Attempt_TaskID (attempts_of e' ! k) = Attempt_TaskID (attempts_of e ! k)"
    and number: "Attempt_Number (attempts_of e' ! k) = Attempt_Number (attempts_of e ! k)"
    if "k < length (attempts_of e)" for k
    using frame_nth [OF assms(1) that] by (simp_all add: identity_def)
  have "\<forall>a \<in> set (attempts_of e'). Attempt_TaskID a \<in> Task_ID ` set (tasks_of e)"
  proof
    fix a assume "a \<in> set (attempts_of e')"
    then obtain k where k: "k < length (attempts_of e)" "a = attempts_of e' ! k"
      using len by (auto simp: in_set_conv_nth)
    then have "attempts_of e ! k \<in> set (attempts_of e)" by simp
    with assms(2) k task [OF k(1)] show "Attempt_TaskID a \<in> Task_ID ` set (tasks_of e)"
      by (simp add: dag_wf_def attempts_ok_def)
  qed
  moreover have "{i. i < length (attempts_of e') \<and> Attempt_TaskID (attempts_of e' ! i) = Task_ID t} =
      {i. i < length (attempts_of e) \<and> Attempt_TaskID (attempts_of e ! i) = Task_ID t}" for t
    using len task by auto
  moreover have "sorted_wrt (\<lambda>i j. Attempt_Number (attempts_of e' ! i) < Attempt_Number (attempts_of e' ! j)) is"
    if "set is \<subseteq> {i. i < length (attempts_of e)}"
      "sorted_wrt (\<lambda>i j. Attempt_Number (attempts_of e ! i) < Attempt_Number (attempts_of e ! j)) is" for "is"
    using that(2)
  proof (rule sorted_wrt_mono_rel [rotated])
    fix i j assume mem: "i \<in> set is" "j \<in> set is"
      and less: "Attempt_Number (attempts_of e ! i) < Attempt_Number (attempts_of e ! j)"
    note range = mem [THEN subsetD [OF that(1)], unfolded mem_Collect_eq]
    from less show "Attempt_Number (attempts_of e' ! i) < Attempt_Number (attempts_of e' ! j)"
      by (simp add: number [OF range(1)] number [OF range(2)])
  qed
  moreover have "set (Exec_attempts e (Task_ID t)) \<subseteq> {i. i < length (attempts_of e)}" if "t \<in> set (tasks_of e)" for t
    using that assms(2) by (auto simp: dag_wf_def attempts_ok_def)
  ultimately have "attempts_ok e'"
    using assms ids by (auto simp: dag_wf_def attempts_ok_def frame_def)
  moreover have "index_ok e'" "needs_closed e'" "acyclic (needs_rel (tasks_of e'))"
    using assms by (simp_all add: dag_wf_def index_ok_def needs_closed_def frame_def)
  ultimately show ?thesis by (simp add: dag_wf_def)
qed

definition keeps_identity :: "(Attempt \<Rightarrow> Attempt) \<Rightarrow> bool" where
  "keeps_identity f \<longleftrightarrow> (\<forall>a. identity (f a) = identity a)"

lemma set_attempt_sel [dag_simps]:
  "tasks_of (set_attempt i f e) = tasks_of e" "run_of (set_attempt i f e) = run_of e"
  "Exec_taskByID (set_attempt i f e) = Exec_taskByID e" "Exec_taskByName (set_attempt i f e) = Exec_taskByName e"
  "Exec_attempts (set_attempt i f e) = Exec_attempts e"
  "State_External (Exec_state (set_attempt i f e)) = State_External (Exec_state e)"
  "attempts_of (set_attempt i f e) = (attempts_of e)[i := f (attempts_of e ! i)]"
  by (simp_all add: set_attempt_def)

lemma frame_set_attempt: "keeps_identity f \<Longrightarrow> frame e (set_attempt i f e)"
proof -
  assume "keeps_identity f"
  then have "map identity ((attempts_of e)[i := f (attempts_of e ! i)]) = map identity (attempts_of e)"
    by (cases "i < length (attempts_of e)") (simp_all add: map_update keeps_identity_def list_update_same_conv list_update_beyond)
  then show ?thesis by (simp add: frame_def dag_simps)
qed

lemma frame_set_run: "keeps_run f \<Longrightarrow> frame e (set_run f e)"
  by (simp add: frame_def set_run_def keeps_run_def)

lemma keeps_identity_steps [simp]:
  "keeps_identity (skip_branch now reason)" "keeps_identity (release_attempt blockers)" "keeps_identity (complete_attempt result now)"
  "keeps_identity (stop_attempt p now)"
  "keeps_identity (\<lambda>a. a\<lparr>Attempt_Progress := p, Attempt_Control := c, Attempt_StartedAt := s, Attempt_UpdatedAt := u\<rparr>)"
  by (simp_all add: keeps_identity_def identity_def skip_branch_def release_attempt_def complete_attempt_def stop_attempt_def Let_def)

text \<open>Indices of the current attempts are in range, and those of different tasks differ.\<close>

lemma current_index:
  assumes "dag_wf e" and "t \<in> set (tasks_of e)"
  shows "currentAttemptIndex e (Task_ID t) < length (attempts_of e)"
    and "Attempt_TaskID (attempts_of e ! currentAttemptIndex e (Task_ID t)) = Task_ID t"
proof -
  let ?is = "Exec_attempts e (Task_ID t)"
  have ne: "?is \<noteq> []" and set_is: "set ?is = {i. i < length (attempts_of e) \<and> Attempt_TaskID (attempts_of e ! i) = Task_ID t}"
    using assms by (auto simp: dag_wf_def attempts_ok_def)
  from ne have "currentAttemptIndex e (Task_ID t) \<in> set ?is"
    by (simp add: currentAttemptIndex_def Let_def)
  with set_is show "currentAttemptIndex e (Task_ID t) < length (attempts_of e)"
    and "Attempt_TaskID (attempts_of e ! currentAttemptIndex e (Task_ID t)) = Task_ID t" by auto
qed

lemma current_index_inj:
  assumes "dag_wf e" and "t \<in> set (tasks_of e)" and "t' \<in> set (tasks_of e)"
    and "currentAttemptIndex e (Task_ID t) = currentAttemptIndex e (Task_ID t')"
  shows "t = t'"
proof -
  have "Task_ID t = Task_ID t'" using current_index(2) [OF assms(1)] assms(2-4) by metis
  with assms show ?thesis by (auto simp: dag_wf_def index_ok_def distinct_map dest: inj_onD)
qed

section \<open>Waiting attempts\<close>

definition waiting :: "Attempt \<Rightarrow> bool" where
  "waiting a \<longleftrightarrow> Attempt_Progress a = ProgressBlocked \<or> Attempt_Progress a = ProgressReady"

text \<open>From \<open>e\<close> to \<open>e'\<close> only waiting attempts changed, and they still wait or were skipped.\<close>

definition waits_or_skipped :: "Attempt \<Rightarrow> bool" where
  "waits_or_skipped a \<longleftrightarrow> waiting a \<or> Attempt_Progress a = ProgressSkipped"

definition keeps_started :: "DAGExecution \<Rightarrow> DAGExecution \<Rightarrow> bool" where
  "keeps_started e e' \<longleftrightarrow> frame e e' \<and>
     (\<forall>k < length (attempts_of e).
        if waiting (attempts_of e ! k) then waits_or_skipped (attempts_of e' ! k)
        else attempts_of e' ! k = attempts_of e ! k)"

lemma keeps_started_refl [simp]: "keeps_started e e"
  by (simp add: keeps_started_def waits_or_skipped_def)

lemma keeps_started_trans:
  assumes "keeps_started e e'" and "keeps_started e' e''"
  shows "keeps_started e e''"
  unfolding keeps_started_def
proof (intro conjI allI impI)
  have frames: "frame e e'" "frame e' e''" using assms by (simp_all add: keeps_started_def)
  then show "frame e e''" by (rule frame_trans)
  fix k assume k: "k < length (attempts_of e)"
  let ?a = "attempts_of e ! k" and ?b = "attempts_of e' ! k" and ?c = "attempts_of e'' ! k"
  have "if waiting ?a then waits_or_skipped ?b else ?b = ?a" using assms(1) k by (simp add: keeps_started_def)
  moreover have "if waiting ?b then waits_or_skipped ?c else ?c = ?b"
    using assms(2) k frame_length [OF frames(1)] by (simp add: keeps_started_def)
  ultimately show "if waiting ?a then waits_or_skipped ?c else ?c = ?a"
    by (cases "waiting ?a"; cases "waiting ?b") (simp_all add: waits_or_skipped_def)
qed

lemma keeps_started_frame: "keeps_started e e' \<Longrightarrow> frame e e'"
  by (simp add: keeps_started_def)

lemma keeps_started_set_attempt:
  assumes "keeps_identity f" and "waiting (attempts_of e ! i)" and "waits_or_skipped (f (attempts_of e ! i))"
  shows "keeps_started e (set_attempt i f e)"
proof -
  have "if waiting (attempts_of e ! k) then waits_or_skipped ((attempts_of e)[i := f (attempts_of e ! i)] ! k)
      else (attempts_of e)[i := f (attempts_of e ! i)] ! k = attempts_of e ! k" if "k < length (attempts_of e)" for k
    using assms(2,3) that by (cases "k = i") (simp_all add: waits_or_skipped_def)
  then show ?thesis using frame_set_attempt [OF assms(1), of e i] by (simp add: keeps_started_def dag_simps)
qed

lemma keeps_started_set_run: "keeps_run f \<Longrightarrow> keeps_started e (set_run f e)"
  using frame_set_run [of f e] by (simp add: keeps_started_def set_run_def waits_or_skipped_def)

section \<open>The verdict loop\<close>

definition waiting_count :: "DAGExecution \<Rightarrow> nat" where
  "waiting_count e = length (filter waiting (attempts_of e))"

text \<open>No unassigned waiting task has a reason to be skipped.\<close>

definition branch_settled :: "DAGExecution \<Rightarrow> Task \<Rightarrow> bool" where
  "branch_settled e t \<longleftrightarrow>
     (waiting (current_attempt e (Task_ID t)) \<and> Attempt_AssignmentID (current_attempt e (Task_ID t)) = ''''
      \<longrightarrow> branch_reason e t = '''')"

lemma count_update_less:
  "i < length xs \<Longrightarrow> waiting (xs ! i) \<Longrightarrow> \<not> waiting a \<Longrightarrow>
   length (filter waiting (xs[i := a])) < length (filter waiting xs)"
proof (induction xs arbitrary: i)
  case (Cons x xs)
  then show ?case by (cases i) auto
qed simp

lemma skip_branch_waits: "waits_or_skipped (skip_branch now reason a)"
  by (simp add: waits_or_skipped_def skip_branch_def Let_def)

lemma verdict_task_step:
  assumes "dag_wf e" and "t \<in> set (tasks_of e)" and "verdict_task now t (e, c) = (e', c')"
  shows "keeps_started e e' \<and> (e' = e \<and> c' = c \<and> branch_settled e t \<or> c' \<and> waiting_count e' < waiting_count e)"
proof -
  let ?i = "currentAttemptIndex e (Task_ID t)"
  let ?a = "attempts_of e ! ?i"
  have i: "?i < length (attempts_of e)" by (rule current_index(1) [OF assms(1,2)])
  show ?thesis
  proof (cases "waiting ?a \<and> Attempt_AssignmentID ?a = '''' \<and> branch_reason e t \<noteq> ''''")
    case True
    then have "e' = set_attempt ?i (skip_branch now (branch_reason e t)) e" and c': "c'"
      using assms(3) by (auto simp: verdict_task_def Let_def waiting_def)
    moreover have "\<not> waiting (skip_branch now (branch_reason e t) ?a)"
      by (simp add: waiting_def skip_branch_def Let_def)
    ultimately have "waiting_count e' < waiting_count e"
      using i True by (simp add: waiting_count_def dag_simps count_update_less)
    with True c' \<open>e' = _\<close> show ?thesis by (simp add: keeps_started_set_attempt skip_branch_waits)
  next
    case False
    then have "e' = e \<and> c' = c"
      using assms(3) by (auto simp: verdict_task_def Let_def waiting_def split: if_splits)
    with False show ?thesis by (auto simp: branch_settled_def current_attempt_def)
  qed
qed

lemma verdict_fold:
  "dag_wf e \<Longrightarrow> set ts \<subseteq> set (tasks_of e) \<Longrightarrow> fold (verdict_task now) ts (e, c) = (e', c') \<Longrightarrow>
     keeps_started e e' \<and> waiting_count e' \<le> waiting_count e \<and> (c \<longrightarrow> c') \<and>
     (\<not> c' \<longrightarrow> e' = e \<and> (\<forall>t \<in> set ts. branch_settled e t)) \<and> (c' \<and> \<not> c \<longrightarrow> waiting_count e' < waiting_count e)"
proof (induction ts arbitrary: e c)
  case (Cons t ts)
  obtain e1 c1 where step: "verdict_task now t (e, c) = (e1, c1)" by (cases "verdict_task now t (e, c)")
  have t: "t \<in> set (tasks_of e)" using Cons.prems(2) by simp
  note one = verdict_task_step [OF Cons.prems(1) t step]
  then have keep: "keeps_started e e1" and frame: "frame e e1" by (simp_all add: keeps_started_frame)
  have tasks: "tasks_of e1 = tasks_of e" using frame by (simp add: frame_def)
  have rest: "fold (verdict_task now) ts (e1, c1) = (e', c')" using Cons.prems(3) step by simp
  have IH: "keeps_started e1 e' \<and> waiting_count e' \<le> waiting_count e1 \<and> (c1 \<longrightarrow> c') \<and>
     (\<not> c' \<longrightarrow> e' = e1 \<and> (\<forall>t \<in> set ts. branch_settled e1 t)) \<and> (c' \<and> \<not> c1 \<longrightarrow> waiting_count e' < waiting_count e1)"
    using Cons.prems(2) tasks by (intro Cons.IH [OF frame_wf [OF frame Cons.prems(1)] _ rest]) simp
  have "keeps_started e e'" using keeps_started_trans [OF keep] IH by blast
  with one IH show ?case by (cases "e1 = e \<and> c1 = c") auto
qed simp

definition branches_settled :: "DAGExecution \<Rightarrow> bool" where
  "branches_settled e \<longleftrightarrow> (\<forall>t \<in> set (tasks_of e). branch_settled e t)"

lemma verdict_pass_step:
  assumes "dag_wf e" and "verdict_pass now e = (e', c)"
  shows "keeps_started e e' \<and> (if c then waiting_count e' < waiting_count e else e' = e \<and> branches_settled e)"
  using verdict_fold [OF assms(1) order_refl, of now False e' c] assms(2)
  by (auto simp: verdict_pass_def branches_settled_def)

lemma verdict_loop_settles:
  "dag_wf e \<Longrightarrow> waiting_count e < fuel \<Longrightarrow>
     keeps_started e (verdict_loop fuel now e) \<and> branches_settled (verdict_loop fuel now e)"
proof (induction fuel now e rule: verdict_loop.induct)
  case (2 fuel now e)
  obtain e' c where pass: "verdict_pass now e = (e', c)" by (cases "verdict_pass now e")
  note step = verdict_pass_step [OF "2.prems"(1) pass]
  show ?case
  proof (cases c)
    case True
    with step "2.prems"(2) have "waiting_count e' < fuel" by simp
    moreover have "dag_wf e'" using step keeps_started_frame frame_wf "2.prems"(1) by blast
    ultimately have "keeps_started e' (verdict_loop fuel now e') \<and> branches_settled (verdict_loop fuel now e')"
      using "2.IH" [OF pass [symmetric] refl True] by simp
    with step pass True keeps_started_trans show ?thesis by (metis (mono_tags, lifting) verdict_loop.simps(2) case_prod_conv)
  next
    case False
    with step pass show ?thesis by simp
  qed
qed simp

lemma refreshVerdictBranches_settles:
  assumes "dag_wf e"
  shows "keeps_started e (refreshVerdictBranches now e)" and "branches_settled (refreshVerdictBranches now e)"
proof -
  have "waiting_count e < Suc (length (attempts_of e))"
    by (simp add: waiting_count_def less_Suc_eq_le)
  from verdict_loop_settles [OF assms this]
  show "keeps_started e (refreshVerdictBranches now e)" and "branches_settled (refreshVerdictBranches now e)"
    by (simp_all add: refreshVerdictBranches_def)
qed

section \<open>The release pass\<close>

text \<open>What the other tasks see of an attempt: nothing of one that waits.\<close>

definition view :: "Attempt \<Rightarrow> Attempt option" where
  "view a = (if waiting a then None else Some a)"

definition same_view :: "DAGExecution \<Rightarrow> DAGExecution \<Rightarrow> bool" where
  "same_view e e' \<longleftrightarrow> frame e e' \<and> (\<forall>k < length (attempts_of e).
     view (attempts_of e' ! k) = view (attempts_of e ! k) \<and>
     Attempt_AssignmentID (attempts_of e' ! k) = Attempt_AssignmentID (attempts_of e ! k))"

lemma same_view_refl [simp]: "same_view e e"
  by (simp add: same_view_def)

lemma same_view_trans: "same_view e e' \<Longrightarrow> same_view e' e'' \<Longrightarrow> same_view e e''"
  unfolding same_view_def by (metis frame_length frame_trans)

lemma same_view_frame: "same_view e e' \<Longrightarrow> frame e e'"
  by (simp add: same_view_def)

lemma same_view_keeps: "same_view e e' \<Longrightarrow> keeps_started e e'"
  by (auto simp: same_view_def keeps_started_def waits_or_skipped_def view_def split: if_splits)

lemma same_view_set_attempt:
  assumes "keeps_identity f" and "waiting (attempts_of e ! i)" and "waiting (f (attempts_of e ! i))"
    and "Attempt_AssignmentID (f (attempts_of e ! i)) = Attempt_AssignmentID (attempts_of e ! i)"
  shows "same_view e (set_attempt i f e)"
proof -
  have "view (attempts_of (set_attempt i f e) ! k) = view (attempts_of e ! k) \<and>
      Attempt_AssignmentID (attempts_of (set_attempt i f e) ! k) = Attempt_AssignmentID (attempts_of e ! k)"
    if "k < length (attempts_of e)" for k
    using that assms by (cases "k = i") (simp_all add: dag_simps view_def)
  then show ?thesis by (simp add: same_view_def frame_set_attempt assms(1))
qed

lemma view_facts:
  assumes "view a' = view a"
  shows "Attempt_Progress a' = ProgressSucceeded \<longleftrightarrow> Attempt_Progress a = ProgressSucceeded"
    and "Attempt_Progress a' = ProgressSkipped \<longleftrightarrow> Attempt_Progress a = ProgressSkipped"
    and "Terminal (Attempt_Progress a') \<longleftrightarrow> Terminal (Attempt_Progress a)"
    and "Terminal (Attempt_Progress a) \<Longrightarrow> a' = a"
    and "waiting a' \<longleftrightarrow> waiting a"
  using assms by (auto simp: view_def waiting_def split: if_splits)

lemma same_view_current:
  assumes "same_view e e'" and "dag_wf e" and "t \<in> set (tasks_of e)"
  shows "view (current_attempt e' (Task_ID t)) = view (current_attempt e (Task_ID t))"
    and "Attempt_AssignmentID (current_attempt e' (Task_ID t)) = Attempt_AssignmentID (current_attempt e (Task_ID t))"
  using assms(1) current_index(1) [OF assms(2,3)] frame_index [OF same_view_frame [OF assms(1)]]
  by (simp_all add: current_attempt_def same_view_def)

lemma same_view_succeeded:
  assumes "same_view e e'" and "dag_wf e" and "t \<in> set (tasks_of e)"
  shows "taskSucceeded e' (Task_ID t) \<longleftrightarrow> taskSucceeded e (Task_ID t)"
proof -
  have "Exec_attempts e' (Task_ID t) = Exec_attempts e (Task_ID t)"
    using same_view_frame [OF assms(1)] by (simp add: frame_def)
  moreover have "Attempt_Progress (attempts_of e' ! k) = ProgressSucceeded \<longleftrightarrow>
      Attempt_Progress (attempts_of e ! k) = ProgressSucceeded" if "k \<in> set (Exec_attempts e (Task_ID t))" for k
  proof (rule view_facts(1))
    have "k < length (attempts_of e)" using that assms(2,3) by (auto simp: dag_wf_def attempts_ok_def)
    with assms(1) show "view (attempts_of e' ! k) = view (attempts_of e ! k)" by (simp add: same_view_def)
  qed
  ultimately show ?thesis by (simp add: taskSucceeded_def list_ex_iff)
qed

lemma need_task:
  assumes "dag_wf e" and "t \<in> set (tasks_of e)" and "d \<in> set (Task_Needs t)"
  shows "task_named e d \<in> set (tasks_of e)" and "Task_Name (task_named e d) = d"
  using assms task_named_in [of e d] by (auto simp: dag_wf_def needs_closed_def)

lemma same_view_verdict:
  assumes "same_view e e'" and "dag_wf e" and "q \<in> set (tasks_of e)"
  shows "verdictSatisfied e' t q = verdictSatisfied e t q"
proof (cases "Attempt_Progress (current_attempt e (Task_ID q)) = ProgressSucceeded")
  case True
  then have "current_attempt e' (Task_ID q) = current_attempt e (Task_ID q)"
    by (intro view_facts(4) same_view_current [OF assms]) simp
  then show ?thesis by (simp add: verdictSatisfied_def Let_def split: option.split)
next
  case False
  moreover have "Attempt_Progress (current_attempt e' (Task_ID q)) \<noteq> ProgressSucceeded"
    using False view_facts(1) [OF same_view_current(1) [OF assms]] by simp
  ultimately show ?thesis by (simp add: verdictSatisfied_def Let_def split: option.splits)
qed

lemma same_view_blockers:
  assumes "same_view e e'" and "dag_wf e" and "t \<in> set (tasks_of e)"
  shows "task_blockers e' t = task_blockers e t"
proof -
  note frame = same_view_frame [OF assms(1)]
  have "dependency_met e' t d = dependency_met e t d" if "d \<in> set (Task_Needs t)" for d
    using need_task [OF assms(2,3) that] frame_task_named [OF frame]
      same_view_succeeded [OF assms(1,2)] same_view_verdict [OF assms(1,2)]
      view_facts(3) [OF same_view_current(1) [OF assms(1,2)]]
    by (simp add: dependency_met_def Let_def)
  then have "filter (\<lambda>d. \<not> dependency_met e' t d) (Task_Needs t) = filter (\<lambda>d. \<not> dependency_met e t d) (Task_Needs t)"
    by (intro filter_cong) simp_all
  moreover have "external_met e' = external_met e"
    using frame by (intro ext) (simp add: external_met_def frame_def)
  ultimately show ?thesis by (simp add: task_blockers_def)
qed

lemma branch_decision_view:
  assumes "view a' = view a"
  shows "branch_decision t need a' = branch_decision t need a"
proof (cases "Terminal (Attempt_Progress a)")
  case True
  with view_facts(4) [OF assms(1)] show ?thesis by simp
next
  case False
  then have "\<not> Terminal (Attempt_Progress a')" using view_facts(3) [OF assms(1)] by simp
  with False have "Attempt_Progress x \<noteq> ProgressSkipped" "Attempt_Progress x \<noteq> ProgressSucceeded"
    "\<not> Terminal (Attempt_Progress x)" if "x \<in> {a, a'}" for x
    using that by auto
  then show ?thesis by (intro ext) (simp add: branch_decision_def split: option.splits)
qed

lemma same_view_reason:
  assumes "same_view e e'" and "dag_wf e" and "t \<in> set (tasks_of e)"
  shows "branch_reason e' t = branch_reason e t"
proof -
  have "branch_decision t need (current_attempt e' (Task_ID (task_named e' need))) =
      branch_decision t need (current_attempt e (Task_ID (task_named e need)))" if "need \<in> set (Task_Needs t)" for need
    unfolding frame_task_named [OF same_view_frame [OF assms(1)]]
    by (rule branch_decision_view [OF same_view_current(1) [OF assms(1,2) need_task(1) [OF assms(2,3) that]]])
  then show ?thesis unfolding branch_reason_def by (intro fold_cong refl)
qed

lemma same_view_settled:
  assumes "same_view e e'" and "dag_wf e" and "branches_settled e"
  shows "branches_settled e'"
  unfolding branches_settled_def
proof
  fix t assume "t \<in> set (tasks_of e')"
  then have t: "t \<in> set (tasks_of e)" using same_view_frame [OF assms(1)] by (simp add: frame_def)
  with assms(3) have "branch_settled e t" by (simp add: branches_settled_def)
  then show "branch_settled e' t"
    unfolding branch_settled_def same_view_reason [OF assms(1,2) t] same_view_current(2) [OF assms(1,2) t]
      view_facts(5) [OF same_view_current(1) [OF assms(1,2) t]] .
qed

text \<open>One step of the pass, and the pass over any of the tasks.\<close>

lemma release_waiting: "waiting (release_attempt blockers a)"
  by (simp add: release_attempt_def waiting_def)

lemma refresh_task_view:
  assumes "dag_wf e" and "t \<in> set (tasks_of e)"
  shows "same_view e (refresh_task t e)"
proof -
  let ?i = "currentAttemptIndex e (Task_ID t)"
  have "Attempt_AssignmentID (release_attempt b a) = Attempt_AssignmentID a" for b a
    by (simp add: release_attempt_def)
  then have "same_view e (set_attempt ?i (release_attempt (task_blockers e t)) e)" if "waiting (attempts_of e ! ?i)"
    using that by (intro same_view_set_attempt release_waiting) simp_all
  then show ?thesis by (auto simp: refresh_task_def Let_def waiting_def)
qed

definition released :: "DAGExecution \<Rightarrow> Task \<Rightarrow> Attempt" where
  "released e t =
     (let a = current_attempt e (Task_ID t) in
      if \<not> taskSucceeded e (Task_ID t) \<and> waiting a then release_attempt (task_blockers e t) a else a)"

lemma refresh_task_current:
  assumes "dag_wf e" and "t \<in> set (tasks_of e)" and "q \<in> set (tasks_of e)"
  shows "current_attempt (refresh_task t e) (Task_ID q) =
     (if q = t then released e t else current_attempt e (Task_ID q))"
proof -
  let ?i = "currentAttemptIndex e (Task_ID t)" and ?j = "currentAttemptIndex e (Task_ID q)"
  have j: "?j < length (attempts_of e)" by (rule current_index(1) [OF assms(1,3)])
  have index: "currentAttemptIndex (set_attempt i f e) (Task_ID q) = ?j" for i f
    by (simp add: currentAttemptIndex_def dag_simps)
  show ?thesis
  proof (cases "q = t")
    case True
    with j show ?thesis unfolding refresh_task_def released_def Let_def waiting_def current_attempt_def True
      by (simp add: index [unfolded True] dag_simps)
  next
    case False
    then have "?i \<noteq> ?j" using current_index_inj [OF assms(1,2,3)] by blast
    with False j show ?thesis
      by (simp add: refresh_task_def Let_def current_attempt_def index dag_simps)
  qed
qed

lemma refresh_tasks:
  "dag_wf e \<Longrightarrow> set ts \<subseteq> set (tasks_of e) \<Longrightarrow> distinct ts \<Longrightarrow>
     same_view e (fold refresh_task ts e) \<and>
     (\<forall>q \<in> set (tasks_of e). current_attempt (fold refresh_task ts e) (Task_ID q) =
        (if q \<in> set ts then released e q else current_attempt e (Task_ID q)))"
proof (induction ts arbitrary: e)
  case (Cons t ts)
  let ?e1 = "refresh_task t e"
  have t: "t \<in> set (tasks_of e)" using Cons.prems(2) by simp
  note sim = refresh_task_view [OF Cons.prems(1) t]
  have tasks: "tasks_of ?e1 = tasks_of e" using same_view_frame [OF sim] by (simp add: frame_def)
  have wf: "dag_wf ?e1" by (rule frame_wf [OF same_view_frame [OF sim] Cons.prems(1)])
  have IH: "same_view ?e1 (fold refresh_task ts ?e1) \<and>
     (\<forall>q \<in> set (tasks_of ?e1). current_attempt (fold refresh_task ts ?e1) (Task_ID q) =
        (if q \<in> set ts then released ?e1 q else current_attempt ?e1 (Task_ID q)))"
    using Cons.prems tasks by (intro Cons.IH [OF wf]) simp_all
  have "released ?e1 q = released e q" if "q \<in> set (tasks_of e)" "q \<noteq> t" for q
    using that refresh_task_current [OF Cons.prems(1) t that(1)] same_view_succeeded [OF sim Cons.prems(1) that(1)]
      same_view_blockers [OF sim Cons.prems(1) that(1)]
    by (simp add: released_def Let_def)
  with IH tasks refresh_task_current [OF Cons.prems(1) t] Cons.prems(3) same_view_trans [OF sim]
  show ?case by auto
qed simp

section \<open>A refreshed execution\<close>

text \<open>
  What a caller may rely on after every operation: no unassigned waiting task is on a branch
  that its dependencies ruled out, and a waiting task is ready exactly when nothing blocks it.
\<close>

definition release_exact :: "DAGExecution \<Rightarrow> bool" where
  "release_exact e \<longleftrightarrow> (\<forall>t \<in> set (tasks_of e).
     \<not> taskSucceeded e (Task_ID t) \<and> waiting (current_attempt e (Task_ID t)) \<longrightarrow>
     (Attempt_Progress (current_attempt e (Task_ID t)) = ProgressReady \<longleftrightarrow> task_blockers e t = []))"

lemma same_view_set_run: "keeps_run f \<Longrightarrow> same_view e (set_run f e)"
  using frame_set_run [of f e] by (simp add: same_view_def set_run_def)

text \<open>
  The run's progress is the projection of its tasks, except that a run whose sink is still
  open stays active when its tasks are all over.
\<close>

definition shown_progress :: "DAGExecution \<Rightarrow> ProgressState" where
  "shown_progress e =
     (if Run_Sink (run_of e) \<noteq> None \<and> Terminal (runProgress e) then ProgressActive else runProgress e)"

definition run_exact :: "DAGExecution \<Rightarrow> bool" where
  "run_exact e \<longleftrightarrow> run_sink_final e \<or> Run_Progress (run_of e) = shown_progress e"

lemma refresh_unfold:
  "\<exists>f. keeps_run f \<and> (\<forall>r. Run_Sink (f r) = Run_Sink r) \<and>
     (let e1 = refreshVerdictBranches now e; e2 = fold refresh_task (tasks_of e1) e1
      in refresh now touch e = set_run f e2 \<and> (run_sink_final e2 \<or> Run_Progress (f (run_of e2)) = shown_progress e2))"
proof -
  let ?e1 = "refreshVerdictBranches now e"
  let ?e2 = "fold refresh_task (tasks_of ?e1) ?e1"
  show ?thesis
  proof (cases "run_sink_final ?e2")
    case True
    then have "refresh now touch e = set_run (\<lambda>r. r) ?e2"
      by (simp add: refresh_def Let_def) (simp add: set_run_def)
    with True show ?thesis unfolding Let_def by (intro exI [of _ "\<lambda>r. r"]) (simp add: keeps_run_def)
  next
    case False
    show ?thesis
      unfolding refresh_def Let_def if_not_P [OF False] shown_progress_def [symmetric]
      by (intro exI conjI, rule_tac [3] refl) (simp_all add: keeps_run_def)
  qed
qed

lemma runProgress_set_run: "runProgress (set_run f e) = runProgress e"
  by (simp add: runProgress_def task_done_def taskSucceeded_def current_attempt_def currentAttemptIndex_def set_run_def)

lemma run_exact_set_run:
  assumes "\<And>r. Run_Sink (f r) = Run_Sink r" and "run_sink_final e \<or> Run_Progress (f (run_of e)) = shown_progress e"
  shows "run_exact (set_run f e)"
proof -
  have "run_of (set_run f e) = f (run_of e)" by (simp add: set_run_def)
  then have "run_sink_final (set_run f e) = run_sink_final e" "shown_progress (set_run f e) = shown_progress e"
    by (simp_all add: run_sink_final_def shown_progress_def runProgress_set_run assms(1))
  with assms(2) show ?thesis by (simp add: run_exact_def set_run_def)
qed

lemma release_exact_run: "release_exact e \<Longrightarrow> dag_wf e \<Longrightarrow> keeps_run f \<Longrightarrow> release_exact (set_run f e)"
proof -
  assume exact: "release_exact e" and wf: "dag_wf e" and f: "keeps_run f"
  note sim = same_view_set_run [OF f, of e]
  have "current_attempt (set_run f e) x = current_attempt e x" for x
    by (simp add: current_attempt_def currentAttemptIndex_def set_run_def)
  then show ?thesis
    using exact same_view_succeeded [OF sim wf] same_view_blockers [OF sim wf]
    by (simp add: release_exact_def set_run_def)
qed

lemma refresh_correct:
  assumes "dag_wf e"
  shows "keeps_started e (refresh now touch e)" and "dag_wf (refresh now touch e)"
    and "branches_settled (refresh now touch e)" and "release_exact (refresh now touch e)"
    and "run_exact (refresh now touch e)"
proof -
  let ?e1 = "refreshVerdictBranches now e"
  let ?e2 = "fold refresh_task (tasks_of ?e1) ?e1"
  note keep1 = refreshVerdictBranches_settles [OF assms, of now]
  have wf1: "dag_wf ?e1" by (rule frame_wf [OF keeps_started_frame [OF keep1(1)] assms])
  then have "distinct (tasks_of ?e1)" by (simp add: dag_wf_def index_ok_def distinct_map)
  note pass = refresh_tasks [OF wf1 order_refl this]
  have sim: "same_view ?e1 ?e2" using pass by blast
  have wf2: "dag_wf ?e2" by (rule frame_wf [OF same_view_frame [OF sim] wf1])
  have tasks: "tasks_of ?e2 = tasks_of ?e1" using same_view_frame [OF sim] by (simp add: frame_def)
  have exact: "release_exact ?e2"
    unfolding release_exact_def
  proof (intro ballI impI)
    fix t assume t: "t \<in> set (tasks_of ?e2)" and w: "\<not> taskSucceeded ?e2 (Task_ID t) \<and> waiting (current_attempt ?e2 (Task_ID t))"
    then have t1: "t \<in> set (tasks_of ?e1)" by (simp add: tasks)
    have "\<not> taskSucceeded ?e1 (Task_ID t)" "waiting (current_attempt ?e1 (Task_ID t))"
      using w same_view_succeeded [OF sim wf1 t1] view_facts(5) [OF same_view_current(1) [OF sim wf1 t1]] by simp_all
    then have "current_attempt ?e2 (Task_ID t) = release_attempt (task_blockers ?e1 t) (current_attempt ?e1 (Task_ID t))"
      using pass t1 by (simp add: released_def Let_def)
    then show "Attempt_Progress (current_attempt ?e2 (Task_ID t)) = ProgressReady \<longleftrightarrow> task_blockers ?e2 t = []"
      using same_view_blockers [OF sim wf1 t1] by (simp add: release_attempt_def)
  qed
  obtain f where f: "keeps_run f" "\<And>r. Run_Sink (f r) = Run_Sink r" and eq: "refresh now touch e = set_run f ?e2"
    and progress: "run_sink_final ?e2 \<or> Run_Progress (f (run_of ?e2)) = shown_progress ?e2"
    using refresh_unfold [of now e touch] unfolding Let_def by blast
  note run = same_view_set_run [OF f(1), of ?e2]
  show "keeps_started e (refresh now touch e)"
    unfolding eq using keep1(1) same_view_keeps [OF sim] same_view_keeps [OF run] keeps_started_trans by blast
  show "dag_wf (refresh now touch e)" unfolding eq by (rule frame_wf [OF same_view_frame [OF run] wf2])
  show "branches_settled (refresh now touch e)"
    unfolding eq by (rule same_view_settled [OF run wf2 same_view_settled [OF sim wf1 keep1(2)]])
  show "release_exact (refresh now touch e)" unfolding eq by (rule release_exact_run [OF exact wf2 f(1)])
  show "run_exact (refresh now touch e)" unfolding eq by (rule run_exact_set_run [OF f(2) progress])
qed

text \<open>A started attempt is not touched by a refresh.\<close>

lemma refresh_keeps_attempt:
  assumes "dag_wf e" and "k < length (attempts_of e)" and "\<not> waiting (attempts_of e ! k)"
  shows "attempts_of (refresh now touch e) ! k = attempts_of e ! k"
  using refresh_correct(1) [OF assms(1)] assms(2,3) by (simp add: keeps_started_def)

lemma refresh_keeps_current:
  assumes "dag_wf e" and "t \<in> set (tasks_of e)" and "\<not> waiting (current_attempt e (Task_ID t))"
  shows "current_attempt (refresh now touch e) (Task_ID t) = current_attempt e (Task_ID t)"
  using refresh_keeps_attempt [OF assms(1) current_index(1) [OF assms(1,2)]] assms(3)
    frame_index [OF keeps_started_frame [OF refresh_correct(1) [OF assms(1)]]]
  by (simp add: current_attempt_def)

lemma refresh_waiting:
  assumes "dag_wf e" and "k < length (attempts_of e)" and "waiting (attempts_of e ! k)"
  shows "waits_or_skipped (attempts_of (refresh now touch e) ! k)"
  using refresh_correct(1) [OF assms(1)] assms(2,3) by (simp add: keeps_started_def)

lemma refresh_succeeded:
  assumes "dag_wf e" and "t \<in> set (tasks_of e)"
  shows "taskSucceeded (refresh now touch e) (Task_ID t) \<longleftrightarrow> taskSucceeded e (Task_ID t)"
proof -
  let ?e' = "refresh now touch e"
  have same: "Exec_attempts ?e' = Exec_attempts e"
    using keeps_started_frame [OF refresh_correct(1) [OF assms(1)]] by (simp add: frame_def)
  have "Attempt_Progress (attempts_of ?e' ! k) = ProgressSucceeded \<longleftrightarrow> Attempt_Progress (attempts_of e ! k) = ProgressSucceeded"
    if "k \<in> set (Exec_attempts e (Task_ID t))" for k
  proof -
    have k: "k < length (attempts_of e)" using that assms by (auto simp: dag_wf_def attempts_ok_def)
    show ?thesis
      using refresh_keeps_attempt [OF assms(1) k, of now touch] refresh_waiting [OF assms(1) k, of now touch]
      by (cases "waiting (attempts_of e ! k)") (auto simp: waits_or_skipped_def waiting_def)
  qed
  then show ?thesis by (auto simp: taskSucceeded_def same list_ex_iff)
qed

section \<open>Operations\<close>

lemma find_attempt_Some:
  "find_attempt i index as = Some k \<Longrightarrow> index \<le> k \<and> k < index + length as \<and> Attempt_ID (as ! (k - index)) = i"
  by (induction i index as rule: find_attempt.induct) (fastforce simp: nth_Cons' split: if_splits)+

lemma find_attempt_None: "find_attempt i index as = None \<longleftrightarrow> i \<notin> Attempt_ID ` set as"
  by (induction i index as rule: find_attempt.induct) auto

lemma attemptIndex_Inr: "attemptIndex e i = Inr k \<Longrightarrow> k < length (attempts_of e) \<and> Attempt_ID (attempts_of e ! k) = i"
  using find_attempt_Some [of i 0 "attempts_of e" k] by (auto simp: attemptIndex_def split: option.splits)

lemma StartAttempt_Inr:
  assumes "StartAttempt i now e = Inr e'"
  obtains k where "k < length (attempts_of e)" "Attempt_ID (attempts_of e ! k) = i"
    "Attempt_Progress (attempts_of e ! k) = ProgressReady"
    "e' = refresh now True (set_attempt k (\<lambda>a. a\<lparr>Attempt_Progress := ProgressActive, Attempt_Control := ControlRunning,
                        Attempt_StartedAt := Some now, Attempt_UpdatedAt := now\<rparr>) e)"
  using assms attemptIndex_Inr by (fastforce simp: StartAttempt_def Let_def split: sum.splits if_splits)

lemma CompleteAttempt_Inr:
  assumes "CompleteAttempt i result now e = Inr e'"
  obtains k where "k < length (attempts_of e)" "Attempt_ID (attempts_of e ! k) = i"
    "Attempt_Progress (attempts_of e ! k) \<in> {ProgressActive, ProgressVerifying}"
    "e' = refresh now True (set_attempt k (complete_attempt result now) e)"
  using assms attemptIndex_Inr by (fastforce simp: CompleteAttempt_def Let_def split: sum.splits if_splits)

lemma taskByID_Some:
  "dag_wf e \<Longrightarrow> Exec_taskByID e i = Some k \<Longrightarrow> k < length (tasks_of e) \<and> Task_ID (tasks_of e ! k) = i \<and> tasks_of e ! k \<in> set (tasks_of e)"
  by (auto simp: dag_wf_def index_ok_def)

lemma SkipTask_Inr:
  assumes "SkipTask taskID now e = Inr e'" and "dag_wf e"
  obtains t where "t \<in> set (tasks_of e)" "Task_ID t = taskID"
    "Attempt_Progress (current_attempt e taskID) \<notin> {ProgressSucceeded, ProgressSkipped}"
    "e' = refresh now True (set_attempt (currentAttemptIndex e taskID) (stop_attempt ProgressSkipped now) e)"
proof -
  from assms(1) obtain k where k: "Exec_taskByID e taskID = Some k"
    by (auto simp: SkipTask_def split: if_splits option.splits)
  note t = taskByID_Some [OF assms(2) k]
  show thesis
    by (rule that [of "tasks_of e ! k"])
      (use assms(1) k t in \<open>auto simp: SkipTask_def Let_def current_attempt_def split: if_splits\<close>)
qed

end
