(* ===== verification/DagOperations.thy ===== *)
theory DagOperations
  imports DagRefresh
begin

text \<open>
  The operations of a workflow execution: the closure that cancellation walks, the effect of
  each operation on the attempts, and the step relation whose reachable states satisfy the
  invariant of \<open>DagSpec\<close> and the exactness of the refresh.
\<close>

section \<open>Descendants\<close>

definition upward_closed :: "Task list \<Rightarrow> string set \<Rightarrow> bool" where
  "upward_closed tasks S \<longleftrightarrow> (\<forall>t \<in> set tasks. set (Task_Needs t) \<inter> S \<noteq> {} \<longrightarrow> Task_Name t \<in> S)"

lemma descend_task_step:
  assumes "descend_task t (sel, c) = (sel', c')" and "distinct sel"
  shows "distinct sel'" and "set sel \<subseteq> set sel'" and "set sel' \<subseteq> insert (Task_Name t) (set sel)"
    and "sel' = sel \<and> c' = c \<and> (set (Task_Needs t) \<inter> set sel \<noteq> {} \<longrightarrow> Task_Name t \<in> set sel)
      \<or> c' \<and> length sel < length sel' \<and> set (Task_Needs t) \<inter> set sel \<noteq> {}"
  using assms by (auto simp: descend_task_def list_ex_iff split: if_splits)

lemma descend_fold:
  "fold descend_task ts (sel, c) = (sel', c') \<Longrightarrow> distinct sel \<Longrightarrow>
     distinct sel' \<and> set sel \<subseteq> set sel' \<and> set sel' \<subseteq> set sel \<union> Task_Name ` set ts \<and> length sel \<le> length sel' \<and>
     (c \<longrightarrow> c') \<and> (\<not> c' \<longrightarrow> sel' = sel \<and> upward_closed ts (set sel)) \<and> (c' \<and> \<not> c \<longrightarrow> length sel < length sel') \<and>
     (\<forall>S. set sel \<subseteq> S \<and> upward_closed ts S \<longrightarrow> set sel' \<subseteq> S)"
proof (induction ts arbitrary: sel c)
  case Nil
  then show ?case by (simp add: upward_closed_def)
next
  case (Cons t ts)
  obtain sel1 c1 where step: "descend_task t (sel, c) = (sel1, c1)" by (cases "descend_task t (sel, c)")
  note one = descend_task_step [OF step Cons.prems(2)]
  from Cons.prems(1) step have "fold descend_task ts (sel1, c1) = (sel', c')" by simp
  note IH = Cons.IH [OF this one(1)]
  have within: "set sel' \<subseteq> S" if "set sel \<subseteq> S" "upward_closed (t # ts) S" for S
  proof -
    have "set sel1 \<subseteq> S" using one that by (auto simp: upward_closed_def)
    with IH that(2) show ?thesis by (simp add: upward_closed_def)
  qed
  have split: "upward_closed (t # ts) S \<longleftrightarrow>
      (set (Task_Needs t) \<inter> S \<noteq> {} \<longrightarrow> Task_Name t \<in> S) \<and> upward_closed ts S" for S
    by (simp add: upward_closed_def)
  have "set sel \<subseteq> set sel'" "set sel' \<subseteq> set sel \<union> Task_Name ` set (t # ts)" using one IH by auto
  with one(4) IH within show ?case by (elim disjE) (simp_all add: split)
qed

lemma descend_loop_correct:
  assumes "set sel \<subseteq> insert n (Task_Name ` set tasks)" and "distinct sel"
    and "card (insert n (Task_Name ` set tasks)) < fuel + length sel"
  shows "distinct (descend_loop fuel tasks sel) \<and> set sel \<subseteq> set (descend_loop fuel tasks sel) \<and>
     upward_closed tasks (set (descend_loop fuel tasks sel)) \<and>
     (\<forall>S. set sel \<subseteq> S \<and> upward_closed tasks S \<longrightarrow> set (descend_loop fuel tasks sel) \<subseteq> S)"
  using assms
proof (induction fuel tasks sel rule: descend_loop.induct)
  case (1 tasks sel)
  have "length sel \<le> card (insert n (Task_Name ` set tasks))"
    using "1.prems" by (metis List.finite_set card_mono distinct_card finite_imageI finite_insert)
  with "1.prems"(3) show ?case by simp
next
  case (2 fuel tasks sel)
  obtain sel' c where pass: "fold descend_task tasks (sel, False) = (sel', c)"
    by (cases "fold descend_task tasks (sel, False)")
  note step = descend_fold [OF pass "2.prems"(2)]
  show ?case
  proof (cases c)
    case False
    with step pass "2.prems"(2) show ?thesis by simp
  next
    case True
    have "set sel' \<subseteq> insert n (Task_Name ` set tasks)" using step "2.prems"(1) by auto
    moreover have "card (insert n (Task_Name ` set tasks)) < fuel + length sel'" using step True "2.prems"(3) by simp
    ultimately have IH: "distinct (descend_loop fuel tasks sel') \<and> set sel' \<subseteq> set (descend_loop fuel tasks sel') \<and>
       upward_closed tasks (set (descend_loop fuel tasks sel')) \<and>
       (\<forall>S. set sel' \<subseteq> S \<and> upward_closed tasks S \<longrightarrow> set (descend_loop fuel tasks sel') \<subseteq> S)"
      using "2.IH" [OF pass [symmetric] refl True] step by simp
    have "set (descend_loop fuel tasks sel') \<subseteq> S" if "set sel \<subseteq> S" "upward_closed tasks S" for S
      using IH step that by simp
    with IH step pass True show ?thesis by auto
  qed
qed

lemma descendantNames_correct:
  "distinct (descendantNames e n) \<and> set (descendantNames e n) = {m. (m, n) \<in> (needs_rel (tasks_of e))\<^sup>*}"
proof -
  let ?r = "descend_loop (Suc (length (tasks_of e))) (tasks_of e) [n]" and ?R = "needs_rel (tasks_of e)"
  have "card (insert n (Task_Name ` set (tasks_of e))) \<le> Suc (card (Task_Name ` set (tasks_of e)))"
    by (simp add: card_insert_if)
  also have "\<dots> \<le> Suc (length (tasks_of e))"
    by (metis Suc_le_mono List.finite_set card_image_le card_length le_trans)
  finally have fuel: "card (insert n (Task_Name ` set (tasks_of e))) < Suc (length (tasks_of e)) + length [n]" by simp
  have loop: "distinct ?r \<and> set [n] \<subseteq> set ?r \<and> upward_closed (tasks_of e) (set ?r) \<and>
      (\<forall>S. set [n] \<subseteq> S \<and> upward_closed (tasks_of e) S \<longrightarrow> set ?r \<subseteq> S)"
    by (rule descend_loop_correct [OF _ _ fuel]) simp_all
  have "m \<in> set ?r" if "(m, n) \<in> ?R\<^sup>*" for m
    using that
  proof (induction rule: converse_rtrancl_induct)
    case base
    from loop have "set [n] \<subseteq> set ?r" by blast
    then show ?case by (rule subsetD) simp
  next
    case (step m d)
    then obtain t where "t \<in> set (tasks_of e)" "Task_Name t = m" "d \<in> set (Task_Needs t)" by (auto simp: needs_rel_def)
    moreover have "upward_closed (tasks_of e) (set ?r)" using loop by blast
    ultimately show ?case using step.IH unfolding upward_closed_def by blast
  qed
  moreover have "set ?r \<subseteq> {m. (m, n) \<in> ?R\<^sup>*}"
  proof -
    have "upward_closed (tasks_of e) {m. (m, n) \<in> ?R\<^sup>*}"
      unfolding upward_closed_def
    proof (intro ballI impI)
      fix t assume t: "t \<in> set (tasks_of e)" and "set (Task_Needs t) \<inter> {m. (m, n) \<in> ?R\<^sup>*} \<noteq> {}"
      then obtain d where d: "d \<in> set (Task_Needs t)" "(d, n) \<in> ?R\<^sup>*" by blast
      with t have "(Task_Name t, d) \<in> ?R" unfolding needs_rel_def by blast
      with d(2) show "Task_Name t \<in> {m. (m, n) \<in> ?R\<^sup>*}" by (simp add: converse_rtrancl_into_rtrancl)
    qed
    moreover have "set [n] \<subseteq> {m. (m, n) \<in> ?R\<^sup>*}" by simp
    ultimately show ?thesis using loop by blast
  qed
  ultimately have "set ?r = {m. (m, n) \<in> ?R\<^sup>*}" by blast
  moreover from loop have "distinct ?r" by blast
  ultimately show ?thesis unfolding descendantNames_def distinct_sort_less set_sort_less by blast
qed

section \<open>Cancellation\<close>

definition keeps_terminal :: "DAGExecution \<Rightarrow> DAGExecution \<Rightarrow> bool" where
  "keeps_terminal e e' \<longleftrightarrow> frame e e' \<and> (\<forall>k < length (attempts_of e).
     Terminal (Attempt_Progress (attempts_of e ! k)) \<longrightarrow> attempts_of e' ! k = attempts_of e ! k)"

lemma keeps_terminal_trans: "keeps_terminal e e' \<Longrightarrow> keeps_terminal e' e'' \<Longrightarrow> keeps_terminal e e''"
  unfolding keeps_terminal_def by (metis frame_length frame_trans)

lemma terminal_not_waiting: "Terminal (Attempt_Progress a) \<Longrightarrow> \<not> waiting a"
  by (auto simp: waiting_def)

lemma keeps_terminal_started: "keeps_started e e' \<Longrightarrow> keeps_terminal e e'"
  unfolding keeps_terminal_def keeps_started_def using terminal_not_waiting by metis

lemma keeps_terminal_current:
  assumes "keeps_terminal e e'" and "dag_wf e" and "t \<in> set (tasks_of e)"
    and "Terminal (Attempt_Progress (current_attempt e (Task_ID t)))"
  shows "current_attempt e' (Task_ID t) = current_attempt e (Task_ID t)"
  using assms current_index(1) [OF assms(2,3)] frame_index
  by (auto simp: keeps_terminal_def current_attempt_def)

lemma cancel_named_step:
  assumes "dag_wf e" and "n \<in> node_names e" and "cancel_named now n (e, c) = (e', c')"
  shows "keeps_terminal e e'" and "Terminal (Attempt_Progress (current_attempt e' (Task_ID (task_named e n))))"
proof -
  let ?t = "task_named e n"
  let ?i = "currentAttemptIndex e (Task_ID ?t)"
  have t: "?t \<in> set (tasks_of e)" using task_named_in(1) assms(1,2) by (simp add: dag_wf_def)
  have i: "?i < length (attempts_of e)" by (rule current_index(1) [OF assms(1) t])
  have index: "currentAttemptIndex (set_attempt ?i (stop_attempt ProgressCancelled now) e) (Task_ID ?t) = ?i"
    by (simp add: currentAttemptIndex_def dag_simps)
  have stop: "attempts_of (set_attempt ?i (stop_attempt ProgressCancelled now) e) ! k = attempts_of e ! k"
    if "k \<noteq> ?i" for k using that by (simp add: dag_simps)
  show "keeps_terminal e e'"
    using assms(3) stop frame_set_attempt [of "stop_attempt ProgressCancelled now" e ?i]
    by (auto simp: cancel_named_def Let_def keeps_terminal_def split: if_splits intro!: stop)
  show "Terminal (Attempt_Progress (current_attempt e' (Task_ID ?t)))"
    using assms(3) i
    by (auto simp: cancel_named_def Let_def current_attempt_def index dag_simps stop_attempt_def split: if_splits)
qed

lemma cancel_fold:
  "dag_wf e \<Longrightarrow> set ns \<subseteq> node_names e \<Longrightarrow> fold (cancel_named now) ns (e, c) = (e', c') \<Longrightarrow>
     keeps_terminal e e' \<and> (\<forall>n \<in> set ns. Terminal (Attempt_Progress (current_attempt e' (Task_ID (task_named e n)))))"
proof (induction ns arbitrary: e c)
  case Nil
  then show ?case by (simp add: keeps_terminal_def)
next
  case (Cons n ns)
  obtain e1 c1 where step: "cancel_named now n (e, c) = (e1, c1)" by (cases "cancel_named now n (e, c)")
  have n: "n \<in> node_names e" using Cons.prems(2) by simp
  note one = cancel_named_step [OF Cons.prems(1) n step]
  have frame: "frame e e1" using one(1) by (simp add: keeps_terminal_def)
  have tasks: "tasks_of e1 = tasks_of e" using frame by (simp add: frame_def)
  have wf: "dag_wf e1" by (rule frame_wf [OF frame Cons.prems(1)])
  have rest: "fold (cancel_named now) ns (e1, c1) = (e', c')" using Cons.prems(3) step by simp
  have IH: "keeps_terminal e1 e' \<and> (\<forall>n \<in> set ns. Terminal (Attempt_Progress (current_attempt e' (Task_ID (task_named e1 n)))))"
    using Cons.prems(2) tasks by (intro Cons.IH [OF wf _ rest]) simp
  have t: "task_named e n \<in> set (tasks_of e1)"
    using task_named_in(1) [of e n] n Cons.prems(1) tasks by (simp add: dag_wf_def)
  have "current_attempt e' (Task_ID (task_named e n)) = current_attempt e1 (Task_ID (task_named e n))"
    using IH by (intro keeps_terminal_current [OF _ wf t one(2)]) simp
  then have "Terminal (Attempt_Progress (current_attempt e' (Task_ID (task_named e n))))" using one(2) by simp
  with IH keeps_terminal_trans [OF one(1)] frame_task_named [OF frame] show ?case by simp
qed

lemma CancelTask_Inr:
  assumes "CancelTask taskID now e = Inr e'" and "dag_wf e"
  obtains t e1 where "t \<in> set (tasks_of e)" "Task_ID t = taskID" "keeps_terminal e e1"
    "\<And>q. q \<in> set (tasks_of e) \<Longrightarrow> (Task_Name q, Task_Name t) \<in> (needs_rel (tasks_of e))\<^sup>* \<Longrightarrow>
       Terminal (Attempt_Progress (current_attempt e1 (Task_ID q)))"
    "e' = refresh now True e1"
proof -
  from assms(1) obtain k where k: "Exec_taskByID e taskID = Some k"
    by (auto simp: CancelTask_def split: if_splits option.splits)
  let ?t = "tasks_of e ! k"
  note t = taskByID_Some [OF assms(2) k]
  have index: "index_ok e" using assms(2) by (simp add: dag_wf_def)
  obtain e1 c where fold: "fold (cancel_named now) (descendantNames e (Task_Name ?t)) (e, False) = (e1, c)"
    by (cases "fold (cancel_named now) (descendantNames e (Task_Name ?t)) (e, False)")
  have e': "e' = refresh now True e1"
    using assms(1) k fold by (auto simp: CancelTask_def Let_def split: if_splits)
  have names: "set (descendantNames e (Task_Name ?t)) \<subseteq> node_names e"
  proof
    fix m assume "m \<in> set (descendantNames e (Task_Name ?t))"
    then have "(m, Task_Name ?t) \<in> (needs_rel (tasks_of e))\<^sup>*" using descendantNames_correct by blast
    then show "m \<in> node_names e" using t by (cases rule: converse_rtranclE) (auto simp: needs_rel_def)
  qed
  note cancel = cancel_fold [OF assms(2) names fold]
  show thesis
  proof (rule that [of ?t e1])
    fix q assume q: "q \<in> set (tasks_of e)" "(Task_Name q, Task_Name ?t) \<in> (needs_rel (tasks_of e))\<^sup>*"
    then have "Task_Name q \<in> set (descendantNames e (Task_Name ?t))" using descendantNames_correct by blast
    with cancel task_named_eq [OF index q(1)]
    show "Terminal (Attempt_Progress (current_attempt e1 (Task_ID q)))" by force
  qed (use t cancel e' in auto)
qed

text \<open>A retry appends one attempt with the next number.\<close>

definition add_attempt :: "string \<Rightarrow> Attempt \<Rightarrow> DAGExecution \<Rightarrow> DAGExecution" where
  "add_attempt taskID a e =
     e\<lparr>Exec_state := (Exec_state e)\<lparr>State_Attempts := attempts_of e @ [a]\<rparr>,
       Exec_attempts := (Exec_attempts e)(taskID := Exec_attempts e taskID @ [length (attempts_of e)])\<rparr>"

lemma RetryTask_Inr:
  assumes "RetryTask taskID attemptID now e = Inr e'" and "dag_wf e"
  obtains t where "t \<in> set (tasks_of e)" "Task_ID t = taskID" "attemptID \<notin> Attempt_ID ` set (attempts_of e)"
    "attemptID \<noteq> ''''"
    "Attempt_Progress (current_attempt e taskID) \<in> {ProgressFailed, ProgressCancelled}"
    "e' = refresh now True (add_attempt taskID
       (retry_attempt e taskID attemptID (wrap64 (Attempt_Number (current_attempt e taskID) + 1)) now) e)"
proof -
  from assms(1) obtain k where k: "Exec_taskByID e taskID = Some k"
    by (auto simp: RetryTask_def split: if_splits option.splits)
  note t = taskByID_Some [OF assms(2) k]
  from assms(1) k have "\<not> (case attemptIndex e attemptID of Inr _ \<Rightarrow> True | Inl _ \<Rightarrow> False)"
    by (auto simp: RetryTask_def split: if_splits)
  then have fresh: "attemptID \<notin> Attempt_ID ` set (attempts_of e)"
    using find_attempt_None [of attemptID 0 "attempts_of e"] by (auto simp: attemptIndex_def split: option.splits)
  show thesis
    by (rule that [of "tasks_of e ! k"])
      (use assms(1) k t fresh in \<open>auto simp: RetryTask_def Let_def add_attempt_def split: if_splits\<close>)
qed

lemma add_attempt_sel [dag_simps]:
  "tasks_of (add_attempt i a e) = tasks_of e" "attempts_of (add_attempt i a e) = attempts_of e @ [a]"
  "Exec_taskByID (add_attempt i a e) = Exec_taskByID e" "Exec_taskByName (add_attempt i a e) = Exec_taskByName e"
  "Exec_attempts (add_attempt i a e) = (Exec_attempts e)(i := Exec_attempts e i @ [length (attempts_of e)])"
  by (simp_all add: add_attempt_def)

lemma last_number:
  assumes "dag_wf e" and "t \<in> set (tasks_of e)" and "k \<in> set (Exec_attempts e (Task_ID t))"
  shows "Attempt_Number (attempts_of e ! k) \<le> Attempt_Number (current_attempt e (Task_ID t))"
proof -
  let ?is = "Exec_attempts e (Task_ID t)" and ?n = "\<lambda>k. Attempt_Number (attempts_of e ! k)"
  have sorted: "sorted_wrt (\<lambda>i j. ?n i < ?n j) ?is" using assms(1,2) by (simp add: dag_wf_def attempts_ok_def)
  obtain j where j: "j < length ?is" "?is ! j = k" using assms(3) by (auto simp: in_set_conv_nth)
  have current: "current_attempt e (Task_ID t) = attempts_of e ! (?is ! (length ?is - 1))"
    by (simp add: current_attempt_def currentAttemptIndex_def Let_def)
  show ?thesis
  proof (cases "j = length ?is - 1")
    case True
    with j current show ?thesis by simp
  next
    case False
    with j have "j < length ?is - 1" "length ?is - 1 < length ?is" by auto
    then have "?n (?is ! j) < ?n (?is ! (length ?is - 1))" using sorted by (simp add: sorted_wrt_iff_nth_less)
    with j current show ?thesis by simp
  qed
qed

lemma add_attempt_wf:
  assumes "dag_wf e" and "t \<in> set (tasks_of e)" and "Attempt_TaskID a = Task_ID t"
    and "Attempt_ID a \<notin> Attempt_ID ` set (attempts_of e)"
    and "Attempt_Number (current_attempt e (Task_ID t)) < Attempt_Number a"
  shows "dag_wf (add_attempt (Task_ID t) a e)"
proof -
  let ?as = "attempts_of e" and ?n = "length (attempts_of e)"
  have ok: "attempts_ok e" using assms(1) by (simp add: dag_wf_def)
  have each: "Exec_attempts e (Task_ID q) \<noteq> []" "set (Exec_attempts e (Task_ID q)) = {i. i < ?n \<and> Attempt_TaskID (?as ! i) = Task_ID q}"
    "sorted_wrt (\<lambda>i j. Attempt_Number (?as ! i) < Attempt_Number (?as ! j)) (Exec_attempts e (Task_ID q))"
    if "q \<in> set (tasks_of e)" for q using ok that by (auto simp: attempts_ok_def)
  have old: "sorted_wrt (\<lambda>i j. Attempt_Number ((?as @ [a]) ! i) < Attempt_Number ((?as @ [a]) ! j)) (Exec_attempts e (Task_ID q))"
    if "q \<in> set (tasks_of e)" for q
    using each(3) [OF that] by (rule sorted_wrt_mono_rel [rotated]) (use each(2) [OF that] in \<open>auto simp: nth_append\<close>)
  have less: "Attempt_Number ((?as @ [a]) ! k) < Attempt_Number ((?as @ [a]) ! ?n)"
    if "k \<in> set (Exec_attempts e (Task_ID t))" for k
  proof -
    have "k < ?n" using that each(2) [OF assms(2)] by blast
    then show ?thesis using last_number [OF assms(1,2) that] assms(5) by (simp add: nth_append)
  qed
  have new: "sorted_wrt (\<lambda>i j. Attempt_Number ((?as @ [a]) ! i) < Attempt_Number ((?as @ [a]) ! j))
      (Exec_attempts e (Task_ID t) @ [?n])"
    unfolding sorted_wrt_append
  proof (intro conjI ballI old [OF assms(2)])
    fix x y assume x: "x \<in> set (Exec_attempts e (Task_ID t))" and "y \<in> set [?n]"
    then have y: "y = ?n" by simp
    show "Attempt_Number ((?as @ [a]) ! x) < Attempt_Number ((?as @ [a]) ! y)" unfolding y by (rule less [OF x])
  qed simp
  have indices: "set (Exec_attempts (add_attempt (Task_ID t) a e) (Task_ID q)) =
      {i. i < length (?as @ [a]) \<and> Attempt_TaskID ((?as @ [a]) ! i) = Task_ID q}" if "q \<in> set (tasks_of e)" for q
  proof (rule set_eqI)
    fix i
    have "i < length (?as @ [a]) \<and> Attempt_TaskID ((?as @ [a]) ! i) = Task_ID q \<longleftrightarrow>
        i \<in> set (Exec_attempts e (Task_ID q)) \<or> i = ?n \<and> Task_ID t = Task_ID q"
      unfolding each(2) [OF that] using assms(3) by (cases "i < ?n") (auto simp: nth_append)
    then show "i \<in> set (Exec_attempts (add_attempt (Task_ID t) a e) (Task_ID q)) \<longleftrightarrow>
        i \<in> {i. i < length (?as @ [a]) \<and> Attempt_TaskID ((?as @ [a]) ! i) = Task_ID q}"
      by (cases "Task_ID q = Task_ID t") (auto simp: dag_simps)
  qed
  have "attempts_ok (add_attempt (Task_ID t) a e)"
    unfolding attempts_ok_def
  proof (intro conjI ballI)
    show "distinct (map Attempt_ID (attempts_of (add_attempt (Task_ID t) a e)))"
      using ok assms(4) by (simp add: attempts_ok_def dag_simps)
    show "Attempt_TaskID x \<in> Task_ID ` set (tasks_of (add_attempt (Task_ID t) a e))"
      if "x \<in> set (attempts_of (add_attempt (Task_ID t) a e))" for x
      using that ok assms(2,3) by (auto simp: attempts_ok_def dag_simps)
  next
    fix q assume "q \<in> set (tasks_of (add_attempt (Task_ID t) a e))"
    then have q: "q \<in> set (tasks_of e)" by (simp add: dag_simps)
    show "Exec_attempts (add_attempt (Task_ID t) a e) (Task_ID q) \<noteq> []" using each(1) [OF q] by (simp add: dag_simps)
    show "sorted_wrt (\<lambda>i j. Attempt_Number (attempts_of (add_attempt (Task_ID t) a e) ! i)
        < Attempt_Number (attempts_of (add_attempt (Task_ID t) a e) ! j)) (Exec_attempts (add_attempt (Task_ID t) a e) (Task_ID q))"
      using new old [OF q] by (simp add: dag_simps)
  qed (use indices in \<open>simp add: dag_simps\<close>)
  then show ?thesis using assms(1) by (simp add: dag_wf_def index_ok_def needs_closed_def dag_simps)
qed

section \<open>Validity is kept\<close>

lemma map_identity:
  assumes "map identity xs = map identity ys"
  shows "map Attempt_ID xs = map Attempt_ID ys"
    and "map (\<lambda>a. (Attempt_TaskID a, Attempt_Number a)) xs = map (\<lambda>a. (Attempt_TaskID a, Attempt_Number a)) ys"
    and "identity ` set xs = identity ` set ys"
proof -
  have "map (f \<circ> identity) xs = map (f \<circ> identity) ys" for f :: "string \<times> string \<times> int \<times> string \<Rightarrow> 'x"
    using arg_cong [OF assms, of "map f"] by simp
  from this [of fst] this [of "\<lambda>(_, t, n, _). (t, n)"]
  show "map Attempt_ID xs = map Attempt_ID ys"
    "map (\<lambda>a. (Attempt_TaskID a, Attempt_Number a)) xs = map (\<lambda>a. (Attempt_TaskID a, Attempt_Number a)) ys"
    by (simp_all add: identity_def comp_def)
  show "identity ` set xs = identity ` set ys" using arg_cong [OF assms, of set] by simp
qed

lemma valid_attempts_identity:
  "valid_attempts state \<longleftrightarrow>
     (\<forall>(i, t, n, r) \<in> identity ` set (State_Attempts state). i \<noteq> '''' \<and> r = Run_ID (State_Run state) \<and>
        t \<in> Task_ID ` set (State_Tasks state) \<and> 1 \<le> n) \<and>
     distinct (map Attempt_ID (State_Attempts state)) \<and>
     distinct (map (\<lambda>a. (Attempt_TaskID a, Attempt_Number a)) (State_Attempts state)) \<and>
     (\<forall>t \<in> set (State_Tasks state). \<exists>(i, u, n, r) \<in> identity ` set (State_Attempts state). u = Task_ID t)"
  by (simp add: valid_attempts_def identity_def)

lemma frame_valid:
  assumes "frame e e'" and "valid_dag (Exec_state e)"
  shows "valid_dag (Exec_state e')"
proof -
  have same: "tasks_of e' = tasks_of e" "Run_ID (run_of e') = Run_ID (run_of e)"
    "Run_WorkflowID (run_of e') = Run_WorkflowID (run_of e)" "map identity (attempts_of e') = map identity (attempts_of e)"
    using assms(1) by (simp_all add: frame_def)
  have "valid_tasks (Exec_state e') = valid_tasks (Exec_state e)" "valid_needs (Exec_state e') = valid_needs (Exec_state e)"
    by (simp_all only: valid_tasks_def valid_needs_def same)
  moreover have "valid_attempts (Exec_state e') = valid_attempts (Exec_state e)"
    by (simp only: valid_attempts_identity same map_identity [OF same(4)])
  ultimately show ?thesis using assms(2) by (simp add: valid_dag_def same)
qed

lemma add_attempt_valid:
  assumes "dag_wf e" and "valid_dag (Exec_state e)" and "t \<in> set (tasks_of e)"
    and "Attempt_TaskID a = Task_ID t \<and> Attempt_WorkflowRunID a = Run_ID (run_of e)" and "Attempt_ID a \<noteq> ''''"
    and "Attempt_ID a \<notin> Attempt_ID ` set (attempts_of e)"
    and "Attempt_Number (current_attempt e (Task_ID t)) < Attempt_Number a"
  shows "valid_dag (Exec_state (add_attempt (Task_ID t) a e))"
proof -
  have old: "valid_attempts (Exec_state e)" using assms(2) by (simp add: valid_dag_def)
  have smaller: "Attempt_Number b < Attempt_Number a" if b: "b \<in> set (attempts_of e)" "Attempt_TaskID b = Task_ID t" for b
  proof -
    obtain k where k: "k < length (attempts_of e)" "attempts_of e ! k = b" using b(1) by (metis in_set_conv_nth)
    then have "k \<in> set (Exec_attempts e (Task_ID t))"
      using assms(1,3) b(2) by (simp add: dag_wf_def attempts_ok_def)
    from last_number [OF assms(1,3) this] k(2) assms(7) show ?thesis by simp
  qed
  have "currentAttemptIndex e (Task_ID t) < length (attempts_of e)" by (rule current_index(1) [OF assms(1,3)])
  then have "current_attempt e (Task_ID t) \<in> set (attempts_of e)" by (simp add: current_attempt_def)
  then have "1 \<le> Attempt_Number a" using old assms(7) by (force simp: valid_attempts_def)
  moreover have "(Attempt_TaskID a, Attempt_Number a) \<notin> (\<lambda>a. (Attempt_TaskID a, Attempt_Number a)) ` set (attempts_of e)"
    using smaller assms(4) by force
  ultimately have "valid_attempts (Exec_state (add_attempt (Task_ID t) a e))"
    using old assms(3-6) by (auto simp: valid_attempts_def add_attempt_def)
  then show ?thesis
    using assms(2) by (simp add: valid_dag_def valid_tasks_def valid_needs_def add_attempt_def)
qed

section \<open>Reachable executions\<close>

text \<open>
  The states a caller can bring an execution to: one that the constructor returned, followed by
  any sequence of successful operations. A retry stays below the largest attempt number an
  \<open>int\<close> holds.
\<close>

inductive dag_step :: "DAGExecution \<Rightarrow> DAGExecution \<Rightarrow> bool" where
  start: "StartAttempt i now e = Inr e' \<Longrightarrow> dag_step e e'"
| complete: "CompleteAttempt i result now e = Inr e' \<Longrightarrow> dag_step e e'"
| cancel: "CancelTask t now e = Inr e' \<Longrightarrow> dag_step e e'"
| skip: "SkipTask t now e = Inr e' \<Longrightarrow> dag_step e e'"
| retry: "RetryTask t i now e = Inr e' \<Longrightarrow> in_int64 (Attempt_Number (current_attempt e t)) \<Longrightarrow>
    Attempt_Number (current_attempt e t) < max_int64 \<Longrightarrow> dag_step e e'"

inductive dag_reachable :: "DAGExecution \<Rightarrow> bool" where
  new: "NewDAGExecution state = Some (Inr e) \<Longrightarrow> dag_reachable e"
| step: "dag_reachable e \<Longrightarrow> dag_step e e' \<Longrightarrow> dag_reachable e'"

text \<open>Every operation ends with a refresh of a well-formed execution.\<close>

lemma dag_step_refresh:
  assumes "dag_step e e'" and "dag_wf e"
  obtains now e1 where "dag_wf e1" "e' = refresh now True e1" "length (attempts_of e) \<le> length (attempts_of e1)"
    "\<And>k. k < length (attempts_of e) \<Longrightarrow> Attempt_Progress (attempts_of e ! k) = ProgressSucceeded \<Longrightarrow>
       attempts_of e1 ! k = attempts_of e ! k"
    "valid_dag (Exec_state e) \<Longrightarrow> valid_dag (Exec_state e1)"
proof -
  note result = that
  have update: thesis if "e' = refresh now True (set_attempt k f e)" "keeps_identity f"
    "Attempt_Progress (attempts_of e ! k) \<noteq> ProgressSucceeded" for now k f
  proof (rule result [OF _ that(1)])
    show "dag_wf (set_attempt k f e)" by (rule frame_wf [OF frame_set_attempt [OF that(2)] assms(2)])
    show "valid_dag (Exec_state (set_attempt k f e))" if "valid_dag (Exec_state e)"
      using frame_valid [OF frame_set_attempt] that \<open>keeps_identity f\<close> by blast
    show "attempts_of (set_attempt k f e) ! j = attempts_of e ! j"
      if "Attempt_Progress (attempts_of e ! j) = ProgressSucceeded" for j
      using that \<open>Attempt_Progress (attempts_of e ! k) \<noteq> ProgressSucceeded\<close> by (cases "j = k") (simp_all add: dag_simps)
  qed (simp add: dag_simps)
  from assms(1) show thesis
  proof cases
    case (start i now)
    then show thesis by (rule StartAttempt_Inr) (rule update, assumption, simp_all)
  next
    case (complete i r now)
    then show thesis by (rule CompleteAttempt_Inr) (rule update, assumption, auto)
  next
    case (skip t now)
    then show thesis
      by (rule SkipTask_Inr [OF _ assms(2)]) (rule update, assumption, auto simp: current_attempt_def)
  next
    case (cancel taskID now)
    obtain e1 where "keeps_terminal e e1" "e' = refresh now True e1"
      by (rule CancelTask_Inr [OF cancel assms(2)]) blast
    then show thesis
      by (intro result [of e1 now])
        (auto simp: keeps_terminal_def frame_length intro: frame_wf [OF _ assms(2)] frame_valid)
  next
    case (retry taskID i now)
    obtain t where t: "t \<in> set (tasks_of e)" "Task_ID t = taskID" "i \<notin> Attempt_ID ` set (attempts_of e)"
      "e' = refresh now True (add_attempt taskID
         (retry_attempt e taskID i (wrap64 (Attempt_Number (current_attempt e taskID) + 1)) now) e)" and "i \<noteq> ''''"
      by (rule RetryTask_Inr [OF retry(1) assms(2)]) blast
    let ?a = "retry_attempt e taskID i (wrap64 (Attempt_Number (current_attempt e taskID) + 1)) now"
    have less: "Attempt_Number (current_attempt e (Task_ID t)) < Attempt_Number ?a"
      using t retry by (simp add: retry_attempt_def wrap64_Suc)
    have "dag_wf (add_attempt (Task_ID t) ?a e)"
      using t less by (intro add_attempt_wf [OF assms(2) t(1)]) (simp_all add: retry_attempt_def)
    moreover have "valid_dag (Exec_state (add_attempt (Task_ID t) ?a e))" if "valid_dag (Exec_state e)"
      using t less \<open>i \<noteq> ''''\<close>
      by (intro add_attempt_valid [OF assms(2) that t(1) _ _ _ less]) (simp_all add: retry_attempt_def)
    ultimately show thesis using t by (intro result [OF _ t(4)]) (simp_all add: dag_simps nth_append)
  qed
qed

lemma cloneDAGState_id [simp]: "cloneDAGState state = state"
  by (simp add: cloneDAGState_def)

lemma NewDAGExecution_Inr:
  assumes "NewDAGExecution state = Some (Inr e)"
  obtains e0 where "dag_wf e0" "Exec_state e0 = state" "e = refresh 0 False e0" "valid_dag state"
proof -
  let ?start = "\<lparr>Exec_state = state, Exec_taskByID = Map.empty, Exec_taskByName = [], Exec_attempts = (\<lambda>_. [])\<rparr>"
  from assms obtain e0 where "indexAndValidate ?start = Some (Inr e0)" "e = refresh 0 False e0"
    by (auto simp: NewDAGExecution_def split: option.splits sum.splits)
  with indexAndValidate_correct [of ?start] show thesis by (intro that [of e0]) auto
qed

lemma reachable_ok:
  "dag_reachable e \<Longrightarrow> dag_wf e \<and> branches_settled e \<and> release_exact e \<and> run_exact e \<and> valid_dag (Exec_state e)"
proof (induction rule: dag_reachable.induct)
  case (new state e)
  then obtain e0 where e0: "dag_wf e0" "Exec_state e0 = state" "e = refresh 0 False e0" "valid_dag state"
    by (rule NewDAGExecution_Inr)
  have "valid_dag (Exec_state e)"
    unfolding e0(3) by (rule frame_valid [OF keeps_started_frame [OF refresh_correct(1) [OF e0(1)]]]) (simp add: e0)
  with e0 show ?case by (simp add: refresh_correct)
next
  case (step e e')
  then have wf: "dag_wf e" and valid: "valid_dag (Exec_state e)" by simp_all
  obtain now e1 where e1: "dag_wf e1" "e' = refresh now True e1" "valid_dag (Exec_state e1)"
    by (rule dag_step_refresh [OF step.hyps(2) wf]) (use valid in blast)
  have "valid_dag (Exec_state e')"
    unfolding e1(2) by (rule frame_valid [OF keeps_started_frame [OF refresh_correct(1) [OF e1(1)]] e1(3)])
  with e1 show ?case by (simp add: refresh_correct)
qed

end
