(* ===== verification/DagProperties.thy ===== *)
theory DagProperties
  imports DagOperations SinkProperties
begin

text \<open>
  The properties of the execution of one workflow run: which projections are accepted, the
  invariant of every reachable execution, when a task becomes ready, what cancelling, skipping,
  completing and retrying do, and when the run has succeeded.
\<close>

section \<open>Sample execution\<close>

text \<open>Three tasks in a row; the first is ready, then running.\<close>

definition sample_dag :: DAGState where
  "sample_dag = \<lparr>State_External = Map.empty, State_Run = sample_run,
     State_Tasks = [sample_task ''a'' [], sample_task ''b'' [''a''], sample_task ''c'' [''b'']],
     State_Attempts = map (\<lambda>n. sample_attempt n ProgressBlocked) [''a'', ''b'', ''c'']\<rparr>"

definition sample_exec :: DAGExecution where
  "sample_exec = (case NewDAGExecution sample_dag of Some (Inr e) \<Rightarrow> e)"

definition inr_of :: "'a go_result \<Rightarrow> 'a" where
  "inr_of r = (case r of Inr e \<Rightarrow> e)"

definition sample_started :: DAGExecution where
  "sample_started = inr_of (StartAttempt ''a-1'' 5 sample_exec)"

definition sample_result :: CompletionResult where
  "sample_result = \<lparr>Result_ExplicitSuccess = True, Result_VerificationPassed = True, Result_Failure = ''''\<rparr>"

definition sample_done :: DAGExecution where
  "sample_done = inr_of (CompleteAttempt ''a-1'' sample_result 6 sample_started)"

definition sample_cancelled :: DAGExecution where
  "sample_cancelled = inr_of (CancelTask ''b'' 7 sample_done)"

lemma inr_of_eq: "(case r of Inr _ \<Rightarrow> True | Inl _ \<Rightarrow> False) \<Longrightarrow> r = Inr (inr_of r)"
  by (simp add: inr_of_def split: sum.splits)

lemma sample_new: "NewDAGExecution sample_dag = Some (Inr sample_exec)"
proof -
  have "case NewDAGExecution sample_dag of Some (Inr _) \<Rightarrow> True | _ \<Rightarrow> False" by code_simp
  then show ?thesis by (auto simp: sample_exec_def split: option.splits sum.splits)
qed

lemma sample_steps:
  "StartAttempt ''a-1'' 5 sample_exec = Inr sample_started"
  "CompleteAttempt ''a-1'' sample_result 6 sample_started = Inr sample_done"
  "CancelTask ''b'' 7 sample_done = Inr sample_cancelled"
  unfolding sample_started_def sample_done_def sample_cancelled_def by (rule inr_of_eq, code_simp)+

lemma sample_reachable:
  "dag_reachable sample_exec" "dag_reachable sample_started" "dag_reachable sample_done" "dag_reachable sample_cancelled"
proof -
  show exec: "dag_reachable sample_exec" by (rule dag_reachable.new [OF sample_new])
  show started: "dag_reachable sample_started" by (rule dag_reachable.step [OF exec dag_step.start [OF sample_steps(1)]])
  show completed: "dag_reachable sample_done"
    by (rule dag_reachable.step [OF started dag_step.complete [OF sample_steps(2)]])
  show "dag_reachable sample_cancelled" by (rule dag_reachable.step [OF completed dag_step.cancel [OF sample_steps(3)]])
qed

section \<open>Construction\<close>

lemma NewDAGExecution_valid:
  "NewDAGExecution state \<noteq> None \<and> ((\<exists>e. NewDAGExecution state = Some (Inr e)) \<longleftrightarrow> valid_dag state)"
proof -
  let ?start = "\<lparr>Exec_state = state, Exec_taskByID = Map.empty, Exec_taskByName = [], Exec_attempts = (\<lambda>_. [])\<rparr>"
  from indexAndValidate_correct [of ?start] obtain r where r: "indexAndValidate ?start = Some r"
    and iff: "(\<exists>e. r = Inr e) \<longleftrightarrow> valid_dag state" by auto
  have "NewDAGExecution state = Some (case r of Inl err \<Rightarrow> Inl err | Inr e \<Rightarrow> Inr (refresh 0 False e))"
    using r by (simp add: NewDAGExecution_def split: sum.split)
  then show ?thesis using iff by (cases r) auto
qed

text \<open>
  C9. Building an execution always returns, and it accepts a stored projection exactly when
  the projection is a valid workflow graph: identified run, well-formed tasks with distinct
  identifiers and names, dependencies that exist and form no cycle, verdict conditions on
  reviewing dependencies, and attempts of this run that number the attempts of every task.
\<close>

theorem new_execution_accepts_exactly_valid:
  "NewDAGExecution state \<noteq> None \<and> ((\<exists>e. NewDAGExecution state = Some (Inr e)) \<longleftrightarrow> valid_dag state)"
  by (rule NewDAGExecution_valid)

section \<open>The invariant\<close>

text \<open>
  C10. Every execution that the operations can reach from an accepted projection is well formed
  (indices in range, one ordered list of attempts per task, no cycle), has no unassigned waiting
  task on a branch that a verdict ruled out, and its waiting tasks are ready exactly when
  nothing blocks them.
\<close>

theorem reachable_execution_consistent:
  assumes "dag_reachable e"
  shows "dag_wf e \<and> branches_settled e \<and> release_exact e"
  using reachable_ok [OF assms] by blast

theorem reachable_execution_consistent_witness:
  "dag_wf sample_done \<and> branches_settled sample_done \<and> release_exact sample_done"
  by (rule reachable_execution_consistent) (rule sample_reachable)

section \<open>Readiness\<close>

lemma sort_strings_Nil: "sort_strings xs = [] \<longleftrightarrow> xs = []"
  by (metis mset_sort_less mset_zero_iff)

text \<open>
  C11. In a reachable execution a task whose current attempt is ready, and that has not
  succeeded before, has every dependency it declares: each needed task succeeded, or is at
  least finished where the task is a review judge; each verdict it asks for was given by a
  successful attempt; and each external node was observed with exit code 0.
\<close>

theorem ready_task_has_dependencies:
  assumes "dag_reachable e" and "t \<in> set (tasks_of e)" and "\<not> taskSucceeded e (Task_ID t)"
    and "Attempt_Progress (current_attempt e (Task_ID t)) = ProgressReady"
  shows "(\<forall>d \<in> set (Task_Needs t). \<exists>q \<in> set (tasks_of e). Task_Name q = d \<and>
       (taskSucceeded e (Task_ID q) \<or>
        Task_ReviewJudge t \<and> Terminal (Attempt_Progress (current_attempt e (Task_ID q)))) \<and>
       (\<forall>v. map_of (Task_NeedsVerdict t) d = Some v \<longrightarrow>
          Attempt_Progress (current_attempt e (Task_ID q)) = ProgressSucceeded \<and>
          (\<exists>r. Attempt_ReviewVerdict (current_attempt e (Task_ID q)) = Some r \<and> Verdict_Verdict r = v))) \<and>
     (\<forall>n \<in> set (Task_ExternalNeeds t). \<exists>obs.
       State_External (Exec_state e) (NodeRef_String n) = Some obs \<and> Observation_ExitCode obs = 0)"
proof -
  from reachable_ok [OF assms(1)] have wf: "dag_wf e" and exact: "release_exact e" by blast+
  have "task_blockers e t = []" using exact assms(2-4) by (simp add: release_exact_def waiting_def)
  then have needs: "dependency_met e t d" if "d \<in> set (Task_Needs t)" for d
    using that by (simp add: task_blockers_def sort_strings_Nil filter_empty_conv)
  have externals: "external_met e n" if "n \<in> set (Task_ExternalNeeds t)" for n
    using \<open>task_blockers e t = []\<close> that by (simp add: task_blockers_def sort_strings_Nil filter_empty_conv)
  show ?thesis
  proof (intro conjI ballI)
    fix d assume d: "d \<in> set (Task_Needs t)"
    note q = need_task [OF wf assms(2) d]
    show "\<exists>q \<in> set (tasks_of e). Task_Name q = d \<and>
       (taskSucceeded e (Task_ID q) \<or>
        Task_ReviewJudge t \<and> Terminal (Attempt_Progress (current_attempt e (Task_ID q)))) \<and>
       (\<forall>v. map_of (Task_NeedsVerdict t) d = Some v \<longrightarrow>
          Attempt_Progress (current_attempt e (Task_ID q)) = ProgressSucceeded \<and>
          (\<exists>r. Attempt_ReviewVerdict (current_attempt e (Task_ID q)) = Some r \<and> Verdict_Verdict r = v))"
      using needs [OF d] q
      by (intro bexI [of _ "task_named e d"])
        (auto simp: dependency_met_def verdictSatisfied_def Let_def split: option.splits)
  next
    fix n assume "n \<in> set (Task_ExternalNeeds t)"
    then show "\<exists>obs. State_External (Exec_state e) (NodeRef_String n) = Some obs \<and> Observation_ExitCode obs = 0"
      using externals [of n] by (auto simp: external_met_def split: option.splits)
  qed
qed

lemma sample_ready:
  "sample_task ''b'' [''a''] \<in> set (tasks_of sample_done)" "\<not> taskSucceeded sample_done ''b''"
  "Attempt_Progress (current_attempt sample_done ''b'') = ProgressReady"
proof -
  have "tasks_of sample_done ! 1 = sample_task ''b'' [''a'']" "1 < length (tasks_of sample_done)" by code_simp+
  then show "sample_task ''b'' [''a''] \<in> set (tasks_of sample_done)" by (metis nth_mem)
qed code_simp+

theorem ready_task_has_dependencies_witness:
  "\<exists>q \<in> set (tasks_of sample_done). Task_Name q = ''a'' \<and> taskSucceeded sample_done (Task_ID q)"
  using ready_task_has_dependencies [OF sample_reachable(3) sample_ready(1)] sample_ready(2,3) by auto

section \<open>Operations\<close>



text \<open>
  The descendants of a task are exactly the tasks that need it, directly or through other
  tasks, and the task itself, whatever the graph; they come in alphabetical order.
\<close>

theorem descendants_exact:
  "set (descendantNames e name) = {m. (m, name) \<in> (needs_rel (tasks_of e))\<^sup>*} \<and> sorted (descendantNames e name)"
  using descendantNames_correct by (auto simp: descendantNames_def sorted_sort_strings)

text \<open>
  Cancelling a task leaves it and everything that depends on it in a final state, and
  changes no attempt that was already final: a finished attempt keeps its result.
\<close>

theorem cancel_stops_descendants:
  assumes "dag_reachable e" and "CancelTask taskID now e = Inr e'"
  shows "\<exists>t \<in> set (tasks_of e). Task_ID t = taskID \<and>
       (\<forall>q \<in> set (tasks_of e). (Task_Name q, Task_Name t) \<in> (needs_rel (tasks_of e))\<^sup>* \<longrightarrow>
          Terminal (Attempt_Progress (current_attempt e' (Task_ID q)))) \<and>
       (\<forall>k < length (attempts_of e). Terminal (Attempt_Progress (attempts_of e ! k)) \<longrightarrow>
          attempts_of e' ! k = attempts_of e ! k)"
proof -
  from reachable_ok [OF assms(1)] have wf: "dag_wf e" by blast
  obtain t e1 where t: "t \<in> set (tasks_of e)" "Task_ID t = taskID" and keeps: "keeps_terminal e e1"
    and final: "\<And>q. q \<in> set (tasks_of e) \<Longrightarrow> (Task_Name q, Task_Name t) \<in> (needs_rel (tasks_of e))\<^sup>* \<Longrightarrow>
       Terminal (Attempt_Progress (current_attempt e1 (Task_ID q)))"
    and e': "e' = refresh now True e1"
    by (rule CancelTask_Inr [OF assms(2) wf]) blast
  have frame: "frame e e1" using keeps by (simp add: keeps_terminal_def)
  have wf1: "dag_wf e1" by (rule frame_wf [OF frame wf])
  have not_waiting: "\<not> waiting a" if "Terminal (Attempt_Progress a)" for a
    using that by (auto simp: waiting_def)
  show ?thesis
  proof (intro bexI [of _ t] conjI ballI allI impI)
    fix q assume q: "q \<in> set (tasks_of e)" "(Task_Name q, Task_Name t) \<in> (needs_rel (tasks_of e))\<^sup>*"
    then have "q \<in> set (tasks_of e1)" using frame by (simp add: frame_def)
    then show "Terminal (Attempt_Progress (current_attempt e' (Task_ID q)))"
      unfolding e' using refresh_keeps_current [OF wf1] not_waiting final [OF q] by simp
  next
    fix k assume k: "k < length (attempts_of e)" "Terminal (Attempt_Progress (attempts_of e ! k))"
    then have "attempts_of e1 ! k = attempts_of e ! k" using keeps by (simp add: keeps_terminal_def)
    moreover have "attempts_of e' ! k = attempts_of e1 ! k"
      unfolding e' using k calculation frame_length [OF frame] not_waiting
      by (intro refresh_keeps_attempt [OF wf1]) simp_all
    ultimately show "attempts_of e' ! k = attempts_of e ! k" by simp
  qed (use t in simp_all)
qed

theorem cancel_stops_descendants_witness:
  "Terminal (Attempt_Progress (current_attempt sample_cancelled ''c'')) \<and>
   attempts_of sample_cancelled ! 0 = attempts_of sample_done ! 0"
proof -
  have tasks: "tasks_of sample_done = map (case_prod sample_task) [(''a'', []), (''b'', [''a'']), (''c'', [''b''])]"
    by code_simp
  have final: "Terminal (Attempt_Progress (attempts_of sample_done ! 0))" "0 < length (attempts_of sample_done)"
    by code_simp+
  obtain t where t: "t \<in> set (tasks_of sample_done)" "Task_ID t = ''b''"
    "\<forall>q \<in> set (tasks_of sample_done). (Task_Name q, Task_Name t) \<in> (needs_rel (tasks_of sample_done))\<^sup>* \<longrightarrow>
          Terminal (Attempt_Progress (current_attempt sample_cancelled (Task_ID q)))"
    "attempts_of sample_cancelled ! 0 = attempts_of sample_done ! 0"
    using cancel_stops_descendants [OF sample_reachable(3) sample_steps(3)] final by blast
  then have "Task_Name t = ''b''" using tasks by auto
  moreover have "(''c'', ''b'') \<in> needs_rel (tasks_of sample_done)" using tasks by (force simp: needs_rel_def)
  ultimately have "Terminal (Attempt_Progress (current_attempt sample_cancelled (Task_ID (sample_task ''c'' [''b'']))))"
    using t(3) tasks by (intro t(3) [rule_format]) auto
  with t(4) show ?thesis by simp
qed

text \<open>
  Completing an attempt succeeds only on evidence: of a running attempt the completion
  records success exactly when the result is both explicitly successful and verified, and a
  failure otherwise; either way the attempt is stopped and the attempts of other tasks that
  have started are left alone.
\<close>

theorem completion_requires_evidence:
  assumes "dag_reachable e" and "CompleteAttempt i result now e = Inr e'"
  shows "\<exists>k < length (attempts_of e). Attempt_ID (attempts_of e ! k) = i \<and>
     Attempt_Progress (attempts_of e ! k) \<in> {ProgressActive, ProgressVerifying} \<and>
     Attempt_Progress (attempts_of e' ! k) =
       (if Result_ExplicitSuccess result \<and> Result_VerificationPassed result then ProgressSucceeded else ProgressFailed) \<and>
     Attempt_Control (attempts_of e' ! k) = ControlStopped \<and> Attempt_CompletedAt (attempts_of e' ! k) = Some now \<and>
     (\<forall>j < length (attempts_of e). j \<noteq> k \<and> \<not> waiting (attempts_of e ! j) \<longrightarrow> attempts_of e' ! j = attempts_of e ! j)"
proof -
  from reachable_ok [OF assms(1)] have wf: "dag_wf e" by blast
  obtain k where k: "k < length (attempts_of e)" "Attempt_ID (attempts_of e ! k) = i"
    "Attempt_Progress (attempts_of e ! k) \<in> {ProgressActive, ProgressVerifying}"
    and e': "e' = refresh now True (set_attempt k (complete_attempt result now) e)"
    by (rule CompleteAttempt_Inr [OF assms(2)])
  let ?e1 = "set_attempt k (complete_attempt result now) e"
  have wf1: "dag_wf ?e1" by (rule frame_wf [OF frame_set_attempt wf]) simp
  have at: "attempts_of ?e1 ! k = complete_attempt result now (attempts_of e ! k)" using k(1) by (simp add: dag_simps)
  have "attempts_of e' ! k = attempts_of ?e1 ! k"
    unfolding e' using k(1) at
    by (intro refresh_keeps_attempt [OF wf1]) (simp_all add: dag_simps waiting_def complete_attempt_def Let_def)
  moreover have "attempts_of e' ! j = attempts_of e ! j"
    if "j < length (attempts_of e)" "j \<noteq> k" "\<not> waiting (attempts_of e ! j)" for j
    unfolding e' using that refresh_keeps_attempt [OF wf1, of j now True] by (simp add: dag_simps)
  ultimately show ?thesis
    using k at by (intro exI [of _ k]) (auto simp: complete_attempt_def Let_def)
qed

theorem completion_requires_evidence_witness:
  "\<exists>k < length (attempts_of sample_started). Attempt_ID (attempts_of sample_started ! k) = ''a-1'' \<and>
     Attempt_Progress (attempts_of sample_done ! k) = ProgressSucceeded"
  using completion_requires_evidence [OF sample_reachable(2) sample_steps(2)] by (auto simp: sample_result_def)

text \<open>
  Skipping accepts any task whose current attempt has neither succeeded nor been skipped,
  the failed and cancelled ones included, while the run is open. It marks that attempt skipped
  without the reason of a verdict branch, so the task neither counts as succeeded nor lets the
  run succeed.
\<close>

theorem skip_task_exact:
  assumes "dag_reachable e" and "t \<in> set (tasks_of e)"
  shows "((\<exists>e'. SkipTask (Task_ID t) now e = Inr e') \<longleftrightarrow> \<not> run_sink_final e \<and>
       Attempt_Progress (current_attempt e (Task_ID t)) \<notin> {ProgressSucceeded, ProgressSkipped}) \<and>
     (\<forall>e'. SkipTask (Task_ID t) now e = Inr e' \<longrightarrow>
       current_attempt e' (Task_ID t) = stop_attempt ProgressSkipped now (current_attempt e (Task_ID t)) \<and>
       (taskSucceeded e' (Task_ID t) \<longleftrightarrow> taskSucceeded e (Task_ID t)) \<and>
       (task_done e' t \<longleftrightarrow> taskSucceeded e (Task_ID t)))"
proof -
  from reachable_ok [OF assms(1)] have wf: "dag_wf e" by blast
  let ?i = "Task_ID t" and ?k = "currentAttemptIndex e (Task_ID t)"
  let ?e1 = "set_attempt ?k (stop_attempt ProgressSkipped now) e"
  have index: "index_ok e" using wf by (simp add: dag_wf_def)
  then obtain n where n: "Exec_taskByID e ?i = Some n" "Task_ID (tasks_of e ! n) = ?i"
    using assms(2) unfolding index_ok_def by (metis in_set_conv_nth)
  have exact: "SkipTask ?i now e = (if run_sink_final e then Inl sink_is_final
      else if Attempt_Progress (current_attempt e ?i) \<in> {ProgressSucceeded, ProgressSkipped}
      then Inl (Errorf ''skip task %q: progress is %q'' [?i, ProgressState_text (Attempt_Progress (current_attempt e ?i))])
      else Inr (refresh now True ?e1))"
    using n by (auto simp: SkipTask_def Let_def current_attempt_def)
  have k: "?k < length (attempts_of e)" by (rule current_index(1) [OF wf assms(2)])
  have frame: "frame e ?e1" by (rule frame_set_attempt) simp
  have wf1: "dag_wf ?e1" by (rule frame_wf [OF frame wf])
  have t1: "t \<in> set (tasks_of ?e1)" using assms(2) by (simp add: dag_simps)
  have cur1: "current_attempt ?e1 ?i = stop_attempt ProgressSkipped now (current_attempt e ?i)"
    using k frame_index [OF frame] by (simp add: current_attempt_def dag_simps)
  have cur: "current_attempt (refresh now True ?e1) ?i = stop_attempt ProgressSkipped now (current_attempt e ?i)"
    using refresh_keeps_current [OF wf1 t1] cur1 by (simp add: waiting_def stop_attempt_def)
  have "taskSucceeded ?e1 ?i \<longleftrightarrow> taskSucceeded e ?i" if "Attempt_Progress (current_attempt e ?i) \<noteq> ProgressSucceeded"
  proof -
    have "Attempt_Progress (attempts_of ?e1 ! j) = ProgressSucceeded \<longleftrightarrow> Attempt_Progress (attempts_of e ! j) = ProgressSucceeded" for j
      using that k by (cases "j = ?k") (simp_all add: dag_simps current_attempt_def stop_attempt_def)
    then show ?thesis by (simp add: taskSucceeded_def dag_simps)
  qed
  then have succ: "taskSucceeded (refresh now True ?e1) ?i \<longleftrightarrow> taskSucceeded e ?i"
    if "Attempt_Progress (current_attempt e ?i) \<noteq> ProgressSucceeded"
    using that refresh_succeeded [OF wf1 t1] by simp
  moreover have "task_done (refresh now True ?e1) t \<longleftrightarrow> taskSucceeded (refresh now True ?e1) ?i"
    using cur by (simp add: task_done_def stop_attempt_def VerdictBranchSkipped_def)
  ultimately show ?thesis unfolding exact using cur by (cases "run_sink_final e") auto
qed

lemma sample_failed_task:
  "sample_task ''b'' [''a''] \<in> set (tasks_of sample_cancelled)"
  "\<not> run_sink_final sample_cancelled" "\<not> taskSucceeded sample_cancelled ''b''"
  "Attempt_Progress (current_attempt sample_cancelled ''b'') = ProgressCancelled"
proof -
  have "tasks_of sample_cancelled ! 1 = sample_task ''b'' [''a'']" "1 < length (tasks_of sample_cancelled)" by code_simp+
  then show "sample_task ''b'' [''a''] \<in> set (tasks_of sample_cancelled)" by (metis nth_mem)
qed code_simp+

theorem skip_task_exact_witness:
  "\<exists>e'. SkipTask ''b'' 8 sample_cancelled = Inr e' \<and> \<not> task_done e' (sample_task ''b'' [''a''])"
  using skip_task_exact [OF sample_reachable(4) sample_failed_task(1), of 8] sample_failed_task(2-4) by auto

text \<open>
  Retrying a failed or cancelled task adds one attempt and touches no started one: the
  new attempt is the task's current attempt, carries the requested identifier and the next
  number, and waits for its dependencies unless its branch was skipped.
\<close>

theorem retry_adds_attempt:
  assumes "dag_reachable e" and "RetryTask taskID i now e = Inr e'"
    and "in_int64 (Attempt_Number (current_attempt e taskID))" and "Attempt_Number (current_attempt e taskID) < max_int64"
  shows "Attempt_Progress (current_attempt e taskID) \<in> {ProgressFailed, ProgressCancelled} \<and>
     length (attempts_of e') = length (attempts_of e) + 1 \<and>
     (\<forall>k < length (attempts_of e). \<not> waiting (attempts_of e ! k) \<longrightarrow> attempts_of e' ! k = attempts_of e ! k) \<and>
     Attempt_ID (current_attempt e' taskID) = i \<and> Attempt_TaskID (current_attempt e' taskID) = taskID \<and>
     Attempt_Number (current_attempt e' taskID) = Attempt_Number (current_attempt e taskID) + 1 \<and>
     waits_or_skipped (current_attempt e' taskID)"
proof -
  from reachable_ok [OF assms(1)] have wf: "dag_wf e" by blast
  let ?a = "retry_attempt e taskID i (wrap64 (Attempt_Number (current_attempt e taskID) + 1)) now"
  let ?e1 = "add_attempt taskID ?a e" and ?n = "length (attempts_of e)"
  obtain t where t: "t \<in> set (tasks_of e)" "Task_ID t = taskID" "i \<notin> Attempt_ID ` set (attempts_of e)"
    and was: "Attempt_Progress (current_attempt e taskID) \<in> {ProgressFailed, ProgressCancelled}"
    and e': "e' = refresh now True ?e1"
    by (rule RetryTask_Inr [OF assms(2) wf]) blast
  have wf1: "dag_wf ?e1"
    using add_attempt_wf [OF wf t(1), of ?a] t assms(3,4) by (simp add: retry_attempt_def wrap64_Suc)
  have frame: "frame ?e1 e'" unfolding e' by (rule keeps_started_frame [OF refresh_correct(1) [OF wf1]])
  have new: "attempts_of ?e1 ! ?n = ?a" "?n < length (attempts_of ?e1)" by (simp_all add: dag_simps)
  have "currentAttemptIndex e' taskID = ?n"
    unfolding frame_index [OF frame] by (simp add: currentAttemptIndex_def dag_simps Let_def)
  then have cur: "current_attempt e' taskID = attempts_of e' ! ?n" by (simp add: current_attempt_def)
  have ident: "identity (attempts_of e' ! ?n) = identity ?a" using frame_nth [OF frame new(2)] new(1) by simp
  have "waits_or_skipped (attempts_of e' ! ?n)"
    unfolding e' by (rule refresh_waiting [OF wf1 new(2)]) (simp only: new(1), simp add: waiting_def retry_attempt_def)
  moreover have "attempts_of e' ! k = attempts_of e ! k" if "k < ?n" "\<not> waiting (attempts_of e ! k)" for k
    unfolding e' using that refresh_keeps_attempt [OF wf1, of k now True] by (simp add: dag_simps nth_append)
  ultimately show ?thesis
    using was ident frame_length [OF frame] assms(3,4)
    by (simp add: cur identity_def retry_attempt_def dag_simps wrap64_Suc)
qed

definition sample_retried :: DAGExecution where
  "sample_retried = inr_of (RetryTask ''b'' ''b-2'' 9 sample_cancelled)"

lemma sample_retry: "RetryTask ''b'' ''b-2'' 9 sample_cancelled = Inr sample_retried"
  unfolding sample_retried_def by (rule inr_of_eq, code_simp)

theorem retry_adds_attempt_witness:
  "Attempt_ID (current_attempt sample_retried ''b'') = ''b-2'' \<and> length (attempts_of sample_retried) = 4"
proof -
  have "Attempt_Number (current_attempt sample_cancelled ''b'') = 1" "length (attempts_of sample_cancelled) = 3"
    by code_simp+
  then show ?thesis
    using retry_adds_attempt [OF sample_reachable(4) sample_retry] by (simp add: in_int64_def max_int64_def min_int64_def)
qed

section \<open>The run\<close>

text \<open>
  While its sink has not settled, the progress a reachable run shows is decided by its
  tasks: it has succeeded exactly when it has no sink, has tasks, every one of them succeeded
  or was a verdict branch not taken, and no fix loop used up its rounds without acceptance; and
  a run with an open sink never shows a final state.
\<close>

theorem run_progress_reflects_tasks:
  assumes "dag_reachable e" and "\<not> run_sink_final e"
  shows "(Run_Progress (run_of e) = ProgressSucceeded \<longleftrightarrow>
       Run_Sink (run_of e) = None \<and> tasks_of e \<noteq> [] \<and> (\<forall>t \<in> set (tasks_of e). task_done e t) \<and>
       (\<forall>s \<in> set (SummarizeFixLoops (tasks_of e) (attempts_of e)). \<not> Summary_Exhausted s)) \<and>
     (Run_Sink (run_of e) \<noteq> None \<longrightarrow> \<not> Terminal (Run_Progress (run_of e)))"
proof -
  have shown: "Run_Progress (run_of e) = shown_progress e"
    using reachable_ok [OF assms(1)] assms(2) by (simp add: run_exact_def)
  have succ: "runProgress e = ProgressSucceeded \<longleftrightarrow> tasks_of e \<noteq> [] \<and> (\<forall>t \<in> set (tasks_of e). task_done e t) \<and>
       (\<forall>s \<in> set (SummarizeFixLoops (tasks_of e) (attempts_of e)). \<not> Summary_Exhausted s)"
    unfolding runProgress_def Let_def by (simp add: filter_empty_conv list_ex_iff)
  show ?thesis unfolding shown shown_progress_def using succ by auto
qed

theorem run_progress_reflects_tasks_witness:
  "Run_Progress (run_of sample_done) \<noteq> ProgressSucceeded \<and>
   (\<exists>t \<in> set (tasks_of sample_done). \<not> task_done sample_done t)"
proof -
  have "Run_Sink (run_of sample_done) = None" "tasks_of sample_done \<noteq> []" "\<not> run_sink_final sample_done"
    "list_all (\<lambda>s. \<not> Summary_Exhausted s) (SummarizeFixLoops (tasks_of sample_done) (attempts_of sample_done))"
    "Run_Progress (run_of sample_done) \<noteq> ProgressSucceeded"
    by code_simp+
  then show ?thesis
    using run_progress_reflects_tasks [OF sample_reachable(3)] by (auto simp: list_all_iff)
qed

section \<open>Persistence\<close>

lemma mset_valid:
  assumes "mset (State_Tasks s') = mset (State_Tasks s)" and "mset (State_Attempts s') = mset (State_Attempts s)"
    and "State_Run s' = State_Run s"
  shows "valid_dag s' \<longleftrightarrow> valid_dag s"
proof -
  have sets: "set (State_Tasks s') = set (State_Tasks s)" "set (State_Attempts s') = set (State_Attempts s)"
    using assms(1,2) mset_eq_setD by blast+
  have dist: "distinct (map f (State_Tasks s')) = distinct (map f (State_Tasks s))"
    "distinct (map g (State_Attempts s')) = distinct (map g (State_Attempts s))" for f :: "Task \<Rightarrow> 'x" and g :: "Attempt \<Rightarrow> 'y"
    using assms(1,2) by (metis mset_eq_imp_distinct_iff mset_map)+
  show ?thesis
    unfolding valid_dag_def valid_tasks_def valid_needs_def valid_attempts_def needs_rel_def sets dist assms(3) ..
qed



end
