(* ===== verification/QuotaDomain.thy ===== *)
theory QuotaDomain
  imports GoFloat
begin

text \<open>
  The quota types of \<open>internal/domain/domain.go\<close>: buckets, observations of them, the persisted
  state of a bucket, and the actions and decisions of the policy engine.
\<close>

section \<open>Buckets\<close>

record BucketKey =
  Key_ProviderInstanceID :: string
  Key_AccountID :: string
  Key_LimitID :: string
  Key_Window :: string

definition zero_BucketKey :: BucketKey where
  "zero_BucketKey = \<lparr>Key_ProviderInstanceID = '''', Key_AccountID = '''', Key_LimitID = '''', Key_Window = ''''\<rparr>"

definition BucketKey_String :: "BucketKey \<Rightarrow> string" where
  "BucketKey_String k =
     join_with (CHR ''/'') ([Key_ProviderInstanceID k]
       @ (if Key_AccountID k \<noteq> '''' then [Key_AccountID k] else [])
       @ [Key_LimitID k, Key_Window k])"

definition ParseBucketKey :: "string \<Rightarrow> BucketKey" where
  "ParseBucketKey s =
     (case split_at (CHR ''/'') s of
        [provider, limit, window] \<Rightarrow>
          zero_BucketKey\<lparr>Key_ProviderInstanceID := provider, Key_LimitID := limit, Key_Window := window\<rparr>
      | [provider, account, limit, window] \<Rightarrow>
          \<lparr>Key_ProviderInstanceID = provider, Key_AccountID = account, Key_LimitID = limit, Key_Window = window\<rparr>
      | _ \<Rightarrow> zero_BucketKey\<lparr>Key_ProviderInstanceID := s\<rparr>)"

record QuotaSnapshot =
  Snap_Key :: BucketKey
  Snap_LimitName :: string
  Snap_UsedPercent :: float64
  Snap_WindowDuration :: duration
  Snap_ResetsAt :: "instant option"
  Snap_ModelSelector :: string
  Snap_ObservedAt :: instant
  Snap_SourceEventID :: string
  Snap_ThreadID :: string

definition IsExpired :: "QuotaSnapshot \<Rightarrow> instant \<Rightarrow> bool" where
  "IsExpired s now = (case Snap_ResetsAt s of None \<Rightarrow> False | Some r \<Rightarrow> \<not> now < r)"

datatype Phase = PhaseNormal | PhaseWarned | PhaseDraining | PhaseStopped | PhaseOther string

fun Rank :: "Phase \<Rightarrow> int" where
  "Rank PhaseWarned = 1"
| "Rank PhaseDraining = 2"
| "Rank PhaseStopped = 3"
| "Rank _ = 0"

fun Phase_text :: "Phase \<Rightarrow> string" where
  "Phase_text PhaseNormal = ''normal''"
| "Phase_text PhaseWarned = ''warned''"
| "Phase_text PhaseDraining = ''draining''"
| "Phase_text PhaseStopped = ''stopped''"
| "Phase_text (PhaseOther s) = s"

record Reading =
  Reading_At :: instant
  Reading_Used :: float64

record ThresholdSet =
  Set_WarnPercent :: float64
  Set_DrainPercent :: float64
  Set_StopPercent :: float64

definition ThresholdSet_String :: "ThresholdSet \<Rightarrow> go_text" where
  "ThresholdSet_String t =
     Sprintf ''%.0f/%.0f/%.0f'' [FloatArg (Set_WarnPercent t), FloatArg (Set_DrainPercent t), FloatArg (Set_StopPercent t)]"

record BucketState =
  State_Key :: BucketKey
  State_Phase :: Phase
  State_Epoch :: string
  State_WindowDuration :: duration
  State_LimitName :: string
  State_ModelSelector :: string
  State_UsedPercent :: float64
  State_ResetsAt :: "instant option"
  State_ObservedAt :: instant
  State_LastEventID :: string
  State_DrainDeadline :: "instant option"
  State_DrainsAt :: "instant option"
  State_RearmObservations :: int
  State_Healthy :: bool
  State_RecoveredAt :: "instant option"
  State_StoppedAt :: "instant option"
  State_UpdatedAt :: instant
  State_Recent :: "Reading list"
  State_RatePerMinute :: float64
  State_ExhaustsIn :: "duration option"
  State_ETAStrikes :: int
  State_AppliedThresholds :: "ThresholdSet option"
  State_ProbedAt :: "instant option"

definition zero_BucketState :: BucketState where
  "zero_BucketState =
     \<lparr>State_Key = zero_BucketKey, State_Phase = PhaseOther '''', State_Epoch = '''', State_WindowDuration = 0,
      State_LimitName = '''', State_ModelSelector = '''', State_UsedPercent = Fin 0, State_ResetsAt = None,
      State_ObservedAt = 0, State_LastEventID = '''', State_DrainDeadline = None, State_DrainsAt = None,
      State_RearmObservations = 0, State_Healthy = False, State_RecoveredAt = None, State_StoppedAt = None,
      State_UpdatedAt = 0, State_Recent = [], State_RatePerMinute = Fin 0, State_ExhaustsIn = None,
      State_ETAStrikes = 0, State_AppliedThresholds = None, State_ProbedAt = None\<rparr>"

section \<open>Actions and decisions\<close>

datatype ActionKind = ActionWarn | ActionDrain | ActionStop | ActionRearm | ActionResume | NoticeUserResumed | ActionKindOther string

record Action =
  Action_Kind :: ActionKind
  Action_Bucket :: BucketKey
  Action_Snapshot :: QuotaSnapshot
  Action_Reason :: go_text
  Action_EpochUnchanged :: bool

text \<open>\<open>Ignored\<close> is \<open>None\<close> for the empty text of an accepted snapshot.\<close>

record Decision =
  Decision_State :: BucketState
  Decision_Actions :: "Action list"
  Decision_Ignored :: "go_text option"

section \<open>Threads\<close>

text \<open>The fields of \<open>Thread\<close> that the modelled functions read.\<close>

record Thread =
  Thread_ID :: string
  Thread_ProviderInstanceID :: string
  Thread_Model :: string
  Thread_ArchivedAt :: "instant option"
  Thread_SettledAt :: "instant option"
  Thread_SettledOverride :: string

definition Settled :: "Thread \<Rightarrow> bool" where
  "Settled t =
     (if Thread_SettledOverride t = ''active'' then False
      else Thread_ArchivedAt t \<noteq> None \<or> Thread_SettledAt t \<noteq> None \<or> Thread_SettledOverride t = ''settled'')"

text \<open>\<open>strings.ToLower\<close> is modelled on ASCII letters; model identifiers and selectors are ASCII.\<close>

definition MatchesBucket :: "Thread \<Rightarrow> BucketKey \<Rightarrow> string \<Rightarrow> bool" where
  "MatchesBucket t key modelSelector =
     (if Thread_ProviderInstanceID t \<noteq> Key_ProviderInstanceID key then False
      else if modelSelector = '''' then True
      else contains_str (to_lower (Thread_Model t)) (to_lower modelSelector))"

definition EpochFor :: "instant option \<Rightarrow> string" where
  "EpochFor resetsAt = (case resetsAt of None \<Rightarrow> '''' | Some t \<Rightarrow> show_int (unix_seconds t))"

section \<open>Keys and their text\<close>

abbreviation key_parts :: "BucketKey \<Rightarrow> string list" where
  "key_parts k \<equiv> [Key_ProviderInstanceID k, Key_AccountID k, Key_LimitID k, Key_Window k]"

lemma split_at_no_sep: "w \<in> set (split_at d s) \<Longrightarrow> d \<notin> set w"
proof (induction s arbitrary: w)
  case (Cons c cs)
  then show ?case by (cases "split_at d cs") (auto split: if_splits)
qed simp

lemma BucketKey_String_longer: "length (Key_ProviderInstanceID k) < length (BucketKey_String k)"
  by (simp add: BucketKey_String_def)

lemma parse_text:
  assumes "\<And>w. w \<in> set (key_parts k) \<Longrightarrow> CHR ''/'' \<notin> set w"
  shows "ParseBucketKey (BucketKey_String k) = k"
proof -
  let ?ws = "[Key_ProviderInstanceID k] @ (if Key_AccountID k \<noteq> '''' then [Key_AccountID k] else [])
       @ [Key_LimitID k, Key_Window k]"
  have "split_at (CHR ''/'') (BucketKey_String k) = ?ws"
    unfolding BucketKey_String_def by (rule split_join) (use assms in auto)
  then show ?thesis by (cases "Key_AccountID k = ''''") (simp_all add: ParseBucketKey_def zero_BucketKey_def)
qed

lemma ParseBucketKey_shapes:
  "(\<exists>a b c. split_at (CHR ''/'') s = [a, b, c]) \<or> (\<exists>a b c d. split_at (CHR ''/'') s = [a, b, c, d]) \<or>
   ParseBucketKey s = zero_BucketKey\<lparr>Key_ProviderInstanceID := s\<rparr>"
  by (auto simp: ParseBucketKey_def split: list.split)

lemma text_parse:
  assumes "ParseBucketKey (BucketKey_String k) = k" and "w \<in> set (key_parts k)"
  shows "CHR ''/'' \<notin> set w"
proof -
  let ?ws = "split_at (CHR ''/'') (BucketKey_String k)"
  consider (three) a b c where "?ws = [a, b, c]" | (four) a b c d where "?ws = [a, b, c, d]"
    | (other) "ParseBucketKey (BucketKey_String k) = zero_BucketKey\<lparr>Key_ProviderInstanceID := BucketKey_String k\<rparr>"
    using ParseBucketKey_shapes [of "BucketKey_String k"] by blast
  then show ?thesis
  proof cases
    case (three a b c)
    then have k: "k = zero_BucketKey\<lparr>Key_ProviderInstanceID := a, Key_LimitID := b, Key_Window := c\<rparr>"
      using assms(1) by (simp add: ParseBucketKey_def)
    have "key_parts k = [a, '''', b, c]" by (simp only: k) (simp add: zero_BucketKey_def)
    with assms(2) three have "w \<in> set ?ws \<or> w = ''''" by auto
    then show ?thesis using split_at_no_sep by fastforce
  next
    case (four a b c d)
    then have k: "k = \<lparr>Key_ProviderInstanceID = a, Key_AccountID = b, Key_LimitID = c, Key_Window = d\<rparr>"
      using assms(1) by (simp add: ParseBucketKey_def)
    have "key_parts k = ?ws" unfolding four by (simp only: k) simp
    with assms(2) have "w \<in> set ?ws" by simp
    then show ?thesis by (rule split_at_no_sep)
  next
    case other
    then have "Key_ProviderInstanceID k = BucketKey_String k" using assms(1) by (metis BucketKey.select_convs(1) BucketKey.update_convs(1) BucketKey.surjective)
    then show ?thesis using BucketKey_String_longer [of k] by simp
  qed
qed

end
