(* ===== verification/Policy.thy ===== *)
theory Policy
  imports QuotaDomain
begin

text \<open>
  The quota state machine of \<open>internal/policy/policy.go\<close>: the percentage ladder, the burn rate
  and the projected exhaustion, the evaluation of one snapshot, the load-time re-derivation and
  the drain timer. An \<open>Engine\<close> has no state besides its \<open>Thresholds\<close>, so every operation
  takes them. A helper that the code inlines in \<open>Evaluate\<close> is a definition of its own here, in
  the order the code runs them; \<open>wantedLevel\<close>, which counts strikes through a pointer, returns
  the changed state.
\<close>

section \<open>Thresholds\<close>

record Thresholds =
  T_WarnPercent :: float64
  T_DrainPercent :: float64
  T_StopPercent :: float64
  T_RearmPercent :: float64
  T_GracePeriod :: duration
  T_RearmObservations :: int
  T_ResetTolerance :: duration
  T_RateWindow :: duration
  T_WarnETA :: duration
  T_DrainETA :: duration
  T_StopETA :: duration
  T_ResetExemption :: duration
  T_RunwayMargin :: float64
  T_HardStopETA :: duration

definition DefaultHardStopETA :: duration where
  "DefaultHardStopETA = 2 * minute"

definition DefaultThresholds :: Thresholds where
  "DefaultThresholds =
     \<lparr>T_WarnPercent = Fin 85, T_DrainPercent = Fin 90, T_StopPercent = Fin 95, T_RearmPercent = Fin 50,
      T_GracePeriod = 60 * second, T_RearmObservations = 2, T_ResetTolerance = 5 * minute,
      T_RateWindow = 10 * minute, T_WarnETA = 30 * minute, T_DrainETA = 15 * minute, T_StopETA = 5 * minute,
      T_ResetExemption = 10 * minute, T_RunwayMargin = Fin 1, T_HardStopETA = DefaultHardStopETA\<rparr>"

definition hardStopETA :: "Thresholds \<Rightarrow> duration" where
  "hardStopETA t = (if T_HardStopETA t \<le> 0 then DefaultHardStopETA else T_HardStopETA t)"

definition Thresholds_Validate :: "Thresholds \<Rightarrow> go_text option" where
  "Thresholds_Validate t =
     (if \<not> (f_lt (T_WarnPercent t) (T_DrainPercent t) \<and> f_lt (T_DrainPercent t) (T_StopPercent t)
            \<and> f_le (T_StopPercent t) (Fin 100))
      then Some (Sprintf ''thresholds must satisfy warn < drain < stop <= 100 (got warn=%v drain=%v stop=%v)''
             [FloatArg (T_WarnPercent t), FloatArg (T_DrainPercent t), FloatArg (T_StopPercent t)])
      else if f_le (T_WarnPercent t) (Fin 0)
      then Some (Sprintf ''warn_percent must be positive'' [])
      else if f_le (T_RearmPercent t) (Fin 0) \<or> f_le (T_WarnPercent t) (T_RearmPercent t)
      then Some (Sprintf ''rearm_percent must be between 0 and warn_percent (got %v)'' [FloatArg (T_RearmPercent t)])
      else if T_GracePeriod t < 0
      then Some (Sprintf ''grace_period must not be negative'' [])
      else if T_RearmObservations t < 1
      then Some (Sprintf ''rearm_observations must be at least 1'' [])
      else if T_RateWindow t > 0 \<and> \<not> (T_StopETA t < T_DrainETA t \<and> T_DrainETA t < T_WarnETA t)
      then Some (Sprintf ''stop_eta < drain_eta < warn_eta is required (got %s, %s, %s)''
             [DurationArg (T_StopETA t), DurationArg (T_DrainETA t), DurationArg (T_WarnETA t)])
      else if T_ResetExemption t < 0
      then Some (Sprintf ''reset_exemption must not be negative'' [])
      else if f_lt (T_RunwayMargin t) (Fin 1)
      then Some (Sprintf ''runway_margin must be at least 1 (got %v)'' [FloatArg (T_RunwayMargin t)])
      else if T_HardStopETA t < 0
      then Some (Sprintf ''hard_stop_eta must not be negative'' [])
      else None)"

definition ExtensionMargin :: int where
  "ExtensionMargin = 5"

definition applied :: "Thresholds \<Rightarrow> ThresholdSet" where
  "applied t = \<lparr>Set_WarnPercent = T_WarnPercent t, Set_DrainPercent = T_DrainPercent t, Set_StopPercent = T_StopPercent t\<rparr>"

section \<open>The ladder and the projection\<close>

definition level :: "Thresholds \<Rightarrow> float64 \<Rightarrow> Phase" where
  "level t used =
     (if f_le (T_StopPercent t) used then PhaseStopped
      else if f_le (T_DrainPercent t) used then PhaseDraining
      else if f_le (T_WarnPercent t) used then PhaseWarned
      else PhaseNormal)"

definition rateWindow :: "Thresholds \<Rightarrow> duration" where
  "rateWindow t = (if T_RateWindow t \<le> 0 then 10 * minute else T_RateWindow t)"

text \<open>The scan of the readings: the oldest one inside the window and the highest one.\<close>

definition scan_reading :: "instant \<Rightarrow> Reading \<Rightarrow> Reading option \<times> Reading \<Rightarrow> Reading option \<times> Reading" where
  "scan_reading cutoff r st =
     (let (oldest, high) = st in
      if Reading_At r < cutoff then (oldest, high)
      else ((case oldest of None \<Rightarrow> Some r | Some q \<Rightarrow> Some q),
            if f_lt (Reading_Used high) (Reading_Used r) then r else high))"

text \<open>The span the rise is divided by, unless the history is too short.\<close>

definition rate_span :: "Reading \<Rightarrow> Reading \<Rightarrow> instant \<Rightarrow> duration option" where
  "rate_span oldest high now =
     (let span = time_sub (Reading_At high) (Reading_At oldest) in
      if span < 2 * minute
      then (let whole = time_sub now (Reading_At oldest) in if whole < 2 * minute then None else Some whole)
      else Some span)"

definition burnRate :: "Thresholds \<Rightarrow> Reading list \<Rightarrow> instant \<Rightarrow> float64 \<times> duration option" where
  "burnRate t recent now =
     (if T_RateWindow t \<le> 0 \<or> length recent < 2 then (Fin 0, None)
      else
        let cutoff = time_add now (- rateWindow t);
            (oldest, high) = fold (scan_reading cutoff) recent (None, last recent)
        in (case oldest of
              None \<Rightarrow> (Fin 0, None)
            | Some old \<Rightarrow>
                (case rate_span old high now of
                   None \<Rightarrow> (Fin 0, None)
                 | Some elapsed \<Rightarrow>
                     let rise = f_sub (Reading_Used high) (Reading_Used old) in
                     if f_le rise (Fin 0) then (Fin 0, None)
                     else
                       let rate = f_div rise (duration_minutes elapsed);
                           remaining = f_sub (Fin 100) (Reading_Used high)
                       in if f_le remaining (Fin 0) then (rate, Some 0)
                          else (rate, Some (f_to_int64 (f_mul (f_div remaining rate) (f_of_int minute)))))))"

fun trimReadings :: "Reading list \<Rightarrow> instant \<Rightarrow> Reading list" where
  "trimReadings [] cutoff = []"
| "trimReadings (r # recent) cutoff = (if Reading_At r < cutoff then trimReadings recent cutoff else r # recent)"

definition thresholdFor :: "Thresholds \<Rightarrow> Phase \<Rightarrow> float64" where
  "thresholdFor t p =
     (case p of
        PhaseWarned \<Rightarrow> T_WarnPercent t
      | PhaseDraining \<Rightarrow> T_DrainPercent t
      | PhaseStopped \<Rightarrow> T_StopPercent t
      | _ \<Rightarrow> Fin 0)"

definition describe :: "QuotaSnapshot \<Rightarrow> go_text" where
  "describe s =
     (if Snap_LimitName s \<noteq> ''''
      then Sprintf ''%q (%s)'' [StrArg (Snap_LimitName s), StrArg (BucketKey_String (Snap_Key s))]
      else Sprintf ''%s'' [StrArg (BucketKey_String (Snap_Key s))])"

definition runwayHolds :: "Thresholds \<Rightarrow> duration \<Rightarrow> duration \<Rightarrow> float64 \<Rightarrow> go_text option" where
  "runwayHolds t eta untilReset rate =
     (let margin = (if f_le (T_RunwayMargin t) (Fin 0) then Fin 1 else T_RunwayMargin t) in
      if f_le (f_mul margin (f_of_int untilReset)) (f_of_int eta)
      then Some (Sprintf ''burning %.2f%%/min, about %s of runway against %s to the reset; no need to stop''
             [FloatArg rate, RoundedArg eta minute, RoundedArg untilReset minute])
      else None)"

text \<open>The level a projection asks for; the empty phase where it asks for none.\<close>

definition eta_level :: "Thresholds \<Rightarrow> duration \<Rightarrow> Phase" where
  "eta_level t eta =
     (if eta \<le> hardStopETA t then PhaseStopped
      else if eta \<le> T_DrainETA t then PhaseDraining
      else if eta \<le> T_WarnETA t then PhaseWarned
      else PhaseOther '''')"

definition reset_soon :: "Thresholds \<Rightarrow> QuotaSnapshot \<Rightarrow> instant \<Rightarrow> bool" where
  "reset_soon t snap now =
     (case Snap_ResetsAt snap of
        None \<Rightarrow> False
      | Some r \<Rightarrow> T_ResetExemption t > 0 \<and> time_sub r now > 0 \<and> time_sub r now \<le> T_ResetExemption t)"

definition until_reset :: "instant option \<Rightarrow> instant \<Rightarrow> duration" where
  "until_reset resetsAt now = (case resetsAt of None \<Rightarrow> 0 | Some r \<Rightarrow> time_sub r now)"

definition runway :: "Thresholds \<Rightarrow> duration option \<Rightarrow> duration \<Rightarrow> float64 \<Rightarrow> go_text option" where
  "runway t exhausts untilReset rate =
     (case exhausts of
        None \<Rightarrow> None
      | Some eta \<Rightarrow> if T_RateWindow t > 0 \<and> untilReset > 0 then runwayHolds t eta untilReset rate else None)"

text \<open>Whether the projection is consulted at all.\<close>

definition projected :: "Thresholds \<Rightarrow> QuotaSnapshot \<Rightarrow> BucketState \<Rightarrow> instant \<Rightarrow> duration option" where
  "projected t snap state now =
     (case State_ExhaustsIn state of
        None \<Rightarrow> None
      | Some eta \<Rightarrow>
          if f_le (T_WarnPercent t) (Snap_UsedPercent snap) \<and> T_RateWindow t > 0
             \<and> (Snap_ResetsAt snap = None \<or> eta < until_reset (Snap_ResetsAt snap) now)
          then Some eta else None)"

definition wantedLevel :: "Thresholds \<Rightarrow> QuotaSnapshot \<Rightarrow> BucketState \<Rightarrow> instant \<Rightarrow> Phase \<times> go_text \<times> BucketState" where
  "wantedLevel t snap state now =
     (let untilReset = until_reset (Snap_ResetsAt snap) now in
      if reset_soon t snap now
      then (PhaseNormal, Sprintf ''window resets in %s; nothing to save by stopping'' [RoundedArg untilReset second], state)
      else (case runway t (State_ExhaustsIn state) untilReset (State_RatePerMinute state) of
        Some why \<Rightarrow> (PhaseNormal, why, state)
      | None \<Rightarrow>
          let lvl = level t (Snap_UsedPercent snap);
              why = Sprintf ''threshold %.0f%%'' [FloatArg (thresholdFor t lvl)]
          in (case projected t snap state now of
                None \<Rightarrow> (lvl, why, state)
              | Some eta \<Rightarrow>
                  if Rank (eta_level t eta) > Rank lvl
                  then
                    let state' = state\<lparr>State_ETAStrikes := wrap64 (State_ETAStrikes state + 1)\<rparr> in
                    if State_ETAStrikes state' < 2 then (lvl, why, state')
                    else (eta_level t eta,
                          Sprintf ''burning %.1f%%/min, exhausted in about %s, %s''
                            [FloatArg (State_RatePerMinute state'), RoundedArg eta minute,
                             TextArg (if Snap_ResetsAt snap = None then Sprintf ''no reset time reported'' []
                                      else Sprintf ''window resets in %s'' [RoundedArg untilReset minute])],
                          state')
                  else (lvl, why, state))))"

section \<open>Evaluating a snapshot\<close>

definition detectReset :: "Thresholds \<Rightarrow> QuotaSnapshot \<Rightarrow> BucketState \<Rightarrow> go_text option" where
  "detectReset t snap prev =
     (if is_zero_time (State_ObservedAt prev) then None
      else (case State_ResetsAt prev of
        None \<Rightarrow> None
      | Some prevReset \<Rightarrow>
          let used = Snap_UsedPercent snap;
              windowPassed = prevReset < Snap_ObservedAt snap;
              movedForward = (case Snap_ResetsAt snap of None \<Rightarrow> False
                              | Some r \<Rightarrow> time_sub r prevReset > T_ResetTolerance t)
          in if windowPassed \<and> f_lt used (T_RearmPercent t)
             then Some (Sprintf ''window reset at %s confirmed by a fresh snapshot at %.0f%%'' [TimeArg prevReset, FloatArg used])
             else if movedForward \<and> f_lt used (T_RearmPercent t)
             then Some (Sprintf ''provider moved the reset time forward to %s and reports %.0f%%''
                    ((case Snap_ResetsAt snap of None \<Rightarrow> [] | Some r \<Rightarrow> [TimeArg r]) @ [FloatArg used]))
             else if windowPassed \<or> movedForward
             then Some (Sprintf ''new window (reset %s) starts at %.0f%%''
                    [StrArg (EpochFor (Snap_ResetsAt snap)), FloatArg used])
             else if State_Phase prev \<noteq> PhaseNormal \<and> f_lt used (State_UsedPercent prev)
                     \<and> f_lt used (f_sub (T_WarnPercent t) (f_of_int ExtensionMargin))
             then Some (Sprintf ''provider extended the quota: usage fell from %.0f%% to %.0f%%, more than %d points below the warn threshold of %.0f%%''
                    [FloatArg (State_UsedPercent prev), FloatArg used, IntArg ExtensionMargin, FloatArg (T_WarnPercent t)])
             else None))"

definition ignored_text :: "QuotaSnapshot \<Rightarrow> BucketState \<Rightarrow> instant \<Rightarrow> go_text option" where
  "ignored_text snap state now =
     (if Snap_Key snap \<noteq> State_Key state then Some (Sprintf ''snapshot is for a different bucket'' [])
      else if Snap_SourceEventID snap \<noteq> '''' \<and> Snap_SourceEventID snap = State_LastEventID state
      then Some (Sprintf ''duplicate event'' [])
      else if \<not> is_zero_time (State_ObservedAt state) \<and> Snap_ObservedAt snap < State_ObservedAt state
      then Some (Sprintf ''out-of-order event'' [])
      else if IsExpired snap now
      then Some (Sprintf ''reset time already passed; snapshot describes an old window'' [])
      else None)"

definition rearm :: "instant \<Rightarrow> BucketState \<Rightarrow> BucketState" where
  "rearm now state =
     state\<lparr>State_RecoveredAt := Some now, State_Phase := PhaseNormal, State_DrainDeadline := None,
           State_StoppedAt := None, State_ProbedAt := None, State_RearmObservations := 0\<rparr>"

definition rearm_action :: "QuotaSnapshot \<Rightarrow> go_text \<Rightarrow> Action" where
  "rearm_action snap reason =
     \<lparr>Action_Kind = ActionRearm, Action_Bucket = Snap_Key snap, Action_Snapshot = snap, Action_Reason = reason,
      Action_EpochUnchanged = False\<rparr>"

text \<open>A new window, or enough low readings of a bucket that reports no reset time.\<close>

definition apply_reset :: "Thresholds \<Rightarrow> QuotaSnapshot \<Rightarrow> instant \<Rightarrow> BucketState \<Rightarrow> BucketState \<times> Action list" where
  "apply_reset t snap now state =
     (case detectReset t snap state of
        Some reason \<Rightarrow>
          (rearm now state, if State_Phase state \<noteq> PhaseNormal then [rearm_action snap reason] else [])
      | None \<Rightarrow>
          if State_Phase state \<noteq> PhaseNormal \<and> State_ResetsAt state = None
          then
            if f_lt (Snap_UsedPercent snap) (T_RearmPercent t)
            then
              let n = wrap64 (State_RearmObservations state + 1) in
              if T_RearmObservations t \<le> n
              then (rearm now state,
                    [rearm_action snap (Sprintf ''usage stayed below %.0f%% for %d observations''
                                          [FloatArg (T_RearmPercent t), IntArg n])])
              else (state\<lparr>State_RearmObservations := n\<rparr>, [])
            else (state\<lparr>State_RearmObservations := 0\<rparr>, [])
          else (state, []))"

definition note_reading :: "Thresholds \<Rightarrow> QuotaSnapshot \<Rightarrow> bool \<Rightarrow> BucketState \<Rightarrow> BucketState" where
  "note_reading t snap reset state =
     (let recent = (if reset then [] else State_Recent state)
                   @ [\<lparr>Reading_At = Snap_ObservedAt snap, Reading_Used = Snap_UsedPercent snap\<rparr>];
          (rate, eta) = burnRate t recent (Snap_ObservedAt snap)
      in state\<lparr>State_RatePerMinute := rate, State_ExhaustsIn := eta,
               State_Recent := trimReadings recent (time_add (Snap_ObservedAt snap) (wrap64 (- 2 * rateWindow t)))\<rparr>)"

definition action_for :: "Phase \<Rightarrow> ActionKind" where
  "action_for p =
     (case p of PhaseWarned \<Rightarrow> ActionWarn | PhaseDraining \<Rightarrow> ActionDrain | PhaseStopped \<Rightarrow> ActionStop
      | _ \<Rightarrow> ActionKindOther '''')"

definition enter_phase :: "Thresholds \<Rightarrow> instant \<Rightarrow> Phase \<Rightarrow> BucketState \<Rightarrow> BucketState" where
  "enter_phase t now want state =
     (case want of
        PhaseDraining \<Rightarrow> state\<lparr>State_Phase := want, State_DrainDeadline := Some (time_add now (T_GracePeriod t))\<rparr>
      | PhaseStopped \<Rightarrow> state\<lparr>State_Phase := want, State_DrainDeadline := None, State_StoppedAt := Some now\<rparr>
      | _ \<Rightarrow> state\<lparr>State_Phase := want\<rparr>)"

definition escalate :: "Thresholds \<Rightarrow> QuotaSnapshot \<Rightarrow> instant \<Rightarrow> BucketState \<Rightarrow> BucketState \<times> Action list" where
  "escalate t snap now state0 =
     (let (want, why, state1) = wantedLevel t snap state0 now;
          state2 = (if State_ETAStrikes state1 = State_ETAStrikes state0 then state1\<lparr>State_ETAStrikes := 0\<rparr> else state1);
          state3 = (if State_Phase state2 = PhaseWarned \<and> want = PhaseNormal
                       \<and> f_lt (Snap_UsedPercent snap) (T_WarnPercent t)
                    then state2\<lparr>State_Phase := PhaseNormal\<rparr> else state2)
      in if Rank want > Rank (State_Phase state3)
         then (enter_phase t now want state3,
               [\<lparr>Action_Kind = action_for want, Action_Bucket = Snap_Key snap, Action_Snapshot = snap,
                 Action_Reason = Sprintf ''%s at %.0f%%: %s'' [TextArg (describe snap), FloatArg (Snap_UsedPercent snap), TextArg why],
                 Action_EpochUnchanged = False\<rparr>])
         else (state3, []))"

definition record_snapshot :: "Thresholds \<Rightarrow> QuotaSnapshot \<Rightarrow> instant \<Rightarrow> BucketState \<Rightarrow> BucketState" where
  "record_snapshot t snap now state =
     state\<lparr>State_WindowDuration := Snap_WindowDuration snap, State_LimitName := Snap_LimitName snap,
           State_ModelSelector := Snap_ModelSelector snap, State_UsedPercent := Snap_UsedPercent snap,
           State_ResetsAt := Snap_ResetsAt snap, State_Epoch := EpochFor (Snap_ResetsAt snap),
           State_ObservedAt := Snap_ObservedAt snap, State_LastEventID := Snap_SourceEventID snap,
           State_UpdatedAt := now,
           State_Healthy := (State_Phase state = PhaseNormal \<and> f_lt (Snap_UsedPercent snap) (T_WarnPercent t)),
           State_AppliedThresholds := Some (applied t)\<rparr>"

definition initial_state :: "QuotaSnapshot \<Rightarrow> BucketState \<Rightarrow> BucketState" where
  "initial_state snap prev =
     (if State_Key prev = zero_BucketKey
      then zero_BucketState\<lparr>State_Key := Snap_Key snap, State_Phase := PhaseNormal\<rparr> else prev)"

definition Evaluate :: "Thresholds \<Rightarrow> QuotaSnapshot \<Rightarrow> BucketState \<Rightarrow> instant \<Rightarrow> Decision" where
  "Evaluate t snap prev now =
     (let state = initial_state snap prev in
      case ignored_text snap state now of
        Some why \<Rightarrow> \<lparr>Decision_State = prev, Decision_Actions = [], Decision_Ignored = Some why\<rparr>
      | None \<Rightarrow>
          let (state1, rearms) = apply_reset t snap now state;
              state2 = note_reading t snap (detectReset t snap state \<noteq> None) state1;
              (state3, escalations) = escalate t snap now state2
          in \<lparr>Decision_State = record_snapshot t snap now state3, Decision_Actions = rearms @ escalations,
              Decision_Ignored = None\<rparr>)"

section \<open>Without a snapshot\<close>

text \<open>The snapshot a timer or load-time action reports: the stored observation.\<close>

definition stored_snapshot :: "BucketState \<Rightarrow> QuotaSnapshot" where
  "stored_snapshot state =
     \<lparr>Snap_Key = State_Key state, Snap_LimitName = State_LimitName state, Snap_UsedPercent = State_UsedPercent state,
      Snap_WindowDuration = State_WindowDuration state, Snap_ResetsAt = State_ResetsAt state,
      Snap_ModelSelector = State_ModelSelector state, Snap_ObservedAt = State_ObservedAt state,
      Snap_SourceEventID = State_LastEventID state, Snap_ThreadID = ''''\<rparr>"

definition unchanged :: "BucketState \<Rightarrow> Decision" where
  "unchanged prev = \<lparr>Decision_State = prev, Decision_Actions = [], Decision_Ignored = None\<rparr>"

definition Rederive :: "Thresholds \<Rightarrow> BucketState \<Rightarrow> instant \<Rightarrow> Decision" where
  "Rederive t prev now =
     (if State_Key prev = zero_BucketKey \<or> State_Phase prev = PhaseNormal then unchanged prev
      else let want = level t (State_UsedPercent prev) in
        if Rank want \<ge> Rank (State_Phase prev) then unchanged prev
        else
          let state0 = prev\<lparr>State_Phase := want, State_StoppedAt := None, State_DrainDeadline := None,
                            State_ProbedAt := None, State_ETAStrikes := 0, State_RearmObservations := 0\<rparr>;
              state1 = (if want = PhaseNormal then state0\<lparr>State_RecoveredAt := Some now\<rparr> else state0);
              state2 = state1\<lparr>State_Healthy := (want = PhaseNormal \<and> f_lt (State_UsedPercent prev) (T_WarnPercent t)),
                              State_AppliedThresholds := Some (applied t), State_UpdatedAt := now\<rparr>;
              before = (case State_AppliedThresholds prev of
                          None \<Rightarrow> Sprintf ''unknown'' [] | Some s \<Rightarrow> ThresholdSet_String s);
              snap = stored_snapshot prev
          in \<lparr>Decision_State = state2,
              Decision_Actions =
                [\<lparr>Action_Kind = ActionRearm, Action_Bucket = State_Key prev, Action_Snapshot = snap,
                  Action_Reason =
                    Sprintf ''re-derived at load: %s at %.0f%% is %s under thresholds warn/drain/stop %s, not %s as stored under %s''
                      [TextArg (describe snap), FloatArg (State_UsedPercent prev), StrArg (Phase_text want),
                       TextArg (ThresholdSet_String (applied t)), StrArg (Phase_text (State_Phase prev)), TextArg before],
                  Action_EpochUnchanged = True\<rparr>],
              Decision_Ignored = None\<rparr>)"

definition stand_down :: "instant \<Rightarrow> BucketState \<Rightarrow> go_text \<Rightarrow> Decision" where
  "stand_down now state why =
     \<lparr>Decision_State = state\<lparr>State_DrainDeadline := None, State_UpdatedAt := now\<rparr>, Decision_Actions = [],
      Decision_Ignored = Some why\<rparr>"

definition tick_runway :: "Thresholds \<Rightarrow> BucketState \<Rightarrow> instant \<Rightarrow> go_text option" where
  "tick_runway t state now =
     (case State_ResetsAt state of
        None \<Rightarrow> None
      | Some r \<Rightarrow> runway t (State_ExhaustsIn state) (time_sub r now) (State_RatePerMinute state))"

definition tick_reset_soon :: "Thresholds \<Rightarrow> BucketState \<Rightarrow> instant \<Rightarrow> bool" where
  "tick_reset_soon t state now =
     (case State_ResetsAt state of
        None \<Rightarrow> False
      | Some r \<Rightarrow> T_ResetExemption t > 0 \<and> time_sub r now > 0 \<and> time_sub r now \<le> T_ResetExemption t)"

definition below_stop :: "Thresholds \<Rightarrow> BucketState \<Rightarrow> bool" where
  "below_stop t state \<longleftrightarrow>
     f_lt (State_UsedPercent state) (T_StopPercent t) \<and>
     (case State_ExhaustsIn state of None \<Rightarrow> True | Some eta \<Rightarrow> eta > hardStopETA t)"

definition Tick :: "Thresholds \<Rightarrow> BucketState \<Rightarrow> instant \<Rightarrow> Decision" where
  "Tick t prev now =
     (if State_Phase prev \<noteq> PhaseDraining \<or> (case State_DrainDeadline prev of None \<Rightarrow> True | Some d \<Rightarrow> now < d)
      then unchanged prev
      else (case tick_runway t prev now of
        Some why \<Rightarrow> stand_down now prev (Sprintf ''grace expired but %s'' [TextArg why])
      | None \<Rightarrow>
          if tick_reset_soon t prev now
          then stand_down now prev (Sprintf ''grace expired but the window resets in %s; not stopping''
                 [RoundedArg (until_reset (State_ResetsAt prev) now) second])
          else if below_stop t prev
          then stand_down now prev
                 (Sprintf ''grace expired at %.0f%%, below the stop threshold of %.0f%% with %s; the drain request stands''
                    [FloatArg (State_UsedPercent prev), FloatArg (T_StopPercent t),
                     TextArg (case State_ExhaustsIn prev of None \<Rightarrow> Sprintf ''no exhaustion projected'' []
                              | Some eta \<Rightarrow> Sprintf ''exhaustion projected in %s'' [RoundedArg eta minute])])
          else
            \<lparr>Decision_State = prev\<lparr>State_Phase := PhaseStopped, State_DrainDeadline := None, State_StoppedAt := Some now,
                                   State_Healthy := False, State_UpdatedAt := now\<rparr>,
             Decision_Actions =
               [\<lparr>Action_Kind = ActionStop, Action_Bucket = State_Key prev, Action_Snapshot = stored_snapshot prev,
                 Action_Reason = Sprintf ''grace period of %s expired after the drain warning'' [DurationArg (T_GracePeriod t)],
                 Action_EpochUnchanged = False\<rparr>],
             Decision_Ignored = None\<rparr>))"

end
