(* ===== verification/PolicySpec.thy ===== *)
theory PolicySpec
  imports Policy
begin

text \<open>
  What the quota engine keeps: bounds of the burn rate and of the projected exhaustion, the
  causes a reading may have to stop a bucket, and the invariant of a bucket's stored state under
  readings, timer ticks and restarts (\<open>bucket_reachable\<close>).
\<close>

section \<open>Finite arithmetic\<close>

text \<open>Rounding at most doubles a value, so what fits an \<open>int64\<close> stays finite.\<close>

lemma fl_bound: "\<bar>fl x\<bar> \<le> 2 * \<bar>x\<bar> + 1"
proof (cases "x = 0")
  case False
  let ?m = "max (exponent_of x - 52) (- 1074)" and ?u = "2 powi (max (exponent_of x - 52) (- 1074)) :: rat"
  have u: "0 < ?u" by simp
  have "fl x - x = (of_int (round_even (x / ?u)) - x / ?u) * ?u" by (simp add: fl_def Let_def algebra_simps)
  then have "\<bar>fl x - x\<bar> = \<bar>of_int (round_even (x / ?u)) - x / ?u\<bar> * ?u" using u by (simp add: abs_mult)
  also have "\<dots> \<le> 1 / 2 * ?u" using u round_even_near by (intro mult_right_mono) simp_all
  finally have near: "\<bar>fl x - x\<bar> \<le> ?u / 2" by simp
  have "?u \<le> \<bar>x\<bar> + 1"
  proof (cases "exponent_of x - 52 \<le> - 1074")
    case True
    then have "?u = 2 powi (- 1074)" by (simp add: max_def)
    also have "\<dots> \<le> 2 powi (0 :: int)" by (intro power_int_increasing) simp_all
    finally show ?thesis by simp
  next
    case False
    then have "?u \<le> 2 powi exponent_of x" by (intro power_int_increasing) simp_all
    with exponent_of_correct(1) [OF \<open>x \<noteq> 0\<close>] show ?thesis by simp
  qed
  with near have "\<bar>fl x - x\<bar> \<le> (\<bar>x\<bar> + 1) / 2" by simp
  then show ?thesis by (simp add: abs_if split: if_splits)
qed simp

lemma round64_finite: "2 * \<bar>x\<bar> + 1 < float_limit \<Longrightarrow> round64 x = Fin (fl x)"
  using fl_bound [of x] by (simp add: round64_def Let_def)

lemma fl_int: "\<bar>i\<bar> < 2 ^ 53 \<Longrightarrow> fl (of_int i) = of_int i"
  by (rule fl_exact [of _ i 0]) simp_all

lemma f_of_int_exact: "\<bar>i\<bar> < 2 ^ 53 \<Longrightarrow> f_of_int i = Fin (of_int i)"
proof -
  assume i: "\<bar>i\<bar> < 2 ^ 53"
  then have "of_int \<bar>i\<bar> < (of_int (2 ^ 53) :: rat)" by (simp only: of_int_less_iff)
  then have "round64 (of_int i) = Fin (fl (of_int i))" by (intro round64_finite) (simp add: float_limit_def)
  then show ?thesis using fl_int [OF i] by (simp add: f_of_int_def)
qed

lemma minute_nonzero: "((of_int minute :: rat) = 0) = False"
  by (simp add: minute_def second_def)

text \<open>The minutes of a non-negative duration are a finite, non-negative number.\<close>

lemma duration_minutes_nonneg:
  assumes "0 \<le> d" and "d \<le> max_int64"
  shows "\<exists>q. duration_minutes d = Fin q \<and> 0 \<le> q"
proof -
  let ?q = "d div minute" and ?r = "d - d div minute * minute"
  have q: "0 \<le> ?q" "?q < 2 ^ 28"
    using assms by (auto simp: minute_def second_def max_int64_def)
  have r: "0 \<le> ?r" "?r < minute" by (simp_all add: minute_def second_def minus_div_mult_eq_mod)
  have ints: "f_of_int ?q = Fin (of_int ?q)" "f_of_int ?r = Fin (of_int ?r)" "f_of_int minute = Fin (of_int minute)"
    using q r by (simp_all add: f_of_int_exact minute_def second_def)
  let ?y = "of_int ?r / of_int minute :: rat"
  have y: "0 \<le> ?y" "?y < 1" using r by (simp_all add: minute_def second_def)
  have z: "0 \<le> fl ?y" "fl ?y \<le> 3" using fl_nonneg [OF y(1)] fl_bound [of ?y] y by auto
  have "2 * \<bar>?y\<bar> + 1 < float_limit" using y by (simp only: abs_of_nonneg float_limit_def)
  from round64_finite [OF this] have div: "f_div (f_of_int ?r) (f_of_int minute) = Fin (fl ?y)"
    unfolding ints f_div.simps by (simp only: if_False minute_nonzero)
  let ?x = "of_int ?q + fl ?y"
  have "(of_int ?q :: rat) < of_int (2 ^ 28)" using q(2) by (simp only: of_int_less_iff)
  with q(1) z have x: "0 \<le> ?x" "?x \<le> 2 ^ 28 + 3" by simp_all
  then have "round64 ?x = Fin (fl ?x)" by (intro round64_finite) (simp add: float_limit_def)
  then have "duration_minutes d = Fin (fl ?x)"
    using assms(1) div ints(1) by (simp add: duration_minutes_def Let_def)
  with fl_nonneg [OF x(1)] show ?thesis by blast
qed

section \<open>The burn rate\<close>

definition finite_readings :: "Reading list \<Rightarrow> bool" where
  "finite_readings rs \<longleftrightarrow> (\<forall>r \<in> set rs. \<exists>q. Reading_Used r = Fin q)"

lemma scan_readings_in:
  "fold (scan_reading cutoff) rs (old, high) = (old', high') \<Longrightarrow>
     (high' = high \<or> high' \<in> set rs) \<and> (\<forall>r. old' = Some r \<longrightarrow> old = Some r \<or> r \<in> set rs)"
proof (induction rs arbitrary: old high)
  case (Cons r rs)
  obtain old1 high1 where step: "scan_reading cutoff r (old, high) = (old1, high1)" by fastforce
  then have "(high1 = high \<or> high1 = r) \<and> (\<forall>q. old1 = Some q \<longrightarrow> old = Some q \<or> q = r)"
    by (auto simp: scan_reading_def split: if_splits option.splits)
  with Cons.IH [of old1 high1] Cons.prems step show ?case by auto
qed simp

lemma rate_span_bounds: "rate_span old high now = Some d \<Longrightarrow> 0 \<le> d \<and> d \<le> max_int64"
  using sat64_in_int64 by (auto simp: rate_span_def Let_def time_sub_def in_int64_def minute_def second_def split: if_splits)

lemma f_sub_pos:
  assumes "x = Fin a" and "y = Fin b" and "\<not> f_le (f_sub x y) (Fin 0)"
  shows "f_lt f_zero (f_sub x y)"
  using assms by (auto simp: f_sub_def round64_def Let_def f_zero_def split: if_splits)

lemma f_div_minutes: "f_lt f_zero x \<Longrightarrow> 0 \<le> q \<Longrightarrow> f_le f_zero (f_div x (Fin q))"
  by (cases x) (auto simp: f_zero_def intro: round64_nonneg [unfolded f_zero_def])

text \<open>A projected time is not negative, unless it did not fit its type.\<close>

lemma f_div_pos: "f_lt f_zero x \<Longrightarrow> f_le f_zero y \<Longrightarrow> f_div x y = NaN \<or> f_le f_zero (f_div x y)"
  by (cases x; cases y) (auto simp: f_zero_def intro: round64_nonneg [unfolded f_zero_def])

lemma f_mul_pos: "x = NaN \<or> f_le f_zero x \<Longrightarrow> 0 \<le> q \<Longrightarrow> f_mul x (Fin q) = NaN \<or> f_le f_zero (f_mul x (Fin q))"
  by (cases x) (auto simp: f_zero_def intro: round64_nonneg [unfolded f_zero_def])

lemma projection_sign:
  assumes "f_lt f_zero remaining" and "f_le f_zero rate"
  shows "0 \<le> f_to_int64 (f_mul (f_div remaining rate) (f_of_int minute)) \<or>
     f_to_int64 (f_mul (f_div remaining rate) (f_of_int minute)) = min_int64"
proof -
  have minute: "f_of_int minute = Fin (of_int minute)" "(0 :: rat) \<le> of_int minute"
    by (simp_all add: f_of_int_exact minute_def second_def)
  show ?thesis
    unfolding minute(1) using f_mul_pos [OF f_div_pos [OF assms] minute(2)] f_to_int64_nonneg by fastforce
qed

definition eta_ok :: "duration \<Rightarrow> bool" where
  "eta_ok d \<longleftrightarrow> 0 \<le> d \<and> d \<le> max_int64 \<or> d = min_int64"

lemma eta_ok_convert: "0 \<le> f_to_int64 x \<or> f_to_int64 x = min_int64 \<Longrightarrow> eta_ok (f_to_int64 x)"
  using f_to_int64_in_int64 [of x] by (auto simp: eta_ok_def in_int64_def)

lemma burnRate_bounds:
  assumes "finite_readings recent" and "burnRate t recent now = (rate, eta)"
  shows "f_le f_zero rate" and "\<And>d. eta = Some d \<Longrightarrow> eta_ok d"
proof -
  let ?ok = "f_le f_zero rate \<and> (\<forall>d. eta = Some d \<longrightarrow> eta_ok d)"
  have zero: ?ok if "burnRate t recent now = (Fin 0, None)" using that assms(2) by (simp add: f_zero_def)
  have ?ok
  proof (cases "T_RateWindow t \<le> 0 \<or> length recent < 2")
    case True
    then show ?thesis by (intro zero) (auto simp: burnRate_def)
  next
    case False
    obtain oldest high where scan: "fold (scan_reading (time_add now (- rateWindow t))) recent (None, last recent) = (oldest, high)"
      by fastforce
    note members = scan_readings_in [OF scan]
    have "recent \<noteq> []" using False by auto
    show ?thesis
    proof (cases oldest)
      case None
      then show ?thesis using False scan by (intro zero) (simp add: burnRate_def Let_def)
    next
      case (Some old)
      have "old \<in> set recent" using Some members by auto
      moreover have "high \<in> set recent" using members \<open>recent \<noteq> []\<close> by auto
      ultimately obtain a b where ab: "Reading_Used high = Fin a" "Reading_Used old = Fin b"
        using assms(1) by (metis finite_readings_def)
      let ?rise = "f_sub (Reading_Used high) (Reading_Used old)"
      show ?thesis
      proof (cases "rate_span old high now")
        case None
        then show ?thesis using False scan Some by (intro zero) (simp add: burnRate_def Let_def)
      next
        case (Some d)
        obtain q where q: "duration_minutes d = Fin q" "0 \<le> q"
          using duration_minutes_nonneg rate_span_bounds [OF Some] by blast
        show ?thesis
        proof (cases "f_le ?rise (Fin 0)")
          case True
          then show ?thesis using False scan \<open>oldest = Some old\<close> Some by (intro zero) (simp add: burnRate_def Let_def)
        next
          case rise: False
          let ?rate = "f_div ?rise (duration_minutes d)" and ?remaining = "f_sub (Fin 100) (Reading_Used high)"
          have result: "rate = ?rate" "eta = (if f_le ?remaining (Fin 0) then Some 0
              else Some (f_to_int64 (f_mul (f_div ?remaining ?rate) (f_of_int minute))))"
            using assms(2) False scan \<open>oldest = Some old\<close> Some rise by (auto simp: burnRate_def Let_def split: if_splits)
          have rate: "f_le f_zero ?rate"
            unfolding q(1) by (rule f_div_minutes [OF f_sub_pos [OF ab rise] q(2)])
          show ?thesis
          proof (cases "f_le ?remaining (Fin 0)")
            case True
            with result rate show ?thesis by (simp add: eta_ok_def max_int64_def)
          next
            case False
            from projection_sign [OF f_sub_pos [OF refl ab(1) False] rate] eta_ok_convert result rate False
            show ?thesis by simp
          qed
        qed
      qed
    qed
  qed
  then show "f_le f_zero rate" and "\<And>d. eta = Some d \<Longrightarrow> eta_ok d" by auto
qed


section \<open>The ladder\<close>

definition known :: "Phase \<Rightarrow> bool" where
  "known p \<longleftrightarrow> p \<in> {PhaseNormal, PhaseWarned, PhaseDraining, PhaseStopped}"

lemma level_known: "known (level t u)"
  by (simp add: level_def known_def)

lemma Rank_pos: "0 < Rank p \<Longrightarrow> p \<in> {PhaseWarned, PhaseDraining, PhaseStopped}"
  by (cases p) simp_all

lemma Rank_nonneg: "0 \<le> Rank p"
  by (cases p) simp_all

lemma Rank_eq_3: "Rank p = 3 \<longleftrightarrow> p = PhaseStopped"
  by (cases p) simp_all

text \<open>The reasons for which a reading may ask for a stop.\<close>

definition stop_cause :: "Thresholds \<Rightarrow> QuotaSnapshot \<Rightarrow> duration option \<Rightarrow> int \<Rightarrow> instant \<Rightarrow> bool" where
  "stop_cause t snap exhausts strikes now \<longleftrightarrow>
     f_le (T_StopPercent t) (Snap_UsedPercent snap) \<or>
     f_le (T_WarnPercent t) (Snap_UsedPercent snap) \<and> 2 \<le> wrap64 (strikes + 1) \<and>
     (\<exists>eta. exhausts = Some eta \<and> eta \<le> hardStopETA t \<and> 0 < T_RateWindow t \<and>
        (\<forall>r. Snap_ResetsAt snap = Some r \<longrightarrow> eta < time_sub r now))"

lemma wantedLevel_cases:
  assumes "wantedLevel t snap s now = (want, why, s')"
  shows "known want" and "s' = s \<or> (\<exists>n. s' = s\<lparr>State_ETAStrikes := n\<rparr>)"
    and "want = PhaseStopped \<Longrightarrow> \<not> reset_soon t snap now \<and>
       runway t (State_ExhaustsIn s) (until_reset (Snap_ResetsAt snap) now) (State_RatePerMinute s) = None \<and>
       stop_cause t snap (State_ExhaustsIn s) (State_ETAStrikes s) now"
proof -
  let ?until = "until_reset (Snap_ResetsAt snap) now" and ?lvl = "level t (Snap_UsedPercent snap)"
  let ?ok = "known want \<and> (s' = s \<or> (\<exists>n. s' = s\<lparr>State_ETAStrikes := n\<rparr>)) \<and>
       (want = PhaseStopped \<longrightarrow> \<not> reset_soon t snap now \<and>
       runway t (State_ExhaustsIn s) ?until (State_RatePerMinute s) = None \<and>
       stop_cause t snap (State_ExhaustsIn s) (State_ETAStrikes s) now)"
  have by_level: "stop_cause t snap e n now" if "?lvl = PhaseStopped" for e n
    using that by (simp add: stop_cause_def level_def split: if_splits)
  have ?ok
  proof (cases "reset_soon t snap now")
    case True
    with assms show ?thesis by (auto simp: wantedLevel_def Let_def known_def)
  next
    case soon: False
    show ?thesis
    proof (cases "runway t (State_ExhaustsIn s) ?until (State_RatePerMinute s)")
      case (Some w)
      with assms soon show ?thesis by (auto simp: wantedLevel_def Let_def known_def)
    next
      case runs: None
      show ?thesis
      proof (cases "projected t snap s now")
        case None
        with assms soon runs by_level level_known show ?thesis by (auto simp: wantedLevel_def Let_def)
      next
        case (Some eta)
        then have eta: "State_ExhaustsIn s = Some eta" "f_le (T_WarnPercent t) (Snap_UsedPercent snap)" "0 < T_RateWindow t"
          "\<forall>r. Snap_ResetsAt snap = Some r \<longrightarrow> eta < time_sub r now"
          by (auto simp: projected_def until_reset_def split: option.splits if_splits)
        show ?thesis
        proof (cases "Rank (eta_level t eta) > Rank ?lvl \<and> 2 \<le> wrap64 (State_ETAStrikes s + 1)")
          case False
          have "want = ?lvl \<and> (s' = s \<or> (\<exists>n. s' = s\<lparr>State_ETAStrikes := n\<rparr>))"
          proof (cases "Rank (eta_level t eta) > Rank ?lvl")
            case True
            with False have "wrap64 (State_ETAStrikes s + 1) < 2" by simp
            with True assms show ?thesis unfolding wantedLevel_def Let_def using soon runs Some by auto
          next
            case False
            with assms show ?thesis unfolding wantedLevel_def Let_def using soon runs Some by auto
          qed
          then show ?thesis using soon runs by_level level_known by auto
        next
          case True
          then have "\<not> wrap64 (State_ETAStrikes s + 1) < 2" by simp
          with True have "want = eta_level t eta \<and> s' = s\<lparr>State_ETAStrikes := wrap64 (State_ETAStrikes s + 1)\<rparr>"
            using assms unfolding wantedLevel_def Let_def using soon runs Some by auto
          then have "want = eta_level t eta" "\<exists>n. s' = s\<lparr>State_ETAStrikes := n\<rparr>" by blast+
          moreover have "known (eta_level t eta)"
            using True Rank_nonneg [of ?lvl] Rank_pos [of "eta_level t eta"] by (auto simp: known_def)
          moreover have "stop_cause t snap (State_ExhaustsIn s) (State_ETAStrikes s) now" if "eta_level t eta = PhaseStopped"
            using that eta True by (auto simp: stop_cause_def eta_level_def split: if_splits)
          ultimately show ?thesis using soon runs by auto
        qed
      qed
    qed
  qed
  then show "known want" and "s' = s \<or> (\<exists>n. s' = s\<lparr>State_ETAStrikes := n\<rparr>)"
    and "want = PhaseStopped \<Longrightarrow> \<not> reset_soon t snap now \<and>
       runway t (State_ExhaustsIn s) ?until (State_RatePerMinute s) = None \<and>
       stop_cause t snap (State_ExhaustsIn s) (State_ETAStrikes s) now" by blast+
qed

section \<open>The state of a bucket\<close>

text \<open>The bookkeeping agrees with the phase: a stop time exactly while stopped, a deadline only
  while draining.\<close>

definition phase_ok :: "BucketState \<Rightarrow> bool" where
  "phase_ok s \<longleftrightarrow> known (State_Phase s) \<and> (State_StoppedAt s \<noteq> None \<longleftrightarrow> State_Phase s = PhaseStopped) \<and>
     (State_DrainDeadline s \<noteq> None \<longrightarrow> State_Phase s = PhaseDraining)"

lemma phase_ok_initial: "phase_ok prev \<or> prev = zero_BucketState \<Longrightarrow> phase_ok (initial_state snap prev)"
  by (auto simp: initial_state_def phase_ok_def known_def zero_BucketState_def)

lemma phase_ok_reset:
  assumes "apply_reset t snap now s = (s', as)" and "phase_ok s"
  shows "phase_ok s'"
  using assms by (auto simp: apply_reset_def rearm_def Let_def phase_ok_def known_def split: option.splits if_splits)

lemma phase_ok_note: "phase_ok (note_reading t snap b s) \<longleftrightarrow> phase_ok s"
  by (simp add: note_reading_def phase_ok_def Let_def split: prod.split)

lemma note_reading_sel:
  "State_Phase (note_reading t snap b s) = State_Phase s"
  "State_ETAStrikes (note_reading t snap b s) = State_ETAStrikes s"
  by (simp_all add: note_reading_def Let_def split: prod.split)

lemma escalate_cases:
  assumes "escalate t snap now s = (s', as)"
  obtains want why s1 s3 where "wantedLevel t snap s now = (want, why, s1)" "known want"
    "State_Phase s3 = State_Phase s \<or> State_Phase s = PhaseWarned \<and> State_Phase s3 = PhaseNormal \<and>
       f_lt (Snap_UsedPercent snap) (T_WarnPercent t)"
    "State_StoppedAt s3 = State_StoppedAt s" "State_DrainDeadline s3 = State_DrainDeadline s"
    "State_ExhaustsIn s3 = State_ExhaustsIn s"
    "if Rank want > Rank (State_Phase s3)
     then s' = enter_phase t now want s3 \<and> map Action_Kind as = [action_for want]
     else s' = s3 \<and> as = []"
proof -
  obtain want why s1 where w: "wantedLevel t snap s now = (want, why, s1)" by (cases "wantedLevel t snap s now") auto
  let ?s2 = "if State_ETAStrikes s1 = State_ETAStrikes s then s1\<lparr>State_ETAStrikes := 0\<rparr> else s1"
  let ?s3 = "if State_Phase ?s2 = PhaseWarned \<and> want = PhaseNormal \<and> f_lt (Snap_UsedPercent snap) (T_WarnPercent t)
             then ?s2\<lparr>State_Phase := PhaseNormal\<rparr> else ?s2"
  note same = wantedLevel_cases(2) [OF w]
  show thesis
  proof (rule that [OF w wantedLevel_cases(1) [OF w], of ?s3])
    show "State_StoppedAt ?s3 = State_StoppedAt s" "State_DrainDeadline ?s3 = State_DrainDeadline s"
      "State_ExhaustsIn ?s3 = State_ExhaustsIn s" using same by auto
    show "State_Phase ?s3 = State_Phase s \<or> State_Phase s = PhaseWarned \<and> State_Phase ?s3 = PhaseNormal \<and>
       f_lt (Snap_UsedPercent snap) (T_WarnPercent t)" using same by auto
    show "if Rank want > Rank (State_Phase ?s3)
     then s' = enter_phase t now want ?s3 \<and> map Action_Kind as = [action_for want]
     else s' = ?s3 \<and> as = []"
    proof (cases "Rank want > Rank (State_Phase ?s3)")
      case True
      show ?thesis
        using assms unfolding escalate_def w Let_def case_prod_conv if_P [OF True] prod.inject by auto
    next
      case False
      show ?thesis
        using assms unfolding escalate_def w Let_def case_prod_conv if_not_P [OF False] prod.inject by blast
    qed
  qed
qed

lemma enter_phase_sel [simp]: "State_Phase (enter_phase t now want s) = want"
  "State_ExhaustsIn (enter_phase t now want s) = State_ExhaustsIn s"
  by (simp_all add: enter_phase_def split: Phase.split)

lemma phase_ok_escalate:
  assumes "escalate t snap now s = (s', as)" and "phase_ok s"
  shows "phase_ok s'"
proof -
  obtain want why s1 s3 where w: "known want"
    "State_Phase s3 = State_Phase s \<or> State_Phase s = PhaseWarned \<and> State_Phase s3 = PhaseNormal \<and>
       f_lt (Snap_UsedPercent snap) (T_WarnPercent t)"
    "State_StoppedAt s3 = State_StoppedAt s" "State_DrainDeadline s3 = State_DrainDeadline s"
    and result: "if Rank want > Rank (State_Phase s3)
     then s' = enter_phase t now want s3 \<and> map Action_Kind as = [action_for want]
     else s' = s3 \<and> as = []"
    by (rule escalate_cases [OF assms(1)]) blast
  have s3: "phase_ok s3" using w(2-4) assms(2) by (auto simp: phase_ok_def known_def)
  show ?thesis
  proof (cases "Rank want > Rank (State_Phase s3)")
    case True
    then have "State_Phase s3 \<noteq> PhaseStopped" using w(1) by (auto simp: known_def)
    moreover have "State_Phase s3 \<noteq> PhaseDraining \<or> want = PhaseStopped" using True w(1) by (auto simp: known_def)
    ultimately show ?thesis
      using result True s3 w(1) by (auto simp: phase_ok_def enter_phase_def known_def)
  next
    case False
    with result s3 show ?thesis by simp
  qed
qed


lemma Evaluate_ignored:
  "Decision_Ignored (Evaluate t snap prev now) \<noteq> None \<Longrightarrow>
     Decision_State (Evaluate t snap prev now) = prev \<and> Decision_Actions (Evaluate t snap prev now) = []"
  by (auto simp: Evaluate_def Let_def split: option.splits prod.splits)

lemma Evaluate_accepted:
  assumes "Decision_Ignored (Evaluate t snap prev now) = None"
  obtains s1 rearms b s3 escalations where
    "apply_reset t snap now (initial_state snap prev) = (s1, rearms)"
    "escalate t snap now (note_reading t snap b s1) = (s3, escalations)"
    "Evaluate t snap prev now =
       \<lparr>Decision_State = record_snapshot t snap now s3, Decision_Actions = rearms @ escalations, Decision_Ignored = None\<rparr>"
proof -
  let ?b = "detectReset t snap (initial_state snap prev) \<noteq> None"
  obtain s1 rearms where r: "apply_reset t snap now (initial_state snap prev) = (s1, rearms)" by fastforce
  obtain s3 es where e: "escalate t snap now (note_reading t snap ?b s1) = (s3, es)" by fastforce
  have "ignored_text snap (initial_state snap prev) now = None"
    using assms by (auto simp: Evaluate_def Let_def split: option.splits prod.splits)
  then have "Evaluate t snap prev now =
       \<lparr>Decision_State = record_snapshot t snap now s3, Decision_Actions = rearms @ es, Decision_Ignored = None\<rparr>"
    unfolding Evaluate_def Let_def r by (simp only: option.case case_prod_conv e)
  with r e show thesis by (rule that)
qed

lemma record_snapshot_sel [simp]:
  "State_Phase (record_snapshot t snap now s) = State_Phase s"
  "State_StoppedAt (record_snapshot t snap now s) = State_StoppedAt s"
  "State_DrainDeadline (record_snapshot t snap now s) = State_DrainDeadline s"
  "State_ExhaustsIn (record_snapshot t snap now s) = State_ExhaustsIn s"
  "State_UsedPercent (record_snapshot t snap now s) = Snap_UsedPercent snap"
  "State_Healthy (record_snapshot t snap now s) \<longleftrightarrow> State_Phase s = PhaseNormal \<and> f_lt (Snap_UsedPercent snap) (T_WarnPercent t)"
  by (simp_all add: record_snapshot_def)

text \<open>What a caller of the engine may rely on in a stored state: the bookkeeping agrees with the
  phase, and a healthy bucket is in the normal phase.\<close>

definition state_ok :: "BucketState \<Rightarrow> bool" where
  "state_ok s \<longleftrightarrow> s = zero_BucketState \<or> phase_ok s \<and> (State_Healthy s \<longrightarrow> State_Phase s = PhaseNormal)"

lemma Evaluate_ok:
  assumes "state_ok prev"
  shows "state_ok (Decision_State (Evaluate t snap prev now))"
proof (cases "Decision_Ignored (Evaluate t snap prev now)")
  case (Some w)
  with Evaluate_ignored [of t snap prev now] assms show ?thesis by simp
next
  case None
  obtain s1 rearms b s3 es where e: "apply_reset t snap now (initial_state snap prev) = (s1, rearms)"
    "escalate t snap now (note_reading t snap b s1) = (s3, es)"
    "Evaluate t snap prev now =
       \<lparr>Decision_State = record_snapshot t snap now s3, Decision_Actions = rearms @ es, Decision_Ignored = None\<rparr>"
    by (rule Evaluate_accepted [OF None])
  have "phase_ok (initial_state snap prev)" using assms by (intro phase_ok_initial) (auto simp: state_ok_def)
  from phase_ok_reset [OF e(1) this] have "phase_ok (note_reading t snap b s1)" by (simp add: phase_ok_note)
  from phase_ok_escalate [OF e(2) this] have "phase_ok s3" .
  then have "phase_ok (record_snapshot t snap now s3)" by (simp add: phase_ok_def)
  with e(3) show ?thesis by (simp add: state_ok_def)
qed

lemma Tick_ok:
  assumes "state_ok prev"
  shows "state_ok (Decision_State (Tick t prev now))"
proof (cases "prev = zero_BucketState")
  case True
  then show ?thesis by (simp add: Tick_def unchanged_def zero_BucketState_def state_ok_def)
next
  case False
  with assms have "phase_ok prev" "State_Healthy prev \<longrightarrow> State_Phase prev = PhaseNormal" by (simp_all add: state_ok_def)
  then show ?thesis
    by (auto simp: Tick_def Let_def unchanged_def stand_down_def state_ok_def phase_ok_def known_def split: option.split)
qed

definition lowers :: "Thresholds \<Rightarrow> BucketState \<Rightarrow> bool" where
  "lowers t s \<longleftrightarrow> State_Key s \<noteq> zero_BucketKey \<and> State_Phase s \<noteq> PhaseNormal \<and>
     Rank (level t (State_UsedPercent s)) < Rank (State_Phase s)"

lemma Rederive_unchanged: "\<not> lowers t s \<Longrightarrow> Rederive t s now = unchanged s"
  by (auto simp: lowers_def Rederive_def Let_def)

lemma Rederive_lowered:
  assumes "lowers t s"
  shows "\<exists>recovered reason. Rederive t s now =
    \<lparr>Decision_State = s\<lparr>State_Phase := level t (State_UsedPercent s), State_StoppedAt := None, State_DrainDeadline := None,
       State_ProbedAt := None, State_ETAStrikes := 0, State_RearmObservations := 0, State_RecoveredAt := recovered,
       State_Healthy := (level t (State_UsedPercent s) = PhaseNormal \<and> f_lt (State_UsedPercent s) (T_WarnPercent t)),
       State_AppliedThresholds := Some (applied t), State_UpdatedAt := now\<rparr>,
     Decision_Actions = [\<lparr>Action_Kind = ActionRearm, Action_Bucket = State_Key s, Action_Snapshot = stored_snapshot s,
       Action_Reason = reason, Action_EpochUnchanged = True\<rparr>], Decision_Ignored = None\<rparr>"
proof -
  have conditions: "\<not> (State_Key s = zero_BucketKey \<or> State_Phase s = PhaseNormal)"
    "\<not> Rank (State_Phase s) \<le> Rank (level t (State_UsedPercent s))" using assms by (simp_all add: lowers_def)
  show ?thesis
    by (rule exI [of _ "if level t (State_UsedPercent s) = PhaseNormal then Some now else State_RecoveredAt s"])
      (rule exI, unfold Rederive_def Let_def if_not_P [OF conditions(1)] if_not_P [OF conditions(2)], simp)
qed

lemma Rederive_ok:
  assumes "state_ok prev"
  shows "state_ok (Decision_State (Rederive t prev now))"
proof (cases "lowers t prev")
  case False
  with assms show ?thesis by (simp add: Rederive_unchanged unchanged_def)
next
  case True
  let ?want = "level t (State_UsedPercent prev)"
  have "phase_ok prev" using assms True by (auto simp: state_ok_def zero_BucketState_def lowers_def)
  then have "Rank (State_Phase prev) \<le> 3" by (auto simp: phase_ok_def known_def)
  with True have "?want \<noteq> PhaseStopped" by (auto simp: lowers_def)
  with Rederive_lowered [OF True, of now] level_known [of t "State_UsedPercent prev"]
  show ?thesis by (auto simp: state_ok_def phase_ok_def)
qed

text \<open>The states a bucket can have: a new one, changed by readings, timer ticks and restarts,
  under thresholds that may change in between.\<close>

inductive bucket_reachable :: "BucketState \<Rightarrow> bool" where
  new: "bucket_reachable zero_BucketState"
| evaluate: "bucket_reachable s \<Longrightarrow> bucket_reachable (Decision_State (Evaluate t snap s now))"
| tick: "bucket_reachable s \<Longrightarrow> bucket_reachable (Decision_State (Tick t s now))"
| rederive: "bucket_reachable s \<Longrightarrow> bucket_reachable (Decision_State (Rederive t s now))"

lemma bucket_reachable_ok: "bucket_reachable s \<Longrightarrow> state_ok s"
proof (induction rule: bucket_reachable.induct)
  case new
  show ?case by (simp add: state_ok_def)
qed (simp_all add: Evaluate_ok Tick_ok Rederive_ok)

text \<open>A reading that does not rearm the bucket never lowers its phase, except that a warning
  ends below the warn threshold.\<close>

lemma apply_reset_phase:
  assumes "apply_reset t snap now s = (s', as)" and "as = []"
  shows "State_Phase s' = State_Phase s"
  using assms by (auto simp: apply_reset_def rearm_def Let_def split: option.splits if_splits)

lemma apply_reset_kinds: "apply_reset t snap now s = (s', as) \<Longrightarrow> \<forall>a \<in> set as. Action_Kind a = ActionRearm"
  by (auto simp: apply_reset_def rearm_action_def Let_def split: option.splits if_splits)

lemma apply_reset_strikes: "apply_reset t snap now s = (s', as) \<Longrightarrow> State_ETAStrikes s' = State_ETAStrikes s"
  by (auto simp: apply_reset_def rearm_def Let_def split: option.splits if_splits)

lemma action_for_rearm: "known want \<Longrightarrow> Rank want > 0 \<Longrightarrow> action_for want \<noteq> ActionRearm"
  by (auto simp: action_for_def known_def)

end
