(* ===== verification/PolicyProperties.thy ===== *)
theory PolicyProperties
  imports PolicySpec
begin

text \<open>
  The properties of the quota policy: the ladder its validated thresholds form, the invariant of
  a bucket's state, when a phase may fall and when a stop may happen, what a restart does to a
  stored phase, and the bounds of the burn rate.
\<close>

section \<open>Sample bucket\<close>

definition sample_key :: BucketKey where
  "sample_key = \<lparr>Key_ProviderInstanceID = ''codex'', Key_AccountID = '''', Key_LimitID = ''gpt'', Key_Window = ''primary''\<rparr>"

definition sample_snap :: "rat \<Rightarrow> instant \<Rightarrow> QuotaSnapshot" where
  "sample_snap used seen =
     \<lparr>Snap_Key = sample_key, Snap_LimitName = ''weekly'', Snap_UsedPercent = Fin used, Snap_WindowDuration = 5 * hour,
      Snap_ResetsAt = None, Snap_ModelSelector = '''', Snap_ObservedAt = seen, Snap_SourceEventID = '''', Snap_ThreadID = ''''\<rparr>"

definition sample_read :: "rat \<Rightarrow> instant \<Rightarrow> BucketState \<Rightarrow> BucketState" where
  "sample_read used seen s = Decision_State (Evaluate DefaultThresholds (sample_snap used seen) s seen)"

text \<open>A bucket read at 91 percent, then at 96.\<close>

definition sample_draining :: BucketState where
  "sample_draining = sample_read 91 minute zero_BucketState"

definition sample_stopped :: BucketState where
  "sample_stopped = sample_read 96 (2 * minute) sample_draining"

lemma sample_buckets: "bucket_reachable sample_draining" "bucket_reachable sample_stopped"
  unfolding sample_stopped_def sample_draining_def sample_read_def
  by (rule bucket_reachable.evaluate, rule bucket_reachable.new)
    (rule bucket_reachable.evaluate, rule bucket_reachable.evaluate, rule bucket_reachable.new)

section \<open>Keys\<close>

text \<open>
  Parsing the text of a bucket key gives the key back exactly when no part of it contains a
  slash. (The comment on \<open>ParseBucketKey\<close> promises the inverse without that condition; a limit
  identifier that falls back to a limit name may contain one.)
\<close>

theorem bucket_key_roundtrip:
  "ParseBucketKey (BucketKey_String k) = k \<longleftrightarrow> CHR ''/'' \<notin> set (concat (key_parts k))"
proof
  show "ParseBucketKey (BucketKey_String k) = k" if "CHR ''/'' \<notin> set (concat (key_parts k))"
    using that by (intro parse_text) auto
  show "CHR ''/'' \<notin> set (concat (key_parts k))" if "ParseBucketKey (BucketKey_String k) = k"
    using text_parse [OF that] by auto
qed

section \<open>Thresholds\<close>

lemma validated_order:
  assumes "Thresholds_Validate t = None"
  shows "f_lt (T_WarnPercent t) (T_DrainPercent t)" "f_lt (T_DrainPercent t) (T_StopPercent t)"
    "f_le (T_StopPercent t) (Fin 100)" "f_lt (Fin 0) (T_WarnPercent t)"
proof -
  show order: "f_lt (T_WarnPercent t) (T_DrainPercent t)" "f_lt (T_DrainPercent t) (T_StopPercent t)"
    "f_le (T_StopPercent t) (Fin 100)" using assms by (auto simp: Thresholds_Validate_def split: if_splits)
  have "\<not> f_le (T_WarnPercent t) (Fin 0)" using assms by (auto simp: Thresholds_Validate_def split: if_splits)
  with f_lt_not_NaN [OF order(1)] show "f_lt (Fin 0) (T_WarnPercent t)" by (intro f_not_le) auto
qed

text \<open>
  Validated thresholds form a ladder: more usage never asks for a lower phase, each phase is
  asked for from its own threshold on, everything from 100 percent on asks for a stop and
  nothing at or below zero asks for anything.
\<close>

theorem validated_thresholds_form_ladder:
  assumes "Thresholds_Validate t = None" and "f_le u v"
  shows "Rank (level t u) \<le> Rank (level t v) \<and>
     (Rank (level t u) \<ge> 1 \<longleftrightarrow> f_le (T_WarnPercent t) u) \<and> (Rank (level t u) \<ge> 2 \<longleftrightarrow> f_le (T_DrainPercent t) u) \<and>
     (level t u = PhaseStopped \<longleftrightarrow> f_le (T_StopPercent t) u) \<and>
     (f_le (Fin 100) u \<longrightarrow> level t u = PhaseStopped) \<and> (f_le u (Fin 0) \<longrightarrow> level t u = PhaseNormal)"
proof -
  note order = validated_order [OF assms(1)]
  have steps: "f_le (T_WarnPercent t) x" if "f_le (T_DrainPercent t) x" for x
    using f_le_trans [OF f_lt_le [OF order(1)] that] .
  have steps': "f_le (T_DrainPercent t) x" if "f_le (T_StopPercent t) x" for x
    using f_le_trans [OF f_lt_le [OF order(2)] that] .
  have up: "f_le p v" if "f_le p u" for p using f_le_trans [OF that assms(2)] .
  have stop: "f_le (T_StopPercent t) u" if "f_le (Fin 100) u" using f_le_trans [OF order(3) that] .
  have normal: "\<not> f_le (T_WarnPercent t) u" if "f_le u (Fin 0)"
    using f_lt_not_le [OF f_le_lt_trans [OF that order(4)]] .
  show ?thesis using steps steps' up stop normal by (auto simp: level_def)
qed

theorem validated_thresholds_form_ladder_witness:
  "Rank (level DefaultThresholds (Fin 86)) \<le> Rank (level DefaultThresholds (Fin 97))"
  using validated_thresholds_form_ladder [of DefaultThresholds "Fin 86" "Fin 97"]
  by (simp add: Thresholds_Validate_def DefaultThresholds_def DefaultHardStopETA_def minute_def second_def)

section \<open>The state\<close>

text \<open>
  C38. However readings, timer ticks and restarts follow each other, and even if the thresholds
  change in between, the stored state of a bucket is consistent: it is one of the four phases, it
  has a stop time exactly while it is stopped, a drain deadline only while it is draining, and
  it is healthy only in the normal phase.
\<close>

theorem bucket_state_consistent:
  assumes "bucket_reachable s" and "s \<noteq> zero_BucketState"
  shows "State_Phase s \<in> {PhaseNormal, PhaseWarned, PhaseDraining, PhaseStopped} \<and>
     (State_StoppedAt s \<noteq> None \<longleftrightarrow> State_Phase s = PhaseStopped) \<and>
     (State_DrainDeadline s \<noteq> None \<longrightarrow> State_Phase s = PhaseDraining) \<and>
     (State_Healthy s \<longrightarrow> State_Phase s = PhaseNormal)"
  using bucket_reachable_ok [OF assms(1)] assms(2) by (auto simp: state_ok_def phase_ok_def known_def)

theorem bucket_state_consistent_witness: "State_StoppedAt sample_stopped \<noteq> None"
proof -
  have "State_Phase sample_stopped = PhaseStopped" by code_simp
  moreover have "State_Phase zero_BucketState \<noteq> PhaseStopped" by (simp add: zero_BucketState_def)
  ultimately have "sample_stopped \<noteq> zero_BucketState" "State_Phase sample_stopped = PhaseStopped" by auto
  then show ?thesis using bucket_state_consistent [OF sample_buckets(2)] by blast
qed

section \<open>Falling and rising\<close>

text \<open>
  A phase falls only for a stated reason: if a reading changes a bucket without a rearm
  action, the phase does not fall, except that a warning ends once usage is below the warn
  threshold. A reading that is ignored changes nothing and asks for nothing.
\<close>

theorem phase_falls_only_by_rearm:
  assumes "Decision_Ignored (Evaluate t snap prev now) = None"
    and "ActionRearm \<notin> Action_Kind ` set (Decision_Actions (Evaluate t snap prev now))"
  shows "Rank (State_Phase (initial_state snap prev)) \<le> Rank (State_Phase (Decision_State (Evaluate t snap prev now))) \<or>
     State_Phase prev = PhaseWarned \<and> State_Phase (Decision_State (Evaluate t snap prev now)) = PhaseNormal \<and>
     f_lt (Snap_UsedPercent snap) (T_WarnPercent t)"
proof -
  obtain s1 rearms b s3 es where e: "apply_reset t snap now (initial_state snap prev) = (s1, rearms)"
    "escalate t snap now (note_reading t snap b s1) = (s3, es)"
    "Evaluate t snap prev now =
       \<lparr>Decision_State = record_snapshot t snap now s3, Decision_Actions = rearms @ es, Decision_Ignored = None\<rparr>"
    by (rule Evaluate_accepted [OF assms(1)])
  have "rearms = []"
  proof (rule ccontr)
    assume "rearms \<noteq> []"
    then have "hd rearms \<in> set rearms" by simp
    with apply_reset_kinds [OF e(1)] assms(2) e(3) show False by (force simp: image_iff)
  qed
  with apply_reset_phase [OF e(1)] have same: "State_Phase s1 = State_Phase (initial_state snap prev)" by simp
  obtain want s2 where
    kept: "State_Phase s2 = State_Phase s1 \<or> State_Phase s1 = PhaseWarned \<and> State_Phase s2 = PhaseNormal \<and>
       f_lt (Snap_UsedPercent snap) (T_WarnPercent t)"
    and result: "if Rank want > Rank (State_Phase s2)
     then s3 = enter_phase t now want s2 \<and> map Action_Kind es = [action_for want] else s3 = s2 \<and> es = []"
    by (rule escalate_cases [OF e(2), unfolded note_reading_sel]) blast
  have "Rank (State_Phase s2) \<le> Rank (State_Phase s3)" "Rank (State_Phase s2) < Rank (State_Phase s3) \<or> s3 = s2"
    using result by (auto split: if_splits)
  moreover have "State_Phase prev = PhaseWarned" if "State_Phase s1 = PhaseWarned"
    using that same by (auto simp: initial_state_def zero_BucketState_def split: if_splits)
  moreover have "Rank PhaseWarned \<le> Rank (State_Phase s3)" if "Rank PhaseNormal < Rank (State_Phase s3)"
    using that by simp
  ultimately show ?thesis using kept same e(3) by auto
qed

theorem phase_falls_only_by_rearm_witness:
  "Rank (State_Phase sample_draining) \<le> Rank (State_Phase sample_stopped)"
proof -
  have "Decision_Ignored (Evaluate DefaultThresholds (sample_snap 96 (2 * minute)) sample_draining (2 * minute)) = None"
    "ActionRearm \<notin> set (map Action_Kind (Decision_Actions (Evaluate DefaultThresholds (sample_snap 96 (2 * minute)) sample_draining (2 * minute))))"
    "initial_state (sample_snap 96 (2 * minute)) sample_draining = sample_draining"
    "State_Phase sample_draining \<noteq> PhaseWarned"
    by code_simp+
  then show ?thesis
    using phase_falls_only_by_rearm [of DefaultThresholds "sample_snap 96 (2 * minute)" sample_draining "2 * minute"]
    by (simp add: sample_stopped_def sample_read_def)
qed



section \<open>Timer and restart\<close>

text \<open>
  An expired drain deadline is always settled at the next tick: the bucket stops exactly when
  the runway does not last to the reset, the reset is not within the exemption, and usage is not
  below the stop threshold or the projected exhaustion is at most the hard-stop time away;
  otherwise it stays draining. Either way the deadline is gone and later ticks change nothing.
  (Unlike a reading, the tick asks neither for usage in the warning range nor for a second
  projection.)
\<close>

theorem expired_drain_settled:
  assumes "State_Phase s = PhaseDraining" and "State_DrainDeadline s = Some d" and "d \<le> now"
  shows "State_Phase (Decision_State (Tick t s now)) =
       (if tick_runway t s now = None \<and> \<not> tick_reset_soon t s now \<and>
           (\<not> f_lt (State_UsedPercent s) (T_StopPercent t) \<or> (\<exists>eta. State_ExhaustsIn s = Some eta \<and> eta \<le> hardStopETA t))
        then PhaseStopped else PhaseDraining) \<and>
     (map Action_Kind (Decision_Actions (Tick t s now)) =
       (if State_Phase (Decision_State (Tick t s now)) = PhaseStopped then [ActionStop] else [])) \<and>
     State_DrainDeadline (Decision_State (Tick t s now)) = None \<and>
     Tick t (Decision_State (Tick t s now)) later = unchanged (Decision_State (Tick t s now))"
proof -
  have due: "\<not> (State_Phase s \<noteq> PhaseDraining \<or> (case State_DrainDeadline s of None \<Rightarrow> True | Some d \<Rightarrow> now < d))"
    using assms by simp
  have below: "below_stop t s \<longleftrightarrow> \<not> (\<not> f_lt (State_UsedPercent s) (T_StopPercent t) \<or>
      (\<exists>eta. State_ExhaustsIn s = Some eta \<and> eta \<le> hardStopETA t))"
    by (auto simp: below_stop_def split: option.splits)
  have settled: "Tick t x later = unchanged x" if "State_DrainDeadline x = None" for x
    using that by (simp add: Tick_def)
  note tick = Tick_def [of t s now, unfolded if_not_P [OF due]]
  show ?thesis
  proof (cases "tick_runway t s now = None \<and> \<not> tick_reset_soon t s now \<and> \<not> below_stop t s")
    case True
    then show ?thesis using below by (intro conjI settled) (simp_all add: tick)
  next
    case False
    then obtain why where "Tick t s now = stand_down now s why"
      by (cases "tick_runway t s now"; cases "tick_reset_soon t s now") (auto simp: tick)
    with False below assms(1) show ?thesis by (intro conjI settled) (auto simp: stand_down_def)
  qed
qed

theorem expired_drain_settled_witness:
  "State_Phase (Decision_State (Tick DefaultThresholds sample_draining (9 * minute))) = PhaseDraining"
proof -
  have s: "State_Phase sample_draining = PhaseDraining" "State_DrainDeadline sample_draining = Some (2 * minute)"
    "State_ExhaustsIn sample_draining = None" "f_lt (State_UsedPercent sample_draining) (T_StopPercent DefaultThresholds)"
    by code_simp+
  have "2 * minute \<le> 9 * minute" by (simp add: minute_def second_def)
  from expired_drain_settled [OF s(1,2) this, of DefaultThresholds] s(3,4) show ?thesis by simp
qed

text \<open>
  A restart only lowers a stored phase: the phase becomes the one the current ladder gives the
  stored percentage if that is lower, and stays otherwise; the action list is empty exactly when
  the state is unchanged, and a second restart changes nothing.
\<close>

theorem rederive_only_lowers:
  "State_Phase (Decision_State (Rederive t s now)) =
     (if lowers t s then level t (State_UsedPercent s) else State_Phase s) \<and>
   Rank (State_Phase (Decision_State (Rederive t s now))) \<le> Rank (State_Phase s) \<and>
   (Decision_Actions (Rederive t s now) = [] \<longleftrightarrow> Decision_State (Rederive t s now) = s) \<and>
   Rederive t (Decision_State (Rederive t s now)) later = unchanged (Decision_State (Rederive t s now))"
proof (cases "lowers t s")
  case False
  then show ?thesis using Rederive_unchanged [of t s now] Rederive_unchanged [of t s later] by (simp add: unchanged_def)
next
  case True
  let ?s' = "Decision_State (Rederive t s now)"
  have s': "State_Phase ?s' = level t (State_UsedPercent s)" "State_UsedPercent ?s' = State_UsedPercent s"
    "Decision_Actions (Rederive t s now) \<noteq> []"
    using Rederive_lowered [OF True, of now] by auto
  then have "\<not> lowers t ?s'" by (simp add: lowers_def)
  moreover have "Rank (State_Phase ?s') < Rank (State_Phase s)" using True s'(1) by (simp add: lowers_def)
  ultimately show ?thesis using True s' Rederive_unchanged [of t ?s' later] by auto
qed

section \<open>The projection\<close>

text \<open>
  The burn rate is never negative, and the projected time to exhaustion is never negative
  either, unless it did not fit the duration type, in which case it is the least \<open>int64\<close>.
\<close>

theorem burn_rate_bounds:
  assumes "finite_readings recent" and "burnRate t recent now = (rate, eta)"
  shows "f_le (Fin 0) rate \<and> (\<forall>d. eta = Some d \<longrightarrow> 0 \<le> d \<and> d \<le> max_int64 \<or> d = min_int64)"
  using burnRate_bounds [OF assms] by (auto simp: f_zero_def eta_ok_def)

definition sample_readings :: "Reading list" where
  "sample_readings = [\<lparr>Reading_At = minute, Reading_Used = Fin 90\<rparr>, \<lparr>Reading_At = 5 * minute, Reading_Used = Fin 92\<rparr>]"

theorem burn_rate_bounds_witness:
  "burnRate DefaultThresholds sample_readings (5 * minute) = (Fin (1 / 2), Some (16 * minute)) \<and>
   f_le (Fin 0) (Fin (1 / 2))"
proof -
  have rate: "burnRate DefaultThresholds sample_readings (5 * minute) = (Fin (1 / 2), Some (16 * minute))" by code_simp
  have "finite_readings sample_readings" by (simp add: finite_readings_def sample_readings_def)
  from burn_rate_bounds [OF this rate] rate show ?thesis by blast
qed

text \<open>
  A projection that does not fit stops the bucket: usage that creeps up by less than a
  millionth of a percent in four minutes projects an exhaustion thousands of years away, which
  the conversion to a duration turns into the least \<open>int64\<close> (on amd64), and the second such
  reading stops a bucket at 90 percent although the stop threshold is 95.
\<close>

theorem creeping_usage_stops:
  "let used = 90 + 1 / 2 ^ 30;
       prev = sample_read used (5 * minute) (sample_read 90 minute zero_BucketState);
       decision = Evaluate DefaultThresholds (sample_snap used (6 * minute)) prev (6 * minute)
   in State_ExhaustsIn (Decision_State decision) = Some min_int64 \<and>
      map Action_Kind (Decision_Actions decision) = [ActionStop] \<and>
      f_lt (Fin used) (T_StopPercent DefaultThresholds)"
  by code_simp

text \<open>
  No decision depends on \<open>StopETA\<close>, although its comment lists it with the times that escalate:
  the projection stops a bucket at \<open>HardStopETA\<close> only.
\<close>

lemma stop_eta_unused:
  "Evaluate (t\<lparr>T_StopETA := x\<rparr>) snap prev now = Evaluate t snap prev now"
  "Rederive (t\<lparr>T_StopETA := x\<rparr>) prev now = Rederive t prev now"
  "Tick (t\<lparr>T_StopETA := x\<rparr>) prev now = Tick t prev now"
proof -
  let ?t = "t\<lparr>T_StopETA := x\<rparr>"
  have ladder: "level ?t = level t" "rateWindow ?t = rateWindow t" "hardStopETA ?t = hardStopETA t" "applied ?t = applied t"
    "thresholdFor ?t = thresholdFor t"
    by (auto simp: level_def rateWindow_def hardStopETA_def applied_def thresholdFor_def fun_eq_iff split: Phase.splits)
  then have "burnRate ?t = burnRate t" "runway ?t = runway t" "reset_soon ?t = reset_soon t" "projected ?t = projected t"
    "eta_level ?t = eta_level t" "enter_phase ?t = enter_phase t" "below_stop ?t = below_stop t"
    by (auto simp: burnRate_def runway_def runwayHolds_def reset_soon_def projected_def eta_level_def enter_phase_def
        below_stop_def fun_eq_iff split: Phase.splits option.splits)
  note parts = this ladder
  have "detectReset ?t = detectReset t" by (simp add: detectReset_def Let_def fun_eq_iff cong: if_cong option.case_cong)
  then have "apply_reset ?t = apply_reset t"
    by (simp add: apply_reset_def fun_eq_iff Let_def cong: if_cong option.case_cong)
  moreover have "note_reading ?t = note_reading t" "record_snapshot ?t = record_snapshot t"
    by (simp_all add: note_reading_def record_snapshot_def parts fun_eq_iff)
  moreover have "wantedLevel ?t = wantedLevel t"
    by (simp add: wantedLevel_def Let_def fun_eq_iff parts cong: if_cong option.case_cong)
  then have "escalate ?t = escalate t" by (simp add: escalate_def fun_eq_iff parts Let_def split_def)
  ultimately show "Evaluate ?t snap prev now = Evaluate t snap prev now"
    using \<open>detectReset ?t = detectReset t\<close> by (simp only: Evaluate_def)
  from parts show "Rederive ?t prev now = Rederive t prev now" by (simp add: Rederive_def Let_def cong: if_cong)
  from parts show "Tick ?t prev now = Tick t prev now" by (simp add: Tick_def tick_runway_def tick_reset_soon_def cong: if_cong option.case_cong)
qed

end
