(* ===== verification/Leases.thy ===== *)
theory Leases
  imports GoFloat "HOL-Library.AList"
begin

text \<open>
  Named leases with fencing tokens (\<open>internal/domain/lease.go\<close> and
  \<open>internal/store/sqlite/lease.go\<close>): validation of requests, and the coordinator's execution of
  one request against its two tables.

  A table is an association list by its primary key; a transaction is one step of the model, so
  an error leaves the tables as they were. \<open>ExecuteLease\<close> takes the coordinator clock as an
  argument, and the digest of a request (SHA-256 of its JSON encoding) is a parameter. Failures
  of the database and of the JSON encoding are not modelled.
\<close>

section \<open>Text checks\<close>

text \<open>The runes of a valid UTF-8 text (\<open>unicode/utf8\<close>), \<open>None\<close> for an invalid one.\<close>

definition cont :: "nat \<Rightarrow> bool" where
  "cont b \<longleftrightarrow> 128 \<le> b \<and> b \<le> 191"

definition second_ok :: "nat \<Rightarrow> nat \<Rightarrow> bool" where
  "second_ok a b \<longleftrightarrow>
     cont b \<and> (a = 224 \<longrightarrow> 160 \<le> b) \<and> (a = 237 \<longrightarrow> b \<le> 159) \<and> (a = 240 \<longrightarrow> 144 \<le> b) \<and> (a = 244 \<longrightarrow> b \<le> 143)"

fun utf8_runes :: "nat list \<Rightarrow> nat list option" where
  "utf8_runes [] = Some []"
| "utf8_runes [a] = (if a < 128 then Some [a] else None)"
| "utf8_runes [a, b] =
     (if a < 128 then map_option ((#) a) (utf8_runes [b])
      else if 194 \<le> a \<and> a \<le> 223 \<and> cont b then Some [(a - 192) * 64 + (b - 128)]
      else None)"
| "utf8_runes [a, b, c] =
     (if a < 128 then map_option ((#) a) (utf8_runes [b, c])
      else if 194 \<le> a \<and> a \<le> 223 \<and> cont b then map_option ((#) ((a - 192) * 64 + (b - 128))) (utf8_runes [c])
      else if 224 \<le> a \<and> a \<le> 239 \<and> second_ok a b \<and> cont c
      then Some [((a - 224) * 64 + (b - 128)) * 64 + (c - 128)]
      else None)"
| "utf8_runes (a # b # c # d # s) =
     (if a < 128 then map_option ((#) a) (utf8_runes (b # c # d # s))
      else if 194 \<le> a \<and> a \<le> 223 \<and> cont b then map_option ((#) ((a - 192) * 64 + (b - 128))) (utf8_runes (c # d # s))
      else if 224 \<le> a \<and> a \<le> 239 \<and> second_ok a b \<and> cont c
      then map_option ((#) (((a - 224) * 64 + (b - 128)) * 64 + (c - 128))) (utf8_runes (d # s))
      else if 240 \<le> a \<and> a \<le> 244 \<and> second_ok a b \<and> cont c \<and> cont d
      then map_option ((#) ((((a - 240) * 64 + (b - 128)) * 64 + (c - 128)) * 64 + (d - 128))) (utf8_runes s)
      else None)"

definition runes :: "string \<Rightarrow> nat list option" where
  "runes s = utf8_runes (map of_char s)"

definition in_ranges :: "(nat \<times> nat) list \<Rightarrow> nat \<Rightarrow> bool" where
  "in_ranges ranges r = list_ex (\<lambda>(lo, hi). lo \<le> r \<and> r \<le> hi) ranges"

text \<open>\<open>unicode.IsControl\<close>, and the categories \<open>Cf\<close>, \<open>Zl\<close> and \<open>Zp\<close> of Unicode 15.\<close>

definition control_ranges :: "(nat \<times> nat) list" where
  "control_ranges = [(0, 31), (127, 159)]"

definition format_ranges :: "(nat \<times> nat) list" where
  "format_ranges =
     [(173, 173), (1536, 1541), (1564, 1564), (1757, 1757), (1807, 1807), (2192, 2193), (2274, 2274), (6158, 6158),
      (8203, 8207), (8234, 8238), (8288, 8292), (8294, 8303), (65279, 65279), (65529, 65531), (69821, 69821),
      (69837, 69837), (78896, 78911), (113824, 113827), (119155, 119162), (917505, 917505), (917536, 917631)]"

definition separator_ranges :: "(nat \<times> nat) list" where
  "separator_ranges = [(8232, 8233)]"

definition forbidden_rune :: "nat \<Rightarrow> bool" where
  "forbidden_rune r \<longleftrightarrow> in_ranges control_ranges r \<or> in_ranges format_ranges r \<or> in_ranges separator_ranges r"

section \<open>Records\<close>

definition DefaultLeaseTTL :: duration where "DefaultLeaseTTL = 2 * hour"
definition MinLeaseTTL :: duration where "MinLeaseTTL = 5 * minute"
definition MaxLeaseTTL :: duration where "MaxLeaseTTL = 12 * hour"

record Lease =
  Lease_Name :: string
  Lease_OwnerThread :: string
  Lease_Principal :: string
  Lease_Plan :: string
  Lease_Reason :: string
  Lease_AcquiredAt :: instant
  Lease_ExpiresAt :: instant
  Lease_Token :: int64
  Lease_Released :: bool

definition Live :: "Lease \<Rightarrow> instant \<Rightarrow> bool" where
  "Live l now \<longleftrightarrow> \<not> Lease_Released l \<and> now < Lease_ExpiresAt l"

record LeaseRequest =
  Request_Action :: string
  Request_Name :: string
  Request_OwnerThread :: string
  Request_Principal :: string
  Request_Plan :: string
  Request_Reason :: string
  Request_RequestID :: string
  Request_TTL :: duration
  Request_Token :: int64
  Request_Force :: bool

definition Mutating :: "LeaseRequest \<Rightarrow> bool" where
  "Mutating r \<longleftrightarrow> Request_Action r = ''acquire'' \<or> Request_Action r = ''renew'' \<or> Request_Action r = ''release''"

definition EffectiveTTL :: "LeaseRequest \<Rightarrow> duration" where
  "EffectiveTTL r = (if Request_TTL r = 0 then DefaultLeaseTTL else Request_TTL r)"

record LeaseResponse =
  Response_Lease :: "Lease option"
  Response_Leases :: "Lease list"
  Response_Code :: int
  Response_Message :: "go_text option"
  Response_Replay :: bool

definition zero_LeaseResponse :: LeaseResponse where
  "zero_LeaseResponse =
     \<lparr>Response_Lease = None, Response_Leases = [], Response_Code = 0, Response_Message = None, Response_Replay = False\<rparr>"

section \<open>Validation\<close>

definition lease_char :: "char \<Rightarrow> bool" where
  "lease_char c \<longleftrightarrow>
     (let n = of_char c :: nat
      in 65 \<le> n \<and> n \<le> 90 \<or> 97 \<le> n \<and> n \<le> 122 \<or> 48 \<le> n \<and> n \<le> 57) \<or> c \<in> set ''._/:-''"

definition ValidateLeaseName :: "string \<Rightarrow> go_text option" where
  "ValidateLeaseName name =
     (if has_prefix name ''deploy:'' then Some (Sprintf ''deploy: leases are reserved for a follow-up'' [])
      else if length name = 0 \<or> length name > 128 \<or> \<not> list_all lease_char name
      then Some (Sprintf ''lease name must be 1-128 characters of [A-Za-z0-9._/:-]'' [])
      else if has_prefix name ''repo:''
      then (let parts = split_at (CHR ''/'') (drop 5 name) in
        if length parts < 2 \<or> hd parts = '''' then Some (Sprintf ''repository lease must be repo:<project>/<branch>'' [])
        else if list_ex (\<lambda>p. p = '''' \<or> p = ''.'' \<or> p = ''..'') parts
        then Some (Sprintf ''repository lease has an empty or invalid component'' [])
        else None)
      else if has_prefix name ''release:''
      then (if drop 8 name = '''' then Some (Sprintf ''release lease must be release:<name>'' []) else None)
      else Some (Sprintf ''lease name must start with repo: or release: followed by a name'' []))"

definition leaseText :: "string \<Rightarrow> string \<Rightarrow> nat \<Rightarrow> bool \<Rightarrow> go_text option" where
  "leaseText label value limit required =
     (case runes value of
        None \<Rightarrow> Some (Sprintf ''lease %s exceeds %d characters or is invalid UTF-8'' [StrArg label, IntArg (int limit)])
      | Some rs \<Rightarrow>
          if length rs > limit
          then Some (Sprintf ''lease %s exceeds %d characters or is invalid UTF-8'' [StrArg label, IntArg (int limit)])
          else if (required \<or> value \<noteq> '''') \<and> (value = '''' \<or> trim_space value \<noteq> value)
          then Some (Sprintf ''lease %s must be nonempty and trimmed'' [StrArg label])
          else if list_ex forbidden_rune rs
          then Some (Sprintf ''lease %s contains a control, format or separator character'' [StrArg label])
          else None)"

definition first_error :: "go_text option list \<Rightarrow> go_text option" where
  "first_error checks = (case filter (\<lambda>c. c \<noteq> None) checks of [] \<Rightarrow> None | c # _ \<Rightarrow> c)"

definition LeaseRequest_Validate :: "LeaseRequest \<Rightarrow> go_text option" where
  "LeaseRequest_Validate r =
     (let action = Request_Action r in first_error
       [if action \<notin> {''acquire'', ''renew'', ''release'', ''check'', ''show'', ''list''}
        then Some (Sprintf ''unknown lease action %q'' [StrArg action]) else None,
        if action \<noteq> ''list'' then ValidateLeaseName (Request_Name r)
        else if Request_Name r \<noteq> '''' then Some (Sprintf ''lease list takes no name'' []) else None,
        if action \<noteq> ''list'' \<and> action \<noteq> ''show'' then leaseText ''owner thread'' (Request_OwnerThread r) 256 True else None,
        leaseText ''plan'' (Request_Plan r) 256 False,
        leaseText ''reason'' (Request_Reason r) 4096 (action = ''acquire'' \<or> Request_Force r),
        if Request_Force r \<and> action \<noteq> ''release''
        then Some (Sprintf ''--force is only valid for lease release'' []) else None,
        if Request_Token r < 0 then Some (Sprintf ''lease token must be positive'' []) else None,
        if (action = ''renew'' \<or> action = ''release'' \<and> \<not> Request_Force r) \<and> Request_Token r < 1
        then Some (Sprintf ''lease %s requires a positive token'' [StrArg action]) else None,
        if (action = ''acquire'' \<or> action = ''renew'') \<and> (EffectiveTTL r < MinLeaseTTL \<or> EffectiveTTL r > MaxLeaseTTL)
        then Some (Sprintf ''lease TTL must be between 5m and 12h'' []) else None,
        if Mutating r then leaseText ''request id'' (Request_RequestID r) 256 True else None,
        if Mutating r then leaseText ''principal'' (Request_Principal r) 256 True else None])"

section \<open>Execution\<close>

record leaseReceipt =
  Receipt_Request :: LeaseRequest
  Receipt_Response :: LeaseResponse
  Receipt_At :: instant

record LeaseStore =
  Store_Leases :: "(string \<times> Lease) list"
  Store_Receipts :: "(string \<times> string \<times> leaseReceipt) list"

definition empty_store :: LeaseStore where
  "empty_store = \<lparr>Store_Leases = [], Store_Receipts = []\<rparr>"

definition loadLease :: "LeaseStore \<Rightarrow> string \<Rightarrow> Lease option" where
  "loadLease s name = map_of (Store_Leases s) name"

text \<open>A plan made of these characters prints bare, any other one quoted.\<close>

definition leasePlanBareCharacters :: string where
  "leasePlanBareCharacters = ''abcdefghijklmnopqrstuvwxyzABCDEFGHIJKLMNOPQRSTUVWXYZ0123456789._/:@#-''"

definition heldLeaseMessage :: "Lease \<Rightarrow> go_text" where
  "heldLeaseMessage l =
     (let reason = Sprintf ''%q'' [StrArg (Lease_Reason l)];
          plan = (if list_ex (\<lambda>c. c \<notin> set leasePlanBareCharacters) (Lease_Plan l)
                  then Sprintf ''%q'' [StrArg (Lease_Plan l)] else Sprintf ''%s'' [StrArg (Lease_Plan l)]);
          detail = (if Lease_Plan l \<noteq> '''' then Sprintf ''plan %s, %s'' [TextArg plan, TextArg reason] else reason)
      in Sprintf ''refused: %s is held by thread %s (%s) until %s''
           [StrArg (Lease_Name l), StrArg (Lease_OwnerThread l), TextArg detail, TimeArg (Lease_ExpiresAt l)])"

text \<open>\<open>strings.TrimPrefix\<close> of a prefix that the format starts with.\<close>

fun trim_refused :: "go_text \<Rightarrow> go_text" where
  "trim_refused (Sprintf format args) =
     Sprintf (if has_prefix format ''refused: '' then drop 9 format else format) args"

definition refuse :: "LeaseResponse \<Rightarrow> go_text \<Rightarrow> LeaseResponse" where
  "refuse response message = response\<lparr>Response_Code := 10, Response_Message := Some message\<rparr>"

definition acquired :: "LeaseRequest \<Rightarrow> instant \<Rightarrow> int64 \<Rightarrow> Lease" where
  "acquired r now token =
     \<lparr>Lease_Name = Request_Name r, Lease_OwnerThread = Request_OwnerThread r, Lease_Principal = Request_Principal r,
      Lease_Plan = Request_Plan r, Lease_Reason = Request_Reason r, Lease_AcquiredAt = now,
      Lease_ExpiresAt = time_add now (EffectiveTTL r), Lease_Token = token, Lease_Released = False\<rparr>"

text \<open>The switch over the action: an error, or the response and the row to write, if any.\<close>

definition lease_action :: "LeaseRequest \<Rightarrow> instant \<Rightarrow> Lease option \<Rightarrow> go_text + LeaseResponse \<times> Lease option" where
  "lease_action r now stored =
     (let response = zero_LeaseResponse\<lparr>Response_Lease := stored\<rparr>;
          live = (case stored of None \<Rightarrow> False | Some l \<Rightarrow> Live l now)
      in if Request_Action r = ''acquire''
         then (case stored of
                 Some l \<Rightarrow>
                   if live
                   then Inr (if Lease_OwnerThread l \<noteq> Request_OwnerThread r then refuse response (heldLeaseMessage l) else response, None)
                   else if Lease_Token l = max_int64 then Inl (Sprintf ''lease fencing token exhausted'' [])
                   else if Lease_Token l < 0 then Inl (Sprintf ''invalid stored fencing token'' [])
                   else (let new = acquired r now (Lease_Token l + 1)
                         in Inr (response\<lparr>Response_Lease := Some new\<rparr>, Some new))
               | None \<Rightarrow>
                   (let new = acquired r now 1 in Inr (response\<lparr>Response_Lease := Some new\<rparr>, Some new)))
         else if Request_Action r = ''renew'' \<or> Request_Action r = ''release''
         then (case stored of
                 Some l \<Rightarrow>
                   if \<not> live then Inr (refuse response (Sprintf ''refused: lease is free or expired'' []), None)
                   else if \<not> Request_Force r \<and> (Lease_OwnerThread l \<noteq> Request_OwnerThread r \<or> Lease_Token l \<noteq> Request_Token r)
                   then Inr (refuse response (Sprintf ''refused: holder or fencing token does not match; %s''
                               [TextArg (trim_refused (heldLeaseMessage l))]), None)
                   else (let new = (if Request_Action r = ''renew''
                                    then l\<lparr>Lease_ExpiresAt := time_add now (EffectiveTTL r)\<rparr>
                                    else l\<lparr>Lease_Released := True\<rparr>)
                         in Inr (response\<lparr>Response_Lease := Some new\<rparr>, Some new))
               | None \<Rightarrow> Inr (refuse response (Sprintf ''refused: lease is free or expired'' []), None))
         else Inr (response, None))"

definition readLease :: "LeaseRequest \<Rightarrow> instant \<Rightarrow> LeaseStore \<Rightarrow> LeaseResponse" where
  "readLease r now s =
     (if Request_Action r = ''list''
      then zero_LeaseResponse\<lparr>Response_Leases := map snd (sort_less (\<lambda>a b. fst a < fst b) (Store_Leases s))\<rparr>
      else
        let response = zero_LeaseResponse\<lparr>Response_Lease := loadLease s (Request_Name r)\<rparr>;
            free = response\<lparr>Response_Code := 11, Response_Message := Some (Sprintf ''lease is free or expired'' [])\<rparr>
        in (case loadLease s (Request_Name r) of
              None \<Rightarrow> free
            | Some l \<Rightarrow>
                if \<not> Live l now then free
                else if Request_Action r = ''check'' \<and> Lease_OwnerThread l \<noteq> Request_OwnerThread r
                then refuse response (heldLeaseMessage l)
                else response))"

definition ExecuteLease ::
  "(LeaseRequest \<Rightarrow> string) \<Rightarrow> LeaseRequest \<Rightarrow> instant \<Rightarrow> LeaseStore \<Rightarrow> (go_text + LeaseResponse) \<times> LeaseStore" where
  "ExecuteLease digest r now s =
     (case LeaseRequest_Validate r of
        Some err \<Rightarrow> (Inl err, s)
      | None \<Rightarrow>
          if \<not> Mutating r then (Inr (readLease r now s), s)
          else (case map_of (Store_Receipts s) (Request_RequestID r) of
            Some (prior, receipt) \<Rightarrow>
              if prior \<noteq> digest r then (Inl (Sprintf ''lease request id reused with a different digest'' []), s)
              else (Inr ((Receipt_Response receipt)\<lparr>Response_Replay := True\<rparr>), s)
          | None \<Rightarrow>
              (case lease_action r now (loadLease s (Request_Name r)) of
                 Inl err \<Rightarrow> (Inl err, s)
               | Inr (response, row) \<Rightarrow>
                   (Inr response,
                    s\<lparr>Store_Leases := (case row of None \<Rightarrow> Store_Leases s
                                        | Some l \<Rightarrow> AList.update (Request_Name r) l (Store_Leases s)),
                      Store_Receipts := AList.update (Request_RequestID r)
                        (digest r, \<lparr>Receipt_Request = r, Receipt_Response = response, Receipt_At = now\<rparr>) (Store_Receipts s)\<rparr>))))"

end
