(* ===== verification/LeaseProperties.thy ===== *)
theory LeaseProperties
  imports Leases
begin

text \<open>
  The properties of leases: a fencing token identifies one tenure of a lease, a live lease is
  exclusive, a request is executed once however often it is sent, and every tenure is bounded in
  time.
\<close>

section \<open>One request\<close>

lemma lease_action_row:
  assumes "lease_action r now stored = Inr (resp, Some l')"
  shows "Request_Action r = ''acquire'' \<and> stored = None \<and> l' = acquired r now 1 \<or>
    Request_Action r = ''acquire'' \<and> (\<exists>l. stored = Some l \<and> \<not> Live l now \<and> 0 \<le> Lease_Token l \<and>
       l' = acquired r now (Lease_Token l + 1)) \<or>
    (\<exists>l. stored = Some l \<and> Live l now \<and>
       (Request_Force r \<or> Lease_OwnerThread l = Request_OwnerThread r \<and> Lease_Token l = Request_Token r) \<and>
       (Request_Action r = ''renew'' \<and> l' = l\<lparr>Lease_ExpiresAt := time_add now (EffectiveTTL r)\<rparr> \<or>
        Request_Action r = ''release'' \<and> l' = l\<lparr>Lease_Released := True\<rparr>))"
proof (cases "Request_Action r = ''acquire''")
  case True
  with assms show ?thesis
    by (cases stored) (auto simp: lease_action_def Let_def split: if_splits)
next
  case False
  show ?thesis
  proof (cases stored)
    case None
    with assms False show ?thesis by (simp add: lease_action_def Let_def split: if_splits)
  next
    case (Some l)
    with assms False have "Live l now" "Request_Action r = ''renew'' \<or> Request_Action r = ''release''"
      "Request_Force r \<or> Lease_OwnerThread l = Request_OwnerThread r \<and> Lease_Token l = Request_Token r"
      by (auto simp: lease_action_def Let_def split: if_splits)
    moreover from this assms False Some have "l' = (if Request_Action r = ''renew''
        then l\<lparr>Lease_ExpiresAt := time_add now (EffectiveTTL r)\<rparr> else l\<lparr>Lease_Released := True\<rparr>)"
      by (auto simp: lease_action_def Let_def split: if_splits)
    ultimately show ?thesis using Some by (cases "Request_Action r = ''renew''") auto
  qed
qed

lemma ExecuteLease_row:
  assumes "s' = snd (ExecuteLease digest r now s)"
  shows "loadLease s' n = loadLease s n \<or>
    (n = Request_Name r \<and> LeaseRequest_Validate r = None \<and> Mutating r \<and>
     (\<exists>resp l'. lease_action r now (loadLease s n) = Inr (resp, Some l') \<and> loadLease s' n = Some l'))"
  using assms
  by (auto simp: ExecuteLease_def loadLease_def update_conv' Let_def split: option.splits sum.splits prod.splits if_splits)

lemma ExecuteLease_receipt:
  assumes "map_of (Store_Receipts s) i = Some x"
  shows "map_of (Store_Receipts (snd (ExecuteLease digest r now s))) i = Some x"
  using assms by (auto simp: ExecuteLease_def update_conv' split: option.splits sum.splits prod.splits if_splits)

section \<open>Any sequence of requests\<close>

definition lease_run :: "(LeaseRequest \<Rightarrow> string) \<Rightarrow> (LeaseRequest \<times> instant) list \<Rightarrow> LeaseStore \<Rightarrow> LeaseStore" where
  "lease_run digest requests s = fold (\<lambda>(r, now) s. snd (ExecuteLease digest r now s)) requests s"

lemma lease_run_receipt:
  "map_of (Store_Receipts s) i = Some x \<Longrightarrow> map_of (Store_Receipts (lease_run digest requests s)) i = Some x"
  unfolding lease_run_def
  by (induction requests arbitrary: s) (auto intro: ExecuteLease_receipt)

text \<open>The later row of a name: a later tenure, or the same one with its end changed.\<close>

definition later_row :: "Lease \<Rightarrow> Lease \<Rightarrow> bool" where
  "later_row l l' \<longleftrightarrow> Lease_Token l < Lease_Token l' \<or>
     l' = l\<lparr>Lease_ExpiresAt := Lease_ExpiresAt l', Lease_Released := Lease_Released l'\<rparr> \<and> (Lease_Released l \<longrightarrow> Lease_Released l')"

lemma later_row_refl: "later_row l l"
  by (simp add: later_row_def)

lemma later_row_token: "later_row a b \<Longrightarrow> Lease_Token a \<le> Lease_Token b"
proof -
  assume "later_row a b"
  then consider "Lease_Token a < Lease_Token b"
    | "b = a\<lparr>Lease_ExpiresAt := Lease_ExpiresAt b, Lease_Released := Lease_Released b\<rparr>" by (auto simp: later_row_def)
  then show ?thesis
  proof cases
    case 2
    from arg_cong [OF this, of Lease_Token] show ?thesis by simp
  qed simp
qed

lemma later_row_trans: "later_row a b \<Longrightarrow> later_row b c \<Longrightarrow> later_row a c"
proof -
  assume ab: "later_row a b" and bc: "later_row b c"
  show ?thesis
  proof (cases "Lease_Token a < Lease_Token c")
    case False
    with later_row_token [OF ab] later_row_token [OF bc] have "\<not> Lease_Token a < Lease_Token b" "\<not> Lease_Token b < Lease_Token c" by auto
    with ab bc have "b = a\<lparr>Lease_ExpiresAt := Lease_ExpiresAt b, Lease_Released := Lease_Released b\<rparr>"
      "c = b\<lparr>Lease_ExpiresAt := Lease_ExpiresAt c, Lease_Released := Lease_Released c\<rparr>"
      "Lease_Released a \<longrightarrow> Lease_Released c" by (auto simp: later_row_def)
    then have "c = a\<lparr>Lease_ExpiresAt := Lease_ExpiresAt c, Lease_Released := Lease_Released c\<rparr>"
      by (cases a; cases b; cases c) simp
    with \<open>Lease_Released a \<longrightarrow> Lease_Released c\<close> show ?thesis unfolding later_row_def by blast
  qed (simp add: later_row_def)
qed

lemma ExecuteLease_later:
  assumes "loadLease s n = Some l"
  shows "\<exists>l'. loadLease (snd (ExecuteLease digest r now s)) n = Some l' \<and> later_row l l'"
proof -
  let ?s' = "snd (ExecuteLease digest r now s)"
  consider (same) "loadLease ?s' n = loadLease s n"
    | (row) resp l' where "lease_action r now (Some l) = Inr (resp, Some l')" "loadLease ?s' n = Some l'"
    using ExecuteLease_row [OF refl, of digest r now s n] assms by auto
  then show ?thesis
  proof cases
    case same
    with assms later_row_refl show ?thesis by auto
  next
    case (row resp l')
    from lease_action_row [OF row(1)] have "later_row l l'"
      by (auto simp: later_row_def acquired_def Live_def)
    with row(2) show ?thesis by blast
  qed
qed

lemma lease_run_later:
  "loadLease s n = Some l \<Longrightarrow> \<exists>l'. loadLease (lease_run digest requests s) n = Some l' \<and> later_row l l'"
proof (induction requests arbitrary: s l)
  case Nil
  then show ?case using later_row_refl by (auto simp: lease_run_def)
next
  case (Cons request requests)
  obtain r now where request: "request = (r, now)" by (cases request)
  obtain l1 where l1: "loadLease (snd (ExecuteLease digest r now s)) n = Some l1" "later_row l l1"
    using ExecuteLease_later [OF Cons.prems] by blast
  from Cons.IH [OF l1(1)] obtain l' where
    "loadLease (lease_run digest requests (snd (ExecuteLease digest r now s))) n = Some l'" "later_row l1 l'" by blast
  with later_row_trans [OF l1(2)] request show ?case by (auto simp: lease_run_def)
qed

section \<open>Sample lease\<close>

definition sample_request :: "string \<Rightarrow> string \<Rightarrow> string \<Rightarrow> LeaseRequest" where
  "sample_request action owner i =
     \<lparr>Request_Action = action, Request_Name = ''repo:steward/main'', Request_OwnerThread = owner, Request_Principal = ''ops'',
      Request_Plan = '''', Request_Reason = ''merge'', Request_RequestID = i, Request_TTL = 0, Request_Token = 0,
      Request_Force = False\<rparr>"

definition sample_digest :: "LeaseRequest \<Rightarrow> string" where
  "sample_digest r = Request_Action r @ '' '' @ Request_OwnerThread r"

definition sample_store :: LeaseStore where
  "sample_store = snd (ExecuteLease sample_digest (sample_request ''acquire'' ''t1'' ''q1'') (1 * hour) empty_store)"

definition sample_lease :: Lease where
  "sample_lease = acquired (sample_request ''acquire'' ''t1'' ''q1'') (1 * hour) 1"

lemma sample_request_valid: "LeaseRequest_Validate (sample_request ''acquire'' ''t1'' ''q1'') = None"
  by (simp add: LeaseRequest_Validate_def sample_request_def first_error_def ValidateLeaseName_def lease_char_def
      leaseText_def runes_def forbidden_rune_def in_ranges_def control_ranges_def format_ranges_def separator_ranges_def
      trim_space_graphic graphic_def EffectiveTTL_def DefaultLeaseTTL_def MinLeaseTTL_def MaxLeaseTTL_def duration_defs Mutating_def Let_def)

lemma sample_action:
  "lease_action (sample_request ''acquire'' ''t1'' ''q1'') (1 * hour) None =
     Inr (zero_LeaseResponse\<lparr>Response_Lease := Some sample_lease\<rparr>, Some sample_lease)"
  by (simp add: lease_action_def sample_lease_def sample_request_def zero_LeaseResponse_def Let_def)

lemma sample_mutating: "Mutating (sample_request ''acquire'' owner i)"
  by (simp add: Mutating_def sample_request_def)

lemma sample_execution:
  "ExecuteLease sample_digest (sample_request ''acquire'' ''t1'' ''q1'') (1 * hour) empty_store =
     (Inr (zero_LeaseResponse\<lparr>Response_Lease := Some sample_lease\<rparr>), sample_store)"
  unfolding sample_store_def
  by (simp add: ExecuteLease_def sample_request_valid sample_mutating sample_action [simplified] empty_store_def loadLease_def)

lemma sample_lease_stored: "loadLease sample_store ''repo:steward/main'' = Some sample_lease"
proof -
  have name: "Request_Name (sample_request ''acquire'' ''t1'' ''q1'') = ''repo:steward/main''" by (simp add: sample_request_def)
  show ?thesis unfolding sample_store_def
    by (simp add: ExecuteLease_def sample_request_valid sample_mutating sample_action [simplified] name empty_store_def loadLease_def)
qed

section \<open>Properties\<close>

text \<open>
  C40. A fencing token identifies one tenure: whatever requests follow, the row of a lease never
  disappears and its token never falls, and as long as the token is the same the lease has the
  same holder, reason and start, only its end may move, and a release is not undone.
\<close>

theorem fencing_token_identifies_tenure:
  assumes "loadLease s n = Some l"
  shows "\<exists>l'. loadLease (lease_run digest requests s) n = Some l' \<and> Lease_Token l \<le> Lease_Token l' \<and>
     (Lease_Token l' = Lease_Token l \<longrightarrow>
        l' = l\<lparr>Lease_ExpiresAt := Lease_ExpiresAt l', Lease_Released := Lease_Released l'\<rparr> \<and>
        (Lease_Released l \<longrightarrow> Lease_Released l'))"
proof -
  obtain l' where l': "loadLease (lease_run digest requests s) n = Some l'" "later_row l l'"
    using lease_run_later [OF assms] by blast
  with later_row_token [OF l'(2)] show ?thesis by (intro exI [of _ l']) (auto simp: later_row_def)
qed

theorem fencing_token_identifies_tenure_witness:
  "\<exists>l'. loadLease (lease_run sample_digest [(sample_request ''acquire'' ''t2'' ''q2'', 9 * hour)] sample_store)
      ''repo:steward/main'' = Some l' \<and> 1 \<le> Lease_Token l'"
  using fencing_token_identifies_tenure [OF sample_lease_stored, of sample_digest "[(sample_request ''acquire'' ''t2'' ''q2'', 9 * hour)]"]
  by (auto simp: sample_lease_def acquired_def)

text \<open>
  A live lease is exclusive: a request of another thread that does not force a release
  leaves the lease as it is, and if it is a valid, new request to take, renew or release that
  lease it is refused with the lease it collided with.
\<close>

theorem live_lease_exclusive:
  assumes "loadLease s n = Some l" and "Live l now" and "Request_OwnerThread r \<noteq> Lease_OwnerThread l" and "\<not> Request_Force r"
  shows "loadLease (snd (ExecuteLease digest r now s)) n = Some l \<and>
    (LeaseRequest_Validate r = None \<and> Mutating r \<and> Request_Name r = n \<and> map_of (Store_Receipts s) (Request_RequestID r) = None \<longrightarrow>
     (\<exists>resp. fst (ExecuteLease digest r now s) = Inr resp \<and> Response_Code resp = 10 \<and> Response_Lease resp = Some l))"
proof
  show "loadLease (snd (ExecuteLease digest r now s)) n = Some l"
    using ExecuteLease_row [OF refl, of digest r now s n] lease_action_row [of r now "Some l"] assms by (auto simp: Live_def)
  show "LeaseRequest_Validate r = None \<and> Mutating r \<and> Request_Name r = n \<and> map_of (Store_Receipts s) (Request_RequestID r) = None \<longrightarrow>
     (\<exists>resp. fst (ExecuteLease digest r now s) = Inr resp \<and> Response_Code resp = 10 \<and> Response_Lease resp = Some l)"
  proof
    assume v: "LeaseRequest_Validate r = None \<and> Mutating r \<and> Request_Name r = n \<and> map_of (Store_Receipts s) (Request_RequestID r) = None"
    have "\<exists>resp. lease_action r now (Some l) = Inr (resp, None) \<and> Response_Code resp = 10 \<and> Response_Lease resp = Some l"
      using v assms by (auto simp: lease_action_def Let_def refuse_def zero_LeaseResponse_def Mutating_def)
    with v assms(1) show "\<exists>resp. fst (ExecuteLease digest r now s) = Inr resp \<and> Response_Code resp = 10 \<and> Response_Lease resp = Some l"
      by (auto simp: ExecuteLease_def)
  qed
qed

theorem live_lease_exclusive_witness:
  "loadLease (snd (ExecuteLease sample_digest (sample_request ''acquire'' ''t2'' ''q2'') (2 * hour) sample_store))
     ''repo:steward/main'' = Some sample_lease"
proof -
  have "Live sample_lease (2 * hour)"
    "Request_OwnerThread (sample_request ''acquire'' ''t2'' ''q2'') \<noteq> Lease_OwnerThread sample_lease"
    "\<not> Request_Force (sample_request ''acquire'' ''t2'' ''q2'')"
    by (simp_all add: Live_def sample_lease_def acquired_def sample_request_def EffectiveTTL_def DefaultLeaseTTL_def
        time_add_def duration_defs)
  from live_lease_exclusive [OF sample_lease_stored this] show ?thesis by blast
qed

text \<open>
  A request is executed once: when a mutating request has been answered, sending it again,
  after any other requests, returns the recorded answer marked as a replay and changes nothing.
\<close>

theorem replay_returns_recorded_answer:
  assumes "ExecuteLease digest r now s = (Inr resp, s1)" and "Mutating r"
  shows "ExecuteLease digest r later (lease_run digest requests s1) =
    (Inr (resp\<lparr>Response_Replay := True\<rparr>), lease_run digest requests s1)"
proof -
  have valid: "LeaseRequest_Validate r = None" using assms by (auto simp: ExecuteLease_def split: option.splits)
  have "\<exists>receipt. map_of (Store_Receipts s1) (Request_RequestID r) = Some (digest r, receipt) \<and>
      (Receipt_Response receipt)\<lparr>Response_Replay := True\<rparr> = resp\<lparr>Response_Replay := True\<rparr>"
    using assms valid
    by (auto simp: ExecuteLease_def update_conv' split: option.splits sum.splits prod.splits if_splits)
  then obtain receipt where receipt: "map_of (Store_Receipts s1) (Request_RequestID r) = Some (digest r, receipt)"
    "(Receipt_Response receipt)\<lparr>Response_Replay := True\<rparr> = resp\<lparr>Response_Replay := True\<rparr>" by blast
  from lease_run_receipt [OF receipt(1)] receipt(2) valid assms(2) show ?thesis by (simp add: ExecuteLease_def)
qed

theorem replay_returns_recorded_answer_witness:
  "\<exists>resp. ExecuteLease sample_digest (sample_request ''acquire'' ''t1'' ''q1'') (20 * hour)
     (lease_run sample_digest [(sample_request ''acquire'' ''t2'' ''q2'', 9 * hour)] sample_store) =
     (Inr (resp\<lparr>Response_Replay := True\<rparr>),
      lease_run sample_digest [(sample_request ''acquire'' ''t2'' ''q2'', 9 * hour)] sample_store)"
proof -
  from replay_returns_recorded_answer [OF sample_execution] show ?thesis by (auto simp: Mutating_def sample_request_def)
qed

text \<open>
  A tenure is bounded: whenever a request changes a lease to one that is not released, the
  lease ends between five minutes and twelve hours after the moment of the request.
\<close>

theorem lease_end_bounded:
  assumes "loadLease (snd (ExecuteLease digest r now s)) n = Some l'" and "loadLease s n \<noteq> Some l'" and "\<not> Lease_Released l'"
  shows "now + 5 * minute \<le> Lease_ExpiresAt l' \<and> Lease_ExpiresAt l' \<le> now + 12 * hour"
proof -
  obtain resp where row: "lease_action r now (loadLease s n) = Inr (resp, Some l')" and valid: "LeaseRequest_Validate r = None"
    using ExecuteLease_row [OF refl, of digest r now s n] assms(1,2) by auto
  from lease_action_row [OF row] assms(3)
  have ends: "Lease_ExpiresAt l' = now + EffectiveTTL r" and action: "Request_Action r = ''acquire'' \<or> Request_Action r = ''renew''"
    by (auto simp: acquired_def time_add_def)
  have "MinLeaseTTL \<le> EffectiveTTL r \<and> EffectiveTTL r \<le> MaxLeaseTTL"
  proof (rule ccontr)
    assume "\<not> ?thesis"
    then have "EffectiveTTL r < MinLeaseTTL \<or> EffectiveTTL r > MaxLeaseTTL" by auto
    with valid action show False
      by (auto simp: LeaseRequest_Validate_def Let_def first_error_def filter_empty_conv split: list.splits if_splits)
  qed
  with ends show ?thesis by (simp add: MinLeaseTTL_def MaxLeaseTTL_def)
qed

theorem lease_end_bounded_witness:
  "1 * hour + 5 * minute \<le> Lease_ExpiresAt sample_lease \<and> Lease_ExpiresAt sample_lease \<le> 1 * hour + 12 * hour"
proof -
  have "loadLease empty_store ''repo:steward/main'' \<noteq> Some sample_lease" "\<not> Lease_Released sample_lease"
    by (simp_all add: loadLease_def empty_store_def sample_lease_def acquired_def)
  from lease_end_bounded [OF sample_lease_stored [unfolded sample_store_def] this] show ?thesis .
qed

end
