(* ===== verification/Registry.thy ===== *)
theory Registry
  imports PlanningTypes
begin

text \<open>
  The executor registry of \<open>internal/backlog/capacity.go\<close>: pools, independently fenced slots and
  reservations, with the operations that acquire, adopt, activate and release capacity, and the
  planning session of \<open>capacity_planning.go\<close> on top of it.
\<close>

datatype capacity_sentinel =
    ErrUnknownExecutorPool
  | ErrDuplicateReservation
  | ErrUnknownReservation
  | ErrReservationReleased
  | ErrCapacityExhausted
  | ErrCPUClassBelowMinimum
  | ErrProviderAdmissionRequired

fun sentinel_text :: "capacity_sentinel \<Rightarrow> string" where
  "sentinel_text ErrUnknownExecutorPool = ''executor pool is not configured for this worker''"
| "sentinel_text ErrDuplicateReservation = ''reservation identity is already in use''"
| "sentinel_text ErrUnknownReservation = ''reservation is not known''"
| "sentinel_text ErrReservationReleased = ''reservation was already released''"
| "sentinel_text ErrCapacityExhausted = ''worker has no free executor capacity''"
| "sentinel_text ErrCPUClassBelowMinimum = ''worker cpu class is below the required minimum''"
| "sentinel_text ErrProviderAdmissionRequired = ''attempt requires provider admission as well as executor capacity''"

text \<open>An error is its text, with the sentinel it wraps if it wraps one.\<close>

datatype capacity_error = CapacityErrorf go_text | CapacityWrapped capacity_sentinel go_text

definition wrapping :: "capacity_sentinel \<Rightarrow> string \<Rightarrow> fmt_arg list \<Rightarrow> capacity_error" where
  "wrapping sentinel format args = CapacityWrapped sentinel (Sprintf format (args @ [StrArg (sentinel_text sentinel)]))"

fun capacity_error_text :: "capacity_error \<Rightarrow> go_text" where
  "capacity_error_text (CapacityErrorf t) = t"
| "capacity_error_text (CapacityWrapped sentinel t) = t"

fun in_context :: "string \<Rightarrow> capacity_error \<Rightarrow> capacity_error" where
  "in_context format (CapacityErrorf t) = CapacityErrorf (Sprintf format [TextArg t])"
| "in_context format (CapacityWrapped sentinel t) = CapacityWrapped sentinel (Sprintf format [TextArg t])"

datatype ReservationKind = ReservationKindAttempt | ReservationKindPreflight | ReservationKindOther string

fun ReservationKind_text :: "ReservationKind \<Rightarrow> string" where
  "ReservationKind_text ReservationKindAttempt = ''attempt''"
| "ReservationKind_text ReservationKindPreflight = ''preflight''"
| "ReservationKind_text (ReservationKindOther s) = s"

record ReservationRequest =
  Req_ReservationID :: string
  Req_WorkerID :: string
  Req_AssignmentID :: string
  Req_AttemptID :: string
  Req_LeaseToken :: string
  Req_LeaseExpiresAt :: instant
  Req_Kind :: ReservationKind
  Req_Demand :: ResourceDemand
  Req_ProviderAdmissionHeld :: bool

definition ReservationRequest_validate :: "ReservationRequest \<Rightarrow> capacity_error option" where
  "ReservationRequest_validate r =
     (if trim_space (Req_ReservationID r) \<noteq> Req_ReservationID r \<or> Req_ReservationID r = ''''
      then Some (CapacityErrorf (Sprintf ''reserve capacity: reservation ID must be nonempty and trimmed'' []))
      else if blank (Req_WorkerID r) then Some (CapacityErrorf (Sprintf ''reserve capacity: worker ID is required'' []))
      else if Req_Kind r \<noteq> ReservationKindAttempt \<and> Req_Kind r \<noteq> ReservationKindPreflight
      then Some (CapacityErrorf (Sprintf ''reserve capacity: reservation kind %q must be attempt or preflight''
             [StrArg (ReservationKind_text (Req_Kind r))]))
      else (case ResourceDemand_Validate (Req_Demand r) of
        Some err \<Rightarrow> Some (CapacityErrorf (Sprintf ''reserve capacity: %w'' [TextArg err]))
      | None \<Rightarrow>
          if Req_Kind r = ReservationKindAttempt \<and> \<not> Req_ProviderAdmissionHeld r then Some (wrapping ErrProviderAdmissionRequired ''reserve capacity for %q: %w'' [StrArg (Req_ReservationID r)])
          else None))"

section \<open>The registry\<close>

record ExecutorRegistry =
  Registry_pools :: "string \<rightharpoonup> ExecutorPool"
  Registry_slots :: "string \<Rightarrow> ExecutorSlot list"
  Registry_reservations :: "(string \<times> ResourceReservation) list"
  Registry_tokenSequence :: int

type_synonym iteration = "(string \<times> ResourceReservation) list \<Rightarrow> (string \<times> ResourceReservation) list"

definition empty_registry :: ExecutorRegistry where
  "empty_registry =
     \<lparr>Registry_pools = Map.empty, Registry_slots = (\<lambda>_. []), Registry_reservations = [], Registry_tokenSequence = 0\<rparr>"

definition free_slot_at :: "ExecutorPool \<Rightarrow> instant \<Rightarrow> nat \<Rightarrow> ExecutorSlot" where
  "free_slot_at pool now ordinal =
     \<lparr>Slot_WorkerID = Pool_WorkerID pool, Slot_PoolName = Pool_Name pool, Slot_Ordinal = int ordinal,
      Slot_State = ExecutorSlotFree, Slot_FencingToken = '''', Slot_ReservationID = '''', Slot_AssignmentID = '''',
      Slot_UpdatedAt = now\<rparr>"

definition add_pool :: "instant \<Rightarrow> ExecutorPool \<Rightarrow> ExecutorRegistry \<Rightarrow> ExecutorRegistry" where
  "add_pool now pool r =
     r\<lparr>Registry_pools := (Registry_pools r)(Pool_WorkerID pool \<mapsto> pool),
       Registry_slots := (Registry_slots r)(Pool_WorkerID pool :=
         map (free_slot_at pool now) [0..<nat (Alloc_ExecutorSlots (Pool_Allocatable pool))])\<rparr>"

fun add_pools :: "ExecutorPool list \<Rightarrow> instant \<Rightarrow> ExecutorRegistry \<Rightarrow> capacity_error + ExecutorRegistry" where
  "add_pools [] now r = Inr r"
| "add_pools (pool # pools) now r =
     (case ExecutorPool_Validate pool of
        Some err \<Rightarrow> Inl (CapacityErrorf (Sprintf ''executor registry: %w'' [TextArg err]))
      | None \<Rightarrow>
          if Registry_pools r (Pool_WorkerID pool) \<noteq> None
          then Inl (CapacityErrorf (Sprintf ''executor registry: worker %q declares more than one executor pool''
                 [StrArg (Pool_WorkerID pool)]))
          else add_pools pools now (add_pool now pool r))"

definition NewExecutorRegistry :: "ExecutorPool list \<Rightarrow> instant \<Rightarrow> capacity_error + ExecutorRegistry" where
  "NewExecutorRegistry pools now = add_pools pools now empty_registry"

definition zero_Pressure :: CPUPressure where
  "zero_Pressure = \<lparr>Pressure_Normalized = Fin 0, Pressure_Load = Fin 0\<rparr>"

definition zero_Alloc :: AllocatableCapacity where
  "zero_Alloc = \<lparr>Alloc_ExecutorSlots = 0, Alloc_CPUUnits = Fin 0, Alloc_MemoryMB = 0, Alloc_ScratchMB = 0\<rparr>"

definition count_slot :: "ExecutorSlot \<Rightarrow> ReservedCapacity \<Rightarrow> ReservedCapacity" where
  "count_slot slot c = (if Occupied slot then c\<lparr>Reserved_ExecutorSlots := wrap64 (Reserved_ExecutorSlots c + 1)\<rparr> else c)"

definition count_reservation :: "string \<Rightarrow> string \<times> ResourceReservation \<Rightarrow> ReservedCapacity \<Rightarrow> ReservedCapacity" where
  "count_reservation workerID entry c =
     (let reservation = snd entry in
      if Resv_WorkerID reservation \<noteq> workerID \<or> Released reservation then c
      else c\<lparr>Reserved_CPUUnits := f_add (Reserved_CPUUnits c) (Resv_CPUUnits reservation),
             Reserved_MemoryMB := wrap64 (Reserved_MemoryMB c + Resv_MemoryMB reservation),
             Reserved_ScratchMB := wrap64 (Reserved_ScratchMB c + Resv_ScratchMB reservation)\<rparr>)"

definition snapshotLocked :: "iteration \<Rightarrow> instant \<Rightarrow> ExecutorRegistry \<Rightarrow> string \<Rightarrow> WorkerCapacitySnapshot" where
  "snapshotLocked iterate now r workerID =
     (let pool = Registry_pools r workerID;
          slots = fold count_slot (Registry_slots r workerID) zero_Reserved;
          reserved = fold (count_reservation workerID) (iterate (Registry_reservations r)) slots
      in \<lparr>Capacity_WorkerID = workerID, Capacity_WorkerEpoch = '''', Capacity_Sequence = 0,
          Capacity_CPUClass = (case pool of None \<Rightarrow> CPUClassEmpty | Some p \<Rightarrow> Pool_CPUClass p),
          Capacity_Allocatable = (case pool of None \<Rightarrow> zero_Alloc | Some p \<Rightarrow> Pool_Allocatable p),
          Capacity_Reserved = reserved, Capacity_Pressure = zero_Pressure, Capacity_ObservedAt = now\<rparr>)"

text \<open>\<open>freeSlot\<close>, and the first free slot of a worker.\<close>

definition freeSlot :: "ExecutorSlot \<Rightarrow> instant \<Rightarrow> ExecutorSlot" where
  "freeSlot slot moment =
     \<lparr>Slot_WorkerID = Slot_WorkerID slot, Slot_PoolName = Slot_PoolName slot, Slot_Ordinal = Slot_Ordinal slot,
      Slot_State = ExecutorSlotFree, Slot_FencingToken = '''', Slot_ReservationID = '''', Slot_AssignmentID = '''',
      Slot_UpdatedAt = moment\<rparr>"

fun first_free :: "ExecutorSlot list \<Rightarrow> nat option" where
  "first_free [] = None"
| "first_free (slot # slots) = (if Slot_State slot = ExecutorSlotFree then Some 0 else map_option Suc (first_free slots))"

definition next_token :: "ExecutorRegistry \<Rightarrow> int" where
  "next_token r = (Registry_tokenSequence r + 1) mod 18446744073709551616"

text \<open>Taking the slot at an index for a reservation and an assignment.\<close>

definition take_slot :: "ExecutorSlotState \<Rightarrow> string \<Rightarrow> string \<Rightarrow> int \<Rightarrow> instant \<Rightarrow> ExecutorSlot \<Rightarrow> ExecutorSlot" where
  "take_slot state reservationID assignmentID token moment slot =
     slot\<lparr>Slot_State := state, Slot_FencingToken := ExecutorSlot_ID slot @ ''-'' @ show_int token,
          Slot_ReservationID := reservationID, Slot_AssignmentID := assignmentID, Slot_UpdatedAt := moment\<rparr>"

definition set_slot :: "string \<Rightarrow> nat \<Rightarrow> ExecutorSlot \<Rightarrow> ExecutorRegistry \<Rightarrow> ExecutorRegistry" where
  "set_slot workerID i slot r =
     r\<lparr>Registry_slots := (Registry_slots r)(workerID := (Registry_slots r workerID)[i := slot])\<rparr>"

definition put_reservation :: "ResourceReservation \<Rightarrow> ExecutorRegistry \<Rightarrow> ExecutorRegistry" where
  "put_reservation v r = r\<lparr>Registry_reservations := AList.update (Resv_ID v) v (Registry_reservations r)\<rparr>"

definition below_class :: "CPUClass \<Rightarrow> CPUClass \<Rightarrow> bool" where
  "below_class minimum c \<longleftrightarrow> minimum \<noteq> CPUClassEmpty \<and> (\<not> CPUClass_Valid c \<or> CPUClass_Compare c minimum < 0)"

definition new_reservation :: "ReservationRequest \<Rightarrow> ExecutorPool \<Rightarrow> ResourceDemand \<Rightarrow> ExecutorSlot \<Rightarrow> instant \<Rightarrow> ResourceReservation" where
  "new_reservation request pool demand slot moment =
     \<lparr>Resv_ID = Req_ReservationID request, Resv_WorkerID = Req_WorkerID request, Resv_PoolName = Pool_Name pool,
      Resv_SlotOrdinal = Slot_Ordinal slot, Resv_SlotFencingToken = Slot_FencingToken slot,
      Resv_AssignmentID = Req_AssignmentID request, Resv_AttemptID = Req_AttemptID request,
      Resv_LeaseToken = Req_LeaseToken request, Resv_CPUUnits = Demand_CPUUnits demand,
      Resv_MemoryMB = Demand_MemoryMB demand, Resv_ScratchMB = Demand_ScratchMB demand,
      Resv_State = ResourceReservationHeld, Resv_ReleaseReason = ResourceReleaseNone,
      Resv_LeaseExpiresAt = Req_LeaseExpiresAt request, Resv_CreatedAt = moment, Resv_UpdatedAt = moment,
      Resv_ReleasedAt = None\<rparr>"

definition commit_reservation ::
  "ReservationRequest \<Rightarrow> ExecutorPool \<Rightarrow> ResourceDemand \<Rightarrow> nat \<Rightarrow> instant \<Rightarrow> ExecutorRegistry
     \<Rightarrow> (capacity_error + ResourceReservation) \<times> ExecutorRegistry" where
  "commit_reservation request pool demand i moment r =
     (let worker = Req_WorkerID request; token = next_token r;
          slot = take_slot ExecutorSlotReserved (Req_ReservationID request) (Req_AssignmentID request) token moment
                   (Registry_slots r worker ! i);
          taken = set_slot worker i slot (r\<lparr>Registry_tokenSequence := token\<rparr>);
          reservation = new_reservation request pool demand slot moment
      in case ResourceReservation_Validate reservation of
           Some err \<Rightarrow> (Inl (CapacityErrorf (Sprintf ''reserve capacity: %w'' [TextArg err])),
                        set_slot worker i (freeSlot slot moment) taken)
         | None \<Rightarrow> (Inr reservation, put_reservation reservation taken))"

definition Reserve ::
  "iteration \<Rightarrow> instant \<Rightarrow> ExecutorRegistry \<Rightarrow> ReservationRequest \<Rightarrow> (capacity_error + ResourceReservation) \<times> ExecutorRegistry" where
  "Reserve iterate now r request =
     (case ReservationRequest_validate request of
        Some err \<Rightarrow> (Inl err, r)
      | None \<Rightarrow>
        (case Registry_pools r (Req_WorkerID request) of
           None \<Rightarrow> (Inl (wrapping ErrUnknownExecutorPool ''reserve capacity on worker %q: %w'' [StrArg (Req_WorkerID request)]), r)
         | Some pool \<Rightarrow>
             if map_of (Registry_reservations r) (Req_ReservationID request) \<noteq> None
             then (Inl (wrapping ErrDuplicateReservation ''reserve capacity %q: %w'' [StrArg (Req_ReservationID request)]), r)
             else if below_class (Demand_MinCPUClass (Req_Demand request)) (Pool_CPUClass pool)
             then (Inl (wrapping ErrCPUClassBelowMinimum ''reserve capacity on worker %q: cpu class %q against minimum %q: %w''
                    [StrArg (Req_WorkerID request), StrArg (CPUClass_text (Pool_CPUClass pool)),
                     StrArg (CPUClass_text (Demand_MinCPUClass (Req_Demand request)))]), r)
             else
               let demand = GoverningDemand (Req_Demand request) (Pool_Allocatable pool);
                   snapshot = snapshotLocked iterate now r (Req_WorkerID request)
               in (case first_free (Registry_slots r (Req_WorkerID request)) of
                     None \<Rightarrow>
                       (Inl (wrapping ErrCapacityExhausted ''reserve capacity on worker %q: all %d executor slots are occupied: %w''
                          [StrArg (Req_WorkerID request), IntArg (Alloc_ExecutorSlots (Pool_Allocatable pool))]), r)
                   | Some i \<Rightarrow>
                       if f_lt (FreeCPUUnits snapshot) (Demand_CPUUnits demand)
                       then (Inl (wrapping ErrCapacityExhausted ''reserve capacity on worker %q: %v free cpu units for a demand of %v: %w''
                               [StrArg (Req_WorkerID request), FloatArg (FreeCPUUnits snapshot), FloatArg (Demand_CPUUnits demand)]), r)
                       else if Demand_MemoryMB demand > FreeMemoryMB snapshot
                       then (Inl (wrapping ErrCapacityExhausted ''reserve capacity on worker %q: %d MB free memory for a demand of %d MB: %w''
                               [StrArg (Req_WorkerID request), IntArg (FreeMemoryMB snapshot), IntArg (Demand_MemoryMB demand)]), r)
                       else if Demand_ScratchMB demand > FreeScratchMB snapshot
                       then (Inl (wrapping ErrCapacityExhausted ''reserve capacity on worker %q: %d MB free scratch for a demand of %d MB: %w''
                               [StrArg (Req_WorkerID request), IntArg (FreeScratchMB snapshot), IntArg (Demand_ScratchMB demand)]), r)
                       else commit_reservation request pool demand i now r)))"

record CapacityShortfall =
  Short_Dimension :: string
  Short_Available :: float64
  Short_Required :: float64

definition Fits :: "iteration \<Rightarrow> instant \<Rightarrow> ExecutorRegistry \<Rightarrow> string \<Rightarrow> ResourceDemand \<Rightarrow> CapacityShortfall list" where
  "Fits iterate now r workerID demand0 =
     (case Registry_pools r workerID of
        None \<Rightarrow> []
      | Some pool \<Rightarrow>
          let demand = GoverningDemand demand0 (Pool_Allocatable pool);
              snapshot = snapshotLocked iterate now r workerID
          in (if below_class (Demand_MinCPUClass demand) (Pool_CPUClass pool)
              then [\<lparr>Short_Dimension = ''cpu-class'', Short_Available = f_of_int (CPUClass_Rank (Pool_CPUClass pool)),
                     Short_Required = f_of_int (CPUClass_Rank (Demand_MinCPUClass demand))\<rparr>] else [])
           @ (if FreeSlots snapshot < 1
              then [\<lparr>Short_Dimension = ''executor-slots'', Short_Available = f_of_int (FreeSlots snapshot),
                     Short_Required = Fin 1\<rparr>] else [])
           @ (if f_lt (FreeCPUUnits snapshot) (Demand_CPUUnits demand)
              then [\<lparr>Short_Dimension = ''cpu-units'', Short_Available = FreeCPUUnits snapshot,
                     Short_Required = Demand_CPUUnits demand\<rparr>] else [])
           @ (if Demand_MemoryMB demand > FreeMemoryMB snapshot
              then [\<lparr>Short_Dimension = ''memory-mb'', Short_Available = f_of_int (FreeMemoryMB snapshot),
                     Short_Required = f_of_int (Demand_MemoryMB demand)\<rparr>] else [])
           @ (if Demand_ScratchMB demand > FreeScratchMB snapshot
              then [\<lparr>Short_Dimension = ''scratch-mb'', Short_Available = f_of_int (FreeScratchMB snapshot),
                     Short_Required = f_of_int (Demand_ScratchMB demand)\<rparr>] else []))"

definition Governs :: "ExecutorRegistry \<Rightarrow> string \<Rightarrow> bool" where
  "Governs r workerID \<longleftrightarrow> Registry_pools r workerID \<noteq> None"

record CapacityOwner =
  Owner_AssignmentID :: string
  Owner_AttemptID :: string
  Owner_WorkerID :: string
  Owner_Demand :: ResourceDemand

text \<open>The slot an owner is adopted into: the first free one, or one more.\<close>

definition with_free_slot :: "string \<Rightarrow> ExecutorPool \<Rightarrow> instant \<Rightarrow> ExecutorRegistry \<Rightarrow> nat \<times> ExecutorRegistry" where
  "with_free_slot workerID pool moment r =
     (let slots = Registry_slots r workerID in
      case first_free slots of
        Some i \<Rightarrow> (i, r)
      | None \<Rightarrow> (length slots,
          r\<lparr>Registry_slots := (Registry_slots r)(workerID :=
              slots @ [(free_slot_at pool moment (length slots))\<lparr>Slot_WorkerID := workerID\<rparr>])\<rparr>))"

definition adopted_reservation :: "CapacityOwner \<Rightarrow> ExecutorPool \<Rightarrow> ExecutorSlot \<Rightarrow> instant \<Rightarrow> ResourceReservation" where
  "adopted_reservation owner pool slot moment =
     (let demand = GoverningDemand (Owner_Demand owner) (Pool_Allocatable pool) in
      \<lparr>Resv_ID = Owner_AssignmentID owner, Resv_WorkerID = Owner_WorkerID owner, Resv_PoolName = Pool_Name pool,
       Resv_SlotOrdinal = Slot_Ordinal slot, Resv_SlotFencingToken = Slot_FencingToken slot,
       Resv_AssignmentID = Owner_AssignmentID owner, Resv_AttemptID = Owner_AttemptID owner, Resv_LeaseToken = '''',
       Resv_CPUUnits = Demand_CPUUnits demand, Resv_MemoryMB = Demand_MemoryMB demand,
       Resv_ScratchMB = Demand_ScratchMB demand, Resv_State = ResourceReservationActive,
       Resv_ReleaseReason = ResourceReleaseNone, Resv_LeaseExpiresAt = 0, Resv_CreatedAt = moment,
       Resv_UpdatedAt = moment, Resv_ReleasedAt = None\<rparr>)"

definition adopt :: "instant \<Rightarrow> ExecutorRegistry \<Rightarrow> CapacityOwner \<Rightarrow> capacity_error + ExecutorRegistry" where
  "adopt now r owner =
     (if Owner_AssignmentID owner = '''' \<or> Owner_WorkerID owner = ''''
      then Inl (CapacityErrorf (Sprintf ''capacity owner requires an assignment and a worker'' []))
      else (case Registry_pools r (Owner_WorkerID owner) of
        None \<Rightarrow> Inr r
      | Some pool \<Rightarrow>
          if map_of (Registry_reservations r) (Owner_AssignmentID owner) \<noteq> None
          then Inl (wrapping ErrDuplicateReservation ''assignment %q holds capacity twice: %w'' [StrArg (Owner_AssignmentID owner)])
          else
            let worker = Owner_WorkerID owner; token = next_token r;
                (i, r1) = with_free_slot worker pool now r;
                slot = take_slot ExecutorSlotRunning (Owner_AssignmentID owner) (Owner_AssignmentID owner) token now
                         (Registry_slots r1 worker ! i)
            in Inr (put_reservation (adopted_reservation owner pool slot now)
                 (set_slot worker i slot (r1\<lparr>Registry_tokenSequence := token\<rparr>)))))"

text \<open>\<open>updateSlotLocked\<close>: the first slot with the reservation's ordinal and token.\<close>

fun update_slots :: "ResourceReservation \<Rightarrow> (ExecutorSlot \<Rightarrow> ExecutorSlot) \<Rightarrow> ExecutorSlot list \<Rightarrow> ExecutorSlot list" where
  "update_slots v mutate [] = []"
| "update_slots v mutate (slot # slots) =
     (if Slot_Ordinal slot \<noteq> Resv_SlotOrdinal v \<or> Slot_FencingToken slot \<noteq> Resv_SlotFencingToken v
      then slot # update_slots v mutate slots
      else mutate slot # slots)"

definition updateSlotLocked :: "ResourceReservation \<Rightarrow> (ExecutorSlot \<Rightarrow> ExecutorSlot) \<Rightarrow> ExecutorRegistry \<Rightarrow> ExecutorRegistry" where
  "updateSlotLocked v mutate r =
     r\<lparr>Registry_slots := (Registry_slots r)(Resv_WorkerID v := update_slots v mutate (Registry_slots r (Resv_WorkerID v)))\<rparr>"

definition Activate :: "instant \<Rightarrow> ExecutorRegistry \<Rightarrow> string \<Rightarrow> (capacity_error + ResourceReservation) \<times> ExecutorRegistry" where
  "Activate moment r reservationID =
     (case map_of (Registry_reservations r) reservationID of
        None \<Rightarrow> (Inl (wrapping ErrUnknownReservation ''activate %q: %w'' [StrArg reservationID]), r)
      | Some v \<Rightarrow>
          if Released v then (Inl (wrapping ErrReservationReleased ''activate %q: %w'' [StrArg reservationID]), r)
          else
            let v' = v\<lparr>Resv_State := ResourceReservationActive, Resv_UpdatedAt := moment\<rparr>
            in (Inr v',
                updateSlotLocked v' (\<lambda>slot. slot\<lparr>Slot_State := ExecutorSlotRunning, Slot_UpdatedAt := moment\<rparr>)
                  (r\<lparr>Registry_reservations := AList.update reservationID v' (Registry_reservations r)\<rparr>)))"

definition Release ::
  "instant \<Rightarrow> ExecutorRegistry \<Rightarrow> string \<Rightarrow> ResourceReleaseReason \<Rightarrow> (capacity_error + ResourceReservation) \<times> ExecutorRegistry" where
  "Release moment r reservationID reason =
     (if \<not> ReleaseReason_Valid reason
      then (Inl (CapacityErrorf (Sprintf ''release %q: %q is not one of the terminal release paths''
             [StrArg reservationID, StrArg (ReleaseReason_text reason)])), r)
      else (case map_of (Registry_reservations r) reservationID of
        None \<Rightarrow> (Inl (wrapping ErrUnknownReservation ''release %q: %w'' [StrArg reservationID]), r)
      | Some v \<Rightarrow>
          if Released v then (Inl (wrapping ErrReservationReleased ''release %q already released as %q: %w''
                                     [StrArg reservationID, StrArg (ReleaseReason_text (Resv_ReleaseReason v))]), r)
          else
            let v' = v\<lparr>Resv_State := ResourceReservationReleased, Resv_ReleaseReason := reason,
                       Resv_UpdatedAt := moment, Resv_ReleasedAt := Some moment\<rparr>
            in (Inr v',
                (updateSlotLocked v (\<lambda>slot. freeSlot slot moment) r)
                  \<lparr>Registry_reservations := AList.update reservationID v' (Registry_reservations r)\<rparr>)))"

definition Reservation :: "ExecutorRegistry \<Rightarrow> string \<Rightarrow> ResourceReservation option" where
  "Reservation r reservationID = map_of (Registry_reservations r) reservationID"

definition Outstanding :: "iteration \<Rightarrow> ExecutorRegistry \<Rightarrow> ResourceReservation list" where
  "Outstanding iterate r =
     sort_less (\<lambda>a b. Resv_ID a < Resv_ID b) (filter (\<lambda>v. \<not> Released v) (map snd (iterate (Registry_reservations r))))"

section \<open>Planning\<close>

fun adopt_all :: "instant \<Rightarrow> CapacityOwner list \<Rightarrow> ExecutorRegistry \<Rightarrow> capacity_error + ExecutorRegistry" where
  "adopt_all now [] r = Inr r"
| "adopt_all now (owner # owners) r =
     (case adopt now r owner of
        Inl err \<Rightarrow> Inl (in_context ''rebuild executor registry: %w'' err)
      | Inr r' \<Rightarrow> adopt_all now owners r')"

definition RebuildExecutorRegistry :: "ExecutorPool list \<Rightarrow> CapacityOwner list \<Rightarrow> instant \<Rightarrow> capacity_error + ExecutorRegistry" where
  "RebuildExecutorRegistry pools owners now =
     (case NewExecutorRegistry pools now of Inl err \<Rightarrow> Inl err | Inr r \<Rightarrow> adopt_all now owners r)"

datatype capacitySession = SessionRegistry ExecutorRegistry | SessionFailure capacity_error "ExecutorPool list"

definition StartPlan :: "ExecutorPool list \<Rightarrow> CapacityOwner list \<Rightarrow> instant \<Rightarrow> capacitySession" where
  "StartPlan pools owners now =
     (case RebuildExecutorRegistry pools owners now of
        Inl err \<Rightarrow> SessionFailure err pools
      | Inr r \<Rightarrow> SessionRegistry r)"

text \<open>A session whose registry could not be rebuilt blocks every worker that has a pool.\<close>

definition unknown_capacity :: "string \<Rightarrow> capacity_error \<Rightarrow> PlanningBlocker" where
  "unknown_capacity workerID err =
     (planning_blocker ''executor-capacity''
        (Sprintf ''executor capacity for worker %q is unknown: %v'' [StrArg workerID, TextArg (capacity_error_text err)]))
       \<lparr>PB_Dimension := ''executor-slots''\<rparr>"

definition shortfall_blocker :: "string \<Rightarrow> CapacityShortfall \<Rightarrow> PlanningBlocker" where
  "shortfall_blocker workerID shortfall =
     (planning_blocker ''executor-capacity''
        (Sprintf ''worker %q has %v available %s for a requirement of %v''
           [StrArg workerID, FloatArg (Short_Available shortfall), StrArg (Short_Dimension shortfall),
            FloatArg (Short_Required shortfall)]))
       \<lparr>PB_Dimension := Short_Dimension shortfall, PB_Available := Short_Available shortfall,
        PB_Required := Short_Required shortfall\<rparr>"

fun session_Evaluate :: "iteration \<Rightarrow> instant \<Rightarrow> capacitySession \<Rightarrow> PlanningCandidate \<Rightarrow> PlanningBlocker list" where
  "session_Evaluate iterate now (SessionFailure err pools) c =
     (if list_ex (\<lambda>pool. Pool_WorkerID pool = Candidate_WorkerID c) pools
      then [unknown_capacity (Candidate_WorkerID c) err] else [])"
| "session_Evaluate iterate now (SessionRegistry r) c =
     map (shortfall_blocker (Candidate_WorkerID c))
       (Fits iterate now r (Candidate_WorkerID c) (Task_ResourceDemand (Candidate_Task c)))"

definition candidate_request :: "PlanningCandidate \<Rightarrow> ReservationRequest" where
  "candidate_request c =
     \<lparr>Req_ReservationID = Attempt_ID (Candidate_Attempt c), Req_WorkerID = Candidate_WorkerID c, Req_AssignmentID = '''',
      Req_AttemptID = Attempt_ID (Candidate_Attempt c), Req_LeaseToken = '''', Req_LeaseExpiresAt = 0,
      Req_Kind = ReservationKindAttempt, Req_Demand = Task_ResourceDemand (Candidate_Task c),
      Req_ProviderAdmissionHeld = True\<rparr>"

fun session_Reserve :: "iteration \<Rightarrow> instant \<Rightarrow> capacitySession \<Rightarrow> PlanningCandidate \<Rightarrow> capacitySession" where
  "session_Reserve iterate now (SessionFailure err pools) c = SessionFailure err pools"
| "session_Reserve iterate now (SessionRegistry r) c =
     (if \<not> Governs r (Candidate_WorkerID c) then SessionRegistry r
      else SessionRegistry (snd (Reserve iterate now r (candidate_request c))))"

text \<open>The planner sees the sessions through \<open>PlanningConstraint\<close>; a session keeps the clock of its pass beside the registry.\<close>

definition NewCapacityConstraint ::
  "iteration \<Rightarrow> ExecutorPool list \<Rightarrow> CapacityOwner list \<Rightarrow> (instant \<times> capacitySession) PlanningConstraint" where
  "NewCapacityConstraint iterate pools owners =
     \<lparr>Constraint_StartPlan = (\<lambda>now. Some (now, StartPlan pools owners now)),
      Constraint_Evaluate = (\<lambda>(now, session) c. session_Evaluate iterate now session c),
      Constraint_Reserve = (\<lambda>(now, session) c. (now, session_Reserve iterate now session c))\<rparr>"

end
