(* ===== verification/RegistrySpec.thy ===== *)
theory RegistrySpec
  imports Registry
begin

text \<open>
  The invariant of the executor registry: the occupied slots and the outstanding reservations
  belong to each other one to one. Every operation keeps it.
\<close>

section \<open>The invariant\<close>

definition outstanding_at :: "ExecutorRegistry \<Rightarrow> string \<Rightarrow> ResourceReservation \<Rightarrow> bool" where
  "outstanding_at r i v \<longleftrightarrow> map_of (Registry_reservations r) i = Some v \<and> \<not> Released v"

definition slot_holds :: "ExecutorSlot \<Rightarrow> ResourceReservation \<Rightarrow> bool" where
  "slot_holds slot v \<longleftrightarrow>
     Occupied slot \<and> Slot_ReservationID slot = Resv_ID v \<and> Slot_Ordinal slot = Resv_SlotOrdinal v \<and>
     Slot_FencingToken slot = Resv_SlotFencingToken v"

definition pools_ok :: "ExecutorRegistry \<Rightarrow> bool" where
  "pools_ok r \<longleftrightarrow>
     (\<forall>w p. Registry_pools r w = Some p \<longrightarrow> Pool_WorkerID p = w \<and> ExecutorPool_Validate p = None \<and>
        nat (Alloc_ExecutorSlots (Pool_Allocatable p)) \<le> length (Registry_slots r w)) \<and>
     (\<forall>w. Registry_pools r w = None \<longrightarrow> Registry_slots r w = [])"

definition slots_ok :: "ExecutorRegistry \<Rightarrow> bool" where
  "slots_ok r \<longleftrightarrow>
     (\<forall>w i. i < length (Registry_slots r w) \<longrightarrow> Slot_Ordinal (Registry_slots r w ! i) = int i \<and>
        (Occupied (Registry_slots r w ! i) \<longrightarrow>
           (\<exists>v. outstanding_at r (Slot_ReservationID (Registry_slots r w ! i)) v \<and> Resv_WorkerID v = w \<and>
              slot_holds (Registry_slots r w ! i) v)))"

definition reservations_ok :: "ExecutorRegistry \<Rightarrow> bool" where
  "reservations_ok r \<longleftrightarrow>
     distinct (map fst (Registry_reservations r)) \<and>
     (\<forall>i v. map_of (Registry_reservations r) i = Some v \<longrightarrow> Resv_ID v = i \<and> 0 \<le> Resv_SlotOrdinal v) \<and>
     (\<forall>i v. outstanding_at r i v \<longrightarrow>
        nat (Resv_SlotOrdinal v) < length (Registry_slots r (Resv_WorkerID v)) \<and>
        slot_holds (Registry_slots r (Resv_WorkerID v) ! nat (Resv_SlotOrdinal v)) v)"

definition registry_ok :: "ExecutorRegistry \<Rightarrow> bool" where
  "registry_ok r \<longleftrightarrow> pools_ok r \<and> slots_ok r \<and> reservations_ok r"

lemmas registry_ok_parts = registry_ok_def pools_ok_def slots_ok_def reservations_ok_def

lemma slot_ordinal: "registry_ok r \<Longrightarrow> i < length (Registry_slots r w) \<Longrightarrow> Slot_Ordinal (Registry_slots r w ! i) = int i"
  by (simp add: registry_ok_def slots_ok_def)

lemma slot_holder:
  assumes "registry_ok r" and "i < length (Registry_slots r w)" and "Occupied (Registry_slots r w ! i)"
  obtains v where "outstanding_at r (Slot_ReservationID (Registry_slots r w ! i)) v" "Resv_WorkerID v = w"
    "slot_holds (Registry_slots r w ! i) v"
  using assms unfolding registry_ok_def slots_ok_def by blast

lemma held_slot:
  assumes "registry_ok r" and "outstanding_at r i v"
  shows "nat (Resv_SlotOrdinal v) < length (Registry_slots r (Resv_WorkerID v))"
    "slot_holds (Registry_slots r (Resv_WorkerID v) ! nat (Resv_SlotOrdinal v)) v"
    "0 \<le> Resv_SlotOrdinal v" "Resv_ID v = i"
  using assms by (auto simp: registry_ok_def reservations_ok_def outstanding_at_def)

lemma update_fresh_key: "map_of al k = None \<Longrightarrow> AList.update k v al = al @ [(k, v)]"
  by (induction al) auto

section \<open>Free slots\<close>

lemma first_free_Some: "first_free slots = Some i \<Longrightarrow> i < length slots \<and> \<not> Occupied (slots ! i)"
  by (induction slots arbitrary: i) (auto simp: Occupied_def split: if_splits)

lemma first_free_None: "first_free slots = None \<longleftrightarrow> list_all Occupied slots"
  by (induction slots) (auto simp: Occupied_def)

section \<open>Acquiring\<close>

lemma take_slot_holds:
  assumes "state \<noteq> ExecutorSlotFree" and "Resv_ID v = i"
    and "Resv_SlotOrdinal v = Slot_Ordinal slot" and "Resv_SlotFencingToken v = Slot_FencingToken (take_slot state i a token now slot)"
  shows "slot_holds (take_slot state i a token now slot) v"
  using assms by (simp add: slot_holds_def take_slot_def Occupied_def)

text \<open>Taking a free slot for a reservation with a new identity.\<close>

lemma occupy_ok:
  assumes ok: "registry_ok r" and free: "k < length (Registry_slots r w)" "\<not> Occupied (Registry_slots r w ! k)"
    and fresh: "map_of (Registry_reservations r) (Resv_ID v) = None"
    and v: "Resv_WorkerID v = w" "Resv_SlotOrdinal v = int k" "\<not> Released v" and slot: "slot_holds slot v"
  shows "registry_ok (put_reservation v (set_slot w k slot (r\<lparr>Registry_tokenSequence := token\<rparr>)))" (is "registry_ok ?r")
proof -
  have slots: "Registry_slots ?r x = (if x = w then (Registry_slots r w)[k := slot] else Registry_slots r x)" for x
    by (simp add: put_reservation_def set_slot_def)
  have res: "map_of (Registry_reservations ?r) i = (if i = Resv_ID v then Some v else map_of (Registry_reservations r) i)" for i
    by (simp add: put_reservation_def set_slot_def update_conv')
  have keep: "outstanding_at ?r i u" if "outstanding_at r i u" for i u
    using that fresh res by (auto simp: outstanding_at_def)
  have new: "outstanding_at ?r (Resv_ID v) v" using v res by (simp add: outstanding_at_def)
  have old: "outstanding_at r i u \<or> i = Resv_ID v \<and> u = v" if "outstanding_at ?r i u" for i u
    using that res [of i] by (auto simp: outstanding_at_def split: if_splits)
  have ordinal: "Slot_Ordinal slot = int k" "Occupied slot" "Slot_ReservationID slot = Resv_ID v"
    using slot v by (simp_all add: slot_holds_def)
  have "pools_ok ?r" using ok by (auto simp: registry_ok_parts slots put_reservation_def set_slot_def)
  moreover have "slots_ok ?r"
    unfolding slots_ok_def
  proof (intro allI impI)
    fix x i
    assume i: "i < length (Registry_slots ?r x)"
    let ?s = "Registry_slots ?r x ! i"
    show "Slot_Ordinal ?s = int i \<and> (Occupied ?s \<longrightarrow>
        (\<exists>u. outstanding_at ?r (Slot_ReservationID ?s) u \<and> Resv_WorkerID u = x \<and> slot_holds ?s u))"
    proof (cases "x = w \<and> i = k")
      case True
      then show ?thesis using free(1) ordinal new v(1) slot by (auto simp: slots)
    next
      case False
      then have s: "?s = Registry_slots r x ! i" "i < length (Registry_slots r x)" using i by (auto simp: slots split: if_splits)
      have "\<exists>u. outstanding_at ?r (Slot_ReservationID ?s) u \<and> Resv_WorkerID u = x \<and> slot_holds ?s u" if "Occupied ?s"
      proof -
        from that have "Occupied (Registry_slots r x ! i)" by (simp only: s(1))
        then obtain u where u: "outstanding_at r (Slot_ReservationID (Registry_slots r x ! i)) u" "Resv_WorkerID u = x"
          "slot_holds (Registry_slots r x ! i) u" by (rule slot_holder [OF ok s(2)])
        show ?thesis unfolding s(1) by (rule exI [of _ u]) (intro conjI keep u)
      qed
      moreover have "Slot_Ordinal ?s = int i" unfolding s(1) by (rule slot_ordinal [OF ok s(2)])
      ultimately show ?thesis by blast
    qed
  qed
  moreover have "reservations_ok ?r"
    unfolding reservations_ok_def
  proof (intro conjI allI impI)
    show "distinct (map fst (Registry_reservations ?r))"
      using ok by (simp add: registry_ok_parts put_reservation_def set_slot_def distinct_update)
    show "Resv_ID u = i" "0 \<le> Resv_SlotOrdinal u" if "map_of (Registry_reservations ?r) i = Some u" for i u
      using that ok res v by (auto simp: registry_ok_parts split: if_splits)
    fix i u
    assume u: "outstanding_at ?r i u"
    show "nat (Resv_SlotOrdinal u) < length (Registry_slots ?r (Resv_WorkerID u))"
      using old [OF u]
    proof
      assume "outstanding_at r i u"
      from held_slot(1) [OF ok this] show ?thesis unfolding slots by (auto split: if_splits)
    next
      assume "i = Resv_ID v \<and> u = v"
      with free(1) v show ?thesis unfolding slots by simp
    qed
    show "slot_holds (Registry_slots ?r (Resv_WorkerID u) ! nat (Resv_SlotOrdinal u)) u"
    proof (cases "i = Resv_ID v \<and> u = v")
      case True
      then show ?thesis using v free(1) slot by (simp add: slots)
    next
      case False
      with old [OF u] have o: "outstanding_at r i u" by blast
      then have h: "slot_holds (Registry_slots r (Resv_WorkerID u) ! nat (Resv_SlotOrdinal u)) u"
        using ok by (simp add: registry_ok_def reservations_ok_def)
      then have "\<not> (Resv_WorkerID u = w \<and> nat (Resv_SlotOrdinal u) = k)" using free(2) by (auto simp: slot_holds_def)
      with h show ?thesis by (auto simp: slots)
    qed
  qed
  ultimately show ?thesis by (simp add: registry_ok_def)
qed

section \<open>Updating the slot of a reservation\<close>

lemma update_slots_nth:
  assumes "k < length slots" and "Slot_Ordinal (slots ! k) = Resv_SlotOrdinal v" and "Slot_FencingToken (slots ! k) = Resv_SlotFencingToken v"
    and "\<And>j. j < k \<Longrightarrow> Slot_Ordinal (slots ! j) \<noteq> Resv_SlotOrdinal v"
  shows "update_slots v f slots = slots[k := f (slots ! k)]"
  using assms
proof (induction slots arbitrary: k)
  case (Cons slot slots)
  show ?case
  proof (cases k)
    case 0
    with Cons.prems show ?thesis by simp
  next
    case (Suc m)
    have "Slot_Ordinal slot \<noteq> Resv_SlotOrdinal v" using Cons.prems(4) [of 0] Suc by simp
    moreover have "update_slots v f slots = slots[m := f (slots ! m)]"
    proof (rule Cons.IH)
      show "Slot_Ordinal (slots ! j) \<noteq> Resv_SlotOrdinal v" if "j < m" for j
        using Cons.prems(4) [of "Suc j"] Suc that by simp
    qed (use Cons.prems Suc in simp_all)
    ultimately show ?thesis using Suc by simp
  qed
qed simp

text \<open>The slot of an outstanding reservation is found and no other slot is touched.\<close>

lemma update_slot_of:
  assumes "registry_ok r" and "outstanding_at r i v"
    and "Resv_SlotOrdinal u = Resv_SlotOrdinal v" and "Resv_SlotFencingToken u = Resv_SlotFencingToken v"
  shows "update_slots u f (Registry_slots r (Resv_WorkerID v)) = (Registry_slots r (Resv_WorkerID v))
    [nat (Resv_SlotOrdinal v) := f (Registry_slots r (Resv_WorkerID v) ! nat (Resv_SlotOrdinal v))]"
proof (rule update_slots_nth)
  let ?k = "nat (Resv_SlotOrdinal v)" and ?slots = "Registry_slots r (Resv_WorkerID v)"
  have h: "?k < length ?slots" "slot_holds (?slots ! ?k) v" "0 \<le> Resv_SlotOrdinal v"
    using assms(1,2) by (auto simp: registry_ok_def reservations_ok_def outstanding_at_def)
  then show "?k < length ?slots" "Slot_Ordinal (?slots ! ?k) = Resv_SlotOrdinal u"
    "Slot_FencingToken (?slots ! ?k) = Resv_SlotFencingToken u"
    using assms(3,4) by (simp_all add: slot_holds_def)
  show "Slot_Ordinal (?slots ! j) \<noteq> Resv_SlotOrdinal u" if "j < ?k" for j
  proof -
    have "Slot_Ordinal (?slots ! j) = int j"
      using assms(1) that h(1) by (simp add: registry_ok_def slots_ok_def)
    with that h(3) assms(3) show ?thesis by auto
  qed
qed

lemma holders_inj:
  assumes "registry_ok r" and "outstanding_at r i v" and "outstanding_at r j u" and "Resv_WorkerID v = Resv_WorkerID u"
    and "Resv_SlotOrdinal v = Resv_SlotOrdinal u"
  shows "i = j"
proof -
  have "slot_holds (Registry_slots r (Resv_WorkerID v) ! nat (Resv_SlotOrdinal v)) v"
    "slot_holds (Registry_slots r (Resv_WorkerID u) ! nat (Resv_SlotOrdinal u)) u" "Resv_ID v = i" "Resv_ID u = j"
    using assms(1-3) by (auto simp: registry_ok_def reservations_ok_def outstanding_at_def)
  with assms(4,5) show ?thesis by (auto simp: slot_holds_def)
qed

text \<open>
  Replacing an outstanding reservation and its slot: by ones that still hold each other, or by a
  released reservation and a free slot.
\<close>

lemma replace_ok:
  assumes ok: "registry_ok r" and v: "outstanding_at r i v"
    and u: "Resv_ID u = Resv_ID v" "Resv_WorkerID u = Resv_WorkerID v" "Resv_SlotOrdinal u = Resv_SlotOrdinal v"
    and slot: "Slot_Ordinal slot = Resv_SlotOrdinal v" "if Released u then \<not> Occupied slot else slot_holds slot u"
    and r': "Registry_pools r' = Registry_pools r" "Registry_reservations r' = AList.update i u (Registry_reservations r)"
      "Registry_slots r' = (Registry_slots r)(Resv_WorkerID v :=
         (Registry_slots r (Resv_WorkerID v))[nat (Resv_SlotOrdinal v) := slot])"
  shows "registry_ok r'"
proof -
  let ?w = "Resv_WorkerID v" and ?k = "nat (Resv_SlotOrdinal v)"
  have h: "?k < length (Registry_slots r ?w)" "slot_holds (Registry_slots r ?w ! ?k) v" "0 \<le> Resv_SlotOrdinal v" "Resv_ID v = i"
    using held_slot [OF ok v] by auto
  have res: "map_of (Registry_reservations r') j = (if j = i then Some u else map_of (Registry_reservations r) j)" for j
    by (simp add: r' update_conv')
  have others: "outstanding_at r' j x \<longleftrightarrow> outstanding_at r j x" if "j \<noteq> i" for j x
    using that res by (simp add: outstanding_at_def)
  have same: "outstanding_at r' i x \<longleftrightarrow> x = u \<and> \<not> Released u" for x
    using res by (auto simp: outstanding_at_def)
  have "pools_ok r'" using ok by (auto simp: registry_ok_def pools_ok_def r')
  moreover have "slots_ok r'"
    unfolding slots_ok_def
  proof (intro allI impI)
    fix x m
    assume m: "m < length (Registry_slots r' x)"
    let ?s = "Registry_slots r' x ! m"
    show "Slot_Ordinal ?s = int m \<and> (Occupied ?s \<longrightarrow>
        (\<exists>y. outstanding_at r' (Slot_ReservationID ?s) y \<and> Resv_WorkerID y = x \<and> slot_holds ?s y))"
    proof (cases "x = ?w \<and> m = ?k")
      case True
      then have s: "?s = slot" using h(1) by (simp add: r')
      have "\<exists>y. outstanding_at r' (Slot_ReservationID slot) y \<and> Resv_WorkerID y = x \<and> slot_holds slot y" if "Occupied slot"
      proof -
        from that slot(2) have "\<not> Released u" "slot_holds slot u" by (auto split: if_splits)
        with u h(4) same True show ?thesis by (intro exI [of _ u]) (auto simp: slot_holds_def)
      qed
      with s slot(1) h(3) True show ?thesis by auto
    next
      case False
      then have s: "?s = Registry_slots r x ! m" "m < length (Registry_slots r x)"
        using m by (auto simp: r' split: if_splits)
      have old: "Slot_Ordinal ?s = int m" "Occupied ?s \<Longrightarrow>
          \<exists>y. outstanding_at r (Slot_ReservationID ?s) y \<and> Resv_WorkerID y = x \<and> slot_holds ?s y"
        using ok s by (auto simp: registry_ok_def slots_ok_def)
      have "\<exists>y. outstanding_at r' (Slot_ReservationID ?s) y \<and> Resv_WorkerID y = x \<and> slot_holds ?s y" if "Occupied ?s"
      proof -
        obtain y where y: "outstanding_at r (Slot_ReservationID ?s) y" "Resv_WorkerID y = x" "slot_holds ?s y"
          using old(2) [OF \<open>Occupied ?s\<close>] by blast
        have "Slot_ReservationID ?s \<noteq> i"
        proof
          assume "Slot_ReservationID ?s = i"
          with y(1) v have "y = v" by (auto simp: outstanding_at_def)
          with y old(1) False show False by (auto simp: slot_holds_def)
        qed
        with y others show ?thesis by blast
      qed
      with old(1) show ?thesis by blast
    qed
  qed
  moreover have "reservations_ok r'"
    unfolding reservations_ok_def
  proof (intro conjI allI impI)
    show "distinct (map fst (Registry_reservations r'))"
      using ok by (simp add: registry_ok_def reservations_ok_def r' distinct_update)
    show "Resv_ID y = j" "0 \<le> Resv_SlotOrdinal y" if "map_of (Registry_reservations r') j = Some y" for j y
      using that ok res u h by (auto simp: registry_ok_def reservations_ok_def split: if_splits)
    fix j y
    assume y: "outstanding_at r' j y"
    show "nat (Resv_SlotOrdinal y) < length (Registry_slots r' (Resv_WorkerID y))"
    proof (cases "j = i")
      case True
      with y same u h(1) show ?thesis by (simp add: r')
    next
      case False
      with y others have "outstanding_at r j y" by blast
      from held_slot(1) [OF ok this] show ?thesis by (auto simp: r')
    qed
    show "slot_holds (Registry_slots r' (Resv_WorkerID y) ! nat (Resv_SlotOrdinal y)) y"
    proof (cases "j = i")
      case True
      with y same have "y = u" "\<not> Released u" by auto
      with u h(1) slot(2) show ?thesis by (simp add: r')
    next
      case False
      with y others have o: "outstanding_at r j y" by blast
      with ok have hy: "slot_holds (Registry_slots r (Resv_WorkerID y) ! nat (Resv_SlotOrdinal y)) y" "0 \<le> Resv_SlotOrdinal y"
        by (auto simp: registry_ok_def reservations_ok_def outstanding_at_def)
      have "\<not> (Resv_WorkerID y = ?w \<and> nat (Resv_SlotOrdinal y) = ?k)"
        using holders_inj [OF ok v o] False hy(2) h(3) by (metis eq_nat_nat_iff)
      with hy show ?thesis by (auto simp: r')
    qed
  qed
  ultimately show ?thesis by (simp add: registry_ok_def)
qed

section \<open>Every operation keeps the invariant\<close>

lemma validated_pool:
  assumes "ExecutorPool_Validate p = None"
  shows "\<not> blank (Pool_WorkerID p)" "\<not> blank (Pool_Name p)" "1 \<le> Alloc_ExecutorSlots (Pool_Allocatable p)"
    "0 \<le> Alloc_MemoryMB (Pool_Allocatable p)" "0 \<le> Alloc_ScratchMB (Pool_Allocatable p)"
  using assms
  by (auto simp: ExecutorPool_Validate_def Let_def blank_def AllocatableCapacity_Validate_def split: if_splits option.splits)

lemma GoverningDemand_sizes:
  assumes "ResourceDemand_Validate d = None"
  shows "0 \<le> Demand_MemoryMB (GoverningDemand d a)" "0 \<le> Demand_ScratchMB (GoverningDemand d a)"
    "\<not> f_lt (Demand_CPUUnits (GoverningDemand d a)) (Fin 0)"
  using assms by (auto simp: ResourceDemand_Validate_def GoverningDemand_def Let_def split: if_splits option.splits)

lemma registry_ok_pool: "registry_ok r \<Longrightarrow> Registry_pools r w = Some p \<Longrightarrow> ExecutorPool_Validate p = None"
  by (simp add: registry_ok_def pools_ok_def)

text \<open>A reservation of a checked request in a checked pool is itself valid, so it is committed.\<close>

lemma commit_reservation_Inr:
  assumes "registry_ok r" and "ReservationRequest_validate request = None"
    and "Registry_pools r (Req_WorkerID request) = Some pool"
    and "k < length (Registry_slots r (Req_WorkerID request))" and "\<not> Occupied (Registry_slots r (Req_WorkerID request) ! k)"
    and "map_of (Registry_reservations r) (Req_ReservationID request) = None"
  obtains v where "fst (commit_reservation request pool (GoverningDemand (Req_Demand request) a) k now r) = Inr v"
    "Resv_ID v = Req_ReservationID request" "Resv_WorkerID v = Req_WorkerID request" "\<not> Released v"
    "Resv_MemoryMB v = Demand_MemoryMB (GoverningDemand (Req_Demand request) a)"
    "Resv_ScratchMB v = Demand_ScratchMB (GoverningDemand (Req_Demand request) a)"
    "registry_ok (snd (commit_reservation request pool (GoverningDemand (Req_Demand request) a) k now r))"
    "Registry_pools (snd (commit_reservation request pool (GoverningDemand (Req_Demand request) a) k now r)) = Registry_pools r"
    "Registry_reservations (snd (commit_reservation request pool (GoverningDemand (Req_Demand request) a) k now r)) =
       Registry_reservations r @ [(Req_ReservationID request, v)]"
    "\<exists>slot. Occupied slot \<and> Registry_slots (snd (commit_reservation request pool (GoverningDemand (Req_Demand request) a) k now r)) =
       (Registry_slots r)(Req_WorkerID request := (Registry_slots r (Req_WorkerID request))[k := slot])"
proof -
  let ?w = "Req_WorkerID request" and ?d = "GoverningDemand (Req_Demand request) a" and ?i = "Req_ReservationID request"
  define slot where "slot = take_slot ExecutorSlotReserved ?i (Req_AssignmentID request) (next_token r) now (Registry_slots r ?w ! k)"
  define v where "v = new_reservation request pool ?d slot now"
  have slot_sel: "Slot_Ordinal slot = int k" "Slot_FencingToken slot \<noteq> ''''" "Occupied slot"
    using slot_ordinal [OF assms(1,4)] by (auto simp: slot_def take_slot_def Occupied_def)
  have req: "trim_space ?i = ?i" "?i \<noteq> ''''" "\<not> blank ?w" "ResourceDemand_Validate (Req_Demand request) = None"
    using assms(2) by (auto simp: ReservationRequest_validate_def split: if_splits option.splits)
  have v_sel: "Resv_ID v = ?i" "Resv_WorkerID v = ?w" "Resv_SlotOrdinal v = int k" "\<not> Released v"
    "Resv_MemoryMB v = Demand_MemoryMB ?d" "Resv_ScratchMB v = Demand_ScratchMB ?d"
    "Resv_SlotFencingToken v = Slot_FencingToken slot" "Resv_PoolName v = Pool_Name pool" "Resv_CPUUnits v = Demand_CPUUnits ?d"
    using slot_sel by (simp_all add: v_def new_reservation_def Released_def)
  have state: "Resv_State v = ResourceReservationHeld" by (simp add: v_def new_reservation_def)
  have "ResourceReservation_Validate v = None"
    using req v_sel state slot_sel validated_pool(2) [OF registry_ok_pool [OF assms(1,3)]] GoverningDemand_sizes [OF req(4), of a]
    by (simp add: ResourceReservation_Validate_def Let_def)
  then have commit: "commit_reservation request pool ?d k now r =
      (Inr v, put_reservation v (set_slot ?w k slot (r\<lparr>Registry_tokenSequence := next_token r\<rparr>)))"
    by (simp add: commit_reservation_def Let_def slot_def v_def)
  have holds: "slot_holds slot v"
    unfolding slot_def by (rule take_slot_holds) (use v_sel slot_ordinal [OF assms(1,4)] in \<open>simp_all add: slot_def\<close>)
  show ?thesis
  proof (rule that [of v])
    show "registry_ok (snd (commit_reservation request pool ?d k now r))"
      unfolding commit snd_conv using assms v_sel holds by (intro occupy_ok) auto
    show "Registry_reservations (snd (commit_reservation request pool ?d k now r)) = Registry_reservations r @ [(?i, v)]"
      using assms(6) v_sel(1) by (simp add: commit put_reservation_def set_slot_def update_fresh_key)
    show "\<exists>slot. Occupied slot \<and> Registry_slots (snd (commit_reservation request pool ?d k now r)) =
        (Registry_slots r)(?w := (Registry_slots r ?w)[k := slot])"
      using slot_sel(3) by (intro exI [of _ slot]) (simp add: commit put_reservation_def set_slot_def)
  qed (use commit v_sel in \<open>simp_all add: put_reservation_def set_slot_def\<close>)
qed

text \<open>A reservation that is granted, and what it needed.\<close>

definition request_fits :: "iteration \<Rightarrow> instant \<Rightarrow> ExecutorRegistry \<Rightarrow> ReservationRequest \<Rightarrow> ExecutorPool \<Rightarrow> bool" where
  "request_fits iterate now r request pool \<longleftrightarrow>
     (let demand = GoverningDemand (Req_Demand request) (Pool_Allocatable pool);
          snapshot = snapshotLocked iterate now r (Req_WorkerID request)
      in \<not> below_class (Demand_MinCPUClass (Req_Demand request)) (Pool_CPUClass pool) \<and>
         \<not> f_lt (FreeCPUUnits snapshot) (Demand_CPUUnits demand) \<and>
         Demand_MemoryMB demand \<le> FreeMemoryMB snapshot \<and> Demand_ScratchMB demand \<le> FreeScratchMB snapshot)"

lemma Reserve_cases:
  assumes "registry_ok r"
  obtains (refused) err where "Reserve iterate now r request = (Inl err, r)"
      "\<not> (ReservationRequest_validate request = None \<and> map_of (Registry_reservations r) (Req_ReservationID request) = None \<and>
          (\<exists>pool. Registry_pools r (Req_WorkerID request) = Some pool \<and> request_fits iterate now r request pool) \<and>
          (\<exists>slot \<in> set (Registry_slots r (Req_WorkerID request)). \<not> Occupied slot))"
  | (granted) pool k where "ReservationRequest_validate request = None"
      "map_of (Registry_reservations r) (Req_ReservationID request) = None"
      "Registry_pools r (Req_WorkerID request) = Some pool" "request_fits iterate now r request pool"
      "k < length (Registry_slots r (Req_WorkerID request))" "\<not> Occupied (Registry_slots r (Req_WorkerID request) ! k)"
      "Reserve iterate now r request =
         commit_reservation request pool (GoverningDemand (Req_Demand request) (Pool_Allocatable pool)) k now r"
proof -
  consider (invalid) err where "ReservationRequest_validate request = Some err"
    | (unknown) "ReservationRequest_validate request = None" "Registry_pools r (Req_WorkerID request) = None"
    | (pool) pool where "ReservationRequest_validate request = None" "Registry_pools r (Req_WorkerID request) = Some pool"
    by (cases "ReservationRequest_validate request"; cases "Registry_pools r (Req_WorkerID request)") auto
  then show ?thesis
  proof cases
    case invalid
    then show ?thesis by (intro refused) (auto simp: Reserve_def)
  next
    case unknown
    then show ?thesis by (intro refused) (auto simp: Reserve_def)
  next
    case (pool pool)
    note reserve = Reserve_def [of iterate now r request, unfolded pool option.case Let_def]
    show ?thesis
    proof (cases "map_of (Registry_reservations r) (Req_ReservationID request) = None \<and> request_fits iterate now r request pool")
      case False
      then have "\<exists>err. Reserve iterate now r request = (Inl err, r)"
        unfolding reserve request_fits_def Let_def by (auto simp: not_le split: option.split if_split)
      with False pool(2) show ?thesis using refused by auto
    next
      case fits: True
      show ?thesis
      proof (cases "first_free (Registry_slots r (Req_WorkerID request))")
        case None
        then have "\<forall>slot \<in> set (Registry_slots r (Req_WorkerID request)). Occupied slot"
          by (simp add: first_free_None list_all_iff)
        moreover have "\<exists>err. Reserve iterate now r request = (Inl err, r)"
          using None fits by (auto simp: reserve request_fits_def Let_def)
        ultimately show ?thesis using refused by blast
      next
        case (Some k)
        from first_free_Some [OF this] have k: "k < length (Registry_slots r (Req_WorkerID request))"
          "\<not> Occupied (Registry_slots r (Req_WorkerID request) ! k)" by auto
        have "Reserve iterate now r request =
            commit_reservation request pool (GoverningDemand (Req_Demand request) (Pool_Allocatable pool)) k now r"
          using Some fits by (auto simp: reserve request_fits_def Let_def)
        with pool fits k show ?thesis by (intro granted) auto
      qed
    qed
  qed
qed

lemma Reserve_ok: "registry_ok r \<Longrightarrow> registry_ok (snd (Reserve iterate now r request))"
proof (rule Reserve_cases [of r iterate now request])
  fix pool k
  assume r: "registry_ok r" "ReservationRequest_validate request = None"
    "map_of (Registry_reservations r) (Req_ReservationID request) = None"
    "Registry_pools r (Req_WorkerID request) = Some pool"
    "k < length (Registry_slots r (Req_WorkerID request))" "\<not> Occupied (Registry_slots r (Req_WorkerID request) ! k)"
    "Reserve iterate now r request =
         commit_reservation request pool (GoverningDemand (Req_Demand request) (Pool_Allocatable pool)) k now r"
  show "registry_ok (snd (Reserve iterate now r request))"
    unfolding r(7) by (rule commit_reservation_Inr [OF r(1,2,4,5,6,3), where a = "Pool_Allocatable pool" and now = now])
qed auto

lemma with_free_slot_ok:
  assumes "registry_ok r" and "Registry_pools r w = Some pool" and "with_free_slot w pool now r = (k, r1)"
  shows "registry_ok r1" "k < length (Registry_slots r1 w)" "\<not> Occupied (Registry_slots r1 w ! k)"
    "Registry_reservations r1 = Registry_reservations r" "Registry_pools r1 = Registry_pools r"
proof -
  have "registry_ok r1 \<and> k < length (Registry_slots r1 w) \<and> \<not> Occupied (Registry_slots r1 w ! k) \<and>
      Registry_reservations r1 = Registry_reservations r \<and> Registry_pools r1 = Registry_pools r"
  proof (cases "first_free (Registry_slots r w)")
    case (Some j)
    with assms(3) have "j = k" "r1 = r" by (simp_all add: with_free_slot_def)
    with assms(1) first_free_Some [OF Some] show ?thesis by simp
  next
    case None
    have new: "k = length (Registry_slots r w)" "r1 = r\<lparr>Registry_slots := (Registry_slots r)(w := Registry_slots r w @
        [(free_slot_at pool now (length (Registry_slots r w)))\<lparr>Slot_WorkerID := w\<rparr>])\<rparr>"
      using assms(3) [symmetric] by (simp_all add: with_free_slot_def None Let_def)
    let ?slot = "(free_slot_at pool now k)\<lparr>Slot_WorkerID := w\<rparr>"
    have slot: "Slot_Ordinal ?slot = int k" "\<not> Occupied ?slot" by (simp_all add: free_slot_at_def Occupied_def)
    have slots: "Registry_slots r1 x = (if x = w then Registry_slots r w @ [?slot] else Registry_slots r x)" for x
      using new by simp
    have out: "outstanding_at r1 = outstanding_at r" using new by (simp add: outstanding_at_def fun_eq_iff)
    have "pools_ok r1" using assms(1,2) new by (auto simp: registry_ok_def pools_ok_def le_Suc_eq)
    moreover have "slots_ok r1"
      using assms(1) slot new(1) unfolding registry_ok_def slots_ok_def out slots by (auto simp: nth_append less_Suc_eq)
    moreover have "reservations_ok r1"
      using assms(1) new unfolding registry_ok_def reservations_ok_def out slots by (auto simp: nth_append less_SucI)
    ultimately show ?thesis using slot slots new by (simp add: registry_ok_def)
  qed
  then show "registry_ok r1" "k < length (Registry_slots r1 w)" "\<not> Occupied (Registry_slots r1 w ! k)"
    "Registry_reservations r1 = Registry_reservations r" "Registry_pools r1 = Registry_pools r" by auto
qed

lemma adopt_ok:
  assumes "registry_ok r" and "adopt now r owner = Inr r'"
  shows "registry_ok r'"
proof (cases "Registry_pools r (Owner_WorkerID owner)")
  case None
  with assms show ?thesis by (auto simp: adopt_def split: if_splits)
next
  case (Some pool)
  let ?w = "Owner_WorkerID owner" and ?i = "Owner_AssignmentID owner"
  obtain k r1 where free: "with_free_slot ?w pool now r = (k, r1)" by (cases "with_free_slot ?w pool now r")
  note r1 = with_free_slot_ok [OF assms(1) Some free]
  define slot where "slot = take_slot ExecutorSlotRunning ?i ?i (next_token r) now (Registry_slots r1 ?w ! k)"
  define v where "v = adopted_reservation owner pool slot now"
  have fresh: "map_of (Registry_reservations r) ?i = None"
    and r': "r' = put_reservation v (set_slot ?w k slot (r1\<lparr>Registry_tokenSequence := next_token r\<rparr>))"
    using assms(2) Some free by (auto simp: adopt_def Let_def slot_def v_def split: if_splits)
  have v: "Resv_ID v = ?i" "Resv_WorkerID v = ?w" "Resv_SlotOrdinal v = int k" "\<not> Released v"
    "Resv_SlotFencingToken v = Slot_FencingToken slot"
    using slot_ordinal [OF r1(1,2)] by (simp_all add: v_def adopted_reservation_def Released_def Let_def slot_def take_slot_def)
  have "slot_holds slot v"
    unfolding slot_def by (rule take_slot_holds) (use v slot_ordinal [OF r1(1,2)] in \<open>simp_all add: slot_def\<close>)
  with r1 fresh v show ?thesis unfolding r' by (intro occupy_ok) auto
qed

lemma Activate_ok:
  assumes "registry_ok r"
  shows "registry_ok (snd (Activate now r i))"
proof (cases "\<exists>v. outstanding_at r i v")
  case False
  then have "snd (Activate now r i) = r" by (auto simp: Activate_def outstanding_at_def split: option.splits)
  with assms show ?thesis by simp
next
  case True
  then obtain v where v: "outstanding_at r i v" by blast
  define u where "u = v\<lparr>Resv_State := ResourceReservationActive, Resv_UpdatedAt := now\<rparr>"
  let ?f = "\<lambda>slot. slot\<lparr>Slot_State := ExecutorSlotRunning, Slot_UpdatedAt := now\<rparr>"
  have u: "Resv_ID u = Resv_ID v" "Resv_WorkerID u = Resv_WorkerID v" "Resv_SlotOrdinal u = Resv_SlotOrdinal v"
    "Resv_SlotFencingToken u = Resv_SlotFencingToken v" "\<not> Released u" by (simp_all add: u_def Released_def)
  note h = held_slot [OF assms v]
  have "snd (Activate now r i) = updateSlotLocked u ?f
      (r\<lparr>Registry_reservations := AList.update i u (Registry_reservations r)\<rparr>)"
    using v by (simp add: Activate_def outstanding_at_def u_def Let_def)
  then show ?thesis
    using h u by (intro replace_ok [OF assms v u(1-3), of "?f (Registry_slots r (Resv_WorkerID v) ! nat (Resv_SlotOrdinal v))"])
      (auto simp: updateSlotLocked_def update_slot_of [OF assms v u(3,4)] slot_holds_def Occupied_def)
qed

lemma Release_outstanding:
  fixes now :: instant
  assumes "registry_ok r" and "outstanding_at r i v" and "ReleaseReason_Valid reason"
  defines "r' \<equiv> snd (Release now r i reason)"
  defines "u \<equiv> v\<lparr>Resv_State := ResourceReservationReleased, Resv_ReleaseReason := reason, Resv_UpdatedAt := now,
    Resv_ReleasedAt := Some now\<rparr>"
  shows "registry_ok r'" "fst (Release now r i reason) = Inr u" "Registry_reservations r' = AList.update i u (Registry_reservations r)"
    "Registry_slots r' = (Registry_slots r)(Resv_WorkerID v := (Registry_slots r (Resv_WorkerID v))
       [nat (Resv_SlotOrdinal v) := freeSlot (Registry_slots r (Resv_WorkerID v) ! nat (Resv_SlotOrdinal v)) now])"
    "Registry_pools r' = Registry_pools r"
proof -
  have rel: "Release now r i reason = (Inr u, (updateSlotLocked v (\<lambda>slot. freeSlot slot now) r)
      \<lparr>Registry_reservations := AList.update i u (Registry_reservations r)\<rparr>)"
    using assms(2,3) by (simp add: Release_def outstanding_at_def u_def Let_def)
  show parts: "fst (Release now r i reason) = Inr u" "Registry_reservations r' = AList.update i u (Registry_reservations r)"
    "Registry_slots r' = (Registry_slots r)(Resv_WorkerID v := (Registry_slots r (Resv_WorkerID v))
       [nat (Resv_SlotOrdinal v) := freeSlot (Registry_slots r (Resv_WorkerID v) ! nat (Resv_SlotOrdinal v)) now])"
    "Registry_pools r' = Registry_pools r"
    by (simp_all add: r'_def rel updateSlotLocked_def update_slot_of [OF assms(1,2) refl refl])
  have u: "Resv_ID u = Resv_ID v" "Resv_WorkerID u = Resv_WorkerID v" "Resv_SlotOrdinal u = Resv_SlotOrdinal v" "Released u"
    by (simp_all add: u_def Released_def)
  show "registry_ok r'"
    using held_slot [OF assms(1,2)] u
    by (intro replace_ok [OF assms(1,2) u(1-3) _ _ parts(4,2,3)]) (auto simp: freeSlot_def Occupied_def slot_holds_def)
qed

lemma Release_refused:
  "\<not> (ReleaseReason_Valid reason \<and> (\<exists>v. outstanding_at r i v)) \<Longrightarrow>
   \<exists>err. Release now r i reason = (Inl err, r)"
  by (auto simp: Release_def outstanding_at_def split: option.splits)

section \<open>Reachable registries\<close>

lemma empty_registry_ok: "registry_ok empty_registry"
  by (simp add: registry_ok_parts empty_registry_def outstanding_at_def)

lemma add_pool_ok:
  assumes "registry_ok r" and "ExecutorPool_Validate pool = None" and "Registry_pools r (Pool_WorkerID pool) = None"
  shows "registry_ok (add_pool now pool r)"
proof -
  let ?w = "Pool_WorkerID pool" and ?r = "add_pool now pool r"
  have none: "Registry_slots r ?w = []" using assms(1,3) by (simp add: registry_ok_def pools_ok_def)
  have out: "outstanding_at ?r = outstanding_at r" by (simp add: outstanding_at_def add_pool_def fun_eq_iff)
  have slots: "Registry_slots ?r x = (if x = ?w then map (free_slot_at pool now) [0..<nat (Alloc_ExecutorSlots (Pool_Allocatable pool))]
      else Registry_slots r x)" for x by (simp add: add_pool_def)
  have "Resv_WorkerID v \<noteq> ?w" if "outstanding_at r i v" for i v
    using held_slot(1) [OF assms(1) that] none by auto
  then have "reservations_ok ?r"
    using assms(1) unfolding registry_ok_def reservations_ok_def out slots by (simp add: add_pool_def)
  moreover have "pools_ok ?r" using assms by (auto simp: registry_ok_def pools_ok_def add_pool_def)
  moreover have "slots_ok ?r"
    using assms(1) unfolding registry_ok_def slots_ok_def out slots by (simp add: free_slot_at_def Occupied_def)
  ultimately show ?thesis by (simp add: registry_ok_def)
qed

lemma add_pools_ok: "registry_ok r \<Longrightarrow> add_pools pools now r = Inr r' \<Longrightarrow> registry_ok r'"
  by (induction pools arbitrary: r) (auto split: option.splits if_splits intro: add_pool_ok)

lemma NewExecutorRegistry_ok: "NewExecutorRegistry pools now = Inr r \<Longrightarrow> registry_ok r"
  unfolding NewExecutorRegistry_def by (rule add_pools_ok [OF empty_registry_ok])

inductive registry_reachable :: "ExecutorRegistry \<Rightarrow> bool" where
  new: "NewExecutorRegistry pools now = Inr r \<Longrightarrow> registry_reachable r"
| reserve: "registry_reachable r \<Longrightarrow> registry_reachable (snd (Reserve iterate now r request))"
| adopt: "registry_reachable r \<Longrightarrow> adopt now r owner = Inr r' \<Longrightarrow> registry_reachable r'"
| activate: "registry_reachable r \<Longrightarrow> registry_reachable (snd (Activate now r i))"
| release: "registry_reachable r \<Longrightarrow> registry_reachable (snd (Release now r i reason))"

lemma Release_ok: "registry_ok r \<Longrightarrow> registry_ok (snd (Release now r i reason))"
  using Release_outstanding(1) [of r i _ reason now] Release_refused [of reason r i now] by fastforce

lemma reachable_registry_ok: "registry_reachable r \<Longrightarrow> registry_ok r"
  by (induction rule: registry_reachable.induct) (auto intro: NewExecutorRegistry_ok Reserve_ok adopt_ok Activate_ok Release_ok)

lemma adopt_all_ok: "registry_ok r \<Longrightarrow> adopt_all now owners r = Inr r' \<Longrightarrow> registry_ok r'"
  by (induction owners arbitrary: r) (auto split: sum.splits intro: adopt_ok)

lemma Rebuild_ok: "RebuildExecutorRegistry pools owners now = Inr r \<Longrightarrow> registry_ok r"
  by (auto simp: RebuildExecutorRegistry_def split: sum.splits intro: adopt_all_ok NewExecutorRegistry_ok)

section \<open>The snapshot of a worker\<close>

text \<open>Go visits every entry of a map once, in an order it leaves open.\<close>

definition map_order :: "iteration \<Rightarrow> bool" where
  "map_order iterate \<longleftrightarrow> (\<forall>entries. mset (iterate entries) = mset entries)"

definition occupied :: "ExecutorRegistry \<Rightarrow> string \<Rightarrow> nat" where
  "occupied r w = length (filter Occupied (Registry_slots r w))"

definition entry_size :: "(ResourceReservation \<Rightarrow> int) \<Rightarrow> string \<Rightarrow> string \<times> ResourceReservation \<Rightarrow> int" where
  "entry_size f w entry = (if Resv_WorkerID (snd entry) \<noteq> w \<or> Released (snd entry) then 0 else f (snd entry))"

definition total :: "(ResourceReservation \<Rightarrow> int) \<Rightarrow> ExecutorRegistry \<Rightarrow> string \<Rightarrow> int" where
  "total f r w = sum_list (map (entry_size f w) (Registry_reservations r))"

lemma wrap64_add: "wrap64 (wrap64 a + b) = wrap64 (a + b)"
proof -
  let ?h = "9223372036854775808 :: int" and ?m = "18446744073709551616 :: int"
  have "(wrap64 a + b + ?h) mod ?m = ((a + ?h) mod ?m + b) mod ?m" by (simp add: wrap64_def)
  also have "\<dots> = (a + ?h + b) mod ?m" by (rule mod_add_left_eq)
  also have "a + ?h + b = a + b + ?h" by simp
  finally show ?thesis by (simp add: wrap64_def [of "wrap64 a + b"] wrap64_def [of "a + b"])
qed

lemma count_slots:
  "0 \<le> Reserved_ExecutorSlots c \<Longrightarrow> Reserved_ExecutorSlots c + int (length slots) \<le> max_int64 \<Longrightarrow>
   fold count_slot slots c = c\<lparr>Reserved_ExecutorSlots := Reserved_ExecutorSlots c + int (length (filter Occupied slots))\<rparr>"
proof (induction slots arbitrary: c)
  case (Cons slot slots)
  show ?case
  proof (cases "Occupied slot")
    case True
    have "in_int64 (Reserved_ExecutorSlots c + 1)" using Cons.prems by (simp add: in_int64_def min_int64_def)
    then have "count_slot slot c = c\<lparr>Reserved_ExecutorSlots := Reserved_ExecutorSlots c + 1\<rparr>"
      using True by (simp add: count_slot_def)
    then show ?thesis using Cons.prems True Cons.IH [of "c\<lparr>Reserved_ExecutorSlots := Reserved_ExecutorSlots c + 1\<rparr>"] by simp
  next
    case False
    then show ?thesis using Cons.prems Cons.IH [of c] by (simp add: count_slot_def)
  qed
qed simp

lemma count_reservations:
  "in_int64 (Reserved_MemoryMB c) \<Longrightarrow> in_int64 (Reserved_ScratchMB c) \<Longrightarrow>
   Reserved_ExecutorSlots (fold (count_reservation w) entries c) = Reserved_ExecutorSlots c \<and>
   Reserved_MemoryMB (fold (count_reservation w) entries c) =
     wrap64 (Reserved_MemoryMB c + sum_list (map (entry_size Resv_MemoryMB w) entries)) \<and>
   Reserved_ScratchMB (fold (count_reservation w) entries c) =
     wrap64 (Reserved_ScratchMB c + sum_list (map (entry_size Resv_ScratchMB w) entries))"
proof (induction entries arbitrary: c)
  case (Cons entry entries)
  let ?c = "count_reservation w entry c"
  have c: "Reserved_ExecutorSlots ?c = Reserved_ExecutorSlots c"
    "Reserved_MemoryMB ?c = wrap64 (Reserved_MemoryMB c + entry_size Resv_MemoryMB w entry)"
    "Reserved_ScratchMB ?c = wrap64 (Reserved_ScratchMB c + entry_size Resv_ScratchMB w entry)"
    using Cons.prems by (simp_all add: count_reservation_def entry_size_def Let_def)
  have "in_int64 (Reserved_MemoryMB ?c)" "in_int64 (Reserved_ScratchMB ?c)" unfolding c by (simp_all add: wrap64_in_int64)
  from Cons.IH [OF this] show ?case unfolding c by (simp add: wrap64_add add.assoc)
qed simp

lemma snapshot_reserved:
  assumes "map_order iterate" and "int (length (Registry_slots r w)) \<le> max_int64"
  shows "Reserved_ExecutorSlots (Capacity_Reserved (snapshotLocked iterate now r w)) = int (occupied r w)"
    "Reserved_MemoryMB (Capacity_Reserved (snapshotLocked iterate now r w)) = wrap64 (total Resv_MemoryMB r w)"
    "Reserved_ScratchMB (Capacity_Reserved (snapshotLocked iterate now r w)) = wrap64 (total Resv_ScratchMB r w)"
proof -
  have slots: "fold count_slot (Registry_slots r w) zero_Reserved =
      zero_Reserved\<lparr>Reserved_ExecutorSlots := int (occupied r w)\<rparr>"
    using count_slots [of zero_Reserved "Registry_slots r w"] assms(2) by (simp add: zero_Reserved_def occupied_def)
  let ?c = "zero_Reserved\<lparr>Reserved_ExecutorSlots := int (occupied r w)\<rparr>"
  have "in_int64 (Reserved_MemoryMB ?c)" "in_int64 (Reserved_ScratchMB ?c)"
    by (simp_all add: zero_Reserved_def in_int64_def max_int64_def min_int64_def)
  note counted = count_reservations [OF this, of w "iterate (Registry_reservations r)"]
  have order: "sum_list (map f (iterate (Registry_reservations r))) = sum_list (map f (Registry_reservations r))" for f :: "_ \<Rightarrow> int"
    using assms(1) unfolding map_order_def by (metis mset_map sum_mset_sum_list)
  have zero: "Reserved_MemoryMB zero_Reserved = 0" "Reserved_ScratchMB zero_Reserved = 0" by (simp_all add: zero_Reserved_def)
  show "Reserved_ExecutorSlots (Capacity_Reserved (snapshotLocked iterate now r w)) = int (occupied r w)"
    using counted by (simp add: snapshotLocked_def slots Let_def)
  show "Reserved_MemoryMB (Capacity_Reserved (snapshotLocked iterate now r w)) = wrap64 (total Resv_MemoryMB r w)"
    using counted by (simp add: snapshotLocked_def slots Let_def order total_def zero)
  show "Reserved_ScratchMB (Capacity_Reserved (snapshotLocked iterate now r w)) = wrap64 (total Resv_ScratchMB r w)"
    using counted by (simp add: snapshotLocked_def slots Let_def order total_def zero)
qed

lemma snapshot_allocatable:
  "Registry_pools r w = Some pool \<Longrightarrow> Capacity_Allocatable (snapshotLocked iterate now r w) = Pool_Allocatable pool"
  by (simp add: snapshotLocked_def Let_def)

lemma occupy_count:
  "k < length slots \<Longrightarrow> \<not> P (slots ! k) \<Longrightarrow> P slot \<Longrightarrow> length (filter P (slots[k := slot])) = Suc (length (filter P slots))"
  by (induction slots arbitrary: k) (auto simp: nth_Cons split: nat.splits)

lemma free_count:
  "k < length slots \<Longrightarrow> P (slots ! k) \<Longrightarrow> \<not> P slot \<Longrightarrow> Suc (length (filter P (slots[k := slot]))) = length (filter P slots)"
  by (induction slots arbitrary: k) (auto simp: nth_Cons split: nat.splits)

text \<open>A size that fits what the snapshot shows as free stays within what is allocatable.\<close>

lemma free_of_bound:
  assumes "0 \<le> need" and "need \<le> free_of allocatable (wrap64 used)" and "0 \<le> wrap64 used" and "0 \<le> allocatable" and "allocatable \<le> max_int64"
  shows "wrap64 (used + need) = wrap64 used + need" "need = 0 \<or> wrap64 (used + need) \<le> allocatable"
proof -
  have u: "in_int64 (wrap64 used)" by (rule wrap64_in_int64)
  then have "in_int64 (allocatable - wrap64 used)"
    using assms(3-5) by (simp add: in_int64_def min_int64_def max_int64_def)
  with assms(1,2) have "need = 0 \<or> wrap64 used + need \<le> allocatable"
    by (auto simp: free_of_def Let_def split: if_splits)
  moreover from this u assms(1,3,5) have "in_int64 (wrap64 used + need)"
    by (auto simp: in_int64_def min_int64_def)
  then have "wrap64 (used + need) = wrap64 used + need" by (metis wrap64_add wrap64_id)
  ultimately show "wrap64 (used + need) = wrap64 used + need" "need = 0 \<or> wrap64 (used + need) \<le> allocatable" by auto
qed

end
