(* ===== verification/RegistryProperties.thy ===== *)
theory RegistryProperties
  imports RegistrySpec
begin

text \<open>
  The properties of executor capacity: slots and reservations match, a reservation never
  exceeds a worker's configured sizes, \<open>Fits\<close> predicts \<open>Reserve\<close>, capacity is returned exactly
  once, and a planning pass has capacity for everything it proposes.
\<close>

abbreviation Candidate_AttemptID :: "PlanningCandidate \<Rightarrow> string" where
  "Candidate_AttemptID c \<equiv> Attempt_ID (Candidate_Attempt c)"

abbreviation Candidate_ResourceDemand :: "PlanningCandidate \<Rightarrow> ResourceDemand" where
  "Candidate_ResourceDemand c \<equiv> Task_ResourceDemand (Candidate_Task c)"

section \<open>One reservation\<close>

text \<open>What a granted reservation changes.\<close>

lemma Reserve_granted:
  assumes "registry_ok r" and "Reserve iterate now r request = (Inr v, r')"
  obtains pool k slot where "Registry_pools r (Resv_WorkerID v) = Some pool" "request_fits iterate now r request pool"
    "Resv_ID v = Req_ReservationID request" "Resv_WorkerID v = Req_WorkerID request" "\<not> Released v"
    "Resv_MemoryMB v = Demand_MemoryMB (GoverningDemand (Req_Demand request) (Pool_Allocatable pool))"
    "Resv_ScratchMB v = Demand_ScratchMB (GoverningDemand (Req_Demand request) (Pool_Allocatable pool))"
    "k < length (Registry_slots r (Resv_WorkerID v))" "\<not> Occupied (Registry_slots r (Resv_WorkerID v) ! k)" "Occupied slot"
    "Registry_slots r' = (Registry_slots r)(Resv_WorkerID v := (Registry_slots r (Resv_WorkerID v))[k := slot])"
    "Registry_pools r' = Registry_pools r" "Registry_reservations r' = Registry_reservations r @ [(Resv_ID v, v)]"
    "ResourceDemand_Validate (Req_Demand request) = None"
proof (rule Reserve_cases [OF assms(1), of iterate now request])
  fix pool k
  assume a: "ReservationRequest_validate request = None"
      "map_of (Registry_reservations r) (Req_ReservationID request) = None"
      "Registry_pools r (Req_WorkerID request) = Some pool" "request_fits iterate now r request pool"
      "k < length (Registry_slots r (Req_WorkerID request))" "\<not> Occupied (Registry_slots r (Req_WorkerID request) ! k)"
      "Reserve iterate now r request =
         commit_reservation request pool (GoverningDemand (Req_Demand request) (Pool_Allocatable pool)) k now r"
  let ?c = "commit_reservation request pool (GoverningDemand (Req_Demand request) (Pool_Allocatable pool)) k now r"
  have c: "fst ?c = Inr v" "snd ?c = r'" using assms(2) unfolding a(7) by simp_all
  show ?thesis
  proof (rule commit_reservation_Inr [OF assms(1) a(1,3,5,6,2), where a = "Pool_Allocatable pool" and now = now])
    fix u
    assume u: "fst ?c = Inr u" "Resv_ID u = Req_ReservationID request" "Resv_WorkerID u = Req_WorkerID request" "\<not> Released u"
      "Resv_MemoryMB u = Demand_MemoryMB (GoverningDemand (Req_Demand request) (Pool_Allocatable pool))"
      "Resv_ScratchMB u = Demand_ScratchMB (GoverningDemand (Req_Demand request) (Pool_Allocatable pool))"
      "Registry_pools (snd ?c) = Registry_pools r"
      "Registry_reservations (snd ?c) = Registry_reservations r @ [(Req_ReservationID request, u)]"
      "\<exists>slot. Occupied slot \<and> Registry_slots (snd ?c) =
         (Registry_slots r)(Req_WorkerID request := (Registry_slots r (Req_WorkerID request))[k := slot])"
    have "u = v" using u(1) c(1) by simp
    obtain slot where slot: "Occupied slot" "Registry_slots r' =
         (Registry_slots r)(Req_WorkerID request := (Registry_slots r (Req_WorkerID request))[k := slot])"
      using u(9) c(2) by blast
    have "ResourceDemand_Validate (Req_Demand request) = None"
      using a(1) by (auto simp: ReservationRequest_validate_def split: if_splits option.splits)
    with a u slot \<open>u = v\<close> c(2) show ?thesis by (intro that [of pool k slot]) simp_all
  qed
next
  fix err
  assume "Reserve iterate now r request = (Inl err, r)"
  with assms(2) show ?thesis by simp
qed

text \<open>A demand without shortfall is one that the reservation grants, and conversely where a slot is free.\<close>

lemma Fits_Nil:
  assumes "registry_ok r" and "map_order iterate" and "int (length (Registry_slots r w)) \<le> max_int64"
    and "Registry_pools r w = Some pool" and "Req_WorkerID request = w"
  shows "Fits iterate now r w (Req_Demand request) = [] \<longleftrightarrow>
    request_fits iterate now r request pool \<and> int (occupied r w) < Alloc_ExecutorSlots (Pool_Allocatable pool)"
proof -
  have floors: "Demand_MinCPUClass (GoverningDemand d a) = Demand_MinCPUClass d" for d a
    by (simp add: GoverningDemand_def Let_def)
  have "nat (Alloc_ExecutorSlots (Pool_Allocatable pool)) \<le> length (Registry_slots r w)"
    "1 \<le> Alloc_ExecutorSlots (Pool_Allocatable pool)"
    using assms(1,4) validated_pool(3) [of pool] by (auto simp: registry_ok_def pools_ok_def)
  moreover have "occupied r w \<le> length (Registry_slots r w)" by (simp add: occupied_def)
  ultimately have "in_int64 (Alloc_ExecutorSlots (Pool_Allocatable pool) - int (occupied r w))"
    using assms(3) by (simp add: in_int64_def min_int64_def max_int64_def)
  then have "FreeSlots (snapshotLocked iterate now r w) < 1 \<longleftrightarrow> \<not> int (occupied r w) < Alloc_ExecutorSlots (Pool_Allocatable pool)"
    using snapshot_reserved(1) [OF assms(2,3)] snapshot_allocatable [OF assms(4)]
    by (auto simp: FreeSlots_def free_of_def Let_def)
  then show ?thesis unfolding Fits_def request_fits_def Let_def using assms(4,5) floors by auto
qed

lemma free_slot_exists:
  assumes "registry_ok r" and "Registry_pools r w = Some pool" and "int (occupied r w) < Alloc_ExecutorSlots (Pool_Allocatable pool)"
  shows "\<exists>slot \<in> set (Registry_slots r w). \<not> Occupied slot"
proof (rule ccontr)
  assume "\<not> ?thesis"
  then have "filter Occupied (Registry_slots r w) = Registry_slots r w" by (simp add: filter_id_conv)
  moreover have "nat (Alloc_ExecutorSlots (Pool_Allocatable pool)) \<le> length (Registry_slots r w)"
    using assms(1,2) by (auto simp: registry_ok_def pools_ok_def)
  ultimately show False using assms(3) by (simp add: occupied_def)
qed

section \<open>Planning sessions\<close>

text \<open>
  The contract between the planner and a capacity session (\<open>PlanningConstraintSession\<close>): the
  planner reserves for a candidate only if \<open>Evaluate\<close> names no blocker, and then the session
  accounts for the candidate from there on. \<open>plan_pass\<close> is the planner's use of one session:
  candidates in order, the unblocked ones proposed.
\<close>

fun plan_pass :: "('s \<Rightarrow> 'c \<Rightarrow> 'b list) \<Rightarrow> ('s \<Rightarrow> 'c \<Rightarrow> 's) \<Rightarrow> 's \<Rightarrow> 'c list \<Rightarrow> 's \<times> 'c list" where
  "plan_pass evaluate reserve s [] = (s, [])"
| "plan_pass evaluate reserve s (c # cs) =
     (if evaluate s c = []
      then (let (s', proposed) = plan_pass evaluate reserve (reserve s c) cs in (s', c # proposed))
      else plan_pass evaluate reserve s cs)"

locale planning_session =
  fixes evaluate :: "'s \<Rightarrow> 'c \<Rightarrow> 'b list"
    and reserve :: "'s \<Rightarrow> 'c \<Rightarrow> 's"
    and valid :: "'s \<Rightarrow> bool"
    and sound :: "'c \<Rightarrow> bool"
    and key :: "'c \<Rightarrow> 'k"
    and used :: "'s \<Rightarrow> 'k set"
    and accounted :: "'s \<Rightarrow> 'c \<Rightarrow> bool"
  assumes keeps_valid: "valid s \<Longrightarrow> valid (reserve s c)"
    and uses: "valid s \<Longrightarrow> used (reserve s c) \<subseteq> insert (key c) (used s)"
    and accounts: "valid s \<Longrightarrow> sound c \<Longrightarrow> key c \<notin> used s \<Longrightarrow> evaluate s c = [] \<Longrightarrow> accounted (reserve s c) c"
    and keeps_accounted: "valid s \<Longrightarrow> accounted s c \<Longrightarrow> accounted (reserve s d) c"
begin

lemma pass_keeps:
  "valid s \<Longrightarrow> plan_pass evaluate reserve s cs = (s', proposed) \<Longrightarrow> valid s' \<and> (accounted s c \<longrightarrow> accounted s' c)"
proof (induction cs arbitrary: s proposed)
  case (Cons d cs)
  show ?case
  proof (cases "evaluate s d = []")
    case True
    with Cons.prems(2) obtain rest where "plan_pass evaluate reserve (reserve s d) cs = (s', rest)"
      by (auto simp: Let_def split: prod.splits)
    from Cons.IH [OF keeps_valid [OF Cons.prems(1)] this] keeps_accounted [OF Cons.prems(1)] show ?thesis by blast
  next
    case False
    with Cons show ?thesis by simp
  qed
qed simp

lemma pass_accounts:
  assumes "valid s" and "plan_pass evaluate reserve s cs = (s', proposed)"
    and "\<forall>c \<in> set cs. sound c" and "distinct (map key cs)" and "key ` set cs \<inter> used s = {}"
  shows "\<forall>c \<in> set proposed. accounted s' c"
  using assms
proof (induction cs arbitrary: s proposed)
  case (Cons d cs)
  show ?case
  proof (cases "evaluate s d = []")
    case True
    with Cons.prems(2) obtain rest where rest: "plan_pass evaluate reserve (reserve s d) cs = (s', rest)" "proposed = d # rest"
      by (auto simp: Let_def split: prod.splits)
    have "accounted (reserve s d) d" using Cons.prems True by (intro accounts) auto
    with pass_keeps [OF keeps_valid [OF Cons.prems(1)] rest(1)] have "accounted s' d" by blast
    moreover have "\<forall>c \<in> set rest. accounted s' c"
    proof (rule Cons.IH [OF keeps_valid [OF Cons.prems(1)] rest(1)])
      have new: "key d \<notin> key ` set cs" "key ` set cs \<inter> used s = {}" using Cons.prems(4,5) by auto
      have "key ` set cs \<inter> used (reserve s d) \<subseteq> key ` set cs \<inter> insert (key d) (used s)"
        using uses [OF Cons.prems(1)] by (rule Int_mono [OF subset_refl])
      also have "\<dots> = {}" using new by simp
      finally show "key ` set cs \<inter> used (reserve s d) = {}" by simp
    qed (use Cons.prems in simp_all)
    ultimately show ?thesis using rest(2) by simp
  next
    case False
    with Cons show ?thesis by simp
  qed
qed simp

end

text \<open>
  The capacity session keeps that contract: a proposed candidate on a governed worker holds a
  reservation there. A failed session proposes nothing on a governed worker.
\<close>

definition slices_fit :: "ExecutorRegistry \<Rightarrow> bool" where
  "slices_fit r \<longleftrightarrow> (\<forall>w. int (length (Registry_slots r w)) \<le> max_int64)"

fun session_valid :: "capacitySession \<Rightarrow> bool" where
  "session_valid (SessionRegistry r) \<longleftrightarrow> registry_ok r \<and> slices_fit r"
| "session_valid (SessionFailure err pools) \<longleftrightarrow> True"

definition candidate_sound :: "PlanningCandidate \<Rightarrow> bool" where
  "candidate_sound c \<longleftrightarrow> ReservationRequest_validate (candidate_request c) = None"

fun session_used :: "capacitySession \<Rightarrow> string set" where
  "session_used (SessionRegistry r) = dom (map_of (Registry_reservations r))"
| "session_used (SessionFailure err pools) = {}"

fun session_accounts :: "capacitySession \<Rightarrow> PlanningCandidate \<Rightarrow> bool" where
  "session_accounts (SessionRegistry r) c \<longleftrightarrow> Governs r (Candidate_WorkerID c) \<longrightarrow>
     (\<exists>v. outstanding_at r (Candidate_AttemptID c) v \<and> Resv_WorkerID v = Candidate_WorkerID c)"
| "session_accounts (SessionFailure err pools) c \<longleftrightarrow> Candidate_WorkerID c \<notin> Pool_WorkerID ` set pools"

lemma Reserve_frame:
  assumes "registry_ok r"
  shows "slices_fit r \<Longrightarrow> slices_fit (snd (Reserve iterate now r request))"
    "Registry_pools (snd (Reserve iterate now r request)) = Registry_pools r"
    "outstanding_at r i v \<Longrightarrow> outstanding_at (snd (Reserve iterate now r request)) i v"
    "dom (map_of (Registry_reservations (snd (Reserve iterate now r request)))) \<subseteq>
       insert (Req_ReservationID request) (dom (map_of (Registry_reservations r)))"
proof -
  let ?r' = "snd (Reserve iterate now r request)"
  have "(slices_fit r \<longrightarrow> slices_fit ?r') \<and> Registry_pools ?r' = Registry_pools r \<and> (outstanding_at r i v \<longrightarrow> outstanding_at ?r' i v) \<and>
    dom (map_of (Registry_reservations ?r')) \<subseteq> insert (Req_ReservationID request) (dom (map_of (Registry_reservations r)))"
  proof (cases "fst (Reserve iterate now r request)")
    case (Inl err)
    then have "?r' = r"
    proof (cases rule: Reserve_cases [OF assms, of iterate now request, case_names refused granted])
      case (granted pool k)
      from commit_reservation_Inr [OF assms granted(1,3,5,6,2), where a = "Pool_Allocatable pool" and now = now]
      have False using Inl unfolding granted(7) by (metis Inl_Inr_False)
      then show ?thesis ..
    qed simp
    then show ?thesis by auto
  next
    case (Inr v')
    then have "Reserve iterate now r request = (Inr v', ?r')" by (metis prod.collapse)
    then show ?thesis
    proof (rule Reserve_granted [OF assms])
      fix pool k slot
      assume g: "Resv_ID v' = Req_ReservationID request" "Registry_pools ?r' = Registry_pools r"
        "Registry_slots ?r' = (Registry_slots r)(Resv_WorkerID v' := (Registry_slots r (Resv_WorkerID v'))[k := slot])"
        "Registry_reservations ?r' = Registry_reservations r @ [(Resv_ID v', v')]"
      then show ?thesis by (auto simp: slices_fit_def outstanding_at_def map_add_Some_iff)
    qed
  qed
  then show "slices_fit r \<Longrightarrow> slices_fit ?r'" "Registry_pools ?r' = Registry_pools r"
    "outstanding_at r i v \<Longrightarrow> outstanding_at ?r' i v"
    "dom (map_of (Registry_reservations ?r')) \<subseteq> insert (Req_ReservationID request) (dom (map_of (Registry_reservations r)))"
    by blast+
qed

lemma Reserve_fitting:
  assumes "registry_ok r" and "map_order iterate" and "int (length (Registry_slots r w)) \<le> max_int64"
    and "Registry_pools r w = Some pool" and "Req_WorkerID request = w"
    and "ReservationRequest_validate request = None" and "map_of (Registry_reservations r) (Req_ReservationID request) = None"
    and "Fits iterate now r w (Req_Demand request) = []"
  obtains v r' where "Reserve iterate now r request = (Inr v, r')"
proof -
  have fits: "request_fits iterate now r request pool" and slot: "\<exists>slot \<in> set (Registry_slots r w). \<not> Occupied slot"
    using Fits_Nil [OF assms(1-5), of now] assms(8) free_slot_exists [OF assms(1,4)] by auto
  show ?thesis
  proof (cases rule: Reserve_cases [OF assms(1), of iterate now request, case_names refused granted])
    case refused
    with assms fits slot show ?thesis by blast
  next
    case (granted pool' k)
    show ?thesis
    proof (rule commit_reservation_Inr [OF assms(1) granted(1,3,5,6,2), where a = "Pool_Allocatable pool'" and now = now])
      fix v
      assume "fst (commit_reservation request pool' (GoverningDemand (Req_Demand request) (Pool_Allocatable pool')) k now r) = Inr v"
      then show ?thesis using that unfolding granted(7) by (metis prod.collapse)
    qed
  qed
qed

lemma session_accounts_new:
  assumes "map_order iterate" and "session_valid s" and "candidate_sound c" and "Candidate_AttemptID c \<notin> session_used s"
    and "session_Evaluate iterate now s c = []"
  shows "session_accounts (session_Reserve iterate now s c) c"
proof (cases s)
  case (SessionFailure err pools)
  with assms(5) show ?thesis by (auto simp: list_ex_eq split: if_splits)
next
  case (SessionRegistry r)
  show ?thesis
  proof (cases "Governs r (Candidate_WorkerID c)")
    case False
    with SessionRegistry show ?thesis by simp
  next
    case True
    then obtain pool where pool: "Registry_pools r (Candidate_WorkerID c) = Some pool" by (auto simp: Governs_def)
    have ok: "registry_ok r" "int (length (Registry_slots r (Candidate_WorkerID c))) \<le> max_int64"
      using assms(2) SessionRegistry by (simp_all add: slices_fit_def)
    have sel: "Req_WorkerID (candidate_request c) = Candidate_WorkerID c" "Req_ReservationID (candidate_request c) = Candidate_AttemptID c"
      "Req_Demand (candidate_request c) = Candidate_ResourceDemand c" by (simp_all add: candidate_request_def)
    have fits: "Fits iterate now r (Candidate_WorkerID c) (Req_Demand (candidate_request c)) = []"
      using assms(5) SessionRegistry sel(3) by simp
    have fresh: "map_of (Registry_reservations r) (Req_ReservationID (candidate_request c)) = None"
      using assms(4) SessionRegistry sel(2) by auto
    obtain v r' where g: "Reserve iterate now r (candidate_request c) = (Inr v, r')"
      using Reserve_fitting [OF ok(1) assms(1) ok(2) pool sel(1) _ fresh fits] assms(3) by (auto simp: candidate_sound_def)
    have "outstanding_at r' (Candidate_AttemptID c) v \<and> Resv_WorkerID v = Candidate_WorkerID c"
    proof (rule Reserve_granted [OF ok(1) g])
      assume "Resv_ID v = Req_ReservationID (candidate_request c)" "Resv_WorkerID v = Req_WorkerID (candidate_request c)" "\<not> Released v"
        "Registry_reservations r' = Registry_reservations r @ [(Resv_ID v, v)]"
      with fresh sel show ?thesis by (simp add: outstanding_at_def map_add_Some_iff)
    qed
    with True SessionRegistry g show ?thesis by auto
  qed
qed

lemma capacity_planning_session:
  assumes "map_order iterate"
  shows "planning_session (session_Evaluate iterate now) (session_Reserve iterate now) session_valid candidate_sound
    Candidate_AttemptID session_used session_accounts"
proof
  fix s c d
  assume v: "session_valid s"
  show "session_valid (session_Reserve iterate now s c)"
    using v by (cases s) (auto intro: Reserve_ok Reserve_frame(1))
  show "session_used (session_Reserve iterate now s c) \<subseteq> insert (Candidate_AttemptID c) (session_used s)"
    using v Reserve_frame(4) [of _ iterate now "candidate_request c"] by (cases s) (auto simp: candidate_request_def)
  show "candidate_sound c \<Longrightarrow> Candidate_AttemptID c \<notin> session_used s \<Longrightarrow> session_Evaluate iterate now s c = [] \<Longrightarrow>
      session_accounts (session_Reserve iterate now s c) c"
    by (rule session_accounts_new [OF assms v])
  show "session_accounts s c \<Longrightarrow> session_accounts (session_Reserve iterate now s d) c"
  proof (cases s)
    case (SessionRegistry r)
    then have ok: "registry_ok r" using v by simp
    assume "session_accounts s c"
    with SessionRegistry Reserve_frame(2,3) [OF ok, where iterate = iterate and now = now and request = "candidate_request d"] show ?thesis
      by (simp add: Governs_def) blast
  qed simp
qed

interpretation listed_session: planning_session "session_Evaluate (\<lambda>entries. entries) now" "session_Reserve (\<lambda>entries. entries) now"
  session_valid candidate_sound Candidate_AttemptID session_used session_accounts for now
  by (rule capacity_planning_session) (simp add: map_order_def)

section \<open>Sample registry\<close>

definition example_pool :: ExecutorPool where
  "example_pool =
     \<lparr>Pool_WorkerID = ''w1'', Pool_Name = ''default'', Pool_CatalogRevision = '''', Pool_CPUClass = CPUClassLow,
      Pool_Allocatable = \<lparr>Alloc_ExecutorSlots = 1, Alloc_CPUUnits = Fin 0, Alloc_MemoryMB = 1000, Alloc_ScratchMB = 0\<rparr>\<rparr>"

definition example_demand :: "int \<Rightarrow> ResourceDemand" where
  "example_demand memory =
     \<lparr>Demand_MinCPUClass = CPUClassEmpty, Demand_PreferredCPUClass = CPUClassEmpty, Demand_CPUUnits = Fin 0,
      Demand_MemoryMB = memory, Demand_ScratchMB = 0\<rparr>"

definition example_candidate :: "string \<Rightarrow> int \<Rightarrow> PlanningCandidate" where
  "example_candidate i memory =
     \<lparr>Candidate_WorkflowRunID = ''run'', Candidate_Task = zero_Task\<lparr>Task_ResourceDemand := example_demand memory\<rparr>,
      Candidate_Attempt = zero_Attempt\<lparr>Attempt_ID := i\<rparr>, Candidate_WorkerID = ''w1'', Candidate_RouteOrdinal = 0,
      Candidate_Route = None, Candidate_Estimate = None\<rparr>"

definition example_owner :: "string \<Rightarrow> CapacityOwner" where
  "example_owner i = \<lparr>Owner_AssignmentID = i, Owner_AttemptID = i, Owner_WorkerID = ''w1'', Owner_Demand = example_demand 400\<rparr>"

definition example_registry :: ExecutorRegistry where
  "example_registry = add_pool 1 example_pool empty_registry"

lemma example_new: "NewExecutorRegistry [example_pool] 1 = Inr example_registry"
  by (simp add: NewExecutorRegistry_def example_registry_def example_pool_def ExecutorPool_Validate_def trim_space_graphic graphic_def
      CPUClass_Validate_def CPUClass_Valid_def AllocatableCapacity_Validate_def empty_registry_def Let_def)

lemma example_sound:
  "i \<noteq> [] \<Longrightarrow> graphic (hd i) \<Longrightarrow> graphic (last i) \<Longrightarrow> 0 \<le> memory \<Longrightarrow>
   ReservationRequest_validate (candidate_request (example_candidate i memory)) = None"
  by (simp add: ReservationRequest_validate_def candidate_request_def example_candidate_def example_demand_def trim_space_graphic
      blank_def graphic_def ResourceDemand_Validate_def CPUClass_Validate_def)

lemma free_cpu_nonneg: "\<not> f_lt (FreeCPUUnits s) (Fin 0)"
proof
  assume "f_lt (FreeCPUUnits s) (Fin 0)"
  then have "f_lt (FreeCPUUnits s) (Fin 0)" "f_lt (Fin 0) (FreeCPUUnits s)"
    by (auto simp: FreeCPUUnits_def Let_def split: if_splits)
  from f_lt_not_le [OF this(1)] f_lt_le [OF this(2)] show False by blast
qed

lemma example_ok: "registry_ok example_registry"
  by (rule NewExecutorRegistry_ok [OF example_new])

definition in_order :: iteration where
  "in_order entries = entries"

lemma map_order_in_order: "map_order in_order"
  by (simp add: map_order_def in_order_def)

lemma example_fits: "Fits in_order now example_registry ''w1'' (example_demand 600) = []"
  by (simp add: Fits_def example_registry_def add_pool_def example_pool_def empty_registry_def example_demand_def GoverningDemand_def
      below_class_def free_cpu_nonneg in_order_def snapshotLocked_def FreeSlots_def FreeMemoryMB_def FreeScratchMB_def free_of_def
      count_slot_def free_slot_at_def Occupied_def zero_Reserved_def wrap64_def Let_def)

lemma example_slots: "length (Registry_slots example_registry ''w1'') = 1" "Registry_pools example_registry ''w1'' = Some example_pool"
  "Registry_reservations example_registry = []" "slices_fit example_registry"
  by (simp_all add: example_registry_def add_pool_def empty_registry_def example_pool_def slices_fit_def max_int64_def)

abbreviation example_request :: ReservationRequest where
  "example_request \<equiv> candidate_request (example_candidate ''a1'' 600)"

lemma example_request_sel:
  "Req_WorkerID example_request = ''w1''" "Req_ReservationID example_request = ''a1''" "Req_Demand example_request = example_demand 600"
  by (simp_all add: candidate_request_def example_candidate_def)

lemma example_request_sound: "ReservationRequest_validate example_request = None"
  by (rule example_sound) (simp_all add: graphic_def)

lemma example_reserved:
  obtains v r' where "Reserve in_order 2 example_registry example_request = (Inr v, r')" "outstanding_at r' ''a1'' v" "Resv_WorkerID v = ''w1''"
proof -
  have len: "int (length (Registry_slots example_registry ''w1'')) \<le> max_int64" by (simp add: example_slots max_int64_def)
  have fresh: "map_of (Registry_reservations example_registry) (Req_ReservationID example_request) = None" by (simp add: example_slots)
  have fits: "Fits in_order 2 example_registry ''w1'' (Req_Demand example_request) = []" unfolding example_request_sel by (rule example_fits)
  obtain v r' where g: "Reserve in_order 2 example_registry example_request = (Inr v, r')"
    by (rule Reserve_fitting [OF example_ok map_order_in_order len example_slots(2) example_request_sel(1) example_request_sound fresh fits])
  have "outstanding_at r' ''a1'' v \<and> Resv_WorkerID v = ''w1''"
    by (rule Reserve_granted [OF example_ok g]) (simp add: outstanding_at_def example_slots(3) example_request_sel(1,2))
  with g that show ?thesis by blast
qed

lemma pass_registry:
  "plan_pass (session_Evaluate iterate now) (session_Reserve iterate now) (SessionRegistry r) cs = (s', proposed) \<Longrightarrow>
   \<exists>r'. s' = SessionRegistry r'"
  by (induction cs arbitrary: r proposed) (auto simp: Let_def split: if_splits prod.splits)

lemma sum_update:
  fixes g :: "'b \<Rightarrow> int"
  shows "distinct (map fst al) \<Longrightarrow> (k, v) \<in> set al \<Longrightarrow>
    sum_list (map h (AList.update k u al)) = sum_list (map h al) - h (k, v) + (h (k, u) :: int)"
  by (induction al) (auto simp: image_iff)

section \<open>Properties\<close>

text \<open>
  C37. Slots and reservations of a registry match: in every registry that the operations can
  reach, a slot is occupied exactly when one outstanding reservation names it, and every
  outstanding reservation has its slot, with the reservation's identity and fencing token.
\<close>

theorem slots_match_reservations:
  assumes "registry_reachable r"
  shows "(\<forall>w k. k < length (Registry_slots r w) \<longrightarrow> (Occupied (Registry_slots r w ! k) \<longleftrightarrow>
            (\<exists>!i. \<exists>v. outstanding_at r i v \<and> Resv_WorkerID v = w \<and> Resv_SlotOrdinal v = int k))) \<and>
         (\<forall>i v. outstanding_at r i v \<longrightarrow> nat (Resv_SlotOrdinal v) < length (Registry_slots r (Resv_WorkerID v)) \<and>
            Slot_ReservationID (Registry_slots r (Resv_WorkerID v) ! nat (Resv_SlotOrdinal v)) = i \<and>
            Slot_FencingToken (Registry_slots r (Resv_WorkerID v) ! nat (Resv_SlotOrdinal v)) = Resv_SlotFencingToken v)"
proof (intro conjI allI impI)
  note ok = reachable_registry_ok [OF assms]
  fix w k
  assume k: "k < length (Registry_slots r w)"
  let ?names = "\<lambda>i. \<exists>v. outstanding_at r i v \<and> Resv_WorkerID v = w \<and> Resv_SlotOrdinal v = int k"
  show "Occupied (Registry_slots r w ! k) \<longleftrightarrow> (\<exists>!i. ?names i)"
  proof
    assume "Occupied (Registry_slots r w ! k)"
    then obtain v where v: "outstanding_at r (Slot_ReservationID (Registry_slots r w ! k)) v" "Resv_WorkerID v = w"
      "slot_holds (Registry_slots r w ! k) v" by (rule slot_holder [OF ok k])
    then have ordinal: "Resv_SlotOrdinal v = int k" using slot_ordinal [OF ok k] by (simp add: slot_holds_def)
    show "\<exists>!i. ?names i"
    proof (rule ex1I)
      show "?names (Slot_ReservationID (Registry_slots r w ! k))" using v ordinal by blast
      show "i = Slot_ReservationID (Registry_slots r w ! k)" if "?names i" for i
        using that holders_inj [OF ok _ v(1)] v(2) ordinal by metis
    qed
  next
    assume "\<exists>!i. ?names i"
    then obtain i v where "outstanding_at r i v" "Resv_WorkerID v = w" "Resv_SlotOrdinal v = int k" by blast
    with held_slot [OF ok this(1)] show "Occupied (Registry_slots r w ! k)" by (simp add: slot_holds_def)
  qed
next
  fix i v
  assume "outstanding_at r i v"
  note h = held_slot [OF reachable_registry_ok [OF assms] this]
  from h show "nat (Resv_SlotOrdinal v) < length (Registry_slots r (Resv_WorkerID v))"
    "Slot_ReservationID (Registry_slots r (Resv_WorkerID v) ! nat (Resv_SlotOrdinal v)) = i"
    "Slot_FencingToken (Registry_slots r (Resv_WorkerID v) ! nat (Resv_SlotOrdinal v)) = Resv_SlotFencingToken v"
    by (simp_all add: slot_holds_def)
qed

theorem slots_match_reservations_witness:
  "Occupied (Registry_slots example_registry ''w1'' ! 0) \<longleftrightarrow>
     (\<exists>!i. \<exists>v. outstanding_at example_registry i v \<and> Resv_WorkerID v = ''w1'' \<and> Resv_SlotOrdinal v = int 0)"
  using slots_match_reservations [OF registry_reachable.new [OF example_new]] example_slots(1) by simp

text \<open>
  A reservation stays within the configured sizes: it occupies one more slot, adds its
  memory and scratch to what the worker has reserved, and where it asks for any of a size the
  new total is at most what is allocatable; no other worker's numbers change. (The total before
  must not have overflowed, and a slice has at most \<open>max_int64\<close> elements.)
\<close>

theorem reserve_within_capacity:
  assumes "registry_reachable r" and "map_order iterate" and "int (length (Registry_slots r (Resv_WorkerID v))) \<le> max_int64"
    and "Reserve iterate now r request = (Inr v, r')"
    and "Registry_pools r (Resv_WorkerID v) = Some pool"
    and "in_int64 (Alloc_MemoryMB (Pool_Allocatable pool))" and "in_int64 (Alloc_ScratchMB (Pool_Allocatable pool))"
    and "0 \<le> Reserved_MemoryMB (Capacity_Reserved (snapshotLocked iterate now r (Resv_WorkerID v)))"
    and "0 \<le> Reserved_ScratchMB (Capacity_Reserved (snapshotLocked iterate now r (Resv_WorkerID v)))"
  defines "before \<equiv> Capacity_Reserved (snapshotLocked iterate now r (Resv_WorkerID v))"
  defines "after \<equiv> Capacity_Reserved (snapshotLocked iterate now r' (Resv_WorkerID v))"
  shows "Reserved_ExecutorSlots after = Reserved_ExecutorSlots before + 1 \<and>
    Reserved_MemoryMB after = Reserved_MemoryMB before + Resv_MemoryMB v \<and>
    (Resv_MemoryMB v = 0 \<or> Reserved_MemoryMB after \<le> Alloc_MemoryMB (Pool_Allocatable pool)) \<and>
    Reserved_ScratchMB after = Reserved_ScratchMB before + Resv_ScratchMB v \<and>
    (Resv_ScratchMB v = 0 \<or> Reserved_ScratchMB after \<le> Alloc_ScratchMB (Pool_Allocatable pool)) \<and>
    (\<forall>w. w \<noteq> Resv_WorkerID v \<longrightarrow> occupied r' w = occupied r w \<and> total f r' w = total f r w)"
proof (rule Reserve_granted [OF reachable_registry_ok [OF assms(1)] assms(4)])
  fix pool' :: ExecutorPool and k slot
  let ?w = "Resv_WorkerID v" and ?d = "GoverningDemand (Req_Demand request) (Pool_Allocatable pool')"
  assume g: "Registry_pools r ?w = Some pool'" "request_fits iterate now r request pool'"
    "Resv_WorkerID v = Req_WorkerID request" "\<not> Released v"
    "Resv_MemoryMB v = Demand_MemoryMB ?d" "Resv_ScratchMB v = Demand_ScratchMB ?d" "k < length (Registry_slots r ?w)" "\<not> Occupied (Registry_slots r ?w ! k)" "Occupied slot"
    "Registry_slots r' = (Registry_slots r)(?w := (Registry_slots r ?w)[k := slot])"
    "Registry_reservations r' = Registry_reservations r @ [(Resv_ID v, v)]"
    "ResourceDemand_Validate (Req_Demand request) = None"
  have p: "pool' = pool" using g(1) assms(5) by simp
  have len: "int (length (Registry_slots r' ?w)) \<le> max_int64" using assms(3) g(10) by simp
  note b = snapshot_reserved [OF assms(2,3), of now] and a = snapshot_reserved [OF assms(2) len, of now]
  have occ: "occupied r' ?w = Suc (occupied r ?w)" using occupy_count [OF g(7,8,9)] g(10) by (simp add: occupied_def)
  have sum: "total h r' ?w = total h r ?w + h v" for h
    using g(4,11) by (simp add: total_def entry_size_def)
  note alloc = validated_pool(4,5) [OF registry_ok_pool [OF reachable_registry_ok [OF assms(1)] assms(5)]]
  have sizes: "0 \<le> Resv_MemoryMB v" "0 \<le> Resv_ScratchMB v" using GoverningDemand_sizes [OF g(12)] g(5,6) by simp_all
  have "Resv_MemoryMB v \<le> free_of (Alloc_MemoryMB (Pool_Allocatable pool)) (wrap64 (total Resv_MemoryMB r ?w))"
    "Resv_ScratchMB v \<le> free_of (Alloc_ScratchMB (Pool_Allocatable pool)) (wrap64 (total Resv_ScratchMB r ?w))"
    using g(2,3,5,6) p b(2,3) snapshot_allocatable [OF assms(5), of iterate now]
    by (simp_all add: request_fits_def Let_def FreeMemoryMB_def FreeScratchMB_def)
  with sizes alloc assms(6-9) b(2,3)
  have bound: "wrap64 (total Resv_MemoryMB r ?w + Resv_MemoryMB v) = wrap64 (total Resv_MemoryMB r ?w) + Resv_MemoryMB v"
    "Resv_MemoryMB v = 0 \<or> wrap64 (total Resv_MemoryMB r ?w + Resv_MemoryMB v) \<le> Alloc_MemoryMB (Pool_Allocatable pool)"
    "wrap64 (total Resv_ScratchMB r ?w + Resv_ScratchMB v) = wrap64 (total Resv_ScratchMB r ?w) + Resv_ScratchMB v"
    "Resv_ScratchMB v = 0 \<or> wrap64 (total Resv_ScratchMB r ?w + Resv_ScratchMB v) \<le> Alloc_ScratchMB (Pool_Allocatable pool)"
    using free_of_bound [of "Resv_MemoryMB v" "Alloc_MemoryMB (Pool_Allocatable pool)" "total Resv_MemoryMB r ?w"]
      free_of_bound [of "Resv_ScratchMB v" "Alloc_ScratchMB (Pool_Allocatable pool)" "total Resv_ScratchMB r ?w"]
    by (auto simp: in_int64_def)
  show ?thesis
    unfolding before_def after_def a b occ sum using bound g(10,11)
    by (auto simp: occupied_def total_def entry_size_def)
qed

theorem reserve_within_capacity_witness:
  "\<exists>v r'. Reserve in_order 2 example_registry example_request = (Inr v, r') \<and>
     Reserved_ExecutorSlots (Capacity_Reserved (snapshotLocked in_order 2 r' ''w1'')) =
     Reserved_ExecutorSlots (Capacity_Reserved (snapshotLocked in_order 2 example_registry ''w1'')) + 1"
proof -
  obtain v r' where g: "Reserve in_order 2 example_registry example_request = (Inr v, r')" "Resv_WorkerID v = ''w1''"
    by (rule example_reserved)
  have zero: "Reserved_MemoryMB (Capacity_Reserved (snapshotLocked in_order 2 example_registry ''w1'')) = 0"
    "Reserved_ScratchMB (Capacity_Reserved (snapshotLocked in_order 2 example_registry ''w1'')) = 0" by code_simp+
  have "in_int64 (Alloc_MemoryMB (Pool_Allocatable example_pool))" "in_int64 (Alloc_ScratchMB (Pool_Allocatable example_pool))"
    by (simp_all add: example_pool_def in_int64_def min_int64_def max_int64_def)
  from reserve_within_capacity [OF registry_reachable.new [OF example_new] map_order_in_order _ g(1) _ this] g zero example_slots
  show ?thesis by (auto simp: max_int64_def)
qed

text \<open>
  \<open>Fits\<close> predicts \<open>Reserve\<close>: a well-formed request with a new identity on a governed worker
  is granted whenever \<open>Fits\<close> names no shortfall, and as long as the worker has exactly its
  configured slots it is granted only then.
\<close>

theorem fits_predicts_reserve:
  assumes "registry_reachable r" and "map_order iterate" and "int (length (Registry_slots r w)) \<le> max_int64"
    and "Registry_pools r w = Some pool" and "Req_WorkerID request = w" and "ReservationRequest_validate request = None"
    and "map_of (Registry_reservations r) (Req_ReservationID request) = None"
  shows "(Fits iterate now r w (Req_Demand request) = [] \<longrightarrow> (\<exists>v r'. Reserve iterate now r request = (Inr v, r'))) \<and>
    (int (length (Registry_slots r w)) = Alloc_ExecutorSlots (Pool_Allocatable pool) \<longrightarrow>
     (\<exists>v r'. Reserve iterate now r request = (Inr v, r')) \<longrightarrow> Fits iterate now r w (Req_Demand request) = [])"
proof (intro conjI impI)
  note ok = reachable_registry_ok [OF assms(1)]
  show "\<exists>v r'. Reserve iterate now r request = (Inr v, r')" if "Fits iterate now r w (Req_Demand request) = []"
    using Reserve_fitting [OF ok assms(2-7) that] by blast
  assume len: "int (length (Registry_slots r w)) = Alloc_ExecutorSlots (Pool_Allocatable pool)"
    and "\<exists>v r'. Reserve iterate now r request = (Inr v, r')"
  then obtain v r' where "Reserve iterate now r request = (Inr v, r')" by blast
  then show "Fits iterate now r w (Req_Demand request) = []"
  proof (rule Reserve_granted [OF ok])
    fix pool' k
    assume g: "Registry_pools r (Resv_WorkerID v) = Some pool'" "request_fits iterate now r request pool'"
      "Resv_WorkerID v = Req_WorkerID request" "k < length (Registry_slots r (Resv_WorkerID v))"
      "\<not> Occupied (Registry_slots r (Resv_WorkerID v) ! k)"
    have "occupied r w < length (Registry_slots r w)"
      using g(3-5) assms(5) unfolding occupied_def by (intro length_filter_less [of "Registry_slots r w ! k"]) auto
    with len g(1-3) assms(4,5) show ?thesis by (simp add: Fits_Nil [OF ok assms(2-5)])
  qed
qed

theorem fits_predicts_reserve_witness:
  "\<exists>v r'. Reserve in_order 2 example_registry example_request = (Inr v, r')"
proof -
  have len: "int (length (Registry_slots example_registry ''w1'')) \<le> max_int64" by (simp add: example_slots max_int64_def)
  have fresh: "map_of (Registry_reservations example_registry) (Req_ReservationID example_request) = None" by (simp add: example_slots)
  from fits_predicts_reserve [OF registry_reachable.new [OF example_new] map_order_in_order len example_slots(2) example_request_sel(1)
      example_request_sound fresh, of 2] example_fits [of 2] example_request_sel(3)
  show ?thesis by simp
qed

text \<open>
  Capacity is returned exactly once: releasing an outstanding reservation frees its slot and
  gives back its sizes, and a second release, whatever its reason, is refused and changes
  nothing.
\<close>

theorem release_returns_capacity_once:
  assumes "registry_reachable r" and "outstanding_at r i v" and "ReleaseReason_Valid reason"
    and "Release now r i reason = (result, r')"
  shows "(\<exists>u. result = Inr u \<and> Released u) \<and> occupied r (Resv_WorkerID v) = Suc (occupied r' (Resv_WorkerID v)) \<and>
    total f r' (Resv_WorkerID v) = total f r (Resv_WorkerID v) - f v \<and> (\<nexists>u. outstanding_at r' i u) \<and>
    (\<exists>err. Release later r' i reason' = (Inl err, r'))"
proof -
  note ok = reachable_registry_ok [OF assms(1)]
  let ?w = "Resv_WorkerID v"
  define u where "u = v\<lparr>Resv_State := ResourceReservationReleased, Resv_ReleaseReason := reason, Resv_UpdatedAt := now,
    Resv_ReleasedAt := Some now\<rparr>"
  have r': "result = Inr u" "Registry_reservations r' = AList.update i u (Registry_reservations r)"
    "Registry_slots r' = (Registry_slots r)(?w := (Registry_slots r ?w)
       [nat (Resv_SlotOrdinal v) := freeSlot (Registry_slots r ?w ! nat (Resv_SlotOrdinal v)) now])"
    using Release_outstanding [OF ok assms(2,3), of now] assms(4) by (simp_all add: u_def)
  have u: "Released u" "Resv_WorkerID u = ?w" by (simp_all add: u_def Released_def)
  note h = held_slot [OF ok assms(2)]
  have "occupied r ?w = Suc (occupied r' ?w)"
    using free_count [of "nat (Resv_SlotOrdinal v)" "Registry_slots r ?w" Occupied "freeSlot (Registry_slots r ?w ! nat (Resv_SlotOrdinal v)) now"] h r'(3)
    by (simp add: occupied_def slot_holds_def freeSlot_def Occupied_def)
  moreover have "total f r' ?w = total f r ?w - f v"
  proof -
    have "distinct (map fst (Registry_reservations r))" using ok by (simp add: registry_ok_def reservations_ok_def)
    moreover have "(i, v) \<in> set (Registry_reservations r)" using assms(2) by (intro map_of_SomeD) (simp add: outstanding_at_def)
    ultimately show ?thesis using assms(2) u by (simp add: total_def r'(2) sum_update entry_size_def outstanding_at_def)
  qed
  moreover have none: "\<nexists>x. outstanding_at r' i x" using r'(2) u by (simp add: outstanding_at_def update_conv')
  moreover have "\<exists>err. Release later r' i reason' = (Inl err, r')" using none by (intro Release_refused) blast
  ultimately show ?thesis using r'(1) u(1) by blast
qed

theorem release_returns_capacity_once_witness:
  "\<exists>r v u r'. outstanding_at r ''a1'' v \<and> Release 3 r ''a1'' ResourceReleaseSettled = (Inr u, r') \<and>
     occupied r (Resv_WorkerID v) = Suc (occupied r' (Resv_WorkerID v))"
proof -
  obtain v r where g: "Reserve in_order 2 example_registry example_request = (Inr v, r)" "outstanding_at r ''a1'' v" by (rule example_reserved)
  have reach: "registry_reachable r"
    using registry_reachable.reserve [OF registry_reachable.new [OF example_new], of in_order 2 example_request] g(1) by simp
  have valid: "ReleaseReason_Valid ResourceReleaseSettled" by (simp add: ReleaseReason_Valid_def ResourceReleaseReasons_def)
  obtain result r' where rel: "Release 3 r ''a1'' ResourceReleaseSettled = (result, r')" by (cases "Release 3 r ''a1'' ResourceReleaseSettled")
  note once = release_returns_capacity_once [OF reach g(2) valid rel, of Resv_MemoryMB 4 ResourceReleaseCancelled]
  then obtain u where "result = Inr u" by blast
  with g(2) rel once show ?thesis by (intro exI [of _ r] exI [of _ v] exI [of _ u] exI [of _ r']) simp
qed

text \<open>The pass over a session that starts from configured pools and durable owners.\<close>

lemma plan_pass_capacity:
  assumes "map_order iterate" and "RebuildExecutorRegistry pools owners now = Inr r" and "slices_fit r"
    and "plan_pass (session_Evaluate iterate now) (session_Reserve iterate now) (StartPlan pools owners now) cs = (s', proposed)"
    and "\<forall>c \<in> set cs. ReservationRequest_validate (candidate_request c) = None"
    and "distinct (map Candidate_AttemptID cs)"
    and "\<forall>c \<in> set cs. map_of (Registry_reservations r) (Candidate_AttemptID c) = None"
  shows "\<exists>r'. s' = SessionRegistry r' \<and> registry_ok r' \<and>
    (\<forall>c \<in> set proposed. Governs r' (Candidate_WorkerID c) \<longrightarrow>
       (\<exists>v. outstanding_at r' (Candidate_AttemptID c) v \<and> Resv_WorkerID v = Candidate_WorkerID c))"
proof -
  note session = capacity_planning_session [OF assms(1), of now]
  have start: "StartPlan pools owners now = SessionRegistry r" using assms(2) by (simp add: StartPlan_def)
  have valid: "session_valid (StartPlan pools owners now)" using start Rebuild_ok [OF assms(2)] assms(3) by simp
  have kept: "session_valid s'" using planning_session.pass_keeps [OF session valid assms(4)] by blast
  have "\<forall>c \<in> set proposed. session_accounts s' c"
    using assms(5,7) start by (intro planning_session.pass_accounts [OF session valid assms(4) _ assms(6)]) (auto simp: candidate_sound_def)
  moreover obtain r' where "s' = SessionRegistry r'"
    using pass_registry [OF assms(4) [unfolded start]] by blast
  ultimately show ?thesis using kept by auto
qed

text \<open>
  A planning pass never proposes more than there is: if the session starts from configured
  pools and the owners of durable assignments, and the candidates are well formed with distinct
  attempts that hold no reservation yet, then every candidate proposed on a governed worker
  holds a reservation on that worker at the end of the pass.
\<close>

theorem planning_pass_has_capacity:
  assumes "map_order iterate" and "RebuildExecutorRegistry pools owners now = Inr r" and "slices_fit r"
    and "plan_pass (session_Evaluate iterate now) (session_Reserve iterate now) (StartPlan pools owners now) cs = (s', proposed)"
    and "\<forall>c \<in> set cs. ReservationRequest_validate (candidate_request c) = None"
    and "distinct (map Candidate_AttemptID cs)"
    and "\<forall>c \<in> set cs. map_of (Registry_reservations r) (Candidate_AttemptID c) = None"
  shows "\<exists>r'. s' = SessionRegistry r' \<and> registry_ok r' \<and>
    (\<forall>c \<in> set proposed. Governs r' (Candidate_WorkerID c) \<longrightarrow>
       (\<exists>v. outstanding_at r' (Candidate_AttemptID c) v \<and> Resv_WorkerID v = Candidate_WorkerID c))"
  by (rule plan_pass_capacity [OF assms])

theorem planning_pass_has_capacity_witness:
  "\<exists>r'. fst (plan_pass (session_Evaluate in_order 1) (session_Reserve in_order 1) (StartPlan [example_pool] [] 1) [example_candidate ''a1'' 600]) =
     SessionRegistry r' \<and> registry_ok r'"
proof -
  let ?pass = "plan_pass (session_Evaluate in_order 1) (session_Reserve in_order 1) (StartPlan [example_pool] [] 1) [example_candidate ''a1'' 600]"
  have rebuilt: "RebuildExecutorRegistry [example_pool] [] 1 = Inr example_registry" by (simp add: RebuildExecutorRegistry_def example_new)
  have "?pass = (fst ?pass, snd ?pass)" by simp
  from planning_pass_has_capacity [OF map_order_in_order rebuilt example_slots(4) this]
  show ?thesis using example_request_sound by (auto simp: example_slots(3))
qed

text \<open>
  A slot added for an adopted owner outlives it: on a worker with one configured slot and
  two adopted owners, one release leaves a free slot although one is still occupied, and
  \<open>Reserve\<close> grants it, so that two slots are in use where one is configured, while \<open>Fits\<close>
  reports no free slot.
\<close>

theorem adopted_slot_outlives_owner:
  "\<exists>r1 r2 u v r3. adopt_all 1 [example_owner ''a1'', example_owner ''a2''] example_registry = Inr r1 \<and>
     Release 2 r1 ''a1'' ResourceReleaseSettled = (Inr u, r2) \<and>
     Fits in_order 3 r2 ''w1'' (example_demand 0) \<noteq> [] \<and>
     Reserve in_order 3 r2 (candidate_request (example_candidate ''b1'' 0)) = (Inr v, r3) \<and>
     occupied r3 ''w1'' = 2 \<and> Alloc_ExecutorSlots (Pool_Allocatable example_pool) = 1"
proof -
  let ?id = in_order and ?q = "candidate_request (example_candidate ''b1'' 0)"
  define r1 where "r1 = projr (adopt_all 1 [example_owner ''a1'', example_owner ''a2''] example_registry)"
  define r2 where "r2 = snd (Release 2 r1 ''a1'' ResourceReleaseSettled)"
  have "\<not> isl (adopt_all 1 [example_owner ''a1'', example_owner ''a2''] example_registry)"
    "\<not> isl (fst (Release 2 r1 ''a1'' ResourceReleaseSettled))" unfolding r1_def by code_simp+
  then obtain u where r1: "adopt_all 1 [example_owner ''a1'', example_owner ''a2''] example_registry = Inr r1"
    and r2: "Release 2 r1 ''a1'' ResourceReleaseSettled = (Inr u, r2)"
    unfolding r1_def r2_def by (metis prod.collapse sum.collapse(2))
  have ok: "registry_ok r2" unfolding r2_def by (rule Release_ok [OF adopt_all_ok [OF example_ok r1]])
  have state: "map_of (Registry_reservations r2) ''b1'' = None" "Registry_pools r2 ''w1'' = Some example_pool"
    "request_fits ?id 3 r2 ?q example_pool" "list_ex (\<lambda>slot. \<not> Occupied slot) (Registry_slots r2 ''w1'')" "occupied r2 ''w1'' = 1"
    "Fits ?id 3 r2 ''w1'' (example_demand 0) \<noteq> []"
    unfolding r2_def r1_def by code_simp+
  have sel: "Req_ReservationID ?q = ''b1''" "Req_WorkerID ?q = ''w1''" by (simp_all add: candidate_request_def example_candidate_def)
  have valid: "ReservationRequest_validate ?q = None" by (rule example_sound) (simp_all add: graphic_def)
  obtain v r3 where r3: "Reserve ?id 3 r2 ?q = (Inr v, r3)"
  proof (cases rule: Reserve_cases [OF ok, of ?id 3 ?q, case_names refused granted])
    case refused
    with valid state sel show ?thesis by (auto simp: list_ex_eq)
  next
    case (granted pool k)
    show ?thesis
    proof (rule commit_reservation_Inr [OF ok granted(1,3,5,6,2), where a = "Pool_Allocatable pool" and now = 3])
      fix v
      assume "fst (commit_reservation ?q pool (GoverningDemand (Req_Demand ?q) (Pool_Allocatable pool)) k 3 r2) = Inr v"
      then show ?thesis using that unfolding granted(7) by (metis prod.collapse)
    qed
  qed
  have "occupied r3 ''w1'' = 2"
  proof (rule Reserve_granted [OF ok r3])
    fix k slot
    assume "Resv_WorkerID v = Req_WorkerID ?q" "k < length (Registry_slots r2 (Resv_WorkerID v))"
      "\<not> Occupied (Registry_slots r2 (Resv_WorkerID v) ! k)" "Occupied slot"
      "Registry_slots r3 = (Registry_slots r2)(Resv_WorkerID v := (Registry_slots r2 (Resv_WorkerID v))[k := slot])"
    with occupy_count [of k "Registry_slots r2 ''w1''" Occupied slot] state(5) sel(2) show ?thesis by (simp add: occupied_def)
  qed
  with r1 r2 r3 state(6) show ?thesis by (auto simp: example_pool_def)
qed

end
