(* ===== verification/Placement.thy ===== *)
theory Placement
  imports PlanningTypes
begin

text \<open>
  Worker placement: the inventory of \<open>internal/domain/worker.go\<close> and \<open>resource_telemetry.go\<close>, the
  decision record of \<open>capacity.go\<close>, and the hard constraints, live-resource floors and preference
  scores of \<open>internal/backlog/placement.go\<close>, \<open>resource_placement.go\<close> and \<open>pressure_ceiling.go\<close>.

  Values are immutable, so the code's clones are identities. An absent measurement is \<open>None\<close>.
  An error is its text.
\<close>

section \<open>Measurements\<close>

fun f_max :: "float64 \<Rightarrow> float64 \<Rightarrow> float64" where
  "f_max a b = (if a = Infinite False \<or> b = Infinite False then Infinite False
                else if a = NaN \<or> b = NaN then NaN else if f_lt a b then b else a)"

fun f_min :: "float64 \<Rightarrow> float64 \<Rightarrow> float64" where
  "f_min a b = (if a = Infinite True \<or> b = Infinite True then Infinite True
                else if a = NaN \<or> b = NaN then NaN else if f_lt b a then b else a)"

definition f_finite :: "float64 \<Rightarrow> bool" where
  "f_finite x \<longleftrightarrow> (case x of Fin _ \<Rightarrow> True | _ \<Rightarrow> False)"

record WorkerTelemetry =
  Telemetry_ObservedAt :: instant
  Telemetry_CPUCount :: "int64 option"
  Telemetry_Load1 :: "float64 option"
  Telemetry_Load5 :: "float64 option"
  Telemetry_MemoryAvailableMB :: "int64 option"
  Telemetry_SwapUsedMB :: "int64 option"
  Telemetry_ZramSwapUsedMB :: "int64 option"
  Telemetry_WorkspaceFreeMB :: "int64 option"
  Telemetry_TempFreeMB :: "int64 option"
  Telemetry_RunningAttempts :: "int64 option"

record ResourcePlacementPolicy =
  Policy_TelemetryMaxAge :: duration
  Policy_MemoryReserveMB :: int64
  Policy_DiskReserveMB :: int64
  Policy_MaxSwapUsedMB :: int64
  Policy_CPUWeight :: float64
  Policy_MemoryWeight :: float64
  Policy_UnsizedTaskCPUUnits :: float64
  Policy_UnsizedTaskMemoryMB :: int64
  Policy_UnsizedTaskScratchMB :: int64
  Policy_BuildMaxLoadPerCPU :: float64
  Policy_SwapIgnoreZram :: bool

definition zero_Policy :: ResourcePlacementPolicy where
  "zero_Policy =
     \<lparr>Policy_TelemetryMaxAge = 0, Policy_MemoryReserveMB = 0, Policy_DiskReserveMB = 0, Policy_MaxSwapUsedMB = 0,
      Policy_CPUWeight = Fin 0, Policy_MemoryWeight = Fin 0, Policy_UnsizedTaskCPUUnits = Fin 0,
      Policy_UnsizedTaskMemoryMB = 0, Policy_UnsizedTaskScratchMB = 0, Policy_BuildMaxLoadPerCPU = Fin 0,
      Policy_SwapIgnoreZram = False\<rparr>"

definition DefaultResourcePlacementPolicy :: ResourcePlacementPolicy where
  "DefaultResourcePlacementPolicy =
     \<lparr>Policy_TelemetryMaxAge = 2 * minute, Policy_MemoryReserveMB = 1024, Policy_DiskReserveMB = 2048,
      Policy_MaxSwapUsedMB = 4096, Policy_CPUWeight = Fin 1, Policy_MemoryWeight = Fin 1,
      Policy_UnsizedTaskCPUUnits = Fin 1, Policy_UnsizedTaskMemoryMB = 1024, Policy_UnsizedTaskScratchMB = 0,
      Policy_BuildMaxLoadPerCPU = Fin (3 / 2), Policy_SwapIgnoreZram = True\<rparr>"

definition WithDefaults :: "ResourcePlacementPolicy \<Rightarrow> ResourcePlacementPolicy" where
  "WithDefaults p = (if p = zero_Policy then DefaultResourcePlacementPolicy else p)"

definition ResourcePlacementPolicy_Validate :: "ResourcePlacementPolicy \<Rightarrow> go_text option" where
  "ResourcePlacementPolicy_Validate p =
     (let total = f_add (Policy_CPUWeight p) (Policy_MemoryWeight p) in
      if Policy_TelemetryMaxAge p \<le> 0
      then Some (Sprintf ''resource placement telemetry_max_age must be positive'' [])
      else if Policy_MemoryReserveMB p < 0 \<or> Policy_DiskReserveMB p < 0 \<or> Policy_MaxSwapUsedMB p < 0
      then Some (Sprintf ''resource placement thresholds must not be negative'' [])
      else if \<not> f_finite (Policy_CPUWeight p) \<or> \<not> f_finite (Policy_MemoryWeight p) \<or>
              f_lt (Policy_CPUWeight p) (Fin 0) \<or> f_lt (Policy_MemoryWeight p) (Fin 0) \<or>
              f_le total (Fin 0) \<or> total = Infinite True \<or> total = Infinite False
      then Some (Sprintf ''resource placement weights must be finite and nonnegative, with at least one positive'' [])
      else if \<not> f_finite (Policy_UnsizedTaskCPUUnits p) \<or> f_lt (Policy_UnsizedTaskCPUUnits p) (Fin 0) \<or>
              Policy_UnsizedTaskMemoryMB p < 0 \<or> Policy_UnsizedTaskScratchMB p < 0
      then Some (Sprintf ''resource placement unsized task needs must be finite and nonnegative'' [])
      else if \<not> f_finite (Policy_BuildMaxLoadPerCPU p) \<or> f_lt (Policy_BuildMaxLoadPerCPU p) (Fin 0)
      then Some (Sprintf ''resource placement build_max_load_per_cpu must be finite and nonnegative'' [])
      else None)"

datatype ResourceState = StateUnset | StateUnknown | StateStale | StatePartial | StateKnown

record ResourceEvaluation =
  RE_WorkerID :: string
  RE_Telemetry :: "WorkerTelemetry option"
  RE_State :: ResourceState
  RE_CPUHeadroom :: float64
  RE_MemoryHeadroom :: float64
  RE_Score :: float64
  RE_Rank :: int

definition zero_ResourceEvaluation :: ResourceEvaluation where
  "zero_ResourceEvaluation =
     \<lparr>RE_WorkerID = '''', RE_Telemetry = None, RE_State = StateUnset, RE_CPUHeadroom = Fin 0, RE_MemoryHeadroom = Fin 0,
      RE_Score = Fin 0, RE_Rank = 0\<rparr>"

section \<open>Inventory\<close>

datatype WorkerHealth = WorkerHealthReady | WorkerHealthDegraded | WorkerHealthOffline | WorkerHealthOther string

fun Health_text :: "WorkerHealth \<Rightarrow> string" where
  "Health_text WorkerHealthReady = ''ready''"
| "Health_text WorkerHealthDegraded = ''degraded''"
| "Health_text WorkerHealthOffline = ''offline''"
| "Health_text (WorkerHealthOther s) = s"

record WorkerProjectInventory =
  Project_Name :: string
  Project_Available :: bool

record WorkerProviderInventory =
  Provider_InstanceID :: string
  Provider_Models :: "string list"
  Provider_QuotaPoolID :: string
  Provider_Available :: bool

record WorkerInventory =
  Worker_Telemetry :: "WorkerTelemetry option"
  Worker_ID :: string
  Worker_Epoch :: string
  Worker_Sequence :: int64
  Worker_AcceptBacklog :: bool
  Worker_Health :: WorkerHealth
  Worker_Capabilities :: "string list"
  Worker_Projects :: "WorkerProjectInventory list"
  Worker_Providers :: "WorkerProviderInventory list"
  Worker_CPUClass :: CPUClass
  Worker_Allocatable :: AllocatableCapacity
  Worker_Reserved :: ReservedCapacity
  Worker_Pressure :: CPUPressure
  Worker_ObservedAt :: instant

definition CapacitySnapshot :: "WorkerInventory \<Rightarrow> WorkerCapacitySnapshot" where
  "CapacitySnapshot w =
     \<lparr>Capacity_WorkerID = Worker_ID w, Capacity_WorkerEpoch = Worker_Epoch w, Capacity_Sequence = Worker_Sequence w,
      Capacity_CPUClass = Worker_CPUClass w, Capacity_Allocatable = Worker_Allocatable w,
      Capacity_Reserved = Worker_Reserved w, Capacity_Pressure = Worker_Pressure w,
      Capacity_ObservedAt = Worker_ObservedAt w\<rparr>"

section \<open>Decisions\<close>

record CapacitySnapshotRef =
  Ref_WorkerID :: string
  Ref_WorkerEpoch :: string
  Ref_Sequence :: int64
  Ref_ObservedAt :: instant

record PlacementRejection =
  Rejection_WorkerID :: string
  Rejection_Code :: string
  Rejection_Detail :: go_text

record PlacementScoreComponent =
  Component_Name :: string
  Component_Weight :: float64
  Component_Value :: float64

record PlacementScore =
  Score_WorkerID :: string
  Score_Total :: float64
  Score_Components :: "PlacementScoreComponent list"

record RouteReresolution =
  RR_Role :: string
  RR_FromRoute :: string
  RR_FromPool :: string
  RR_ToRoute :: string
  RR_ToPool :: string
  RR_Effort :: string
  RR_Ranking :: string
  RR_Reason :: go_text
  RR_DecidedAt :: instant

record PlacementDecision =
  PD_ResourceEvaluations :: "ResourceEvaluation list"
  PD_TaskID :: string
  PD_AttemptID :: string
  PD_AssignmentID :: string
  PD_SelectedWorkerID :: string
  PD_ReservationID :: string
  PD_Demand :: ResourceDemand
  PD_CandidateIDs :: "string list"
  PD_Rejections :: "PlacementRejection list"
  PD_Scores :: "PlacementScore list"
  PD_Snapshots :: "CapacitySnapshotRef list"
  PD_RouteReresolution :: "RouteReresolution option"
  PD_DecidedAt :: instant

definition Placed :: "PlacementDecision \<Rightarrow> bool" where
  "Placed d \<longleftrightarrow> PD_SelectedWorkerID d \<noteq> ''''"

definition PlacementDecision_Validate :: "PlacementDecision \<Rightarrow> go_text option" where
  "PlacementDecision_Validate d =
     (case ResourceDemand_Validate (PD_Demand d) of
        Some err \<Rightarrow> Some (Sprintf ''placement decision: %w'' [TextArg err])
      | None \<Rightarrow>
          if PD_SelectedWorkerID d = ''''
          then (if PD_ReservationID d \<noteq> ''''
                then Some (Sprintf ''placement decision holds reservation %q without a selected worker'' [StrArg (PD_ReservationID d)])
                else None)
          else if \<not> list_ex (\<lambda>i. i = PD_SelectedWorkerID d) (PD_CandidateIDs d)
          then Some (Sprintf ''placement decision selected worker %q that was not a candidate'' [StrArg (PD_SelectedWorkerID d)])
          else (case find (\<lambda>r. Rejection_WorkerID r = PD_SelectedWorkerID d) (PD_Rejections d) of
            Some r \<Rightarrow> Some (Sprintf ''placement decision selected worker %q that constraint %q rejected''
                       [StrArg (PD_SelectedWorkerID d), StrArg (Rejection_Code r)])
          | None \<Rightarrow>
              if list_ex (\<lambda>s. Score_WorkerID s = PD_SelectedWorkerID d) (PD_Scores d) then None
              else Some (Sprintf ''placement decision selected worker %q without a preference score''
                     [StrArg (PD_SelectedWorkerID d)])))"

section \<open>Live resources\<close>

definition preset_sizes :: "string \<Rightarrow> ResourceDemand option" where
  "preset_sizes preset =
     (let sized = (\<lambda>cpu memory scratch. Some \<lparr>Demand_MinCPUClass = CPUClassEmpty, Demand_PreferredCPUClass = CPUClassEmpty,
                     Demand_CPUUnits = Fin cpu, Demand_MemoryMB = memory, Demand_ScratchMB = scratch\<rparr>)
      in if preset = ''build'' then sized 4 6000 8192
         else if preset = ''light'' then sized (1 / 2) 1000 512
         else if preset = ''review'' then sized 1 1500 1024
         else None)"

definition expectedResourceNeeds :: "Task \<Rightarrow> ResourcePlacementPolicy \<Rightarrow> ResourceDemand" where
  "expectedResourceNeeds task p =
     (let demand = Task_ResourceDemand task;
          n0 = (case preset_sizes (Task_ResourcePreset task) of
                  Some sizes \<Rightarrow> sizes
                | None \<Rightarrow> \<lparr>Demand_MinCPUClass = CPUClassEmpty, Demand_PreferredCPUClass = CPUClassEmpty,
                    Demand_CPUUnits = Policy_UnsizedTaskCPUUnits p, Demand_MemoryMB = Policy_UnsizedTaskMemoryMB p,
                    Demand_ScratchMB = Policy_UnsizedTaskScratchMB p\<rparr>);
          n1 = (if f_lt (Fin 0) (Demand_CPUUnits demand) then n0\<lparr>Demand_CPUUnits := Demand_CPUUnits demand\<rparr> else n0);
          n2 = (if Demand_MemoryMB demand > 0 then n1\<lparr>Demand_MemoryMB := Demand_MemoryMB demand\<rparr> else n1)
      in if Demand_ScratchMB demand > 0 then n2\<lparr>Demand_ScratchMB := Demand_ScratchMB demand\<rparr> else n2)"

record WorkerExclusion =
  Exclusion_Code :: string
  Exclusion_Detail :: go_text
  Exclusion_Capability :: string

definition exclusion :: "string \<Rightarrow> string \<Rightarrow> fmt_arg list \<Rightarrow> WorkerExclusion" where
  "exclusion code format args = \<lparr>Exclusion_Code = code, Exclusion_Detail = Sprintf format args, Exclusion_Capability = ''''\<rparr>"

definition buildLoadCeiling :: "int64 \<Rightarrow> float64 \<Rightarrow> ResourceDemand \<Rightarrow> ResourcePlacementPolicy \<Rightarrow> WorkerExclusion option" where
  "buildLoadCeiling cpus load need p =
     (if f_le (Policy_BuildMaxLoadPerCPU p) (Fin 0) \<or> cpus \<le> 0 \<or> f_lt (Demand_CPUUnits need) (Fin 2) then None
      else if f_le (f_div load (f_of_int cpus)) (Policy_BuildMaxLoadPerCPU p) then None
      else Some (exclusion ''resource-cpu-load'' ''load %s over %d cpus exceeds build ceiling %s per cpu''
             [FloatArg load, IntArg cpus, FloatArg (Policy_BuildMaxLoadPerCPU p)]))"

definition countedSwapMB :: "WorkerTelemetry \<Rightarrow> ResourcePlacementPolicy \<Rightarrow> int64 \<times> string" where
  "countedSwapMB v p =
     (case Telemetry_SwapUsedMB v of
        None \<Rightarrow> (0, '''')
      | Some used \<Rightarrow>
          if used < 0 then (0, '''')
          else (case Telemetry_ZramSwapUsedMB v of
            None \<Rightarrow> (used, ''swap'')
          | Some zram \<Rightarrow>
              if \<not> Policy_SwapIgnoreZram p \<or> zram < 0 then (used, ''swap'')
              else (max 0 (wrap64 (used - zram)), ''disk swap'')))"

definition validSize :: "int64 option \<Rightarrow> bool" where
  "validSize x \<longleftrightarrow> (case x of None \<Rightarrow> False | Some v \<Rightarrow> v \<ge> 0)"

definition validLoad :: "float64 option \<Rightarrow> bool" where
  "validLoad x \<longleftrightarrow> (case x of None \<Rightarrow> False | Some v \<Rightarrow> f_le (Fin 0) v \<and> f_finite v)"

definition below_floor :: "int64 option \<Rightarrow> int64 \<Rightarrow> int64 \<Rightarrow> string \<Rightarrow> string \<Rightarrow> WorkerExclusion list" where
  "below_floor value need reserve code dimension =
     (case value of
        None \<Rightarrow> []
      | Some v \<Rightarrow>
          if v \<ge> 0 \<and> f_lt (f_of_int v) (f_add (f_of_int need) (f_of_int reserve))
          then [exclusion code ''%s available %d MB is below task need %d MB plus reserve %d MB''
                  [StrArg dimension, IntArg v, IntArg need, IntArg reserve]]
          else [])"

record WorkerPlacementRequest =
  WPR_ResourcePolicy :: ResourcePlacementPolicy
  WPR_Task :: Task
  WPR_Project :: string
  WPR_Now :: instant
  WPR_MaxSnapshotAge :: duration
  WPR_ExpectedWorkerEpochs :: "string \<rightharpoonup> string"
  WPR_PreferenceWeights :: "(string \<rightharpoonup> float64) option"

definition telemetry_state :: "WorkerTelemetry \<Rightarrow> ResourceState" where
  "telemetry_state v =
     (if (case Telemetry_CPUCount v of None \<Rightarrow> False | Some n \<Rightarrow> n > 0) \<and>
         validLoad (Telemetry_Load1 v) \<and> validLoad (Telemetry_Load5 v) \<and>
         validSize (Telemetry_MemoryAvailableMB v) \<and> validSize (Telemetry_SwapUsedMB v) \<and>
         validSize (Telemetry_WorkspaceFreeMB v) \<and> validSize (Telemetry_TempFreeMB v) \<and>
         validSize (Telemetry_RunningAttempts v)
      then StateKnown else StatePartial)"

text \<open>The processors and the larger load average, if they are known.\<close>

definition known_cpu :: "WorkerTelemetry \<Rightarrow> (int64 \<times> float64) option" where
  "known_cpu v =
     (case Telemetry_CPUCount v of
        None \<Rightarrow> None
      | Some n \<Rightarrow> (case Telemetry_Load1 v of
          None \<Rightarrow> None
        | Some l1 \<Rightarrow> (case Telemetry_Load5 v of
            None \<Rightarrow> None
          | Some l5 \<Rightarrow>
              if n > 0 \<and> validLoad (Some l1) \<and> validLoad (Some l5) then Some (n, f_max l1 l5) else None)))"

definition cpu_headroom :: "int64 \<Rightarrow> float64 \<Rightarrow> ResourceDemand \<Rightarrow> float64" where
  "cpu_headroom cpus load demand =
     (let cores = f_of_int cpus
      in f_max (Fin (- 1)) (f_min (Fin 1) (f_div (f_sub (f_sub cores load) (Demand_CPUUnits demand)) cores)))"

definition memory_headroom :: "int64 option \<Rightarrow> ResourceDemand \<Rightarrow> ResourcePlacementPolicy \<Rightarrow> float64" where
  "memory_headroom value demand p =
     (case value of
        None \<Rightarrow> Fin 0
      | Some v \<Rightarrow>
          let available = f_of_int v; required = f_add (f_of_int (Demand_MemoryMB demand)) (f_of_int (Policy_MemoryReserveMB p))
          in if v \<ge> 0 \<and> f_lt (Fin 0) (f_add available required)
             then f_div (f_sub available required) (f_add available required) else Fin 0)"

definition live_exclusions :: "WorkerTelemetry \<Rightarrow> ResourceDemand \<Rightarrow> ResourcePlacementPolicy \<Rightarrow> WorkerExclusion list" where
  "live_exclusions v demand p =
     below_floor (Telemetry_MemoryAvailableMB v) (Demand_MemoryMB demand) (Policy_MemoryReserveMB p) ''resource-memory'' ''memory''
     @ below_floor (Telemetry_WorkspaceFreeMB v) (Demand_ScratchMB demand) (Policy_DiskReserveMB p)
         ''resource-workspace-disk'' ''workspace disk''
     @ below_floor (Telemetry_TempFreeMB v) (Demand_ScratchMB demand) (Policy_DiskReserveMB p) ''resource-temp-disk'' ''temp disk''
     @ (let (swap, kind) = countedSwapMB v p
        in if swap > Policy_MaxSwapUsedMB p
           then [exclusion ''resource-swap'' ''%s used %d MB exceeds limit %d MB''
                   [StrArg kind, IntArg swap, IntArg (Policy_MaxSwapUsedMB p)]]
           else [])
     @ (case known_cpu v of
          None \<Rightarrow> []
        | Some (cpus, load) \<Rightarrow>
            (case buildLoadCeiling cpus load demand p of
               Some e \<Rightarrow> if telemetry_state v = StateKnown then [e] else []
             | None \<Rightarrow> []))"

definition liveResourceEvaluation :: "WorkerPlacementRequest \<Rightarrow> WorkerInventory \<Rightarrow> ResourceEvaluation \<times> WorkerExclusion list" where
  "liveResourceEvaluation request worker =
     (let p = WithDefaults (WPR_ResourcePolicy request);
          e = zero_ResourceEvaluation\<lparr>RE_WorkerID := Worker_ID worker, RE_Telemetry := Worker_Telemetry worker,
                RE_State := StateUnknown\<rparr>
      in case Worker_Telemetry worker of
           None \<Rightarrow> (e, [])
         | Some v \<Rightarrow>
             let age = time_sub (WPR_Now request) (Telemetry_ObservedAt v) in
             if is_zero_time (Telemetry_ObservedAt v) \<or> age < - Policy_TelemetryMaxAge p \<or> age > Policy_TelemetryMaxAge p
             then (e\<lparr>RE_State := StateStale\<rparr>, [])
             else
               let demand = expectedResourceNeeds (WPR_Task request) p;
                   cpu = (case known_cpu v of None \<Rightarrow> Fin 0 | Some (cpus, load) \<Rightarrow> cpu_headroom cpus load demand);
                   memory = memory_headroom (Telemetry_MemoryAvailableMB v) demand p
               in (e\<lparr>RE_State := telemetry_state v, RE_CPUHeadroom := cpu, RE_MemoryHeadroom := memory,
                     RE_Score := f_add (f_mul (Policy_CPUWeight p) cpu) (f_mul (Policy_MemoryWeight p) memory)\<rparr>,
                   live_exclusions v demand p))"

section \<open>Hard constraints\<close>

record WorkerEvaluation =
  Eval_Resource :: "ResourceEvaluation option"
  Eval_WorkerID :: string
  Eval_Eligible :: bool
  Eval_Exclusions :: "WorkerExclusion list"
  Eval_Notes :: "go_text list"

record WorkerPlacement =
  WP_EligibleWorkerIDs :: "string list"
  WP_Evaluations :: "WorkerEvaluation list"

definition epochExclusions :: "WorkerPlacementRequest \<Rightarrow> WorkerInventory \<Rightarrow> WorkerExclusion list" where
  "epochExclusions request worker =
     (case WPR_ExpectedWorkerEpochs request (Worker_ID worker) of
        None \<Rightarrow> []
      | Some expected \<Rightarrow>
          if expected = Worker_Epoch worker then []
          else [exclusion ''worker-epoch-superseded'' ''worker %q reports epoch %q, superseded by %q''
                  [StrArg (Worker_ID worker), StrArg (Worker_Epoch worker), StrArg expected]])"

definition class_exclusions :: "ResourceDemand \<Rightarrow> WorkerInventory \<Rightarrow> WorkerExclusion list" where
  "class_exclusions demand worker =
     (if Demand_MinCPUClass demand = CPUClassEmpty then []
      else if \<not> CPUClass_Valid (Worker_CPUClass worker)
      then [exclusion ''cpu-class-unknown'' ''worker %q has no configured cpu class and the task requires at least %q''
              [StrArg (Worker_ID worker), StrArg (CPUClass_text (Demand_MinCPUClass demand))]]
      else if CPUClass_Compare (Worker_CPUClass worker) (Demand_MinCPUClass demand) < 0
      then [exclusion ''cpu-class-below-minimum'' ''worker %q cpu class %q is below the required minimum %q''
              [StrArg (Worker_ID worker), StrArg (CPUClass_text (Worker_CPUClass worker)),
               StrArg (CPUClass_text (Demand_MinCPUClass demand))]]
      else [])"

definition capacityExclusions :: "ResourceDemand \<Rightarrow> WorkerInventory \<Rightarrow> WorkerExclusion list" where
  "capacityExclusions demand0 worker =
     (let demand = GoverningDemand demand0 (Worker_Allocatable worker);
          snapshot = CapacitySnapshot worker; allocatable = Capacity_Allocatable snapshot;
          exhausted = (\<lambda>format args. exclusion ''capacity-exhausted'' format (StrArg (Worker_ID worker) # args))
      in class_exclusions demand worker
       @ (if Alloc_ExecutorSlots allocatable > 0 \<and> FreeSlots snapshot < 1
          then [exhausted ''worker %q has no free executor slot of %d'' [IntArg (Alloc_ExecutorSlots allocatable)]] else [])
       @ (if f_lt (Fin 0) (Demand_CPUUnits demand) \<and> f_lt (FreeCPUUnits snapshot) (Demand_CPUUnits demand)
          then [exhausted ''worker %q has %v free cpu units of %v allocatable, task requires %v''
                  [FloatArg (FreeCPUUnits snapshot), FloatArg (Alloc_CPUUnits allocatable), FloatArg (Demand_CPUUnits demand)]] else [])
       @ (if Demand_MemoryMB demand > 0 \<and> FreeMemoryMB snapshot < Demand_MemoryMB demand
          then [exhausted ''worker %q has %d MB free memory of %d allocatable, task requires %d MB''
                  [IntArg (FreeMemoryMB snapshot), IntArg (Alloc_MemoryMB allocatable), IntArg (Demand_MemoryMB demand)]] else [])
       @ (if Demand_ScratchMB demand > 0 \<and> FreeScratchMB snapshot < Demand_ScratchMB demand
          then [exhausted ''worker %q has %d MB free scratch of %d allocatable, task requires %d MB''
                  [IntArg (FreeScratchMB snapshot), IntArg (Alloc_ScratchMB allocatable), IntArg (Demand_ScratchMB demand)]] else []))"

text \<open>The allowlist, opt-in, health and freshness of a worker.\<close>

definition worker_exclusions :: "WorkerPlacementRequest \<Rightarrow> WorkerInventory \<Rightarrow> WorkerExclusion list" where
  "worker_exclusions request worker =
     (let hosts = Placement_Hosts (Task_Placement (WPR_Task request)); i = Worker_ID worker
      in (if hosts \<noteq> [] \<and> i \<notin> set hosts
          then [exclusion ''host-not-allowed'' ''worker %q is not in the task host allowlist'' [StrArg i]] else [])
       @ (if \<not> Worker_AcceptBacklog worker \<and> i \<notin> set hosts
          then [exclusion ''backlog-disabled'' ''worker %q does not accept backlog work without explicit task opt-in'' [StrArg i]] else [])
       @ (if Worker_Health worker \<noteq> WorkerHealthReady
          then [exclusion ''worker-health'' ''worker %q health is %q'' [StrArg i, StrArg (Health_text (Worker_Health worker))]] else [])
       @ (if is_zero_time (Worker_ObservedAt worker) \<or>
             time_sub (WPR_Now request) (Worker_ObservedAt worker) > WPR_MaxSnapshotAge request
          then [exclusion ''worker-stale'' ''worker %q inventory is older than %s'' [StrArg i, DurationArg (WPR_MaxSnapshotAge request)]] else []))"

definition capability_exclusions :: "WorkerPlacementRequest \<Rightarrow> WorkerInventory \<Rightarrow> WorkerExclusion list" where
  "capability_exclusions request worker =
     map (\<lambda>capability. (exclusion ''missing-capability'' ''worker %q lacks capability %q''
              [StrArg (Worker_ID worker), StrArg capability])\<lparr>Exclusion_Capability := capability\<rparr>)
       (filter (\<lambda>capability. capability \<notin> set (Worker_Capabilities worker))
         (sort_strings (Placement_Capabilities (Task_Placement (WPR_Task request)))))"

definition project_available :: "WorkerInventory \<Rightarrow> string \<Rightarrow> bool" where
  "project_available worker name =
     (case find (\<lambda>project. Project_Name project = name) (Worker_Projects worker) of
        Some project \<Rightarrow> Project_Available project
      | None \<Rightarrow> False)"

definition project_exclusions :: "WorkerPlacementRequest \<Rightarrow> WorkerInventory \<Rightarrow> WorkerExclusion list" where
  "project_exclusions request worker =
     (if WPR_Project request \<noteq> '''' \<and> \<not> project_available worker (WPR_Project request)
      then [exclusion ''project-unavailable'' ''worker %q cannot prepare project %q''
              [StrArg (Worker_ID worker), StrArg (WPR_Project request)]]
      else [])"

definition exclusion_less :: "go_runtime \<Rightarrow> WorkerExclusion \<Rightarrow> WorkerExclusion \<Rightarrow> bool" where
  "exclusion_less rt a b =
     (if Exclusion_Code a = Exclusion_Code b
      then Runtime_text rt (Exclusion_Detail a) < Runtime_text rt (Exclusion_Detail b)
      else Exclusion_Code a < Exclusion_Code b)"

definition all_exclusions :: "WorkerPlacementRequest \<Rightarrow> WorkerInventory \<Rightarrow> WorkerExclusion list" where
  "all_exclusions request worker =
     worker_exclusions request worker @ capability_exclusions request worker @ project_exclusions request worker
     @ epochExclusions request worker @ capacityExclusions (Task_ResourceDemand (WPR_Task request)) worker
     @ snd (liveResourceEvaluation request worker)"

definition evaluateWorker :: "go_runtime \<Rightarrow> WorkerPlacementRequest \<Rightarrow> WorkerInventory \<Rightarrow> WorkerEvaluation" where
  "evaluateWorker rt request worker =
     (let exclusions = all_exclusions request worker
      in \<lparr>Eval_Resource = Some (fst (liveResourceEvaluation request worker)), Eval_WorkerID = Worker_ID worker,
          Eval_Eligible = (exclusions = []), Eval_Exclusions = sort_less (exclusion_less rt) exclusions,
          Eval_Notes = (if CountsSizedDemandAsSlot (Task_ResourceDemand (WPR_Task request)) (Worker_Allocatable worker)
            then [Sprintf ''worker %q declares no cpu/memory capacity; sized demand counted as one slot'' [StrArg (Worker_ID worker)]]
            else [])\<rparr>)"

fun firstDuplicate_from :: "string list \<Rightarrow> string list \<Rightarrow> string" where
  "firstDuplicate_from seen [] = ''''"
| "firstDuplicate_from seen (v # vs) = (if v \<in> set seen then v else firstDuplicate_from (v # seen) vs)"

definition firstDuplicate :: "string list \<Rightarrow> string" where
  "firstDuplicate values = firstDuplicate_from [] values"

text \<open>The providers are checked one after the other, each for its name and then for its models.\<close>

definition provider_problem :: "string \<Rightarrow> WorkerProviderInventory \<Rightarrow> go_text option" where
  "provider_problem worker provider =
     (if blank (Provider_InstanceID provider)
      then Some (Sprintf ''match workers: worker %q has a provider with no instance ID'' [StrArg worker])
      else if firstDuplicate (Provider_Models provider) \<noteq> ''''
      then Some (Sprintf ''match workers: worker %q provider %q repeats model %q''
             [StrArg worker, StrArg (Provider_InstanceID provider), StrArg (firstDuplicate (Provider_Models provider))])
      else None)"

definition first_problem :: "('a \<Rightarrow> go_text option) \<Rightarrow> 'a list \<Rightarrow> go_text option" where
  "first_problem f xs = foldr (\<lambda>x rest. case f x of Some err \<Rightarrow> Some err | None \<Rightarrow> rest) xs None"

definition validateWorkerInventory :: "WorkerInventory \<Rightarrow> go_text option" where
  "validateWorkerInventory worker =
     (let i = StrArg (Worker_ID worker);
          wrapped = (\<lambda>check. map_option (\<lambda>err. Sprintf ''match workers: worker %q %w'' [i, TextArg err]) check);
          repeated = (\<lambda>format values. if firstDuplicate values \<noteq> '''' then Some (Sprintf format [i, StrArg (firstDuplicate values)]) else None)
      in first_problem (\<lambda>check. check)
        [if Worker_Health worker \<noteq> WorkerHealthReady \<and> Worker_Health worker \<noteq> WorkerHealthDegraded \<and>
            Worker_Health worker \<noteq> WorkerHealthOffline
         then Some (Sprintf ''match workers: worker %q has invalid health %q'' [i, StrArg (Health_text (Worker_Health worker))]) else None,
         repeated ''match workers: worker %q repeats capability %q'' (Worker_Capabilities worker),
         if list_ex (\<lambda>project. blank (Project_Name project)) (Worker_Projects worker)
         then Some (Sprintf ''match workers: worker %q has a project with no name'' [i]) else None,
         repeated ''match workers: worker %q repeats project %q'' (map Project_Name (Worker_Projects worker)),
         first_problem (provider_problem (Worker_ID worker)) (Worker_Providers worker),
         repeated ''match workers: worker %q repeats provider %q'' (map Provider_InstanceID (Worker_Providers worker)),
         wrapped (CPUClass_Validate (Worker_CPUClass worker)),
         wrapped (AllocatableCapacity_Validate (Worker_Allocatable worker)),
         wrapped (CPUPressure_Validate (Worker_Pressure worker))])"

fun match_workers :: "go_runtime \<Rightarrow> WorkerPlacementRequest \<Rightarrow> string list \<Rightarrow> WorkerInventory list \<Rightarrow> go_text + WorkerEvaluation list" where
  "match_workers rt request seen [] = Inr []"
| "match_workers rt request seen (worker # workers) =
     (if Worker_ID worker = '''' then Inl (Sprintf ''match workers: worker ID is required'' [])
      else if Worker_ID worker \<in> set seen
      then Inl (Sprintf ''match workers: duplicate worker ID %q'' [StrArg (Worker_ID worker)])
      else (case validateWorkerInventory worker of
        Some err \<Rightarrow> Inl err
      | None \<Rightarrow> (case match_workers rt request (Worker_ID worker # seen) workers of
          Inl err \<Rightarrow> Inl err
        | Inr evaluations \<Rightarrow> Inr (evaluateWorker rt request worker # evaluations))))"

definition MatchWorkers :: "go_runtime \<Rightarrow> WorkerPlacementRequest \<Rightarrow> WorkerInventory list \<Rightarrow> go_text + WorkerPlacement" where
  "MatchWorkers rt request inventory =
     (case ResourcePlacementPolicy_Validate (WithDefaults (WPR_ResourcePolicy request)) of
        Some err \<Rightarrow> Inl err
      | None \<Rightarrow>
          if is_zero_time (WPR_Now request) then Inl (Sprintf ''match workers: current time is required'' [])
          else if WPR_MaxSnapshotAge request \<le> 0
          then Inl (Sprintf ''match workers: maximum snapshot age must be positive'' [])
          else (case match_workers rt request [] (sort_less (\<lambda>a b. Worker_ID a < Worker_ID b) inventory) of
            Inl err \<Rightarrow> Inl err
          | Inr evaluations \<Rightarrow>
              Inr \<lparr>WP_EligibleWorkerIDs = map Eval_WorkerID (filter Eval_Eligible evaluations),
                   WP_Evaluations = evaluations\<rparr>))"

section \<open>Scores and selection\<close>

definition DefaultPreferenceWeights :: "string \<rightharpoonup> float64" where
  "DefaultPreferenceWeights =
     [''cpu-class-fit'' \<mapsto> Fin 1, ''cpu-headroom'' \<mapsto> Fin (1 / 2), ''data-locality'' \<mapsto> Fin (1 / 4), ''warm-cache'' \<mapsto> Fin 0,
      ''queue-depth'' \<mapsto> Fin 0, ''energy-cost'' \<mapsto> Fin 0, ''operator-affinity'' \<mapsto> Fin 0]"

definition preferenceOrder :: "string list" where
  "preferenceOrder =
     [''cpu-class-fit'', ''cpu-headroom'', ''data-locality'', ''warm-cache'', ''queue-depth'', ''energy-cost'', ''operator-affinity'']"

definition cpuClassFit :: "ResourceDemand \<Rightarrow> CPUClass \<Rightarrow> float64" where
  "cpuClassFit demand c =
     (if \<not> CPUClass_Valid c then Fin 0
      else
        let target = TargetCPUClass demand;
            targetRank = (if CPUClass_Valid target then CPUClass_Rank target else CPUClass_Rank CPUClassLow);
            distance = \<bar>CPUClass_Rank c - targetRank\<bar>;
            fit = f_sub (Fin 1) (f_mul (Fin (1 / 4)) (f_of_int distance))
        in if f_lt fit (Fin 0) then Fin 0 else fit)"

definition dataLocality :: "Task \<Rightarrow> string \<Rightarrow> float64" where
  "dataLocality task workerID =
     (let bindings = Task_DirectoryBindings task;
          local = filter (\<lambda>b. Reg_WorkerID (Identity_Registration (Binding_Identity b)) = workerID) bindings
      in if bindings = [] then Fin 0 else f_div (f_of_int (int (length local))) (f_of_int (int (length bindings))))"

definition preference_value :: "Task \<Rightarrow> WorkerInventory \<Rightarrow> string \<Rightarrow> float64" where
  "preference_value task worker name =
     (if name = ''cpu-class-fit'' then cpuClassFit (Task_ResourceDemand task) (Worker_CPUClass worker)
      else if name = ''cpu-headroom'' then Headroom (Worker_Pressure worker)
      else if name = ''data-locality'' then dataLocality task (Worker_ID worker)
      else Fin 0)"

definition score_component :: "Task \<Rightarrow> WorkerInventory \<Rightarrow> (string \<rightharpoonup> float64) \<Rightarrow> string \<Rightarrow> PlacementScoreComponent" where
  "score_component task worker weights name =
     \<lparr>Component_Name = name, Component_Weight = (case weights name of None \<Rightarrow> Fin 0 | Some w \<Rightarrow> w),
      Component_Value = preference_value task worker name\<rparr>"

definition scoreWorker :: "Task \<Rightarrow> WorkerInventory \<Rightarrow> (string \<rightharpoonup> float64) \<Rightarrow> PlacementScore" where
  "scoreWorker task worker weights =
     (let components = map (score_component task worker weights) preferenceOrder
      in \<lparr>Score_WorkerID = Worker_ID worker,
          Score_Total = fold (\<lambda>c total. f_add total (f_mul (Component_Weight c) (Component_Value c))) components (Fin 0),
          Score_Components = components\<rparr>)"

definition ResourceRankLess :: "ResourceEvaluation \<Rightarrow> ResourceEvaluation \<Rightarrow> bool" where
  "ResourceRankLess a b =
     (if (RE_State a = StateKnown) \<noteq> (RE_State b = StateKnown) then RE_State a = StateKnown
      else RE_State a = StateKnown \<and> f_lt (RE_Score b) (RE_Score a))"

text \<open>The last evaluation of a worker, and the first score; zero values where there is none.\<close>

definition evaluation_of :: "PlacementDecision \<Rightarrow> string \<Rightarrow> ResourceEvaluation" where
  "evaluation_of decision workerID =
     (case find (\<lambda>e. RE_WorkerID e = workerID) (rev (PD_ResourceEvaluations decision)) of
        None \<Rightarrow> zero_ResourceEvaluation | Some e \<Rightarrow> e)"

definition scoreFor :: "PlacementScore list \<Rightarrow> string \<Rightarrow> PlacementScore" where
  "scoreFor scores workerID =
     (case find (\<lambda>s. Score_WorkerID s = workerID) scores of
        None \<Rightarrow> \<lparr>Score_WorkerID = '''', Score_Total = Fin 0, Score_Components = []\<rparr> | Some s \<Rightarrow> s)"

definition placementBetter :: "PlacementDecision \<Rightarrow> string \<Rightarrow> string \<Rightarrow> bool" where
  "placementBetter decision candidate incumbent =
     (let a = evaluation_of decision candidate; b = evaluation_of decision incumbent
      in if ResourceRankLess a b then True
         else if ResourceRankLess b a then False
         else f_lt (Score_Total (scoreFor (PD_Scores decision) incumbent)) (Score_Total (scoreFor (PD_Scores decision) candidate)))"

definition set_rank :: "int \<times> string \<Rightarrow> ResourceEvaluation list \<Rightarrow> ResourceEvaluation list" where
  "set_rank ranked es = map (\<lambda>e. if RE_WorkerID e = snd ranked then e\<lparr>RE_Rank := fst ranked\<rparr> else e) es"

definition rankResourceEvaluations :: "PlacementDecision \<Rightarrow> PlacementDecision" where
  "rankResourceEvaluations decision =
     (let ids = sort_less (placementBetter decision) (map Score_WorkerID (PD_Scores decision));
          ranked = zip (map int [1..<Suc (length ids)]) ids
      in decision\<lparr>PD_ResourceEvaluations := fold set_rank ranked (PD_ResourceEvaluations decision)\<rparr>)"

record PlacementSelection =
  PS_Placement :: WorkerPlacement
  PS_Decision :: PlacementDecision

definition zero_Worker :: WorkerInventory where
  "zero_Worker =
     \<lparr>Worker_Telemetry = None, Worker_ID = '''', Worker_Epoch = '''', Worker_Sequence = 0, Worker_AcceptBacklog = False,
      Worker_Health = WorkerHealthOther '''', Worker_Capabilities = [], Worker_Projects = [], Worker_Providers = [],
      Worker_CPUClass = CPUClassEmpty,
      Worker_Allocatable = \<lparr>Alloc_ExecutorSlots = 0, Alloc_CPUUnits = Fin 0, Alloc_MemoryMB = 0, Alloc_ScratchMB = 0\<rparr>,
      Worker_Reserved = zero_Reserved, Worker_Pressure = \<lparr>Pressure_Normalized = Fin 0, Pressure_Load = Fin 0\<rparr>,
      Worker_ObservedAt = 0\<rparr>"

definition worker_named :: "WorkerInventory list \<Rightarrow> string \<Rightarrow> WorkerInventory" where
  "worker_named inventory workerID =
     (case find (\<lambda>w. Worker_ID w = workerID) (rev inventory) of None \<Rightarrow> zero_Worker | Some w \<Rightarrow> w)"

definition snapshot_ref :: "WorkerInventory \<Rightarrow> CapacitySnapshotRef" where
  "snapshot_ref worker =
     (let s = CapacitySnapshot worker
      in \<lparr>Ref_WorkerID = Capacity_WorkerID s, Ref_WorkerEpoch = Capacity_WorkerEpoch s, Ref_Sequence = Capacity_Sequence s,
          Ref_ObservedAt = Capacity_ObservedAt s\<rparr>)"

definition rejections_of :: "WorkerEvaluation \<Rightarrow> PlacementRejection list" where
  "rejections_of evaluation =
     map (\<lambda>e. \<lparr>Rejection_WorkerID = Eval_WorkerID evaluation, Rejection_Code = Exclusion_Code e, Rejection_Detail = Exclusion_Detail e\<rparr>)
       (Eval_Exclusions evaluation)"

text \<open>The decision that the evaluations give, before ranking and selection.\<close>

definition explain_placement :: "WorkerPlacementRequest \<Rightarrow> WorkerInventory list \<Rightarrow> WorkerPlacement \<Rightarrow> PlacementDecision" where
  "explain_placement request inventory placement =
     (let evaluations = WP_Evaluations placement; task = WPR_Task request;
          weights = (case WPR_PreferenceWeights request of None \<Rightarrow> DefaultPreferenceWeights | Some w \<Rightarrow> w);
          worker = (\<lambda>e. worker_named inventory (Eval_WorkerID e))
      in \<lparr>PD_ResourceEvaluations = List.map_filter Eval_Resource evaluations, PD_TaskID = Task_ID task, PD_AttemptID = '''',
          PD_AssignmentID = '''', PD_SelectedWorkerID = '''', PD_ReservationID = '''', PD_Demand = Task_ResourceDemand task,
          PD_CandidateIDs = map Eval_WorkerID evaluations, PD_Rejections = concat (map rejections_of evaluations),
          PD_Scores = map (\<lambda>e. scoreWorker task (worker e) weights) (filter Eval_Eligible evaluations),
          PD_Snapshots = map (\<lambda>e. snapshot_ref (worker e)) evaluations,
          PD_RouteReresolution = None, PD_DecidedAt = WPR_Now request\<rparr>)"

definition better_of :: "PlacementDecision \<Rightarrow> PlacementScore \<Rightarrow> string \<Rightarrow> string" where
  "better_of decision score selected =
     (if selected = '''' \<or> placementBetter decision (Score_WorkerID score) selected then Score_WorkerID score else selected)"

definition SelectWorker :: "go_runtime \<Rightarrow> WorkerPlacementRequest \<Rightarrow> WorkerInventory list \<Rightarrow> go_text + PlacementSelection" where
  "SelectWorker rt request inventory =
     (case ResourceDemand_Validate (Task_ResourceDemand (WPR_Task request)) of
        Some err \<Rightarrow> Inl (Sprintf ''select worker: %w'' [TextArg err])
      | None \<Rightarrow> (case MatchWorkers rt request inventory of
          Inl err \<Rightarrow> Inl err
        | Inr placement \<Rightarrow>
            let ranked = rankResourceEvaluations (explain_placement request inventory placement);
                decision = ranked\<lparr>PD_SelectedWorkerID := fold (better_of ranked) (PD_Scores ranked) ''''\<rparr>
            in (case PlacementDecision_Validate decision of
                  Some err \<Rightarrow> Inl (Sprintf ''select worker: %w'' [TextArg err])
                | None \<Rightarrow> Inr \<lparr>PS_Placement = placement, PS_Decision = decision\<rparr>)))"

definition WithSelectedWorker :: "PlacementSelection \<Rightarrow> string \<Rightarrow> go_text + PlacementSelection" where
  "WithSelectedWorker s workerID =
     (let selection = s\<lparr>PS_Decision := (PS_Decision s)\<lparr>PD_SelectedWorkerID := workerID\<rparr>\<rparr>
      in case PlacementDecision_Validate (PS_Decision selection) of Some err \<Rightarrow> Inl err | None \<Rightarrow> Inr selection)"

definition WithReservation :: "PlacementSelection \<Rightarrow> ResourceReservation \<Rightarrow> go_text + PlacementDecision" where
  "WithReservation s reservation =
     (let decision = PS_Decision s in
      if PD_SelectedWorkerID decision = ''''
      then Inl (Sprintf ''placement decision has no selected worker to reserve for'' [])
      else if Resv_WorkerID reservation \<noteq> PD_SelectedWorkerID decision
      then Inl (Sprintf ''reservation %q is on worker %q but placement selected %q''
             [StrArg (Resv_ID reservation), StrArg (Resv_WorkerID reservation), StrArg (PD_SelectedWorkerID decision)])
      else
        let d = decision\<lparr>PD_ReservationID := Resv_ID reservation, PD_AssignmentID := Resv_AssignmentID reservation,
                  PD_AttemptID := Resv_AttemptID reservation\<rparr>
        in (case PlacementDecision_Validate d of Some err \<Rightarrow> Inl err | None \<Rightarrow> Inr d))"

text \<open>\<open>reservePlacementResources\<close>: what a proposal is expected to use comes off the telemetry of its
  worker, so that the next task of the pass is placed on what is left.\<close>

definition deducted :: "int64 option \<Rightarrow> int64 \<Rightarrow> int64 option" where
  "deducted value need = map_option (\<lambda>x. let y = wrap64 (x - need) in if y < 0 then 0 else y) value"

definition reserve_telemetry :: "ResourceDemand \<Rightarrow> WorkerTelemetry \<Rightarrow> WorkerTelemetry" where
  "reserve_telemetry demand v =
     v\<lparr>Telemetry_Load1 := map_option (\<lambda>x. f_add x (Demand_CPUUnits demand)) (Telemetry_Load1 v),
       Telemetry_Load5 := map_option (\<lambda>x. f_add x (Demand_CPUUnits demand)) (Telemetry_Load5 v),
       Telemetry_MemoryAvailableMB := deducted (Telemetry_MemoryAvailableMB v) (Demand_MemoryMB demand),
       Telemetry_WorkspaceFreeMB := deducted (Telemetry_WorkspaceFreeMB v) (Demand_ScratchMB demand),
       Telemetry_TempFreeMB := deducted (Telemetry_TempFreeMB v) (Demand_ScratchMB demand),
       Telemetry_RunningAttempts := map_option (\<lambda>x. wrap64 (x + 1)) (Telemetry_RunningAttempts v)\<rparr>"

definition reservePlacementResources :: "WorkerInventory list \<Rightarrow> string \<Rightarrow> ResourceDemand \<Rightarrow> WorkerInventory list" where
  "reservePlacementResources workers workerID demand =
     map (\<lambda>w. if Worker_ID w = workerID then w\<lparr>Worker_Telemetry := map_option (reserve_telemetry demand) (Worker_Telemetry w)\<rparr> else w)
       workers"

end
