(* ===== verification/Routing.thy ===== *)
theory Routing
  imports Placement "HOL-Library.AList"
begin

text \<open>
  Provider routing (\<open>internal/backlog/provider_routing.go\<close>) and the re-resolution of role tasks
  (\<open>role_reresolution.go\<close>): which worker and quota pool a route of a task resolves to, and which
  other candidates of its role a task may use when the pool is at its concurrency limit.

  The maps of the router are looked up by key; the map of workers is also iterated, in the order
  \<open>Runtime_order\<close> gives.
\<close>

section \<open>The router\<close>

record QuotaPool =
  Pool_ID :: string
  Pool_Provider :: string
  Pool_AccountID :: string
  Pool_ProviderInstanceIDs :: "string list"
  Pool_Admission :: AdmissionState
  Pool_MaxConcurrent :: int64
  Pool_ActiveAssignments :: int64

record RouteEstimate =
  RouteEst_AttemptID :: string
  RouteEst_WorkerID :: string
  RouteEst_ProviderInstanceID :: string
  RouteEst_Model :: string
  RouteEst_Options :: "(string \<times> string) list"
  RouteEst_Estimate :: TaskAdmissionEstimate

record providerRouter =
  Router_workers :: "(string \<times> WorkerInventory) list"
  Router_pools :: "string \<rightharpoonup> QuotaPool"
  Router_instancePools :: "string \<Rightarrow> string list"
  Router_estimates :: "string \<rightharpoonup> TaskAdmissionEstimate"
  Router_batchAssignments :: "string \<Rightarrow> int64"

record routedCandidate =
  Routed_candidate :: PlanningCandidate
  Routed_blockers :: "PlanningBlocker list"

definition nonempty_trimmed :: "string \<Rightarrow> bool" where
  "nonempty_trimmed s \<longleftrightarrow> trim_space s = s \<and> s \<noteq> ''''"

definition positiveFinite :: "float64 \<Rightarrow> bool" where
  "positiveFinite x \<longleftrightarrow> f_lt (Fin 0) x \<and> f_finite x"

text \<open>The first of a sorted list that equals its predecessor.\<close>

fun adjacent_duplicate :: "string list \<Rightarrow> string option" where
  "adjacent_duplicate (a # b # rest) = (if b = a then Some b else adjacent_duplicate (b # rest))"
| "adjacent_duplicate _ = None"

definition validateRoutingPool :: "QuotaPool \<Rightarrow> go_text option" where
  "validateRoutingPool pool =
     (if \<not> nonempty_trimmed (Pool_ID pool)
      then Some (Sprintf ''provider routing quota pool ID must be nonempty and trimmed'' [])
      else if Pool_MaxConcurrent pool \<le> 0
      then Some (Sprintf ''provider routing quota pool %q maximum concurrency must be positive'' [StrArg (Pool_ID pool)])
      else if Pool_ActiveAssignments pool < 0
      then Some (Sprintf ''provider routing quota pool %q active assignments cannot be negative'' [StrArg (Pool_ID pool)])
      else if list_ex (\<lambda>i. \<not> nonempty_trimmed i) (Pool_ProviderInstanceIDs pool)
      then Some (Sprintf ''provider routing quota pool %q instance IDs must be nonempty and trimmed'' [StrArg (Pool_ID pool)])
      else (case adjacent_duplicate (sort_strings (Pool_ProviderInstanceIDs pool)) of
        Some i \<Rightarrow> Some (Sprintf ''provider routing quota pool %q repeats provider instance %q'' [StrArg (Pool_ID pool), StrArg i])
      | None \<Rightarrow> None))"

definition estimate_field :: "string \<times> string \<Rightarrow> go_text option" where
  "estimate_field field =
     (if nonempty_trimmed (snd field) then None
      else Some (Sprintf ''provider routing estimate %s must be nonempty and trimmed'' [StrArg (fst field)]))"

definition validateRouteEstimate :: "RouteEstimate \<Rightarrow> go_text option" where
  "validateRouteEstimate e =
     (case first_problem estimate_field
          [(''attempt'', RouteEst_AttemptID e), (''worker'', RouteEst_WorkerID e),
           (''provider instance'', RouteEst_ProviderInstanceID e), (''model'', RouteEst_Model e)] of
        Some err \<Rightarrow> Some err
      | None \<Rightarrow>
          if list_ex (\<lambda>(option, v). \<not> nonempty_trimmed option \<or> \<not> nonempty_trimmed v) (RouteEst_Options e)
          then Some (Sprintf ''provider routing estimate options must have nonempty trimmed names and values'' [])
          else if \<not> positiveFinite (Estimate_RemainingCost (RouteEst_Estimate e))
          then Some (Sprintf ''provider routing estimate remaining cost must be positive and finite'' [])
          else if Estimate_ExpectedRuntime (RouteEst_Estimate e) \<le> 0
          then Some (Sprintf ''provider routing estimate runtime must be positive'' [])
          else if Estimate_CheckpointMargin (RouteEst_Estimate e) < 0
          then Some (Sprintf ''provider routing estimate checkpoint margin cannot be negative'' [])
          else None)"

definition nul :: string where "nul = [char_of (0::nat)]"

definition routeEstimateKey :: "string \<Rightarrow> ProviderRoute \<Rightarrow> string" where
  "routeEstimateKey attemptID route =
     attemptID @ nul @ Route_WorkerID route @ nul @ Route_ProviderInstanceID route @ nul @ Route_Model route
     @ concat (map (\<lambda>key. nul @ key @ ''='' @ (case map_of (Route_Options route) key of None \<Rightarrow> '''' | Some v \<Rightarrow> v))
         (sort_strings (map fst (Route_Options route))))"

definition estimate_route :: "RouteEstimate \<Rightarrow> ProviderRoute" where
  "estimate_route e =
     \<lparr>Route_WorkerID = RouteEst_WorkerID e, Route_ProviderInstanceID = RouteEst_ProviderInstanceID e,
      Route_Model = RouteEst_Model e, Route_Options = RouteEst_Options e, Route_QuotaPoolID = ''''\<rparr>"

definition routeEstimateInputKey :: "RouteEstimate \<Rightarrow> string" where
  "routeEstimateInputKey e = routeEstimateKey (RouteEst_AttemptID e) (estimate_route e)"

definition add_instance :: "string \<Rightarrow> string \<Rightarrow> providerRouter \<Rightarrow> providerRouter" where
  "add_instance poolID inst router =
     router\<lparr>Router_instancePools := (Router_instancePools router)(inst := Router_instancePools router inst @ [poolID])\<rparr>"

definition add_pool_route :: "QuotaPool \<Rightarrow> providerRouter \<Rightarrow> providerRouter" where
  "add_pool_route pool router =
     (let sorted = pool\<lparr>Pool_ProviderInstanceIDs := sort_strings (Pool_ProviderInstanceIDs pool)\<rparr>
      in fold (add_instance (Pool_ID pool)) (Pool_ProviderInstanceIDs sorted)
           (router\<lparr>Router_pools := (Router_pools router)(Pool_ID pool \<mapsto> sorted)\<rparr>))"

fun add_pool_routes :: "QuotaPool list \<Rightarrow> providerRouter \<Rightarrow> go_text + providerRouter" where
  "add_pool_routes [] router = Inr router"
| "add_pool_routes (pool # pools) router =
     (case validateRoutingPool pool of
        Some err \<Rightarrow> Inl err
      | None \<Rightarrow>
          if Router_pools router (Pool_ID pool) \<noteq> None
          then Inl (Sprintf ''provider routing repeats quota pool %q'' [StrArg (Pool_ID pool)])
          else add_pool_routes pools (add_pool_route pool router))"

fun add_estimates :: "RouteEstimate list \<Rightarrow> providerRouter \<Rightarrow> go_text + providerRouter" where
  "add_estimates [] router = Inr router"
| "add_estimates (e # es) router =
     (case validateRouteEstimate e of
        Some err \<Rightarrow> Inl err
      | None \<Rightarrow>
          if Router_estimates router (routeEstimateInputKey e) \<noteq> None
          then Inl (Sprintf ''provider routing repeats estimate for attempt %q worker %q instance %q model %q''
                 [StrArg (RouteEst_AttemptID e), StrArg (RouteEst_WorkerID e), StrArg (RouteEst_ProviderInstanceID e),
                  StrArg (RouteEst_Model e)])
          else add_estimates es
            (router\<lparr>Router_estimates := (Router_estimates router)(routeEstimateInputKey e \<mapsto> RouteEst_Estimate e)\<rparr>))"

definition empty_router :: "WorkerInventory list \<Rightarrow> providerRouter" where
  "empty_router workers =
     \<lparr>Router_workers = fold (\<lambda>w. AList.update (Worker_ID w) w) workers [], Router_pools = Map.empty,
      Router_instancePools = (\<lambda>_. []), Router_estimates = Map.empty, Router_batchAssignments = (\<lambda>_. 0)\<rparr>"

definition newProviderRouter :: "WorkerInventory list \<Rightarrow> QuotaPool list \<Rightarrow> RouteEstimate list \<Rightarrow> go_text + providerRouter" where
  "newProviderRouter workers pools estimates =
     (case add_pool_routes (sort_less (\<lambda>a b. Pool_ID a < Pool_ID b) pools) (empty_router workers) of
        Inl err \<Rightarrow> Inl err
      | Inr router \<Rightarrow>
          add_estimates (sort_less (\<lambda>a b. routeEstimateInputKey a < routeEstimateInputKey b) estimates) router)"

section \<open>Candidates\<close>

definition workerProvider :: "WorkerInventory \<Rightarrow> string \<Rightarrow> WorkerProviderInventory option" where
  "workerProvider worker instanceID = find (\<lambda>p. Provider_InstanceID p = instanceID) (Worker_Providers worker)"

definition poolBlocker :: "int \<Rightarrow> string \<Rightarrow> ProviderRoute \<Rightarrow> string \<Rightarrow> go_text \<Rightarrow> PlanningBlocker" where
  "poolBlocker routeOrdinal workerID route poolID detail =
     (planning_blocker ''route-quota-pool-unavailable'' detail)
       \<lparr>PB_WorkerID := workerID, PB_RouteOrdinal := routeOrdinal, PB_ProviderInstanceID := Route_ProviderInstanceID route,
        PB_Model := Route_Model route, PB_QuotaPoolID := poolID\<rparr>"

definition resolvePool :: "providerRouter \<Rightarrow> int \<Rightarrow> string \<Rightarrow> ProviderRoute \<Rightarrow> WorkerProviderInventory \<Rightarrow> PlanningBlocker + string" where
  "resolvePool router routeOrdinal workerID preference provider =
     (let requested = Route_QuotaPoolID preference; reported = Provider_QuotaPoolID provider;
          inst = Route_ProviderInstanceID preference; listed = Router_instancePools router inst;
          blocked = (\<lambda>poolID format args. Inl (poolBlocker routeOrdinal workerID preference poolID (Sprintf format args)))
      in if requested \<noteq> '''' \<and> reported \<noteq> '''' \<and> requested \<noteq> reported
         then blocked requested ''route quota pool %q conflicts with worker inventory pool %q'' [StrArg requested, StrArg reported]
         else
           let named = (if requested = '''' then reported else requested) in
           if named = '''' \<and> length listed > 1
           then blocked '''' ''provider instance %q maps to multiple fleet quota pools; worker inventory must select one'' [StrArg inst]
           else
             let poolID = (if named = '''' \<and> length listed = 1 then hd listed else named) in
             (case Router_pools router poolID of
                None \<Rightarrow> blocked poolID ''provider instance %q has no fleet quota pool'' [StrArg inst]
              | Some pool \<Rightarrow>
                  if poolID = '''' then blocked poolID ''provider instance %q has no fleet quota pool'' [StrArg inst]
                  else if inst \<notin> set (Pool_ProviderInstanceIDs pool)
                  then blocked poolID ''quota pool %q does not include provider instance %q'' [StrArg poolID, StrArg inst]
                  else Inr poolID))"

definition pool_load :: "providerRouter \<Rightarrow> string \<Rightarrow> QuotaPool \<Rightarrow> int64" where
  "pool_load router poolID pool = wrap64 (Pool_ActiveAssignments pool + Router_batchAssignments router poolID)"

definition route_blocker :: "string \<Rightarrow> int \<Rightarrow> ProviderRoute \<Rightarrow> string \<Rightarrow> go_text \<Rightarrow> PlanningBlocker" where
  "route_blocker workerID routeOrdinal route code detail =
     (planning_blocker code detail)
       \<lparr>PB_WorkerID := workerID, PB_RouteOrdinal := routeOrdinal, PB_ProviderInstanceID := Route_ProviderInstanceID route,
        PB_Model := Route_Model route\<rparr>"

text \<open>A route whose pool is resolved: its pool may be at the limit and its estimate may be missing.\<close>

definition routed_in_pool :: "providerRouter \<Rightarrow> PlanningCandidate \<Rightarrow> ProviderRoute \<Rightarrow> string \<Rightarrow> routedCandidate" where
  "routed_in_pool router candidate route0 poolID =
     (let route = route0\<lparr>Route_QuotaPoolID := poolID\<rparr>; ordinal = Candidate_RouteOrdinal candidate;
          attempt = Attempt_ID (Candidate_Attempt candidate);
          blocked = (\<lambda>code format args. (route_blocker (Candidate_WorkerID candidate) ordinal route code (Sprintf format args))
                        \<lparr>PB_QuotaPoolID := poolID\<rparr>);
          limit = (case Router_pools router poolID of
                None \<Rightarrow> []
              | Some pool \<Rightarrow>
                  if pool_load router poolID pool \<ge> Pool_MaxConcurrent pool
                  then [blocked ''quota-pool-concurrency'' ''quota pool %q has %d active or planned assignments at its limit of %d''
                          [StrArg poolID, IntArg (pool_load router poolID pool), IntArg (Pool_MaxConcurrent pool)]]
                  else [])
      in case Router_estimates router (routeEstimateKey attempt route) of
           Some e \<Rightarrow> \<lparr>Routed_candidate = candidate\<lparr>Candidate_Route := Some route, Candidate_Estimate := Some e\<rparr>, Routed_blockers = limit\<rparr>
         | None \<Rightarrow>
             \<lparr>Routed_candidate = candidate\<lparr>Candidate_Route := Some route\<rparr>,
              Routed_blockers = limit @ [blocked ''route-estimate-missing''
                ''route %d has no remaining-cost and runtime estimate for attempt %q'' [IntArg ordinal, StrArg attempt]]\<rparr>)"

definition resolveCandidate ::
  "providerRouter \<Rightarrow> Task \<Rightarrow> Attempt \<Rightarrow> string \<Rightarrow> int \<Rightarrow> ProviderRoute \<Rightarrow> routedCandidate" where
  "resolveCandidate router task attempt workerID routeOrdinal preference =
     (let route = preference\<lparr>Route_WorkerID := workerID\<rparr>; inst = Route_ProviderInstanceID preference;
          candidate = \<lparr>Candidate_WorkflowRunID = '''', Candidate_Task = task, Candidate_Attempt = attempt,
            Candidate_WorkerID = workerID, Candidate_RouteOrdinal = routeOrdinal, Candidate_Route = Some route, Candidate_Estimate = None\<rparr>;
          blocked = (\<lambda>code format args. \<lparr>Routed_candidate = candidate,
            Routed_blockers = [route_blocker workerID routeOrdinal preference code (Sprintf format args)]\<rparr>);
          worker = (case map_of (Router_workers router) workerID of None \<Rightarrow> zero_Worker | Some w \<Rightarrow> w)
      in if Route_WorkerID preference \<noteq> '''' \<and> Route_WorkerID preference \<noteq> workerID
         then blocked ''route-worker-mismatch'' ''route %d requires worker %q'' [IntArg routeOrdinal, StrArg (Route_WorkerID preference)]
         else (case workerProvider worker inst of
           None \<Rightarrow> blocked ''provider-instance-unavailable'' ''provider instance %q is not installed on worker %q'' [StrArg inst, StrArg workerID]
         | Some provider \<Rightarrow>
             if \<not> Provider_Available provider
             then blocked ''provider-instance-unavailable'' ''provider instance %q is unavailable on worker %q'' [StrArg inst, StrArg workerID]
             else if Route_Model preference \<notin> set (Provider_Models provider)
             then blocked ''provider-model-unavailable'' ''model %q is unavailable from provider instance %q on worker %q''
                    [StrArg (Route_Model preference), StrArg inst, StrArg workerID]
             else (case resolvePool router routeOrdinal workerID preference provider of
               Inl b \<Rightarrow> \<lparr>Routed_candidate = candidate, Routed_blockers = [b]\<rparr>
             | Inr poolID \<Rightarrow> routed_in_pool router candidate route poolID)))"

definition unrouted :: "Task \<Rightarrow> Attempt \<Rightarrow> string \<Rightarrow> routedCandidate" where
  "unrouted task attempt workerID =
     \<lparr>Routed_candidate = \<lparr>Candidate_WorkflowRunID = '''', Candidate_Task = task, Candidate_Attempt = attempt,
        Candidate_WorkerID = workerID, Candidate_RouteOrdinal = 0, Candidate_Route = None, Candidate_Estimate = None\<rparr>,
      Routed_blockers = []\<rparr>"

definition Candidates :: "providerRouter \<Rightarrow> Task \<Rightarrow> Attempt \<Rightarrow> string list \<Rightarrow> routedCandidate list" where
  "Candidates router task attempt workerIDs =
     (if Task_Routes task = [] then map (unrouted task attempt) workerIDs
      else concat (map (\<lambda>(ordinal, preference). map (\<lambda>workerID. resolveCandidate router task attempt workerID ordinal preference) workerIDs)
             (zip (map int [1..<Suc (length (Task_Routes task))]) (Task_Routes task))))"

definition router_Reserve :: "providerRouter \<Rightarrow> PlanningCandidate \<Rightarrow> providerRouter" where
  "router_Reserve router candidate =
     (case Candidate_Route candidate of
        None \<Rightarrow> router
      | Some route \<Rightarrow>
          if Route_QuotaPoolID route = '''' then router
          else router\<lparr>Router_batchAssignments := (Router_batchAssignments router)
                 (Route_QuotaPoolID route := wrap64 (Router_batchAssignments router (Route_QuotaPoolID route) + 1))\<rparr>)"

record ResolvedProviderRoute =
  Resolved_WorkerID :: string
  Resolved_QuotaPoolID :: string

definition usable_route :: "routedCandidate \<Rightarrow> bool" where
  "usable_route c \<longleftrightarrow> list_all (\<lambda>b. PB_Code b = ''route-estimate-missing'' \<or> PB_Code b = ''quota-pool-concurrency'') (Routed_blockers c)"

definition resolved_routes :: "routedCandidate \<Rightarrow> ResolvedProviderRoute list" where
  "resolved_routes c =
     (case Candidate_Route (Routed_candidate c) of
        None \<Rightarrow> []
      | Some route \<Rightarrow>
          if usable_route c
          then [\<lparr>Resolved_WorkerID = Candidate_WorkerID (Routed_candidate c), Resolved_QuotaPoolID = Route_QuotaPoolID route\<rparr>]
          else [])"

definition ExplainProviderRoutePools ::
  "Task \<Rightarrow> Attempt \<Rightarrow> WorkerInventory list \<Rightarrow> QuotaPool list \<Rightarrow> go_text + ResolvedProviderRoute list \<times> PlanningBlocker list" where
  "ExplainProviderRoutePools task attempt workers pools =
     (case newProviderRouter workers pools [] of
        Inl err \<Rightarrow> Inl err
      | Inr router \<Rightarrow>
          let candidates = Candidates router task attempt (sort_strings (map Worker_ID workers))
          in Inr (concat (map resolved_routes candidates),
                  concat (map (\<lambda>c. filter (\<lambda>b. PB_Code b \<noteq> ''route-estimate-missing'') (Routed_blockers c)) candidates)))"

section \<open>Role re-resolution\<close>

definition RouteRankBand :: "string \<Rightarrow> int" where
  "RouteRankBand band =
     (if band = ''reset-soon'' then 0 else if band = ''healthy'' then 1 else if band = ''unknown'' then 2
      else if band = ''saturated'' then 3 else 4)"

definition candidatePool :: "providerRouter \<Rightarrow> string \<Rightarrow> string \<Rightarrow> string \<Rightarrow> string" where
  "candidatePool router routePool inst recorded =
     (if routePool \<noteq> '''' \<and> Router_pools router routePool \<noteq> None then routePool
      else if recorded \<noteq> '''' \<and> Router_pools router recorded \<noteq> None then recorded
      else if length (Router_instancePools router inst) = 1 then hd (Router_instancePools router inst)
      else '''')"

definition poolSaturated :: "providerRouter \<Rightarrow> string \<Rightarrow> bool" where
  "poolSaturated router poolID =
     (case Router_pools router poolID of
        None \<Rightarrow> False
      | Some pool \<Rightarrow> pool_load router poolID pool \<ge> Pool_MaxConcurrent pool)"

definition alias_estimate :: "string \<Rightarrow> ProviderRoute \<Rightarrow> ProviderRoute \<Rightarrow> string \<Rightarrow> providerRouter \<Rightarrow> providerRouter" where
  "alias_estimate attemptID source target workerID router =
     (let target_key = routeEstimateKey attemptID (target\<lparr>Route_WorkerID := workerID\<rparr>)
      in case Router_estimates router (routeEstimateKey attemptID (source\<lparr>Route_WorkerID := workerID\<rparr>)) of
           None \<Rightarrow> router
         | Some e \<Rightarrow>
             if Router_estimates router target_key \<noteq> None then router
             else router\<lparr>Router_estimates := (Router_estimates router)(target_key \<mapsto> e)\<rparr>)"

definition aliasEstimates :: "go_runtime \<Rightarrow> string \<Rightarrow> ProviderRoute \<Rightarrow> ProviderRoute \<Rightarrow> providerRouter \<Rightarrow> providerRouter" where
  "aliasEstimates rt attemptID source target router =
     fold (alias_estimate attemptID source target) (Runtime_order rt (map fst (Router_workers router))) router"

definition verdictPool :: "RoleCandidateVerdict list \<Rightarrow> string \<Rightarrow> string" where
  "verdictPool verdicts route =
     (case find (\<lambda>v. Verdict_Route v = route) verdicts of None \<Rightarrow> '''' | Some v \<Rightarrow> Verdict_Pool v)"

definition review_constrained :: "Task \<Rightarrow> bool" where
  "review_constrained task \<longleftrightarrow>
     Task_ReviewOutput task \<noteq> None \<or> Task_ReviewRequirements task \<noteq> None \<or> Task_ReviewJudge task \<or>
     (case Task_RoleSelection task of
        None \<Rightarrow> False
      | Some selection \<Rightarrow> Diversity_CrossProvider (Selection_Diversity selection) \<or>
          Diversity_ProducerFamilies (Selection_Diversity selection) \<noteq> [])"

definition hasDependentReviewConstraint :: "Task \<Rightarrow> Task list \<Rightarrow> bool" where
  "hasDependentReviewConstraint producer tasks =
     list_ex (\<lambda>task. review_constrained task \<and>
       (list_ex (\<lambda>name. name = Task_Name producer \<or> name = Task_ID producer) (Task_Needs task) \<or>
        list_ex (\<lambda>name. name = Task_Name producer \<or> name = Task_ID producer) (map fst (Task_DependencyInputs task)))) tasks"

definition effort_level :: "string \<Rightarrow> int" where
  "effort_level effort = (if effort = ''low'' then 1 else if effort = ''medium'' then 2 else if effort = ''high'' then 3 else 0)"

record roleAlternative =
  Alternative_task :: Task
  Alternative_receipt :: RouteReresolution

definition verdict_less :: "RoleCandidateVerdict \<Rightarrow> RoleCandidateVerdict \<Rightarrow> bool" where
  "verdict_less a b =
     (if RouteRankBand (Verdict_Band a) \<noteq> RouteRankBand (Verdict_Band b)
      then RouteRankBand (Verdict_Band a) < RouteRankBand (Verdict_Band b)
      else Verdict_Ordinal a < Verdict_Ordinal b)"

definition route_text :: "ProviderRoute \<Rightarrow> string" where
  "route_text route = Route_ProviderInstanceID route @ ''/'' @ Route_Model route"

definition saturation_receipt ::
  "providerRouter \<Rightarrow> Task \<Rightarrow> RoleSelection \<Rightarrow> ProviderRoute \<Rightarrow> string \<Rightarrow> RoleCandidateVerdict \<Rightarrow> string \<Rightarrow> string \<Rightarrow> instant
     \<Rightarrow> RouteReresolution" where
  "saturation_receipt router task selection current fromPool candidate toPool effort now =
     (let numbers = (\<lambda>poolID. case Router_pools router poolID of
            None \<Rightarrow> [IntArg (Router_batchAssignments router poolID), IntArg 0]
          | Some pool \<Rightarrow> [IntArg (pool_load router poolID pool), IntArg (Pool_MaxConcurrent pool)])
      in \<lparr>RR_Role = Task_Role task, RR_FromRoute = route_text current, RR_FromPool = fromPool,
          RR_ToRoute = Verdict_Route candidate, RR_ToPool = toPool, RR_Effort = effort, RR_Ranking = Selection_Ranking selection,
          RR_Reason = Sprintf ''quota pool %q has %d active or planned assignments at its concurrency limit of %d; role candidate %s in pool %q has room (%d of %d)''
            (StrArg fromPool # numbers fromPool @ [StrArg (Verdict_Route candidate), StrArg toPool] @ numbers toPool),
          RR_DecidedAt = now\<rparr>)"

text \<open>What the loop over the candidates does with one of them: skip it, or alias the estimates of
  its route and add it as an alternative.\<close>

definition candidate_alternative ::
  "go_runtime \<Rightarrow> Task \<Rightarrow> RoleSelection \<Rightarrow> Attempt \<Rightarrow> instant \<Rightarrow> ProviderRoute \<Rightarrow> string \<Rightarrow> RoleCandidateVerdict \<Rightarrow> providerRouter
     \<Rightarrow> (roleAlternative \<times> providerRouter) option" where
  "candidate_alternative rt task selection attempt now current fromPool candidate router =
     (if \<not> Verdict_Eligible candidate \<or> Verdict_Route candidate = route_text current \<or>
         RouteRankBand (Verdict_Band candidate) \<ge> RouteRankBand ''gated'' then None
      else (case cut_at CHR ''/'' (Verdict_Route candidate) of
        None \<Rightarrow> None
      | Some (inst, model) \<Rightarrow>
          if inst = '''' \<or> model = '''' then None
          else
            let effort = (if Task_RoleEffort task = '''' then Verdict_Effort candidate else Task_RoleEffort task) in
            if effort_level effort = 0 \<or> effort_level (Verdict_Effort candidate) = 0 \<or>
               effort_level effort > effort_level (Verdict_Effort candidate) then None
            else
              let toPool = candidatePool router '''' inst (Verdict_Pool candidate) in
              if toPool = '''' \<or> toPool = fromPool \<or> poolSaturated router toPool then None
              else if (case Router_pools router toPool of
                         None \<Rightarrow> False
                       | Some pool \<Rightarrow> Pool_Admission pool = AdmissionClosed \<or> Pool_Admission pool = AdmissionDraining) then None
              else
                let route = \<lparr>Route_WorkerID = '''', Route_ProviderInstanceID = inst, Route_Model = model,
                      Route_Options = effort_options effort, Route_QuotaPoolID = ''''\<rparr>
                in Some (\<lparr>Alternative_task = task\<lparr>Task_Routes := [route]\<rparr>,
                          Alternative_receipt = saturation_receipt router task selection current fromPool candidate toPool effort now\<rparr>,
                         aliasEstimates rt (Attempt_ID attempt) current route router)))"

fun collect_alternatives ::
  "(RoleCandidateVerdict \<Rightarrow> providerRouter \<Rightarrow> (roleAlternative \<times> providerRouter) option) \<Rightarrow> RoleCandidateVerdict list \<Rightarrow> providerRouter
     \<Rightarrow> roleAlternative list \<times> providerRouter" where
  "collect_alternatives f [] router = ([], router)"
| "collect_alternatives f (c # cs) router =
     (case f c router of
        None \<Rightarrow> collect_alternatives f cs router
      | Some (alternative, router') \<Rightarrow>
          (let (rest, router'') = collect_alternatives f cs router' in (alternative # rest, router'')))"

definition may_reresolve :: "Task \<Rightarrow> Attempt \<Rightarrow> bool" where
  "may_reresolve task attempt \<longleftrightarrow>
     Task_Role task \<noteq> '''' \<and> (case Task_RoleSelection task of None \<Rightarrow> False | Some s \<Rightarrow> Selection_Candidates s \<noteq> []) \<and>
     length (Task_Routes task) = 1 \<and>
     Attempt_Number attempt = 1 \<and> Attempt_AssignmentID attempt = '''' \<and> Attempt_StartedAt attempt = None \<and>
     Attempt_Progress attempt = ProgressReady \<and> \<not> Attempt_AdminForceStart attempt \<and> \<not> review_constrained task"

definition saturatedRoleAlternatives ::
  "go_runtime \<Rightarrow> providerRouter \<Rightarrow> Task \<Rightarrow> Attempt \<Rightarrow> instant \<Rightarrow> roleAlternative list \<times> providerRouter" where
  "saturatedRoleAlternatives rt router task attempt now =
     (case Task_RoleSelection task of
        None \<Rightarrow> ([], router)
      | Some selection \<Rightarrow>
          if \<not> may_reresolve task attempt then ([], router)
          else
            let current = hd (Task_Routes task) in
            if Route_WorkerID current \<noteq> '''' then ([], router)
            else
              let fromPool = candidatePool router (Route_QuotaPoolID current) (Route_ProviderInstanceID current)
                    (verdictPool (Selection_Candidates selection) (route_text current))
              in if fromPool = '''' \<or> \<not> poolSaturated router fromPool then ([], router)
                 else collect_alternatives
                   (candidate_alternative rt task selection attempt now current fromPool)
                   (sort_less verdict_less (Selection_Candidates selection)) router)"

end
