(* ===== verification/Planner.thy ===== *)
theory Planner
  imports Routing Dag
begin

text \<open>
  The dispatch planner (\<open>internal/backlog/planner.go\<close>) with its directory session
  (\<open>directory_planning.go\<close>): \<open>BuildPlan\<close> orders the open tasks of all runs, places and routes each on
  a worker, and proposes those that nothing blocks, reserving what a proposal takes before the
  next task is planned.

  A nil map is \<open>None\<close>; writing to it is the panic \<open>PlanPanic\<close>. \<open>PlanLoop\<close> stands for a cycle
  search of the graph that does not return; it never does.
\<close>

section \<open>Directory ownership\<close>

record DirectoryOwner =
  DirOwner_AttemptID :: string
  DirOwner_Bindings :: "Binding list"

definition holds_conflicting :: "Binding \<Rightarrow> DirectoryOwner \<Rightarrow> bool" where
  "holds_conflicting binding owner =
     list_ex (\<lambda>held. ValidateBinding held \<noteq> None \<or> Conflicts binding held) (DirOwner_Bindings owner)"

definition overlap_blocker :: "string \<Rightarrow> string \<Rightarrow> PlanningBlocker" where
  "overlap_blocker resource owner =
     (planning_blocker ''resource-busy''
        (Sprintf ''directory %q overlaps retained ownership by attempt %q'' [StrArg resource, StrArg owner]))
       \<lparr>PB_Resource := resource, PB_OwnerID := owner\<rparr>"

definition binding_blockers :: "DirectoryOwner list \<Rightarrow> PlanningCandidate \<Rightarrow> Binding \<Rightarrow> PlanningBlocker list" where
  "binding_blockers owners candidate binding =
     (let registration = Identity_Registration (Binding_Identity binding); resource = Reg_ResourceID registration
      in case ValidateBinding binding of
           Some err \<Rightarrow> [(planning_blocker ''directory-invalid'' (error_text err))\<lparr>PB_Resource := resource\<rparr>]
         | None \<Rightarrow>
             if Reg_WorkerID registration \<noteq> Candidate_WorkerID candidate
             then [(planning_blocker ''directory-host'' (Sprintf ''directory is registered on a different worker'' []))
                     \<lparr>PB_Resource := resource\<rparr>]
             else map (\<lambda>owner. overlap_blocker resource (DirOwner_AttemptID owner))
               (filter (\<lambda>owner. DirOwner_AttemptID owner \<noteq> Attempt_ID (Candidate_Attempt candidate) \<and>
                                holds_conflicting binding owner) owners))"

definition directory_Evaluate :: "DirectoryOwner list \<Rightarrow> PlanningCandidate \<Rightarrow> PlanningBlocker list" where
  "directory_Evaluate owners candidate =
     concat (map (binding_blockers owners candidate) (Task_DirectoryBindings (Candidate_Task candidate)))"

definition directory_Reserve :: "DirectoryOwner list \<Rightarrow> PlanningCandidate \<Rightarrow> DirectoryOwner list" where
  "directory_Reserve owners candidate =
     (if Task_DirectoryBindings (Candidate_Task candidate) = [] then owners
      else owners @ [\<lparr>DirOwner_AttemptID = Attempt_ID (Candidate_Attempt candidate),
                      DirOwner_Bindings = Task_DirectoryBindings (Candidate_Task candidate)\<rparr>])"

section \<open>Input and output\<close>

record ExecutionEnvironment =
  Env_Type :: string
  Env_Scope :: string
  Env_Ref :: string

record Workflow =
  Workflow_ID :: string
  Workflow_Project :: string
  Workflow_Environment :: ExecutionEnvironment

record PlanningWorkflow =
  PW_Workflow :: Workflow
  PW_State :: DAGState

record PlanningAttemptOrdering =
  Ordering_ReadySince :: instant
  Ordering_PriorDeferrals :: int
  Ordering_NestedUnder :: string

record PlanningOrderingInput =
  Ordering_DeadlineRiskWindow :: duration
  Ordering_Attempts :: "(string \<times> PlanningAttemptOrdering) list option"

record 's PlanInput =
  Plan_ResourcePolicy :: ResourcePlacementPolicy
  Plan_DirectoryOwners :: "DirectoryOwner list"
  Plan_Now :: instant
  Plan_MaxWorkerSnapshotAge :: duration
  Plan_Workflows :: "PlanningWorkflow list"
  Plan_Workers :: "WorkerInventory list"
  Plan_QuotaPools :: "QuotaPool list"
  Plan_RouteEstimates :: "RouteEstimate list"
  Plan_ResourceOwners :: "(string \<times> string) list option"
  Plan_WorkflowCheckoutOwners :: "(string \<times> string) list option"
  Plan_Constraints :: "'s PlanningConstraint option list"
  Plan_SupervisionSnapshots :: "(string \<times> SupervisionSnapshot) list"
  Plan_Ordering :: PlanningOrderingInput

record PlanningOrder =
  Order_DeadlineRisk :: bool
  Order_DeadlineSlackSeconds :: "int64 option"
  Order_Importance :: int
  Order_InFlight :: bool
  Order_ReadySince :: instant
  Order_PriorDeferrals :: int
  Order_WorkflowRound :: int
  Order_NestedUnder :: string
  Order_Reason :: go_text

record CandidateEvaluation =
  CE_WorkerID :: string
  CE_RouteOrdinal :: int
  CE_Route :: "ProviderRoute option"
  CE_Estimate :: "TaskAdmissionEstimate option"
  CE_Blockers :: "PlanningBlocker list"

record TaskPlanningDecision =
  TPD_WorkflowRunID :: string
  TPD_TaskID :: string
  TPD_TaskName :: string
  TPD_AttemptID :: string
  TPD_Progress :: ProgressState
  TPD_Order :: PlanningOrder
  TPD_Placement :: WorkerPlacement
  TPD_Candidates :: "CandidateEvaluation list"
  TPD_Blockers :: "PlanningBlocker list"
  TPD_Proposed :: bool
  TPD_RouteReresolution :: "RouteReresolution option"

record ProposedTask =
  Proposal_WorkflowRunID :: string
  Proposal_Project :: string
  Proposal_TaskID :: string
  Proposal_AttemptID :: string
  Proposal_WorkerID :: string
  Proposal_Route :: "ProviderRoute option"
  Proposal_Estimate :: "TaskAdmissionEstimate option"
  Proposal_ResourceLocks :: "string list"
  Proposal_Placement :: PlacementDecision

record Plan =
  Plan_Proposals :: "ProposedTask list"
  Plan_Decisions :: "TaskPlanningDecision list"

record planningTaskEntry =
  Entry_workflow :: Workflow
  Entry_state :: DAGState
  Entry_task :: Task
  Entry_attempt :: Attempt
  Entry_order :: PlanningOrder
  Entry_ready :: bool

datatype plan_failure = PlanError go_text | PlanPanic | PlanLoop

abbreviation plan_error :: "string \<Rightarrow> fmt_arg list \<Rightarrow> plan_failure" where
  "plan_error format args \<equiv> PlanError (Sprintf format args)"

section \<open>Validation\<close>

definition bad_owner :: "string \<times> string \<Rightarrow> bool" where
  "bad_owner entry \<longleftrightarrow> \<not> nonempty_trimmed (fst entry) \<or> \<not> nonempty_trimmed (snd entry)"

definition owners_problem :: "'s PlanInput \<Rightarrow> string \<Rightarrow> go_text option" where
  "owners_problem input label =
     (let owners = (if label = ''resource'' then Plan_ResourceOwners input else Plan_WorkflowCheckoutOwners input)
      in if list_ex bad_owner (case owners of None \<Rightarrow> [] | Some es \<Rightarrow> es)
         then Some (Sprintf ''plan %s owners must contain nonempty trimmed keys and values'' [StrArg label]) else None)"

definition snapshot_problem :: "'s PlanInput \<Rightarrow> string \<Rightarrow> go_text option" where
  "snapshot_problem input runID =
     (case map_of (Plan_SupervisionSnapshots input) runID of
        None \<Rightarrow> None
      | Some snapshot \<Rightarrow>
          if blank (Snapshot_RunID snapshot) then Some (Sprintf ''plan supervision snapshot must name its workflow run'' [])
          else if Snapshot_RunID snapshot \<noteq> runID
          then Some (Sprintf ''plan supervision snapshot keyed %q names run %q'' [StrArg runID, StrArg (Snapshot_RunID snapshot)])
          else None)"

fun workflows_problem :: "string list \<Rightarrow> PlanningWorkflow list \<Rightarrow> go_text option" where
  "workflows_problem seen [] = None"
| "workflows_problem seen (w # ws) =
     (let i = Workflow_ID (PW_Workflow w); run = State_Run (PW_State w) in
      if i = '''' \<or> Run_ID run = '''' then Some (Sprintf ''plan workflow and run IDs are required'' [])
      else if i \<noteq> Run_WorkflowID run then Some (Sprintf ''plan workflow %q does not own run %q'' [StrArg i, StrArg (Run_ID run)])
      else if Run_ID run \<in> set seen then Some (Sprintf ''plan repeats workflow run %q'' [StrArg (Run_ID run)])
      else workflows_problem (Run_ID run # seen) ws)"

definition validatePlanInput :: "go_runtime \<Rightarrow> 's PlanInput \<Rightarrow> go_text option" where
  "validatePlanInput rt input =
     (if is_zero_time (Plan_Now input) then Some (Sprintf ''plan current time is required'' [])
      else if Plan_MaxWorkerSnapshotAge input \<le> 0
      then Some (Sprintf ''plan maximum worker snapshot age must be positive'' [])
      else if Ordering_DeadlineRiskWindow (Plan_Ordering input) \<le> 0
      then Some (Sprintf ''plan deadline risk window must be positive'' [])
      else (case Ordering_Attempts (Plan_Ordering input) of
        None \<Rightarrow> Some (Sprintf ''plan attempt ordering history is required'' [])
      | Some attempts \<Rightarrow>
          if list_ex (\<lambda>entry. \<not> nonempty_trimmed (fst entry)) attempts
          then Some (Sprintf ''plan attempt ordering history contains an invalid attempt ID'' [])
          else if list_ex Option.is_none (Plan_Constraints input)
          then Some (Sprintf ''plan input contains a nil planning constraint'' [])
          else (case first_problem (snapshot_problem input) (Runtime_order rt (map fst (Plan_SupervisionSnapshots input))) of
            Some err \<Rightarrow> Some err
          | None \<Rightarrow> (case workflows_problem [] (Plan_Workflows input) of
              Some err \<Rightarrow> Some err
            | None \<Rightarrow> first_problem (owners_problem input) (Runtime_order rt [''resource'', ''workflow checkout''])))))"

section \<open>Order\<close>

text \<open>A duration in whole seconds, truncated toward zero.\<close>

definition whole_seconds :: "duration \<Rightarrow> int64" where
  "whole_seconds d = (if d < 0 then - ((- d) div second) else d div second)"

definition planningOrder :: "'s PlanInput \<Rightarrow> Task \<Rightarrow> PlanningAttemptOrdering \<Rightarrow> PlanningOrder" where
  "planningOrder input task history =
     (let slack = map_option (\<lambda>deadline. time_sub deadline (Plan_Now input)) (Task_Deadline task)
      in \<lparr>Order_DeadlineRisk = (case slack of None \<Rightarrow> False | Some d \<Rightarrow>
            Task_Class task = TaskClassRequired \<and> d \<le> Ordering_DeadlineRiskWindow (Plan_Ordering input)),
          Order_DeadlineSlackSeconds = map_option whole_seconds slack, Order_Importance = Task_Importance task,
          Order_InFlight = False, Order_ReadySince = Ordering_ReadySince history,
          Order_PriorDeferrals = Ordering_PriorDeferrals history, Order_WorkflowRound = 0,
          Order_NestedUnder = Ordering_NestedUnder history, Order_Reason = Sprintf '''' []\<rparr>)"

definition InFlightDeferralBound :: int where
  "InFlightDeferralBound = 8"

definition slack_of :: "planningTaskEntry \<Rightarrow> int64" where
  "slack_of e = (case Order_DeadlineSlackSeconds (Entry_order e) of None \<Rightarrow> 0 | Some s \<Rightarrow> s)"

definition comparePlanningPriority :: "planningTaskEntry \<Rightarrow> planningTaskEntry \<Rightarrow> int" where
  "comparePlanningPriority left right =
     (let l = Entry_order left; r = Entry_order right in
      if Entry_ready left \<noteq> Entry_ready right then (if Entry_ready left then - 1 else 1)
      else if Attempt_AdminForceStart (Entry_attempt left) \<noteq> Attempt_AdminForceStart (Entry_attempt right)
      then (if Attempt_AdminForceStart (Entry_attempt left) then - 1 else 1)
      else if Order_DeadlineRisk l \<noteq> Order_DeadlineRisk r then (if Order_DeadlineRisk l then - 1 else 1)
      else if Order_DeadlineRisk l \<and> slack_of left \<noteq> slack_of right then (if slack_of left < slack_of right then - 1 else 1)
      else if Order_Importance l \<noteq> Order_Importance r then (if Order_Importance l > Order_Importance r then - 1 else 1)
      else if Order_PriorDeferrals l < InFlightDeferralBound \<and> Order_PriorDeferrals r < InFlightDeferralBound \<and>
              Order_InFlight l \<noteq> Order_InFlight r then (if Order_InFlight l then - 1 else 1)
      else if Order_PriorDeferrals l \<noteq> Order_PriorDeferrals r
      then (if Order_PriorDeferrals l > Order_PriorDeferrals r then - 1 else 1)
      else if Order_ReadySince l \<noteq> Order_ReadySince r then (if Order_ReadySince l < Order_ReadySince r then - 1 else 1)
      else 0)"

definition planningOrderReason :: "PlanningOrder \<Rightarrow> go_text" where
  "planningOrderReason order =
     (let prefix = (if Order_DeadlineRisk order
            then Sprintf ''deadline risk with %s slack''
              [DurationArg (wrap64 ((case Order_DeadlineSlackSeconds order of None \<Rightarrow> 0 | Some s \<Rightarrow> s) * second))]
            else Sprintf ''fairness'' []);
          r0 = Sprintf ''%s; importance %d; prior deferrals %d; ready since %s; workflow round %d''
            [TextArg prefix, IntArg (Order_Importance order), IntArg (Order_PriorDeferrals order), TimeArg (Order_ReadySince order),
             IntArg (Order_WorkflowRound order)];
          r1 = (if Order_PriorDeferrals order \<ge> InFlightDeferralBound
                then Sprintf ''%s; in-flight preference bypassed at deferral bound %d'' [TextArg r0, IntArg InFlightDeferralBound]
                else if Order_InFlight order
                then Sprintf ''%s; in-flight preference before fairness below %d deferrals'' [TextArg r0, IntArg InFlightDeferralBound]
                else r0)
      in if Order_NestedUnder order \<noteq> ''''
         then Sprintf ''%s; nested under live attempt %s'' [TextArg r1, StrArg (Order_NestedUnder order)] else r1)"

definition better_attempt :: "string \<Rightarrow> Attempt \<Rightarrow> Attempt \<Rightarrow> Attempt" where
  "better_attempt taskID attempt current =
     (if Attempt_TaskID attempt = taskID \<and>
         (Attempt_ID current = '''' \<or> Attempt_Number attempt > Attempt_Number current \<or>
          Attempt_Number attempt = Attempt_Number current \<and> Attempt_ID attempt < Attempt_ID current)
      then attempt else current)"

definition currentPlanningAttempt :: "Attempt list \<Rightarrow> string \<Rightarrow> Attempt" where
  "currentPlanningAttempt attempts taskID = fold (better_attempt taskID) attempts zero_Attempt"

text \<open>The entry of one task: none for a finished one, an error for bad ordering history.\<close>

definition task_entry ::
  "'s PlanInput \<Rightarrow> Workflow \<Rightarrow> DAGState \<Rightarrow> bool \<Rightarrow> Task \<Rightarrow> plan_failure + planningTaskEntry option" where
  "task_entry input workflow state inFlight task =
     (let attempt = currentPlanningAttempt (State_Attempts state) (Task_ID task); i = StrArg (Attempt_ID attempt) in
      if Terminal (Attempt_Progress attempt) then Inr None
      else (case map_of (case Ordering_Attempts (Plan_Ordering input) of None \<Rightarrow> [] | Some es \<Rightarrow> es) (Attempt_ID attempt) of
        None \<Rightarrow> Inl (plan_error ''plan attempt %q is missing ordering history'' [i])
      | Some history \<Rightarrow>
          if is_zero_time (Ordering_ReadySince history) then Inl (plan_error ''plan attempt %q ready time is required'' [i])
          else if Ordering_ReadySince history > Plan_Now input
          then Inl (plan_error ''plan attempt %q ready time is in the future'' [i])
          else if Ordering_PriorDeferrals history < 0
          then Inl (plan_error ''plan attempt %q prior deferrals must not be negative'' [i])
          else
            let o1 = planningOrder input task history;
                o2 = (case Attempt_AdminImportance attempt of None \<Rightarrow> o1 | Some n \<Rightarrow> o1\<lparr>Order_Importance := n\<rparr>)
            in Inr (Some \<lparr>Entry_workflow = workflow, Entry_state = state, Entry_task = task, Entry_attempt = attempt,
                 Entry_order = o2\<lparr>Order_InFlight := inFlight\<rparr>, Entry_ready = (Attempt_Progress attempt = ProgressReady)\<rparr>)))"

fun task_entries :: "(Task \<Rightarrow> plan_failure + planningTaskEntry option) \<Rightarrow> Task list \<Rightarrow> plan_failure + planningTaskEntry list" where
  "task_entries entry [] = Inr []"
| "task_entries entry (task # tasks) =
     (case entry task of
        Inl err \<Rightarrow> Inl err
      | Inr found \<Rightarrow> (case task_entries entry tasks of
          Inl err \<Rightarrow> Inl err
        | Inr rest \<Rightarrow> Inr ((case found of None \<Rightarrow> [] | Some e \<Rightarrow> [e]) @ rest)))"

definition workflow_entries :: "'s PlanInput \<Rightarrow> PlanningWorkflow \<Rightarrow> plan_failure + planningTaskEntry list" where
  "workflow_entries input w =
     (case NewDAGExecution (PW_State w) of
        None \<Rightarrow> Inl PlanLoop
      | Some (Inl err) \<Rightarrow> Inl (plan_error ''plan workflow run %q: %w''
          [StrArg (Run_ID (State_Run (PW_State w))), TextArg (error_text err)])
      | Some (Inr execution) \<Rightarrow>
          let state = Snapshot execution;
              inFlight = list_ex (\<lambda>a. Attempt_Progress a = ProgressSucceeded) (State_Attempts state)
          in task_entries (task_entry input (PW_Workflow w) state inFlight) (State_Tasks state))"

fun collect_entries :: "'s PlanInput \<Rightarrow> PlanningWorkflow list \<Rightarrow> plan_failure + planningTaskEntry list" where
  "collect_entries input [] = Inr []"
| "collect_entries input (w # ws) =
     (case workflow_entries input w of
        Inl err \<Rightarrow> Inl err
      | Inr es \<Rightarrow> (case collect_entries input ws of Inl err \<Rightarrow> Inl err | Inr rest \<Rightarrow> Inr (es @ rest)))"

abbreviation entry_run :: "planningTaskEntry \<Rightarrow> string" where
  "entry_run e \<equiv> Run_ID (State_Run (Entry_state e))"

definition round_less :: "planningTaskEntry \<Rightarrow> planningTaskEntry \<Rightarrow> bool" where
  "round_less left right =
     (if comparePlanningPriority left right \<noteq> 0 then comparePlanningPriority left right < 0
      else if Task_Name (Entry_task left) \<noteq> Task_Name (Entry_task right) then Task_Name (Entry_task left) < Task_Name (Entry_task right)
      else Task_ID (Entry_task left) < Task_ID (Entry_task right))"

text \<open>The entries of one run in priority order; the place of an entry there is its round.\<close>

definition run_indices :: "planningTaskEntry list \<Rightarrow> string \<Rightarrow> nat list" where
  "run_indices entries runID =
     sort_less (\<lambda>i j. round_less (entries ! i) (entries ! j)) (filter (\<lambda>i. entry_run (entries ! i) = runID) [0..<length entries])"

definition with_round :: "planningTaskEntry list \<Rightarrow> nat \<Rightarrow> planningTaskEntry" where
  "with_round entries i =
     (let e = entries ! i; place = length (takeWhile (\<lambda>j. j \<noteq> i) (run_indices entries (entry_run e)));
          order = (Entry_order e)\<lparr>Order_WorkflowRound := int place\<rparr>
      in e\<lparr>Entry_order := order\<lparr>Order_Reason := planningOrderReason order\<rparr>\<rparr>)"

definition plan_less :: "planningTaskEntry \<Rightarrow> planningTaskEntry \<Rightarrow> bool" where
  "plan_less a b =
     (if comparePlanningPriority a b \<noteq> 0 then comparePlanningPriority a b < 0
      else if Order_WorkflowRound (Entry_order a) \<noteq> Order_WorkflowRound (Entry_order b)
      then Order_WorkflowRound (Entry_order a) < Order_WorkflowRound (Entry_order b)
      else if entry_run a \<noteq> entry_run b then entry_run a < entry_run b
      else if Task_Name (Entry_task a) \<noteq> Task_Name (Entry_task b) then Task_Name (Entry_task a) < Task_Name (Entry_task b)
      else Task_ID (Entry_task a) < Task_ID (Entry_task b))"

definition orderedPlanningTasks :: "'s PlanInput \<Rightarrow> plan_failure + planningTaskEntry list" where
  "orderedPlanningTasks input =
     (case collect_entries input (Plan_Workflows input) of
        Inl err \<Rightarrow> Inl err
      | Inr entries \<Rightarrow> Inr (sort_less plan_less (map (with_round entries) [0..<length entries])))"

section \<open>Blockers\<close>

definition dependency_blocker :: "string \<Rightarrow> PlanningBlocker" where
  "dependency_blocker dependency =
     (planning_blocker ''dependency'' (Sprintf ''waiting for dependency %q'' [StrArg dependency]))\<lparr>PB_DependsOn := dependency\<rparr>"

text \<open>The last task of a name, as the map from names to identifiers holds it.\<close>

definition task_id_named :: "Task list \<Rightarrow> string \<Rightarrow> string" where
  "task_id_named tasks name = (case find (\<lambda>t. Task_Name t = name) (rev tasks) of None \<Rightarrow> '''' | Some t \<Rightarrow> Task_ID t)"

definition has_succeeded :: "DAGState \<Rightarrow> string \<Rightarrow> bool" where
  "has_succeeded state taskID =
     list_ex (\<lambda>a. Attempt_Progress a = ProgressSucceeded \<and> Attempt_TaskID a = taskID) (State_Attempts state)"

definition progressBlockers :: "DAGState \<Rightarrow> Task \<Rightarrow> Attempt \<Rightarrow> PlanningBlocker list" where
  "progressBlockers state task attempt =
     (if Attempt_AssignmentID attempt \<noteq> ''''
      then [planning_blocker ''attempt-state'' (Sprintf ''attempt already has assignment %q'' [StrArg (Attempt_AssignmentID attempt)])]
      else if Attempt_Progress attempt = ProgressReady then []
      else
        let waiting = (if Attempt_Progress attempt = ProgressBlocked
              then map dependency_blocker
                (filter (\<lambda>dependency. \<not> has_succeeded state (task_id_named (State_Tasks state) dependency)) (Task_Needs task))
              else [])
        in if waiting \<noteq> [] then waiting
           else [planning_blocker ''attempt-state'' (Sprintf ''attempt progress is %q, want %q''
                   [StrArg (ProgressState_text (Attempt_Progress attempt)), StrArg (ProgressState_text ProgressReady)])])"

fun planningSupervisionCode :: "SupervisionBlockerCode \<Rightarrow> string" where
  "planningSupervisionCode SupervisionBlockerBranchHold = ''supervision-hold''"
| "planningSupervisionCode SupervisionBlockerRunHold = ''supervision-hold''"
| "planningSupervisionCode SupervisionBlockerRunCancelled = ''supervision-run''"
| "planningSupervisionCode SupervisionBlockerRunTerminal = ''supervision-run''"
| "planningSupervisionCode SupervisionBlockerStaleSnapshot = ''supervision-run''"
| "planningSupervisionCode _ = ''supervision-gate''"

definition supervisionBlockerDetail :: "SupervisionBlocker \<Rightarrow> go_text" where
  "supervisionBlockerDetail b =
     (let d0 = Sprintf ''supervision withholds dispatch (%s)'' [StrArg (BlockerCode_text (Blocker_Code b))];
          d1 = (if Blocker_GateID b \<noteq> '''' then Sprintf ''%s: gate %q'' [TextArg d0, StrArg (Blocker_GateID b)]
                else if Blocker_HoldID b \<noteq> '''' then Sprintf ''%s: hold %q'' [TextArg d0, StrArg (Blocker_HoldID b)] else d0);
          reason = trim_space (Blocker_Reason b)
      in if reason \<noteq> '''' then Sprintf ''%s: %s'' [TextArg d1, StrArg reason] else d1)"

definition supervisionBlockers :: "(string \<times> SupervisionSnapshot) list \<Rightarrow> string \<Rightarrow> Task \<Rightarrow> PlanningBlocker list" where
  "supervisionBlockers snapshots runID task =
     (case map_of snapshots runID of
        None \<Rightarrow> []
      | Some snapshot \<Rightarrow>
          let verdict = SupervisionAdmits snapshot \<lparr>Query_TaskID = Task_ID task, Query_ExpectedGraphRevision = 0\<rparr>
          in if Verdict_Admitted verdict then []
             else map (\<lambda>b. (planning_blocker (planningSupervisionCode (Blocker_Code b)) (supervisionBlockerDetail b))
                    \<lparr>PB_SupervisionCode := Some (Blocker_Code b), PB_GateID := Blocker_GateID b, PB_HoldID := Blocker_HoldID b\<rparr>)
               (Verdict_Blockers verdict))"

fun check_locks :: "string option \<Rightarrow> string list \<Rightarrow> go_text option" where
  "check_locks previous [] = None"
| "check_locks previous (resource # rest) =
     (if \<not> nonempty_trimmed resource then Some (Sprintf ''resource locks must be nonempty and trimmed'' [])
      else if previous = Some resource then Some (Sprintf ''duplicate resource lock %q'' [StrArg resource])
      else check_locks (Some resource) rest)"

definition planningResourceLocks :: "string list \<Rightarrow> go_text + string list" where
  "planningResourceLocks resources =
     (case check_locks None (sort_strings resources) of Some err \<Rightarrow> Inl err | None \<Rightarrow> Inr (sort_strings resources))"

definition owner_of :: "(string \<times> string) list option \<Rightarrow> string \<Rightarrow> string" where
  "owner_of owners key = (case owners of None \<Rightarrow> '''' | Some es \<Rightarrow> (case map_of es key of None \<Rightarrow> '''' | Some owner \<Rightarrow> owner))"

definition held_by_other :: "(string \<times> string) list option \<Rightarrow> string \<Rightarrow> string \<Rightarrow> bool" where
  "held_by_other owners key attemptID \<longleftrightarrow> owner_of owners key \<noteq> '''' \<and> owner_of owners key \<noteq> attemptID"

definition lock_blockers :: "(string \<times> string) list option \<Rightarrow> string \<Rightarrow> string list \<Rightarrow> PlanningBlocker list" where
  "lock_blockers owners attemptID locks =
     map (\<lambda>resource. (planning_blocker ''resource-busy'' (Sprintf ''resource %q is held by attempt %q''
              [StrArg resource, StrArg (owner_of owners resource)]))
            \<lparr>PB_Resource := resource, PB_OwnerID := owner_of owners resource\<rparr>)
       (filter (\<lambda>resource. held_by_other owners resource attemptID) locks)"

definition checkout_blockers :: "(string \<times> string) list option \<Rightarrow> Workflow \<Rightarrow> string \<Rightarrow> string \<Rightarrow> PlanningBlocker list" where
  "checkout_blockers owners workflow runID attemptID =
     (if Env_Scope (Workflow_Environment workflow) = ''workflow'' \<and> held_by_other owners runID attemptID
      then [(planning_blocker ''workflow-checkout-busy'' (Sprintf ''workflow checkout is held by attempt %q'' [StrArg (owner_of owners runID)]))
              \<lparr>PB_OwnerID := owner_of owners runID\<rparr>]
      else [])"

definition planningTimeKey :: "go_runtime \<Rightarrow> instant option \<Rightarrow> string" where
  "planningTimeKey rt value = (case value of None \<Rightarrow> '''' | Some t \<Rightarrow> Runtime_time rt t)"

definition blocker_fields :: "go_runtime \<Rightarrow> PlanningBlocker \<Rightarrow> string list" where
  "blocker_fields rt b =
     [PB_Code b, PB_WorkerID b, PB_Resource b, PB_Dimension b, PB_OwnerID b, PB_DependsOn b,
      (case PB_SupervisionCode b of None \<Rightarrow> '''' | Some code \<Rightarrow> BlockerCode_text code), PB_GateID b, PB_HoldID b,
      PB_ProviderInstanceID b, PB_Model b, PB_QuotaPoolID b, PB_QuotaWindowID b, Admission_text (PB_Admission b),
      planningTimeKey rt (PB_ObservedAt b), planningTimeKey rt (PB_EarliestAt b), planningTimeKey rt (PB_DeadlineAt b),
      Runtime_text rt (PB_Detail b)]"

definition f_ne :: "float64 \<Rightarrow> float64 \<Rightarrow> bool" where
  "f_ne a b \<longleftrightarrow> a \<noteq> b \<or> a = NaN"

definition planning_blocker_less :: "go_runtime \<Rightarrow> PlanningBlocker \<Rightarrow> PlanningBlocker \<Rightarrow> bool" where
  "planning_blocker_less rt a b =
     (if blocker_fields rt a \<noteq> blocker_fields rt b then blocker_fields rt a < blocker_fields rt b
      else if PB_RouteOrdinal a \<noteq> PB_RouteOrdinal b then PB_RouteOrdinal a < PB_RouteOrdinal b
      else if f_ne (PB_MaxObservationAgeSeconds a) (PB_MaxObservationAgeSeconds b)
      then f_lt (PB_MaxObservationAgeSeconds a) (PB_MaxObservationAgeSeconds b)
      else if f_ne (PB_RequiredCost a) (PB_RequiredCost b) then f_lt (PB_RequiredCost a) (PB_RequiredCost b)
      else if f_ne (PB_Required a) (PB_Required b) then f_lt (PB_Required a) (PB_Required b)
      else f_lt (PB_Available a) (PB_Available b))"

abbreviation sortPlanningBlockers :: "go_runtime \<Rightarrow> PlanningBlocker list \<Rightarrow> PlanningBlocker list" where
  "sortPlanningBlockers rt \<equiv> sort_less (planning_blocker_less rt)"

definition normalizePlanningBlockers :: "go_runtime \<Rightarrow> PlanningBlocker list \<Rightarrow> string \<Rightarrow> go_text + PlanningBlocker list" where
  "normalizePlanningBlockers rt blockers workerID =
     (if list_ex (\<lambda>b. \<not> nonempty_trimmed (PB_Code b) \<or> \<not> nonempty_trimmed (Runtime_text rt (PB_Detail b))) blockers
      then Inl (Sprintf ''planning constraint returned a blocker without a nonempty trimmed code and detail'' [])
      else Inr (map (\<lambda>b. if PB_WorkerID b = '''' then b\<lparr>PB_WorkerID := workerID\<rparr> else b) blockers))"

section \<open>Planning one task\<close>

record 's plan_sessions =
  Sessions_directory :: "DirectoryOwner list"
  Sessions_constraints :: "('s PlanningConstraint \<times> 's) list"

definition sessions_Evaluate :: "'s plan_sessions \<Rightarrow> PlanningCandidate \<Rightarrow> PlanningBlocker list" where
  "sessions_Evaluate sessions candidate =
     directory_Evaluate (Sessions_directory sessions) candidate
     @ concat (map (\<lambda>(c, s). Constraint_Evaluate c s candidate) (Sessions_constraints sessions))"

definition sessions_Reserve :: "'s plan_sessions \<Rightarrow> PlanningCandidate \<Rightarrow> 's plan_sessions" where
  "sessions_Reserve sessions candidate =
     \<lparr>Sessions_directory = directory_Reserve (Sessions_directory sessions) candidate,
      Sessions_constraints = map (\<lambda>(c, s). (c, Constraint_Reserve c s candidate)) (Sessions_constraints sessions)\<rparr>"

fun start_constraints :: "instant \<Rightarrow> 's PlanningConstraint option list \<Rightarrow> plan_failure + ('s PlanningConstraint \<times> 's) list" where
  "start_constraints now [] = Inr []"
| "start_constraints now (c # cs) =
     (case c of
        None \<Rightarrow> Inl PlanPanic
      | Some constraint \<Rightarrow> (case Constraint_StartPlan constraint now of
          None \<Rightarrow> Inl (plan_error ''planning constraint returned a nil plan session'' [])
        | Some session \<Rightarrow> (case start_constraints now cs of
            Inl err \<Rightarrow> Inl err
          | Inr rest \<Rightarrow> Inr ((constraint, session) # rest))))"

definition start_sessions :: "'s PlanInput \<Rightarrow> plan_failure + 's plan_sessions" where
  "start_sessions input =
     (case start_constraints (Plan_Now input) (Plan_Constraints input) of
        Inl err \<Rightarrow> Inl err
      | Inr constraints \<Rightarrow> Inr \<lparr>Sessions_directory = Plan_DirectoryOwners input, Sessions_constraints = constraints\<rparr>)"

definition candidate_blockers :: "'s plan_sessions \<Rightarrow> PlanningCandidate \<Rightarrow> PlanningBlocker list \<Rightarrow> PlanningBlocker list" where
  "candidate_blockers sessions candidate routed = (if routed \<noteq> [] then routed else sessions_Evaluate sessions candidate)"

definition evaluation_record :: "PlanningCandidate \<Rightarrow> PlanningBlocker list \<Rightarrow> CandidateEvaluation" where
  "evaluation_record candidate blockers =
     \<lparr>CE_WorkerID = Candidate_WorkerID candidate, CE_RouteOrdinal = Candidate_RouteOrdinal candidate,
      CE_Route = Candidate_Route candidate, CE_Estimate = Candidate_Estimate candidate, CE_Blockers = blockers\<rparr>"

fun scan_candidates ::
  "go_runtime \<Rightarrow> 's plan_sessions \<Rightarrow> PlacementDecision \<Rightarrow> Task \<Rightarrow> string \<Rightarrow> PlanningCandidate option \<Rightarrow> routedCandidate list
     \<Rightarrow> plan_failure + CandidateEvaluation list \<times> PlanningCandidate option" where
  "scan_candidates rt sessions decision task runID selected [] = Inr ([], selected)"
| "scan_candidates rt sessions decision task runID selected (routed # rest) =
     (let candidate = (Routed_candidate routed)\<lparr>Candidate_WorkflowRunID := runID\<rparr>
      in case normalizePlanningBlockers rt (candidate_blockers sessions candidate (Routed_blockers routed)) (Candidate_WorkerID candidate) of
           Inl err \<Rightarrow> Inl (plan_error ''plan task %q candidate worker %q route %d: %w''
             [StrArg (Task_Name task), StrArg (Candidate_WorkerID candidate), IntArg (Candidate_RouteOrdinal candidate), TextArg err])
         | Inr blockers \<Rightarrow>
             let next = (if blockers \<noteq> [] then selected
                   else case selected of
                     None \<Rightarrow> Some candidate
                   | Some incumbent \<Rightarrow>
                       if placementBetter decision (Candidate_WorkerID candidate) (Candidate_WorkerID incumbent)
                       then Some candidate else selected)
             in (case scan_candidates rt sessions decision task runID next rest of
                   Inl err \<Rightarrow> Inl err
                 | Inr (evaluations, chosen) \<Rightarrow>
                     Inr (evaluation_record candidate (sortPlanningBlockers rt blockers) # evaluations, chosen)))"

definition selection_blockers :: "string list \<Rightarrow> PlanningCandidate option \<Rightarrow> PlanningBlocker list" where
  "selection_blockers eligible selected =
     (if eligible = []
      then [planning_blocker ''no-eligible-worker'' (Sprintf ''no worker satisfies placement requirements'' [])]
      else if selected = None
      then [planning_blocker ''candidate-policy''
              (Sprintf ''every placement-eligible worker and provider route is blocked by planning policy'' [])]
      else [])"

definition placement_request :: "'s PlanInput \<Rightarrow> Workflow \<Rightarrow> Task \<Rightarrow> WorkerPlacementRequest" where
  "placement_request input workflow task =
     \<lparr>WPR_ResourcePolicy = Plan_ResourcePolicy input, WPR_Task = task, WPR_Project = Workflow_Project workflow,
      WPR_Now = Plan_Now input, WPR_MaxSnapshotAge = Plan_MaxWorkerSnapshotAge input,
      WPR_ExpectedWorkerEpochs = Map.empty, WPR_PreferenceWeights = None\<rparr>"

text \<open>The blockers of the task itself, whatever worker it would run on.\<close>

definition task_own_blockers ::
  "'s PlanInput \<Rightarrow> Workflow \<Rightarrow> DAGState \<Rightarrow> Task \<Rightarrow> Attempt \<Rightarrow> string list
     \<Rightarrow> (string \<times> string) list option \<Rightarrow> (string \<times> string) list option \<Rightarrow> PlanningBlocker list" where
  "task_own_blockers input workflow state task attempt locks resourceOwners checkoutOwners =
     progressBlockers state task attempt
     @ supervisionBlockers (Plan_SupervisionSnapshots input) (Run_ID (State_Run state)) task
     @ lock_blockers resourceOwners (Attempt_ID attempt) locks
     @ checkout_blockers checkoutOwners workflow (Run_ID (State_Run state)) (Attempt_ID attempt)"

definition planTask ::
  "go_runtime \<Rightarrow> 's PlanInput \<Rightarrow> providerRouter \<Rightarrow> 's plan_sessions \<Rightarrow> Workflow \<Rightarrow> DAGState \<Rightarrow> Task \<Rightarrow> Attempt \<Rightarrow> PlanningOrder
     \<Rightarrow> (string \<times> string) list option \<Rightarrow> (string \<times> string) list option
     \<Rightarrow> plan_failure + TaskPlanningDecision \<times> ProposedTask option" where
  "planTask rt input router sessions workflow state task attempt order resourceOwners checkoutOwners =
     (let name = StrArg (Task_Name task); runID = Run_ID (State_Run state) in
      case SelectWorker rt (placement_request input workflow task) (Plan_Workers input) of
        Inl err \<Rightarrow> Inl (plan_error ''plan task %q: %w'' [name, TextArg err])
      | Inr selection \<Rightarrow> (case planningResourceLocks (Task_ResourceLocks task) of
          Inl err \<Rightarrow> Inl (plan_error ''plan task %q: %w'' [name, TextArg err])
        | Inr locks \<Rightarrow>
            let eligible = WP_EligibleWorkerIDs (PS_Placement selection) in
            (case scan_candidates rt sessions (PS_Decision selection) task runID None (Candidates router task attempt eligible) of
               Inl err \<Rightarrow> Inl err
             | Inr (evaluations, selected) \<Rightarrow>
                 let blockers = sortPlanningBlockers rt
                       (task_own_blockers input workflow state task attempt locks resourceOwners checkoutOwners
                        @ selection_blockers eligible selected);
                     decision = \<lparr>TPD_WorkflowRunID = runID, TPD_TaskID = Task_ID task, TPD_TaskName = Task_Name task,
                       TPD_AttemptID = Attempt_ID attempt, TPD_Progress = Attempt_Progress attempt, TPD_Order = order,
                       TPD_Placement = PS_Placement selection, TPD_Candidates = evaluations, TPD_Blockers = blockers,
                       TPD_Proposed = False, TPD_RouteReresolution = None\<rparr>
                 in if blockers \<noteq> [] then Inr (decision, None)
                    else (case selected of
                      None \<Rightarrow> Inl PlanPanic
                    | Some candidate \<Rightarrow> (case WithSelectedWorker selection (Candidate_WorkerID candidate) of
                        Inl err \<Rightarrow> Inl (plan_error ''plan task %q: %w'' [name, TextArg err])
                      | Inr placed \<Rightarrow>
                          Inr (decision, Some \<lparr>Proposal_WorkflowRunID = runID, Proposal_Project = Workflow_Project workflow,
                            Proposal_TaskID = Task_ID task, Proposal_AttemptID = Attempt_ID attempt,
                            Proposal_WorkerID = Candidate_WorkerID candidate, Proposal_Route = Candidate_Route candidate,
                            Proposal_Estimate = Candidate_Estimate candidate, Proposal_ResourceLocks = locks,
                            Proposal_Placement = (PS_Decision placed)\<lparr>PD_AttemptID := Attempt_ID attempt\<rparr>\<rparr>))))))"

text \<open>A role task whose pool is saturated is first planned on its alternatives.\<close>

fun try_alternatives ::
  "(Task \<Rightarrow> plan_failure + TaskPlanningDecision \<times> ProposedTask option) \<Rightarrow> roleAlternative list
     \<Rightarrow> plan_failure + (TaskPlanningDecision \<times> ProposedTask \<times> Task) option" where
  "try_alternatives plan [] = Inr None"
| "try_alternatives plan (alternative # alternatives) =
     (case plan (Alternative_task alternative) of
        Inl err \<Rightarrow> Inl err
      | Inr (decision, None) \<Rightarrow> try_alternatives plan alternatives
      | Inr (decision, Some proposal) \<Rightarrow>
          Inr (Some (decision\<lparr>TPD_RouteReresolution := Some (Alternative_receipt alternative)\<rparr>,
            proposal\<lparr>Proposal_Placement := (Proposal_Placement proposal)\<lparr>PD_RouteReresolution := Some (Alternative_receipt alternative)\<rparr>\<rparr>,
            Alternative_task alternative)))"

definition planEntry ::
  "go_runtime \<Rightarrow> 's PlanInput \<Rightarrow> providerRouter \<Rightarrow> 's plan_sessions \<Rightarrow> planningTaskEntry
     \<Rightarrow> (string \<times> string) list option \<Rightarrow> (string \<times> string) list option
     \<Rightarrow> plan_failure + (TaskPlanningDecision \<times> ProposedTask option \<times> Task) \<times> providerRouter" where
  "planEntry rt input router sessions entry resourceOwners checkoutOwners =
     (let (alternatives, router') =
            (if Entry_ready entry \<and> \<not> hasDependentReviewConstraint (Entry_task entry) (State_Tasks (Entry_state entry))
             then saturatedRoleAlternatives rt router (Entry_task entry) (Entry_attempt entry) (Plan_Now input)
             else ([], router));
          plan = (\<lambda>task. planTask rt input router' sessions (Entry_workflow entry) (Entry_state entry) task
                    (Entry_attempt entry) (Entry_order entry) resourceOwners checkoutOwners)
      in case try_alternatives plan alternatives of
           Inl err \<Rightarrow> Inl err
         | Inr (Some (decision, proposal, task)) \<Rightarrow> Inr ((decision, Some proposal, task), router')
         | Inr None \<Rightarrow> (case plan (Entry_task entry) of
             Inl err \<Rightarrow> Inl err
           | Inr (decision, proposal) \<Rightarrow> Inr ((decision, proposal, Entry_task entry), router')))"

section \<open>Plans\<close>

record 's plan_state =
  PState_workers :: "WorkerInventory list"
  PState_router :: providerRouter
  PState_sessions :: "'s plan_sessions"
  PState_resourceOwners :: "(string \<times> string) list option"
  PState_checkoutOwners :: "(string \<times> string) list option"
  PState_plan :: Plan

definition set_owner :: "string \<Rightarrow> string \<Rightarrow> (string \<times> string) list option \<Rightarrow> (string \<times> string) list option" where
  "set_owner key owner owners = map_option (AList.update key owner) owners"

definition proposal_candidate :: "planningTaskEntry \<Rightarrow> Task \<Rightarrow> ProposedTask \<Rightarrow> PlanningCandidate" where
  "proposal_candidate entry planned proposal =
     \<lparr>Candidate_WorkflowRunID = entry_run entry, Candidate_Task = planned, Candidate_Attempt = Entry_attempt entry,
      Candidate_WorkerID = Proposal_WorkerID proposal, Candidate_RouteOrdinal = 0, Candidate_Route = Proposal_Route proposal,
      Candidate_Estimate = Proposal_Estimate proposal\<rparr>"

text \<open>What a proposal takes: expected resources, locks, the checkout, and its place in every session.\<close>

definition commit_proposal ::
  "'s PlanInput \<Rightarrow> planningTaskEntry \<Rightarrow> Task \<Rightarrow> TaskPlanningDecision \<Rightarrow> ProposedTask \<Rightarrow> 's plan_state \<Rightarrow> plan_failure + 's plan_state" where
  "commit_proposal input entry planned decision proposal st =
     (let shared = Env_Scope (Workflow_Environment (Entry_workflow entry)) = ''workflow'';
          candidate = proposal_candidate entry planned proposal
      in if Proposal_ResourceLocks proposal \<noteq> [] \<and> PState_resourceOwners st = None \<or> shared \<and> PState_checkoutOwners st = None
         then Inl PlanPanic
         else Inr \<lparr>
           PState_workers = reservePlacementResources (PState_workers st) (Proposal_WorkerID proposal)
             (expectedResourceNeeds planned (WithDefaults (Plan_ResourcePolicy input))),
           PState_router = router_Reserve (PState_router st) candidate,
           PState_sessions = sessions_Reserve (PState_sessions st) candidate,
           PState_resourceOwners = fold (\<lambda>resource. set_owner resource (Proposal_AttemptID proposal)) (Proposal_ResourceLocks proposal)
             (PState_resourceOwners st),
           PState_checkoutOwners = (if shared then set_owner (entry_run entry) (Proposal_AttemptID proposal) (PState_checkoutOwners st)
             else PState_checkoutOwners st),
           PState_plan = \<lparr>Plan_Proposals = Plan_Proposals (PState_plan st) @ [proposal],
             Plan_Decisions = Plan_Decisions (PState_plan st) @ [decision\<lparr>TPD_Proposed := True\<rparr>]\<rparr>\<rparr>)"

definition plan_step :: "go_runtime \<Rightarrow> 's PlanInput \<Rightarrow> planningTaskEntry \<Rightarrow> 's plan_state \<Rightarrow> plan_failure + 's plan_state" where
  "plan_step rt input entry st =
     (if Terminal (Attempt_Progress (Entry_attempt entry)) then Inr st
      else (case planEntry rt (input\<lparr>Plan_Workers := PState_workers st\<rparr>) (PState_router st) (PState_sessions st) entry
                   (PState_resourceOwners st) (PState_checkoutOwners st) of
        Inl err \<Rightarrow> Inl err
      | Inr ((decision, None, planned), router) \<Rightarrow>
          Inr (st\<lparr>PState_router := router, PState_plan := (PState_plan st)\<lparr>Plan_Decisions := Plan_Decisions (PState_plan st) @ [decision]\<rparr>\<rparr>)
      | Inr ((decision, Some proposal, planned), router) \<Rightarrow>
          commit_proposal input entry planned decision proposal (st\<lparr>PState_router := router\<rparr>)))"

fun plan_steps :: "go_runtime \<Rightarrow> 's PlanInput \<Rightarrow> planningTaskEntry list \<Rightarrow> 's plan_state \<Rightarrow> plan_failure + 's plan_state" where
  "plan_steps rt input [] st = Inr st"
| "plan_steps rt input (entry # entries) st =
     (case plan_step rt input entry st of Inl err \<Rightarrow> Inl err | Inr st' \<Rightarrow> plan_steps rt input entries st')"

definition initial_plan_state :: "'s PlanInput \<Rightarrow> providerRouter \<Rightarrow> 's plan_sessions \<Rightarrow> 's plan_state" where
  "initial_plan_state input router sessions =
     \<lparr>PState_workers = Plan_Workers input, PState_router = router, PState_sessions = sessions,
      PState_resourceOwners = Plan_ResourceOwners input, PState_checkoutOwners = Plan_WorkflowCheckoutOwners input,
      PState_plan = \<lparr>Plan_Proposals = [], Plan_Decisions = []\<rparr>\<rparr>"

definition BuildPlan :: "go_runtime \<Rightarrow> 's PlanInput \<Rightarrow> plan_failure + Plan" where
  "BuildPlan rt input =
     (case validatePlanInput rt input of
        Some err \<Rightarrow> Inl (PlanError err)
      | None \<Rightarrow> (case newProviderRouter (Plan_Workers input) (Plan_QuotaPools input) (Plan_RouteEstimates input) of
          Inl err \<Rightarrow> Inl (PlanError err)
        | Inr router \<Rightarrow> (case start_sessions input of
            Inl err \<Rightarrow> Inl err
          | Inr sessions \<Rightarrow> (case orderedPlanningTasks input of
              Inl err \<Rightarrow> Inl err
            | Inr entries \<Rightarrow> (case plan_steps rt input entries (initial_plan_state input router sessions) of
                Inl err \<Rightarrow> Inl err
              | Inr st \<Rightarrow> Inr (PState_plan st))))))"

text \<open>Each ready task against a session of its own.\<close>

definition unreserved_proposal :: "go_runtime \<Rightarrow> 's PlanInput \<Rightarrow> planningTaskEntry \<Rightarrow> plan_failure + ProposedTask list" where
  "unreserved_proposal rt input entry =
     (if \<not> Entry_ready entry then Inr []
      else (case newProviderRouter (Plan_Workers input) (Plan_QuotaPools input) (Plan_RouteEstimates input) of
        Inl err \<Rightarrow> Inl (PlanError err)
      | Inr router \<Rightarrow> (case start_sessions input of
          Inl err \<Rightarrow> Inl err
        | Inr sessions \<Rightarrow>
            (case planEntry rt input router sessions entry (Plan_ResourceOwners input) (Plan_WorkflowCheckoutOwners input) of
               Inl err \<Rightarrow> Inl err
             | Inr ((decision, proposal, planned), _) \<Rightarrow> Inr (case proposal of None \<Rightarrow> [] | Some p \<Rightarrow> [p])))))"

fun unreserved_proposals :: "go_runtime \<Rightarrow> 's PlanInput \<Rightarrow> planningTaskEntry list \<Rightarrow> plan_failure + ProposedTask list" where
  "unreserved_proposals rt input [] = Inr []"
| "unreserved_proposals rt input (entry # entries) =
     (case unreserved_proposal rt input entry of
        Inl err \<Rightarrow> Inl err
      | Inr ps \<Rightarrow> (case unreserved_proposals rt input entries of Inl err \<Rightarrow> Inl err | Inr rest \<Rightarrow> Inr (ps @ rest)))"

definition BuildUnreservedProposals :: "go_runtime \<Rightarrow> 's PlanInput \<Rightarrow> plan_failure + ProposedTask list" where
  "BuildUnreservedProposals rt input =
     (case validatePlanInput rt input of
        Some err \<Rightarrow> Inl (PlanError err)
      | None \<Rightarrow> (case orderedPlanningTasks input of
          Inl err \<Rightarrow> Inl err
        | Inr entries \<Rightarrow> unreserved_proposals rt input entries))"

end
