(* ===== verification/PlannerSpec.thy ===== *)
theory PlannerSpec
  imports Planner DagProperties
begin

text \<open>
  What a planning pass checks before it proposes a task, and what a proposal changes: the
  characterisation of \<open>planTask\<close>, of one step of the pass and of the whole pass, from which the
  properties of a plan follow by induction on the entries.
\<close>

section \<open>Placement\<close>

lemma match_workers_Inr:
  "match_workers rt request seen workers = Inr evaluations \<Longrightarrow>
     evaluations = map (evaluateWorker rt request) workers \<and> distinct (map Worker_ID workers) \<and>
     set (map Worker_ID workers) \<inter> set seen = {} \<and> (\<forall>w \<in> set workers. Worker_ID w \<noteq> '''')"
proof (induction workers arbitrary: seen evaluations)
  case (Cons w ws)
  obtain rest where rest: "match_workers rt request (Worker_ID w # seen) ws = Inr rest"
    "evaluations = evaluateWorker rt request w # rest" "Worker_ID w \<noteq> ''''" "Worker_ID w \<notin> set seen"
    using Cons.prems by (auto split: if_splits option.splits sum.splits)
  from Cons.IH [OF rest(1)] rest(2-) show ?case by auto
qed simp

lemma evaluateWorker_simps [simp]:
  "Eval_WorkerID (evaluateWorker rt request w) = Worker_ID w"
  "Eval_Eligible (evaluateWorker rt request w) \<longleftrightarrow> all_exclusions request w = []"
  "Eval_Resource (evaluateWorker rt request w) = Some (fst (liveResourceEvaluation request w))"
  by (simp_all add: evaluateWorker_def Let_def)

text \<open>The inventory in the order of worker identifiers.\<close>

abbreviation by_worker :: "WorkerInventory list \<Rightarrow> WorkerInventory list" where
  "by_worker inventory \<equiv> sort_less (\<lambda>a b. Worker_ID a < Worker_ID b) inventory"

lemma MatchWorkers_Inr:
  assumes "MatchWorkers rt request inventory = Inr placement"
  shows "WP_Evaluations placement = map (evaluateWorker rt request) (by_worker inventory)"
    and "WP_EligibleWorkerIDs placement = map Worker_ID (filter (\<lambda>w. all_exclusions request w = []) (by_worker inventory))"
    and "distinct (map Worker_ID inventory)" and "\<forall>w \<in> set inventory. Worker_ID w \<noteq> ''''"
proof -
  obtain evaluations where m: "match_workers rt request [] (by_worker inventory) = Inr evaluations"
    and p: "placement = \<lparr>WP_EligibleWorkerIDs = map Eval_WorkerID (filter Eval_Eligible evaluations), WP_Evaluations = evaluations\<rparr>"
    using assms by (auto simp: MatchWorkers_def split: option.splits if_splits sum.splits)
  note e = match_workers_Inr [OF m]
  show "WP_Evaluations placement = map (evaluateWorker rt request) (by_worker inventory)" using e p by simp
  show "WP_EligibleWorkerIDs placement = map Worker_ID (filter (\<lambda>w. all_exclusions request w = []) (by_worker inventory))"
    using e p by (simp add: filter_map o_def)
  have "mset (map Worker_ID (by_worker inventory)) = mset (map Worker_ID inventory)" by simp
  then show "distinct (map Worker_ID inventory)" using e mset_eq_imp_distinct_iff by blast
  show "\<forall>w \<in> set inventory. Worker_ID w \<noteq> ''''" using e by simp
qed

lemma SelectWorker_Inr:
  assumes "SelectWorker rt request inventory = Inr selection"
  shows "MatchWorkers rt request inventory = Inr (PS_Placement selection)"
  using assms by (auto simp: SelectWorker_def Let_def split: option.splits sum.splits)

lemma eligible_worker:
  assumes "SelectWorker rt request inventory = Inr selection" and "i \<in> set (WP_EligibleWorkerIDs (PS_Placement selection))"
  shows "\<exists>w \<in> set inventory. Worker_ID w = i \<and> all_exclusions request w = []"
  using MatchWorkers_Inr(2) [OF SelectWorker_Inr [OF assms(1)]] assms(2) by auto

section \<open>Routes\<close>

text \<open>Routing and re-resolution leave the pools and their counts alone.\<close>

definition same_pools :: "providerRouter \<Rightarrow> providerRouter \<Rightarrow> bool" where
  "same_pools r s \<longleftrightarrow> Router_workers s = Router_workers r \<and> Router_pools s = Router_pools r \<and>
     Router_instancePools s = Router_instancePools r \<and> Router_batchAssignments s = Router_batchAssignments r"

lemma same_pools_refl [simp]: "same_pools r r"
  by (simp add: same_pools_def)

lemma same_pools_trans: "same_pools r s \<Longrightarrow> same_pools s t \<Longrightarrow> same_pools r t"
  by (simp add: same_pools_def)

lemma alias_estimate_pools: "same_pools r (alias_estimate a source target w r)"
  by (simp add: alias_estimate_def same_pools_def Let_def split: option.split)

lemma fold_alias_pools: "same_pools r (fold (alias_estimate a source target) ws r)"
proof (induction ws arbitrary: r)
  case (Cons w ws)
  show ?case using same_pools_trans [OF alias_estimate_pools Cons.IH] by simp
qed simp

lemma candidate_alternative_Some:
  assumes "candidate_alternative rt task selection attempt now current fromPool candidate router = Some (alternative, router')"
  shows "same_pools router router' \<and> (\<exists>routes. Alternative_task alternative = task\<lparr>Task_Routes := routes\<rparr>)"
proof -
  obtain route where "router' = aliasEstimates rt (Attempt_ID attempt) current route router"
    "Alternative_task alternative = task\<lparr>Task_Routes := [route]\<rparr>"
    using assms by (auto simp: candidate_alternative_def Let_def split: if_splits option.splits)
  then show ?thesis by (auto simp: aliasEstimates_def fold_alias_pools)
qed

lemma collect_alternatives_pools:
  assumes "\<And>c r a r'. f c r = Some (a, r') \<Longrightarrow> same_pools r r' \<and> P a"
    and "collect_alternatives f cs router = (alternatives, router')"
  shows "same_pools router router' \<and> (\<forall>a \<in> set alternatives. P a)"
  using assms(2)
proof (induction cs arbitrary: router alternatives router')
  case (Cons c cs)
  show ?case
  proof (cases "f c router")
    case None
    with Cons show ?thesis by simp
  next
    case (Some p)
    obtain a r1 where p: "p = (a, r1)" by force
    obtain rest r2 where rest: "collect_alternatives f cs r1 = (rest, r2)" by force
    with Cons.prems Some p have eq: "alternatives = a # rest" "router' = r2" by auto
    from Cons.IH [OF rest] assms(1) [OF Some [unfolded p]] show ?thesis
      using eq same_pools_trans by auto
  qed
qed simp

lemma saturatedRoleAlternatives_pools:
  assumes "saturatedRoleAlternatives rt router task attempt now = (alternatives, router')"
  shows "same_pools router router' \<and> (\<forall>a \<in> set alternatives. \<exists>routes. Alternative_task a = task\<lparr>Task_Routes := routes\<rparr>)"
proof -
  have "(alternatives = [] \<and> router' = router) \<or> (\<exists>selection current fromPool cs.
      collect_alternatives (candidate_alternative rt task selection attempt now current fromPool) cs router = (alternatives, router'))"
    using assms by (auto simp: saturatedRoleAlternatives_def Let_def split: option.splits if_splits)
  then show ?thesis
  proof (elim disjE exE)
    fix selection current fromPool cs
    assume c: "collect_alternatives (candidate_alternative rt task selection attempt now current fromPool) cs router = (alternatives, router')"
    show ?thesis
      by (rule collect_alternatives_pools [OF _ c]) (rule candidate_alternative_Some)
  qed simp
qed

section \<open>One task\<close>

lemma normalize_Nil: "normalizePlanningBlockers rt bs w = Inr [] \<longleftrightarrow> bs = []"
  by (auto simp: normalizePlanningBlockers_def)

text \<open>The selected candidate is one that neither the router nor a session blocks.\<close>

definition unblocked :: "'s plan_sessions \<Rightarrow> string \<Rightarrow> routedCandidate list \<Rightarrow> PlanningCandidate \<Rightarrow> bool" where
  "unblocked sessions runID routed c \<longleftrightarrow> (\<exists>r \<in> set routed. c = (Routed_candidate r)\<lparr>Candidate_WorkflowRunID := runID\<rparr> \<and>
     Routed_blockers r = [] \<and> sessions_Evaluate sessions c = [])"

lemma scan_candidates_selected:
  "scan_candidates rt sessions decision task runID selected routed = Inr (evaluations, Some c) \<Longrightarrow>
     selected = Some c \<or> unblocked sessions runID routed c"
proof (induction routed arbitrary: selected evaluations)
  case (Cons r rest)
  let ?c = "(Routed_candidate r)\<lparr>Candidate_WorkflowRunID := runID\<rparr>"
  obtain bs where bs: "normalizePlanningBlockers rt (candidate_blockers sessions ?c (Routed_blockers r)) (Candidate_WorkerID ?c) = Inr bs"
    using Cons.prems by (auto simp: Let_def split: sum.splits)
  obtain next' es where step: "scan_candidates rt sessions decision task runID next' rest = Inr (es, Some c)"
    and next': "next' = selected \<or> bs = [] \<and> next' = Some ?c"
    using Cons.prems bs by (auto simp: Let_def split: sum.splits option.splits if_splits)
  have "bs = [] \<Longrightarrow> Routed_blockers r = [] \<and> sessions_Evaluate sessions ?c = []"
    using bs normalize_Nil by (auto simp: candidate_blockers_def split: if_splits)
  with Cons.IH [OF step] next' show ?case by (auto simp: unblocked_def)
qed simp

text \<open>What holds of a proposal when the task is planned.\<close>

definition checked_proposal ::
  "go_runtime \<Rightarrow> 's PlanInput \<Rightarrow> providerRouter \<Rightarrow> 's plan_sessions \<Rightarrow> Workflow \<Rightarrow> DAGState \<Rightarrow> Task \<Rightarrow> Attempt
     \<Rightarrow> (string \<times> string) list option \<Rightarrow> (string \<times> string) list option \<Rightarrow> PlanningCandidate \<Rightarrow> ProposedTask \<Rightarrow> bool" where
  "checked_proposal rt input router sessions workflow state task attempt ro co c p \<longleftrightarrow>
     (\<exists>selection. SelectWorker rt (placement_request input workflow task) (Plan_Workers input) = Inr selection \<and>
        unblocked sessions (Run_ID (State_Run state))
          (Candidates router task attempt (WP_EligibleWorkerIDs (PS_Placement selection))) c) \<and>
     task_own_blockers input workflow state task attempt (Proposal_ResourceLocks p) ro co = [] \<and>
     planningResourceLocks (Task_ResourceLocks task) = Inr (Proposal_ResourceLocks p) \<and>
     Proposal_WorkflowRunID p = Run_ID (State_Run state) \<and> Proposal_Project p = Workflow_Project workflow \<and>
     Proposal_TaskID p = Task_ID task \<and> Proposal_AttemptID p = Attempt_ID attempt \<and>
     Proposal_WorkerID p = Candidate_WorkerID c \<and> Proposal_Route p = Candidate_Route c \<and>
     Proposal_Estimate p = Candidate_Estimate c \<and> PD_SelectedWorkerID (Proposal_Placement p) = Candidate_WorkerID c \<and>
     PD_AttemptID (Proposal_Placement p) = Attempt_ID attempt"

lemma WithSelectedWorker_Inr:
  "WithSelectedWorker s w = Inr placed \<Longrightarrow> PD_SelectedWorkerID (PS_Decision placed) = w"
  by (auto simp: WithSelectedWorker_def Let_def split: option.splits)

lemma planTask_Some:
  assumes "planTask rt input router sessions workflow state task attempt order ro co = Inr (decision, Some p)"
  obtains c where "checked_proposal rt input router sessions workflow state task attempt ro co c p"
proof -
  let ?run = "Run_ID (State_Run state)"
  obtain selection where s: "SelectWorker rt (placement_request input workflow task) (Plan_Workers input) = Inr selection"
    using assms by (auto simp: planTask_def Let_def split: sum.splits)
  obtain locks where l: "planningResourceLocks (Task_ResourceLocks task) = Inr locks"
    using assms s by (auto simp: planTask_def Let_def split: sum.splits)
  let ?eligible = "WP_EligibleWorkerIDs (PS_Placement selection)"
  obtain evaluations selected where sc: "scan_candidates rt sessions (PS_Decision selection) task ?run None
      (Candidates router task attempt ?eligible) = Inr (evaluations, selected)"
    using assms s l by (auto simp: planTask_def Let_def split: sum.splits)
  obtain c placed where c: "selected = Some c" "WithSelectedWorker selection (Candidate_WorkerID c) = Inr placed"
    "task_own_blockers input workflow state task attempt locks ro co = []"
    "p = \<lparr>Proposal_WorkflowRunID = ?run, Proposal_Project = Workflow_Project workflow,
       Proposal_TaskID = Task_ID task, Proposal_AttemptID = Attempt_ID attempt,
       Proposal_WorkerID = Candidate_WorkerID c, Proposal_Route = Candidate_Route c,
       Proposal_Estimate = Candidate_Estimate c, Proposal_ResourceLocks = locks,
       Proposal_Placement = (PS_Decision placed)\<lparr>PD_AttemptID := Attempt_ID attempt\<rparr>\<rparr>"
    using assms s l sc by (auto simp: planTask_def Let_def split: if_splits option.splits sum.splits)
  have "unblocked sessions ?run (Candidates router task attempt ?eligible) c"
    using scan_candidates_selected [OF sc [unfolded c(1)]] by simp
  with s l c(3) WithSelectedWorker_Inr [OF c(2)] have "checked_proposal rt input router sessions workflow state task attempt ro co c p"
    by (auto simp: checked_proposal_def c(4))
  then show ?thesis by (rule that)
qed

text \<open>The decision names the task it is about, and a task that is not proposed has a blocker.\<close>

definition decision_for :: "planningTaskEntry \<Rightarrow> bool \<Rightarrow> TaskPlanningDecision \<Rightarrow> bool" where
  "decision_for entry blocked d \<longleftrightarrow> TPD_WorkflowRunID d = entry_run entry \<and> TPD_TaskID d = Task_ID (Entry_task entry) \<and>
     TPD_AttemptID d = Attempt_ID (Entry_attempt entry) \<and> TPD_Order d = Entry_order entry \<and>
     TPD_Proposed d = False \<and> (blocked \<longleftrightarrow> TPD_Blockers d \<noteq> [])"

lemma planTask_decision:
  assumes "planTask rt input router sessions (Entry_workflow entry) (Entry_state entry) task (Entry_attempt entry) (Entry_order entry) ro co
      = Inr (decision, proposal)" and "Task_ID task = Task_ID (Entry_task entry)"
  shows "decision_for entry (proposal = None) decision"
  using assms
  by (auto simp: planTask_def decision_for_def Let_def split: if_splits option.splits sum.splits prod.splits)

lemma checked_proposal_placement:
  "checked_proposal rt input router sessions workflow state task attempt ro co c (p\<lparr>Proposal_Placement := (Proposal_Placement p)\<lparr>PD_RouteReresolution := r\<rparr>\<rparr>)
     \<longleftrightarrow> checked_proposal rt input router sessions workflow state task attempt ro co c p"
  by (simp add: checked_proposal_def)

lemma try_alternatives_Some:
  "try_alternatives plan alternatives = Inr (Some (decision, p, task)) \<Longrightarrow>
     \<exists>a d q. a \<in> set alternatives \<and> plan (Alternative_task a) = Inr (d, Some q) \<and> task = Alternative_task a \<and>
       decision = d\<lparr>TPD_RouteReresolution := Some (Alternative_receipt a)\<rparr> \<and>
       p = q\<lparr>Proposal_Placement := (Proposal_Placement q)\<lparr>PD_RouteReresolution := Some (Alternative_receipt a)\<rparr>\<rparr>"
  by (induction plan alternatives rule: try_alternatives.induct) (fastforce split: sum.splits prod.splits option.splits)+

text \<open>An entry is planned with its own task, or with other routes for a saturated role task.\<close>

abbreviation checked_entry where
  "checked_entry rt input router sessions entry ro co task c p \<equiv>
     checked_proposal rt input router sessions (Entry_workflow entry) (Entry_state entry) task (Entry_attempt entry) ro co c p"

lemma planEntry_Inr:
  assumes "planEntry rt input router sessions entry ro co = Inr ((decision, proposal, task), router')"
  shows "same_pools router router'"
    and "\<exists>routes. task = (Entry_task entry)\<lparr>Task_Routes := routes\<rparr>"
    and "proposal = Some p \<Longrightarrow> \<exists>c. checked_entry rt input router' sessions entry ro co task c p"
    and "decision_for entry (proposal = None) decision"
proof -
  let ?plan = "\<lambda>r task. planTask rt input r sessions (Entry_workflow entry) (Entry_state entry) task
                    (Entry_attempt entry) (Entry_order entry) ro co"
  obtain alternatives r1 where alt: "(if Entry_ready entry \<and> \<not> hasDependentReviewConstraint (Entry_task entry) (State_Tasks (Entry_state entry))
             then saturatedRoleAlternatives rt router (Entry_task entry) (Entry_attempt entry) (Plan_Now input)
             else ([], router)) = (alternatives, r1)" by force
  have same: "same_pools router r1 \<and> (\<forall>a \<in> set alternatives. \<exists>routes. Alternative_task a = (Entry_task entry)\<lparr>Task_Routes := routes\<rparr>)"
    using alt saturatedRoleAlternatives_pools by (auto split: if_splits)
  have r1: "router' = r1" using assms by (auto simp: planEntry_def alt split: sum.splits option.splits)
  then show "same_pools router router'" using same by simp
  have own: "\<exists>routes. Entry_task entry = (Entry_task entry)\<lparr>Task_Routes := routes\<rparr>"
    by (rule exI [of _ "Task_Routes (Entry_task entry)"]) simp
  consider (moved) q where "try_alternatives (?plan r1) alternatives = Inr (Some (decision, q, task))" "proposal = Some q"
    | (kept) "?plan r1 (Entry_task entry) = Inr (decision, proposal)" "task = Entry_task entry"
    using assms unfolding planEntry_def alt by (auto split: sum.splits option.splits)
  then have "(\<exists>routes. task = (Entry_task entry)\<lparr>Task_Routes := routes\<rparr>) \<and> decision_for entry (proposal = None) decision \<and>
     (proposal = Some p \<longrightarrow> (\<exists>c. checked_entry rt input r1 sessions entry ro co task c p))"
  proof cases
    case moved
    obtain a d q' where a: "a \<in> set alternatives" "?plan r1 task = Inr (d, Some q')" "task = Alternative_task a"
      "decision = d\<lparr>TPD_RouteReresolution := Some (Alternative_receipt a)\<rparr>"
      "q = q'\<lparr>Proposal_Placement := (Proposal_Placement q')\<lparr>PD_RouteReresolution := Some (Alternative_receipt a)\<rparr>\<rparr>"
      using try_alternatives_Some [OF moved(1)] by blast
    obtain routes where t: "task = (Entry_task entry)\<lparr>Task_Routes := routes\<rparr>" using same a(1,3) by auto
    then have "decision_for entry False decision" using planTask_decision [OF a(2)] a(4) by (simp add: decision_for_def)
    moreover from planTask_Some [OF a(2)] obtain c where "checked_entry rt input r1 sessions entry ro co task c q'" by blast
    ultimately show ?thesis using t a(5) moved(2) by (auto simp: checked_proposal_placement)
  next
    case kept
    show ?thesis
    proof (intro conjI impI)
      show "decision_for entry (proposal = None) decision" by (rule planTask_decision [OF kept(1) refl])
      assume "proposal = Some p"
      with kept show "\<exists>c. checked_entry rt input r1 sessions entry ro co task c p" by (metis planTask_Some)
    qed (use kept own in simp)
  qed
  then show "\<exists>routes. task = (Entry_task entry)\<lparr>Task_Routes := routes\<rparr>"
    and "proposal = Some p \<Longrightarrow> \<exists>c. checked_entry rt input router' sessions entry ro co task c p"
    and "decision_for entry (proposal = None) decision" using r1 by auto
qed

section \<open>Entries\<close>

definition entry_ok :: "'s PlanInput \<Rightarrow> planningTaskEntry \<Rightarrow> bool" where
  "entry_ok input entry \<longleftrightarrow> (\<exists>w \<in> set (Plan_Workflows input). \<exists>e. NewDAGExecution (PW_State w) = Some (Inr e) \<and>
     Entry_workflow entry = PW_Workflow w \<and> Entry_state entry = Snapshot e) \<and>
     Entry_task entry \<in> set (State_Tasks (Entry_state entry)) \<and>
     Entry_attempt entry = currentPlanningAttempt (State_Attempts (Entry_state entry)) (Task_ID (Entry_task entry)) \<and>
     \<not> Terminal (Attempt_Progress (Entry_attempt entry)) \<and> nonempty_trimmed (Attempt_ID (Entry_attempt entry)) \<and>
     (Entry_ready entry \<longleftrightarrow> Attempt_Progress (Entry_attempt entry) = ProgressReady)"

definition history_ok :: "'s PlanInput \<Rightarrow> bool" where
  "history_ok input \<longleftrightarrow> (\<exists>attempts. Ordering_Attempts (Plan_Ordering input) = Some attempts \<and> (\<forall>entry \<in> set attempts. nonempty_trimmed (fst entry)))"

lemma validatePlanInput_None:
  assumes "validatePlanInput rt input = None"
  shows "history_ok input" and "workflows_problem [] (Plan_Workflows input) = None" and "None \<notin> set (Plan_Constraints input)"
  using assms
  by (auto simp: validatePlanInput_def history_ok_def list_ex_iff Option.is_none_def split: if_splits option.splits)

lemma task_entry_Some:
  assumes "task_entry input workflow state inFlight task = Inr (Some entry)" and "history_ok input"
  shows "Entry_workflow entry = workflow \<and> Entry_state entry = state \<and> Entry_task entry = task \<and>
    Entry_attempt entry = currentPlanningAttempt (State_Attempts state) (Task_ID task) \<and>
    \<not> Terminal (Attempt_Progress (Entry_attempt entry)) \<and> nonempty_trimmed (Attempt_ID (Entry_attempt entry)) \<and>
    (Entry_ready entry \<longleftrightarrow> Attempt_Progress (Entry_attempt entry) = ProgressReady)"
  using assms
  by (auto simp: task_entry_def Let_def history_ok_def split: if_splits option.splits dest!: map_of_SomeD)

lemma task_entries_Inr:
  "task_entries f tasks = Inr entries \<Longrightarrow> entry \<in> set entries \<Longrightarrow> \<exists>task \<in> set tasks. f task = Inr (Some entry)"
  by (induction f tasks arbitrary: entries rule: task_entries.induct) (fastforce split: sum.splits option.splits)+

lemma workflow_entries_ok:
  assumes "workflow_entries input w = Inr entries" and "entry \<in> set entries" and "history_ok input" and "w \<in> set (Plan_Workflows input)"
  shows "entry_ok input entry"
proof -
  obtain e inFlight where e: "NewDAGExecution (PW_State w) = Some (Inr e)"
    "task_entries (task_entry input (PW_Workflow w) (Snapshot e) inFlight) (State_Tasks (Snapshot e)) = Inr entries"
    using assms(1) by (auto simp: workflow_entries_def Let_def split: option.splits sum.splits)
  from task_entries_Inr [OF e(2) assms(2)] obtain task where task: "task \<in> set (State_Tasks (Snapshot e))"
    "task_entry input (PW_Workflow w) (Snapshot e) inFlight task = Inr (Some entry)" by blast
  from task_entry_Some [OF task(2) assms(3)] task(1) e(1) assms(4) show ?thesis by (auto simp: entry_ok_def)
qed

lemma collect_entries_Inr:
  "collect_entries input ws = Inr entries \<Longrightarrow> entry \<in> set entries \<Longrightarrow>
     \<exists>w \<in> set ws. \<exists>es. workflow_entries input w = Inr es \<and> entry \<in> set es"
  by (induction input ws arbitrary: entries rule: collect_entries.induct) (fastforce split: sum.splits)+

text \<open>An entry in its round is the collected entry with another place in the order.\<close>

lemma with_round_frame [simp]:
  "Entry_workflow (with_round es i) = Entry_workflow (es ! i)" "Entry_state (with_round es i) = Entry_state (es ! i)"
  "Entry_task (with_round es i) = Entry_task (es ! i)" "Entry_attempt (with_round es i) = Entry_attempt (es ! i)"
  "Entry_ready (with_round es i) = Entry_ready (es ! i)"
  by (simp_all add: with_round_def Let_def)

lemma with_round_ok: "entry_ok input (with_round entries i) \<longleftrightarrow> entry_ok input (entries ! i)"
  unfolding entry_ok_def with_round_frame by (rule refl)

lemma orderedPlanningTasks_ok:
  assumes "orderedPlanningTasks input = Inr entries" and "history_ok input" and "entry \<in> set entries"
  shows "entry_ok input entry"
proof -
  obtain collected where c: "collect_entries input (Plan_Workflows input) = Inr collected"
    "entries = sort_less plan_less (map (with_round collected) [0..<length collected])"
    using assms(1) by (auto simp: orderedPlanningTasks_def split: sum.splits)
  with assms(3) obtain i where i: "i < length collected" "entry = with_round collected i" by auto
  from collect_entries_Inr [OF c(1) nth_mem [OF i(1)]] obtain w es where w: "w \<in> set (Plan_Workflows input)"
    "workflow_entries input w = Inr es" "collected ! i \<in> set es" by blast
  from workflow_entries_ok [OF w(2,3) assms(2) w(1)] show ?thesis unfolding i(2) with_round_ok .
qed

section \<open>The pass\<close>

text \<open>The moves of the pass as a relation: a finished entry is passed over, a blocked one leaves a
  decision, an unblocked one is proposed and committed.\<close>

inductive plan_move :: "go_runtime \<Rightarrow> 's PlanInput \<Rightarrow> planningTaskEntry \<Rightarrow> 's plan_state \<Rightarrow> 's plan_state \<Rightarrow> bool"
  for rt input entry st where
  finished: "Terminal (Attempt_Progress (Entry_attempt entry)) \<Longrightarrow> plan_move rt input entry st st"
| declined: "same_pools (PState_router st) router \<Longrightarrow> decision_for entry True decision \<Longrightarrow>
    plan_move rt input entry st
      (st\<lparr>PState_router := router, PState_plan := (PState_plan st)\<lparr>Plan_Decisions := Plan_Decisions (PState_plan st) @ [decision]\<rparr>\<rparr>)"
| proposed: "same_pools (PState_router st) router \<Longrightarrow> task = (Entry_task entry)\<lparr>Task_Routes := routes\<rparr> \<Longrightarrow>
    checked_entry rt (input\<lparr>Plan_Workers := PState_workers st\<rparr>) router (PState_sessions st) entry
      (PState_resourceOwners st) (PState_checkoutOwners st) task c p \<Longrightarrow>
    commit_proposal input entry task decision p (st\<lparr>PState_router := router\<rparr>) = Inr st' \<Longrightarrow> decision_for entry False decision \<Longrightarrow>
    plan_move rt input entry st st'"

inductive_cases plan_moveE: "plan_move rt input entry st st'"

lemma plan_step_move:
  assumes "plan_step rt input entry st = Inr st'"
  shows "plan_move rt input entry st st'"
proof (cases "Terminal (Attempt_Progress (Entry_attempt entry))")
  case True
  with assms show ?thesis by (auto simp: plan_step_def intro: plan_move.finished)
next
  case False
  let ?input = "input\<lparr>Plan_Workers := PState_workers st\<rparr>"
  obtain decision proposal task router where e: "planEntry rt ?input (PState_router st) (PState_sessions st) entry
      (PState_resourceOwners st) (PState_checkoutOwners st) = Inr ((decision, proposal, task), router)"
    using assms False by (auto simp: plan_step_def split: sum.splits)
  note facts = planEntry_Inr [OF e]
  show ?thesis
  proof (cases proposal)
    case None
    with assms False e facts(1,4) show ?thesis by (auto simp: plan_step_def intro: plan_move.declined)
  next
    case (Some p)
    obtain routes c where t: "task = (Entry_task entry)\<lparr>Task_Routes := routes\<rparr>"
      and c: "checked_entry rt ?input router (PState_sessions st) entry (PState_resourceOwners st) (PState_checkoutOwners st) task c p"
      using facts(2) facts(3) [OF Some] by blast
    have "commit_proposal input entry task decision p (st\<lparr>PState_router := router\<rparr>) = Inr st'"
      using assms False e Some by (simp add: plan_step_def)
    then show ?thesis using facts(4) Some by (intro plan_move.proposed [OF facts(1) t c]) simp_all
  qed
qed

text \<open>
  An invariant of the pass: what every move on an admissible entry keeps, the whole pass keeps.
\<close>

locale plan_invariant =
  fixes rt :: go_runtime and input :: "'s PlanInput" and admissible :: "planningTaskEntry \<Rightarrow> bool"
    and holds :: "'s plan_state \<Rightarrow> bool"
  assumes keeps: "holds st \<Longrightarrow> admissible entry \<Longrightarrow> plan_move rt input entry st st' \<Longrightarrow> holds st'"
begin

lemma steps: "plan_steps rt input entries st = Inr st' \<Longrightarrow> (\<forall>entry \<in> set entries. admissible entry) \<Longrightarrow> holds st \<Longrightarrow> holds st'"
proof (induction entries arbitrary: st)
  case (Cons entry entries)
  obtain st1 where st1: "plan_step rt input entry st = Inr st1" "plan_steps rt input entries st1 = Inr st'"
    using Cons.prems(1) by (auto split: sum.splits)
  have "holds st1" using Cons.prems(2) by (intro keeps [OF Cons.prems(3) _ plan_step_move [OF st1(1)]]) simp
  with Cons.IH [OF st1(2)] Cons.prems(2) show ?case by simp
qed simp

end

lemma BuildPlan_Inr:
  assumes "BuildPlan rt input = Inr plan"
  obtains router sessions entries st where "newProviderRouter (Plan_Workers input) (Plan_QuotaPools input) (Plan_RouteEstimates input) = Inr router"
    "start_sessions input = Inr sessions" "orderedPlanningTasks input = Inr entries"
    "plan_steps rt input entries (initial_plan_state input router sessions) = Inr st" "plan = PState_plan st"
    "\<forall>entry \<in> set entries. entry_ok input entry"
proof -
  have v: "validatePlanInput rt input = None" using assms by (auto simp: BuildPlan_def split: option.splits)
  obtain router where r: "newProviderRouter (Plan_Workers input) (Plan_QuotaPools input) (Plan_RouteEstimates input) = Inr router"
    using assms v by (auto simp: BuildPlan_def split: sum.splits)
  obtain sessions where s: "start_sessions input = Inr sessions" using assms v r by (auto simp: BuildPlan_def split: sum.splits)
  obtain entries where e: "orderedPlanningTasks input = Inr entries" using assms v r s by (auto simp: BuildPlan_def split: sum.splits)
  obtain st where st: "plan_steps rt input entries (initial_plan_state input router sessions) = Inr st" "plan = PState_plan st"
    using assms v r s e by (auto simp: BuildPlan_def split: sum.splits)
  show ?thesis using orderedPlanningTasks_ok [OF e validatePlanInput_None(1) [OF v]] by (intro that [OF r s e st]) blast
qed

section \<open>The planned attempt\<close>

lemma better_attempt_cases:
  "better_attempt t a c = c \<and> (Attempt_TaskID a = t \<longrightarrow> Attempt_ID c \<noteq> '''' \<and> Attempt_Number a \<le> Attempt_Number c)
   \<or> better_attempt t a c = a \<and> Attempt_TaskID a = t \<and> (Attempt_ID c \<noteq> '''' \<longrightarrow> Attempt_Number c \<le> Attempt_Number a)"
  by (auto simp: better_attempt_def)

text \<open>The latest attempt of the task among the attempts; ties do not occur in a valid graph.\<close>

lemma fold_better_attempt:
  assumes "\<forall>a \<in> set attempts. Attempt_ID a \<noteq> ''''"
    and "Attempt_ID c = '''' \<or> Attempt_TaskID c = t"
  shows "let r = fold (better_attempt t) attempts c in
     (r = c \<or> r \<in> set attempts \<and> Attempt_TaskID r = t) \<and> (Attempt_ID c \<noteq> '''' \<longrightarrow> Attempt_ID r \<noteq> '''' \<and> Attempt_Number c \<le> Attempt_Number r) \<and>
     (\<forall>a \<in> set attempts. Attempt_TaskID a = t \<longrightarrow> Attempt_ID r \<noteq> '''' \<and> Attempt_Number a \<le> Attempt_Number r)"
  using assms
proof (induction attempts arbitrary: c)
  case (Cons a attempts)
  let ?b = "better_attempt t a c"
  have a: "Attempt_ID a \<noteq> ''''" using Cons.prems(1) by simp
  have "Attempt_ID ?b = '''' \<or> Attempt_TaskID ?b = t" using better_attempt_cases [of t a c] Cons.prems(2) by auto
  with Cons.IH [of ?b] Cons.prems(1) have ih: "let r = fold (better_attempt t) attempts ?b in
     (r = ?b \<or> r \<in> set attempts \<and> Attempt_TaskID r = t) \<and> (Attempt_ID ?b \<noteq> '''' \<longrightarrow> Attempt_ID r \<noteq> '''' \<and> Attempt_Number ?b \<le> Attempt_Number r) \<and>
     (\<forall>a \<in> set attempts. Attempt_TaskID a = t \<longrightarrow> Attempt_ID r \<noteq> '''' \<and> Attempt_Number a \<le> Attempt_Number r)" by simp
  from better_attempt_cases [of t a c] show ?case
    using ih a by (elim disjE conjE) (auto simp: Let_def)
qed simp

lemma snapshot_parts [simp]:
  "set (State_Tasks (Snapshot e)) = set (tasks_of e)" "set (State_Attempts (Snapshot e)) = set (attempts_of e)"
  "State_Run (Snapshot e) = run_of e"
  by (simp_all add: Snapshot_def Let_def)

lemma current_attempt_latest:
  assumes "dag_wf e" and "t \<in> set (tasks_of e)" and "i < length (attempts_of e)" and "Attempt_TaskID (attempts_of e ! i) = Task_ID t"
    and "i \<noteq> currentAttemptIndex e (Task_ID t)"
  shows "Attempt_Number (attempts_of e ! i) < Attempt_Number (current_attempt e (Task_ID t))"
proof -
  let ?is = "Exec_attempts e (Task_ID t)"
  have ok: "?is \<noteq> []" "set ?is = {i. i < length (attempts_of e) \<and> Attempt_TaskID (attempts_of e ! i) = Task_ID t}"
    "sorted_wrt (\<lambda>i j. Attempt_Number (attempts_of e ! i) < Attempt_Number (attempts_of e ! j)) ?is"
    using assms(1,2) by (auto simp: dag_wf_def attempts_ok_def)
  then obtain k where k: "k < length ?is" "?is ! k = i" using assms(3,4) by (metis (mono_tags, lifting) in_set_conv_nth mem_Collect_eq)
  have "k \<noteq> length ?is - 1" using k assms(5) by (auto simp: currentAttemptIndex_def Let_def)
  with k ok(3) show ?thesis by (auto simp: sorted_wrt_iff_nth_less current_attempt_def currentAttemptIndex_def Let_def)
qed

lemma currentPlanningAttempt_current:
  assumes "dag_reachable e" and "t \<in> set (tasks_of e)"
  shows "currentPlanningAttempt (State_Attempts (Snapshot e)) (Task_ID t) = current_attempt e (Task_ID t)"
proof -
  let ?c = "current_attempt e (Task_ID t)" and ?as = "State_Attempts (Snapshot e)"
  have wf: "dag_wf e" and v: "valid_dag (Exec_state e)" using reachable_ok [OF assms(1)] by blast+
  have ids: "\<forall>a \<in> set ?as. Attempt_ID a \<noteq> ''''" using v by (auto simp: valid_dag_def valid_attempts_def)
  note c = current_index [OF wf assms(2)]
  have mem: "?c \<in> set (attempts_of e)" "Attempt_TaskID ?c = Task_ID t" using c by (simp_all add: current_attempt_def)
  let ?r = "fold (better_attempt (Task_ID t)) ?as zero_Attempt"
  have r: "?r = zero_Attempt \<or> ?r \<in> set ?as \<and> Attempt_TaskID ?r = Task_ID t"
    "Attempt_ID ?r \<noteq> ''''" "Attempt_Number ?c \<le> Attempt_Number ?r"
    using fold_better_attempt [OF ids, of zero_Attempt "Task_ID t"] mem by (auto simp: Let_def zero_Attempt_def)
  then have "?r \<in> set (attempts_of e)" "Attempt_TaskID ?r = Task_ID t" by (auto simp: zero_Attempt_def)
  then obtain i where i: "i < length (attempts_of e)" "attempts_of e ! i = ?r" "Attempt_TaskID (attempts_of e ! i) = Task_ID t"
    by (metis in_set_conv_nth)
  have "i = currentAttemptIndex e (Task_ID t)"
    using current_attempt_latest [OF wf assms(2) i(1,3)] r(3) i(2) by (metis leD)
  with i(2) show ?thesis by (simp add: currentPlanningAttempt_def current_attempt_def)
qed

section \<open>Ownership\<close>

text \<open>
  Exclusive claims: every claimed key is owned by the claiming attempt, and a key that had an
  owner when the pass began still has it.
\<close>

definition owned :: "(string \<times> string) list option \<Rightarrow> (string \<times> string) list option \<Rightarrow> (string \<times> string) set \<Rightarrow> bool" where
  "owned before owners claims \<longleftrightarrow>
     (\<forall>k. owner_of before k \<noteq> '''' \<longrightarrow> owner_of owners k = owner_of before k) \<and>
     (\<forall>(k, a) \<in> claims. a \<noteq> '''' \<and> owner_of owners k = a)"

lemma owner_of_set_owner: "owners \<noteq> None \<Longrightarrow> owner_of (set_owner k a owners) j = (if j = k then a else owner_of owners j)"
proof -
  assume "owners \<noteq> None"
  then obtain es where "owners = Some es" by blast
  then show ?thesis by (simp add: owner_of_def set_owner_def AList.update_conv')
qed

lemma set_owner_None [simp]: "set_owner k a owners = None \<longleftrightarrow> owners = None"
  by (simp add: set_owner_def)

lemma owned_claim:
  assumes "owned before owners claims" and "owners \<noteq> None" and "\<not> held_by_other owners k a" and "a \<noteq> ''''"
  shows "owned before (set_owner k a owners) (insert (k, a) claims)"
  using assms by (force simp: owned_def owner_of_set_owner held_by_other_def)

lemma owned_claims:
  assumes "owned before owners claims" and "ks \<noteq> [] \<longrightarrow> owners \<noteq> None" and "\<forall>k \<in> set ks. \<not> held_by_other owners k a" and "a \<noteq> ''''"
  shows "owned before (fold (\<lambda>k. set_owner k a) ks owners) (claims \<union> (\<lambda>k. (k, a)) ` set ks)"
  using assms
proof (induction ks arbitrary: owners claims)
  case (Cons k ks)
  have "owned before (set_owner k a owners) (insert (k, a) claims)" using Cons.prems by (intro owned_claim) auto
  moreover have "\<forall>j \<in> set ks. \<not> held_by_other (set_owner k a owners) j a"
    using Cons.prems by (auto simp: held_by_other_def owner_of_set_owner)
  ultimately have "owned before (fold (\<lambda>k. set_owner k a) ks (set_owner k a owners)) (insert (k, a) claims \<union> (\<lambda>k. (k, a)) ` set ks)"
    using Cons.prems by (intro Cons.IH) auto
  then show ?case by simp
qed simp

text \<open>What two claims on a key and an earlier owner have to do with each other.\<close>

lemma owned_claimD: "owned before owners claims \<Longrightarrow> (k, a) \<in> claims \<Longrightarrow> a \<noteq> '''' \<and> owner_of owners k = a"
  by (auto simp: owned_def)

lemma owned_exclusive: "owned before owners claims \<Longrightarrow> (k, a) \<in> claims \<Longrightarrow> (k, b) \<in> claims \<Longrightarrow> a = b"
  using owned_claimD by blast

lemma owned_before:
  assumes "owned before owners claims" and "(k, a) \<in> claims"
  shows "owner_of before k \<in> {'''', a}"
proof -
  have "owner_of before k \<noteq> '''' \<longrightarrow> owner_of owners k = owner_of before k" using assms(1) by (simp add: owned_def)
  with owned_claimD [OF assms] show ?thesis by auto
qed

end
