(* ===== verification/PlannerSample.thy ===== *)
theory PlannerSample
  imports Planner DagProperties RegistryProperties
begin

text \<open>
  A planning input for the examples: one run with two independent tasks that lock different
  resources and use the same quota pool, and one worker with two executor slots.
\<close>

definition planner_route :: ProviderRoute where
  "planner_route = \<lparr>Route_WorkerID = '''', Route_ProviderInstanceID = ''i1'', Route_Model = ''m'', Route_Options = [], Route_QuotaPoolID = ''''\<rparr>"

definition planner_task :: "string \<Rightarrow> Task" where
  "planner_task n = (sample_task n [])\<lparr>Task_Routes := [planner_route], Task_ResourceLocks := [''lock-'' @ n]\<rparr>"

definition planner_dag :: DAGState where
  "planner_dag = \<lparr>State_External = Map.empty, State_Run = sample_run, State_Tasks = [planner_task ''a'', planner_task ''b''],
     State_Attempts = map (\<lambda>n. sample_attempt n ProgressBlocked) [''a'', ''b'']\<rparr>"

definition planner_workflow :: PlanningWorkflow where
  "planner_workflow = \<lparr>PW_Workflow = \<lparr>Workflow_ID = ''wf'', Workflow_Project = '''',
       Workflow_Environment = \<lparr>Env_Type = '''', Env_Scope = ''task'', Env_Ref = ''''\<rparr>\<rparr>, PW_State = planner_dag\<rparr>"

definition planner_worker :: WorkerInventory where
  "planner_worker = zero_Worker\<lparr>Worker_ID := ''w1'', Worker_AcceptBacklog := True, Worker_Health := WorkerHealthReady,
     Worker_Providers := [\<lparr>Provider_InstanceID = ''i1'', Provider_Models = [''m''], Provider_QuotaPoolID = '''', Provider_Available = True\<rparr>],
     Worker_CPUClass := CPUClassLow, Worker_ObservedAt := 9,
     Worker_Allocatable := \<lparr>Alloc_ExecutorSlots = 2, Alloc_CPUUnits = Fin 0, Alloc_MemoryMB = 0, Alloc_ScratchMB = 0\<rparr>\<rparr>"

definition planner_pool :: QuotaPool where
  "planner_pool = \<lparr>Pool_ID = ''q'', Pool_Provider = '''', Pool_AccountID = '''', Pool_ProviderInstanceIDs = [''i1''],
     Pool_Admission = AdmissionOpen, Pool_MaxConcurrent = 3, Pool_ActiveAssignments = 1\<rparr>"

definition planner_estimate :: "string \<Rightarrow> RouteEstimate" where
  "planner_estimate attempt = \<lparr>RouteEst_AttemptID = attempt, RouteEst_WorkerID = ''w1'', RouteEst_ProviderInstanceID = ''i1'',
     RouteEst_Model = ''m'', RouteEst_Options = [],
     RouteEst_Estimate = \<lparr>Estimate_RemainingCost = Fin 1, Estimate_ExpectedRuntime = 1, Estimate_CheckpointMargin = 0\<rparr>\<rparr>"

definition planner_history :: PlanningAttemptOrdering where
  "planner_history = \<lparr>Ordering_ReadySince = 5, Ordering_PriorDeferrals = 0, Ordering_NestedUnder = ''''\<rparr>"

definition planner_executors :: ExecutorPool where
  "planner_executors = \<lparr>Pool_WorkerID = ''w1'', Pool_Name = ''default'', Pool_CatalogRevision = '''', Pool_CPUClass = CPUClassLow,
     Pool_Allocatable = \<lparr>Alloc_ExecutorSlots = 2, Alloc_CPUUnits = Fin 0, Alloc_MemoryMB = 0, Alloc_ScratchMB = 0\<rparr>\<rparr>"

definition planner_input :: "(string \<times> string) list option \<Rightarrow> (instant \<times> capacitySession) PlanInput" where
  "planner_input owners =
     \<lparr>Plan_ResourcePolicy = zero_Policy, Plan_DirectoryOwners = [], Plan_Now = 10, Plan_MaxWorkerSnapshotAge = 60,
      Plan_Workflows = [planner_workflow], Plan_Workers = [planner_worker], Plan_QuotaPools = [planner_pool],
      Plan_RouteEstimates = map planner_estimate [''a-1'', ''b-1''], Plan_ResourceOwners = owners, Plan_WorkflowCheckoutOwners = Some [],
      Plan_Constraints = [Some (NewCapacityConstraint in_order [planner_executors] [])], Plan_SupervisionSnapshots = [],
      Plan_Ordering = \<lparr>Ordering_DeadlineRiskWindow = 60, Ordering_Attempts = Some (map (\<lambda>i. (i, planner_history)) [''a-1'', ''b-1''])\<rparr>\<rparr>"

definition planner_runtime :: go_runtime where
  "planner_runtime = \<lparr>Runtime_text = (\<lambda>_. ''text''), Runtime_time = (\<lambda>_. ''time''), Runtime_order = (\<lambda>keys. keys)\<rparr>"

abbreviation planner_example :: "(instant \<times> capacitySession) PlanInput" where
  "planner_example \<equiv> planner_input (Some [])"

definition planner_plan :: Plan where
  "planner_plan = (case BuildPlan planner_runtime planner_example of Inr plan \<Rightarrow> plan | Inl _ \<Rightarrow> \<lparr>Plan_Proposals = [], Plan_Decisions = []\<rparr>)"

lemma planner_summary:
  "map (\<lambda>p. (Proposal_WorkflowRunID p, Proposal_TaskID p, Proposal_AttemptID p, Proposal_WorkerID p, Proposal_ResourceLocks p,
       map_option Route_QuotaPoolID (Proposal_Route p))) (Plan_Proposals planner_plan) =
     [(''run'', ''a'', ''a-1'', ''w1'', [''lock-a''], Some ''q''), (''run'', ''b'', ''b-1'', ''w1'', [''lock-b''], Some ''q'')]"
  by code_simp

lemma planner_builds: "BuildPlan planner_runtime planner_example = Inr planner_plan"
proof (cases "BuildPlan planner_runtime planner_example")
  case (Inl err)
  then have "Plan_Proposals planner_plan = []" by (simp add: planner_plan_def)
  with planner_summary show ?thesis by simp
qed (simp add: planner_plan_def)

lemma planner_proposals:
  obtains p q where "Plan_Proposals planner_plan = [p, q]"
    "Proposal_WorkflowRunID p = ''run''" "Proposal_TaskID p = ''a''" "Proposal_AttemptID p = ''a-1''" "Proposal_WorkerID p = ''w1''"
    "Proposal_ResourceLocks p = [''lock-a'']" "map_option Route_QuotaPoolID (Proposal_Route p) = Some ''q''"
    "Proposal_WorkflowRunID q = ''run''" "Proposal_TaskID q = ''b''" "Proposal_AttemptID q = ''b-1''" "Proposal_WorkerID q = ''w1''"
    "Proposal_ResourceLocks q = [''lock-b'']" "map_option Route_QuotaPoolID (Proposal_Route q) = Some ''q''"
  using planner_summary by (auto simp: map_eq_Cons_conv)

end
