(* ===== verification/PlacementProperties.thy ===== *)
theory PlacementProperties
  imports PlannerSpec PlannerSample "HOL-Library.Product_Lexorder"
begin

text \<open>
  Which worker a placement selects: the first, in the order of identifiers, that no eligible worker
  beats, for the order of live-resource evidence and then of preference scores.
\<close>

section \<open>The order of workers\<close>

text \<open>Larger numbers first; the order of numbers is total apart from NaN.\<close>

fun descending :: "float64 \<Rightarrow> nat \<times> rat" where
  "descending (Infinite False) = (0, 0)"
| "descending (Fin q) = (1, - q)"
| "descending (Infinite True) = (2, 0)"
| "descending NaN = (3, 0)"

lemma f_lt_descending: "x \<noteq> NaN \<Longrightarrow> y \<noteq> NaN \<Longrightarrow> f_lt y x \<longleftrightarrow> descending x < descending y"
  by (cases x rule: descending.cases; cases y rule: descending.cases) auto

lemma descending_inj: "descending x = descending y \<longleftrightarrow> x = y"
  by (cases x rule: descending.cases; cases y rule: descending.cases) auto

definition worker_rank :: "PlacementDecision \<Rightarrow> string \<Rightarrow> nat \<times> (nat \<times> rat) \<times> nat \<times> rat" where
  "worker_rank d i =
     (let e = evaluation_of d i; known = (RE_State e = StateKnown)
      in (if known then 0 else 1, if known then descending (RE_Score e) else (0, 0), descending (Score_Total (scoreFor (PD_Scores d) i))))"

definition numbers_defined :: "PlacementDecision \<Rightarrow> bool" where
  "numbers_defined d \<longleftrightarrow> (\<forall>e \<in> set (PD_ResourceEvaluations d). RE_Score e \<noteq> NaN) \<and> (\<forall>s \<in> set (PD_Scores d). Score_Total s \<noteq> NaN)"

lemma numbers_definedD:
  assumes "numbers_defined d"
  shows "RE_Score (evaluation_of d i) \<noteq> NaN" and "Score_Total (scoreFor (PD_Scores d) i) \<noteq> NaN"
proof -
  show "RE_Score (evaluation_of d i) \<noteq> NaN"
    using assms by (auto simp: numbers_defined_def evaluation_of_def zero_ResourceEvaluation_def split: option.split dest!: find_SomeD)
  show "Score_Total (scoreFor (PD_Scores d) i) \<noteq> NaN"
    using assms by (auto simp: numbers_defined_def scoreFor_def split: option.split dest!: find_SomeD)
qed

lemma placementBetter_rank:
  assumes "numbers_defined d"
  shows "placementBetter d a b \<longleftrightarrow> worker_rank d a < worker_rank d b"
proof -
  let ?e = "evaluation_of d" and ?t = "\<lambda>i. Score_Total (scoreFor (PD_Scores d) i)"
  have score: "f_lt (RE_Score (?e i)) (RE_Score (?e j)) \<longleftrightarrow> descending (RE_Score (?e j)) < descending (RE_Score (?e i))" for i j
    by (rule f_lt_descending) (rule numbers_definedD(1) [OF assms])+
  have total: "f_lt (?t i) (?t j) \<longleftrightarrow> descending (?t j) < descending (?t i)" for i j
    by (rule f_lt_descending) (rule numbers_definedD(2) [OF assms])+
  obtain ka sa ta where a: "RE_State (?e a) = StateKnown \<longleftrightarrow> ka" "descending (RE_Score (?e a)) = sa" "descending (?t a) = ta" by blast
  obtain kb sb tb where b: "RE_State (?e b) = StateKnown \<longleftrightarrow> kb" "descending (RE_Score (?e b)) = sb" "descending (?t b) = tb" by blast
  show ?thesis
    unfolding placementBetter_def worker_rank_def ResourceRankLess_def Let_def score total a b
    by (cases ka; cases kb; cases "sa = sb"; cases "sa < sb") auto
qed

lemma placement_order: "numbers_defined d \<Longrightarrow> strict_weak_order (placementBetter d)"
  using strict_weak_order_key [of "worker_rank d"] placementBetter_rank [of d] by (simp add: strict_weak_order_def)

text \<open>The selection loop keeps the first of the best.\<close>

lemma fold_better_of:
  assumes "strict_weak_order (placementBetter d)" and "\<forall>s \<in> set scores. Score_WorkerID s \<noteq> ''''" and "scores \<noteq> []"
  shows "\<exists>pre suf. map Score_WorkerID scores = pre @ fold (better_of d) scores '''' # suf \<and>
     (\<forall>j \<in> set pre. placementBetter d (fold (better_of d) scores '''') j) \<and>
     (\<forall>j \<in> set suf. \<not> placementBetter d j (fold (better_of d) scores ''''))"
  using assms(2,3)
proof (induction scores rule: rev_induct)
  case (snoc s scores)
  let ?r = "fold (better_of d) scores ''''"
  show ?case
  proof (cases "scores = []")
    case True
    then show ?thesis by (intro exI [of _ "[]"]) (simp add: better_of_def)
  next
    case False
    with snoc obtain pre suf where ih: "map Score_WorkerID scores = pre @ ?r # suf"
      "\<forall>j \<in> set pre. placementBetter d ?r j" "\<forall>j \<in> set suf. \<not> placementBetter d j ?r" by auto
    have "?r \<in> Score_WorkerID ` set scores" using ih(1) by (metis in_set_conv_decomp set_map)
    with snoc.prems have ne: "?r \<noteq> ''''" by auto
    show ?thesis
    proof (cases "placementBetter d (Score_WorkerID s) ?r")
      case True
      have "placementBetter d (Score_WorkerID s) j" if "j \<in> set (pre @ ?r # suf)" for j
        using that True ih(2,3) assms(1) unfolding strict_weak_order_def by (auto; blast)
      moreover have r': "fold (better_of d) (scores @ [s]) '''' = Score_WorkerID s" using True by (simp add: better_of_def [of d s])
      ultimately show ?thesis unfolding r' using ih(1) by (intro exI [of _ "pre @ ?r # suf"] exI [of _ "[]"]) simp
    next
      case False
      with ne have r': "fold (better_of d) (scores @ [s]) '''' = ?r" by (simp add: better_of_def [of d s])
      show ?thesis unfolding r' using ih False by (intro exI [of _ pre] exI [of _ "suf @ [Score_WorkerID s]"]) auto
    qed
  qed
qed simp

section \<open>Selection\<close>

lemma worker_named_eq:
  assumes "distinct (map Worker_ID ws)" and "w \<in> set ws"
  shows "worker_named ws (Worker_ID w) = w"
proof (cases "find (\<lambda>v. Worker_ID v = Worker_ID w) (rev ws)")
  case None
  with assms(2) show ?thesis by (auto simp: find_None_iff)
next
  case (Some v)
  with assms show ?thesis by (auto simp: worker_named_def distinct_map dest!: find_SomeD dest: inj_onD)
qed

lemma rank_frame:
  "PD_Scores (rankResourceEvaluations d) = PD_Scores d"
  "set (map RE_Score (PD_ResourceEvaluations (rankResourceEvaluations d))) = set (map RE_Score (PD_ResourceEvaluations d))"
proof -
  have "map RE_Score (fold set_rank ranked es) = map RE_Score es" for ranked es
    by (induction ranked arbitrary: es) (auto simp: set_rank_def)
  then show "set (map RE_Score (PD_ResourceEvaluations (rankResourceEvaluations d))) = set (map RE_Score (PD_ResourceEvaluations d))"
    by (simp add: rankResourceEvaluations_def Let_def)
qed (simp add: rankResourceEvaluations_def Let_def)

lemma better_of_selected: "placementBetter (d\<lparr>PD_SelectedWorkerID := i\<rparr>) = placementBetter d"
  by (intro ext) (simp add: placementBetter_def evaluation_of_def)

abbreviation eligible :: "WorkerPlacementRequest \<Rightarrow> WorkerInventory list \<Rightarrow> string list" where
  "eligible request inventory \<equiv> map Worker_ID (filter (\<lambda>w. all_exclusions request w = []) (by_worker inventory))"

lemma explained_scores:
  assumes "MatchWorkers rt request inventory = Inr placement"
  shows "map Score_WorkerID (PD_Scores (explain_placement request inventory placement)) = WP_EligibleWorkerIDs placement"
proof -
  note matched = MatchWorkers_Inr [OF assms]
  have "map Score_WorkerID (PD_Scores (explain_placement request inventory placement)) =
      map (\<lambda>w. Worker_ID (worker_named inventory (Worker_ID w))) (filter (\<lambda>w. all_exclusions request w = []) (by_worker inventory))"
    by (simp add: explain_placement_def scoreWorker_def Let_def matched(1) filter_map o_def)
  also have "\<dots> = eligible request inventory" using worker_named_eq [OF matched(3)] by simp
  finally show ?thesis unfolding matched(2) .
qed

lemma SelectWorker_decision:
  assumes "SelectWorker rt request inventory = Inr selection"
  shows "PS_Decision selection = (let ranked = rankResourceEvaluations (explain_placement request inventory (PS_Placement selection))
    in ranked\<lparr>PD_SelectedWorkerID := fold (better_of ranked) (PD_Scores ranked) ''''\<rparr>)"
proof -
  let ?ranked = "rankResourceEvaluations (explain_placement request inventory (PS_Placement selection))"
  have "\<lparr>PS_Placement = PS_Placement selection,
      PS_Decision = ?ranked\<lparr>PD_SelectedWorkerID := fold (better_of ?ranked) (PD_Scores ?ranked) ''''\<rparr>\<rparr> = selection"
    using assms SelectWorker_Inr [OF assms] by (auto simp: SelectWorker_def Let_def split: option.splits)
  then show ?thesis unfolding Let_def by (metis PlacementSelection.select_convs(2))
qed

lemma SelectWorker_scores:
  assumes "SelectWorker rt request inventory = Inr selection"
  shows "map Score_WorkerID (PD_Scores (PS_Decision selection)) = eligible request inventory"
    and "PD_SelectedWorkerID (PS_Decision selection) = fold (better_of (PS_Decision selection)) (PD_Scores (PS_Decision selection)) ''''"
proof -
  note matched = MatchWorkers_Inr [OF SelectWorker_Inr [OF assms]]
  let ?ranked = "rankResourceEvaluations (explain_placement request inventory (PS_Placement selection))"
  note d = SelectWorker_decision [OF assms, unfolded Let_def]
  have "better_of (PS_Decision selection) = better_of ?ranked" unfolding d by (intro ext) (simp add: better_of_def better_of_selected)
  then show "PD_SelectedWorkerID (PS_Decision selection) = fold (better_of (PS_Decision selection)) (PD_Scores (PS_Decision selection)) ''''"
    unfolding d by simp
  show "map Score_WorkerID (PD_Scores (PS_Decision selection)) = eligible request inventory"
    unfolding d using explained_scores [OF SelectWorker_Inr [OF assms]] matched(2) by (simp add: rank_frame)
qed

lemma eligible_sorted:
  assumes "distinct (map Worker_ID inventory)"
  shows "sorted_wrt (<) (eligible request inventory)"
proof -
  have "sorted_wrt (\<lambda>a b. \<not> Worker_ID b < Worker_ID a) (by_worker inventory)"
    using strict_weak_order.sorted_sort [OF strict_weak_order_key] .
  then have "sorted (map Worker_ID (by_worker inventory))" by (simp add: sorted_wrt_map not_less)
  moreover have "mset (map Worker_ID (by_worker inventory)) = mset (map Worker_ID inventory)" by simp
  then have "distinct (map Worker_ID (by_worker inventory))" using assms mset_eq_imp_distinct_iff by blast
  ultimately have "sorted_wrt (<) (map Worker_ID (by_worker inventory))" by (simp add: strict_sorted_iff)
  then show ?thesis by (simp add: sorted_wrt_map sorted_wrt_filter)
qed

text \<open>
  C35. A placement selects the best eligible worker: it selects none exactly when every worker
  violates a hard constraint; otherwise the selected worker violates none, no eligible worker ranks
  before it (complete telemetry first, then the larger resource score, then the larger preference
  score), and every eligible worker with a smaller identifier ranks strictly behind it.
\<close>

theorem selected_worker_is_best:
  assumes "SelectWorker rt request inventory = Inr selection" and "numbers_defined (PS_Decision selection)"
  shows "let d = PS_Decision selection; i = PD_SelectedWorkerID d in
    (i = '''' \<longleftrightarrow> (\<forall>w \<in> set inventory. all_exclusions request w \<noteq> [])) \<and>
    (i \<noteq> '''' \<longrightarrow> (\<exists>w \<in> set inventory. Worker_ID w = i \<and> all_exclusions request w = [])) \<and>
    (i \<noteq> '''' \<longrightarrow> (\<forall>w \<in> set inventory. all_exclusions request w = [] \<longrightarrow>
       \<not> placementBetter d (Worker_ID w) i \<and> (Worker_ID w < i \<longrightarrow> placementBetter d i (Worker_ID w))))"
proof -
  let ?d = "PS_Decision selection" and ?i = "PD_SelectedWorkerID (PS_Decision selection)"
  note scores = SelectWorker_scores [OF assms(1)] and matched = MatchWorkers_Inr [OF SelectWorker_Inr [OF assms(1)]]
  show ?thesis
  proof (cases "PD_Scores ?d = []")
    case True
    with scores show ?thesis by (auto simp: filter_empty_conv)
  next
    case False
    have "\<forall>s \<in> set (PD_Scores ?d). Score_WorkerID s \<noteq> ''''"
    proof
      fix s assume "s \<in> set (PD_Scores ?d)"
      then have "Score_WorkerID s \<in> set (eligible request inventory)" unfolding scores(1) [symmetric] by simp
      then show "Score_WorkerID s \<noteq> ''''" using matched(4) by auto
    qed
    then obtain pre suf where s: "eligible request inventory = pre @ ?i # suf"
      "\<forall>j \<in> set pre. placementBetter ?d ?i j" "\<forall>j \<in> set suf. \<not> placementBetter ?d j ?i"
      using fold_better_of [OF placement_order [OF assms(2)] _ False] unfolding scores by auto
    have sorted: "sorted_wrt (<) (pre @ ?i # suf)" using eligible_sorted [OF matched(3), of request] unfolding s(1) .
    have members: "(\<exists>w \<in> set inventory. Worker_ID w = j \<and> all_exclusions request w = []) \<longleftrightarrow> j \<in> set (pre @ ?i # suf)" for j
      unfolding s(1) [symmetric] by auto
    have here: "\<exists>w \<in> set inventory. Worker_ID w = ?i \<and> all_exclusions request w = []" using members [of ?i] by simp
    have best: "\<not> placementBetter ?d j ?i \<and> (j < ?i \<longrightarrow> placementBetter ?d ?i j)" if "j \<in> set (pre @ ?i # suf)" for j
      using that s(2,3) sorted placement_order [OF assms(2)] strict_weak_order.asym strict_weak_order.irrefl
      by (fastforce simp: sorted_wrt_append)
    have "?i \<noteq> ''''" using here matched(4) by auto
    then show ?thesis unfolding Let_def using here best members by blast
  qed
qed

definition placed_example :: PlacementSelection where
  "placed_example = (case SelectWorker planner_runtime (placement_request planner_example (PW_Workflow planner_workflow) (planner_task ''a''))
     [planner_worker] of Inr selection \<Rightarrow> selection)"

lemma placed_summary:
  "(case SelectWorker planner_runtime (placement_request planner_example (PW_Workflow planner_workflow) (planner_task ''a'')) [planner_worker] of
      Inl err \<Rightarrow> None
    | Inr s \<Rightarrow> Some (PD_SelectedWorkerID (PS_Decision s), map RE_Score (PD_ResourceEvaluations (PS_Decision s)),
        map (\<lambda>score. (Score_WorkerID score, Score_Total score)) (PD_Scores (PS_Decision s)))) = Some (''w1'', [Fin 0], [(''w1'', Fin (3 / 2))])"
  by code_simp

lemma placed_selected:
  "SelectWorker planner_runtime (placement_request planner_example (PW_Workflow planner_workflow) (planner_task ''a'')) [planner_worker] =
     Inr placed_example"
  "PD_SelectedWorkerID (PS_Decision placed_example) = ''w1''" "numbers_defined (PS_Decision placed_example)"
  "map Score_WorkerID (PD_Scores (PS_Decision placed_example)) = [''w1'']"
proof -
  have d: "SelectWorker planner_runtime (placement_request planner_example (PW_Workflow planner_workflow) (planner_task ''a'')) [planner_worker] =
      Inr placed_example" "PD_SelectedWorkerID (PS_Decision placed_example) = ''w1''"
    "map RE_Score (PD_ResourceEvaluations (PS_Decision placed_example)) = [Fin 0]"
    "map (\<lambda>s. (Score_WorkerID s, Score_Total s)) (PD_Scores (PS_Decision placed_example)) = [(''w1'', Fin (3 / 2))]"
    using placed_summary by (auto simp: placed_example_def split: sum.splits)
  then show "SelectWorker planner_runtime (placement_request planner_example (PW_Workflow planner_workflow) (planner_task ''a'')) [planner_worker] =
      Inr placed_example" "PD_SelectedWorkerID (PS_Decision placed_example) = ''w1''"
    "numbers_defined (PS_Decision placed_example)" "map Score_WorkerID (PD_Scores (PS_Decision placed_example)) = [''w1'']"
    by (auto simp: numbers_defined_def map_eq_Cons_conv)
qed

theorem selected_worker_is_best_witness:
  "PD_SelectedWorkerID (PS_Decision placed_example) = ''w1'' \<and>
   all_exclusions (placement_request planner_example (PW_Workflow planner_workflow) (planner_task ''a'')) planner_worker = []"
proof -
  from selected_worker_is_best [OF placed_selected(1,3)] placed_selected(2) show ?thesis by (simp add: Let_def)
qed

section \<open>Decisions validate themselves\<close>

lemma rank_frame_ids:
  "PD_CandidateIDs (rankResourceEvaluations d) = PD_CandidateIDs d" "PD_Rejections (rankResourceEvaluations d) = PD_Rejections d"
  "PD_Demand (rankResourceEvaluations d) = PD_Demand d" "PD_ReservationID (rankResourceEvaluations d) = PD_ReservationID d"
  by (simp_all add: rankResourceEvaluations_def Let_def)

lemma decision_validates:
  assumes "MatchWorkers rt request inventory = Inr placement" and "ResourceDemand_Validate (Task_ResourceDemand (WPR_Task request)) = None"
    and "i = '''' \<or> i \<in> set (WP_EligibleWorkerIDs placement)"
  shows "PlacementDecision_Validate ((rankResourceEvaluations (explain_placement request inventory placement))\<lparr>PD_SelectedWorkerID := i\<rparr>) = None"
proof (cases "i = ''''")
  case True
  with assms(2) show ?thesis by (simp add: PlacementDecision_Validate_def rank_frame_ids explain_placement_def Let_def)
next
  case False
  let ?d = "explain_placement request inventory placement"
  note matched = MatchWorkers_Inr [OF assms(1)]
  obtain w where w: "w \<in> set inventory" "Worker_ID w = i" "all_exclusions request w = []" using assms(3) False matched(2) by auto
  have "i \<in> set (PD_CandidateIDs ?d)" using w(1,2) by (auto simp: explain_placement_def Let_def matched(1))
  moreover have "Rejection_WorkerID r \<noteq> i" if r: "r \<in> set (PD_Rejections ?d)" for r
  proof
    assume "Rejection_WorkerID r = i"
    then obtain v where "v \<in> set inventory" "Worker_ID v = i" "all_exclusions request v \<noteq> []"
      using r by (fastforce simp: explain_placement_def Let_def matched(1) rejections_of_def evaluateWorker_def)
    with w matched(3) show False by (metis distinct_map inj_onD)
  qed
  moreover have "\<exists>s \<in> set (PD_Scores ?d). Score_WorkerID s = i"
    using w worker_named_eq [OF matched(3) w(1)] by (force simp: explain_placement_def scoreWorker_def Let_def matched(1))
  ultimately show ?thesis
    using assms(2) False
    by (auto simp: PlacementDecision_Validate_def rank_frame_ids rank_frame(1) list_ex_eq find_None_iff explain_placement_def Let_def split: option.split)
qed

lemma fold_better_of_mem: "fold (better_of d) scores i \<in> insert i (Score_WorkerID ` set scores)"
  by (induction scores arbitrary: i) (auto simp: better_of_def split: if_splits)

text \<open>
  C36. A placement decision is always well formed: selecting a worker fails only on an invalid
  demand or inventory, never on its own check of the decision it built, and putting any eligible
  worker in place of the selected one gives a decision that validates again.
\<close>

theorem placement_decision_valid:
  "((\<exists>s. SelectWorker rt request inventory = Inr s) \<longleftrightarrow>
     ResourceDemand_Validate (Task_ResourceDemand (WPR_Task request)) = None \<and> (\<exists>placement. MatchWorkers rt request inventory = Inr placement)) \<and>
   (\<forall>s i. SelectWorker rt request inventory = Inr s \<and> i \<in> set (WP_EligibleWorkerIDs (PS_Placement s)) \<longrightarrow>
     (\<exists>placed. WithSelectedWorker s i = Inr placed \<and> PD_SelectedWorkerID (PS_Decision placed) = i \<and>
        PlacementDecision_Validate (PS_Decision placed) = None))"
proof (intro conjI allI impI)
  let ?demand = "ResourceDemand_Validate (Task_ResourceDemand (WPR_Task request))"
  show "(\<exists>s. SelectWorker rt request inventory = Inr s) \<longleftrightarrow> ?demand = None \<and> (\<exists>placement. MatchWorkers rt request inventory = Inr placement)"
  proof
    assume "?demand = None \<and> (\<exists>placement. MatchWorkers rt request inventory = Inr placement)"
    then obtain placement where p: "?demand = None" "MatchWorkers rt request inventory = Inr placement" by blast
    let ?ranked = "rankResourceEvaluations (explain_placement request inventory placement)"
    have "fold (better_of ?ranked) (PD_Scores ?ranked) '''' = '''' \<or>
        fold (better_of ?ranked) (PD_Scores ?ranked) '''' \<in> set (WP_EligibleWorkerIDs placement)"
      using fold_better_of_mem [of ?ranked "PD_Scores ?ranked" "''''"] explained_scores [OF p(2)] by (auto simp: rank_frame(1) simp flip: set_map)
    from decision_validates [OF p(2,1) this] p show "\<exists>s. SelectWorker rt request inventory = Inr s" by (simp add: SelectWorker_def Let_def)
  qed (auto simp: SelectWorker_def split: option.splits sum.splits)
next
  fix s i
  assume a: "SelectWorker rt request inventory = Inr s \<and> i \<in> set (WP_EligibleWorkerIDs (PS_Placement s))"
  then have sel: "SelectWorker rt request inventory = Inr s" by blast
  have demand: "ResourceDemand_Validate (Task_ResourceDemand (WPR_Task request)) = None"
    using sel by (auto simp: SelectWorker_def split: option.splits)
  have "PlacementDecision_Validate ((PS_Decision s)\<lparr>PD_SelectedWorkerID := i\<rparr>) = None"
    using decision_validates [OF SelectWorker_Inr [OF sel] demand, of i] a SelectWorker_decision [OF sel] by (simp add: Let_def)
  then show "\<exists>placed. WithSelectedWorker s i = Inr placed \<and> PD_SelectedWorkerID (PS_Decision placed) = i \<and>
      PlacementDecision_Validate (PS_Decision placed) = None"
    by (auto simp: WithSelectedWorker_def Let_def)
qed

theorem placement_decision_valid_witness:
  "\<exists>placed. WithSelectedWorker placed_example ''w1'' = Inr placed \<and> PD_SelectedWorkerID (PS_Decision placed) = ''w1''"
proof -
  note s = placed_selected
  have "''w1'' \<in> set (WP_EligibleWorkerIDs (PS_Placement placed_example))"
    using SelectWorker_scores(1) [OF s(1)] MatchWorkers_Inr(2) [OF SelectWorker_Inr [OF s(1)]] s(4)
    by (metis list.set_intros(1))
  with placement_decision_valid [of planner_runtime "placement_request planner_example (PW_Workflow planner_workflow) (planner_task ''a'')"
      "[planner_worker]"] s(1)
  show ?thesis by blast
qed

end
