(* ===== verification/PlannerInvariants.thy ===== *)
theory PlannerInvariants
  imports PlannerSpec
begin

text \<open>
  The invariants of a planning pass, each an instance of \<open>plan_invariant\<close>: proposals are sound,
  claims on locks and checkouts are exclusive, no quota pool is over its limit, and directory
  bindings of different attempts do not conflict.
\<close>

section \<open>What a commit changes\<close>

lemma commit_Inr:
  assumes "commit_proposal input entry planned decision p st = Inr st'"
  shows "Plan_Proposals (PState_plan st') = Plan_Proposals (PState_plan st) @ [p]"
    and "PState_workers st' = reservePlacementResources (PState_workers st) (Proposal_WorkerID p)
           (expectedResourceNeeds planned (WithDefaults (Plan_ResourcePolicy input)))"
    and "PState_router st' = router_Reserve (PState_router st) (proposal_candidate entry planned p)"
    and "PState_sessions st' = sessions_Reserve (PState_sessions st) (proposal_candidate entry planned p)"
    and "PState_resourceOwners st' = fold (\<lambda>k. set_owner k (Proposal_AttemptID p)) (Proposal_ResourceLocks p) (PState_resourceOwners st)"
    and "PState_checkoutOwners st' = (if Env_Scope (Workflow_Environment (Entry_workflow entry)) = ''workflow''
           then set_owner (entry_run entry) (Proposal_AttemptID p) (PState_checkoutOwners st) else PState_checkoutOwners st)"
    and "Proposal_ResourceLocks p \<noteq> [] \<longrightarrow> PState_resourceOwners st \<noteq> None"
    and "Env_Scope (Workflow_Environment (Entry_workflow entry)) = ''workflow'' \<longrightarrow> PState_checkoutOwners st \<noteq> None"
  using assms by (auto simp: commit_proposal_def Let_def split: if_splits)

lemma entry_attempt_named: "entry_ok input entry \<Longrightarrow> Attempt_ID (Entry_attempt entry) \<noteq> ''''"
  unfolding entry_ok_def nonempty_trimmed_def by blast

text \<open>A proposal of an entry carries the identifiers of the entry.\<close>

lemma checked_entry_ids:
  assumes "checked_entry rt input router sessions entry ro co task c p" and "task = (Entry_task entry)\<lparr>Task_Routes := routes\<rparr>"
  shows "Proposal_WorkflowRunID p = entry_run entry" "Proposal_TaskID p = Task_ID (Entry_task entry)"
    "Proposal_AttemptID p = Attempt_ID (Entry_attempt entry)"
  using assms by (simp_all add: checked_proposal_def)

section \<open>Sound proposals\<close>

text \<open>The hard constraints that do not depend on telemetry, and the whole list for what is left of it.\<close>

definition worker_fits :: "'s PlanInput \<Rightarrow> Workflow \<Rightarrow> Task \<Rightarrow> WorkerInventory \<Rightarrow> bool" where
  "worker_fits input workflow task w \<longleftrightarrow>
     (\<exists>telemetry. all_exclusions (placement_request input workflow task) (w\<lparr>Worker_Telemetry := telemetry\<rparr>) = [])"

definition sound_proposal :: "'s PlanInput \<Rightarrow> ProposedTask \<Rightarrow> bool" where
  "sound_proposal input p \<longleftrightarrow> (\<exists>entry. entry_ok input entry \<and> Proposal_WorkflowRunID p = entry_run entry \<and>
     Proposal_TaskID p = Task_ID (Entry_task entry) \<and> Proposal_AttemptID p = Attempt_ID (Entry_attempt entry) \<and>
     Attempt_Progress (Entry_attempt entry) = ProgressReady \<and> Attempt_AssignmentID (Entry_attempt entry) = '''' \<and>
     supervisionBlockers (Plan_SupervisionSnapshots input) (entry_run entry) (Entry_task entry) = [] \<and>
     (\<exists>w \<in> set (Plan_Workers input). Worker_ID w = Proposal_WorkerID p \<and> worker_fits input (Entry_workflow entry) (Entry_task entry) w) \<and>
     PD_SelectedWorkerID (Proposal_Placement p) = Proposal_WorkerID p)"

text \<open>The workers of a state are those of the input, up to telemetry.\<close>

definition only_telemetry :: "WorkerInventory list \<Rightarrow> WorkerInventory list \<Rightarrow> bool" where
  "only_telemetry ws ws' \<longleftrightarrow> (\<forall>w' \<in> set ws'. \<exists>w \<in> set ws. \<exists>telemetry. w' = w\<lparr>Worker_Telemetry := telemetry\<rparr>)"

lemma only_telemetry_refl: "only_telemetry ws ws"
  unfolding only_telemetry_def
proof
  fix w assume "w \<in> set ws"
  moreover have "w = w\<lparr>Worker_Telemetry := Worker_Telemetry w\<rparr>" by simp
  ultimately show "\<exists>v \<in> set ws. \<exists>telemetry. w = v\<lparr>Worker_Telemetry := telemetry\<rparr>" by blast
qed

lemma only_telemetry_reserve:
  assumes "only_telemetry ws ws'"
  shows "only_telemetry ws (reservePlacementResources ws' i demand)"
  unfolding only_telemetry_def
proof
  fix w' assume "w' \<in> set (reservePlacementResources ws' i demand)"
  then obtain v where v: "v \<in> set ws'" "w' = v \<or> (\<exists>telemetry. w' = v\<lparr>Worker_Telemetry := telemetry\<rparr>)"
    by (auto simp: reservePlacementResources_def)
  obtain w t where w: "w \<in> set ws" "v = w\<lparr>Worker_Telemetry := t\<rparr>" using assms v(1) by (auto simp: only_telemetry_def)
  with v(2) have "\<exists>telemetry. w' = w\<lparr>Worker_Telemetry := telemetry\<rparr>" by auto
  with w(1) show "\<exists>w \<in> set ws. \<exists>telemetry. w' = w\<lparr>Worker_Telemetry := telemetry\<rparr>" by blast
qed

lemma routed_in_pool_frame:
  "Candidate_WorkerID (Routed_candidate (routed_in_pool router c route pool)) = Candidate_WorkerID c"
  "Candidate_Task (Routed_candidate (routed_in_pool router c route pool)) = Candidate_Task c"
  "Candidate_Attempt (Routed_candidate (routed_in_pool router c route pool)) = Candidate_Attempt c"
  by (simp_all add: routed_in_pool_def Let_def split: option.split)

lemma resolveCandidate_frame [simp]:
  "Candidate_WorkerID (Routed_candidate (resolveCandidate router task attempt w i route)) = w"
  "Candidate_Task (Routed_candidate (resolveCandidate router task attempt w i route)) = task"
  "Candidate_Attempt (Routed_candidate (resolveCandidate router task attempt w i route)) = attempt"
  by (simp_all add: resolveCandidate_def Let_def routed_in_pool_frame split: option.split sum.split)

lemma unrouted_frame [simp]:
  "Candidate_WorkerID (Routed_candidate (unrouted task attempt w)) = w"
  "Candidate_Task (Routed_candidate (unrouted task attempt w)) = task"
  "Candidate_Attempt (Routed_candidate (unrouted task attempt w)) = attempt"
  by (simp_all add: unrouted_def)

lemma Candidates_worker: "r \<in> set (Candidates router task attempt ids) \<Longrightarrow> Candidate_WorkerID (Routed_candidate r) \<in> set ids"
  by (auto simp: Candidates_def split: if_splits)

lemma supervision_routes [simp]: "supervisionBlockers snapshots run (task\<lparr>Task_Routes := routes\<rparr>) = supervisionBlockers snapshots run task"
  by (simp add: supervisionBlockers_def cong: option.case_cong)

lemma expected_routes [simp]: "expectedResourceNeeds (task\<lparr>Task_Routes := routes\<rparr>) p = expectedResourceNeeds task p"
  by (simp add: expectedResourceNeeds_def)

lemma live_routes:
  "liveResourceEvaluation (placement_request (input\<lparr>Plan_Workers := ws\<rparr>) workflow (task\<lparr>Task_Routes := routes\<rparr>)) w =
   liveResourceEvaluation (placement_request input workflow task) w"
  by (simp add: liveResourceEvaluation_def placement_request_def Let_def cong: option.case_cong if_cong)

lemma request_routes:
  "all_exclusions (placement_request (input\<lparr>Plan_Workers := ws\<rparr>) workflow (task\<lparr>Task_Routes := routes\<rparr>)) w =
   all_exclusions (placement_request input workflow task) w"
  unfolding all_exclusions_def live_routes
  by (simp add: placement_request_def worker_exclusions_def capability_exclusions_def project_exclusions_def epochExclusions_def Let_def cong: if_cong)

lemma checked_entry_sound:
  assumes "checked_entry rt (input\<lparr>Plan_Workers := ws\<rparr>) router sessions entry ro co task c p"
    and "task = (Entry_task entry)\<lparr>Task_Routes := routes\<rparr>" and "entry_ok input entry" and "only_telemetry (Plan_Workers input) ws"
  shows "sound_proposal input p"
proof -
  let ?request = "placement_request (input\<lparr>Plan_Workers := ws\<rparr>) (Entry_workflow entry) task"
  obtain selection r where s: "SelectWorker rt ?request ws = Inr selection"
    and r: "r \<in> set (Candidates router task (Entry_attempt entry) (WP_EligibleWorkerIDs (PS_Placement selection)))"
      "Candidate_WorkerID c = Candidate_WorkerID (Routed_candidate r)"
    using assms(1) by (auto simp: checked_proposal_def unblocked_def)
  have "Proposal_WorkerID p \<in> set (WP_EligibleWorkerIDs (PS_Placement selection))"
    using assms(1) Candidates_worker [OF r(1)] r(2) by (simp add: checked_proposal_def)
  from eligible_worker [OF s this] obtain w' where w': "w' \<in> set ws" "Worker_ID w' = Proposal_WorkerID p" "all_exclusions ?request w' = []"
    by blast
  obtain w t where w: "w \<in> set (Plan_Workers input)" "w' = w\<lparr>Worker_Telemetry := t\<rparr>" using assms(4) w'(1) by (auto simp: only_telemetry_def)
  have "worker_fits input (Entry_workflow entry) (Entry_task entry) w"
    using w'(3) unfolding worker_fits_def w(2) assms(2) request_routes by blast
  moreover have own: "progressBlockers (Entry_state entry) task (Entry_attempt entry) = []"
    "supervisionBlockers (Plan_SupervisionSnapshots input) (entry_run entry) task = []"
    using assms(1) by (simp_all add: checked_proposal_def task_own_blockers_def)
  moreover have "Attempt_Progress (Entry_attempt entry) = ProgressReady" "Attempt_AssignmentID (Entry_attempt entry) = ''''"
    using own(1) by (auto simp: progressBlockers_def Let_def split: if_splits)
  moreover have "supervisionBlockers (Plan_SupervisionSnapshots input) (entry_run entry) (Entry_task entry) = []"
    using own(2) assms(2) by simp
  ultimately show ?thesis
    unfolding sound_proposal_def using assms(1-3) w w'(2)
    by (intro exI [of _ entry] conjI bexI [of _ w]) (simp_all add: checked_proposal_def)
qed

definition sound_state :: "'s PlanInput \<Rightarrow> 's plan_state \<Rightarrow> bool" where
  "sound_state input st \<longleftrightarrow> only_telemetry (Plan_Workers input) (PState_workers st) \<and>
     (\<forall>p \<in> set (Plan_Proposals (PState_plan st)). sound_proposal input p)"

interpretation soundness: plan_invariant rt input "entry_ok input" "sound_state input" for rt input
proof
  fix st st' and entry
  assume inv: "sound_state input st" and ok: "entry_ok input entry" and move: "plan_move rt input entry st st'"
  from move show "sound_state input st'"
  proof (cases rule: plan_move.cases)
    case (proposed router task routes c p decision)
    from checked_entry_sound [OF proposed(3,2) ok] inv show ?thesis
      using commit_Inr(1,2) [OF proposed(4)] only_telemetry_reserve by (auto simp: sound_state_def)
  qed (use inv in \<open>auto simp: sound_state_def\<close>)
qed

lemma plan_sound:
  assumes "BuildPlan rt input = Inr plan" and "p \<in> set (Plan_Proposals plan)"
  shows "sound_proposal input p"
proof -
  obtain router sessions entries st where b: "plan_steps rt input entries (initial_plan_state input router sessions) = Inr st"
    "plan = PState_plan st" "\<forall>entry \<in> set entries. entry_ok input entry" using BuildPlan_Inr [OF assms(1)] by metis
  have "sound_state input (initial_plan_state input router sessions)"
    by (simp add: sound_state_def initial_plan_state_def only_telemetry_refl)
  from soundness.steps [OF b(1,3) this] assms(2) b(2) show ?thesis by (simp add: sound_state_def)
qed

section \<open>Runs of the input\<close>

abbreviation workflow_run :: "PlanningWorkflow \<Rightarrow> string" where
  "workflow_run w \<equiv> Run_ID (State_Run (PW_State w))"

lemma workflows_problem_None:
  "workflows_problem seen ws = None \<Longrightarrow> distinct (map workflow_run ws) \<and> set (map workflow_run ws) \<inter> set seen = {}"
  by (induction seen ws rule: workflows_problem.induct) (auto simp: Let_def split: if_splits)

lemma NewDAGExecution_frame:
  assumes "NewDAGExecution state = Some (Inr e)"
  shows "tasks_of e = State_Tasks state" and "Run_ID (run_of e) = Run_ID (State_Run state)" and "distinct (map Task_ID (State_Tasks state))"
proof -
  obtain e0 where e0: "dag_wf e0" "Exec_state e0 = state" "e = refresh 0 False e0" "valid_dag state"
    using assms by (rule NewDAGExecution_Inr)
  have "frame e0 e" unfolding e0(3) by (rule keeps_started_frame [OF refresh_correct(1) [OF e0(1)]])
  then show "tasks_of e = State_Tasks state" "Run_ID (run_of e) = Run_ID (State_Run state)" using e0(2) by (simp_all add: frame_def)
  show "distinct (map Task_ID (State_Tasks state))" using e0(4) by (simp add: valid_dag_def valid_tasks_def)
qed

text \<open>The workflow and the task of a proposal, found by their identifiers.\<close>

definition planned_from :: "'s PlanInput \<Rightarrow> ProposedTask \<Rightarrow> PlanningWorkflow \<Rightarrow> Task \<Rightarrow> bool" where
  "planned_from input p w t \<longleftrightarrow> w \<in> set (Plan_Workflows input) \<and> workflow_run w = Proposal_WorkflowRunID p \<and>
     t \<in> set (State_Tasks (PW_State w)) \<and> Task_ID t = Proposal_TaskID p"

lemma entry_planned_from:
  assumes "entry_ok input entry" and "workflows_problem [] (Plan_Workflows input) = None"
    and "Proposal_WorkflowRunID p = entry_run entry" and "Proposal_TaskID p = Task_ID (Entry_task entry)"
    and "planned_from input p w t"
  shows "PW_Workflow w = Entry_workflow entry" and "t = Entry_task entry"
proof -
  obtain v e where v: "v \<in> set (Plan_Workflows input)" "NewDAGExecution (PW_State v) = Some (Inr e)"
    "Entry_workflow entry = PW_Workflow v" "Entry_state entry = Snapshot e" "Entry_task entry \<in> set (State_Tasks (Snapshot e))"
    using assms(1) by (auto simp: entry_ok_def)
  note f = NewDAGExecution_frame [OF v(2)]
  have w: "w \<in> set (Plan_Workflows input)" "workflow_run w = workflow_run v" "t \<in> set (State_Tasks (PW_State w))" "Task_ID t = Task_ID (Entry_task entry)"
    using assms(3-5) v(4) f(2) by (simp_all add: planned_from_def)
  have "w = v" using workflows_problem_None [OF assms(2)] w(1,2) v(1) by (simp add: distinct_map inj_on_def)
  then show "PW_Workflow w = Entry_workflow entry" using v(3) by simp
  show "t = Entry_task entry" using \<open>w = v\<close> w(3,4) v(5) f(1,3) by (auto simp: distinct_map dest: inj_onD)
qed

section \<open>Exclusive claims\<close>

lemma owned_mono: "owned before owners claims \<Longrightarrow> claims' \<subseteq> claims \<Longrightarrow> owned before owners claims'"
  by (auto simp: owned_def)

definition lock_claims :: "ProposedTask list \<Rightarrow> (string \<times> string) set" where
  "lock_claims ps = (\<Union>p \<in> set ps. (\<lambda>k. (k, Proposal_AttemptID p)) ` set (Proposal_ResourceLocks p))"

definition locks_owned :: "'s PlanInput \<Rightarrow> 's plan_state \<Rightarrow> bool" where
  "locks_owned input st \<longleftrightarrow>
     owned (Plan_ResourceOwners input) (PState_resourceOwners st) (lock_claims (Plan_Proposals (PState_plan st)))"

lemma checked_entry_free:
  assumes "checked_entry rt input router sessions entry ro co task c p"
  shows "\<forall>k \<in> set (Proposal_ResourceLocks p). \<not> held_by_other ro k (Attempt_ID (Entry_attempt entry))"
    and "Env_Scope (Workflow_Environment (Entry_workflow entry)) = ''workflow'' \<Longrightarrow>
      \<not> held_by_other co (entry_run entry) (Attempt_ID (Entry_attempt entry))"
  using assms
  by (auto simp: checked_proposal_def task_own_blockers_def lock_blockers_def checkout_blockers_def filter_empty_conv split: if_splits)

interpretation locks: plan_invariant rt input "entry_ok input" "locks_owned input" for rt input
proof
  fix st st' and entry
  assume inv: "locks_owned input st" and ok: "entry_ok input entry" and move: "plan_move rt input entry st st'"
  from move show "locks_owned input st'"
  proof (cases rule: plan_move.cases)
    case (proposed router task routes c p decision)
    note ids = checked_entry_ids [OF proposed(3,2)] and commit = commit_Inr [OF proposed(4)]
    have "Proposal_AttemptID p \<noteq> ''''" using ids(3) entry_attempt_named [OF ok] by simp
    with inv commit(7) checked_entry_free(1) [OF proposed(3)] ids(3)
    have "owned (Plan_ResourceOwners input) (fold (\<lambda>k. set_owner k (Proposal_AttemptID p)) (Proposal_ResourceLocks p) (PState_resourceOwners st))
        (lock_claims (Plan_Proposals (PState_plan st)) \<union> (\<lambda>k. (k, Proposal_AttemptID p)) ` set (Proposal_ResourceLocks p))"
      by (intro owned_claims) (simp_all add: locks_owned_def)
    moreover have "lock_claims (Plan_Proposals (PState_plan st')) =
        lock_claims (Plan_Proposals (PState_plan st)) \<union> (\<lambda>k. (k, Proposal_AttemptID p)) ` set (Proposal_ResourceLocks p)"
      using commit(1) by (auto simp: lock_claims_def)
    ultimately show ?thesis using commit(5) by (simp add: locks_owned_def)
  qed (use inv in \<open>auto simp: locks_owned_def\<close>)
qed

definition shared_checkout :: "PlanningWorkflow \<Rightarrow> bool" where
  "shared_checkout w \<longleftrightarrow> Env_Scope (Workflow_Environment (PW_Workflow w)) = ''workflow''"

definition needs_checkout :: "'s PlanInput \<Rightarrow> ProposedTask \<Rightarrow> bool" where
  "needs_checkout input p \<longleftrightarrow> (\<exists>w t. planned_from input p w t \<and> shared_checkout w)"

definition checkout_claims :: "'s PlanInput \<Rightarrow> ProposedTask list \<Rightarrow> (string \<times> string) set" where
  "checkout_claims input ps = (\<lambda>p. (Proposal_WorkflowRunID p, Proposal_AttemptID p)) ` set (filter (needs_checkout input) ps)"

definition checkouts_owned :: "'s PlanInput \<Rightarrow> 's plan_state \<Rightarrow> bool" where
  "checkouts_owned input st \<longleftrightarrow>
     owned (Plan_WorkflowCheckoutOwners input) (PState_checkoutOwners st) (checkout_claims input (Plan_Proposals (PState_plan st)))"

text \<open>Invariants that identify the workflow of a proposal need distinct runs.\<close>

definition entry_of_input :: "'s PlanInput \<Rightarrow> planningTaskEntry \<Rightarrow> bool" where
  "entry_of_input input entry \<longleftrightarrow> entry_ok input entry \<and> workflows_problem [] (Plan_Workflows input) = None"

interpretation checkouts: plan_invariant rt input "entry_of_input input" "checkouts_owned input" for rt input
proof
  fix st st' and entry
  assume inv: "checkouts_owned input st" and e: "entry_of_input input entry" and move: "plan_move rt input entry st st'"
  have ok: "entry_ok input entry" and distinct: "workflows_problem [] (Plan_Workflows input) = None"
    using e by (simp_all add: entry_of_input_def)
  from move show "checkouts_owned input st'"
  proof (cases rule: plan_move.cases)
    case (proposed router task routes c p decision)
    note ids = checked_entry_ids [OF proposed(3,2)] and commit = commit_Inr [OF proposed(4)]
    let ?shared = "Env_Scope (Workflow_Environment (Entry_workflow entry)) = ''workflow''"
      and ?old = "checkout_claims input (Plan_Proposals (PState_plan st))"
    have p: "Proposal_AttemptID p \<noteq> ''''" using ids(3) entry_attempt_named [OF ok] by simp
    have "needs_checkout input p \<Longrightarrow> ?shared"
      using entry_planned_from(1) [OF ok distinct ids(1,2)] by (force simp: needs_checkout_def shared_checkout_def)
    then have "checkout_claims input (Plan_Proposals (PState_plan st')) \<subseteq>
        ?old \<union> (if ?shared then {(entry_run entry, Proposal_AttemptID p)} else {})"
      using commit(1) ids(1) by (auto simp: checkout_claims_def)
    moreover have "owned (Plan_WorkflowCheckoutOwners input) (PState_checkoutOwners st')
        (?old \<union> (if ?shared then {(entry_run entry, Proposal_AttemptID p)} else {}))"
      using inv commit(6,8) checked_entry_free(2) [OF proposed(3)] ids(3) p owned_claim
      by (auto simp: checkouts_owned_def)
    ultimately show ?thesis unfolding checkouts_owned_def by (rule owned_mono [rotated])
  qed (use inv in \<open>auto simp: checkouts_owned_def\<close>)
qed

section \<open>Quota pools\<close>

definition pool_of :: "ProposedTask \<Rightarrow> string" where
  "pool_of p = (case Proposal_Route p of None \<Rightarrow> '''' | Some route \<Rightarrow> Route_QuotaPoolID route)"

definition in_pool :: "string \<Rightarrow> ProposedTask list \<Rightarrow> int" where
  "in_pool poolID ps = int (length (filter (\<lambda>p. pool_of p = poolID) ps))"

definition pool_ok :: "QuotaPool \<Rightarrow> bool" where
  "pool_ok pool \<longleftrightarrow> 0 \<le> Pool_ActiveAssignments pool \<and> Pool_ActiveAssignments pool \<le> max_int64 \<and> Pool_MaxConcurrent pool \<le> max_int64"

text \<open>The count of the pass is exact, and a used pool is within its limit.\<close>

definition pools_within :: "(string \<rightharpoonup> QuotaPool) \<Rightarrow> 's plan_state \<Rightarrow> bool" where
  "pools_within pools st \<longleftrightarrow> Router_pools (PState_router st) = pools \<and>
     (\<forall>i. i \<noteq> '''' \<longrightarrow> Router_batchAssignments (PState_router st) i = in_pool i (Plan_Proposals (PState_plan st))) \<and>
     (\<forall>i. i \<noteq> '''' \<and> 0 < in_pool i (Plan_Proposals (PState_plan st)) \<longrightarrow>
        (\<exists>pool. pools i = Some pool \<and> pool_ok pool \<and>
           Pool_ActiveAssignments pool + in_pool i (Plan_Proposals (PState_plan st)) \<le> Pool_MaxConcurrent pool))"

lemma in_pool_snoc: "in_pool i (ps @ [p]) = in_pool i ps + (if pool_of p = i then 1 else 0)"
  by (simp add: in_pool_def)

lemma resolvePool_Inr:
  "resolvePool router i w route provider = Inr poolID \<Longrightarrow> poolID \<noteq> '''' \<and> (\<exists>pool. Router_pools router poolID = Some pool)"
  by (auto simp: resolvePool_def Let_def split: if_splits option.splits)

lemma routed_in_pool_unblocked:
  assumes "Routed_blockers (routed_in_pool router c route0 poolID) = []" and "Router_pools router poolID = Some pool"
  shows "\<exists>route. Candidate_Route (Routed_candidate (routed_in_pool router c route0 poolID)) = Some route \<and> Route_QuotaPoolID route = poolID"
    and "pool_load router poolID pool < Pool_MaxConcurrent pool"
  using assms by (auto simp: routed_in_pool_def Let_def split: option.splits if_splits)

text \<open>An unblocked route draws on a known pool that has room.\<close>

lemma unblocked_route:
  assumes "r \<in> set (Candidates router task attempt ids)" and "Routed_blockers r = []" and "Candidate_Route (Routed_candidate r) = Some route"
  shows "\<exists>pool. Route_QuotaPoolID route \<noteq> '''' \<and> Router_pools router (Route_QuotaPoolID route) = Some pool \<and>
    pool_load router (Route_QuotaPoolID route) pool < Pool_MaxConcurrent pool"
proof -
  obtain w i preference where r: "r = resolveCandidate router task attempt w i preference"
    using assms(1,3) by (auto simp: Candidates_def unrouted_def split: if_splits)
  obtain c route0 provider poolID where pool: "resolvePool router i w preference provider = Inr poolID" "r = routed_in_pool router c route0 poolID"
    using assms(2) unfolding r by (auto simp: resolveCandidate_def Let_def split: if_splits option.splits sum.splits)
  obtain pool where known: "poolID \<noteq> ''''" "Router_pools router poolID = Some pool" using resolvePool_Inr [OF pool(1)] by blast
  note routed = routed_in_pool_unblocked [OF assms(2) [unfolded pool(2)] known(2)]
  have "Route_QuotaPoolID route = poolID" using routed(1) assms(3) pool(2) by auto
  with routed(2) known show ?thesis by auto
qed

lemma router_Reserve_batch:
  "Router_pools (router_Reserve router c) = Router_pools router"
  "Router_batchAssignments (router_Reserve router (proposal_candidate entry t p)) i =
     (if i \<noteq> '''' \<and> pool_of p = i then wrap64 (Router_batchAssignments router i + 1) else Router_batchAssignments router i)"
  by (auto simp: router_Reserve_def proposal_candidate_def pool_of_def split: option.split)

lemma checked_entry_pool:
  assumes "checked_entry rt input router sessions entry ro co task c p" and "pool_of p \<noteq> ''''"
  shows "\<exists>pool. Router_pools router (pool_of p) = Some pool \<and> pool_load router (pool_of p) pool < Pool_MaxConcurrent pool"
proof -
  obtain r ids where r: "r \<in> set (Candidates router task (Entry_attempt entry) ids)" "Routed_blockers r = []"
    "Candidate_Route (Routed_candidate r) = Proposal_Route p"
    using assms(1) by (auto simp: checked_proposal_def unblocked_def)
  obtain route where "Proposal_Route p = Some route" "pool_of p = Route_QuotaPoolID route"
    using assms(2) by (auto simp: pool_of_def split: option.splits)
  with unblocked_route [OF r(1,2)] r(3) show ?thesis by auto
qed

text \<open>The sum the router compares does not overflow.\<close>

lemma pool_load_exact:
  assumes "pools_within pools st" and "pools i = Some pool" and "i \<noteq> ''''" and "pool_ok pool"
  shows "wrap64 (Pool_ActiveAssignments pool + in_pool i (Plan_Proposals (PState_plan st))) =
    Pool_ActiveAssignments pool + in_pool i (Plan_Proposals (PState_plan st))"
proof -
  have "0 \<le> in_pool i (Plan_Proposals (PState_plan st))" by (simp add: in_pool_def)
  moreover have "0 < in_pool i (Plan_Proposals (PState_plan st)) \<Longrightarrow>
      Pool_ActiveAssignments pool + in_pool i (Plan_Proposals (PState_plan st)) \<le> Pool_MaxConcurrent pool"
    using assms(1-3) by (auto simp: pools_within_def)
  ultimately show ?thesis using assms(4)
    by (cases "in_pool i (Plan_Proposals (PState_plan st)) = 0") (auto intro!: wrap64_id simp: pool_ok_def in_int64_def min_int64_def)
qed

interpretation pools: plan_invariant rt input "\<lambda>_. \<forall>pool \<in> ran pools. pool_ok pool" "pools_within pools" for rt input pools
proof
  fix st st' and entry
  assume inv: "pools_within pools st" and ok: "\<forall>pool \<in> ran pools. pool_ok pool" and move: "plan_move rt input entry st st'"
  from move show "pools_within pools st'"
  proof (cases rule: plan_move.cases)
    case (proposed router task routes c p decision)
    note commit = commit_Inr [OF proposed(4)]
    let ?ps = "Plan_Proposals (PState_plan st)" and ?i = "pool_of p"
    have same: "Router_pools router = pools" "\<And>i. i \<noteq> '''' \<Longrightarrow> Router_batchAssignments router i = in_pool i ?ps"
      using proposed(1) inv by (simp_all add: same_pools_def pools_within_def)
    have room: "?i \<noteq> '''' \<Longrightarrow> \<exists>pool. pools ?i = Some pool \<and> pool_ok pool \<and>
        Pool_ActiveAssignments pool + in_pool ?i ?ps + 1 \<le> Pool_MaxConcurrent pool"
    proof -
      assume i: "?i \<noteq> ''''"
      obtain pool where pool: "pools ?i = Some pool" "pool_load router ?i pool < Pool_MaxConcurrent pool"
        using checked_entry_pool [OF proposed(3) i] same(1) by auto
      have "pool_ok pool" using ok pool(1) by (auto simp: ran_def)
      moreover have "Pool_ActiveAssignments pool + in_pool ?i ?ps < Pool_MaxConcurrent pool"
        using pool_load_exact [OF inv pool(1) i \<open>pool_ok pool\<close>] pool(2) same(2) [OF i] by (simp add: pool_load_def)
      ultimately show ?thesis using pool(1) by auto
    qed
    have exact: "Router_batchAssignments (PState_router st') i = in_pool i (?ps @ [p])" if "i \<noteq> ''''" for i
      using that room same(2) commit(3)
      by (auto simp: router_Reserve_batch in_pool_snoc pool_ok_def in_int64_def in_pool_def max_int64_def min_int64_def)
    have "\<exists>pool. pools i = Some pool \<and> pool_ok pool \<and> Pool_ActiveAssignments pool + in_pool i (?ps @ [p]) \<le> Pool_MaxConcurrent pool"
      if "i \<noteq> ''''" "0 < in_pool i (?ps @ [p])" for i
      using that room inv by (cases "?i = i") (auto simp: in_pool_snoc pools_within_def)
    then show ?thesis using same(1) commit(1,3) exact by (simp add: pools_within_def router_Reserve_batch)
  qed (use inv in \<open>auto simp: pools_within_def same_pools_def\<close>)
qed

section \<open>Directories\<close>

abbreviation bindings_clash :: "Binding list \<Rightarrow> Binding list \<Rightarrow> bool" where
  "bindings_clash bs cs \<equiv> \<exists>b \<in> set bs. \<exists>c \<in> set cs. Conflicts b c"

lemma bindings_clash_sym: "bindings_clash bs cs \<longleftrightarrow> bindings_clash cs bs"
  using Conflicts_sym by blast

text \<open>
  Every owner of the input and every proposal with bindings is on record, and whoever is on
  record clashes with no proposal of another attempt.
\<close>

definition stands_apart :: "DirectoryOwner set \<Rightarrow> ProposedTask \<Rightarrow> Task \<Rightarrow> bool" where
  "stands_apart owners p t \<longleftrightarrow>
     (Task_DirectoryBindings t \<noteq> [] \<longrightarrow>
        \<lparr>DirOwner_AttemptID = Proposal_AttemptID p, DirOwner_Bindings = Task_DirectoryBindings t\<rparr> \<in> owners) \<and>
     (\<forall>b \<in> set (Task_DirectoryBindings t). ValidateBinding b = None \<and>
        Reg_WorkerID (Identity_Registration (Binding_Identity b)) = Proposal_WorkerID p) \<and>
     (\<forall>owner \<in> owners. DirOwner_AttemptID owner \<noteq> Proposal_AttemptID p \<longrightarrow>
        \<not> bindings_clash (Task_DirectoryBindings t) (DirOwner_Bindings owner))"

definition directories_apart :: "'s PlanInput \<Rightarrow> 's plan_state \<Rightarrow> bool" where
  "directories_apart input st \<longleftrightarrow> set (Plan_DirectoryOwners input) \<subseteq> set (Sessions_directory (PState_sessions st)) \<and>
     (\<forall>p \<in> set (Plan_Proposals (PState_plan st)). \<forall>w t. planned_from input p w t \<longrightarrow>
        stands_apart (set (Sessions_directory (PState_sessions st))) p t)"

lemma stands_apart_insert:
  assumes "stands_apart owners p t"
    and "DirOwner_AttemptID owner \<noteq> Proposal_AttemptID p \<Longrightarrow> \<not> bindings_clash (Task_DirectoryBindings t) (DirOwner_Bindings owner)"
  shows "stands_apart (insert owner owners) p t"
  using assms by (auto simp: stands_apart_def)

lemma directory_Evaluate_Nil:
  assumes "directory_Evaluate owners c = []" and "b \<in> set (Task_DirectoryBindings (Candidate_Task c))"
  shows "ValidateBinding b = None" and "Reg_WorkerID (Identity_Registration (Binding_Identity b)) = Candidate_WorkerID c"
    and "\<forall>owner \<in> set owners. DirOwner_AttemptID owner \<noteq> Attempt_ID (Candidate_Attempt c) \<longrightarrow>
           (\<forall>held \<in> set (DirOwner_Bindings owner). \<not> Conflicts b held)"
proof -
  have "binding_blockers owners c b = []" using assms by (simp add: directory_Evaluate_def)
  then show "ValidateBinding b = None" "Reg_WorkerID (Identity_Registration (Binding_Identity b)) = Candidate_WorkerID c"
    "\<forall>owner \<in> set owners. DirOwner_AttemptID owner \<noteq> Attempt_ID (Candidate_Attempt c) \<longrightarrow>
       (\<forall>held \<in> set (DirOwner_Bindings owner). \<not> Conflicts b held)"
    by (auto simp: binding_blockers_def holds_conflicting_def list_ex_eq filter_empty_conv Let_def split: option.splits if_splits)
qed

lemma checked_entry_candidate:
  assumes "checked_entry rt input router sessions entry ro co task c p"
  shows "Candidate_Task c = task" "Candidate_Attempt c = Entry_attempt entry" "sessions_Evaluate sessions c = []"
    "Candidate_WorkflowRunID c = entry_run entry" "Candidate_WorkerID c = Proposal_WorkerID p" "Candidate_Route c = Proposal_Route p"
    "Candidate_Estimate c = Proposal_Estimate p"
proof -
  obtain r ids where r: "r \<in> set (Candidates router task (Entry_attempt entry) ids)"
    "c = (Routed_candidate r)\<lparr>Candidate_WorkflowRunID := entry_run entry\<rparr>" "sessions_Evaluate sessions c = []"
    using assms by (auto simp: checked_proposal_def unblocked_def)
  have "Candidate_Task (Routed_candidate r) = task \<and> Candidate_Attempt (Routed_candidate r) = Entry_attempt entry"
    using r(1) by (auto simp: Candidates_def split: if_splits)
  then show "Candidate_Task c = task" "Candidate_Attempt c = Entry_attempt entry" "sessions_Evaluate sessions c = []"
    "Candidate_WorkflowRunID c = entry_run entry" using r(2,3) by simp_all
qed (use assms in \<open>simp_all add: checked_proposal_def\<close>)

interpretation directories: plan_invariant rt input "entry_of_input input" "directories_apart input" for rt input
proof
  fix st st' and entry
  assume inv: "directories_apart input st" and e: "entry_of_input input entry" and move: "plan_move rt input entry st st'"
  have ok: "entry_ok input entry" and distinct: "workflows_problem [] (Plan_Workflows input) = None"
    using e by (simp_all add: entry_of_input_def)
  from move show "directories_apart input st'"
  proof (cases rule: plan_move.cases)
    case (proposed router task routes c p decision)
    note ids = checked_entry_ids [OF proposed(3,2)] and commit = commit_Inr [OF proposed(4)]
      and candidate = checked_entry_candidate [OF proposed(3)] and from_entry = entry_planned_from(2) [OF ok distinct ids(1,2)]
    let ?owners = "Sessions_directory (PState_sessions st)" and ?bs = "Task_DirectoryBindings (Entry_task entry)"
    let ?new = "\<lparr>DirOwner_AttemptID = Proposal_AttemptID p, DirOwner_Bindings = ?bs\<rparr>"
    have owners': "Sessions_directory (PState_sessions st') = (if ?bs = [] then ?owners else ?owners @ [?new])"
      using commit(4) proposed(2) ids(3) by (simp add: sessions_Reserve_def directory_Reserve_def proposal_candidate_def)
    have "directory_Evaluate ?owners c = []" using candidate(3) by (simp add: sessions_Evaluate_def)
    note free = directory_Evaluate_Nil [OF this, unfolded candidate proposed(2)]
    have new: "stands_apart (set (Sessions_directory (PState_sessions st'))) p (Entry_task entry)"
      using owners' free ids(3) by (auto simp: stands_apart_def)
    have "stands_apart (set (Sessions_directory (PState_sessions st'))) q t"
      if q: "q \<in> set (Plan_Proposals (PState_plan st))" "planned_from input q w t" for q w t
    proof -
      have old: "stands_apart (set ?owners) q t" using inv q by (auto simp: directories_apart_def)
      have "\<not> bindings_clash (Task_DirectoryBindings t) ?bs" if other: "Proposal_AttemptID p \<noteq> Proposal_AttemptID q"
      proof (cases "Task_DirectoryBindings t = []")
        case False
        let ?held = "\<lparr>DirOwner_AttemptID = Proposal_AttemptID q, DirOwner_Bindings = Task_DirectoryBindings t\<rparr>"
        have "?held \<in> set ?owners" using old False by (simp add: stands_apart_def)
        then have "\<not> bindings_clash ?bs (DirOwner_Bindings ?held)" using free(3) other ids(3) by fastforce
        then show ?thesis using bindings_clash_sym by simp
      qed simp
      then show ?thesis using old owners' stands_apart_insert [OF old, of ?new] by auto
    qed
    moreover have "stands_apart (set (Sessions_directory (PState_sessions st'))) p t" if "planned_from input p w t" for w t
      using new from_entry [OF that] by simp
    ultimately show ?thesis using inv commit(1) owners' by (auto simp: directories_apart_def)
  qed (use inv in \<open>auto simp: directories_apart_def\<close>)
qed

section \<open>Decisions\<close>

abbreviation entry_key :: "planningTaskEntry \<Rightarrow> string \<times> string" where
  "entry_key entry \<equiv> (entry_run entry, Task_ID (Entry_task entry))"

abbreviation decision_key :: "TaskPlanningDecision \<Rightarrow> string \<times> string" where
  "decision_key d \<equiv> (TPD_WorkflowRunID d, TPD_TaskID d)"

abbreviation proposal_key :: "ProposedTask \<Rightarrow> string \<times> string" where
  "proposal_key p \<equiv> (Proposal_WorkflowRunID p, Proposal_TaskID p)"

text \<open>Decisions follow the entries, the proposed ones match the proposals, and the others have a blocker.\<close>

definition decisions_match :: "Plan \<Rightarrow> bool" where
  "decisions_match plan \<longleftrightarrow>
     map proposal_key (Plan_Proposals plan) = map decision_key (filter TPD_Proposed (Plan_Decisions plan)) \<and>
     (\<forall>d \<in> set (Plan_Decisions plan). TPD_Proposed d \<longleftrightarrow> TPD_Blockers d = [])"

lemma plan_move_decision:
  assumes "plan_move rt input entry st st'" and "\<not> Terminal (Attempt_Progress (Entry_attempt entry))"
    and "decisions_match (PState_plan st)"
  shows "decisions_match (PState_plan st') \<and> (\<exists>d. Plan_Decisions (PState_plan st') = Plan_Decisions (PState_plan st) @ [d] \<and>
     decision_key d = entry_key entry \<and> TPD_Order d = Entry_order entry)"
  using assms(1)
proof (cases rule: plan_move.cases)
  case (proposed router task routes c p decision)
  have "Plan_Decisions (PState_plan st') = Plan_Decisions (PState_plan st) @ [decision\<lparr>TPD_Proposed := True\<rparr>]"
    using proposed(4) by (auto simp: commit_proposal_def Let_def split: if_splits)
  then show ?thesis
    using assms(3) commit_Inr(1) [OF proposed(4)] checked_entry_ids [OF proposed(3,2)] proposed(5)
    by (simp add: decisions_match_def decision_for_def)
qed (use assms(2,3) in \<open>auto simp: decisions_match_def decision_for_def\<close>)

lemma plan_steps_decisions:
  assumes "plan_steps rt input entries st = Inr st'" and "\<forall>entry \<in> set entries. \<not> Terminal (Attempt_Progress (Entry_attempt entry))"
    and "decisions_match (PState_plan st)"
  shows "decisions_match (PState_plan st') \<and>
    map decision_key (Plan_Decisions (PState_plan st')) = map decision_key (Plan_Decisions (PState_plan st)) @ map entry_key entries \<and>
    map TPD_Order (Plan_Decisions (PState_plan st')) = map TPD_Order (Plan_Decisions (PState_plan st)) @ map Entry_order entries"
  using assms
proof (induction entries arbitrary: st)
  case (Cons entry entries)
  obtain st1 where st1: "plan_step rt input entry st = Inr st1" "plan_steps rt input entries st1 = Inr st'"
    using Cons.prems(1) by (auto split: sum.splits)
  have "\<not> Terminal (Attempt_Progress (Entry_attempt entry))" using Cons.prems(2) by simp
  from plan_move_decision [OF plan_step_move [OF st1(1)] this Cons.prems(3)] Cons.IH [OF st1(2)] Cons.prems(2)
  show ?case by auto
qed simp

section \<open>The collected entries\<close>

lemma task_entries_keys:
  assumes "task_entries f tasks = Inr entries" and "\<And>t e. f t = Inr (Some e) \<Longrightarrow> Entry_task e = t"
  shows "map Entry_task entries = filter (\<lambda>t. \<exists>e. f t = Inr (Some e)) tasks"
  using assms(1)
proof (induction tasks arbitrary: entries)
  case (Cons t tasks)
  obtain found rest where f: "f t = Inr found" "task_entries f tasks = Inr rest"
    "entries = (case found of None \<Rightarrow> [] | Some e \<Rightarrow> [e]) @ rest"
    using Cons.prems by (auto split: sum.splits)
  with Cons.IH [OF f(2)] assms(2) show ?case by (cases found) auto
qed simp

text \<open>The open tasks of a workflow: those whose current attempt is not finished.\<close>

definition open_tasks :: "PlanningWorkflow \<Rightarrow> Task set" where
  "open_tasks w = {t. \<exists>e. NewDAGExecution (PW_State w) = Some (Inr e) \<and> t \<in> set (tasks_of e) \<and>
     \<not> Terminal (Attempt_Progress (current_attempt e (Task_ID t)))}"

lemma task_entry_frame:
  "task_entry input workflow state inFlight task = Inr (Some e) \<Longrightarrow>
     Entry_task e = task \<and> Entry_state e = state \<and> Entry_workflow e = workflow"
  by (auto simp: task_entry_def Let_def split: if_splits option.splits)

lemma task_entry_open:
  "task_entry input workflow state inFlight task = Inr r \<Longrightarrow>
     (r = None) = Terminal (Attempt_Progress (currentPlanningAttempt (State_Attempts state) (Task_ID task)))"
  by (auto simp: task_entry_def Let_def split: if_splits option.splits)

lemma task_entries_all_Inr: "task_entries f tasks = Inr entries \<Longrightarrow> t \<in> set tasks \<Longrightarrow> \<exists>r. f t = Inr r"
  by (induction f tasks arbitrary: entries rule: task_entries.induct) (auto split: sum.splits)

lemma workflow_entries_keys:
  assumes "workflow_entries input w = Inr entries"
  shows "distinct (map entry_key entries)" and "\<forall>entry \<in> set entries. entry_run entry = workflow_run w"
    and "Entry_task ` set entries = open_tasks w"
proof -
  obtain e inFlight where e: "NewDAGExecution (PW_State w) = Some (Inr e)"
    "task_entries (task_entry input (PW_Workflow w) (Snapshot e) inFlight) (State_Tasks (Snapshot e)) = Inr entries"
    using assms by (auto simp: workflow_entries_def Let_def split: option.splits sum.splits)
  let ?f = "task_entry input (PW_Workflow w) (Snapshot e) inFlight"
  note frame = NewDAGExecution_frame [OF e(1)]
  have tasks: "map Entry_task entries = filter (\<lambda>t. \<exists>x. ?f t = Inr (Some x)) (State_Tasks (Snapshot e))"
    using task_entries_keys [OF e(2)] task_entry_frame by blast
  have "mset (State_Tasks (Snapshot e)) = mset (tasks_of e)" by (simp add: Snapshot_def Let_def)
  then have "mset (map Task_ID (State_Tasks (Snapshot e))) = mset (map Task_ID (tasks_of e))" by simp
  then have "distinct (map Task_ID (State_Tasks (Snapshot e)))" using frame(1,3) by (metis (no_types) mset_eq_imp_distinct_iff)
  then have "distinct (map Task_ID (map Entry_task entries))" unfolding tasks by (rule distinct_map_filter)
  then show "distinct (map entry_key entries)" by (auto simp: distinct_map inj_on_def)
  show "\<forall>entry \<in> set entries. entry_run entry = workflow_run w"
    using task_entries_Inr [OF e(2)] task_entry_frame frame(2) by fastforce
  have "(\<exists>x. ?f t = Inr (Some x)) \<longleftrightarrow> \<not> Terminal (Attempt_Progress (current_attempt e (Task_ID t)))" if "t \<in> set (tasks_of e)" for t
  proof -
    have "t \<in> set (State_Tasks (Snapshot e))" using that by simp
    then obtain r where "?f t = Inr r" using task_entries_all_Inr [OF e(2)] by blast
    with task_entry_open [OF this] currentPlanningAttempt_current [OF dag_reachable.new [OF e(1)] that] show ?thesis by (cases r) auto
  qed
  then have "set (map Entry_task entries) = open_tasks w" unfolding tasks using e(1) by (auto simp: open_tasks_def)
  then show "Entry_task ` set entries = open_tasks w" by simp
qed

lemma disjoint_of_image: "f ` A \<inter> f ` B = {} \<Longrightarrow> A \<inter> B = {}"
  by blast

lemma disjoint_by_key: "B \<subseteq> K \<Longrightarrow> A \<subseteq> {k} \<Longrightarrow> k \<notin> K \<Longrightarrow> A \<inter> B = {}"
  by blast

lemma collect_entries_keys:
  assumes "collect_entries input ws = Inr entries" and "distinct (map workflow_run ws)"
  shows "distinct (map entry_key entries) \<and> set (map entry_key entries) = (\<Union>w \<in> set ws. (\<lambda>t. (workflow_run w, Task_ID t)) ` open_tasks w)"
  using assms
proof (induction ws arbitrary: entries)
  case (Cons w ws)
  obtain es rest where es: "workflow_entries input w = Inr es" "collect_entries input ws = Inr rest" "entries = es @ rest"
    using Cons.prems(1) by (auto split: sum.splits)
  note keys = workflow_entries_keys [OF es(1)]
  have ih: "distinct (map entry_key rest)" "set (map entry_key rest) = (\<Union>w \<in> set ws. (\<lambda>t. (workflow_run w, Task_ID t)) ` open_tasks w)"
    using Cons.IH [OF es(2)] Cons.prems(2) by simp_all
  have here: "set (map entry_key es) = (\<lambda>t. (workflow_run w, Task_ID t)) ` open_tasks w"
    using keys(2) unfolding keys(3) [symmetric] by force
  have "fst ` set (map entry_key rest) \<subseteq> workflow_run ` set ws" "fst ` set (map entry_key es) \<subseteq> {workflow_run w}"
    unfolding ih(2) here by auto
  moreover have "workflow_run w \<notin> workflow_run ` set ws" using Cons.prems(2) by simp
  ultimately have "fst ` set (map entry_key es) \<inter> fst ` set (map entry_key rest) = {}" by (rule disjoint_by_key)
  then have "set (map entry_key es) \<inter> set (map entry_key rest) = {}" by (rule disjoint_of_image)
  with keys(1) ih here es(3) show ?case by (simp add: Un_commute)
qed simp

lemma orderedPlanningTasks_keys:
  assumes "orderedPlanningTasks input = Inr entries" and "workflows_problem [] (Plan_Workflows input) = None"
  shows "distinct (map entry_key entries)"
    and "set (map entry_key entries) = (\<Union>w \<in> set (Plan_Workflows input). (\<lambda>t. (workflow_run w, Task_ID t)) ` open_tasks w)"
proof -
  obtain collected where c: "collect_entries input (Plan_Workflows input) = Inr collected"
    "entries = sort_less plan_less (map (with_round collected) [0..<length collected])"
    using assms(1) by (auto simp: orderedPlanningTasks_def split: sum.splits)
  have "map entry_key (map (with_round collected) [0..<length collected]) = map (\<lambda>i. entry_key (collected ! i)) [0..<length collected]" by simp
  also have "\<dots> = map entry_key collected" by (rule nth_equalityI) simp_all
  finally have "mset (map entry_key (map (with_round collected) [0..<length collected])) = mset (map entry_key collected)" by (rule arg_cong)
  then have "mset (map entry_key entries) = mset (map entry_key collected)" unfolding c(2) mset_map mset_sort_less .
  note same = mset_eq_imp_distinct_iff [OF this] mset_eq_setD [OF this]
  have "distinct (map workflow_run (Plan_Workflows input))" using workflows_problem_None [OF assms(2)] by blast
  note keys = collect_entries_keys [OF c(1) this]
  show "distinct (map entry_key entries)" using keys unfolding same by (rule conjunct1)
  show "set (map entry_key entries) = (\<Union>w \<in> set (Plan_Workflows input). (\<lambda>t. (workflow_run w, Task_ID t)) ` open_tasks w)"
    using keys unfolding same by (rule conjunct2)
qed

end
