(* ===== verification/PlannerOrder.thy ===== *)
theory PlannerOrder
  imports PlannerInvariants PlannerSample "HOL-Library.Product_Lexorder"
begin

text \<open>
  The planning order: the pairwise comparison of \<open>comparePlanningPriority\<close> is the lexicographic order
  of a rank, and the entries of a pass are sorted by rank, round, run and task.
\<close>

section \<open>The rank of an entry\<close>

definition planning_rank :: "planningTaskEntry \<Rightarrow> int list" where
  "planning_rank e =
     (let order = Entry_order e; starved = (Order_PriorDeferrals order \<ge> InFlightDeferralBound) in
      [if Entry_ready e then 0 else 1, if Attempt_AdminForceStart (Entry_attempt e) then 0 else 1,
       if Order_DeadlineRisk order then 0 else 1, if Order_DeadlineRisk order then slack_of e else 0,
       - Order_Importance order, if starved then 0 else 1, if starved \<or> Order_InFlight order then 0 else 1,
       - Order_PriorDeferrals order, Order_ReadySince order])"

lemma lex_step:
  "(if x # xs < y # ys then - 1 else if y # ys < x # xs then 1 else 0 :: int) =
     (if x \<noteq> y then (if x < y then - 1 else 1) else (if xs < ys then - 1 else if ys < xs then 1 else 0))"
  for x y :: int by auto

lemma compare_rank:
  "comparePlanningPriority a b =
     (if planning_rank a < planning_rank b then - 1 else if planning_rank b < planning_rank a then 1 else 0)"
  unfolding comparePlanningPriority_def planning_rank_def Let_def InFlightDeferralBound_def
  lex_step by simp

definition plan_key :: "planningTaskEntry \<Rightarrow> int list \<times> int \<times> string \<times> string \<times> string" where
  "plan_key e = (planning_rank e, Order_WorkflowRound (Entry_order e), entry_run e, Task_Name (Entry_task e), Task_ID (Entry_task e))"

lemma plan_less_key: "plan_less a b \<longleftrightarrow> plan_key a < plan_key b"
  by (auto simp: plan_less_def plan_key_def compare_rank less_prod_def')

interpretation planning_order: strict_weak_order plan_less
proof -
  have "plan_less = (\<lambda>a b. plan_key a < plan_key b)" by (intro ext plan_less_key)
  then show "strict_weak_order plan_less" using strict_weak_order_key [of plan_key] by simp
qed

section \<open>Rounds\<close>

lemma place_of:
  assumes "distinct xs" and "k < length xs"
  shows "length (takeWhile (\<lambda>x. x \<noteq> xs ! k) xs) = k"
  using assms
proof (induction xs arbitrary: k)
  case (Cons x xs)
  show ?case
  proof (cases k)
    case (Suc j)
    with Cons.prems have "xs ! j \<noteq> x" by auto
    with Suc Cons show ?thesis by simp
  qed simp
qed simp

lemma mset_places:
  assumes "distinct xs"
  shows "mset (map (\<lambda>x. length (takeWhile (\<lambda>y. y \<noteq> x) xs)) xs) = mset [0..<length xs]"
proof -
  have "map (\<lambda>x. length (takeWhile (\<lambda>y. y \<noteq> x) xs)) xs = [0..<length xs]"
    using place_of [OF assms] by (intro nth_equalityI) simp_all
  then show ?thesis by simp
qed

lemma rounds_of_run:
  assumes "entries = sort_less plan_less (map (with_round collected) [0..<length collected])"
  shows "image_mset (\<lambda>e. Order_WorkflowRound (Entry_order e)) (filter_mset (\<lambda>e. entry_run e = run) (mset entries)) =
    image_mset int (mset [0..<length (filter (\<lambda>e. entry_run e = run) entries)])"
proof -
  let ?is = "filter (\<lambda>i. entry_run (collected ! i) = run) [0..<length collected]" and ?js = "run_indices collected run"
  let ?place = "\<lambda>i. length (takeWhile (\<lambda>j. j \<noteq> i) ?js)"
  have js: "mset ?js = mset ?is" "distinct ?js" by (simp_all add: run_indices_def)
  have here: "filter_mset (\<lambda>e. entry_run e = run) (mset entries) = image_mset (with_round collected) (mset ?is)"
    unfolding assms by (simp add: filter_mset_image_mset mset_filter o_def)
  have "image_mset (\<lambda>e. Order_WorkflowRound (Entry_order e)) (image_mset (with_round collected) (mset ?is)) =
      image_mset (\<lambda>i. int (?place i)) (mset ?is)"
    unfolding image_mset.compositionality by (rule image_mset_cong) (auto simp: with_round_def Let_def)
  also have "\<dots> = image_mset int (mset (map ?place ?js))" using js(1) by (simp add: image_mset.compositionality o_def)
  also have "\<dots> = image_mset int (mset [0..<length ?js])" unfolding mset_places [OF js(2)] ..
  also have "length ?js = size (filter_mset (\<lambda>e. entry_run e = run) (mset entries))"
    unfolding here using js(1) by (metis size_image_mset size_mset)
  also have "\<dots> = length (filter (\<lambda>e. entry_run e = run) entries)" by (metis mset_filter size_mset)
  finally show ?thesis unfolding here .
qed

text \<open>
  C32. The planning order: one task precedes another exactly when its rank is lexicographically
  smaller, where the rank lists readiness, a forced start, deadline risk with its slack,
  importance, starvation (eight deferrals or more), work in flight, deferrals and waiting time;
  among tasks of equal rank the rounds of the runs alternate, because the tasks of a run are
  numbered from zero without gaps, and identifiers decide the rest.
\<close>

theorem planning_order_lexicographic:
  assumes "orderedPlanningTasks input = Inr entries"
  shows "(\<forall>a b. comparePlanningPriority a b = (if planning_rank a < planning_rank b then - 1
       else if planning_rank b < planning_rank a then 1 else 0)) \<and>
    sorted (map plan_key entries) \<and>
    (\<forall>run. image_mset (\<lambda>e. Order_WorkflowRound (Entry_order e)) (filter_mset (\<lambda>e. entry_run e = run) (mset entries)) =
       image_mset int (mset [0..<length (filter (\<lambda>e. entry_run e = run) entries)]))"
proof (intro conjI allI)
  obtain collected where c: "entries = sort_less plan_less (map (with_round collected) [0..<length collected])"
    using assms by (auto simp: orderedPlanningTasks_def split: sum.splits)
  have "sorted_wrt (\<lambda>a b. \<not> plan_less b a) entries" unfolding c by (rule planning_order.sorted_sort)
  then show "sorted (map plan_key entries)" by (simp add: sorted_wrt_map plan_less_key not_less)
  show "image_mset (\<lambda>e. Order_WorkflowRound (Entry_order e)) (filter_mset (\<lambda>e. entry_run e = run) (mset entries)) =
      image_mset int (mset [0..<length (filter (\<lambda>e. entry_run e = run) entries)])" for run
    by (rule rounds_of_run [OF c])
qed (rule compare_rank)

theorem planning_order_lexicographic_witness:
  "\<exists>entries. orderedPlanningTasks planner_example = Inr entries \<and> sorted (map plan_key entries)"
proof -
  obtain entries where "orderedPlanningTasks planner_example = Inr entries"
    using planner_builds by (auto simp: BuildPlan_def split: option.splits sum.splits)
  with planning_order_lexicographic [OF this] show ?thesis by blast
qed

end
