(* ===== verification/PlannerCapacity.thy ===== *)
theory PlannerCapacity
  imports PlannerInvariants PlannerSample
begin

text \<open>
  The planner with the capacity constraint of \<open>internal/backlog/capacity_planning.go\<close>: the pass drives
  every session of its constraints in the way \<open>planning_session\<close> expects, so the contract of the
  capacity session holds of the plan.
\<close>

section \<open>Sessions of a pass\<close>

lemma plan_pass_length: "length (snd (plan_pass evaluate reserve s cs)) \<le> length cs"
proof (induction cs arbitrary: s)
  case (Cons c cs)
  show ?case using Cons [of s] Cons [of "reserve s c"] by (auto simp: Let_def split: prod.splits)
qed simp

lemma plan_pass_snoc:
  assumes "plan_pass evaluate reserve s cs = (s', cs)" and "evaluate s' c = []"
  shows "plan_pass evaluate reserve s (cs @ [c]) = (reserve s' c, cs @ [c])"
  using assms
proof (induction cs arbitrary: s)
  case (Cons d cs)
  have fewer: "snd (plan_pass evaluate reserve s cs) \<noteq> d # cs" for s using plan_pass_length [of evaluate reserve s cs] by auto
  show ?case
  proof (cases "evaluate s d = []")
    case True
    with Cons.prems(1) have "plan_pass evaluate reserve (reserve s d) cs = (s', cs)" by (auto simp: Let_def split: prod.splits)
    with Cons.IH [OF _ Cons.prems(2)] True show ?thesis by simp
  next
    case False
    with Cons.prems(1) fewer [of s] show ?thesis by (metis plan_pass.simps(2) snd_conv)
  qed
qed simp

text \<open>What a reserved candidate has of the proposal it stands for.\<close>

definition stands_for :: "PlanningCandidate \<Rightarrow> ProposedTask \<Rightarrow> bool" where
  "stands_for c p \<longleftrightarrow> Candidate_WorkflowRunID c = Proposal_WorkflowRunID p \<and> Task_ID (Candidate_Task c) = Proposal_TaskID p \<and>
     Candidate_AttemptID c = Proposal_AttemptID p \<and> Candidate_WorkerID c = Proposal_WorkerID p \<and>
     Candidate_Route c = Proposal_Route p \<and> nonempty_trimmed (Candidate_AttemptID c) \<and>
     ResourceDemand_Validate (Candidate_ResourceDemand c) = None"

text \<open>The \<open>k\<close>-th session has been driven by the proposals, in their order.\<close>

definition session_driven :: "nat \<Rightarrow> 's PlanningConstraint \<Rightarrow> 's \<Rightarrow> 's plan_state \<Rightarrow> bool" where
  "session_driven k constraint s0 st \<longleftrightarrow>
     (\<exists>cs s. list_all2 stands_for cs (Plan_Proposals (PState_plan st)) \<and> k < length (Sessions_constraints (PState_sessions st)) \<and>
        Sessions_constraints (PState_sessions st) ! k = (constraint, s) \<and>
        plan_pass (Constraint_Evaluate constraint) (Constraint_Reserve constraint) s0 cs = (s, cs))"

definition ordinal_blind :: "'s PlanningConstraint \<Rightarrow> bool" where
  "ordinal_blind constraint \<longleftrightarrow>
     (\<forall>s c n. Constraint_Evaluate constraint s (c\<lparr>Candidate_RouteOrdinal := n\<rparr>) = Constraint_Evaluate constraint s c)"

lemma checked_entry_demand:
  assumes "checked_entry rt input router sessions entry ro co task c p"
  shows "ResourceDemand_Validate (Task_ResourceDemand task) = None"
  using assms by (auto simp: checked_proposal_def SelectWorker_def placement_request_def split: option.splits)

lemma proposal_candidate_eq:
  assumes "checked_entry rt input router sessions entry ro co task c p"
  shows "proposal_candidate entry task p = c\<lparr>Candidate_RouteOrdinal := 0\<rparr>"
  using checked_entry_candidate [OF assms] by (simp add: proposal_candidate_def)

lemma session_driven_keeps:
  assumes "session_driven k constraint s0 st" and "ordinal_blind constraint" and "entry_ok input entry" and "plan_move rt input entry st st'"
  shows "session_driven k constraint s0 st'"
  using assms(4)
proof (cases rule: plan_move.cases)
  case (proposed router task routes c p decision)
  note commit = commit_Inr [OF proposed(4)] and ids = checked_entry_ids [OF proposed(3,2)]
    and candidate = checked_entry_candidate [OF proposed(3)]
  let ?c = "proposal_candidate entry task p" and ?cons = "Sessions_constraints (PState_sessions st)"
  obtain cs s where s: "list_all2 stands_for cs (Plan_Proposals (PState_plan st))" "k < length ?cons" "?cons ! k = (constraint, s)"
    "plan_pass (Constraint_Evaluate constraint) (Constraint_Reserve constraint) s0 cs = (s, cs)"
    using assms(1) by (auto simp: session_driven_def)
  have "(constraint, s) \<in> set ?cons" using s(2,3) nth_mem by metis
  then have "Constraint_Evaluate constraint s c = []" using candidate(3) by (fastforce simp: sessions_Evaluate_def)
  then have "Constraint_Evaluate constraint s ?c = []" using assms(2) proposal_candidate_eq [OF proposed(3)] by (simp add: ordinal_blind_def)
  note pass = plan_pass_snoc [OF s(4) this]
  have "nonempty_trimmed (Attempt_ID (Entry_attempt entry))" using assms(3) unfolding entry_ok_def by blast
  then have "stands_for ?c p"
    using ids proposed(2) checked_entry_demand [OF proposed(3)] by (simp add: stands_for_def proposal_candidate_def)
  then have "list_all2 stands_for (cs @ [?c]) (Plan_Proposals (PState_plan st'))"
    using s(1) commit(1) by (simp add: list_all2_appendI)
  moreover have "Sessions_constraints (PState_sessions st') ! k = (constraint, Constraint_Reserve constraint s ?c)"
    "k < length (Sessions_constraints (PState_sessions st'))"
    using s(2,3) commit(4) by (simp_all add: sessions_Reserve_def)
  ultimately show ?thesis using pass unfolding session_driven_def by blast
qed (use assms(1) in \<open>simp_all add: session_driven_def\<close>)

interpretation sessions: plan_invariant rt input "\<lambda>entry. entry_ok input entry \<and> ordinal_blind constraint" "session_driven k constraint s0"
  for rt input k constraint s0
  by unfold_locales (erule conjE, rule session_driven_keeps)

lemma start_constraints_nth:
  "start_constraints now cs = Inr sessions \<Longrightarrow> k < length cs \<Longrightarrow>
     \<exists>constraint s. cs ! k = Some constraint \<and> Constraint_StartPlan constraint now = Some s \<and>
       k < length sessions \<and> sessions ! k = (constraint, s)"
proof (induction cs arbitrary: sessions k)
  case (Cons c cs)
  then show ?case by (cases k) (auto split: option.splits sum.splits)
qed simp

lemma timed_pass:
  "plan_pass (Constraint_Evaluate (NewCapacityConstraint iterate pools owners)) (Constraint_Reserve (NewCapacityConstraint iterate pools owners))
     (now, s) cs =
   (let (s', ps) = plan_pass (session_Evaluate iterate now) (session_Reserve iterate now) s cs in ((now, s'), ps))"
  by (induction cs arbitrary: s) (simp_all add: NewCapacityConstraint_def Let_def split: prod.split)

lemma capacity_ordinal_blind: "ordinal_blind (NewCapacityConstraint iterate pools owners)"
proof -
  have "session_Evaluate iterate now s (c\<lparr>Candidate_RouteOrdinal := n\<rparr>) = session_Evaluate iterate now s c" for now s c n
    by (cases s) simp_all
  then show ?thesis by (simp add: ordinal_blind_def NewCapacityConstraint_def)
qed

lemma list_all2_members: "list_all2 P xs ys \<Longrightarrow> (\<forall>x \<in> set xs. \<exists>y \<in> set ys. P x y) \<and> (\<forall>y \<in> set ys. \<exists>x \<in> set xs. P x y)"
  by (induction rule: list_all2_induct) auto

lemma stands_for_sound:
  assumes "stands_for c p" and "\<not> blank (Proposal_WorkerID p)"
  shows "ReservationRequest_validate (candidate_request c) = None"
  using assms by (auto simp: stands_for_def ReservationRequest_validate_def candidate_request_def nonempty_trimmed_def)



end
