(* ===== verification/PlannerProperties.thy ===== *)
theory PlannerProperties
  imports PlannerInvariants PlannerSample
begin

text \<open>
  The properties of a plan: what may be proposed, that proposals exclude each other and respect
  what is held already, that quota pools and executor capacity are not exceeded, that every open
  task gets a decision in the planning order, and when planning fails.
\<close>

section \<open>Proposals may start\<close>

lemma supervision_clear:
  assumes "supervisionBlockers snapshots run t = []" and "map_of snapshots run = Some s"
  shows "Verdict_Admitted (SupervisionAdmits s \<lparr>Query_TaskID = Task_ID t, Query_ExpectedGraphRevision = 0\<rparr>)"
  using assms by (auto simp: supervisionBlockers_def SupervisionAdmits_def sortSupervisionBlockers_def Let_def split: if_splits)

lemma worker_fits_constraints:
  assumes "worker_fits input workflow t v"
  shows "Worker_Health v = WorkerHealthReady" and "Worker_AcceptBacklog v \<or> Worker_ID v \<in> set (Placement_Hosts (Task_Placement t))"
    and "Placement_Hosts (Task_Placement t) = [] \<or> Worker_ID v \<in> set (Placement_Hosts (Task_Placement t))"
    and "time_sub (Plan_Now input) (Worker_ObservedAt v) \<le> Plan_MaxWorkerSnapshotAge input"
    and "set (Placement_Capabilities (Task_Placement t)) \<subseteq> set (Worker_Capabilities v)"
    and "Workflow_Project workflow = '''' \<or> project_available v (Workflow_Project workflow)"
    and "capacityExclusions (Task_ResourceDemand t) v = []"
proof -
  obtain x where e: "all_exclusions (placement_request input workflow t) (v\<lparr>Worker_Telemetry := x\<rparr>) = []"
    using assms by (auto simp: worker_fits_def)
  then have parts: "worker_exclusions (placement_request input workflow t) (v\<lparr>Worker_Telemetry := x\<rparr>) = []"
    "capability_exclusions (placement_request input workflow t) (v\<lparr>Worker_Telemetry := x\<rparr>) = []"
    "project_exclusions (placement_request input workflow t) (v\<lparr>Worker_Telemetry := x\<rparr>) = []"
    "capacityExclusions (Task_ResourceDemand t) (v\<lparr>Worker_Telemetry := x\<rparr>) = []"
    by (simp_all add: all_exclusions_def placement_request_def)
  show "Worker_Health v = WorkerHealthReady" "Worker_AcceptBacklog v \<or> Worker_ID v \<in> set (Placement_Hosts (Task_Placement t))"
    "Placement_Hosts (Task_Placement t) = [] \<or> Worker_ID v \<in> set (Placement_Hosts (Task_Placement t))"
    "time_sub (Plan_Now input) (Worker_ObservedAt v) \<le> Plan_MaxWorkerSnapshotAge input"
    using parts(1) by (auto simp: worker_exclusions_def placement_request_def Let_def split: if_splits)
  show "set (Placement_Capabilities (Task_Placement t)) \<subseteq> set (Worker_Capabilities v)"
    using parts(2) by (auto simp: capability_exclusions_def placement_request_def filter_empty_conv)
  show "Workflow_Project workflow = '''' \<or> project_available v (Workflow_Project workflow)"
    using parts(3) by (auto simp: project_exclusions_def placement_request_def project_available_def split: if_splits option.splits)
  show "capacityExclusions (Task_ResourceDemand t) v = []"
    using parts(4) by (simp add: capacityExclusions_def class_exclusions_def CapacitySnapshot_def Let_def cong: if_cong)
qed



section \<open>Exclusion\<close>

lemma plan_owned:
  assumes "BuildPlan rt input = Inr plan"
  shows "\<exists>owners. owned (Plan_ResourceOwners input) owners (lock_claims (Plan_Proposals plan))"
    and "\<exists>owners. owned (Plan_WorkflowCheckoutOwners input) owners (checkout_claims input (Plan_Proposals plan))"
    and "\<exists>owners. set (Plan_DirectoryOwners input) \<subseteq> owners \<and>
      (\<forall>p \<in> set (Plan_Proposals plan). \<forall>w t. planned_from input p w t \<longrightarrow> stands_apart owners p t)"
proof -
  obtain router sessions entries st where b: "start_sessions input = Inr sessions"
    "plan_steps rt input entries (initial_plan_state input router sessions) = Inr st"
    "plan = PState_plan st" "\<forall>entry \<in> set entries. entry_ok input entry" using BuildPlan_Inr [OF assms] by metis
  have "validatePlanInput rt input = None" using assms by (auto simp: BuildPlan_def split: option.splits)
  then have entries: "\<forall>entry \<in> set entries. entry_of_input input entry"
    using b(4) validatePlanInput_None(2) unfolding entry_of_input_def by blast
  let ?init = "initial_plan_state input router sessions"
  have start: "locks_owned input ?init" "checkouts_owned input ?init" "directories_apart input ?init"
    using b(1) by (auto simp: locks_owned_def checkouts_owned_def directories_apart_def initial_plan_state_def owned_def lock_claims_def
        checkout_claims_def start_sessions_def split: sum.splits)
  show "\<exists>owners. owned (Plan_ResourceOwners input) owners (lock_claims (Plan_Proposals plan))"
    using locks.steps [OF b(2,4) start(1)] b(3) by (auto simp: locks_owned_def)
  show "\<exists>owners. owned (Plan_WorkflowCheckoutOwners input) owners (checkout_claims input (Plan_Proposals plan))"
    using checkouts.steps [OF b(2) entries start(2)] b(3) by (auto simp: checkouts_owned_def)
  show "\<exists>owners. set (Plan_DirectoryOwners input) \<subseteq> owners \<and>
      (\<forall>p \<in> set (Plan_Proposals plan). \<forall>w t. planned_from input p w t \<longrightarrow> stands_apart owners p t)"
    using directories.steps [OF b(2) entries start(3)] b(3) unfolding directories_apart_def by blast
qed

lemma checkout_claimed:
  assumes "planned_from input p w t" and "shared_checkout w" and "p \<in> set ps"
  shows "(workflow_run w, Proposal_AttemptID p) \<in> checkout_claims input ps"
proof -
  have "needs_checkout input p" using assms(1,2) by (auto simp: needs_checkout_def)
  moreover have "workflow_run w = Proposal_WorkflowRunID p" using assms(1) by (simp add: planned_from_def)
  ultimately show ?thesis using assms(3) by (simp add: checkout_claims_def image_iff) blast
qed

text \<open>
  C29. Proposals of different attempts exclude each other: they share no resource lock, they are
  not both in a run whose tasks share one checkout, and no directory of one task conflicts with a
  directory of the other.
\<close>

theorem proposals_exclude_each_other:
  assumes "BuildPlan rt input = Inr plan" and "p \<in> set (Plan_Proposals plan)" and "q \<in> set (Plan_Proposals plan)"
    and "Proposal_AttemptID p \<noteq> Proposal_AttemptID q"
  shows "set (Proposal_ResourceLocks p) \<inter> set (Proposal_ResourceLocks q) = {} \<and>
    (\<forall>w t u. planned_from input p w t \<and> planned_from input q w u \<longrightarrow> \<not> shared_checkout w) \<and>
    (\<forall>w t v u. planned_from input p w t \<and> planned_from input q v u \<longrightarrow>
       \<not> bindings_clash (Task_DirectoryBindings t) (Task_DirectoryBindings u))"
proof (intro conjI allI impI)
  obtain owners where "owned (Plan_ResourceOwners input) owners (lock_claims (Plan_Proposals plan))"
    using plan_owned(1) [OF assms(1)] by blast
  note exclusive = owned_exclusive [OF this]
  have claims: "(k, Proposal_AttemptID r) \<in> lock_claims (Plan_Proposals plan)"
    if "r \<in> set (Plan_Proposals plan)" "k \<in> set (Proposal_ResourceLocks r)" for k r using that by (auto simp: lock_claims_def)
  show "set (Proposal_ResourceLocks p) \<inter> set (Proposal_ResourceLocks q) = {}"
    using exclusive [OF claims [OF assms(2)] claims [OF assms(3)]] assms(4) by blast
next
  fix w t u
  assume w: "planned_from input p w t \<and> planned_from input q w u"
  obtain owners where "owned (Plan_WorkflowCheckoutOwners input) owners (checkout_claims input (Plan_Proposals plan))"
    using plan_owned(2) [OF assms(1)] by blast
  note exclusive = owned_exclusive [OF this]
  show "\<not> shared_checkout w"
  proof
    assume "shared_checkout w"
    then have "(workflow_run w, Proposal_AttemptID p) \<in> checkout_claims input (Plan_Proposals plan)"
      "(workflow_run w, Proposal_AttemptID q) \<in> checkout_claims input (Plan_Proposals plan)"
      using w checkout_claimed assms(2,3) by blast+
    with exclusive assms(4) show False by blast
  qed
next
  fix w t v u
  assume w: "planned_from input p w t \<and> planned_from input q v u"
  obtain owners where o: "\<forall>p \<in> set (Plan_Proposals plan). \<forall>w t. planned_from input p w t \<longrightarrow> stands_apart owners p t"
    using plan_owned(3) [OF assms(1)] by blast
  have "stands_apart owners p t" "stands_apart owners q u" using o w assms(2,3) by blast+
  with assms(4) show "\<not> bindings_clash (Task_DirectoryBindings t) (Task_DirectoryBindings u)"
    by (cases "Task_DirectoryBindings u = []") (auto simp: stands_apart_def)
qed

theorem proposals_exclude_each_other_witness:
  "\<exists>p q. Plan_Proposals planner_plan = [p, q] \<and> set (Proposal_ResourceLocks p) \<inter> set (Proposal_ResourceLocks q) = {}"
proof -
  obtain p q where p: "Plan_Proposals planner_plan = [p, q]" "Proposal_AttemptID p = ''a-1''" "Proposal_AttemptID q = ''b-1''"
    by (rule planner_proposals)
  then have "p \<in> set (Plan_Proposals planner_plan)" "q \<in> set (Plan_Proposals planner_plan)" "Proposal_AttemptID p \<noteq> Proposal_AttemptID q" by simp_all
  from proposals_exclude_each_other [OF planner_builds this] p(1) show ?thesis by blast
qed

text \<open>
  Proposals respect what is held when planning starts: a lock or a shared checkout of a
  proposal is free or held by its own attempt, and every directory of its task is valid, on the
  chosen worker, and in conflict with no directory that another attempt owns.
\<close>

theorem proposals_respect_owners:
  assumes "BuildPlan rt input = Inr plan" and "p \<in> set (Plan_Proposals plan)" and "planned_from input p w t"
  shows "(\<forall>k \<in> set (Proposal_ResourceLocks p). owner_of (Plan_ResourceOwners input) k \<in> {'''', Proposal_AttemptID p}) \<and>
    (shared_checkout w \<longrightarrow> owner_of (Plan_WorkflowCheckoutOwners input) (workflow_run w) \<in> {'''', Proposal_AttemptID p}) \<and>
    (\<forall>b \<in> set (Task_DirectoryBindings t). ValidateBinding b = None \<and>
       Reg_WorkerID (Identity_Registration (Binding_Identity b)) = Proposal_WorkerID p) \<and>
    (\<forall>owner \<in> set (Plan_DirectoryOwners input). DirOwner_AttemptID owner \<noteq> Proposal_AttemptID p \<longrightarrow>
       \<not> bindings_clash (Task_DirectoryBindings t) (DirOwner_Bindings owner))"
proof -
  obtain owners where "owned (Plan_ResourceOwners input) owners (lock_claims (Plan_Proposals plan))"
    using plan_owned(1) [OF assms(1)] by blast
  note locks = owned_before [OF this, of _ "Proposal_AttemptID p"]
  obtain owners' where "owned (Plan_WorkflowCheckoutOwners input) owners' (checkout_claims input (Plan_Proposals plan))"
    using plan_owned(2) [OF assms(1)] by blast
  note checkout = owned_before [OF this, of "workflow_run w" "Proposal_AttemptID p"]
  obtain held where "set (Plan_DirectoryOwners input) \<subseteq> held" "stands_apart held p t"
    using plan_owned(3) [OF assms(1)] assms(2,3) by blast
  then have directories: "\<forall>b \<in> set (Task_DirectoryBindings t). ValidateBinding b = None \<and>
       Reg_WorkerID (Identity_Registration (Binding_Identity b)) = Proposal_WorkerID p"
    "\<forall>owner \<in> set (Plan_DirectoryOwners input). DirOwner_AttemptID owner \<noteq> Proposal_AttemptID p \<longrightarrow>
       \<not> bindings_clash (Task_DirectoryBindings t) (DirOwner_Bindings owner)"
    unfolding stands_apart_def by blast+
  have claims: "(k, Proposal_AttemptID p) \<in> lock_claims (Plan_Proposals plan)" if "k \<in> set (Proposal_ResourceLocks p)" for k
    using assms(2) that by (auto simp: lock_claims_def)
  have "shared_checkout w \<Longrightarrow> (workflow_run w, Proposal_AttemptID p) \<in> checkout_claims input (Plan_Proposals plan)"
    using checkout_claimed [OF assms(3) _ assms(2)] by blast
  then show ?thesis using locks [OF claims] checkout directories by blast
qed

theorem proposals_respect_owners_witness:
  "\<exists>p \<in> set (Plan_Proposals planner_plan). planned_from planner_example p planner_workflow (planner_task ''a'') \<and>
     owner_of (Plan_ResourceOwners planner_example) ''lock-a'' \<in> {'''', Proposal_AttemptID p}"
proof -
  obtain p q where p: "Plan_Proposals planner_plan = [p, q]" "Proposal_WorkflowRunID p = ''run''" "Proposal_TaskID p = ''a''"
    "Proposal_ResourceLocks p = [''lock-a'']" by (rule planner_proposals)
  then have mem: "p \<in> set (Plan_Proposals planner_plan)" by simp
  have from_run: "planned_from planner_example p planner_workflow (planner_task ''a'')"
    using p(2,3) by (simp add: planned_from_def planner_input_def planner_workflow_def planner_dag_def sample_run_def planner_task_def)
  from proposals_respect_owners [OF planner_builds mem this] p(4) mem from_run show ?thesis by auto
qed

section \<open>Quota pools\<close>

lemma add_instance_pools: "Router_pools (fold (add_instance i) insts router) = Router_pools router"
  "Router_batchAssignments (fold (add_instance i) insts router) = Router_batchAssignments router"
  by (induction insts arbitrary: router) (simp_all add: add_instance_def)

lemma add_pool_route_pools:
  "Router_pools (add_pool_route pool router) =
     (Router_pools router)(Pool_ID pool \<mapsto> pool\<lparr>Pool_ProviderInstanceIDs := sort_strings (Pool_ProviderInstanceIDs pool)\<rparr>)"
  "Router_batchAssignments (add_pool_route pool router) = Router_batchAssignments router"
  by (simp_all add: add_pool_route_def Let_def add_instance_pools)

text \<open>The router knows exactly the pools of the input, each under its identifier.\<close>

definition known_as :: "QuotaPool \<Rightarrow> QuotaPool" where
  "known_as pool = pool\<lparr>Pool_ProviderInstanceIDs := sort_strings (Pool_ProviderInstanceIDs pool)\<rparr>"

lemma add_pool_routes_Inr:
  assumes "add_pool_routes pools router = Inr router'"
  shows "Router_batchAssignments router' = Router_batchAssignments router \<and>
    (\<forall>pool \<in> set pools. 0 \<le> Pool_ActiveAssignments pool \<and> Pool_ID pool \<noteq> '''' \<and> Router_pools router' (Pool_ID pool) = Some (known_as pool)) \<and>
    (\<forall>i. i \<notin> Pool_ID ` set pools \<longrightarrow> Router_pools router' i = Router_pools router i) \<and>
    (\<forall>pool \<in> set pools. Router_pools router (Pool_ID pool) = None)"
  using assms
proof (induction pools arbitrary: router)
  case (Cons pool pools)
  have head: "validateRoutingPool pool = None" "Router_pools router (Pool_ID pool) = None"
    "add_pool_routes pools (add_pool_route pool router) = Inr router'"
    using Cons.prems by (auto split: option.splits if_splits)
  have ok: "0 \<le> Pool_ActiveAssignments pool" "Pool_ID pool \<noteq> ''''"
    using head(1) by (auto simp: validateRoutingPool_def nonempty_trimmed_def split: if_splits)
  note ih = Cons.IH [OF head(3), unfolded add_pool_route_pools]
  then have fresh: "Pool_ID pool \<notin> Pool_ID ` set pools" by (auto split: if_splits)
  moreover have "\<forall>q \<in> set pools. Router_pools router (Pool_ID q) = None" using ih by (auto split: if_splits)
  ultimately show ?case using ih head(2) ok by (auto simp: known_as_def)
qed simp

lemma add_estimates_pools:
  "add_estimates es router = Inr router' \<Longrightarrow>
     Router_pools router' = Router_pools router \<and> Router_batchAssignments router' = Router_batchAssignments router"
  by (induction es arbitrary: router) (auto split: option.splits if_splits)

lemma newProviderRouter_pools:
  assumes "newProviderRouter workers pools estimates = Inr router"
  shows "\<forall>pool \<in> set pools. 0 \<le> Pool_ActiveAssignments pool \<and> Pool_ID pool \<noteq> '''' \<and> Router_pools router (Pool_ID pool) = Some (known_as pool)"
    and "ran (Router_pools router) \<subseteq> known_as ` set pools" and "Router_batchAssignments router = (\<lambda>_. 0)"
proof -
  obtain r where r: "add_pool_routes (sort_less (\<lambda>a b. Pool_ID a < Pool_ID b) pools) (empty_router workers) = Inr r"
    "Router_pools router = Router_pools r" "Router_batchAssignments router = Router_batchAssignments r"
    using assms add_estimates_pools by (auto simp: newProviderRouter_def split: sum.splits)
  note routes = add_pool_routes_Inr [OF r(1), simplified]
  show "\<forall>pool \<in> set pools. 0 \<le> Pool_ActiveAssignments pool \<and> Pool_ID pool \<noteq> '''' \<and> Router_pools router (Pool_ID pool) = Some (known_as pool)"
    "Router_batchAssignments router = (\<lambda>_. 0)" using routes r by (simp_all add: empty_router_def)
  have "Router_pools r i = Some pool \<Longrightarrow> pool \<in> known_as ` set pools" for i pool
    using routes by (cases "i \<in> Pool_ID ` set pools") (auto simp: empty_router_def)
  then show "ran (Router_pools router) \<subseteq> known_as ` set pools" by (auto simp: ran_def r(2))
qed

text \<open>
  C31. Planning never puts more work into a quota pool than it allows: the active assignments of a
  pool and the tasks a plan proposes in it stay within its concurrency limit, and a pool that is
  already at its limit gets none.
\<close>

theorem pool_limits_respected:
  assumes "BuildPlan rt input = Inr plan" and "pool \<in> set (Plan_QuotaPools input)"
    and "\<forall>q \<in> set (Plan_QuotaPools input). in_int64 (Pool_ActiveAssignments q) \<and> in_int64 (Pool_MaxConcurrent q)"
  shows "in_pool (Pool_ID pool) (Plan_Proposals plan) = 0 \<or>
    Pool_ActiveAssignments pool + in_pool (Pool_ID pool) (Plan_Proposals plan) \<le> Pool_MaxConcurrent pool"
proof -
  obtain router sessions entries st where b: "newProviderRouter (Plan_Workers input) (Plan_QuotaPools input) (Plan_RouteEstimates input) = Inr router"
    "plan_steps rt input entries (initial_plan_state input router sessions) = Inr st" "plan = PState_plan st"
    using BuildPlan_Inr [OF assms(1)] by metis
  note known = newProviderRouter_pools [OF b(1)]
  have "pool_ok (known_as q)" if "q \<in> set (Plan_QuotaPools input)" for q
    using known(1) assms(3) that by (simp add: pool_ok_def known_as_def in_int64_def)
  then have ok: "\<forall>q \<in> ran (Router_pools router). pool_ok q" using known(2) by blast
  have "pools_within (Router_pools router) (initial_plan_state input router sessions)"
    using known(3) by (simp add: pools_within_def initial_plan_state_def in_pool_def)
  with ok have "pools_within (Router_pools router) st" by (intro pools.steps [OF b(2)]) simp_all
  moreover have "Pool_ID pool \<noteq> ''''" "Router_pools router (Pool_ID pool) = Some (known_as pool)" using known(1) assms(2) by auto
  moreover have "0 \<le> in_pool (Pool_ID pool) (Plan_Proposals plan)" by (simp add: in_pool_def)
  ultimately show ?thesis using b(3) by (auto simp: pools_within_def known_as_def)
qed

theorem pool_limits_respected_witness: "in_pool ''q'' (Plan_Proposals planner_plan) = 2 \<and> 1 + in_pool ''q'' (Plan_Proposals planner_plan) \<le> 3"
proof -
  obtain p q where p: "Plan_Proposals planner_plan = [p, q]" "map_option Route_QuotaPoolID (Proposal_Route p) = Some ''q''"
    "map_option Route_QuotaPoolID (Proposal_Route q) = Some ''q''" by (rule planner_proposals)
  then have two: "in_pool ''q'' (Plan_Proposals planner_plan) = 2" by (auto simp: in_pool_def pool_of_def)
  have "planner_pool \<in> set (Plan_QuotaPools planner_example)" by (simp add: planner_input_def)
  from pool_limits_respected [OF planner_builds this] two show ?thesis
    by (simp add: planner_input_def planner_pool_def in_int64_def min_int64_def max_int64_def)
qed

section \<open>Decisions\<close>

text \<open>
  A plan decides every open task exactly once: its decisions are, without repetition, the
  tasks of the input whose current attempt is not finished; the proposals are the decisions marked
  proposed, in the same order; and a task is proposed exactly when its decision names no blocker.
\<close>

theorem every_open_task_decided:
  assumes "BuildPlan rt input = Inr plan"
  shows "distinct (map decision_key (Plan_Decisions plan)) \<and>
    set (map decision_key (Plan_Decisions plan)) =
      {(workflow_run w, Task_ID t) | w t. w \<in> set (Plan_Workflows input) \<and> t \<in> open_tasks w} \<and>
    map proposal_key (Plan_Proposals plan) = map decision_key (filter TPD_Proposed (Plan_Decisions plan)) \<and>
    (\<forall>d \<in> set (Plan_Decisions plan). TPD_Proposed d \<longleftrightarrow> TPD_Blockers d = [])"
proof -
  obtain router sessions entries st where b: "orderedPlanningTasks input = Inr entries"
    "plan_steps rt input entries (initial_plan_state input router sessions) = Inr st" "plan = PState_plan st"
    "\<forall>entry \<in> set entries. entry_ok input entry" using BuildPlan_Inr [OF assms] by metis
  have "validatePlanInput rt input = None" using assms by (auto simp: BuildPlan_def split: option.splits)
  note keys = orderedPlanningTasks_keys [OF b(1) validatePlanInput_None(2) [OF this]]
  have "\<forall>entry \<in> set entries. \<not> Terminal (Attempt_Progress (Entry_attempt entry))" using b(4) unfolding entry_ok_def by blast
  then have "decisions_match (PState_plan st) \<and> map decision_key (Plan_Decisions (PState_plan st)) = map entry_key entries"
    using plan_steps_decisions [OF b(2)] by (simp add: initial_plan_state_def decisions_match_def)
  then have "decisions_match plan" and d: "map decision_key (Plan_Decisions plan) = map entry_key entries" using b(3) by simp_all
  moreover have "set (map decision_key (Plan_Decisions plan)) =
      {(workflow_run w, Task_ID t) | w t. w \<in> set (Plan_Workflows input) \<and> t \<in> open_tasks w}"
    unfolding d keys(2) by blast
  ultimately show ?thesis using keys(1) unfolding decisions_match_def d by blast
qed

theorem every_open_task_decided_witness: "distinct (map decision_key (Plan_Decisions planner_plan)) \<and> length (filter TPD_Proposed (Plan_Decisions planner_plan)) = 2"
proof -
  obtain p q where p: "Plan_Proposals planner_plan = [p, q]" by (rule planner_proposals)
  note decided = every_open_task_decided [OF planner_builds]
  then have "length (map proposal_key (Plan_Proposals planner_plan)) = length (map decision_key (filter TPD_Proposed (Plan_Decisions planner_plan)))"
    by (metis length_map)
  then have "length (filter TPD_Proposed (Plan_Decisions planner_plan)) = 2" unfolding p length_map by simp
  with decided show ?thesis by blast
qed

section \<open>Failure\<close>

text \<open>Within the pass the only panic is a write to a nil map.\<close>

lemma planTask_no_panic:
  assumes "planTask rt input router sessions workflow state task attempt order ro co = Inl err"
  shows "err \<noteq> PlanPanic \<and> err \<noteq> PlanLoop"
proof -
  have scan: "scan_candidates rt sessions decision task run selected routed = Inl e \<Longrightarrow> e \<noteq> PlanPanic \<and> e \<noteq> PlanLoop"
    for decision run selected routed e
    by (induction routed arbitrary: selected) (auto simp: Let_def split: sum.splits option.splits if_splits)
  show ?thesis
    using assms scan
    by (auto simp: planTask_def selection_blockers_def Let_def split: sum.splits option.splits if_splits prod.splits)
qed

lemma try_alternatives_Inl: "try_alternatives plan alternatives = Inl err \<Longrightarrow> \<exists>task. plan task = Inl err"
  by (induction plan alternatives rule: try_alternatives.induct) (auto split: sum.splits prod.splits option.splits)

lemma planEntry_no_panic:
  assumes "planEntry rt input router sessions entry ro co = Inl err"
  shows "err \<noteq> PlanPanic \<and> err \<noteq> PlanLoop"
proof -
  obtain router' task where "planTask rt input router' sessions (Entry_workflow entry) (Entry_state entry) task
      (Entry_attempt entry) (Entry_order entry) ro co = Inl err"
    using assms by (auto simp: planEntry_def Let_def split: sum.splits prod.splits option.splits dest!: try_alternatives_Inl)
  then show ?thesis by (rule planTask_no_panic)
qed

definition maps_present :: "'s plan_state \<Rightarrow> bool" where
  "maps_present st \<longleftrightarrow> PState_resourceOwners st \<noteq> None \<and> PState_checkoutOwners st \<noteq> None"

lemma fold_set_owner_None: "fold (\<lambda>k. set_owner k a) ks owners = None \<longleftrightarrow> owners = None"
  by (induction ks arbitrary: owners) simp_all

lemma plan_step_maps:
  assumes "maps_present st"
  shows "plan_step rt input entry st \<noteq> Inl PlanPanic \<and> plan_step rt input entry st \<noteq> Inl PlanLoop"
    and "plan_step rt input entry st = Inr st' \<Longrightarrow> maps_present st'"
proof -
  let ?e = "planEntry rt (input\<lparr>Plan_Workers := PState_workers st\<rparr>) (PState_router st) (PState_sessions st) entry
      (PState_resourceOwners st) (PState_checkoutOwners st)"
  have entry: "?e = Inl err \<Longrightarrow> err \<noteq> PlanPanic \<and> err \<noteq> PlanLoop" for err by (rule planEntry_no_panic)
  have commit: "commit_proposal input entry planned decision p (st\<lparr>PState_router := router\<rparr>) \<noteq> Inl err" for planned decision p router err
    using assms by (auto simp: commit_proposal_def maps_present_def Let_def)
  show "plan_step rt input entry st \<noteq> Inl PlanPanic \<and> plan_step rt input entry st \<noteq> Inl PlanLoop"
    using entry commit by (auto simp: plan_step_def split: sum.splits prod.splits option.splits)
  assume "plan_step rt input entry st = Inr st'"
  then have "plan_move rt input entry st st'" by (rule plan_step_move)
  then show "maps_present st'"
  proof (cases rule: plan_move.cases)
    case (proposed router task routes c p decision)
    with assms show ?thesis using commit_Inr(5,6) [OF proposed(4)]
      by (simp add: maps_present_def fold_set_owner_None del: not_None_eq)
  qed (use assms in \<open>simp_all add: maps_present_def\<close>)
qed

lemma plan_steps_no_panic:
  "maps_present st \<Longrightarrow> plan_steps rt input entries st \<noteq> Inl PlanPanic \<and> plan_steps rt input entries st \<noteq> Inl PlanLoop"
proof (induction entries arbitrary: st)
  case (Cons entry entries)
  show ?case
  proof (cases "plan_step rt input entry st")
    case (Inl err)
    with plan_step_maps(1) [OF Cons.prems, of rt input entry] show ?thesis by auto
  next
    case (Inr st')
    with Cons.IH plan_step_maps(2) [OF Cons.prems Inr] show ?thesis by simp
  qed
qed simp

lemma start_constraints_no_panic: "None \<notin> set cs \<Longrightarrow> start_constraints now cs \<noteq> Inl PlanPanic \<and> start_constraints now cs \<noteq> Inl PlanLoop"
proof (induction cs)
  case (Cons c cs)
  then obtain x where "c = Some x" by (cases c) auto
  with Cons show ?case by (auto split: option.splits sum.splits)
qed simp

lemma task_entries_Inl: "task_entries f tasks = Inl err \<Longrightarrow> \<exists>task. f task = Inl err"
  by (induction f tasks rule: task_entries.induct) (auto split: sum.splits)

lemma collect_entries_no_panic: "collect_entries input ws \<noteq> Inl PlanPanic \<and> collect_entries input ws \<noteq> Inl PlanLoop"
proof -
  have "task_entry input workflow state inFlight task \<noteq> Inl PlanPanic \<and> task_entry input workflow state inFlight task \<noteq> Inl PlanLoop"
    for workflow state inFlight task by (auto simp: task_entry_def Let_def split: option.splits)
  then have "workflow_entries input w \<noteq> Inl PlanPanic \<and> workflow_entries input w \<noteq> Inl PlanLoop" for w
    using NewDAGExecution_valid [of "PW_State w"]
    by (auto simp: workflow_entries_def Let_def split: option.splits sum.splits dest!: task_entries_Inl)
  then show ?thesis by (induction ws) (auto split: sum.splits)
qed

text \<open>
  C33. Planning always returns, and it panics only on a nil map: when the owner maps of the input
  are there, \<open>BuildPlan\<close> gives a plan or an error value; the branch of \<open>planTask\<close> that would use a
  missing candidate, a nil constraint and an endless cycle search cannot happen.
\<close>

theorem planning_returns:
  assumes "Plan_ResourceOwners input \<noteq> None" and "Plan_WorkflowCheckoutOwners input \<noteq> None"
  shows "(\<exists>plan. BuildPlan rt input = Inr plan) \<or> (\<exists>err. BuildPlan rt input = Inl (PlanError err))"
proof -
  have "BuildPlan rt input \<noteq> Inl PlanPanic \<and> BuildPlan rt input \<noteq> Inl PlanLoop"
  proof (cases "validatePlanInput rt input")
    case None
    have constraints: "start_constraints (Plan_Now input) (Plan_Constraints input) \<noteq> Inl PlanPanic \<and>
        start_constraints (Plan_Now input) (Plan_Constraints input) \<noteq> Inl PlanLoop"
      by (rule start_constraints_no_panic [OF validatePlanInput_None(3) [OF None]])
    have steps: "plan_steps rt input entries (initial_plan_state input router sessions) \<noteq> Inl PlanPanic \<and>
        plan_steps rt input entries (initial_plan_state input router sessions) \<noteq> Inl PlanLoop" for entries router sessions
      using assms by (intro plan_steps_no_panic) (simp add: maps_present_def initial_plan_state_def)
    show ?thesis
      using None constraints collect_entries_no_panic [of input "Plan_Workflows input"] steps
      by (auto simp: BuildPlan_def start_sessions_def orderedPlanningTasks_def split: sum.splits)
  qed (simp add: BuildPlan_def)
  then show ?thesis by (cases "BuildPlan rt input") (auto intro: plan_failure.exhaust)
qed

theorem planning_returns_witness:
  "(\<exists>plan. BuildPlan planner_runtime planner_example = Inr plan) \<or> (\<exists>err. BuildPlan planner_runtime planner_example = Inl (PlanError err))"
  by (rule planning_returns) (simp_all add: planner_input_def)


end
