(* ===== verification/AutomaticRetry.thy ===== *)
theory AutomaticRetry
  imports Graph
begin

text \<open>
  Automatic retries of infrastructure failures: the classification of an attempt and the
  effective policy of a task (\<open>internal/domain/failure_class.go\<close>), and the plan of one
  coordinator boundary (\<open>internal/backlog/automatic_retry.go\<close>). The code ranges over its map of
  latest attempts in no particular order and then sorts the decisions by attempt; the model
  lists the map in the order of its insertions, which differs only in the order of decisions with
  the same attempt identifier. \<open>json.Marshal\<close> of a receipt fails only
  on a time outside the years 0 to 9999.
\<close>

section \<open>Classification and policy\<close>

definition ClassifyAttemptFailure :: "Attempt \<Rightarrow> FailureClassification option" where
  "ClassifyAttemptFailure attempt =
     (case Attempt_Progress attempt of
        ProgressFailed \<Rightarrow>
          Some (if Attempt_FailureClass attempt \<noteq> FailureClassEmpty
                then \<lparr>FC_Class = Attempt_FailureClass attempt, FC_Code = Attempt_FailureReason attempt\<rparr>
                else ClassifyFailure (Attempt_Failure attempt))
      | ProgressCancelled \<Rightarrow> Some \<lparr>FC_Class = FailureCancelled, FC_Code = ReasonCancelled\<rparr>
      | _ \<Rightarrow> None)"

definition EffectiveRetryPolicy :: "Task \<Rightarrow> int \<Rightarrow> TaskRetryPolicy" where
  "EffectiveRetryPolicy task coordinatorMax0 =
     (let policy = (case Task_Retry task of
            None \<Rightarrow> \<lparr>Retry_Infrastructure = DefaultInfrastructureRetries, Retry_Backoff = DefaultRetryBackoff\<rparr>
          | Some p \<Rightarrow> if Retry_Backoff p = 0 then p\<lparr>Retry_Backoff := DefaultRetryBackoff\<rparr> else p);
          coordinatorMax = (if coordinatorMax0 < 0 then 0 else coordinatorMax0)
      in if Retry_Infrastructure policy > coordinatorMax then policy\<lparr>Retry_Infrastructure := coordinatorMax\<rparr> else policy)"

section \<open>Decisions\<close>

record FailureStamp =
  Stamp_AttemptID :: string
  Stamp_Revision :: int64
  Stamp_Classification :: FailureClassification

record AutomaticRetryPlan =
  Plan_Stamps :: "FailureStamp list"
  Plan_Commands :: "AdminCommand list"

record automaticRetryDecision =
  Decision_attempt :: Attempt
  Decision_policy :: TaskRetryPolicy
  Decision_retry :: AutomaticRetry

type_synonym retry_key = "string \<times> string"

definition attempt_key :: "Attempt \<Rightarrow> retry_key" where
  "attempt_key attempt = (Attempt_WorkflowRunID attempt, Attempt_TaskID attempt)"

definition latest_retry_step :: "Attempt \<Rightarrow> (retry_key \<times> Attempt) list \<Rightarrow> (retry_key \<times> Attempt) list" where
  "latest_retry_step attempt latest =
     (case map_of latest (attempt_key attempt) of
        None \<Rightarrow> AList.update (attempt_key attempt) attempt latest
      | Some current \<Rightarrow>
          if Attempt_Number attempt > Attempt_Number current
          then AList.update (attempt_key attempt) attempt latest else latest)"

definition latest_by_task :: "Attempt list \<Rightarrow> (retry_key \<times> Attempt) list" where
  "latest_by_task attempts = fold latest_retry_step attempts []"

definition automatic_retries :: "Attempt list \<Rightarrow> retry_key \<Rightarrow> int" where
  "automatic_retries attempts k =
     fold (\<lambda>attempt n. if attempt_key attempt = k \<and> Attempt_AutomaticRetry attempt \<noteq> None then n + 1 else n) attempts 0"

definition run_sink_terminal :: "WorkflowRun \<Rightarrow> bool" where
  "run_sink_terminal run \<longleftrightarrow> (case Run_Sink run of None \<Rightarrow> False | Some sink \<Rightarrow> Terminal (Sink_Progress sink))"

definition retry_decision :: "CoordinatorRecords \<Rightarrow> int \<Rightarrow> retry_key \<times> Attempt \<Rightarrow> automaticRetryDecision option" where
  "retry_decision records coordinatorMax entry =
     (let (k, attempt) = entry in
      if Attempt_Progress attempt \<noteq> ProgressFailed then None
      else (case index_by Run_ID (Records_WorkflowRuns records) (fst k) of
        None \<Rightarrow> None
      | Some run \<Rightarrow>
          if Run_Supervision run \<noteq> None \<or> run_sink_terminal run then None
          else (case index_by Task_ID (TasksForRun run (Records_Tasks records)) (snd k) of
            None \<Rightarrow> None
          | Some task \<Rightarrow> (case ClassifyAttemptFailure attempt of
              None \<Rightarrow> None
            | Some classification \<Rightarrow>
                if \<not> Retryable (FC_Class classification) then None
                else
                  let policy = EffectiveRetryPolicy task coordinatorMax;
                      ordinal = automatic_retries (DeclaredTaskAttempts (Records_Attempts records)) k + 1
                  in if ordinal > Retry_Infrastructure policy then None
                     else Some \<lparr>Decision_attempt = attempt, Decision_policy = policy,
                       Decision_retry = \<lparr>AR_SourceAttemptID = Attempt_ID attempt, AR_Class = FC_Class classification,
                         AR_Code = FC_Code classification, AR_Ordinal = ordinal, AR_Budget = Retry_Infrastructure policy,
                         AR_NotBefore = 0, AR_CommandID = AutomaticRetryCommandID (Attempt_ID attempt)\<rparr>\<rparr>))))"

definition decision_less :: "automaticRetryDecision \<Rightarrow> automaticRetryDecision \<Rightarrow> bool" where
  "decision_less a b \<longleftrightarrow> Attempt_ID (Decision_attempt a) < Attempt_ID (Decision_attempt b)"

definition automaticRetryDecisions :: "CoordinatorRecords \<Rightarrow> int \<Rightarrow> automaticRetryDecision list" where
  "automaticRetryDecisions records coordinatorMax =
     (if coordinatorMax \<le> 0 then []
      else sort_less decision_less
        (List.map_filter (retry_decision records coordinatorMax)
          (latest_by_task (DeclaredTaskAttempts (Records_Attempts records)))))"

definition operatorRetryPending :: "AdminCommand list \<Rightarrow> string \<Rightarrow> bool" where
  "operatorRetryPending commands attemptID =
     list_ex (\<lambda>command. Command_Kind command = AdminCommandRetry \<and> Command_TargetType command = AdminTargetAttempt
       \<and> Command_TargetID command = attemptID \<and> Command_State command = AdminCommandPending) commands"

section \<open>The plan\<close>

text \<open>The years 0 to 9999 in nanoseconds since the first day of year 1.\<close>

definition json_time :: "instant \<Rightarrow> bool" where
  "json_time t \<longleftrightarrow> - (366 * 24 * hour) \<le> t \<and> t < 3652059 * 24 * hour"

definition retry_not_before :: "automaticRetryDecision \<Rightarrow> instant \<Rightarrow> instant" where
  "retry_not_before decision now =
     (let attempt = Decision_attempt decision;
          completed = (case Attempt_CompletedAt attempt of Some t \<Rightarrow> t | None \<Rightarrow> Attempt_UpdatedAt attempt);
          notBefore = time_add completed (RetryDelay (Decision_policy decision) (AR_Ordinal (Decision_retry decision)))
      in if notBefore < now then now else notBefore)"

definition retry_command :: "automaticRetryDecision \<Rightarrow> AutomaticRetry \<Rightarrow> instant \<Rightarrow> AdminCommand" where
  "retry_command decision retry now =
     \<lparr>Command_ID = AR_CommandID retry, Command_Kind = AdminCommandRetry, Command_TargetType = AdminTargetAttempt,
      Command_TargetID = Attempt_ID (Decision_attempt decision),
      Command_ExpectedRevision = Attempt_Revision (Decision_attempt decision),
      Command_Reason = Sprintf ''automatic retry %d of %d after %s failure (%s)''
        [IntArg (AR_Ordinal retry), IntArg (AR_Budget retry), StrArg (FailureClass_text (AR_Class retry)),
         StrArg (FailureReasonCode_text (AR_Code retry))],
      Command_RequestedBy = AutomaticRetryRequestedBy, Command_Payload = PayloadRetry retry,
      Command_State = AdminCommandPending, Command_Failure = '''', Command_CreatedAt = now, Command_AppliedAt = None\<rparr>"

definition plan_retry :: "CoordinatorRecords \<Rightarrow> instant \<Rightarrow> automaticRetryDecision \<Rightarrow> AdminCommand option" where
  "plan_retry records now decision =
     (if index_by Command_ID (Records_AdminCommands records) (AR_CommandID (Decision_retry decision)) \<noteq> None then None
      else if operatorRetryPending (Records_AdminCommands records) (Attempt_ID (Decision_attempt decision)) then None
      else
        let retry = (Decision_retry decision)\<lparr>AR_NotBefore := retry_not_before decision now\<rparr>
        in if json_time (AR_NotBefore retry) then Some (retry_command decision retry now) else None)"

definition failure_stamp :: "Attempt \<Rightarrow> FailureStamp option" where
  "failure_stamp attempt =
     (case ClassifyAttemptFailure attempt of
        None \<Rightarrow> None
      | Some classification \<Rightarrow>
          if Attempt_FailureClass attempt \<noteq> FailureClassEmpty then None
          else Some \<lparr>Stamp_AttemptID = Attempt_ID attempt, Stamp_Revision = Attempt_Revision attempt,
                 Stamp_Classification = classification\<rparr>)"

definition PlanAutomaticRetries :: "CoordinatorRecords \<Rightarrow> int \<Rightarrow> instant \<Rightarrow> AutomaticRetryPlan" where
  "PlanAutomaticRetries records coordinatorMax now =
     \<lparr>Plan_Stamps = List.map_filter failure_stamp (DeclaredTaskAttempts (Records_Attempts records)),
      Plan_Commands = List.map_filter (plan_retry records now) (automaticRetryDecisions records coordinatorMax)\<rparr>"

definition AutomaticRetryPendingRuns :: "CoordinatorRecords \<Rightarrow> int \<Rightarrow> string set" where
  "AutomaticRetryPendingRuns records coordinatorMax =
     set (map (\<lambda>decision. Attempt_WorkflowRunID (Decision_attempt decision))
       (filter (\<lambda>decision. case index_by Command_ID (Records_AdminCommands records) (AR_CommandID (Decision_retry decision)) of
            None \<Rightarrow> True | Some command \<Rightarrow> Command_State command = AdminCommandPending)
         (automaticRetryDecisions records coordinatorMax)))"

definition AutomaticRetryFromCommand :: "AdminCommand \<Rightarrow> AutomaticRetry option" where
  "AutomaticRetryFromCommand command =
     (if Command_Kind command \<noteq> AdminCommandRetry \<or> Command_RequestedBy command \<noteq> AutomaticRetryRequestedBy
         \<or> Command_ID command \<noteq> AutomaticRetryCommandID (Command_TargetID command)
         \<or> Command_Payload command = PayloadEmpty
      then None
      else (case Command_Payload command of
        PayloadRetry retry \<Rightarrow>
          if AR_SourceAttemptID retry \<noteq> Command_TargetID command \<or> AR_Ordinal retry < 1 then None else Some retry
      | _ \<Rightarrow> None))"

end
