(* ===== verification/RetryProperties.thy ===== *)
theory RetryProperties
  imports AutomaticRetry
begin

text \<open>
  What bounds automatic retries: the delay in closed form, the order of the classification
  table, and the conditions under which a retry command is planned.
\<close>

section \<open>The delay\<close>

lemma retry_delay_loop_closed:
  assumes "0 \<le> d" and "d \<le> 2 * MaxRetryBackoff" and "i \<le> ordinal"
  shows "min (retry_delay_loop ordinal i d) MaxRetryBackoff = min (d * 2 ^ nat (ordinal - i)) MaxRetryBackoff"
  using assms
proof (induction ordinal i d rule: retry_delay_loop.induct)
  case (1 ordinal i d)
  show ?case
  proof (cases "i < ordinal \<and> d < MaxRetryBackoff")
    case True
    have small: "d * 2 \<le> 2 * MaxRetryBackoff" using True by simp
    then have wrap: "wrap64 (d * 2) = d * 2"
      using "1.prems"(1) by (intro wrap64_id) (simp add: in_int64_def max_int64_def min_int64_def MaxRetryBackoff_def duration_defs)
    have exp: "nat (ordinal - i) = Suc (nat (ordinal - (i + 1)))" using True by arith
    show ?thesis
      using "1.IH" True "1.prems"(1) small by (simp add: retry_delay_loop.simps [of ordinal i d] wrap exp mult.assoc)
  next
    case False
    show ?thesis
    proof (cases "i < ordinal")
      case True
      with False have d: "MaxRetryBackoff \<le> d" by simp
      have "d * 1 \<le> d * 2 ^ nat (ordinal - i)" using "1.prems"(1) by (intro mult_left_mono) simp_all
      with d False show ?thesis by (simp add: retry_delay_loop.simps [of ordinal i d])
    next
      case le: False
      with "1.prems"(3) have "i = ordinal" by simp
      then show ?thesis by (simp add: retry_delay_loop.simps [of ordinal ordinal d])
    qed
  qed
qed

text \<open>The wait before automatic retry number \<open>ordinal\<close> is the declared backoff doubled once
  for every earlier retry, capped at one hour, for every backoff the policy check accepts; the
  doubling never overflows, whatever the ordinal.\<close>

theorem retry_delay_doubles:
  assumes "TaskRetryPolicy_Validate p = None" and "1 \<le> ordinal"
  shows "RetryDelay p ordinal = min (Retry_Backoff p * 2 ^ nat (ordinal - 1)) MaxRetryBackoff"
proof -
  have "0 \<le> Retry_Backoff p" "Retry_Backoff p \<le> MaxRetryBackoff"
    using assms(1) by (auto simp: TaskRetryPolicy_Validate_def split: if_splits)
  then have "min (retry_delay_loop ordinal 1 (Retry_Backoff p)) MaxRetryBackoff
      = min (Retry_Backoff p * 2 ^ nat (ordinal - 1)) MaxRetryBackoff"
    using assms(2) by (intro retry_delay_loop_closed) (simp_all add: MaxRetryBackoff_def duration_defs)
  moreover have "RetryDelay p ordinal = min (retry_delay_loop ordinal 1 (Retry_Backoff p)) MaxRetryBackoff"
    by (simp add: RetryDelay_def Let_def min_def)
  ultimately show ?thesis by simp
qed

theorem retry_delay_doubles_witness:
  "RetryDelay \<lparr>Retry_Infrastructure = 3, Retry_Backoff = 2 * minute\<rparr> 3 = 8 * minute
   \<and> RetryDelay \<lparr>Retry_Infrastructure = 5, Retry_Backoff = 20 * minute\<rparr> 50 = hour"
proof
  show "RetryDelay \<lparr>Retry_Infrastructure = 3, Retry_Backoff = 2 * minute\<rparr> 3 = 8 * minute"
    using retry_delay_doubles [of "\<lparr>Retry_Infrastructure = 3, Retry_Backoff = 2 * minute\<rparr>" 3]
    by (simp add: TaskRetryPolicy_Validate_def MaxInfrastructureRetries_def MaxRetryBackoff_def duration_defs)
  show "RetryDelay \<lparr>Retry_Infrastructure = 5, Retry_Backoff = 20 * minute\<rparr> 50 = hour"
    using retry_delay_doubles [of "\<lparr>Retry_Infrastructure = 5, Retry_Backoff = 20 * minute\<rparr>" 50]
    by (simp add: TaskRetryPolicy_Validate_def MaxInfrastructureRetries_def MaxRetryBackoff_def duration_defs min_def)
qed

section \<open>The table\<close>

lemma find_first:
  assumes "find P (xs @ ys) = Some y" and "y \<notin> set xs"
  shows "\<forall>x \<in> set xs. \<not> P x"
  using assms by (induction xs) (auto split: if_splits)

text \<open>The rows before the infrastructure rows, and the infrastructure rows.\<close>

definition refusing_rules :: "FailureRule list" where
  "refusing_rules = takeWhile (\<lambda>rule. Rule_Class rule \<noteq> FailureInfrastructure) FailureClassificationTable"

definition retryable_rules :: "FailureRule list" where
  "retryable_rules = dropWhile (\<lambda>rule. Rule_Class rule \<noteq> FailureInfrastructure) FailureClassificationTable"

lemma retryable_rules_all: "list_all (\<lambda>rule. Rule_Class rule = FailureInfrastructure) retryable_rules"
  unfolding retryable_rules_def by code_simp

lemma table_split: "FailureClassificationTable = refusing_rules @ retryable_rules"
  by (simp add: refusing_rules_def retryable_rules_def)

text \<open>C26. A failure is classified as an infrastructure failure exactly when some infrastructure
  phrase of the table occurs in its reason and no phrase of a policy, cancellation, code or
  protocol row does. A reason that joins several causes is therefore never retried.\<close>

theorem infrastructure_only_when_nothing_else:
  "Retryable (FC_Class (ClassifyFailure reason)) \<longleftrightarrow>
     (\<exists>rule \<in> set FailureClassificationTable. Rule_Class rule = FailureInfrastructure \<and> contains_str reason (Rule_Match rule))
     \<and> (\<forall>rule \<in> set FailureClassificationTable. contains_str reason (Rule_Match rule) \<longrightarrow> Rule_Class rule = FailureInfrastructure)"
  (is "?L \<longleftrightarrow> ?E \<and> ?A")
proof
  let ?P = "\<lambda>rule. contains_str reason (Rule_Match rule)"
  have late: "Rule_Class rule = FailureInfrastructure" if "rule \<in> set retryable_rules" for rule
    using retryable_rules_all that by (auto simp: list_all_eq)
  have early: "Rule_Class rule \<noteq> FailureInfrastructure" if "rule \<in> set refusing_rules" for rule
    using that unfolding refusing_rules_def by (auto dest: set_takeWhileD)
  {
    assume ?L
    then obtain rule where rule: "find ?P FailureClassificationTable = Some rule" "Rule_Class rule = FailureInfrastructure"
      by (auto simp: ClassifyFailure_def Retryable_def split: option.splits)
    then have "rule \<notin> set refusing_rules" using early by blast
    with rule(1) have "\<forall>r \<in> set refusing_rules. \<not> ?P r" unfolding table_split by (rule find_first)
    then have ?A using late unfolding table_split by auto
    moreover have ?E using rule find_SomeD [OF rule(1)] by blast
    ultimately show "?E \<and> ?A" by blast
  }
  {
    assume r: "?E \<and> ?A"
    then obtain rule where "find ?P FailureClassificationTable = Some rule"
      by (metis find_None_iff_all option.exhaust)
    with r find_SomeD [OF this] show ?L by (auto simp: ClassifyFailure_def Retryable_def)
  }
qed

theorem infrastructure_only_when_nothing_else_witness:
  "Retryable (FC_Class (ClassifyFailure ''preparation failed: disk''))
   \<and> \<not> Retryable (FC_Class (ClassifyFailure ''task timeout expired; preparation failed''))"
proof
  have "Retryable (FC_Class (ClassifyFailure ''preparation failed: disk''))" by code_simp
  with infrastructure_only_when_nothing_else [of "''preparation failed: disk''"]
  show "Retryable (FC_Class (ClassifyFailure ''preparation failed: disk''))" by simp
  show "\<not> Retryable (FC_Class (ClassifyFailure ''task timeout expired; preparation failed''))" by code_simp
qed

section \<open>The decisions\<close>

lemma EffectiveRetryPolicy_budget:
  "Retry_Infrastructure (EffectiveRetryPolicy task m) \<le> (if m < 0 then 0 else m)"
  "Retry_Infrastructure (EffectiveRetryPolicy task m) \<le>
     (case Task_Retry task of None \<Rightarrow> DefaultInfrastructureRetries | Some p \<Rightarrow> Retry_Infrastructure p)"
  by (simp_all add: EffectiveRetryPolicy_def Let_def split: option.split)

text \<open>The fold over the attempts keeps, for every task of a run, an attempt with the largest
  number.\<close>

definition latest_ok :: "Attempt list \<Rightarrow> (retry_key \<times> Attempt) list \<Rightarrow> bool" where
  "latest_ok attempts latest \<longleftrightarrow>
     distinct (map fst latest)
     \<and> (\<forall>(k, a) \<in> set latest. a \<in> set attempts \<and> attempt_key a = k)
     \<and> (\<forall>a \<in> set attempts. \<exists>b. (attempt_key a, b) \<in> set latest \<and> Attempt_Number a \<le> Attempt_Number b)"

lemma set_update_present:
  "distinct (map fst al) \<Longrightarrow> (k, b) \<in> set al \<Longrightarrow> set (AList.update k v al) = insert (k, v) (set al - {(k, b)})"
proof (induction al)
  case (Cons p al)
  obtain j c where p: "p = (j, c)" by (cases p)
  show ?case
  proof (cases "j = k")
    case True
    with Cons.prems p have "k \<notin> fst ` set al" and "b = c" by (auto intro: rev_image_eqI)
    then show ?thesis using True p by auto (metis fst_conv image_eqI)
  next
    case False
    with Cons p show ?thesis by auto
  qed
qed simp

lemma update_absent: "k \<notin> fst ` set al \<Longrightarrow> AList.update k v al = al @ [(k, v)]"
  by (induction al) auto

lemma latest_ok_step:
  assumes "latest_ok attempts latest"
  shows "latest_ok (attempts @ [a]) (latest_retry_step a latest)"
proof (cases "map_of latest (attempt_key a)")
  case None
  then have fresh: "attempt_key a \<notin> fst ` set latest" by (simp add: map_of_eq_None_iff)
  then have "AList.update (attempt_key a) a latest = latest @ [(attempt_key a, a)]" by (rule update_absent)
  with None fresh assms show ?thesis
    by (auto simp: latest_ok_def latest_retry_step_def)
next
  case (Some b)
  have d: "distinct (map fst latest)" using assms by (simp add: latest_ok_def)
  from map_of_SomeD [OF Some] have b: "(attempt_key a, b) \<in> set latest" .
  have upd: "set (AList.update (attempt_key a) a latest) = insert (attempt_key a, a) (set latest - {(attempt_key a, b)})"
    using d b by (rule set_update_present)
  have d': "distinct (map fst (AList.update (attempt_key a) a latest))" using d by (simp add: distinct_update)
  show ?thesis
  proof (cases "Attempt_Number a > Attempt_Number b")
    case True
    have "\<exists>c'. (attempt_key x, c') \<in> set (AList.update (attempt_key a) a latest) \<and> Attempt_Number x \<le> Attempt_Number c'"
      if x: "x \<in> set attempts" for x
    proof -
      from assms x obtain c where c: "(attempt_key x, c) \<in> set latest" "Attempt_Number x \<le> Attempt_Number c"
        by (auto simp: latest_ok_def)
      show ?thesis
      proof (cases "(attempt_key x, c) = (attempt_key a, b)")
        case same: True
        with c True show ?thesis by (intro exI [of _ a]) (simp add: upd)
      next
        case False
        with c show ?thesis by (intro exI [of _ c]) (auto simp: upd)
      qed
    qed
    with True Some assms d' show ?thesis
      by (auto simp: latest_ok_def latest_retry_step_def upd)
  next
    case False
    with Some assms b show ?thesis
      by (auto simp: latest_ok_def latest_retry_step_def intro!: exI [of _ b])
  qed
qed

lemma latest_ok_all: "latest_ok attempts (latest_by_task attempts)"
proof (induction attempts rule: rev_induct)
  case Nil
  then show ?case by (simp add: latest_ok_def latest_by_task_def)
next
  case (snoc a attempts)
  then show ?case using latest_ok_step [of attempts "latest_by_task attempts" a] by (simp add: latest_by_task_def)
qed

lemma map_filter_set: "set (List.map_filter f xs) = {y. \<exists>x \<in> set xs. f x = Some y}"
  by (force simp: List.map_filter_def)

definition qualifies :: "CoordinatorRecords \<Rightarrow> int \<Rightarrow> Attempt \<Rightarrow> WorkflowRun \<Rightarrow> Task \<Rightarrow> bool" where
  "qualifies records coordinatorMax attempt run task \<longleftrightarrow>
     attempt \<in> set (Records_Attempts records) \<and> \<not> IsSupervisionActivation attempt
     \<and> (\<forall>other \<in> set (Records_Attempts records). \<not> IsSupervisionActivation other \<and> attempt_key other = attempt_key attempt
          \<longrightarrow> Attempt_Number other \<le> Attempt_Number attempt)
     \<and> Attempt_Progress attempt = ProgressFailed
     \<and> (\<exists>c. ClassifyAttemptFailure attempt = Some c \<and> FC_Class c = FailureInfrastructure)
     \<and> run \<in> set (Records_WorkflowRuns records) \<and> Run_ID run = Attempt_WorkflowRunID attempt
     \<and> Run_Supervision run = None \<and> \<not> run_sink_terminal run
     \<and> task \<in> set (TasksForRun run (Records_Tasks records)) \<and> Task_ID task = Attempt_TaskID attempt
     \<and> automatic_retries (DeclaredTaskAttempts (Records_Attempts records)) (attempt_key attempt)
          < Retry_Infrastructure (EffectiveRetryPolicy task coordinatorMax)"

lemma decision_qualifies:
  assumes "decision \<in> set (automaticRetryDecisions records coordinatorMax)"
  shows "\<exists>run task. qualifies records coordinatorMax (Decision_attempt decision) run task
     \<and> Decision_policy decision = EffectiveRetryPolicy task coordinatorMax
     \<and> AR_SourceAttemptID (Decision_retry decision) = Attempt_ID (Decision_attempt decision)
     \<and> AR_CommandID (Decision_retry decision) = AutomaticRetryCommandID (Attempt_ID (Decision_attempt decision))
     \<and> AR_Class (Decision_retry decision) = FailureInfrastructure
     \<and> AR_Ordinal (Decision_retry decision)
         = automatic_retries (DeclaredTaskAttempts (Records_Attempts records)) (attempt_key (Decision_attempt decision)) + 1"
proof -
  let ?D = "DeclaredTaskAttempts (Records_Attempts records)"
  from assms obtain k a where ka: "(k, a) \<in> set (latest_by_task ?D)" "retry_decision records coordinatorMax (k, a) = Some decision"
    by (auto simp: automaticRetryDecisions_def map_filter_set split: if_splits)
  have a: "a \<in> set ?D" "attempt_key a = k" using latest_ok_all [of ?D] ka(1) by (auto simp: latest_ok_def)
  have max: "Attempt_Number b \<le> Attempt_Number a" if b: "b \<in> set ?D" "attempt_key b = k" for b
  proof -
    from latest_ok_all [of ?D] b obtain c where c: "(k, c) \<in> set (latest_by_task ?D)" "Attempt_Number b \<le> Attempt_Number c"
      by (auto simp: latest_ok_def)
    have "c = a" using latest_ok_all [of ?D] c(1) ka(1) eq_key_imp_eq_value unfolding latest_ok_def by metis
    with c show ?thesis by simp
  qed
  obtain run task c where
    run: "index_by Run_ID (Records_WorkflowRuns records) (fst k) = Some run" "Run_Supervision run = None" "\<not> run_sink_terminal run"
    and task: "index_by Task_ID (TasksForRun run (Records_Tasks records)) (snd k) = Some task"
    and c: "ClassifyAttemptFailure a = Some c" "FC_Class c = FailureInfrastructure" "Attempt_Progress a = ProgressFailed"
    and budget: "automatic_retries ?D k + 1 \<le> Retry_Infrastructure (EffectiveRetryPolicy task coordinatorMax)"
    and d: "decision = \<lparr>Decision_attempt = a, Decision_policy = EffectiveRetryPolicy task coordinatorMax,
       Decision_retry = \<lparr>AR_SourceAttemptID = Attempt_ID a, AR_Class = FC_Class c,
         AR_Code = FC_Code c, AR_Ordinal = automatic_retries ?D k + 1, AR_Budget = Retry_Infrastructure (EffectiveRetryPolicy task coordinatorMax),
         AR_NotBefore = 0, AR_CommandID = AutomaticRetryCommandID (Attempt_ID a)\<rparr>\<rparr>"
    using ka(2) by (auto simp: retry_decision_def Let_def Retryable_def split: if_splits option.splits)
  have "qualifies records coordinatorMax a run task"
    unfolding qualifies_def
    using a max c budget run index_by_SomeD [OF run(1)] index_by_SomeD [OF task]
    by (auto simp: DeclaredTaskAttempts_filter attempt_key_def)
  then show ?thesis using a c by (intro exI [of _ run] exI [of _ task]) (simp add: d)
qed

text \<open>C25. An automatic retry command is planned only for the latest attempt of a declared task
  that failed with an infrastructure failure, in an unsupervised run whose sink is open, when the
  task has had fewer automatic retries than both its budget and the ceiling of the coordinator
  allow; no command was ever submitted for that attempt by the coordinator and none of an
  operator is pending; the command is fenced on the revision of the attempt, and its receipt,
  which the executor reads back from it, delays the new attempt by the backoff.\<close>

theorem automatic_retry_within_budget:
  assumes "command \<in> set (Plan_Commands (PlanAutomaticRetries records coordinatorMax now))"
  shows "\<exists>attempt run task retry.
       qualifies records coordinatorMax attempt run task
     \<and> Command_TargetID command = Attempt_ID attempt \<and> Command_ExpectedRevision command = Attempt_Revision attempt
     \<and> (\<forall>old \<in> set (Records_AdminCommands records). Command_ID old \<noteq> Command_ID command)
     \<and> \<not> operatorRetryPending (Records_AdminCommands records) (Attempt_ID attempt)
     \<and> AutomaticRetryFromCommand command = Some retry
     \<and> AR_Ordinal retry = automatic_retries (DeclaredTaskAttempts (Records_Attempts records)) (attempt_key attempt) + 1
     \<and> AR_Ordinal retry \<le> coordinatorMax
     \<and> AR_Ordinal retry \<le> (case Task_Retry task of None \<Rightarrow> DefaultInfrastructureRetries | Some p \<Rightarrow> Retry_Infrastructure p)
     \<and> now \<le> AR_NotBefore retry
     \<and> time_add (case Attempt_CompletedAt attempt of Some t \<Rightarrow> t | None \<Rightarrow> Attempt_UpdatedAt attempt)
          (RetryDelay (EffectiveRetryPolicy task coordinatorMax) (AR_Ordinal retry)) \<le> AR_NotBefore retry"
proof -
  from assms obtain decision where d: "decision \<in> set (automaticRetryDecisions records coordinatorMax)"
    and p: "plan_retry records now decision = Some command"
    by (auto simp: PlanAutomaticRetries_def map_filter_set)
  obtain run task where q: "qualifies records coordinatorMax (Decision_attempt decision) run task"
    and pol: "Decision_policy decision = EffectiveRetryPolicy task coordinatorMax"
    and rec: "AR_SourceAttemptID (Decision_retry decision) = Attempt_ID (Decision_attempt decision)"
      "AR_CommandID (Decision_retry decision) = AutomaticRetryCommandID (Attempt_ID (Decision_attempt decision))"
    and ord: "AR_Ordinal (Decision_retry decision)
         = automatic_retries (DeclaredTaskAttempts (Records_Attempts records)) (attempt_key (Decision_attempt decision)) + 1"
    using decision_qualifies [OF d] by blast
  let ?retry = "(Decision_retry decision)\<lparr>AR_NotBefore := retry_not_before decision now\<rparr>"
  have fresh: "index_by Command_ID (Records_AdminCommands records) (AR_CommandID (Decision_retry decision)) = None"
    and op: "\<not> operatorRetryPending (Records_AdminCommands records) (Attempt_ID (Decision_attempt decision))"
    and cmd: "command = retry_command decision ?retry now"
    using p by (auto simp: plan_retry_def Let_def split: if_splits)
  have nonneg: "0 \<le> automatic_retries attempts k" for attempts k
    unfolding automatic_retries_def by (induction attempts rule: rev_induct) auto
  have "0 < coordinatorMax" using d by (auto simp: automaticRetryDecisions_def split: if_splits)
  moreover note EffectiveRetryPolicy_budget [of task coordinatorMax]
  ultimately have "AR_Ordinal ?retry \<le> coordinatorMax"
    "AR_Ordinal ?retry \<le> (case Task_Retry task of None \<Rightarrow> DefaultInfrastructureRetries | Some p \<Rightarrow> Retry_Infrastructure p)"
    using q ord by (auto simp: qualifies_def)
  moreover have "AutomaticRetryFromCommand command = Some ?retry"
    using rec ord by (simp add: not_less nonneg cmd AutomaticRetryFromCommand_def retry_command_def)
  moreover have "now \<le> AR_NotBefore ?retry" "time_add (case Attempt_CompletedAt (Decision_attempt decision) of Some t \<Rightarrow> t
      | None \<Rightarrow> Attempt_UpdatedAt (Decision_attempt decision))
      (RetryDelay (EffectiveRetryPolicy task coordinatorMax) (AR_Ordinal ?retry)) \<le> AR_NotBefore ?retry"
    by (simp_all add: retry_not_before_def Let_def pol)
  ultimately show ?thesis
    using q op fresh ord
    by (intro exI [of _ "Decision_attempt decision"] exI [of _ run] exI [of _ task] exI [of _ ?retry])
      (simp add: cmd retry_command_def index_by_None)
qed

text \<open>A run of one task whose first attempt could not be prepared.\<close>

definition retry_run :: WorkflowRun where
  "retry_run =
     \<lparr>Run_RouteSelections = [], Run_Graph = None, Run_ID = ''run'', Run_WorkflowID = ''wf'', Run_GraphRevision = 1,
      Run_Sink = None, Run_Supervision = None, Run_Progress = ProgressActive, Run_InputArtifactIDs = [],
      Run_Revision = 4, Run_CreatedAt = 1, Run_UpdatedAt = 2, Run_CompletedAt = None\<rparr>"

definition retry_sample :: CoordinatorRecords where
  "retry_sample =
     \<lparr>Records_WorkflowRuns = [retry_run],
      Records_Tasks = [zero_Task\<lparr>Task_ID := ''t'', Task_Name := ''t'', Task_WorkflowID := ''wf''\<rparr>],
      Records_Attempts = [zero_Attempt\<lparr>Attempt_ID := ''a1'', Attempt_WorkflowRunID := ''run'', Attempt_TaskID := ''t'',
        Attempt_Number := 1, Attempt_Progress := ProgressFailed, Attempt_Failure := ''preparation failed: disk'',
        Attempt_Revision := 7, Attempt_CompletedAt := Some 100\<rparr>],
      Records_Assignments = [], Records_AdminCommands = []\<rparr>"

lemma retry_sample_plan:
  "map Command_ID (Plan_Commands (PlanAutomaticRetries retry_sample 3 200)) = [''auto-retry-a1'']"
  by code_simp

theorem automatic_retry_within_budget_witness:
  "\<exists>command retry. command \<in> set (Plan_Commands (PlanAutomaticRetries retry_sample 3 200))
     \<and> AutomaticRetryFromCommand command = Some retry \<and> AR_Ordinal retry \<le> 3 \<and> 200 \<le> AR_NotBefore retry"
proof -
  let ?commands = "Plan_Commands (PlanAutomaticRetries retry_sample 3 200)"
  have "?commands \<noteq> []" using retry_sample_plan by (metis list.map_disc_iff neq_Nil_conv)
  then have "hd ?commands \<in> set ?commands" by simp
  with automatic_retry_within_budget [OF this] show ?thesis by blast
qed

end
