(* ===== verification/Rerun.thy ===== *)
theory Rerun
  imports Graph
begin

text \<open>
  Planning a rerun (\<open>internal/domain/rerun.go\<close>): a finished run is divided at one task into the
  part that is repeated, the task and its descendants, and the part whose results are reused.
  The code repeats its walk over the tasks until nothing new is selected; the walk ends because
  every repetition selects another task. On an error the code also returns the part of the scope
  it has filled, which its callers ignore; here an error is the left side of the sum.
\<close>

record RerunCommitOptions =
  Commit_FailedAttempts :: "(string \<times> string) list"

record RerunScope =
  Scope_From :: Task
  Scope_FromAttempt :: Attempt
  Scope_Rerun :: "Task list"
  Scope_Reuse :: "Task list"

definition taskNames :: "Task list \<Rightarrow> string list" where
  "taskNames tasks = map Task_Name tasks"

definition ErrRerunSourceLive :: go_text where
  "ErrRerunSourceLive = Sprintf (''the source run has not finished; a rerun scope read origin_name a live run would be a guess. '' @
     ''Wait for it, or cancel it with \"t3-steward campaign cancel <run>/<task> --reason TEXT\"'') []"

definition reusableState :: "Attempt \<Rightarrow> string" where
  "reusableState attempt =
     (if Attempt_Progress attempt = ProgressEmpty then ''never attempted'' else ProgressState_text (Attempt_Progress attempt))"

definition lastAttempts :: "WorkflowRun \<Rightarrow> Attempt list \<Rightarrow> (string \<rightharpoonup> Attempt)" where
  "lastAttempts run attempts = latest_attempts (filter (\<lambda>a. Attempt_WorkflowRunID a = Run_ID run) attempts)"

definition last_attempt :: "WorkflowRun \<Rightarrow> Attempt list \<Rightarrow> string \<Rightarrow> Attempt" where
  "last_attempt run attempts taskID = (case lastAttempts run attempts taskID of Some a \<Rightarrow> a | None \<Rightarrow> zero_Attempt)"

text \<open>The search for the task to start from: \<open>Some (Some i)\<close> is a single match, \<open>Some None\<close> no match and
  \<open>None\<close> the refusal of a second one.\<close>

fun find_start :: "string \<Rightarrow> nat \<Rightarrow> nat option \<Rightarrow> Task list \<Rightarrow> nat option option" where
  "find_start origin_name index start [] = Some start"
| "find_start origin_name index start (task # tasks) =
     (if Task_ID task = origin_name \<or> Task_Name task = origin_name
      then (if start \<noteq> None then None else find_start origin_name (Suc index) (Some index) tasks)
      else find_start origin_name (Suc index) start tasks)"

text \<open>One walk over the tasks, and the walks repeated while one of them selected something.\<close>

definition select_task :: "Task \<Rightarrow> string list \<times> bool \<Rightarrow> string list \<times> bool" where
  "select_task task st =
     (let (selected, changed) = st in
      if Task_Name task \<in> set selected then (selected, changed)
      else if list_ex (\<lambda>need. need \<in> set selected) (Task_Needs task) then (Task_Name task # selected, True)
      else (selected, changed))"

definition select_pass :: "Task list \<Rightarrow> string list \<Rightarrow> string list \<times> bool" where
  "select_pass tasks selected = fold select_task tasks (selected, False)"

lemma select_fold_mono:
  "set (fst st) \<subseteq> set (fst (fold select_task tasks st)) \<and> (snd st \<longrightarrow> snd (fold select_task tasks st))"
proof (induction tasks arbitrary: st)
  case (Cons task tasks)
  obtain s c where st: "st = (s, c)" by (cases st)
  show ?case using Cons [of "select_task task st"] by (auto simp: select_task_def st Let_def split: if_splits)
qed simp

text \<open>A walk that reports a change has selected the name of another task.\<close>

lemma select_fold_changed:
  "snd (fold select_task tasks (s, c)) \<Longrightarrow> \<not> c \<Longrightarrow>
     \<exists>task \<in> set tasks. Task_Name task \<notin> set s \<and> Task_Name task \<in> set (fst (fold select_task tasks (s, c)))"
proof (induction tasks arbitrary: s)
  case (Cons task tasks)
  show ?case
  proof (cases "Task_Name task \<notin> set s \<and> list_ex (\<lambda>need. need \<in> set s) (Task_Needs task)")
    case True
    then have step: "select_task task (s, c) = (Task_Name task # s, True)" by (simp add: select_task_def)
    have "Task_Name task \<in> set (fst (fold select_task tasks (Task_Name task # s, True)))"
      using select_fold_mono [of "(Task_Name task # s, True)" tasks] by auto
    with True step show ?thesis by auto
  next
    case False
    then have "select_task task (s, c) = (s, c)" by (auto simp: select_task_def)
    with Cons show ?thesis by simp
  qed
qed simp

function select_loop :: "Task list \<Rightarrow> string list \<Rightarrow> string list" where
  "select_loop tasks selected =
     (if snd (select_pass tasks selected) then select_loop tasks (fst (select_pass tasks selected))
      else fst (select_pass tasks selected))"
  by pat_completeness auto
termination
proof (relation "measure (\<lambda>(tasks :: Task list, selected). card (Task_Name ` set tasks - set selected))", simp)
  fix tasks :: "Task list" and selected
  assume c: "snd (select_pass tasks selected)"
  let ?s = "fst (select_pass tasks selected)"
  obtain task where "task \<in> set tasks" "Task_Name task \<notin> set selected" "Task_Name task \<in> set ?s"
    using select_fold_changed [of tasks selected False] c by (auto simp: select_pass_def)
  moreover have "set selected \<subseteq> set ?s" using select_fold_mono [of "(selected, False)" tasks] by (simp add: select_pass_def)
  ultimately have "Task_Name ` set tasks - set ?s \<subset> Task_Name ` set tasks - set selected" by blast
  then show "((tasks, ?s), (tasks, selected)) \<in> measure (\<lambda>(tasks :: Task list, selected). card (Task_Name ` set tasks - set selected))"
    by (simp add: psubset_card_mono)
qed

declare select_loop.simps [simp del]

definition commit_reuse :: "RerunCommitOptions list \<Rightarrow> Task \<Rightarrow> Attempt \<Rightarrow> bool" where
  "commit_reuse commitOptions task attempt \<longleftrightarrow>
     (case commitOptions of
        [option] \<Rightarrow> Attempt_Progress attempt = ProgressFailed \<and> Attempt_ID attempt \<noteq> ''''
          \<and> go_lookup '''' (Commit_FailedAttempts option) (Task_ID task) = Attempt_ID attempt
      | _ \<Rightarrow> False)"

definition reusable :: "WorkflowRun \<Rightarrow> Attempt list \<Rightarrow> RerunCommitOptions list \<Rightarrow> Task \<Rightarrow> bool" where
  "reusable run attempts commitOptions task \<longleftrightarrow>
     (let attempt = last_attempt run attempts (Task_ID task)
      in Attempt_Progress attempt = ProgressSucceeded \<or> commit_reuse commitOptions task attempt)"

fun divide_tasks ::
  "WorkflowRun \<Rightarrow> Attempt list \<Rightarrow> RerunCommitOptions list \<Rightarrow> string list \<Rightarrow> Task list \<Rightarrow> Task list \<times> Task list \<times> string list" where
  "divide_tasks run attempts commitOptions selected [] = ([], [], [])"
| "divide_tasks run attempts commitOptions selected (task # tasks) =
     (let (rerun, reuse, unusable) = divide_tasks run attempts commitOptions selected tasks in
      if Task_Name task \<in> set selected then (task # rerun, reuse, unusable)
      else if \<not> reusable run attempts commitOptions task
      then (rerun, reuse, (Task_Name task @ '' is '' @ reusableState (last_attempt run attempts (Task_ID task))) # unusable)
      else (rerun, task # reuse, unusable))"

definition PlanRerun ::
  "WorkflowRun \<Rightarrow> Task list \<Rightarrow> Attempt list \<Rightarrow> string \<Rightarrow> RerunCommitOptions list \<Rightarrow> go_text + RerunScope" where
  "PlanRerun run templates attempts origin_name commitOptions =
     (if origin_name = '''' then Inl (Sprintf ''a rerun needs the task to start from'' [])
      else if \<not> Terminal (Run_Progress run) then Inl ErrRerunSourceLive
      else
        let tasks = TasksForRun run templates in
        if tasks = [] then Inl (Sprintf ''workflow run %s has no task definitions to rerun'' [StrArg (Run_ID run)])
        else (case find_start origin_name 0 None tasks of
          None \<Rightarrow> Inl (Sprintf ''%q names more than one task in run %s'' [StrArg origin_name, StrArg (Run_ID run)])
        | Some None \<Rightarrow> Inl (Sprintf ''run %s has no task %q'' [StrArg (Run_ID run), StrArg origin_name])
        | Some (Some start) \<Rightarrow>
            let fromTask = tasks ! start;
                selected = select_loop tasks [Task_Name fromTask];
                (rerun, reuse, unusable) = divide_tasks run attempts commitOptions selected tasks
            in if unusable \<noteq> []
               then Inl (Sprintf (''a rerun from %s would reuse %d task(s) that did not succeed: %v. '' @
                           ''Rerun from a task they all descend from instead'')
                      ([StrArg (Task_Name fromTask), IntArg (int (length unusable))] @ map StrArg (sort_strings unusable)))
               else Inr \<lparr>Scope_From = fromTask,
                      Scope_FromAttempt = last_attempt run attempts (Task_ID fromTask),
                      Scope_Rerun = rerun, Scope_Reuse = reuse\<rparr>))"

section \<open>The selection is the set of descendants\<close>

text \<open>The tasks that reach the named one through their needs.\<close>

inductive descends :: "Task list \<Rightarrow> string \<Rightarrow> string \<Rightarrow> bool" for tasks :: "Task list" and origin_name :: string where
  origin: "descends tasks origin_name origin_name"
| needs: "task \<in> set tasks \<Longrightarrow> need \<in> set (Task_Needs task) \<Longrightarrow> descends tasks origin_name need
    \<Longrightarrow> descends tasks origin_name (Task_Name task)"

inductive_cases descends_elim: "descends tasks origin_name n"

lemma select_fold_sound:
  "set tasks' \<subseteq> set tasks \<Longrightarrow> (\<forall>n \<in> set (fst st). descends tasks origin_name n)
     \<Longrightarrow> (\<forall>n \<in> set (fst (fold select_task tasks' st)). descends tasks origin_name n)"
proof (induction tasks' arbitrary: st)
  case (Cons task tasks')
  obtain s c where st: "st = (s, c)" by (cases st)
  have "\<forall>n \<in> set (fst (select_task task st)). descends tasks origin_name n"
    using Cons.prems by (auto simp: st select_task_def Let_def list_ex_eq intro: descends.needs split: if_splits)
  with Cons show ?case by simp
qed simp

text \<open>A walk without a change leaves nothing to select.\<close>

lemma select_fold_stable:
  "\<not> snd (fold select_task tasks (s, False)) \<Longrightarrow>
     fold select_task tasks (s, False) = (s, False)
     \<and> (\<forall>task \<in> set tasks. (\<exists>need \<in> set (Task_Needs task). need \<in> set s) \<longrightarrow> Task_Name task \<in> set s)"
proof (induction tasks)
  case (Cons task tasks)
  have "\<not> snd (select_task task (s, False))"
    using Cons.prems select_fold_mono [of "select_task task (s, False)" tasks] by auto
  then have "select_task task (s, False) = (s, False)"
    and "(\<exists>need \<in> set (Task_Needs task). need \<in> set s) \<longrightarrow> Task_Name task \<in> set s"
    by (auto simp: select_task_def list_ex_eq split: if_splits)
  with Cons show ?case by simp
qed simp

lemma select_loop_sound:
  "(\<forall>n \<in> set s. descends tasks origin_name n) \<Longrightarrow> (\<forall>n \<in> set (select_loop tasks s). descends tasks origin_name n)"
proof (induction tasks s rule: select_loop.induct)
  case (1 tasks s)
  have "\<forall>n \<in> set (fst (select_pass tasks s)). descends tasks origin_name n"
    using select_fold_sound [of tasks tasks "(s, False)" origin_name] "1.prems" by (simp add: select_pass_def)
  with 1 show ?case by (simp add: select_loop.simps [of tasks s])
qed

lemma select_loop_closed:
  "set s \<subseteq> set (select_loop tasks s)
   \<and> (\<forall>task \<in> set tasks. (\<exists>need \<in> set (Task_Needs task). need \<in> set (select_loop tasks s))
        \<longrightarrow> Task_Name task \<in> set (select_loop tasks s))"
proof (induction tasks s rule: select_loop.induct)
  case (1 tasks s)
  show ?case
  proof (cases "snd (select_pass tasks s)")
    case True
    moreover have "set s \<subseteq> set (fst (select_pass tasks s))"
      using select_fold_mono [of "(s, False)" tasks] by (simp add: select_pass_def)
    ultimately show ?thesis using 1 by (auto simp: select_loop.simps [of tasks s])
  next
    case False
    then show ?thesis
      using select_fold_stable [of tasks s] by (simp add: select_loop.simps [of tasks s] select_pass_def)
  qed
qed

lemma select_loop_exact: "n \<in> set (select_loop tasks [origin_name]) \<longleftrightarrow> descends tasks origin_name n"
proof
  show "n \<in> set (select_loop tasks [origin_name]) \<Longrightarrow> descends tasks origin_name n"
    using select_loop_sound [of "[origin_name]" tasks origin_name] by (simp add: descends.origin)
  show "descends tasks origin_name n \<Longrightarrow> n \<in> set (select_loop tasks [origin_name])"
    by (induction rule: descends.induct) (use select_loop_closed [of "[origin_name]" tasks] in auto)
qed

lemma divide_tasks_exact:
  "divide_tasks run attempts commitOptions selected tasks = (rerun, reuse, unusable) \<Longrightarrow>
     rerun = filter (\<lambda>t. Task_Name t \<in> set selected) tasks
     \<and> reuse = filter (\<lambda>t. Task_Name t \<notin> set selected \<and> reusable run attempts commitOptions t) tasks
     \<and> (unusable = [] \<longleftrightarrow> (\<forall>t \<in> set tasks. Task_Name t \<notin> set selected \<longrightarrow> reusable run attempts commitOptions t))"
  by (induction tasks arbitrary: rerun reuse unusable) (auto simp: Let_def split: prod.splits if_splits)

lemma find_start_exact:
  "find_start origin_name k (Some j) tasks = (if \<exists>t \<in> set tasks. Task_ID t = origin_name \<or> Task_Name t = origin_name then None else Some (Some j))"
  by (induction tasks arbitrary: k) auto

lemma bex_nth: "(\<exists>t \<in> set xs. P t) \<longleftrightarrow> (\<exists>i < length xs. P (xs ! i))"
  by (metis in_set_conv_nth)

lemma find_start_None:
  "find_start origin_name k None tasks =
     (case filter (\<lambda>i. Task_ID (tasks ! i) = origin_name \<or> Task_Name (tasks ! i) = origin_name) [0..<length tasks] of
        [] \<Rightarrow> Some None | [i] \<Rightarrow> Some (Some (k + i)) | _ \<Rightarrow> None)"
proof (induction tasks arbitrary: k)
  case (Cons task tasks)
  let ?P = "\<lambda>ts i. Task_ID (ts ! i) = origin_name \<or> Task_Name (ts ! i) = origin_name"
  have split: "filter (?P (task # tasks)) [0..<length (task # tasks)]
      = (if ?P (task # tasks) 0 then [0] else []) @ map Suc (filter (?P tasks) [0..<length tasks])"
    by (simp add: upt_conv_Cons filter_map comp_def map_Suc_upt [symmetric] del: upt_Suc)
  have ex: "(\<exists>t \<in> set tasks. Task_ID t = origin_name \<or> Task_Name t = origin_name) \<longleftrightarrow> filter (?P tasks) [0..<length tasks] \<noteq> []"
    using bex_nth [of tasks "\<lambda>t. Task_ID t = origin_name \<or> Task_Name t = origin_name"] by (auto simp: filter_empty_conv)
  show ?case
    unfolding split using Cons [of "Suc k"] ex by (auto simp: find_start_exact split: list.splits)
qed simp

lemma find_start_unique:
  "find_start name 0 None tasks = Some (Some i) \<longleftrightarrow>
     i < length tasks \<and> (\<forall>j < length tasks. (Task_ID (tasks ! j) = name \<or> Task_Name (tasks ! j) = name) \<longleftrightarrow> j = i)"
proof -
  let ?P = "\<lambda>i. Task_ID (tasks ! i) = name \<or> Task_Name (tasks ! i) = name"
  let ?f = "filter ?P [0..<length tasks]"
  have "find_start name 0 None tasks = Some (Some i) \<longleftrightarrow> ?f = [i]"
    by (simp add: find_start_None split: list.split)
  also have "\<dots> \<longleftrightarrow> i < length tasks \<and> (\<forall>j < length tasks. ?P j \<longleftrightarrow> j = i)"
  proof
    assume f: "?f = [i]"
    have "j \<in> set ?f \<longleftrightarrow> j = i" for j unfolding f by simp
    then show "i < length tasks \<and> (\<forall>j < length tasks. ?P j \<longleftrightarrow> j = i)" by auto
  next
    assume r: "i < length tasks \<and> (\<forall>j < length tasks. ?P j \<longleftrightarrow> j = i)"
    then have "?f = filter (\<lambda>j. j = i) [0..<length tasks]" by (intro filter_cong) auto
    also have "\<dots> = [i]"
      using r by (intro sorted_distinct_set_unique) (auto intro: sorted_wrt_filter)
    finally show "?f = [i]" .
  qed
  finally show ?thesis .
qed

lemma divide_descendants:
  assumes "divide_tasks run attempts commitOptions (select_loop tasks [n]) tasks = (rerun, reuse, unusable)"
  shows "unusable = [] \<longleftrightarrow> (\<forall>t \<in> set tasks. \<not> descends tasks n (Task_Name t) \<longrightarrow> reusable run attempts commitOptions t)"
    and "unusable = [] \<Longrightarrow> rerun = filter (\<lambda>t. descends tasks n (Task_Name t)) tasks
           \<and> reuse = filter (\<lambda>t. \<not> descends tasks n (Task_Name t)) tasks"
  using divide_tasks_exact [OF assms] by (auto simp: select_loop_exact intro!: filter_cong)

lemma PlanRerun_iff:
  "PlanRerun run templates attempts name commitOptions = Inr scope \<longleftrightarrow>
     name \<noteq> '''' \<and> Terminal (Run_Progress run)
     \<and> (let tasks = TasksForRun run templates in
         \<exists>i < length tasks.
           (\<forall>j < length tasks. (Task_ID (tasks ! j) = name \<or> Task_Name (tasks ! j) = name) \<longleftrightarrow> j = i)
           \<and> (\<forall>t \<in> set tasks. \<not> descends tasks (Task_Name (tasks ! i)) (Task_Name t) \<longrightarrow> reusable run attempts commitOptions t)
           \<and> scope = \<lparr>Scope_From = tasks ! i, Scope_FromAttempt = last_attempt run attempts (Task_ID (tasks ! i)),
               Scope_Rerun = filter (\<lambda>t. descends tasks (Task_Name (tasks ! i)) (Task_Name t)) tasks,
               Scope_Reuse = filter (\<lambda>t. \<not> descends tasks (Task_Name (tasks ! i)) (Task_Name t)) tasks\<rparr>)"
proof -
  let ?tasks = "TasksForRun run templates"
  let ?scope = "\<lambda>i rerun reuse. \<lparr>Scope_From = ?tasks ! i, Scope_FromAttempt = last_attempt run attempts (Task_ID (?tasks ! i)),
     Scope_Rerun = rerun, Scope_Reuse = reuse\<rparr>"
  have divide: "(\<exists>rerun reuse. divide_tasks run attempts commitOptions (select_loop ?tasks [n]) ?tasks = (rerun, reuse, []) \<and> scope = S rerun reuse)
      \<longleftrightarrow> (\<forall>t \<in> set ?tasks. \<not> descends ?tasks n (Task_Name t) \<longrightarrow> reusable run attempts commitOptions t)
          \<and> scope = S (filter (\<lambda>t. descends ?tasks n (Task_Name t)) ?tasks) (filter (\<lambda>t. \<not> descends ?tasks n (Task_Name t)) ?tasks)"
    for n and S :: "Task list \<Rightarrow> Task list \<Rightarrow> RerunScope"
  proof -
    obtain rerun reuse unusable where d: "divide_tasks run attempts commitOptions (select_loop ?tasks [n]) ?tasks = (rerun, reuse, unusable)"
      by (metis prod_cases3)
    show ?thesis using divide_descendants [OF d] d by auto
  qed
  show ?thesis
  proof (cases "name = '''' \<or> \<not> Terminal (Run_Progress run) \<or> ?tasks = []")
    case True
    then show ?thesis by (auto simp: PlanRerun_def Let_def)
  next
    case False
    have "PlanRerun run templates attempts name commitOptions = Inr scope \<longleftrightarrow>
      (\<exists>i. find_start name 0 None ?tasks = Some (Some i)
         \<and> (\<exists>rerun reuse. divide_tasks run attempts commitOptions (select_loop ?tasks [Task_Name (?tasks ! i)]) ?tasks = (rerun, reuse, [])
              \<and> scope = ?scope i rerun reuse))"
      using False by (auto simp: PlanRerun_def Let_def split: option.splits prod.splits)
    then show ?thesis
      using False unfolding find_start_unique divide Let_def by auto
  qed
qed

section \<open>Properties\<close>

text \<open>C27. Planning a rerun always returns, and it succeeds exactly when the run is over, the name
  matches one of its tasks and every task that does not descend from that task has a successful
  last attempt (or a failed one whose commit the caller authorised): the tasks that are run again
  are exactly the named task and the tasks that reach it through their needs, in the order of
  the run, and all the others are reused.\<close>

theorem rerun_scope_exact:
  "PlanRerun run templates attempts name commitOptions = Inr scope \<longleftrightarrow>
     name \<noteq> '''' \<and> Terminal (Run_Progress run)
     \<and> (let tasks = TasksForRun run templates in
         \<exists>i < length tasks.
           (\<forall>j < length tasks. (Task_ID (tasks ! j) = name \<or> Task_Name (tasks ! j) = name) \<longleftrightarrow> j = i)
           \<and> (\<forall>t \<in> set tasks. \<not> descends tasks (Task_Name (tasks ! i)) (Task_Name t) \<longrightarrow> reusable run attempts commitOptions t)
           \<and> scope = \<lparr>Scope_From = tasks ! i, Scope_FromAttempt = last_attempt run attempts (Task_ID (tasks ! i)),
               Scope_Rerun = filter (\<lambda>t. descends tasks (Task_Name (tasks ! i)) (Task_Name t)) tasks,
               Scope_Reuse = filter (\<lambda>t. \<not> descends tasks (Task_Name (tasks ! i)) (Task_Name t)) tasks\<rparr>)"
  by (rule PlanRerun_iff)

text \<open>In a planned rerun the named task is run again, every task of the run is either run
  again or reused, and a reused task has a usable last attempt and needs no task that is run
  again, so nothing that is reused can have been computed from what is about to change.\<close>

theorem rerun_reuses_only_settled_work:
  assumes "PlanRerun run templates attempts name commitOptions = Inr scope"
  shows "Scope_From scope \<in> set (Scope_Rerun scope)
     \<and> set (Scope_Rerun scope) \<union> set (Scope_Reuse scope) = set (TasksForRun run templates)
     \<and> (\<forall>t \<in> set (Scope_Reuse scope). reusable run attempts commitOptions t
          \<and> (\<forall>r \<in> set (Scope_Rerun scope). Task_Name r \<notin> set (Task_Needs t)))"
proof -
  let ?tasks = "TasksForRun run templates"
  from assms [unfolded PlanRerun_iff Let_def] obtain i where i: "i < length ?tasks"
    and usable: "\<forall>t \<in> set ?tasks. \<not> descends ?tasks (Task_Name (?tasks ! i)) (Task_Name t) \<longrightarrow> reusable run attempts commitOptions t"
    and scope: "scope = \<lparr>Scope_From = ?tasks ! i, Scope_FromAttempt = last_attempt run attempts (Task_ID (?tasks ! i)),
               Scope_Rerun = filter (\<lambda>t. descends ?tasks (Task_Name (?tasks ! i)) (Task_Name t)) ?tasks,
               Scope_Reuse = filter (\<lambda>t. \<not> descends ?tasks (Task_Name (?tasks ! i)) (Task_Name t)) ?tasks\<rparr>"
    by blast
  show ?thesis
    using i usable by (auto simp: scope intro: descends.intros)
qed

definition rerun_task :: "string \<Rightarrow> string list \<Rightarrow> Task" where
  "rerun_task name needs = zero_Task\<lparr>Task_ID := name, Task_Name := name, Task_WorkflowID := ''wf'', Task_Needs := needs\<rparr>"

definition rerun_attempt :: "string \<Rightarrow> ProgressState \<Rightarrow> Attempt" where
  "rerun_attempt task p = zero_Attempt\<lparr>Attempt_ID := task @ ''1'', Attempt_WorkflowRunID := ''run'', Attempt_TaskID := task,
     Attempt_Number := 1, Attempt_Progress := p\<rparr>"

definition rerun_run :: WorkflowRun where
  "rerun_run =
     \<lparr>Run_RouteSelections = [], Run_Graph = None, Run_ID = ''run'', Run_WorkflowID = ''wf'', Run_GraphRevision = 1,
      Run_Sink = None, Run_Supervision = None, Run_Progress = ProgressFailed, Run_InputArtifactIDs = [],
      Run_Revision = 4, Run_CreatedAt = 1, Run_UpdatedAt = 2, Run_CompletedAt = None\<rparr>"

definition rerun_tasks :: "Task list" where
  "rerun_tasks = [rerun_task ''deploy'' [''test''], rerun_task ''plan'' [], rerun_task ''test'' [''build''], rerun_task ''build'' [''plan'']]"

definition rerun_attempts :: "Attempt list" where
  "rerun_attempts = [rerun_attempt ''plan'' ProgressSucceeded, rerun_attempt ''build'' ProgressFailed,
     rerun_attempt ''test'' ProgressSkipped, rerun_attempt ''deploy'' ProgressSkipped]"

definition rerun_names :: "go_text + RerunScope \<Rightarrow> (string list \<times> string list) option" where
  "rerun_names r = (case r of Inl _ \<Rightarrow> None | Inr scope \<Rightarrow> Some (taskNames (Scope_Rerun scope), taskNames (Scope_Reuse scope)))"

lemma rerun_example:
  "rerun_names (PlanRerun rerun_run rerun_tasks rerun_attempts ''build'' []) = Some ([''deploy'', ''test'', ''build''], [''plan''])"
  by code_simp

lemma rerun_example_Inr: "\<exists>scope. PlanRerun rerun_run rerun_tasks rerun_attempts ''build'' [] = Inr scope"
  using rerun_example by (cases "PlanRerun rerun_run rerun_tasks rerun_attempts ''build'' []") (auto simp: rerun_names_def)

theorem rerun_scope_exact_witness:
  "(\<exists>scope. PlanRerun rerun_run rerun_tasks rerun_attempts ''build'' [] = Inr scope) \<and> Terminal (Run_Progress rerun_run)"
  using rerun_example_Inr rerun_scope_exact [of rerun_run rerun_tasks rerun_attempts "''build''" "[]"] by blast

theorem rerun_reuses_only_settled_work_witness:
  "\<exists>scope. PlanRerun rerun_run rerun_tasks rerun_attempts ''build'' [] = Inr scope \<and> Scope_From scope \<in> set (Scope_Rerun scope)"
  using rerun_example_Inr rerun_reuses_only_settled_work [of rerun_run rerun_tasks rerun_attempts "''build''" "[]"] by blast

end
