(* ===== verification/NodeProperties.thy ===== *)
theory NodeProperties
  imports DagProperties
begin

text \<open>
  What the nodes of other runs guarantee: references survive the trip through text, a node counts
  as succeeded only when its execution is over for good, and a task that waits for such nodes is
  released only when all of them have succeeded.
\<close>

section \<open>References\<close>

lemma cut_at_eq: "cut_at d s = Some (a, b) \<longleftrightarrow> s = a @ d # b \<and> d \<notin> set a"
proof (induction s arbitrary: a)
  case (Cons c s)
  then show ?case by (cases a) (auto split: option.splits)
qed simp

lemma cut_unique: "a @ (d :: char) # b = a' @ d # b' \<Longrightarrow> d \<notin> set a \<Longrightarrow> d \<notin> set a' \<Longrightarrow> a = a' \<and> b = b'"
  using cut_at_eq [of d "a @ d # b" a b] cut_at_eq [of d "a @ d # b" a' b'] by auto

lemma valid_component_facts: "ValidateStorageComponent s = None \<Longrightarrow> s \<noteq> '''' \<and> CHR ''/'' \<notin> set s"
  by (auto simp: ValidateStorageComponent_def split: if_splits)

lemma ParseNodeRef_Inr:
  "ParseNodeRef text = Inr ref \<longleftrightarrow>
     NodeRef_String ref = text \<and> ValidateStorageComponent (NodeRef_RunID ref) = None \<and> NodeRef_TaskID ref \<noteq> ''''
     \<and> CHR ''/'' \<notin> set (NodeRef_TaskID ref) \<and> \<not> ContainsControl (NodeRef_TaskID ref)"
proof (cases "cut_at CHR ''/'' text")
  case None
  have "NodeRef_String ref \<noteq> text" if "ValidateStorageComponent (NodeRef_RunID ref) = None"
  proof
    assume "NodeRef_String ref = text"
    then have "cut_at CHR ''/'' text = Some (NodeRef_RunID ref, NodeRef_TaskID ref)"
      using valid_component_facts [OF that] by (auto simp: cut_at_eq NodeRef_String_def)
    with None show False by simp
  qed
  with None show ?thesis by (auto simp: ParseNodeRef_def)
next
  case (Some p)
  obtain run task where p: "p = (run, task)" by (cases p)
  with Some have at_slash: "text = run @ CHR ''/'' # task" "CHR ''/'' \<notin> set run" by (simp_all add: cut_at_eq)
  have parts: "NodeRef_String ref = text \<and> ValidateStorageComponent (NodeRef_RunID ref) = None \<longleftrightarrow>
      NodeRef_RunID ref = run \<and> NodeRef_TaskID ref = task \<and> ValidateStorageComponent run = None"
    using at_slash valid_component_facts [of "NodeRef_RunID ref"]
      cut_unique [of "NodeRef_RunID ref" "CHR ''/''" "NodeRef_TaskID ref" run task]
    by (auto simp: NodeRef_String_def)
  have "ref = \<lparr>NodeRef_RunID = run, NodeRef_TaskID = task\<rparr> \<longleftrightarrow> NodeRef_RunID ref = run \<and> NodeRef_TaskID ref = task"
    by (cases ref) auto
  then show ?thesis
    using Some p parts valid_component_facts [of run]
    by (auto simp: ParseNodeRef_def split: option.splits)
qed

text \<open>
  C23. Parsing a node reference and printing it are inverse: a parsed reference prints as the
  text it came from, and the text of a reference is parsed back to it exactly when the run is a
  valid storage component and the task a non-empty name without a slash or control character.
\<close>

theorem node_ref_roundtrip:
  "(ParseNodeRef text = Inr ref \<longrightarrow> NodeRef_String ref = text)
   \<and> (ParseNodeRef (NodeRef_String ref) = Inr ref \<longleftrightarrow>
        ValidateStorageComponent (NodeRef_RunID ref) = None \<and> NodeRef_TaskID ref \<noteq> ''''
        \<and> CHR ''/'' \<notin> set (NodeRef_TaskID ref) \<and> \<not> ContainsControl (NodeRef_TaskID ref))"
  by (simp add: ParseNodeRef_Inr)

theorem node_ref_roundtrip_witness:
  "\<exists>ref. ParseNodeRef ''run-1/build'' = Inr ref \<and> NodeRef_String ref = ''run-1/build''
     \<and> NodeRef_RunID ref = ''run-1'' \<and> NodeRef_TaskID ref = ''build''"
proof -
  have "ParseNodeRef ''run-1/build'' = Inr \<lparr>NodeRef_RunID = ''run-1'', NodeRef_TaskID = ''build''\<rparr>" by code_simp
  with node_ref_roundtrip show ?thesis by auto
qed

section \<open>Observations\<close>

lemma latest_of_snoc:
  "latest_of (as @ [a]) = (case latest_of as of None \<Rightarrow> Some a
     | Some b \<Rightarrow> if Attempt_Number a > Attempt_Number b then Some a else Some b)"
  by (simp add: latest_of_def)

lemma latest_of_None: "latest_of as = None \<longleftrightarrow> as = []"
  by (induction as rule: rev_induct) (auto simp: latest_of_snoc split: option.split, simp add: latest_of_def)

lemma latest_of_Some:
  "latest_of as = Some a \<Longrightarrow> a \<in> set as \<and> (\<forall>b \<in> set as. Attempt_Number b \<le> Attempt_Number a)"
proof (induction as arbitrary: a rule: rev_induct)
  case (snoc b as)
  show ?case
  proof (cases "latest_of as")
    case None
    with snoc.prems show ?thesis by (simp add: latest_of_snoc latest_of_None)
  next
    case (Some c)
    with snoc.IH [of c] snoc.prems show ?thesis by (force simp: latest_of_snoc split: if_splits)
  qed
qed (simp add: latest_of_def)

lemma node_over_sel [simp]:
  "Observation_ExitCode (node_over rt out) = (if Observation_Progress out = ProgressSucceeded then 0 else 2)"
  "Observation_Progress (node_over rt out) = Observation_Progress out"
  by (simp_all add: node_over_def Let_def split: option.split)

lemma observe_sel [simp]: "Observation_ExitCode (observe ref c r) = c"
  by (simp add: observe_def)

text \<open>A node is over when its sink is final, or the latest attempt of its task has ended and no execution
  of the task is left.\<close>

definition node_task_over :: "WorkflowRun \<Rightarrow> Task \<Rightarrow> Attempt list \<Rightarrow> Assignment list \<Rightarrow> ProgressState \<Rightarrow> bool" where
  "node_task_over run task attempts assignments p \<longleftrightarrow>
     (\<exists>a \<in> set attempts. Attempt_WorkflowRunID a = Run_ID run \<and> Attempt_TaskID a = Task_ID task \<and> Attempt_Progress a = p \<and> Terminal p
        \<and> (\<forall>b \<in> set attempts. Attempt_WorkflowRunID b = Run_ID run \<and> Attempt_TaskID b = Task_ID task \<longrightarrow> Attempt_Number b \<le> Attempt_Number a))
     \<and> RunExecutionsQuiescent (Run_ID run) (node_attempts run task attempts) assignments"

lemma observe_task_over:
  assumes "Observation_ExitCode (observe_task rt run task attempts assignments out) \<noteq> Observation_ExitCode out"
  shows "\<exists>p. node_task_over run task attempts assignments p
     \<and> (Observation_ExitCode (observe_task rt run task attempts assignments out) = 0 \<longleftrightarrow> p = ProgressSucceeded \<and> Run_Progress run \<noteq> ProgressCancelled)"
proof -
  obtain a where a: "latest_of (node_attempts run task attempts) = Some a" "Terminal (Attempt_Progress a)"
    "RunExecutionsQuiescent (Run_ID run) (node_attempts run task attempts) assignments"
    using assms by (auto simp: observe_task_def Let_def split: option.splits if_splits)
  from latest_of_Some [OF a(1)] a(2,3) have "node_task_over run task attempts assignments (Attempt_Progress a)"
    by (auto simp: node_task_over_def node_attempts_def)
  moreover have "Observation_ExitCode (observe_task rt run task attempts assignments out) = 0
      \<longleftrightarrow> Attempt_Progress a = ProgressSucceeded \<and> Run_Progress run \<noteq> ProgressCancelled"
    using a by (auto simp: observe_task_def Let_def)
  ultimately show ?thesis by blast
qed

lemma node_task_in: "node_task ref run tasks = Some t \<Longrightarrow> t \<in> set (TasksForRun run tasks)
   \<and> (Task_ID t = NodeRef_TaskID ref \<or> Task_Name t = NodeRef_TaskID ref)"
  unfolding node_task_def by (auto dest: find_SomeD)

definition node_succeeded :: "NodeRef \<Rightarrow> WorkflowRun list \<Rightarrow> Task list \<Rightarrow> Attempt list \<Rightarrow> Assignment list \<Rightarrow> bool" where
  "node_succeeded ref runs tasks attempts assignments \<longleftrightarrow>
     (\<exists>run \<in> set runs. Run_ID run = NodeRef_RunID ref \<and> Run_Progress run \<noteq> ProgressCancelled
        \<and> ((\<exists>sink. Run_Sink run = Some sink \<and> Sink_Progress sink = ProgressSucceeded)
           \<or> (\<exists>task \<in> set (TasksForRun run tasks). (Task_ID task = NodeRef_TaskID ref \<or> Task_Name task = NodeRef_TaskID ref)
                \<and> node_task_over run task attempts assignments ProgressSucceeded)))"

lemma external_success:
  assumes "Observation_ExitCode (resolve_external rt runs tasks attempts assignments ref) = 0"
  shows "node_succeeded ref runs tasks attempts assignments"
proof -
  obtain run where run: "find (\<lambda>run. Run_ID run = NodeRef_RunID ref) runs = Some run"
    using assms by (cases "find (\<lambda>run. Run_ID run = NodeRef_RunID ref) runs") (auto simp: resolve_external_def ResolveNode_def Let_def)
  then have in_runs: "run \<in> set runs" "Run_ID run = NodeRef_RunID ref" by (auto dest: find_SomeD)
  let ?seen = "(observe ref 1 ''pending'')\<lparr>Observation_RunRevision := Run_Revision run\<rparr>"
  show ?thesis
  proof (cases "names_sink ref run")
    case (Some sink)
    with assms run have zero: "Observation_ExitCode (observe_sink rt run sink attempts ?seen) = 0"
      by (simp add: resolve_external_def ResolveNode_def Let_def)
    from Some have "Run_Sink run = Some sink" by (auto simp: names_sink_def split: option.splits if_splits)
    moreover have "Sink_Progress sink = ProgressSucceeded" "Run_Progress run \<noteq> ProgressCancelled"
      using zero by (auto simp: observe_sink_def Let_def split: if_splits)
    ultimately show ?thesis using in_runs by (auto simp: node_succeeded_def)
  next
    case None
    then obtain task where task: "node_task ref run tasks = Some task"
      using assms run by (cases "node_task ref run tasks") (auto simp: resolve_external_def ResolveNode_def Let_def)
    have zero: "Observation_ExitCode (observe_task rt run task attempts assignments ?seen) = 0"
      using assms run None task by (simp add: resolve_external_def ResolveNode_def Let_def)
    then obtain p where "node_task_over run task attempts assignments p" "p = ProgressSucceeded" "Run_Progress run \<noteq> ProgressCancelled"
      using observe_task_over [of rt run task attempts assignments ?seen] by auto
    with in_runs node_task_in [OF task] show ?thesis by (auto simp: node_succeeded_def)
  qed
qed

text \<open>References that a manifest can name are told apart by their texts.\<close>

definition parsed_refs :: "Task list \<Rightarrow> bool" where
  "parsed_refs tasks \<longleftrightarrow> (\<forall>t \<in> set tasks. \<forall>ref \<in> set (Task_ExternalNeeds t). ParseNodeRef (NodeRef_String ref) = Inr ref)"

lemma external_fold_in:
  "ref \<in> set refs \<Longrightarrow> \<exists>ref' \<in> set refs. NodeRef_String ref' = NodeRef_String ref
     \<and> fold (\<lambda>r result. result(NodeRef_String r \<mapsto> f r)) refs m (NodeRef_String ref) = Some (f ref')"
  by (induction refs rule: rev_induct) auto

lemma ResolveExternalNodes_at:
  assumes "parsed_refs tasks" and "t \<in> set tasks" and "ref \<in> set (Task_ExternalNeeds t)"
  shows "ResolveExternalNodes rt tasks runs allTasks attempts assignments (NodeRef_String ref)
       = Some (resolve_external rt runs allTasks attempts assignments ref)"
proof -
  have parsed: "ParseNodeRef (NodeRef_String r) = Inr r" if "r \<in> set (concat (map Task_ExternalNeeds tasks))" for r
    using assms(1) that by (auto simp: parsed_refs_def)
  have ref: "ref \<in> set (concat (map Task_ExternalNeeds tasks))" using assms(2,3) by auto
  obtain ref' where ref': "ref' \<in> set (concat (map Task_ExternalNeeds tasks))" "NodeRef_String ref' = NodeRef_String ref"
    "ResolveExternalNodes rt tasks runs allTasks attempts assignments (NodeRef_String ref)
       = Some (resolve_external rt runs allTasks attempts assignments ref')"
    using external_fold_in [OF ref] unfolding ResolveExternalNodes_def by blast
  have "ref' = ref" using parsed [OF ref] parsed [OF ref'(1)] ref'(2) by simp
  with ref'(3) show ?thesis by simp
qed


text \<open>A run that waits for the task \<open>a\<close> of another, finished run.\<close>

definition producer_run :: WorkflowRun where
  "producer_run = sample_run\<lparr>Run_ID := ''other''\<rparr>"

definition producer_attempt :: Attempt where
  "producer_attempt = (sample_attempt ''a'' ProgressSucceeded)\<lparr>Attempt_WorkflowRunID := ''other''\<rparr>"

definition consumer_task :: Task where
  "consumer_task = (sample_task ''b'' [])\<lparr>Task_ExternalNeeds := [\<lparr>NodeRef_RunID = ''other'', NodeRef_TaskID = ''a''\<rparr>]\<rparr>"

definition plain_runtime :: go_runtime where
  "plain_runtime = \<lparr>Runtime_text = (\<lambda>_. ''''), Runtime_time = (\<lambda>_. ''''), Runtime_order = (\<lambda>ks. ks)\<rparr>"

definition consumer_dag :: DAGState where
  "consumer_dag = \<lparr>State_External = ResolveExternalNodes plain_runtime [consumer_task] [producer_run] [sample_task ''a'' []] [producer_attempt] [],
     State_Run = sample_run, State_Tasks = [consumer_task], State_Attempts = [sample_attempt ''b'' ProgressBlocked]\<rparr>"

definition consumer_exec :: DAGExecution where
  "consumer_exec = (case NewDAGExecution consumer_dag of Some (Inr e) \<Rightarrow> e)"


section \<open>Waits for a state\<close>

lemma observe_attempt_state_met:
  assumes "Observation_ExitCode (observe_attempt_state rt state latest assignments workers out) = 0"
  shows "\<exists>a. latest = Some a \<and> \<not> Terminal (Attempt_Progress a) \<and> attempt_meets state a (if state = NodeStatePaused then attemptPauseReason a assignments workers else '''')
    \<and> Observation_Outcome (observe_attempt_state rt state latest assignments workers out) = TaskWaitMet"
  using assms by (auto simp: observe_attempt_state_def Let_def split: option.splits if_splits)

text \<open>
  A wait for a state of an attempt is met only by an attempt that is still open and in that state, so
  a wake never reports a node as paused, parked or active after it has ended.
\<close>

theorem state_wait_met_by_open_attempt:
  assumes "ResolveNodeState rt ref state runs tasks attempts assignments workers = (obs, None)"
    and "state \<notin> {NodeStateOther '''', NodeStateTerminal, NodeStateSucceeded}" and "Observation_ExitCode obs = 0"
  shows "Observation_Outcome obs = TaskWaitMet \<and>
    (\<exists>a \<in> set attempts. \<not> Terminal (Attempt_Progress a)
       \<and> attempt_meets state a (if state = NodeStatePaused then attemptPauseReason a assignments workers else ''''))"
proof -
  have "\<exists>out i. obs = observe_attempt_state rt state (find (\<lambda>a. Attempt_ID a = i) (rev attempts)) assignments workers out"
    using assms(1,2) by (auto simp: ResolveNodeState_def Let_def split: sum.splits prod.splits option.splits if_splits)
  then obtain out i latest where obs: "obs = observe_attempt_state rt state latest assignments workers out"
    and latest: "latest = find (\<lambda>a. Attempt_ID a = i) (rev attempts)" by blast
  from observe_attempt_state_met [OF assms(3) [unfolded obs]] obtain a where
    a: "latest = Some a" "\<not> Terminal (Attempt_Progress a)"
      "attempt_meets state a (if state = NodeStatePaused then attemptPauseReason a assignments workers else '''')"
      "Observation_Outcome obs = TaskWaitMet" unfolding obs by blast
  have "a \<in> set attempts" using a(1) latest by (auto dest: find_SomeD)
  with a show ?thesis by blast
qed

end
