(* ===== verification/Projection.thy ===== *)
theory Projection
  imports AutomaticRetry Dag SupervisionReadiness
begin

text \<open>
  The projection of workflow runs (\<open>internal/backlog/projection.go\<close>): one coordinator boundary
  advances the dependencies of every open run, ends the tasks that can no longer run, and
  publishes the run with its sink. The execution of the graph is \<open>Dag\<close>, the admission of a task
  by its supervision \<open>SupervisionReadiness\<close>, the settlement \<open>Sink\<close> and the runs that wait for an
  automatic retry \<open>AutomaticRetry\<close>.

  The nodes of other runs are observed by \<open>Nodes\<close>. The store is the caller's: what it holds of a
  run's supervision is an argument, and the committed projection is the result, so that a lost race, after which the
  run is left to the next boundary, is no projection. The report of the supervision views is
  rendering and is left out. Two sinks are compared as values where the code compares their
  encodings, and \<open>time.Time.UTC\<close> keeps the instant.
\<close>

section \<open>Supervision\<close>

record SupervisionProjection =
  Projection_Snapshot :: SupervisionSnapshot
  Projection_Incidents :: "ReviewIncident list"

definition supervisionBarrier :: "SupervisionProjection option \<Rightarrow> SupervisionBarrier" where
  "supervisionBarrier projection =
     (case projection of
        None \<Rightarrow> \<lparr>Barrier_Supervised = False, Barrier_Gates = [], Barrier_Incidents = []\<rparr>
      | Some p \<Rightarrow> \<lparr>Barrier_Supervised = True, Barrier_Gates = Snapshot_Gates (Projection_Snapshot p),
                   Barrier_Incidents = Projection_Incidents p\<rparr>)"

definition deferring_code :: "SupervisionBlockerCode \<Rightarrow> bool" where
  "deferring_code code \<longleftrightarrow>
     code \<in> {SupervisionBlockerGatePending, SupervisionBlockerGateAwaitingReview, SupervisionBlockerGateHeld,
             SupervisionBlockerGateEscalated, SupervisionBlockerBranchHold, SupervisionBlockerRunHold,
             SupervisionBlockerRouteUnavailable}"

definition supervisionDefersSkip :: "SupervisionProjection option \<Rightarrow> string \<Rightarrow> bool" where
  "supervisionDefersSkip projection taskID =
     (case projection of
        None \<Rightarrow> False
      | Some p \<Rightarrow> list_ex (\<lambda>b. deferring_code (Blocker_Code b))
          (Verdict_Blockers (SupervisionAdmits (Projection_Snapshot p)
             \<lparr>Query_TaskID = taskID, Query_ExpectedGraphRevision = 0\<rparr>)))"

definition loadSupervisionProjection :: "(string \<Rightarrow> SupervisionProjection option) \<Rightarrow> string \<Rightarrow> SupervisionProjection option" where
  "loadSupervisionProjection source runID =
     (case source runID of
        None \<Rightarrow> None
      | Some p \<Rightarrow> if Snapshot_Supervised (Projection_Snapshot p) then Some p else None)"

section \<open>Ending the tasks that can no longer run\<close>

definition latest_index_step :: "Attempt list \<Rightarrow> nat \<Rightarrow> (string \<rightharpoonup> nat) \<Rightarrow> (string \<rightharpoonup> nat)" where
  "latest_index_step attempts index latest =
     (let attempt = attempts ! index in
      case latest (Attempt_TaskID attempt) of
        None \<Rightarrow> latest(Attempt_TaskID attempt \<mapsto> index)
      | Some prior \<Rightarrow>
          if Attempt_Number (attempts ! prior) < Attempt_Number attempt
          then latest(Attempt_TaskID attempt \<mapsto> index) else latest)"

definition latest_index :: "Attempt list \<Rightarrow> (string \<rightharpoonup> nat)" where
  "latest_index attempts = fold (latest_index_step attempts) [0..<length attempts] Map.empty"

record finalize_scope =
  Fin_latest :: "string \<rightharpoonup> nat"
  Fin_byName :: "string \<rightharpoonup> Task"
  Fin_external :: "string \<rightharpoonup> NodeObservation"
  Fin_supervision :: "SupervisionProjection option"
  Fin_now :: instant

definition need_failed :: "finalize_scope \<Rightarrow> Attempt list \<Rightarrow> string \<Rightarrow> bool" where
  "need_failed scope attempts name =
     (case Fin_byName scope name of
        None \<Rightarrow> False
      | Some dependency \<Rightarrow> (case Fin_latest scope (Task_ID dependency) of
          None \<Rightarrow> False
        | Some index \<Rightarrow> Terminal (Attempt_Progress (attempts ! index))
            \<and> Attempt_Progress (attempts ! index) \<noteq> ProgressSucceeded))"

definition external_failed :: "finalize_scope \<Rightarrow> NodeRef \<Rightarrow> bool" where
  "external_failed scope ref =
     (case Fin_external scope (NodeRef_String ref) of None \<Rightarrow> False | Some obs \<Rightarrow> Observation_ExitCode obs = 2)"

definition failed_needs :: "finalize_scope \<Rightarrow> Attempt list \<Rightarrow> Task \<Rightarrow> string list" where
  "failed_needs scope attempts task =
     filter (need_failed scope attempts) (Task_Needs task)
     @ map NodeRef_String (filter (external_failed scope) (Task_ExternalNeeds task))"

definition skip_blocked :: "instant \<Rightarrow> string list \<Rightarrow> Attempt \<Rightarrow> Attempt" where
  "skip_blocked now failed attempt =
     attempt\<lparr>Attempt_Progress := ProgressSkipped, Attempt_Control := ControlStopped,
       Attempt_Failure := ''terminal dependency prevented execution: ['' @ join_str '' '' (sort_strings failed) @ '']'',
       Attempt_CompletedAt := Some now\<rparr>"

definition finalize_task :: "finalize_scope \<Rightarrow> Task \<Rightarrow> Attempt list \<times> bool \<Rightarrow> Attempt list \<times> bool" where
  "finalize_task scope task st =
     (case Fin_latest scope (Task_ID task) of
        None \<Rightarrow> st
      | Some index \<Rightarrow>
          let attempt = fst st ! index; failed = failed_needs scope (fst st) task in
          if Attempt_Progress attempt \<noteq> ProgressBlocked \<or> Attempt_AssignmentID attempt \<noteq> '''' then st
          else if supervisionDefersSkip (Fin_supervision scope) (Task_ID task) then st
          else if failed = [] then st
          else ((fst st)[index := skip_blocked (Fin_now scope) failed attempt], True))"

definition finalize_pass :: "finalize_scope \<Rightarrow> Task list \<Rightarrow> Attempt list \<Rightarrow> Attempt list \<times> bool" where
  "finalize_pass scope tasks attempts = fold (finalize_task scope) tasks (attempts, False)"

text \<open>The attempts that are still blocked; every pass that changes something skips one of them.\<close>

definition blocked_count :: "Attempt list \<Rightarrow> nat" where
  "blocked_count attempts = length (filter (\<lambda>a. Attempt_Progress a = ProgressBlocked) attempts)"

lemma filter_update_less:
  "i < length xs \<Longrightarrow> P (xs ! i) \<Longrightarrow> \<not> P x \<Longrightarrow> length (filter P (xs[i := x])) < length (filter P xs)"
proof (induction xs arbitrary: i)
  case (Cons y ys)
  then show ?case by (cases i) auto
qed simp

text \<open>An index outside the list does not occur: \<open>latest\<close> holds positions of the attempts.\<close>

definition scope_ok :: "finalize_scope \<Rightarrow> Attempt list \<Rightarrow> bool" where
  "scope_ok scope attempts \<longleftrightarrow> (\<forall>taskID index. Fin_latest scope taskID = Some index \<longrightarrow> index < length attempts)"

lemma finalize_task_step:
  assumes "scope_ok scope (fst st)"
  shows "scope_ok scope (fst (finalize_task scope task st)) \<and> length (fst (finalize_task scope task st)) = length (fst st)
    \<and> (finalize_task scope task st = st \<or>
        snd (finalize_task scope task st) \<and> blocked_count (fst (finalize_task scope task st)) < blocked_count (fst st))"
proof (cases "finalize_task scope task st = st")
  case True
  with assms show ?thesis by simp
next
  case False
  then obtain i failed where i: "Fin_latest scope (Task_ID task) = Some i" "Attempt_Progress (fst st ! i) = ProgressBlocked"
    and eq: "finalize_task scope task st = ((fst st)[i := skip_blocked (Fin_now scope) failed (fst st ! i)], True)"
    by (auto simp: finalize_task_def Let_def split: option.splits if_splits)
  from i assms have "i < length (fst st)" by (simp add: scope_ok_def)
  with i assms show ?thesis
    by (simp add: eq scope_ok_def blocked_count_def filter_update_less skip_blocked_def)
qed

lemma finalize_fold_step:
  "scope_ok scope (fst st) \<Longrightarrow>
     scope_ok scope (fst (fold (finalize_task scope) tasks st)) \<and> length (fst (fold (finalize_task scope) tasks st)) = length (fst st)
     \<and> (fold (finalize_task scope) tasks st = st \<or>
        snd (fold (finalize_task scope) tasks st) \<and> blocked_count (fst (fold (finalize_task scope) tasks st)) < blocked_count (fst st))"
proof (induction tasks arbitrary: st)
  case (Cons task tasks)
  note step = finalize_task_step [OF Cons.prems, of task]
  note rest = Cons.IH [of "finalize_task scope task st"]
  from step rest show ?case by (auto dest: less_trans)
qed simp

text \<open>The passes are repeated while one of them changes something; the guard on the positions,
  which always holds, makes the end of the loop visible.\<close>

function finalize_loop :: "finalize_scope \<Rightarrow> Task list \<Rightarrow> Attempt list \<Rightarrow> Attempt list" where
  "finalize_loop scope tasks attempts =
     (if snd (finalize_pass scope tasks attempts)
         \<and> blocked_count (fst (finalize_pass scope tasks attempts)) < blocked_count attempts
      then finalize_loop scope tasks (fst (finalize_pass scope tasks attempts))
      else fst (finalize_pass scope tasks attempts))"
  by pat_completeness auto
termination
  by (relation "measure (\<lambda>(scope, tasks, attempts). blocked_count attempts)") auto

declare finalize_loop.simps [simp del]

definition stuck_or_over :: "Attempt list \<Rightarrow> bool" where
  "stuck_or_over attempts \<longleftrightarrow>
     list_all (\<lambda>index. latest_index attempts (Attempt_TaskID (attempts ! index)) = Some index \<longrightarrow>
         Terminal (Attempt_Progress (attempts ! index)) \<or> Attempt_Progress (attempts ! index) = ProgressBlocked)
       [0..<length attempts]"

definition finalizeBlockedSinkPredecessors ::
  "Assignment list \<Rightarrow> SupervisionProjection option \<Rightarrow> instant \<Rightarrow> DAGState \<Rightarrow> DAGState" where
  "finalizeBlockedSinkPredecessors assignments supervision now state =
     (if \<not> RunExecutionsQuiescent (Run_ID (State_Run state)) (State_Attempts state) assignments then state
      else if \<not> stuck_or_over (State_Attempts state) then state
      else state\<lparr>State_Attempts := finalize_loop
        \<lparr>Fin_latest = latest_index (State_Attempts state), Fin_byName = index_by Task_Name (State_Tasks state),
         Fin_external = State_External state, Fin_supervision = supervision, Fin_now = now\<rparr>
        (State_Tasks state) (State_Attempts state)\<rparr>)"

section \<open>One run\<close>

definition project_attempt :: "instant \<Rightarrow> DAGState \<Rightarrow> Attempt \<Rightarrow> Attempt" where
  "project_attempt now state current =
     (let projected = (case index_by Attempt_ID (State_Attempts state) (Attempt_ID current) of
            Some a \<Rightarrow> a | None \<Rightarrow> zero_Attempt) in
      if Attempt_AssignmentID current \<noteq> '''' \<or> Terminal (Attempt_Progress current)
         \<or> (Attempt_Progress current = Attempt_Progress projected \<and> Attempt_Failure current = Attempt_Failure projected)
      then current
      else
        let moved = current\<lparr>Attempt_Progress := Attempt_Progress projected, Attempt_Failure := Attempt_Failure projected\<rparr>;
            stopped = (if Attempt_Progress moved = ProgressSkipped
                       then moved\<lparr>Attempt_Control := ControlStopped, Attempt_CompletedAt := Some now\<rparr> else moved)
        in stopped\<lparr>Attempt_Revision := wrap64 (Attempt_Revision current + 1), Attempt_UpdatedAt := now\<rparr>)"

datatype projection_outcome =
    ProjectionSkipped
  | ProjectionUnchanged
  | ProjectionCommit WorkflowRun "Attempt list" "string list"

definition publish_run :: "WorkflowRun \<Rightarrow> DAGState \<Rightarrow> WorkflowRun \<Rightarrow> WorkflowRun" where
  "publish_run run state projected =
     (if \<not> run_sink_terminal projected
      then projected\<lparr>Run_Progress := (if Terminal (Run_Progress (State_Run state)) then ProgressActive
                                      else Run_Progress (State_Run state)),
             Run_CompletedAt := None\<rparr>
      else projected)"

definition project_run ::
  "WorkflowRun \<Rightarrow> Task list \<Rightarrow> Attempt list \<Rightarrow> Assignment list \<Rightarrow> (string \<rightharpoonup> NodeObservation) \<Rightarrow>
   SupervisionProjection option \<Rightarrow> instant \<Rightarrow> projection_outcome" where
  "project_run run tasks attempts assignments external supervision now =
     (case NewDAGExecution \<lparr>State_External = external, State_Run = run, State_Tasks = tasks, State_Attempts = attempts\<rparr> of
        None \<Rightarrow> ProjectionSkipped
      | Some (Inl _) \<Rightarrow> ProjectionSkipped
      | Some (Inr execution) \<Rightarrow>
          let state = finalizeBlockedSinkPredecessors assignments supervision now (Snapshot execution);
              updated = map (project_attempt now state) attempts;
              changedIDs = map Attempt_ID (filter (\<lambda>a. project_attempt now state a \<noteq> a) attempts)
          in (case ProjectSupervisedRunSink run tasks updated assignments (supervisionBarrier supervision) now of
                (_, Some _) \<Rightarrow> ProjectionSkipped
              | (settled, None) \<Rightarrow>
                  let projected = publish_run run state settled in
                  if changedIDs = [] \<and> Run_Progress run = Run_Progress projected
                     \<and> Run_GraphRevision run = Run_GraphRevision projected \<and> Run_Sink run = Run_Sink projected
                     \<and> Run_CompletedAt run = Run_CompletedAt projected
                  then ProjectionUnchanged
                  else ProjectionCommit
                    (projected\<lparr>Run_Revision := wrap64 (Run_Revision run + 1), Run_UpdatedAt := now\<rparr>)
                    updated changedIDs))"

section \<open>All runs\<close>

definition IndexAssignmentsByRun :: "Attempt list \<Rightarrow> Assignment list \<Rightarrow> string \<Rightarrow> Assignment list" where
  "IndexAssignmentsByRun attempts assignments runID =
     filter (\<lambda>s. map_option Attempt_WorkflowRunID (index_by Attempt_ID attempts (Assignment_AttemptID s)) = Some runID) assignments"

definition run_attempts :: "CoordinatorRecords \<Rightarrow> WorkflowRun \<Rightarrow> Attempt list" where
  "run_attempts records run =
     filter (\<lambda>a. Attempt_WorkflowRunID a = Run_ID run) (DeclaredTaskAttempts (Records_Attempts records))"

definition run_assignments :: "CoordinatorRecords \<Rightarrow> WorkflowRun \<Rightarrow> Assignment list" where
  "run_assignments records run =
     filter (\<lambda>s. Assignment_AttemptID s \<in> set (map Attempt_ID (run_attempts records run)))
       (IndexAssignmentsByRun (Records_Attempts records) (Records_Assignments records) (Run_ID run))"

definition run_nodes :: "go_runtime \<Rightarrow> CoordinatorRecords \<Rightarrow> WorkflowRun \<Rightarrow> (string \<rightharpoonup> NodeObservation)" where
  "run_nodes rt records run =
     ResolveExternalNodes rt (TasksForRun run (Records_Tasks records)) (Records_WorkflowRuns records) (Records_Tasks records)
       (Records_Attempts records) (Records_Assignments records)"

definition ProjectWorkflowRunsWithRetries ::
  "go_runtime \<Rightarrow> CoordinatorRecords \<Rightarrow> int \<Rightarrow> (string \<Rightarrow> SupervisionProjection option) \<Rightarrow> instant \<Rightarrow> (string \<times> projection_outcome) list" where
  "ProjectWorkflowRunsWithRetries rt records coordinatorMax source now =
     map (\<lambda>run. (Run_ID run, project_run run (TasksForRun run (Records_Tasks records)) (run_attempts records run)
            (run_assignments records run) (run_nodes rt records run)
            (loadSupervisionProjection source (Run_ID run)) now))
       (filter (\<lambda>run. \<not> (run_sink_terminal run \<or> Run_ID run \<in> AutomaticRetryPendingRuns records coordinatorMax))
          (Records_WorkflowRuns records))"

end
