(* ===== verification/ProjectionSpec.thy ===== *)
theory ProjectionSpec
  imports Projection DagProperties SinkProperties
begin

text \<open>
  What the projection relies on: quiescence depends only on the identity, the assignment and the
  control of the attempts, which a refresh keeps or stops; the loop that ends blocked tasks
  reaches a state in which no blocked task it may end has a failed dependency; and it changes
  nothing else.
\<close>

section \<open>Quiescence\<close>

text \<open>An attempt as quiescence sees it: the same one, possibly stopped.\<close>

definition calmer :: "Attempt \<Rightarrow> Attempt \<Rightarrow> bool" where
  "calmer a b \<longleftrightarrow>
     Attempt_ID b = Attempt_ID a \<and> Attempt_WorkflowRunID b = Attempt_WorkflowRunID a
     \<and> Attempt_SupervisionActivationID b = Attempt_SupervisionActivationID a
     \<and> Attempt_AssignmentID b = Attempt_AssignmentID a
     \<and> (Attempt_Control b = Attempt_Control a \<or> Attempt_Control b = ControlStopped)"

lemma calmer_refl [simp]: "calmer a a"
  by (simp add: calmer_def)

lemma calmer_trans: "calmer a b \<Longrightarrow> calmer b c \<Longrightarrow> calmer a c"
  by (auto simp: calmer_def)

lemma calmer_steps [simp]:
  "calmer a (skip_branch now reason a)" "calmer a (release_attempt blockers a)" "calmer a (skip_blocked now failed a)"
  by (simp_all add: calmer_def skip_branch_def release_attempt_def skip_blocked_def Let_def)

lemma quiescent_calmer:
  assumes "RunExecutionsQuiescent runID as assignments" and "\<forall>b \<in> set bs. \<exists>a \<in> set as. calmer a b"
  shows "RunExecutionsQuiescent runID bs assignments"
proof -
  have calm: "Attempt_Control b \<in> {ControlEmpty, ControlStopped, ControlUnassigned} \<and>
      (Attempt_AssignmentID b \<noteq> '''' \<longrightarrow> (\<exists>s. assignments_by_id assignments (Attempt_AssignmentID b) = Some s
         \<and> Assignment_AttemptID s = Attempt_ID b \<and> assignment_settled s))
      \<and> (\<forall>s \<in> set assignments. Assignment_AttemptID s = Attempt_ID b \<longrightarrow> assignment_settled s)"
    if b: "b \<in> set bs" "Attempt_WorkflowRunID b = runID" "\<not> IsSupervisionActivation b" for b
  proof -
    from assms(2) b(1) obtain a where a: "a \<in> set as" "calmer a b" by blast
    with b show ?thesis
      using quiescent_iff [of runID as assignments] assms(1) by (auto simp: calmer_def IsSupervisionActivation_def)
  qed
  then show ?thesis unfolding quiescent_iff by blast
qed

definition calms :: "DAGExecution \<Rightarrow> DAGExecution \<Rightarrow> bool" where
  "calms e e' \<longleftrightarrow> list_all2 calmer (attempts_of e) (attempts_of e')"

lemma calms_refl [simp]: "calms e e"
  by (simp add: calms_def list_all2_refl)

lemma calms_trans: "calms e e' \<Longrightarrow> calms e' e'' \<Longrightarrow> calms e e''"
  unfolding calms_def using calmer_trans by (rule list_all2_trans) auto

lemma calms_set_attempt: "(\<And>a. calmer a (f a)) \<Longrightarrow> calms e (set_attempt i f e)"
  by (cases "i < length (attempts_of e)")
    (auto simp: calms_def dag_simps list_all2_conv_all_nth nth_list_update)

lemma calms_fold:
  "(\<And>x e. calms e (step x e)) \<Longrightarrow> calms e (fold step xs e)"
  by (induction xs arbitrary: e) (auto intro: calms_trans)

lemma calms_verdict_fold: "calms (fst st) (fst (fold (verdict_task now) ts st))"
proof (induction ts arbitrary: st)
  case (Cons t ts)
  have "calms (fst st) (fst (verdict_task now t st))"
    by (cases st) (simp add: verdict_task_def Let_def calms_set_attempt)
  with Cons [of "verdict_task now t st"] show ?case by (auto intro: calms_trans)
qed simp

lemma calms_verdict_loop: "calms e (verdict_loop n now e)"
proof (induction n arbitrary: e)
  case (Suc n)
  have "calms e (fst (verdict_pass now e))"
    using calms_verdict_fold [of "(e, False)"] by (simp add: verdict_pass_def)
  with Suc [of "fst (verdict_pass now e)"] show ?case
    by (auto simp: Let_def split: prod.split intro: calms_trans)
qed simp

lemma calms_refresh: "calms e (refresh now touch e)"
proof -
  let ?e1 = "refreshVerdictBranches now e"
  have "calms e ?e1" unfolding refreshVerdictBranches_def by (rule calms_verdict_loop)
  moreover have "calms ?e1 (fold refresh_task (tasks_of ?e1) ?e1)"
    by (rule calms_fold) (simp add: refresh_task_def Let_def calms_set_attempt)
  moreover obtain f where "refresh now touch e = set_run f (fold refresh_task (tasks_of ?e1) ?e1)"
    using refresh_unfold [of now e touch] unfolding Let_def by blast
  ultimately show ?thesis by (auto simp: calms_def set_run_def intro: calms_trans [unfolded calms_def])
qed

section \<open>The latest attempts\<close>

lemma latest_index_step_at:
  "latest_index_step as n m t =
     (if Attempt_TaskID (as ! n) = t
      then Some (case m t of None \<Rightarrow> n | Some p \<Rightarrow> if Attempt_Number (as ! p) < Attempt_Number (as ! n) then n else p)
      else m t)"
  by (simp add: latest_index_step_def Let_def split: option.split)

lemma latest_index_upto:
  "n \<le> length as \<Longrightarrow> fold (latest_index_step as) [0..<n] Map.empty t = Some i \<Longrightarrow>
     i < n \<and> Attempt_TaskID (as ! i) = t \<and> (\<forall>j < n. Attempt_TaskID (as ! j) = t \<longrightarrow> Attempt_Number (as ! j) \<le> Attempt_Number (as ! i))"
  "n \<le> length as \<Longrightarrow> fold (latest_index_step as) [0..<n] Map.empty t = None \<longleftrightarrow> (\<forall>j < n. Attempt_TaskID (as ! j) \<noteq> t)"
proof (induction n arbitrary: i)
  case (Suc n)
  define m where "m = fold (latest_index_step as) [0..<n] Map.empty"
  have step: "fold (latest_index_step as) [0..<Suc n] Map.empty = latest_index_step as n m" by (simp add: m_def)
  note IH1 = Suc.IH(1) [folded m_def] and IH2 = Suc.IH(2) [folded m_def]
  {
    case 1
    note here = 1(2) [unfolded step, unfolded latest_index_step_at]
    show ?case
    proof (cases "Attempt_TaskID (as ! n) = t")
      case False
      with here have "m t = Some i" by simp
      with IH1 1 False show ?thesis by (auto simp: less_Suc_eq)
    next
      case True
      show ?thesis
      proof (cases "m t")
        case None
        with True here have "i = n" by simp
        with True None IH2 1 show ?thesis by (auto simp: less_Suc_eq)
      next
        case (Some p)
        with IH1 1 have p: "p < n" "\<forall>j < n. Attempt_TaskID (as ! j) = t \<longrightarrow> Attempt_Number (as ! j) \<le> Attempt_Number (as ! p)"
          "Attempt_TaskID (as ! p) = t" by auto
        have "i = (if Attempt_Number (as ! p) < Attempt_Number (as ! n) then n else p)"
          using True here Some by auto
        with p True show ?thesis by (force simp: less_Suc_eq split: if_splits)
      qed
    qed
  next
    case 2
    then show ?case unfolding step unfolding latest_index_step_at using IH2 by (auto simp: less_Suc_eq)
  }
qed simp_all

lemma latest_index_Some:
  "latest_index as t = Some i \<Longrightarrow>
     i < length as \<and> Attempt_TaskID (as ! i) = t
     \<and> (\<forall>j < length as. Attempt_TaskID (as ! j) = t \<longrightarrow> Attempt_Number (as ! j) \<le> Attempt_Number (as ! i))"
  using latest_index_upto(1) [of "length as" as t i] by (simp add: latest_index_def)

lemma latest_index_exists: "j < length as \<Longrightarrow> \<exists>i. latest_index as (Attempt_TaskID (as ! j)) = Some i"
  using latest_index_upto(2) [of "length as" as "Attempt_TaskID (as ! j)"]
  by (cases "latest_index as (Attempt_TaskID (as ! j))") (auto simp: latest_index_def)

section \<open>Ending blocked tasks\<close>

text \<open>From \<open>as\<close> to \<open>bs\<close> only blocked, unassigned latest attempts of tasks were skipped, each one for a
  dependency that has failed.\<close>

definition may_skip :: "finalize_scope \<Rightarrow> Task list \<Rightarrow> Attempt list \<Rightarrow> nat \<Rightarrow> bool" where
  "may_skip scope tasks bs i \<longleftrightarrow>
     (\<exists>task \<in> set tasks. Fin_latest scope (Task_ID task) = Some i
        \<and> \<not> supervisionDefersSkip (Fin_supervision scope) (Task_ID task) \<and> failed_needs scope bs task \<noteq> [])"

definition finalized :: "finalize_scope \<Rightarrow> Task list \<Rightarrow> Attempt list \<Rightarrow> Attempt list \<Rightarrow> bool" where
  "finalized scope tasks as bs \<longleftrightarrow>
     length bs = length as
     \<and> (\<forall>i < length as. bs ! i = as ! i
          \<or> Attempt_Progress (as ! i) = ProgressBlocked \<and> Attempt_AssignmentID (as ! i) = '''' \<and> may_skip scope tasks bs i
            \<and> (\<exists>failed. bs ! i = skip_blocked (Fin_now scope) failed (as ! i)))"

lemma finalized_progress:
  assumes "finalized scope tasks as bs" and "i < length as"
  shows "Attempt_Progress (as ! i) \<noteq> ProgressBlocked \<Longrightarrow> bs ! i = as ! i"
    and "Attempt_Progress (bs ! i) = Attempt_Progress (as ! i) \<or> Attempt_Progress (bs ! i) = ProgressSkipped"
    and "calmer (as ! i) (bs ! i)"
proof -
  have cases: "bs ! i = as ! i \<or> Attempt_Progress (as ! i) = ProgressBlocked
      \<and> (\<exists>failed. bs ! i = skip_blocked (Fin_now scope) failed (as ! i))"
    using assms by (auto simp: finalized_def)
  then show "Attempt_Progress (as ! i) \<noteq> ProgressBlocked \<Longrightarrow> bs ! i = as ! i"
    "Attempt_Progress (bs ! i) = Attempt_Progress (as ! i) \<or> Attempt_Progress (bs ! i) = ProgressSkipped"
    "calmer (as ! i) (bs ! i)"
    by (auto simp: skip_blocked_def calmer_def)
qed

lemma failed_needs_mono:
  assumes "finalized scope tasks as bs" and "scope_ok scope as" and "failed_needs scope as task \<noteq> []"
  shows "failed_needs scope bs task \<noteq> []"
proof -
  have "need_failed scope bs name" if n: "need_failed scope as name" for name
  proof -
    from n obtain d i where d: "Fin_byName scope name = Some d" "Fin_latest scope (Task_ID d) = Some i"
      "Terminal (Attempt_Progress (as ! i))" "Attempt_Progress (as ! i) \<noteq> ProgressSucceeded"
      by (auto simp: need_failed_def split: option.splits)
    with assms(2) have "i < length as" by (simp add: scope_ok_def)
    moreover have "Attempt_Progress (as ! i) \<noteq> ProgressBlocked" using d(3) by (auto simp: Terminal_iff)
    ultimately have "bs ! i = as ! i" using finalized_progress(1) [OF assms(1)] by blast
    with d show ?thesis by (simp add: need_failed_def)
  qed
  then show ?thesis using assms(3) by (auto simp: failed_needs_def filter_empty_conv)
qed

lemma finalized_refl [simp]: "finalized scope tasks as as"
  by (simp add: finalized_def)

lemma finalized_trans:
  assumes "finalized scope tasks as bs" and "finalized scope tasks bs cs" and "scope_ok scope as"
  shows "finalized scope tasks as cs"
proof -
  have ok: "scope_ok scope bs" using assms(1,3) by (simp add: finalized_def scope_ok_def)
  have len: "length bs = length as" "length cs = length bs" using assms by (simp_all add: finalized_def)
  have "cs ! i = as ! i \<or> Attempt_Progress (as ! i) = ProgressBlocked \<and> Attempt_AssignmentID (as ! i) = '''' \<and> may_skip scope tasks cs i
            \<and> (\<exists>failed. cs ! i = skip_blocked (Fin_now scope) failed (as ! i))" if i: "i < length as" for i
  proof (cases "bs ! i = as ! i")
    case True
    with assms(2) i len show ?thesis unfolding finalized_def by metis
  next
    case False
    with assms(1) i obtain failed where b: "Attempt_Progress (as ! i) = ProgressBlocked" "Attempt_AssignmentID (as ! i) = ''''"
      "may_skip scope tasks bs i" "bs ! i = skip_blocked (Fin_now scope) failed (as ! i)" by (auto simp: finalized_def)
    have "may_skip scope tasks cs i"
      using b(3) failed_needs_mono [OF assms(2) ok] by (auto simp: may_skip_def)
    moreover have "cs ! i = bs ! i"
      using b(4) i len by (intro finalized_progress(1) [OF assms(2)]) (simp_all add: skip_blocked_def)
    ultimately show ?thesis using b by auto
  qed
  with len show ?thesis by (simp add: finalized_def)
qed

lemma finalize_task_finalized:
  assumes "task \<in> set tasks" and "scope_ok scope (fst st)"
  shows "finalized scope tasks (fst st) (fst (finalize_task scope task st))"
proof (cases "finalize_task scope task st = st")
  case True
  then show ?thesis by simp
next
  case False
  let ?as = "fst st"
  from False obtain i where i: "Fin_latest scope (Task_ID task) = Some i" "Attempt_Progress (?as ! i) = ProgressBlocked"
    "Attempt_AssignmentID (?as ! i) = ''''" "\<not> supervisionDefersSkip (Fin_supervision scope) (Task_ID task)"
    "failed_needs scope ?as task \<noteq> []"
    and eq: "finalize_task scope task st = (?as[i := skip_blocked (Fin_now scope) (failed_needs scope ?as task) (?as ! i)], True)"
    by (auto simp: finalize_task_def Let_def split: option.splits if_splits)
  have len: "i < length ?as" using i(1) assms(2) by (simp add: scope_ok_def)
  let ?bs = "?as[i := skip_blocked (Fin_now scope) (failed_needs scope ?as task) (?as ! i)]"
  have need: "need_failed scope ?bs name" if n: "need_failed scope ?as name" for name
  proof -
    from n obtain d j where d: "Fin_byName scope name = Some d" "Fin_latest scope (Task_ID d) = Some j"
      "Terminal (Attempt_Progress (?as ! j))" "Attempt_Progress (?as ! j) \<noteq> ProgressSucceeded"
      by (auto simp: need_failed_def split: option.splits)
    with i(2) have "j \<noteq> i" by (auto simp: Terminal_iff)
    with d show ?thesis by (simp add: need_failed_def)
  qed
  have "failed_needs scope ?bs task \<noteq> []"
    using i(5) need by (auto simp: failed_needs_def filter_empty_conv)
  then have "may_skip scope tasks ?bs i" using assms(1) i(1,4) by (auto simp: may_skip_def)
  then show ?thesis unfolding eq using i len by (auto simp: finalized_def nth_list_update)
qed

lemma finalize_fold_finalized:
  "set ts \<subseteq> set tasks \<Longrightarrow> scope_ok scope (fst st) \<Longrightarrow> finalized scope tasks (fst st) (fst (fold (finalize_task scope) ts st))"
proof (induction ts arbitrary: st)
  case (Cons t ts)
  have one: "finalized scope tasks (fst st) (fst (finalize_task scope t st))"
    using Cons.prems by (intro finalize_task_finalized) simp_all
  have "scope_ok scope (fst (finalize_task scope t st))" using finalize_task_step [OF Cons.prems(2)] by blast
  with Cons have "finalized scope tasks (fst (finalize_task scope t st)) (fst (fold (finalize_task scope) (t # ts) st))" by simp
  with one Cons.prems(2) show ?case by (intro finalized_trans [OF one])
qed simp

text \<open>A pass without a change leaves nothing to end.\<close>

definition nothing_to_end :: "finalize_scope \<Rightarrow> Task list \<Rightarrow> Attempt list \<Rightarrow> bool" where
  "nothing_to_end scope tasks as \<longleftrightarrow>
     (\<forall>task \<in> set tasks. \<forall>i. Fin_latest scope (Task_ID task) = Some i \<and> Attempt_Progress (as ! i) = ProgressBlocked
        \<and> Attempt_AssignmentID (as ! i) = '''' \<and> \<not> supervisionDefersSkip (Fin_supervision scope) (Task_ID task)
        \<longrightarrow> failed_needs scope as task = [])"

lemma finalize_fold_stable:
  "scope_ok scope as \<Longrightarrow> fold (finalize_task scope) ts (as, False) = (as, False) \<Longrightarrow> nothing_to_end scope ts as"
proof (induction ts)
  case (Cons t ts)
  have "finalize_task scope t (as, False) = (as, False)"
  proof (rule ccontr)
    assume ne: "finalize_task scope t (as, False) \<noteq> (as, False)"
    have "scope_ok scope (fst (finalize_task scope t (as, False)))"
      and less: "blocked_count (fst (finalize_task scope t (as, False))) < blocked_count as"
      using finalize_task_step [of scope "(as, False)" t] Cons.prems(1) ne by auto
    from finalize_fold_step [OF this(1), of ts] less Cons.prems(2) show False by auto
  qed
  moreover have "nothing_to_end scope ts as" using Cons calculation by simp
  ultimately show ?case
    by (auto simp: nothing_to_end_def finalize_task_def Let_def split: if_splits)
qed (simp add: nothing_to_end_def)

lemma finalize_loop_correct:
  "scope_ok scope as \<Longrightarrow> finalized scope tasks as (finalize_loop scope tasks as) \<and> nothing_to_end scope tasks (finalize_loop scope tasks as)"
proof (induction scope tasks as rule: finalize_loop.induct)
  case (1 scope tasks as)
  let ?p = "finalize_pass scope tasks as"
  have one: "finalized scope tasks as (fst ?p)"
    using finalize_fold_finalized [of tasks tasks scope "(as, False)"] "1.prems" by (simp add: finalize_pass_def)
  note step = finalize_fold_step [of scope "(as, False)" tasks, simplified, OF "1.prems", folded finalize_pass_def]
  show ?case
  proof (cases "snd ?p \<and> blocked_count (fst ?p) < blocked_count as")
    case True
    with 1 step have "finalized scope tasks (fst ?p) (finalize_loop scope tasks (fst ?p))"
      "nothing_to_end scope tasks (finalize_loop scope tasks (fst ?p))" by auto
    with True finalized_trans [OF one _ "1.prems"] show ?thesis by (simp add: finalize_loop.simps [of scope tasks as])
  next
    case False
    with step have "?p = (as, False)" by auto
    then have "nothing_to_end scope tasks as"
      using finalize_fold_stable [OF "1.prems"] by (simp add: finalize_pass_def)
    with False \<open>?p = (as, False)\<close> show ?thesis by (simp add: finalize_loop.simps [of scope tasks as])
  qed
qed

end
