(* ===== verification/ProjectionProperties.thy ===== *)
theory ProjectionProperties
  imports ProjectionSpec RetryProperties NodeProperties
begin

text \<open>
  What one boundary of the coordinator guarantees for a run: started and finished work is left
  alone, supervision keeps its tasks from being ended, and a run in which nothing can run any
  more settles at the next boundary.
\<close>

section \<open>The snapshot\<close>

lemma distinct_map_sort_less [simp]: "distinct (map f (sort_less lt xs)) \<longleftrightarrow> distinct (map f xs)"
  by (metis mset_eq_imp_distinct_iff mset_map mset_sort_less)

lemma snapshot_sel [simp]:
  "State_Attempts (Snapshot e) = sort_less attempt_less (attempts_of e)" "State_Tasks (Snapshot e) = sort_less task_less (tasks_of e)"
  "State_Run (Snapshot e) = run_of e" "State_External (Snapshot e) = State_External (Exec_state e)"
  by (simp_all add: Snapshot_def Let_def)

lemma current_in:
  assumes "dag_wf e" and "t \<in> set (tasks_of e)"
  shows "current_attempt e (Task_ID t) \<in> set (attempts_of e)" and "Attempt_TaskID (current_attempt e (Task_ID t)) = Task_ID t"
  using current_index [OF assms] by (simp_all add: current_attempt_def)

text \<open>The position the projection finds for a task holds its current attempt.\<close>

lemma snapshot_latest:
  assumes "dag_wf e" and "valid_dag (Exec_state e)" and "t \<in> set (tasks_of e)"
  shows "\<exists>i < length (attempts_of e). latest_index (State_Attempts (Snapshot e)) (Task_ID t) = Some i
     \<and> State_Attempts (Snapshot e) ! i = current_attempt e (Task_ID t)"
proof -
  let ?S = "sort_less attempt_less (attempts_of e)" and ?c = "current_attempt e (Task_ID t)"
  have c: "?c \<in> set ?S" "Attempt_TaskID ?c = Task_ID t" using current_in [OF assms(1,3)] by simp_all
  from c(1) obtain j where j: "j < length ?S" "?S ! j = ?c" unfolding in_set_conv_nth by blast
  then obtain i where i: "latest_index ?S (Task_ID t) = Some i" using latest_index_exists [OF j(1)] c(2) by auto
  note max = latest_index_Some [OF i]
  have in_e: "?S ! i \<in> set (attempts_of e)" using max nth_mem [of i ?S] by simp
  then obtain k where k: "k < length (attempts_of e)" "attempts_of e ! k = ?S ! i" by (auto simp: in_set_conv_nth)
  have "k \<in> set (Exec_attempts e (Task_ID t))"
    using assms(1,3) k max by (auto simp: dag_wf_def attempts_ok_def)
  then have "Attempt_Number (?S ! i) \<le> Attempt_Number ?c" using last_number [OF assms(1,3)] k(2) by metis
  moreover have "Attempt_Number ?c \<le> Attempt_Number (?S ! i)" using max j c(2) by metis
  ultimately have "(Attempt_TaskID (?S ! i), Attempt_Number (?S ! i)) = (Attempt_TaskID ?c, Attempt_Number ?c)"
    using max c(2) by simp
  moreover have "inj_on (\<lambda>a. (Attempt_TaskID a, Attempt_Number a)) (set (attempts_of e))"
    using assms(2) by (simp add: valid_dag_def valid_attempts_def distinct_map)
  ultimately have "?S ! i = ?c" using inj_onD [of "\<lambda>a. (Attempt_TaskID a, Attempt_Number a)"] in_e current_in(1) [OF assms(1,3)] by blast
  with i max show ?thesis by auto
qed

section \<open>A run in which nothing can run\<close>

lemma branch_fold_keeps: "r \<noteq> '''' \<Longrightarrow> fold (\<lambda>n. branch_decision t n (prior n)) ns r \<noteq> ''''"
proof (induction ns arbitrary: r)
  case (Cons n ns)
  have "branch_decision t n (prior n) r \<noteq> ''''"
    using Cons.prems by (simp add: branch_decision_def VerdictBranchSkipped_def)
  with Cons.IH show ?case by simp
qed simp

lemma wrong_verdict_reason:
  assumes "d \<in> set (Task_Needs t)" and "Attempt_Progress (current_attempt e (Task_ID (task_named e d))) = ProgressSucceeded"
    and "map_of (Task_NeedsVerdict t) d = Some expected"
    and "Attempt_ReviewVerdict (current_attempt e (Task_ID (task_named e d))) = Some v" and "Verdict_Verdict v \<noteq> expected"
  shows "branch_reason e t \<noteq> ''''"
proof -
  let ?prior = "\<lambda>n. current_attempt e (Task_ID (task_named e n))"
  from assms(1) obtain xs ys where split: "Task_Needs t = xs @ d # ys" by (auto simp: in_set_conv_decomp)
  have "branch_decision t d (?prior d) r \<noteq> ''''" for r
    using assms(2-5) by (simp add: branch_decision_def VerdictBranchSkipped_def)
  then show ?thesis unfolding branch_reason_def split by (simp add: branch_fold_keeps)
qed

text \<open>What the records of a run promise: a waiting attempt is not assigned, a successful attempt is
  the last one of its task, and a successful review has a verdict.\<close>

definition records_consistent :: "Task list \<Rightarrow> Attempt list \<Rightarrow> bool" where
  "records_consistent tasks attempts \<longleftrightarrow>
     (\<forall>a \<in> set attempts. waiting a \<longrightarrow> Attempt_AssignmentID a = '''')
     \<and> (\<forall>a \<in> set attempts. Attempt_Progress a = ProgressSucceeded \<longrightarrow>
          (\<forall>b \<in> set attempts. Attempt_TaskID b = Attempt_TaskID a \<longrightarrow> Attempt_Number b \<le> Attempt_Number a))
     \<and> (\<forall>a \<in> set attempts. \<forall>t \<in> set tasks. Attempt_Progress a = ProgressSucceeded \<and> Task_ID t = Attempt_TaskID a
          \<and> Task_ReviewOutput t \<noteq> None \<longrightarrow> Attempt_ReviewVerdict a \<noteq> None)"

lemma consistent_verdict:
  "records_consistent tasks attempts \<Longrightarrow> a \<in> set attempts \<Longrightarrow> Attempt_Progress a = ProgressSucceeded \<Longrightarrow> t \<in> set tasks
     \<Longrightarrow> Task_ID t = Attempt_TaskID a \<Longrightarrow> Task_ReviewOutput t \<noteq> None \<Longrightarrow> \<exists>v. Attempt_ReviewVerdict a = Some v"
  unfolding records_consistent_def by (metis not_None_eq)

lemma succeeded_is_current:
  assumes "dag_wf e" and "valid_dag (Exec_state e)" and "records_consistent (tasks_of e) (attempts_of e)"
    and "t \<in> set (tasks_of e)"
  shows "taskSucceeded e (Task_ID t) \<longleftrightarrow> Attempt_Progress (current_attempt e (Task_ID t)) = ProgressSucceeded"
proof
  let ?is = "Exec_attempts e (Task_ID t)" and ?c = "current_attempt e (Task_ID t)"
  have "currentAttemptIndex e (Task_ID t) \<in> set ?is"
    using current_index [OF assms(1,4)] assms(1,4) by (auto simp: dag_wf_def attempts_ok_def)
  then show "Attempt_Progress ?c = ProgressSucceeded \<Longrightarrow> taskSucceeded e (Task_ID t)"
    by (auto simp: taskSucceeded_def list_ex_eq current_attempt_def)
  assume "taskSucceeded e (Task_ID t)"
  then obtain k where k: "k \<in> set ?is" "Attempt_Progress (attempts_of e ! k) = ProgressSucceeded"
    by (auto simp: taskSucceeded_def list_ex_eq)
  then have a: "attempts_of e ! k \<in> set (attempts_of e)" "Attempt_TaskID (attempts_of e ! k) = Task_ID t"
    using assms(1,4) by (auto simp: dag_wf_def attempts_ok_def)
  note c = current_in [OF assms(1,4)]
  have "Attempt_Number ?c = Attempt_Number (attempts_of e ! k)"
    using assms(3) a c k last_number [OF assms(1,4) k(1)] unfolding records_consistent_def by force
  moreover have "inj_on (\<lambda>a. (Attempt_TaskID a, Attempt_Number a)) (set (attempts_of e))"
    using assms(2) by (simp add: valid_dag_def valid_attempts_def distinct_map)
  ultimately have "?c = attempts_of e ! k"
    using inj_onD [of "\<lambda>a. (Attempt_TaskID a, Attempt_Number a)" _ ?c "attempts_of e ! k"] a c by simp
  with k show "Attempt_Progress ?c = ProgressSucceeded" by simp
qed

definition externals_decided :: "(string \<rightharpoonup> NodeObservation) \<Rightarrow> Task list \<Rightarrow> bool" where
  "externals_decided external tasks \<longleftrightarrow>
     (\<forall>t \<in> set tasks. \<forall>r \<in> set (Task_ExternalNeeds t). \<exists>obs. external (NodeRef_String r) = Some obs
        \<and> (Observation_ExitCode obs = 0 \<or> Observation_ExitCode obs = 2))"

definition nothing_runs :: "DAGExecution \<Rightarrow> bool" where
  "nothing_runs e \<longleftrightarrow> (\<forall>t \<in> set (tasks_of e). Terminal (Attempt_Progress (current_attempt e (Task_ID t)))
     \<or> Attempt_Progress (current_attempt e (Task_ID t)) = ProgressBlocked)"

text \<open>A blocked task whose dependencies have all ended is blocked by one that did not succeed.\<close>

lemma blocked_has_failure:
  assumes wf: "dag_wf e" and valid: "valid_dag (Exec_state e)" and exact: "release_exact e" and settled: "branches_settled e"
    and cons: "records_consistent (tasks_of e) (attempts_of e)" and ext: "externals_decided (State_External (Exec_state e)) (tasks_of e)"
    and t: "t \<in> set (tasks_of e)" and b: "Attempt_Progress (current_attempt e (Task_ID t)) = ProgressBlocked"
  shows "(\<exists>d \<in> set (Task_Needs t). Attempt_Progress (current_attempt e (Task_ID (task_named e d))) \<noteq> ProgressSucceeded)
     \<or> (\<exists>r \<in> set (Task_ExternalNeeds t). \<exists>obs. State_External (Exec_state e) (NodeRef_String r) = Some obs \<and> Observation_ExitCode obs = 2)"
proof -
  let ?cur = "\<lambda>d. current_attempt e (Task_ID (task_named e d))"
  have w: "waiting (current_attempt e (Task_ID t))" using b by (simp add: waiting_def)
  have "\<not> taskSucceeded e (Task_ID t)" using succeeded_is_current [OF wf valid cons t] b by simp
  with exact t w b have "task_blockers e t \<noteq> []" by (auto simp: release_exact_def)
  then consider (need) d where "d \<in> set (Task_Needs t)" "\<not> dependency_met e t d"
    | (external) r where "r \<in> set (Task_ExternalNeeds t)" "\<not> external_met e r"
    by (auto simp: task_blockers_def filter_empty_conv)
  then show ?thesis
  proof cases
    case (external r)
    with ext t obtain obs where obs: "State_External (Exec_state e) (NodeRef_String r) = Some obs"
      "Observation_ExitCode obs = 0 \<or> Observation_ExitCode obs = 2" by (auto simp: externals_decided_def)
    with external(2) have "Observation_ExitCode obs = 2" by (auto simp: external_met_def)
    with external(1) obs(1) show ?thesis by blast
  next
    case (need d)
    note q = need_task [OF wf t need(1)]
    have "Attempt_Progress (?cur d) \<noteq> ProgressSucceeded"
    proof
      assume s: "Attempt_Progress (?cur d) = ProgressSucceeded"
      then have "taskSucceeded e (Task_ID (task_named e d))" using succeeded_is_current [OF wf valid cons q(1)] by simp
      with need(2) have "\<not> verdictSatisfied e t (task_named e d)" by (auto simp: dependency_met_def Let_def)
      then obtain expected where m: "map_of (Task_NeedsVerdict t) d = Some expected"
        and no: "\<forall>v. Attempt_ReviewVerdict (?cur d) = Some v \<longrightarrow> Verdict_Verdict v \<noteq> expected"
        using s q(2) by (auto simp: verdictSatisfied_def Let_def split: option.splits)
      from valid t map_of_SomeD [OF m] obtain p where p: "p \<in> set (tasks_of e)" "Task_Name p = d" "Task_ReviewOutput p \<noteq> None"
        by (force simp: valid_dag_def valid_needs_def)
      have "p = task_named e d" using task_named_eq [of e p] p wf by (simp add: dag_wf_def)
      with p obtain v where v: "Attempt_ReviewVerdict (?cur d) = Some v"
        using consistent_verdict [OF cons current_in(1) [OF wf q(1)] s q(1)] current_in(2) [OF wf q(1)] by auto
      have "branch_reason e t \<noteq> ''''" by (rule wrong_verdict_reason [OF need(1) s m v]) (use no v in blast)
      moreover have "Attempt_AssignmentID (current_attempt e (Task_ID t)) = ''''"
        using cons w current_in(1) [OF wf t] by (auto simp: records_consistent_def)
      ultimately show False using settled t w by (simp add: branches_settled_def branch_settled_def)
    qed
    with need(1) show ?thesis by blast
  qed
qed

definition projection_scope :: "DAGState \<Rightarrow> SupervisionProjection option \<Rightarrow> instant \<Rightarrow> finalize_scope" where
  "projection_scope state supervision now =
     \<lparr>Fin_latest = latest_index (State_Attempts state), Fin_byName = index_by Task_Name (State_Tasks state),
      Fin_external = State_External state, Fin_supervision = supervision, Fin_now = now\<rparr>"

lemma projection_scope_ok: "scope_ok (projection_scope state supervision now) (State_Attempts state)"
  using latest_index_Some by (auto simp: scope_ok_def projection_scope_def)

lemma wf_needs: "dag_wf e \<Longrightarrow> wf ((needs_rel (tasks_of e))\<inverse>)"
proof -
  assume "dag_wf e"
  have "finite (needs_rel (tasks_of e))"
  proof (rule finite_subset)
    show "needs_rel (tasks_of e) \<subseteq> Task_Name ` set (tasks_of e) \<times> (\<Union>t \<in> set (tasks_of e). set (Task_Needs t))"
      by (auto simp: needs_rel_def)
  qed simp
  then show ?thesis using \<open>dag_wf e\<close> by (intro finite_acyclic_wf_converse) (simp_all add: dag_wf_def)
qed

text \<open>Then the loop ends every task of an unsupervised run.\<close>

lemma finalize_ends_all:
  assumes wf: "dag_wf e" and valid: "valid_dag (Exec_state e)" and exact: "release_exact e" and settled: "branches_settled e"
    and cons: "records_consistent (tasks_of e) (attempts_of e)" and ext: "externals_decided (State_External (Exec_state e)) (tasks_of e)"
    and idle: "nothing_runs e"
    and F: "F = finalize_loop (projection_scope (Snapshot e) None now) (State_Tasks (Snapshot e)) (State_Attempts (Snapshot e))"
  shows "t \<in> set (tasks_of e) \<Longrightarrow> \<exists>i < length (attempts_of e). latest_index (State_Attempts (Snapshot e)) (Task_ID t) = Some i
      \<and> State_Attempts (Snapshot e) ! i = current_attempt e (Task_ID t) \<and> Terminal (Attempt_Progress (F ! i))"
proof (induction "Task_Name t" arbitrary: t rule: wf_induct_rule [OF wf_needs [OF wf]])
  case (1 t)
  let ?S = "State_Attempts (Snapshot e)" and ?scope = "projection_scope (Snapshot e) None now"
  have fin: "finalized ?scope (State_Tasks (Snapshot e)) ?S F" "nothing_to_end ?scope (State_Tasks (Snapshot e)) F"
    using finalize_loop_correct [OF projection_scope_ok, of "Snapshot e" None now "State_Tasks (Snapshot e)"] F by simp_all
  obtain i where i: "i < length (attempts_of e)" "latest_index ?S (Task_ID t) = Some i" "?S ! i = current_attempt e (Task_ID t)"
    using snapshot_latest [OF wf valid "1.prems"] by blast
  have iS: "i < length ?S" using i(1) by simp
  have "Terminal (Attempt_Progress (F ! i))"
  proof (rule ccontr)
    assume live: "\<not> Terminal (Attempt_Progress (F ! i))"
    then have "Attempt_Progress (F ! i) = Attempt_Progress (?S ! i)"
      using finalized_progress(2) [OF fin(1) iS] by (auto simp: Terminal_iff)
    with live idle "1.prems" i(3) have b: "Attempt_Progress (current_attempt e (Task_ID t)) = ProgressBlocked"
      and Fb: "Attempt_Progress (F ! i) = ProgressBlocked" by (auto simp: nothing_runs_def)
    have "Attempt_AssignmentID (F ! i) = ''''"
      using cons b current_in(1) [OF wf "1.prems"] finalized_progress(3) [OF fin(1) iS] i(3)
      by (auto simp: records_consistent_def waiting_def calmer_def)
    with fin(2) Fb i(2) "1.prems" have none: "failed_needs ?scope F t = []"
      by (auto simp: nothing_to_end_def projection_scope_def supervisionDefersSkip_def)
    from blocked_has_failure [OF wf valid exact settled cons ext "1.prems" b] show False
    proof
      assume "\<exists>r \<in> set (Task_ExternalNeeds t). \<exists>obs. State_External (Exec_state e) (NodeRef_String r) = Some obs \<and> Observation_ExitCode obs = 2"
      with none show False by (auto simp: failed_needs_def external_failed_def projection_scope_def filter_empty_conv)
    next
      assume "\<exists>d \<in> set (Task_Needs t). Attempt_Progress (current_attempt e (Task_ID (task_named e d))) \<noteq> ProgressSucceeded"
      then obtain d where d: "d \<in> set (Task_Needs t)"
        and ns: "Attempt_Progress (current_attempt e (Task_ID (task_named e d))) \<noteq> ProgressSucceeded" by blast
      note q = need_task [OF wf "1.prems" d]
      have "(Task_Name (task_named e d), Task_Name t) \<in> (needs_rel (tasks_of e))\<inverse>"
        using "1.prems" d q(2) by (auto simp: needs_rel_def)
      from "1.hyps" [OF this q(1)] obtain j where j: "j < length (attempts_of e)"
        "latest_index ?S (Task_ID (task_named e d)) = Some j"
        "?S ! j = current_attempt e (Task_ID (task_named e d))" "Terminal (Attempt_Progress (F ! j))" by blast
      have "Attempt_Progress (F ! j) \<noteq> ProgressSucceeded"
        using finalized_progress(2) [OF fin(1), of j] j(1,3) ns by auto
      moreover have "distinct (map Task_Name (State_Tasks (Snapshot e)))"
        using valid by (simp add: valid_dag_def valid_tasks_def)
      then have "index_by Task_Name (State_Tasks (Snapshot e)) d = Some (task_named e d)"
        using index_by_unique [of "task_named e d" "State_Tasks (Snapshot e)" Task_Name] q by simp
      ultimately have "need_failed ?scope F d" using j by (simp add: need_failed_def projection_scope_def)
      with none d show False by (auto simp: failed_needs_def filter_empty_conv)
    qed
  qed
  with i show ?case by blast
qed

section \<open>From the records to the published run\<close>

text \<open>What advancing the dependencies does to one attempt.\<close>

definition advanced :: "Attempt \<Rightarrow> Attempt \<Rightarrow> bool" where
  "advanced a b \<longleftrightarrow> calmer a b \<and> identity b = identity a \<and> (if waiting a then waits_or_skipped b else b = a)"

lemma refresh_advances:
  assumes "dag_wf e"
  shows "list_all2 advanced (attempts_of e) (attempts_of (refresh now touch e))"
proof -
  let ?e = "refresh now touch e"
  have len: "length (attempts_of ?e) = length (attempts_of e)"
    by (rule frame_length [OF keeps_started_frame [OF refresh_correct(1) [OF assms]]])
  have "advanced (attempts_of e ! k) (attempts_of ?e ! k)" if k: "k < length (attempts_of e)" for k
  proof -
    have "calmer (attempts_of e ! k) (attempts_of ?e ! k)"
      using calms_refresh [of e now touch] k by (simp add: calms_def list_all2_conv_all_nth)
    moreover have "map identity (attempts_of ?e) = map identity (attempts_of e)"
      using keeps_started_frame [OF refresh_correct(1) [OF assms]] by (simp add: frame_def)
    then have "identity (attempts_of ?e ! k) = identity (attempts_of e ! k)"
      using k len by (metis nth_map)
    ultimately show ?thesis
      using refresh_correct(1) [OF assms, of now touch] k by (simp add: advanced_def keeps_started_def)
  qed
  with len show ?thesis by (simp add: list_all2_conv_all_nth)
qed

lemma advanced_succeeded: "advanced a b \<Longrightarrow> Attempt_Progress b = ProgressSucceeded \<Longrightarrow> b = a"
  by (auto simp: advanced_def waits_or_skipped_def waiting_def split: if_splits)

lemma records_advanced:
  assumes "list_all2 advanced as bs" and "records_consistent tasks as"
  shows "records_consistent tasks bs"
proof -
  have pre: "\<exists>a \<in> set as. advanced a b" if "b \<in> set bs" for b
    using assms(1) that by (metis in_set_conv_nth list_all2_conv_all_nth)
  have "Attempt_AssignmentID b = ''''" if b: "b \<in> set bs" "waiting b" for b
  proof -
    obtain a where a: "a \<in> set as" "advanced a b" using pre b by blast
    with b have "waiting a" by (auto simp: advanced_def split: if_splits)
    with a assms(2) show ?thesis by (simp add: records_consistent_def advanced_def calmer_def)
  qed
  moreover have "Attempt_Number c \<le> Attempt_Number b"
    if b: "b \<in> set bs" "Attempt_Progress b = ProgressSucceeded" "c \<in> set bs" "Attempt_TaskID c = Attempt_TaskID b" for b c
  proof -
    obtain a where a: "a \<in> set as" "advanced a b" using pre b by blast
    obtain d where d: "d \<in> set as" "advanced d c" using pre b by blast
    have "b \<in> set as" using advanced_succeeded [OF a(2) b(2)] a(1) by simp
    moreover have "Attempt_TaskID d = Attempt_TaskID c" "Attempt_Number d = Attempt_Number c"
      using d(2) by (simp_all add: advanced_def identity_def)
    ultimately show ?thesis using assms(2) b d unfolding records_consistent_def by metis
  qed
  moreover have "Attempt_ReviewVerdict b \<noteq> None"
    if b: "b \<in> set bs" "Attempt_Progress b = ProgressSucceeded" "t \<in> set tasks" "Task_ID t = Attempt_TaskID b" "Task_ReviewOutput t \<noteq> None" for b t
  proof -
    obtain a where a: "a \<in> set as" "advanced a b" using pre b by blast
    have "b \<in> set as" using advanced_succeeded [OF a(2) b(2)] a(1) by simp
    with assms(2) b show ?thesis unfolding records_consistent_def by blast
  qed
  ultimately show ?thesis unfolding records_consistent_def by blast
qed

text \<open>The projection changes the progress of an attempt, never which attempt it is.\<close>

lemma project_attempt_identity [simp]: "identity (project_attempt now state a) = identity a"
  by (simp add: project_attempt_def Let_def identity_def)

lemma project_attempt_sel [simp]:
  "Attempt_ID (project_attempt now state a) = Attempt_ID a" "Attempt_TaskID (project_attempt now state a) = Attempt_TaskID a"
  "Attempt_Number (project_attempt now state a) = Attempt_Number a"
  "Attempt_WorkflowRunID (project_attempt now state a) = Attempt_WorkflowRunID a"
  using project_attempt_identity [of now state a] unfolding identity_def by (simp_all del: project_attempt_identity)

lemma project_attempt_calmer: "calmer a (project_attempt now state a)"
  by (simp add: project_attempt_def Let_def calmer_def)

lemma project_attempt_progress:
  assumes "Attempt_AssignmentID a = ''''" and "\<not> Terminal (Attempt_Progress a)"
    and "index_by Attempt_ID (State_Attempts state) (Attempt_ID a) = Some b"
  shows "Attempt_Progress (project_attempt now state a) = Attempt_Progress b"
  using assms by (auto simp: project_attempt_def Let_def)

lemma new_execution_facts:
  assumes "NewDAGExecution state = Some (Inr e)"
  shows "dag_wf e" "valid_dag (Exec_state e)" "release_exact e" "branches_settled e"
    and "list_all2 advanced (State_Attempts state) (attempts_of e)" and "tasks_of e = State_Tasks state"
    and "State_External (Exec_state e) = State_External state" and "Run_ID (run_of e) = Run_ID (State_Run state)"
    and "valid_dag state"
proof -
  obtain e0 where e0: "dag_wf e0" "Exec_state e0 = state" "e = refresh 0 False e0" "valid_dag state"
    by (rule NewDAGExecution_Inr [OF assms])
  show "valid_dag state" by (rule e0(4))
  show "dag_wf e" "valid_dag (Exec_state e)" "release_exact e" "branches_settled e"
    using reachable_ok [OF dag_reachable.new [OF assms]] by simp_all
  show "list_all2 advanced (State_Attempts state) (attempts_of e)"
    using refresh_advances [OF e0(1), of 0 False] e0 by simp
  have "frame e0 e" unfolding e0(3) by (rule keeps_started_frame [OF refresh_correct(1) [OF e0(1)]])
  then show "tasks_of e = State_Tasks state" "State_External (Exec_state e) = State_External state"
    "Run_ID (run_of e) = Run_ID (State_Run state)" using e0(2) by (simp_all add: frame_def)
qed

lemma advanced_quiescent:
  "list_all2 advanced as bs \<Longrightarrow> RunExecutionsQuiescent r as assignments \<Longrightarrow> set cs = set bs \<Longrightarrow> RunExecutionsQuiescent r cs assignments"
  by (erule quiescent_calmer) (metis advanced_def in_set_conv_nth list_all2_conv_all_nth)

lemma finalized_state:
  assumes new: "NewDAGExecution state = Some (Inr e)" and idle: "nothing_runs e"
    and quiet: "RunExecutionsQuiescent (Run_ID (State_Run state)) (State_Attempts state) assignments"
  shows "State_Attempts (finalizeBlockedSinkPredecessors assignments supervision now (Snapshot e)) =
    finalize_loop (projection_scope (Snapshot e) supervision now) (State_Tasks (Snapshot e)) (State_Attempts (Snapshot e))"
proof -
  note facts = new_execution_facts [OF new]
  let ?S = "State_Attempts (Snapshot e)"
  have "RunExecutionsQuiescent (Run_ID (run_of e)) ?S assignments"
    unfolding facts(8) by (rule advanced_quiescent [OF facts(5) quiet]) simp
  moreover have "stuck_or_over ?S"
  proof -
    have "Terminal (Attempt_Progress (?S ! i)) \<or> Attempt_Progress (?S ! i) = ProgressBlocked"
      if i: "i < length ?S" "latest_index ?S (Attempt_TaskID (?S ! i)) = Some i" for i
    proof -
      have "?S ! i \<in> set (attempts_of e)" using i(1) nth_mem [of i ?S] by simp
      then obtain t where t: "t \<in> set (tasks_of e)" "Attempt_TaskID (?S ! i) = Task_ID t"
        using facts(1) by (auto simp: dag_wf_def attempts_ok_def)
      from snapshot_latest [OF facts(1,2) t(1)] i(2) t(2) have "?S ! i = current_attempt e (Task_ID t)" by auto
      with idle t(1) show ?thesis by (simp add: nothing_runs_def)
    qed
    then show ?thesis unfolding stuck_or_over_def list_all_iff by auto
  qed
  ultimately show ?thesis
    unfolding finalizeBlockedSinkPredecessors_def projection_scope_def by simp
qed

lemma finalized_ids:
  assumes "finalized scope tasks as bs"
  shows "map Attempt_ID bs = map Attempt_ID as"
proof (rule nth_equalityI)
  show len: "length (map Attempt_ID bs) = length (map Attempt_ID as)" using assms by (simp add: finalized_def)
  fix i assume "i < length (map Attempt_ID bs)"
  then show "map Attempt_ID bs ! i = map Attempt_ID as ! i"
    using finalized_progress(3) [OF assms, of i] len by (simp add: calmer_def)
qed

lemma finalized_entry:
  assumes "finalized scope tasks as bs" and "i < length as" and "distinct (map Attempt_ID as)"
  shows "index_by Attempt_ID bs (Attempt_ID (as ! i)) = Some (bs ! i)"
proof -
  have "bs ! i \<in> set bs" using assms(1,2) by (simp add: finalized_def)
  then have "index_by Attempt_ID bs (Attempt_ID (bs ! i)) = Some (bs ! i)"
    by (rule index_by_unique) (simp add: finalized_ids [OF assms(1)] assms(3))
  then show ?thesis using finalized_progress(3) [OF assms(1,2)] by (simp add: calmer_def)
qed

lemma idle_attempt_ends:
  assumes new: "NewDAGExecution state = Some (Inr e)" and idle: "nothing_runs e"
    and quiet: "RunExecutionsQuiescent (Run_ID (State_Run state)) (State_Attempts state) assignments"
    and cons: "records_consistent (State_Tasks state) (State_Attempts state)"
    and ext: "externals_decided (State_External state) (State_Tasks state)" and t: "t \<in> set (State_Tasks state)"
  shows "Terminal (Attempt_Progress (project_attempt now
      (finalizeBlockedSinkPredecessors assignments None now (Snapshot e)) (State_Attempts state ! currentAttemptIndex e (Task_ID t))))"
proof -
  note facts = new_execution_facts [OF new]
  let ?k = "currentAttemptIndex e (Task_ID t)" and ?S = "State_Attempts (Snapshot e)" and ?scope = "projection_scope (Snapshot e) None now"
  let ?a = "State_Attempts state ! ?k" and ?c = "current_attempt e (Task_ID t)"
  define F where "F = finalize_loop ?scope (State_Tasks (Snapshot e)) ?S"
  have t_e: "t \<in> set (tasks_of e)" using t facts(6) by simp
  have len: "length (State_Attempts state) = length (attempts_of e)" using facts(5) by (simp add: list_all2_lengthD)
  have k: "?k < length (attempts_of e)" by (rule current_index(1) [OF facts(1) t_e])
  then have adv: "advanced ?a ?c"
    using facts(5) by (simp add: list_all2_conv_all_nth current_attempt_def)
  have fin: "finalized ?scope (State_Tasks (Snapshot e)) ?S F"
    unfolding F_def using finalize_loop_correct [OF projection_scope_ok] by blast
  have cons_e: "records_consistent (tasks_of e) (attempts_of e)"
    using records_advanced [OF facts(5) cons] facts(6) by simp
  obtain i where i: "i < length (attempts_of e)" "?S ! i = ?c" "Terminal (Attempt_Progress (F ! i))"
    using finalize_ends_all [OF facts(1-4) cons_e _ idle F_def t_e] ext facts(6,7) by auto
  have "Attempt_ID ?a = Attempt_ID (?S ! i)" using i(2) adv by (simp add: calmer_def advanced_def)
  with finalized_entry [OF fin, of i] i(1) facts(2) have entry: "index_by Attempt_ID F (Attempt_ID ?a) = Some (F ! i)"
    by (simp add: valid_dag_def valid_attempts_def)
  show ?thesis
  proof (cases "Terminal (Attempt_Progress ?a)")
    case True
    then show ?thesis by (simp add: project_attempt_def Let_def)
  next
    case False
    have "waiting ?a"
    proof (rule ccontr)
      assume n: "\<not> waiting ?a"
      then have "?c = ?a" using adv by (simp add: advanced_def)
      with idle t_e False n show False by (auto simp: nothing_runs_def waiting_def)
    qed
    then have "Attempt_AssignmentID ?a = ''''" using cons k len by (simp add: records_consistent_def)
    moreover have "State_Attempts (finalizeBlockedSinkPredecessors assignments None now (Snapshot e)) = F"
      unfolding F_def by (rule finalized_state [OF new idle quiet])
    ultimately show ?thesis using project_attempt_progress [OF _ False] entry i(3) by simp
  qed
qed

text \<open>The latest attempt of every task has then ended among the updated attempts.\<close>

lemma idle_run_all_terminal:
  assumes new: "NewDAGExecution state = Some (Inr e)" and idle: "nothing_runs e"
    and quiet: "RunExecutionsQuiescent (Run_ID (State_Run state)) (State_Attempts state) assignments"
    and cons: "records_consistent (State_Tasks state) (State_Attempts state)"
    and ext: "externals_decided (State_External state) (State_Tasks state)"
    and S: "S = finalizeBlockedSinkPredecessors assignments None now (Snapshot e)"
  shows "all_terminal (current_attempts (Run_ID (State_Run state)) (map (project_attempt now S) (State_Attempts state)))
    (map Task_ID (State_Tasks state))"
proof -
  note facts = new_execution_facts [OF new]
  let ?as = "State_Attempts state"
  let ?us = "map (project_attempt now S) ?as"
  have "\<forall>a \<in> set ?us. Attempt_WorkflowRunID a = Run_ID (State_Run state)"
    using facts(9) by (auto simp: valid_dag_def valid_attempts_def)
  then have mine: "current_attempts (Run_ID (State_Run state)) ?us = latest_attempts ?us"
    by (simp add: current_attempts_def filter_id_conv)
  have len: "length ?as = length (attempts_of e)" using facts(5) by (simp add: list_all2_lengthD)
  have same: "Attempt_TaskID (attempts_of e ! j) = Attempt_TaskID (?as ! j)" "Attempt_Number (attempts_of e ! j) = Attempt_Number (?as ! j)"
    if "j < length ?as" for j using facts(5) that by (simp_all add: list_all2_conv_all_nth advanced_def identity_def)
  have "\<exists>a. latest_attempts ?us (Task_ID t) = Some a \<and> Terminal (Attempt_Progress a)" if t: "t \<in> set (State_Tasks state)" for t
  proof -
    let ?k = "currentAttemptIndex e (Task_ID t)"
    have t_e: "t \<in> set (tasks_of e)" using t facts(6) by simp
    have k: "?k < length ?as" "Attempt_TaskID (?as ! ?k) = Task_ID t"
      using current_index [OF facts(1) t_e] len same by auto
    have "project_attempt now S (?as ! ?k) \<in> set ?us" using k(1) by simp
    then obtain a where a: "latest_attempts ?us (Task_ID t) = Some a"
      using latest_attempts_exists [of "project_attempt now S (?as ! ?k)" ?us] k(2) by auto
    note latest = latest_attempts_Some [OF a, unfolded is_latest_def]
    then obtain j where j: "j < length ?as" "a = project_attempt now S (?as ! j)" by (auto simp: in_set_conv_nth)
    have "Attempt_Number (?as ! ?k) \<le> Attempt_Number (?as ! j)" using latest k j by auto
    moreover have "j \<in> set (Exec_attempts e (Task_ID t))"
      using facts(1) t_e latest j same len by (auto simp: dag_wf_def attempts_ok_def)
    then have "Attempt_Number (?as ! j) \<le> Attempt_Number (?as ! ?k)"
      using last_number [OF facts(1) t_e, of j] same [OF j(1)] same [OF k(1)] by (simp add: current_attempt_def)
    ultimately have "(Attempt_TaskID (?as ! j), Attempt_Number (?as ! j)) = (Attempt_TaskID (?as ! ?k), Attempt_Number (?as ! ?k))"
      using latest j k by simp
    moreover have "distinct (map (\<lambda>a. (Attempt_TaskID a, Attempt_Number a)) ?as)"
      using facts(9) by (simp add: valid_dag_def valid_attempts_def)
    ultimately have "j = ?k" using j(1) k(1) by (simp add: distinct_conv_nth) metis
    with a j idle_attempt_ends [OF new idle quiet cons ext t, of now, folded S] show ?thesis by simp
  qed
  then show ?thesis unfolding mine all_terminal_def by simp
qed

lemma final_sink_iff: "final_sink run \<longleftrightarrow> run_sink_terminal run"
  by (auto simp: final_sink_def run_sink_terminal_def split: option.splits)

section \<open>Properties\<close>

text \<open>
  C14. A run that is not supervised, in which nothing executes and nothing can start any more,
  settles at the next boundary: if the records of the run agree with each other and the nodes it
  waits for in other runs have succeeded or failed, then the projection skips every task that a
  failed dependency blocks, and commits the run with a final sink and the time of its completion.
\<close>

theorem idle_run_settles:
  assumes new: "NewDAGExecution \<lparr>State_External = external, State_Run = run, State_Tasks = tasks, State_Attempts = attempts\<rparr> = Some (Inr e)"
    and idle: "nothing_runs e" and quiet: "RunExecutionsQuiescent (Run_ID run) attempts assignments"
    and cons: "records_consistent tasks attempts" and ext: "externals_decided external tasks"
    and bind: "BindRunSink run tasks = (bound, None)" and unsettled: "\<not> run_sink_terminal run" and now: "now \<noteq> 0"
  shows "\<exists>projected updated ids. project_run run tasks attempts assignments external None now = ProjectionCommit projected updated ids
    \<and> run_sink_terminal projected \<and> Run_CompletedAt projected = Some now
    \<and> all_terminal (current_attempts (Run_ID run) updated) (map Task_ID tasks)"
proof -
  define S where "S = finalizeBlockedSinkPredecessors assignments None now (Snapshot e)"
  let ?us = "map (project_attempt now S) attempts"
  have ended: "all_terminal (current_attempts (Run_ID run) ?us) (map Task_ID tasks)"
    using idle_run_all_terminal [OF new idle _ _ _ S_def] quiet cons ext by simp
  have "RunExecutionsQuiescent (Run_ID run) ?us assignments"
    by (rule quiescent_calmer [OF quiet]) (use project_attempt_calmer in auto)
  with ended have may: "may_settle (Run_ID run) tasks ?us assignments (supervisionBarrier None)"
    by (simp add: may_settle_def barrier_iff supervisionBarrier_def)
  obtain settled where eq: "ProjectSupervisedRunSink run tasks ?us assignments (supervisionBarrier None) now = (settled, None)"
    and settled: "run_sink_terminal settled" "Run_CompletedAt settled = Some now"
    using ProjectSupervisedRunSink_open [OF bind unsettled [folded final_sink_iff] now] may
    by (auto simp: run_sink_terminal_def fresh_sink_def)
  have published: "publish_run run S settled = settled" using settled(1) by (simp add: publish_run_def)
  have "Run_Sink run \<noteq> Run_Sink settled" using settled(1) unsettled by (auto simp: run_sink_terminal_def)
  with eq published have "project_run run tasks attempts assignments external None now =
      ProjectionCommit (settled\<lparr>Run_Revision := wrap64 (Run_Revision run + 1), Run_UpdatedAt := now\<rparr>) ?us
        (map Attempt_ID (filter (\<lambda>a. project_attempt now S a \<noteq> a) attempts))"
    unfolding project_run_def new by (simp add: S_def [symmetric] Let_def)
  with ended settled show ?thesis by (simp add: run_sink_terminal_def)
qed

text \<open>A run whose first task failed while the others wait for it.\<close>

definition failed_dag :: DAGState where
  "failed_dag = \<lparr>State_External = Map.empty, State_Run = sample_run,
     State_Tasks = [sample_task ''a'' [], sample_task ''b'' [''a''], sample_task ''c'' [''b'']],
     State_Attempts = [sample_attempt ''a'' ProgressFailed, sample_attempt ''b'' ProgressBlocked, sample_attempt ''c'' ProgressBlocked]\<rparr>"

definition failed_exec :: DAGExecution where
  "failed_exec = (case NewDAGExecution failed_dag of Some (Inr e) \<Rightarrow> e)"

lemma failed_new: "NewDAGExecution failed_dag = Some (Inr failed_exec)"
proof -
  have "case NewDAGExecution failed_dag of Some (Inr _) \<Rightarrow> True | _ \<Rightarrow> False" by code_simp
  then show ?thesis by (auto simp: failed_exec_def split: option.splits sum.splits)
qed

theorem idle_run_settles_witness:
  "\<exists>projected updated ids. project_run sample_run (State_Tasks failed_dag) (State_Attempts failed_dag) [] Map.empty None 9
      = ProjectionCommit projected updated ids
    \<and> run_sink_terminal projected \<and> Run_CompletedAt projected = Some 9
    \<and> all_terminal (current_attempts ''run'' updated) (map Task_ID (State_Tasks failed_dag))"
proof -
  have new: "NewDAGExecution \<lparr>State_External = Map.empty, State_Run = sample_run, State_Tasks = State_Tasks failed_dag,
      State_Attempts = State_Attempts failed_dag\<rparr> = Some (Inr failed_exec)"
    using failed_new by (simp add: failed_dag_def)
  have idle: "nothing_runs failed_exec" by code_simp
  have quiet: "RunExecutionsQuiescent (Run_ID sample_run) (State_Attempts failed_dag) []" by code_simp
  have cons: "records_consistent (State_Tasks failed_dag) (State_Attempts failed_dag)" by code_simp
  have ext: "externals_decided Map.empty (State_Tasks failed_dag)" by (simp add: externals_decided_def failed_dag_def)
  have "snd (BindRunSink sample_run (State_Tasks failed_dag)) = None" by code_simp
  then have bind: "BindRunSink sample_run (State_Tasks failed_dag) = (fst (BindRunSink sample_run (State_Tasks failed_dag)), None)"
    by (metis prod.collapse)
  have unsettled: "\<not> run_sink_terminal sample_run" by (simp add: run_sink_terminal_def sample_run_def)
  from idle_run_settles [OF new idle quiet cons ext bind unsettled, of 9] show ?thesis by (simp add: sample_run_def)
qed

lemma finalize_cases:
  "State_Attempts (finalizeBlockedSinkPredecessors assignments supervision now state) = State_Attempts state
   \<or> RunExecutionsQuiescent (Run_ID (State_Run state)) (State_Attempts state) assignments
     \<and> State_Attempts (finalizeBlockedSinkPredecessors assignments supervision now state)
       = finalize_loop (projection_scope state supervision now) (State_Tasks state) (State_Attempts state)"
  by (simp add: finalizeBlockedSinkPredecessors_def projection_scope_def)

text \<open>
  C15. The coordinator ends a task without running it only when it has to: no execution of the run
  is in flight, the attempt is the latest of its task, blocked and unassigned, no gate or hold of
  the supervision stands before the task, and one of its dependencies has ended without
  success, be it a task of the run or a node of another run.
\<close>

theorem ended_task_has_failed_dependency:
  assumes "i < length (State_Attempts state)"
    and "as = State_Attempts (finalizeBlockedSinkPredecessors assignments supervision now state)"
    and "as ! i \<noteq> State_Attempts state ! i"
  shows "RunExecutionsQuiescent (Run_ID (State_Run state)) (State_Attempts state) assignments
    \<and> Attempt_Progress (State_Attempts state ! i) = ProgressBlocked \<and> Attempt_AssignmentID (State_Attempts state ! i) = ''''
    \<and> Attempt_Progress (as ! i) = ProgressSkipped
    \<and> (\<exists>t \<in> set (State_Tasks state). latest_index (State_Attempts state) (Task_ID t) = Some i
         \<and> \<not> supervisionDefersSkip supervision (Task_ID t)
         \<and> ((\<exists>p \<in> set (State_Tasks state). \<exists>j. Task_Name p \<in> set (Task_Needs t) \<and> latest_index (State_Attempts state) (Task_ID p) = Some j
               \<and> Terminal (Attempt_Progress (as ! j)) \<and> Attempt_Progress (as ! j) \<noteq> ProgressSucceeded)
           \<or> (\<exists>r \<in> set (Task_ExternalNeeds t). \<exists>obs. State_External state (NodeRef_String r) = Some obs \<and> Observation_ExitCode obs = 2)))"
proof -
  let ?scope = "projection_scope state supervision now"
  have "as \<noteq> State_Attempts state" using assms(3) by blast
  with finalize_cases [of assignments supervision now state, folded assms(2)]
  have quiet: "RunExecutionsQuiescent (Run_ID (State_Run state)) (State_Attempts state) assignments"
    and as: "as = finalize_loop ?scope (State_Tasks state) (State_Attempts state)" by blast+
  have "finalized ?scope (State_Tasks state) (State_Attempts state) as"
    unfolding as using finalize_loop_correct [OF projection_scope_ok] by blast
  with assms(1,3) have skipped: "Attempt_Progress (State_Attempts state ! i) = ProgressBlocked"
    "Attempt_AssignmentID (State_Attempts state ! i) = ''''" "Attempt_Progress (as ! i) = ProgressSkipped"
    and may: "may_skip ?scope (State_Tasks state) as i" by (auto simp: finalized_def skip_blocked_def)
  from may obtain t where t: "t \<in> set (State_Tasks state)" "latest_index (State_Attempts state) (Task_ID t) = Some i"
    "\<not> supervisionDefersSkip supervision (Task_ID t)" "failed_needs ?scope as t \<noteq> []"
    by (auto simp: may_skip_def projection_scope_def)
  from t(4) consider (need) d where "d \<in> set (Task_Needs t)" "need_failed ?scope as d"
    | (external) r where "r \<in> set (Task_ExternalNeeds t)" "external_failed ?scope r"
    by (auto simp: failed_needs_def filter_empty_conv)
  then have "(\<exists>p \<in> set (State_Tasks state). \<exists>j. Task_Name p \<in> set (Task_Needs t) \<and> latest_index (State_Attempts state) (Task_ID p) = Some j
               \<and> Terminal (Attempt_Progress (as ! j)) \<and> Attempt_Progress (as ! j) \<noteq> ProgressSucceeded)
           \<or> (\<exists>r \<in> set (Task_ExternalNeeds t). \<exists>obs. State_External state (NodeRef_String r) = Some obs \<and> Observation_ExitCode obs = 2)"
  proof cases
    case (need d)
    then obtain p j where p: "index_by Task_Name (State_Tasks state) d = Some p" and j: "latest_index (State_Attempts state) (Task_ID p) = Some j"
      "Terminal (Attempt_Progress (as ! j))" "Attempt_Progress (as ! j) \<noteq> ProgressSucceeded"
      by (auto simp: need_failed_def projection_scope_def split: option.splits)
    moreover have "p \<in> set (State_Tasks state)" "Task_Name p \<in> set (Task_Needs t)" using index_by_SomeD [OF p] need(1) by simp_all
    ultimately show ?thesis by blast
  next
    case (external r)
    then show ?thesis by (auto simp: external_failed_def projection_scope_def split: option.splits)
  qed
  with t(2,3) show ?thesis by (intro conjI bexI [OF _ t(1)] quiet skipped) simp_all
qed

theorem ended_task_has_failed_dependency_witness:
  "Attempt_Progress (State_Attempts failed_dag ! 2) = ProgressBlocked
   \<and> (\<exists>t \<in> set (State_Tasks failed_dag). latest_index (State_Attempts failed_dag) (Task_ID t) = Some 2
       \<and> (\<exists>p \<in> set (State_Tasks failed_dag). Task_Name p \<in> set (Task_Needs t)))"
proof -
  have "Attempt_Progress (State_Attempts (finalizeBlockedSinkPredecessors [] None 9 failed_dag) ! 2)
      \<noteq> Attempt_Progress (State_Attempts failed_dag ! 2)" by code_simp
  then have "State_Attempts (finalizeBlockedSinkPredecessors [] None 9 failed_dag) ! 2 \<noteq> State_Attempts failed_dag ! 2" by metis
  from ended_task_has_failed_dependency [OF _ refl this] show ?thesis by (auto simp: failed_dag_def)
qed

lemma projected_entry:
  assumes new: "NewDAGExecution state = Some (Inr e)" and k: "k < length (State_Attempts state)"
    and S: "S = finalizeBlockedSinkPredecessors assignments supervision now (Snapshot e)"
  shows "\<exists>b. index_by Attempt_ID (State_Attempts S) (Attempt_ID (State_Attempts state ! k)) = Some b
    \<and> (if waiting (State_Attempts state ! k) then waits_or_skipped b else b = State_Attempts state ! k)"
proof -
  note facts = new_execution_facts [OF new]
  let ?S = "State_Attempts (Snapshot e)" and ?scope = "projection_scope (Snapshot e) supervision now"
  have fin: "finalized ?scope (State_Tasks (Snapshot e)) ?S (State_Attempts S)"
    using finalize_cases [of assignments supervision now "Snapshot e"] S finalize_loop_correct [OF projection_scope_ok]
    by (metis finalized_refl)
  have adv: "advanced (State_Attempts state ! k) (attempts_of e ! k)" and len: "k < length (attempts_of e)"
    using facts(5) k by (simp_all add: list_all2_conv_all_nth)
  have "attempts_of e ! k \<in> set ?S" using len by simp
  then obtain i where i: "i < length ?S" "?S ! i = attempts_of e ! k" unfolding in_set_conv_nth by blast
  have entry: "index_by Attempt_ID (State_Attempts S) (Attempt_ID (State_Attempts state ! k)) = Some (State_Attempts S ! i)"
    using finalized_entry [OF fin i(1)] i(2) adv facts(2) by (simp add: valid_dag_def valid_attempts_def advanced_def calmer_def)
  have "if waiting (State_Attempts state ! k) then waits_or_skipped (State_Attempts S ! i) else State_Attempts S ! i = State_Attempts state ! k"
  proof (cases "Attempt_Progress (attempts_of e ! k) = ProgressBlocked")
    case True
    then have "waiting (attempts_of e ! k)" by (simp add: waiting_def)
    with adv have "waiting (State_Attempts state ! k)" by (auto simp: advanced_def split: if_splits)
    moreover have "waits_or_skipped (State_Attempts S ! i)"
      using finalized_progress(2) [OF fin i(1)] i(2) True by (auto simp: waits_or_skipped_def waiting_def)
    ultimately show ?thesis by simp
  next
    case False
    with finalized_progress(1) [OF fin i(1)] i(2) adv show ?thesis by (simp add: advanced_def)
  qed
  with entry show ?thesis by blast
qed

lemma project_attempt_waiting:
  assumes "index_by Attempt_ID (State_Attempts S) (Attempt_ID a) = Some b" and "if waiting a then waits_or_skipped b else b = a"
    and "project_attempt now S a \<noteq> a"
  shows "waiting a \<and> Attempt_AssignmentID a = '''' \<and> waits_or_skipped (project_attempt now S a)
    \<and> Attempt_Revision (project_attempt now S a) = wrap64 (Attempt_Revision a + 1)"
proof -
  have w: "waiting a" and free: "Attempt_AssignmentID a = ''''" "\<not> Terminal (Attempt_Progress a)"
    using assms by (auto simp: project_attempt_def Let_def split: if_splits)
  moreover have "Attempt_Progress (project_attempt now S a) = Attempt_Progress b"
    by (rule project_attempt_progress [OF free assms(1)])
  then have "waits_or_skipped (project_attempt now S a)" using assms(2) w by (simp add: waits_or_skipped_def waiting_def)
  moreover have "Attempt_Revision (project_attempt now S a) = wrap64 (Attempt_Revision a + 1)"
    using assms(1,3) free by (auto simp: project_attempt_def Let_def)
  ultimately show ?thesis by blast
qed

text \<open>
  C16. A committed projection leaves started and finished work alone: it keeps which attempts the
  run has, changes only attempts that wait without an assignment, which then still wait or are
  skipped, raises the revision of each of them and reports exactly those, and raises the
  revision of the run.
\<close>

theorem projection_touches_only_waiting:
  assumes "project_run run tasks attempts assignments external supervision now = ProjectionCommit projected updated ids"
  shows "map identity updated = map identity attempts \<and> Run_Revision projected = wrap64 (Run_Revision run + 1)
    \<and> (\<forall>k < length attempts. updated ! k \<noteq> attempts ! k \<longrightarrow>
         waiting (attempts ! k) \<and> Attempt_AssignmentID (attempts ! k) = '''' \<and> waits_or_skipped (updated ! k)
         \<and> Attempt_Revision (updated ! k) = wrap64 (Attempt_Revision (attempts ! k) + 1) \<and> Attempt_ID (attempts ! k) \<in> set ids)
    \<and> ids = map Attempt_ID (map fst (filter (\<lambda>(a, b). b \<noteq> a) (zip attempts updated)))"
proof -
  let ?state = "\<lparr>State_External = external, State_Run = run, State_Tasks = tasks, State_Attempts = attempts\<rparr>"
  obtain e where new: "NewDAGExecution ?state = Some (Inr e)"
    using assms by (auto simp: project_run_def split: option.splits sum.splits)
  define S where "S = finalizeBlockedSinkPredecessors assignments supervision now (Snapshot e)"
  have commit: "updated = map (project_attempt now S) attempts" "Run_Revision projected = wrap64 (Run_Revision run + 1)"
    "ids = map Attempt_ID (filter (\<lambda>a. project_attempt now S a \<noteq> a) attempts)"
    using assms unfolding project_run_def new by (auto simp: S_def [symmetric] Let_def split: prod.splits option.splits if_splits)
  have "waiting (attempts ! k) \<and> Attempt_AssignmentID (attempts ! k) = '''' \<and> waits_or_skipped (updated ! k)
      \<and> Attempt_Revision (updated ! k) = wrap64 (Attempt_Revision (attempts ! k) + 1) \<and> Attempt_ID (attempts ! k) \<in> set ids"
    if k: "k < length attempts" "updated ! k \<noteq> attempts ! k" for k
  proof -
    from projected_entry [OF new _ S_def, of k] k(1) obtain b where
      "index_by Attempt_ID (State_Attempts S) (Attempt_ID (attempts ! k)) = Some b"
      "if waiting (attempts ! k) then waits_or_skipped b else b = attempts ! k" by auto
    from project_attempt_waiting [OF this] k show ?thesis by (simp add: commit)
  qed
  moreover have "ids = map Attempt_ID (map fst (filter (\<lambda>(a, b). b \<noteq> a) (zip attempts updated)))"
    unfolding commit by (induction attempts) auto
  ultimately show ?thesis using commit by simp
qed

theorem projection_touches_only_waiting_witness:
  "\<exists>projected updated ids. project_run sample_run (State_Tasks failed_dag) (State_Attempts failed_dag) [] Map.empty None 9
      = ProjectionCommit projected updated ids \<and> Run_Revision projected = 5 \<and> updated ! 0 = State_Attempts failed_dag ! 0"
proof -
  have "case project_run sample_run (State_Tasks failed_dag) (State_Attempts failed_dag) [] Map.empty None 9 of
      ProjectionCommit _ _ _ \<Rightarrow> True | _ \<Rightarrow> False" by code_simp
  then obtain projected updated ids where eq: "project_run sample_run (State_Tasks failed_dag) (State_Attempts failed_dag) [] Map.empty None 9
      = ProjectionCommit projected updated ids" by (auto split: projection_outcome.splits)
  have "\<not> waiting (State_Attempts failed_dag ! 0)" "0 < length (State_Attempts failed_dag)"
    by (simp_all add: failed_dag_def waiting_def)
  with projection_touches_only_waiting [OF eq] eq show ?thesis by (auto simp: sample_run_def wrap64_def)
qed

text \<open>
  C24. A retry comes before the settlement: while the coordinator is about to retry an attempt, or
  has asked for the retry and it is not applied yet, the boundary does not touch the run of the
  attempt, whatever the other records hold, so neither its sink nor the dependents of the failed
  task are decided before the retry runs.
\<close>

theorem retry_precedes_settlement:
  assumes "command \<in> set (Plan_Commands (PlanAutomaticRetries records coordinatorMax now))"
  shows "\<exists>attempt \<in> set (Records_Attempts records). Command_TargetID command = Attempt_ID attempt
    \<and> (\<forall>later commands. set commands \<subseteq> {command} \<longrightarrow>
         Attempt_WorkflowRunID attempt \<notin> fst ` set (ProjectWorkflowRunsWithRetries rt
           (records\<lparr>Records_AdminCommands := Records_AdminCommands records @ commands\<rparr>) coordinatorMax source later))"
proof -
  from assms obtain decision where d: "decision \<in> set (automaticRetryDecisions records coordinatorMax)"
    and p: "plan_retry records now decision = Some command"
    by (auto simp: PlanAutomaticRetries_def map_filter_set)
  let ?a = "Decision_attempt decision" and ?id = "AR_CommandID (Decision_retry decision)"
  have fresh: "index_by Command_ID (Records_AdminCommands records) ?id = None"
    and cmd: "Command_TargetID command = Attempt_ID ?a" "Command_State command = AdminCommandPending"
    using p by (auto simp: plan_retry_def retry_command_def Let_def split: if_splits)
  have "Attempt_WorkflowRunID ?a \<in> AutomaticRetryPendingRuns (records\<lparr>Records_AdminCommands := Records_AdminCommands records @ commands\<rparr>) coordinatorMax"
    if c: "set commands \<subseteq> {command}" for commands
  proof -
    let ?r = "records\<lparr>Records_AdminCommands := Records_AdminCommands records @ commands\<rparr>"
    have same: "automaticRetryDecisions ?r coordinatorMax = automaticRetryDecisions records coordinatorMax"
    proof -
      have "retry_decision ?r coordinatorMax = retry_decision records coordinatorMax"
        by (rule ext) (simp add: retry_decision_def Let_def cong: if_cong option.case_cong)
      then show ?thesis by (simp add: automaticRetryDecisions_def)
    qed
    have "case index_by Command_ID (Records_AdminCommands ?r) ?id of None \<Rightarrow> True | Some old \<Rightarrow> Command_State old = AdminCommandPending"
    proof (cases "index_by Command_ID (Records_AdminCommands ?r) ?id")
      case (Some old)
      then have "old \<in> set (Records_AdminCommands ?r)" "Command_ID old = ?id" by (auto dest: index_by_SomeD)
      with fresh c have "old = command" by (auto simp: index_by_None)
      with Some cmd(2) show ?thesis by simp
    qed simp
    with d same show ?thesis by (force simp: AutomaticRetryPendingRuns_def)
  qed
  then have "Attempt_WorkflowRunID ?a \<notin> fst ` set (ProjectWorkflowRunsWithRetries rt
      (records\<lparr>Records_AdminCommands := Records_AdminCommands records @ commands\<rparr>) coordinatorMax source later)"
    if "set commands \<subseteq> {command}" for commands later
    using that by (force simp: ProjectWorkflowRunsWithRetries_def)
  moreover obtain run task where "qualifies records coordinatorMax ?a run task" using decision_qualifies [OF d] by blast
  then have "?a \<in> set (Records_Attempts records)" by (auto simp: qualifies_def DeclaredTaskAttempts_filter)
  ultimately show ?thesis using cmd(1) by blast
qed

theorem retry_precedes_settlement_witness:
  "\<exists>command attempt. command \<in> set (Plan_Commands (PlanAutomaticRetries retry_sample 3 200)) \<and> attempt \<in> set (Records_Attempts retry_sample)
     \<and> Attempt_WorkflowRunID attempt \<notin> fst ` set (ProjectWorkflowRunsWithRetries plain_runtime retry_sample 3 (\<lambda>_. None) 300)"
proof -
  let ?commands = "Plan_Commands (PlanAutomaticRetries retry_sample 3 200)"
  have "?commands \<noteq> []" by code_simp
  then obtain command where c: "command \<in> set ?commands" by (cases ?commands) auto
  have plain: "retry_sample\<lparr>Records_AdminCommands := Records_AdminCommands retry_sample @ []\<rparr> = retry_sample" by simp
  from retry_precedes_settlement [OF c, of plain_runtime "\<lambda>_. None"] obtain attempt where
    a: "attempt \<in> set (Records_Attempts retry_sample)"
    and out: "\<forall>later commands. set commands \<subseteq> {command} \<longrightarrow>
         Attempt_WorkflowRunID attempt \<notin> fst ` set (ProjectWorkflowRunsWithRetries plain_runtime
           (retry_sample\<lparr>Records_AdminCommands := Records_AdminCommands retry_sample @ commands\<rparr>) 3 (\<lambda>_. None) later)" by blast
  from out [rule_format, of "[]" 300] c a plain show ?thesis by auto
qed

end
