(* ===== verification/TaskWaits.thy ===== *)
theory TaskWaits
  imports Nodes Routing
begin

text \<open>
  Task-bound waits: an attempt parks on a condition, the condition settles once, the attempt is
  woken once, and its wake is delivered at most once (\<open>internal/domain/task_wait.go\<close>,
  \<open>internal/domain/wait_kind.go\<close>, \<open>internal/store/sqlite/task_wait.go\<close>, \<open>executor_capacity.go\<close>).

  The tables are a record of lists, and a transaction is a function that returns the changed
  tables or an error that leaves them as they were; failures of the database are left out. The
  waits are the local kinds and node waits: \<open>Quota\<close>, \<open>Attention\<close> and \<open>Ask\<close> of a registration and of a
  stored wait are nil, so that a registration of one of these kinds is refused by its validation,
  as in the code. The digest of a condition is an argument. A formatted text that is only stored
  or compared is its format with the arguments.
\<close>

section \<open>Kinds\<close>

datatype WaitKind =
    WaitKindEmpty
  | WaitKindShell
  | WaitKindTime
  | WaitKindGitHub
  | WaitKindNode
  | WaitKindQuota
  | WaitKindAttention
  | WaitKindAsk
  | WaitKindOther string

fun WaitKind_text :: "WaitKind \<Rightarrow> string" where
  "WaitKind_text WaitKindEmpty = ''''"
| "WaitKind_text WaitKindShell = ''shell''"
| "WaitKind_text WaitKindTime = ''time''"
| "WaitKind_text WaitKindGitHub = ''github''"
| "WaitKind_text WaitKindNode = ''node''"
| "WaitKind_text WaitKindQuota = ''quota''"
| "WaitKind_text WaitKindAttention = ''attention''"
| "WaitKind_text WaitKindAsk = ''ask''"
| "WaitKind_text (WaitKindOther text) = text"

definition WaitKind_Local :: "WaitKind \<Rightarrow> bool" where
  "WaitKind_Local k \<longleftrightarrow> k \<in> {WaitKindShell, WaitKindTime, WaitKindGitHub, WaitKindEmpty}"

definition WaitKind_Coordinator :: "WaitKind \<Rightarrow> bool" where
  "WaitKind_Coordinator k \<longleftrightarrow> k = WaitKindNode \<or> k = WaitKindQuota \<or> k = WaitKindAttention \<or> k = WaitKindAsk"

definition OrShell :: "WaitKind \<Rightarrow> WaitKind" where
  "OrShell k = (if k = WaitKindEmpty then WaitKindShell else k)"

definition WaitKinds :: "WaitKind list" where
  "WaitKinds = [WaitKindShell, WaitKindTime, WaitKindGitHub, WaitKindNode, WaitKindQuota, WaitKindAttention, WaitKindAsk]"

datatype WakeMode = WakeEach | WakeAll | WakeOther string

fun WakeMode_text :: "WakeMode \<Rightarrow> string" where
  "WakeMode_text WakeEach = ''each''"
| "WakeMode_text WakeAll = ''all''"
| "WakeMode_text (WakeOther text) = text"

fun TaskWaitOutcome_text :: "TaskWaitOutcome \<Rightarrow> string" where
  "TaskWaitOutcome_text TaskWaitNone = ''''"
| "TaskWaitOutcome_text TaskWaitMet = ''met''"
| "TaskWaitOutcome_text TaskWaitFailed = ''failed''"
| "TaskWaitOutcome_text TaskWaitTimedOut = ''timed-out''"
| "TaskWaitOutcome_text TaskWaitGaveUp = ''gave-up''"
| "TaskWaitOutcome_text TaskWaitCancelled = ''cancelled''"
| "TaskWaitOutcome_text (TaskWaitOther text) = text"

section \<open>Records\<close>

record TaskWaitResult =
  WaitResult_Outcome :: TaskWaitOutcome
  WaitResult_ExitCode :: int
  WaitResult_Reason :: go_text
  WaitResult_Output :: string
  WaitResult_RanFor :: duration
  WaitResult_ObservedAt :: instant

record NodeWaitCondition =
  NodeCond_Target :: NodeRef
  NodeCond_State :: NodeWaitState

definition NodeWaitCondition_String :: "NodeWaitCondition \<Rightarrow> string" where
  "NodeWaitCondition_String c =
     (let state = (if NodeCond_State c = NodeStateOther '''' then NodeStateTerminal else NodeCond_State c)
      in ''node '' @ NodeRef_String (NodeCond_Target c) @ '' '' @ NodeWaitState_text state)"

record TaskWaitWakeDeferral =
  Deferral_Code :: string
  Deferral_Detail :: string
  Deferral_WorkerID :: string
  Deferral_PoolID :: string
  Deferral_ObservedAt :: instant

record TaskWait =
  Wait_ID :: string
  Wait_WorkflowRunID :: string
  Wait_TaskID :: string
  Wait_AttemptID :: string
  Wait_IssuedRevision :: int64
  Wait_ThreadID :: string
  Wait_Wake :: WakeMode
  Wait_MaxDuration :: duration
  Wait_RequestID :: string
  Wait_ConditionDigest :: string
  Wait_Name :: string
  Wait_Condition :: string
  Wait_Kind :: WaitKind
  Wait_OrTimeout :: bool
  Wait_Node :: "NodeWaitCondition option"
  Wait_RegisteredRevision :: int64
  Wait_RegisteredAt :: instant
  Wait_Deadline :: instant
  Wait_Result :: "TaskWaitResult option"
  Wait_SettledAt :: "instant option"
  Wait_WokenAt :: "instant option"
  Wait_Delivery :: string
  Wait_DeliveredAt :: "instant option"
  Wait_DeliveryObservedAt :: "instant option"
  Wait_DeliveryID :: string
  Wait_WakeRevision :: int64
  Wait_Resumption :: bool
  Wait_WakeDeferral :: "TaskWaitWakeDeferral option"

definition Wait_Live :: "TaskWait \<Rightarrow> bool" where
  "Wait_Live w \<longleftrightarrow> Wait_SettledAt w = None"

definition Wait_Settled :: "TaskWait \<Rightarrow> bool" where
  "Wait_Settled w \<longleftrightarrow> Wait_SettledAt w \<noteq> None"

definition Wait_Woken :: "TaskWait \<Rightarrow> bool" where
  "Wait_Woken w \<longleftrightarrow> Wait_WokenAt w \<noteq> None"

definition Parking :: "TaskWait \<Rightarrow> bool" where
  "Parking w =
     (if Wait_Live w then True
      else if \<not> Wait_Woken w then True
      else if \<not> Wait_Resumption w then False
      else Wait_Delivery w \<noteq> ''delivered'' \<and> Wait_Delivery w \<noteq> ''observed'' \<and> Wait_Delivery w \<noteq> ''abandoned'')"

record ShellWaitCondition =
  Shell_Dir :: string
  Shell_Command :: "string list"

record TaskWaitRegistration =
  Reg_RequestID :: string
  Reg_WorkflowRunID :: string
  Reg_TaskID :: string
  Reg_AttemptID :: string
  Reg_IssuedRevision :: int64
  Reg_ThreadID :: string
  Reg_Wake :: WakeMode
  Reg_MaxDuration :: duration
  Reg_Name :: string
  Reg_Condition :: string
  Reg_Shell :: "ShellWaitCondition option"
  Reg_Kind :: WaitKind
  Reg_OrTimeout :: bool
  Reg_Node :: "NodeWaitCondition option"

definition MaxTaskWaitDuration :: duration where
  "MaxTaskWaitDuration = 30 * 24 * hour"

definition TaskWaitRegistration_Validate :: "TaskWaitRegistration \<Rightarrow> go_error option" where
  "TaskWaitRegistration_Validate r =
     (if blank (Reg_RequestID r) \<or> length (Reg_RequestID r) > 128
      then Some (Errorf ''task-bound wait needs a request ID of at most 128 bytes'' [])
      else if Reg_WorkflowRunID r = '''' \<or> Reg_TaskID r = '''' \<or> Reg_AttemptID r = ''''
      then Some (Errorf ''task-bound wait needs a workflow run, task and attempt'' [])
      else if Reg_IssuedRevision r < 0
      then Some (Errorf ''task-bound wait needs a non-negative issued attempt revision'' [])
      else if Reg_ThreadID r = ''''
      then Some (Errorf ''task-bound wait needs the canonical T3 thread'' [])
      else if Reg_Wake r \<noteq> WakeEach \<and> Reg_Wake r \<noteq> WakeAll
      then Some (Errorf ''task-bound wait wake mode %q must be each or all'' [WakeMode_text (Reg_Wake r)])
      else if Reg_MaxDuration r \<le> 0 \<or> Reg_MaxDuration r > MaxTaskWaitDuration
      then Some (Errorf ''task-bound wait needs a maximum duration above zero and at most %s'' [''720h0m0s''])
      else if length (Reg_Name r) > 1000 \<or> length (Reg_Condition r) > 4000
      then Some (Errorf ''task-bound wait name or condition is too long'' [])
      else if \<not> WaitKind_Local (Reg_Kind r) \<and> \<not> WaitKind_Coordinator (Reg_Kind r)
      then Some (Errorf ''task-bound wait kind %q is not one of %v'' (WaitKind_text (Reg_Kind r) # map WaitKind_text WaitKinds))
      else if Reg_Kind r = WaitKindNode \<and> (case Reg_Node r of None \<Rightarrow> True
             | Some n \<Rightarrow> NodeRef_RunID (NodeCond_Target n) = '''' \<or> NodeRef_TaskID (NodeCond_Target n) = '''')
      then Some (Errorf ''a node wait needs a target run and task'' [])
      else if Reg_Kind r \<noteq> WaitKindNode \<and> Reg_Node r \<noteq> None
      then Some (Errorf ''a %s wait carries no node condition'' [WaitKind_text (OrShell (Reg_Kind r))])
      else if Reg_Kind r = WaitKindQuota then Some (Errorf ''a quota wait needs its pool and condition'' [])
      else if Reg_Kind r = WaitKindAttention then Some (Errorf ''an attention wait needs its typed request'' [])
      else if Reg_Kind r = WaitKindAsk then Some (Errorf ''an ask wait needs its question'' [])
      else (case Reg_Node r of
              None \<Rightarrow> None
            | Some n \<Rightarrow> (case ParseNodeWaitState (NodeWaitState_text (NodeCond_State n)) of Inl e \<Rightarrow> Some e | Inr _ \<Rightarrow> None)))"

datatype TaskWaitReconciliationKind =
    TaskWaitReconciliationDoneWhileWaiting
  | TaskWaitReconciliationAuthorityRevoked
  | TaskWaitReconciliationExpired
  | TaskWaitReconciliationUndelivered
  | TaskWaitReconciliationOther string

record TaskWaitReconciliation =
  Event_ID :: string
  Event_Kind :: TaskWaitReconciliationKind
  Event_AttemptID :: string
  Event_WaitID :: string
  Event_ThreadID :: string
  Event_Detail :: go_text
  Event_ObservedAt :: instant

record TaskWaitWakeContext =
  Wake_WorkerID :: string
  Wake_WorkspacePath :: string
  Wake_AttemptID :: string
  Wake_ThreadID :: string
  Wake_AttemptRevision :: int64
  Wake_Waits :: "TaskWait list"

definition TaskWaitWakeContext_Resumption :: "TaskWaitWakeContext \<Rightarrow> bool" where
  "TaskWaitWakeContext_Resumption c \<longleftrightarrow> list_ex Wait_Resumption (Wake_Waits c)"

section \<open>The tables\<close>

text \<open>The assignment with the fields only this component uses, a worker snapshot with what the
  inventory in it says, and a quota pool with its exemption.\<close>

record StoredAssignment = Assignment +
  Assigned_Route :: ProviderRoute
  Assigned_Project :: string
  Assigned_ThreadID :: string
  Assigned_DispatchToken :: string
  Assigned_DispatchError :: string
  Assigned_ExecutorDemand :: "ResourceDemand option"
  Assigned_PlacementDemand :: "ResourceDemand option"
  Assigned_UpdatedAt :: instant

record StoredSnapshot = WorkerSnapshot +
  Stored_WorkerEpoch :: string
  Stored_Sequence :: int64
  Stored_CatalogRevision :: string
  Stored_Providers :: "WorkerProviderInventory list"
  Stored_Projects :: "WorkerProjectInventory list"
  Stored_CPUClass :: CPUClass
  Stored_Allocatable :: AllocatableCapacity
  Stored_ValidUntil :: instant
  Stored_Workspaces :: "(string \<times> string) list"

record StoredPool = QuotaPool +
  Pool_ChecksDisabled :: bool

record QuotaAdmissionRecord =
  Admission_QuotaPoolID :: string
  Admission_Admission :: AdmissionState
  Admission_ObservedAt :: instant

record wait_store =
  Store_waits :: "TaskWait list"
  Store_events :: "TaskWaitReconciliation list"
  Store_attempts :: "Attempt list"
  Store_assignments :: "StoredAssignment list"
  Store_runs :: "WorkflowRun list"
  Store_tasks :: "Task list"
  Store_projects :: "(string \<times> string) list"
  Store_workers :: "StoredSnapshot list"
  Store_pools :: "StoredPool list"
  Store_admissions :: "QuotaAdmissionRecord list"

definition bind_result :: "'a go_result \<Rightarrow> ('a \<Rightarrow> 'b go_result) \<Rightarrow> 'b go_result" where
  "bind_result r f = (case r of Inl e \<Rightarrow> Inl e | Inr x \<Rightarrow> f x)"

definition wait_less :: "TaskWait \<Rightarrow> TaskWait \<Rightarrow> bool" where
  "wait_less a b \<longleftrightarrow> Wait_ID a < Wait_ID b"

definition load_waits :: "wait_store \<Rightarrow> TaskWait list" where
  "load_waits st = sort_less wait_less (Store_waits st)"

definition put_wait :: "TaskWait \<Rightarrow> TaskWait list \<Rightarrow> TaskWait list" where
  "put_wait w ws =
     (if list_ex (\<lambda>v. Wait_ID v = Wait_ID w) ws then map (\<lambda>v. if Wait_ID v = Wait_ID w then w else v) ws else ws @ [w])"

definition saveTaskWaitTx :: "TaskWait \<Rightarrow> wait_store \<Rightarrow> wait_store" where
  "saveTaskWaitTx w st = st\<lparr>Store_waits := put_wait w (Store_waits st)\<rparr>"

definition loadAttemptTx :: "wait_store \<Rightarrow> string \<Rightarrow> Attempt go_result" where
  "loadAttemptTx st i =
     (case find (\<lambda>a. Attempt_ID a = i) (Store_attempts st) of
        None \<Rightarrow> Inl (Errorf ''load attempt %q: %w'' [i, ''sql: no rows in result set'']) | Some a \<Rightarrow> Inr a)"

definition loadAssignmentTx :: "wait_store \<Rightarrow> string \<Rightarrow> StoredAssignment go_result" where
  "loadAssignmentTx st i =
     (case find (\<lambda>a. Assignment_ID a = i) (Store_assignments st) of
        None \<Rightarrow> Inl (Errorf ''load assignment %q: %w'' [i, ''sql: no rows in result set'']) | Some a \<Rightarrow> Inr a)"

definition loadWorkerSnapshotTx :: "wait_store \<Rightarrow> string \<Rightarrow> StoredSnapshot option" where
  "loadWorkerSnapshotTx st i = find (\<lambda>w. WorkerSnap_WorkerID w = i) (Store_workers st)"

definition ErrTaskWaitStaleRevision :: string where
  "ErrTaskWaitStaleRevision = ''task-bound wait names a stale attempt revision''"

definition saveAttemptFencedTx :: "Attempt \<Rightarrow> int64 \<Rightarrow> wait_store \<Rightarrow> wait_store go_result" where
  "saveAttemptFencedTx attempt expected st =
     (if list_ex (\<lambda>a. Attempt_ID a = Attempt_ID attempt \<and> Attempt_Revision a = expected) (Store_attempts st)
      then Inr (st\<lparr>Store_attempts := map (\<lambda>a. if Attempt_ID a = Attempt_ID attempt then attempt else a) (Store_attempts st)\<rparr>)
      else Inl (Errorf ''%w: attempt %q is no longer at revision %d'' [ErrTaskWaitStaleRevision, Attempt_ID attempt, show_int expected]))"

definition recordTaskWaitEventTx :: "TaskWaitReconciliation \<Rightarrow> wait_store \<Rightarrow> wait_store" where
  "recordTaskWaitEventTx event st =
     (if list_ex (\<lambda>e. Event_ID e = Event_ID event) (Store_events st) then st
      else st\<lparr>Store_events := Store_events st @ [event]\<rparr>)"

section \<open>Registration\<close>

definition taskWaitID :: "string \<Rightarrow> string" where
  "taskWaitID requestID = ''tw-'' @ requestID"

definition ErrTaskWaitTerminalAttempt :: string where
  "ErrTaskWaitTerminalAttempt = ''attempt is terminal''"

definition TaskWaitTerminalRefusal :: "ProgressState \<Rightarrow> go_error" where
  "TaskWaitTerminalRefusal progress = Errorf ''%w (%s); task-bound waits are refused'' [ErrTaskWaitTerminalAttempt, ProgressState_text progress]"

definition ErrTaskWaitTurnNotLive :: string where
  "ErrTaskWaitTurnNotLive = ''task-bound wait names an attempt with no live turn''"

definition ErrTaskWaitForeignThread :: string where
  "ErrTaskWaitForeignThread = ''task-bound wait names an attempt running on another thread''"

definition ErrTaskWaitReplayChanged :: string where
  "ErrTaskWaitReplayChanged = ''task-bound wait request ID replay changed the registration''"

definition ErrTaskWaitReplayCondition :: string where
  "ErrTaskWaitReplayCondition = ErrTaskWaitReplayChanged @ '': the request ID already registered a different condition''"

definition ErrTaskWaitReplaySettled :: string where
  "ErrTaskWaitReplaySettled = ''task-bound wait has already settled; a repeated request ID cannot park the attempt again''"

definition ErrTaskWaitReplayNotParked :: string where
  "ErrTaskWaitReplayNotParked = ''task-bound wait is live but its attempt is not parked''"

definition resolveNodeState :: "go_runtime \<Rightarrow> NodeWaitCondition \<Rightarrow> wait_store \<Rightarrow> NodeObservation \<times> go_error option" where
  "resolveNodeState rt condition st =
     ResolveNodeState rt (NodeCond_Target condition) (NodeCond_State condition) (Store_runs st) (Store_tasks st)
       (Store_attempts st) (map Assignment.truncate (Store_assignments st)) (map WorkerSnapshot.truncate (Store_workers st))"

definition default_state :: "NodeWaitCondition \<Rightarrow> NodeWaitCondition" where
  "default_state c = (if NodeCond_State c = NodeStateOther '''' then c\<lparr>NodeCond_State := NodeStateTerminal\<rparr> else c)"

definition sameLegacyConditionTx :: "go_runtime \<Rightarrow> TaskWait \<Rightarrow> TaskWaitRegistration \<Rightarrow> wait_store \<Rightarrow> bool" where
  "sameLegacyConditionTx rt stored request st =
     (let derived = WaitKind_Coordinator (OrShell (Reg_Kind request)); kind = OrShell (Reg_Kind request) in
      if Reg_Shell request \<noteq> None then False
      else if Wait_OrTimeout stored \<noteq> Reg_OrTimeout request then False
      else if (Reg_Condition request \<noteq> '''' \<or> \<not> derived) \<and> Reg_Condition request \<noteq> Wait_Condition stored then False
      else if (Reg_Name request \<noteq> '''' \<or> \<not> derived) \<and> Reg_Name request \<noteq> Wait_Name stored then False
      else if \<not> WaitKind_Coordinator kind then Wait_Node stored = None
      else if kind = WaitKindAttention \<or> kind = WaitKindAsk then True
      else (case Reg_Node request of
        None \<Rightarrow> False
      | Some node \<Rightarrow> (case Wait_Node stored of
          None \<Rightarrow> False
        | Some kept \<Rightarrow> (case resolveNodeState rt (default_state node) st of
            (_, Some _) \<Rightarrow> False
          | (obs, None) \<Rightarrow> Observation_Target obs = NodeCond_Target kept
              \<and> NodeCond_State (default_state node) = NodeCond_State kept))))"

definition replaySettledOutcome :: "TaskWait \<Rightarrow> string" where
  "replaySettledOutcome w = (case Wait_Result w of None \<Rightarrow> ''settled'' | Some r \<Rightarrow> TaskWaitOutcome_text (WaitResult_Outcome r))"

definition same_registration :: "TaskWait \<Rightarrow> TaskWaitRegistration \<Rightarrow> bool" where
  "same_registration w r \<longleftrightarrow>
     Wait_AttemptID w = Reg_AttemptID r \<and> Wait_ThreadID w = Reg_ThreadID r \<and> Wait_Wake w = Reg_Wake r
     \<and> Wait_MaxDuration w = Reg_MaxDuration r \<and> Wait_WorkflowRunID w = Reg_WorkflowRunID r \<and> Wait_TaskID w = Reg_TaskID r
     \<and> OrShell (Wait_Kind w) = OrShell (Reg_Kind r)"

definition replay_wait :: "go_runtime \<Rightarrow> string \<Rightarrow> TaskWaitRegistration \<Rightarrow> TaskWait \<Rightarrow> wait_store \<Rightarrow> TaskWait go_result" where
  "replay_wait rt digest request wait st =
     (if \<not> same_registration wait request then Inl (Errorf ''%w'' [ErrTaskWaitReplayChanged])
      else if Wait_ConditionDigest wait \<noteq> '''' \<and> Wait_ConditionDigest wait \<noteq> digest
      then Inl (Errorf ''%w: request ID %q is wait %s, which waits for %q; register the new condition without --request-id, or with a different one, to add it to this park''
             [ErrTaskWaitReplayCondition, Reg_RequestID request, Wait_ID wait, Wait_Condition wait])
      else if Wait_ConditionDigest wait = '''' \<and> \<not> sameLegacyConditionTx rt wait request st
      then Inl (Errorf ''%w: request ID %q is wait %s, registered before conditions were recorded, which waits for %q, and this registration cannot be shown to name the same condition; register it without --request-id, or with a different one, to add it to this park''
             [ErrTaskWaitReplayCondition, Reg_RequestID request, Wait_ID wait, Wait_Condition wait])
      else if \<not> Wait_Live wait
      then Inl (Errorf ''%w: %s settled as %q'' [ErrTaskWaitReplaySettled, Wait_ID wait, replaySettledOutcome wait])
      else bind_result (loadAttemptTx st (Wait_AttemptID wait)) (\<lambda>attempt.
        if Attempt_Progress attempt \<noteq> ProgressWaitingExternal
        then Inl (Errorf ''%w: attempt %q is %q'' [ErrTaskWaitReplayNotParked, Attempt_ID attempt, ProgressState_text (Attempt_Progress attempt)])
        else Inr wait))"

definition sideOf :: "WaitKind \<Rightarrow> string" where
  "sideOf kind = (if WaitKind_Coordinator (OrShell kind) then ''a coordinator kind'' else ''a local kind'')"

definition refuseMixedTaskWaitSetTx :: "TaskWaitRegistration \<Rightarrow> wait_store \<Rightarrow> go_error option" where
  "refuseMixedTaskWaitSetTx request st =
     (case find (\<lambda>w. Wait_AttemptID w = Reg_AttemptID request \<and> Wait_Live w \<and> Wait_Wake w = WakeAll
            \<and> WaitKind_Coordinator (OrShell (Wait_Kind w)) \<noteq> WaitKind_Coordinator (OrShell (Reg_Kind request))) (load_waits st) of
        None \<Rightarrow> None
      | Some w \<Rightarrow> Some (Errorf ''a --wake all set is all local kinds or all coordinator kinds: wait %s (%s, %s) and this %s wait (%s) would mix them; register this one with --any (--wake each), or wait for %s to settle''
          [Wait_ID w, WaitKind_text (OrShell (Wait_Kind w)), sideOf (Wait_Kind w), WaitKind_text (OrShell (Reg_Kind request)),
           sideOf (Reg_Kind request), Wait_ID w]))"

definition validateStructuredRegistrationTx :: "go_runtime \<Rightarrow> TaskWaitRegistration \<Rightarrow> wait_store \<Rightarrow> TaskWaitRegistration go_result" where
  "validateStructuredRegistrationTx rt request st =
     (case Reg_Node request of
        None \<Rightarrow> Inl (Errorf ''a %s wait needs its structured condition'' [WaitKind_text (Reg_Kind request)])
      | Some node \<Rightarrow>
          (case resolveNodeState rt (default_state node) st of
             (_, Some err) \<Rightarrow> Inl (Errorf ''node wait target: %w'' [case err of Errorf format args \<Rightarrow> format])
           | (obs, None) \<Rightarrow>
               if NodeRef_RunID (NodeCond_Target node) = Reg_WorkflowRunID request
                  \<and> NodeRef_TaskID (Observation_Target obs) = SinkTaskID (Reg_WorkflowRunID request)
               then Inl (Errorf ''a task cannot wait for its own run %s to settle: the run cannot settle while this attempt is parked; wait for a sibling task with --node %s/<task>''
                      [Reg_WorkflowRunID request, Reg_WorkflowRunID request])
               else if Observation_Outcome obs \<noteq> TaskWaitNone
               then Inl (Errorf ''the condition already holds (%s is %s: %s), so there is nothing to park for''
                      [NodeRef_String (NodeCond_Target node), ProgressState_text (Observation_Progress obs), Observation_Reason obs])
               else
                 let kept = (default_state node)\<lparr>NodeCond_Target := Observation_Target obs\<rparr>;
                     condition = (if Reg_Condition request = '''' then NodeWaitCondition_String kept else Reg_Condition request);
                     name = (if Reg_Name request = '''' then condition else Reg_Name request)
                 in Inr (request\<lparr>Reg_Node := Some kept, Reg_Condition := condition, Reg_Name := name\<rparr>)))"

definition registered_wait :: "TaskWaitRegistration \<Rightarrow> string \<Rightarrow> int64 \<Rightarrow> instant \<Rightarrow> TaskWait" where
  "registered_wait request digest expected now =
     \<lparr>Wait_ID = taskWaitID (Reg_RequestID request), Wait_WorkflowRunID = Reg_WorkflowRunID request,
      Wait_TaskID = Reg_TaskID request, Wait_AttemptID = Reg_AttemptID request,
      Wait_IssuedRevision = Reg_IssuedRevision request, Wait_ThreadID = Reg_ThreadID request, Wait_Wake = Reg_Wake request,
      Wait_MaxDuration = Reg_MaxDuration request, Wait_RequestID = Reg_RequestID request, Wait_ConditionDigest = digest,
      Wait_Name = Reg_Name request, Wait_Condition = Reg_Condition request, Wait_Kind = OrShell (Reg_Kind request),
      Wait_OrTimeout = Reg_OrTimeout request, Wait_Node = Reg_Node request, Wait_RegisteredRevision = wrap64 (expected + 1),
      Wait_RegisteredAt = now, Wait_Deadline = time_add now (Reg_MaxDuration request), Wait_Result = None,
      Wait_SettledAt = None, Wait_WokenAt = None, Wait_Delivery = '''', Wait_DeliveredAt = None,
      Wait_DeliveryObservedAt = None, Wait_DeliveryID = '''', Wait_WakeRevision = 0, Wait_Resumption = False,
      Wait_WakeDeferral = None\<rparr>"

definition park_attempt :: "string \<Rightarrow> instant \<Rightarrow> Attempt \<Rightarrow> Attempt" where
  "park_attempt i now attempt =
     attempt\<lparr>Attempt_Revision := wrap64 (Attempt_Revision attempt + 1), Attempt_Progress := ProgressWaitingExternal,
       Attempt_Control := ControlWaitingExternal, Attempt_LastTurnOutcomeID := ''turn-outcome:'' @ i,
       Attempt_LastTurnOutcomeMarker := TurnOutcomeWaiting, Attempt_CompletedAt := None, Attempt_UpdatedAt := now\<rparr>"

definition parkTaskWaitTx ::
  "TaskWaitRegistration \<Rightarrow> string \<Rightarrow> Attempt \<Rightarrow> instant \<Rightarrow> wait_store \<Rightarrow> (TaskWait \<times> wait_store) go_result" where
  "parkTaskWaitTx request digest attempt now st =
     (let wait = registered_wait request digest (Attempt_Revision attempt) now in
      bind_result (saveAttemptFencedTx (park_attempt (Wait_ID wait) now attempt) (Attempt_Revision attempt) st)
        (\<lambda>parked. Inr (wait, saveTaskWaitTx wait parked)))"

definition refuse_attempt :: "TaskWaitRegistration \<Rightarrow> Attempt \<Rightarrow> go_error option" where
  "refuse_attempt request attempt =
     (if Attempt_WorkflowRunID attempt \<noteq> Reg_WorkflowRunID request \<or> Attempt_TaskID attempt \<noteq> Reg_TaskID request
      then Some (Errorf ''task-bound wait names attempt %q of a different task'' [Reg_AttemptID request])
      else if Terminal (Attempt_Progress attempt) then Some (TaskWaitTerminalRefusal (Attempt_Progress attempt))
      else if \<not> TurnLive attempt
      then Some (Errorf ''%w: attempt %q is %q/%q'' [ErrTaskWaitTurnNotLive, Attempt_ID attempt,
             ProgressState_text (Attempt_Progress attempt), ControlState_text (Attempt_Control attempt)])
      else if Attempt_ThreadID attempt \<noteq> '''' \<and> Attempt_ThreadID attempt \<noteq> Reg_ThreadID request
      then Some (Errorf ''%w: attempt %q runs on thread %q, not %q'' [ErrTaskWaitForeignThread, Attempt_ID attempt,
             Attempt_ThreadID attempt, Reg_ThreadID request])
      else if Reg_IssuedRevision request > Attempt_Revision attempt
      then Some (Errorf ''task-bound wait names attempt revision %d, ahead of attempt %q at revision %d''
             [show_int (Reg_IssuedRevision request), Attempt_ID attempt, show_int (Attempt_Revision attempt)])
      else None)"

definition RegisterTaskWait ::
  "go_runtime \<Rightarrow> (TaskWaitRegistration \<Rightarrow> string) \<Rightarrow> TaskWaitRegistration \<Rightarrow> instant \<Rightarrow> wait_store \<Rightarrow> (TaskWait \<times> wait_store) go_result" where
  "RegisterTaskWait rt digest request now st =
     (case TaskWaitRegistration_Validate request of
        Some err \<Rightarrow> Inl err
      | None \<Rightarrow>
          if is_zero_time now then Inl (Errorf ''task-bound wait registration needs a timestamp'' [])
          else (case find (\<lambda>w. Wait_RequestID w = Reg_RequestID request) (Store_waits st) of
            Some wait \<Rightarrow> bind_result (replay_wait rt (digest request) request wait st) (\<lambda>w. Inr (w, st))
          | None \<Rightarrow>
              bind_result (loadAttemptTx st (Reg_AttemptID request)) (\<lambda>attempt.
                case refuse_attempt request attempt of
                  Some err \<Rightarrow> Inl err
                | None \<Rightarrow>
                    (case (if Reg_Wake request = WakeAll then refuseMixedTaskWaitSetTx request st else None) of
                       Some err \<Rightarrow> Inl err
                     | None \<Rightarrow>
                         bind_result (if WaitKind_Coordinator (Reg_Kind request)
                                      then validateStructuredRegistrationTx rt request st else Inr request)
                           (\<lambda>checked. parkTaskWaitTx checked (digest request) attempt now st)))))"

section \<open>Settlement\<close>

definition settled_result_of :: "TaskWait \<Rightarrow> TaskWaitResult \<Rightarrow> instant \<Rightarrow> TaskWaitResult" where
  "settled_result_of wait result now =
     (let seen = (if is_zero_time (WaitResult_ObservedAt result) then result\<lparr>WaitResult_ObservedAt := now\<rparr> else result)
      in if WaitResult_RanFor seen = 0 then seen\<lparr>WaitResult_RanFor := time_sub now (Wait_RegisteredAt wait)\<rparr> else seen)"

definition settle_wait :: "TaskWaitResult \<Rightarrow> instant \<Rightarrow> TaskWait \<Rightarrow> TaskWait" where
  "settle_wait result now wait =
     wait\<lparr>Wait_Result := Some (settled_result_of wait result now), Wait_SettledAt := Some now\<rparr>"

definition settleTaskWaitTx :: "TaskWait \<Rightarrow> TaskWaitResult \<Rightarrow> instant \<Rightarrow> wait_store \<Rightarrow> TaskWait \<times> wait_store" where
  "settleTaskWaitTx wait result now st =
     (if Wait_Settled wait then (wait, st)
      else (settle_wait result now wait, saveTaskWaitTx (settle_wait result now wait) st))"

definition SettleTaskWait :: "string \<Rightarrow> TaskWaitResult \<Rightarrow> instant \<Rightarrow> wait_store \<Rightarrow> (TaskWait \<times> wait_store) go_result" where
  "SettleTaskWait i result now st =
     (if i = '''' \<or> WaitResult_Outcome result = TaskWaitNone \<or> is_zero_time now
      then Inl (Errorf ''task-bound wait settlement needs an ID, an outcome and a timestamp'' [])
      else (case find (\<lambda>w. Wait_ID w = i) (Store_waits st) of
        None \<Rightarrow> Inl (Errorf ''task-bound wait %q is unknown'' [i])
      | Some wait \<Rightarrow>
          if Wait_Kind wait = WaitKindAttention
          then Inl (Errorf ''attention waits may only be settled by an authenticated attention decision'' [])
          else if Wait_Kind wait = WaitKindAsk \<and> WaitResult_Outcome result \<noteq> TaskWaitCancelled
          then Inl (Errorf ''an ask is settled only by its answer, its deadline or a cancellation'' [])
          else Inr (settleTaskWaitTx wait result now st)))"

definition CancelTaskWait :: "string \<Rightarrow> instant \<Rightarrow> wait_store \<Rightarrow> (TaskWait \<times> wait_store) go_result" where
  "CancelTaskWait i now st =
     SettleTaskWait i \<lparr>WaitResult_Outcome = TaskWaitCancelled, WaitResult_ExitCode = 2,
       WaitResult_Reason = Sprintf ''the wait was cancelled'' [], WaitResult_Output = '''', WaitResult_RanFor = 0,
       WaitResult_ObservedAt = 0\<rparr> now st"

definition expired_result :: "TaskWait \<Rightarrow> instant \<Rightarrow> TaskWaitResult" where
  "expired_result wait now =
     \<lparr>WaitResult_Outcome = TaskWaitTimedOut, WaitResult_ExitCode = (if Wait_OrTimeout wait then 0 else 2),
      WaitResult_Reason = (if Wait_OrTimeout wait
        then Sprintf ''the deadline of %s passed, which this wait treats as a normal outcome (--or-timeout)'' [DurationArg (Wait_MaxDuration wait)]
        else Sprintf ''the wait exceeded its maximum duration of %s'' [DurationArg (Wait_MaxDuration wait)]),
      WaitResult_Output = '''', WaitResult_RanFor = time_sub now (Wait_RegisteredAt wait), WaitResult_ObservedAt = now\<rparr>"

definition expire_wait :: "instant \<Rightarrow> TaskWait \<Rightarrow> TaskWait" where
  "expire_wait now wait = wait\<lparr>Wait_Result := Some (expired_result wait now), Wait_SettledAt := Some now\<rparr>"

definition expireTaskWaitTx :: "instant \<Rightarrow> TaskWait \<Rightarrow> wait_store \<Rightarrow> wait_store" where
  "expireTaskWaitTx now wait st =
     (let saved = saveTaskWaitTx (expire_wait now wait) st in
      if Wait_OrTimeout wait then saved
      else recordTaskWaitEventTx
        \<lparr>Event_ID = ''expiry:'' @ Wait_ID wait, Event_Kind = TaskWaitReconciliationExpired, Event_AttemptID = Wait_AttemptID wait,
         Event_WaitID = Wait_ID wait, Event_ThreadID = Wait_ThreadID wait,
         Event_Detail = WaitResult_Reason (expired_result wait now), Event_ObservedAt = now\<rparr> saved)"

definition ExpireTaskWaits :: "instant \<Rightarrow> wait_store \<Rightarrow> (TaskWait list \<times> wait_store) go_result" where
  "ExpireTaskWaits now st =
     (if is_zero_time now then Inl (Errorf ''task-bound wait expiry needs a timestamp'' [])
      else
        let due = filter (\<lambda>w. Wait_Live w \<and> \<not> now < Wait_Deadline w) (load_waits st)
        in Inr (map (expire_wait now) due, fold (expireTaskWaitTx now) due st))"

end
