(* ===== verification/TaskWakes.thy ===== *)
theory TaskWakes
  imports TaskWaits
begin

text \<open>
  Waking the parked attempts: the ready set of an attempt, the evidence a resumption needs, the
  reason a deferred one records, the revocation of an abandoned execution's authority, and the
  delivery of a committed wake (\<open>internal/store/sqlite/task_wait.go\<close>, \<open>task_wait_group.go\<close>,
  \<open>executor_capacity.go\<close>, \<open>internal/domain/executor_capacity.go\<close>).

  A pass reads the waits once, then takes the attempts in order of settlement; each of them reads
  the tables the earlier ones left. An error of any of them undoes the whole pass.
\<close>

section \<open>Executor capacity from the tables\<close>

definition AssignmentOwnsExecutorCapacity :: "Attempt \<Rightarrow> StoredAssignment \<Rightarrow> bool" where
  "AssignmentOwnsExecutorCapacity attempt assignment =
     (if Assignment_State assignment = AssignmentCompleted \<or> Assignment_State assignment = AssignmentReleased then False
      else Attempt_Control attempt \<noteq> ControlWaitingExternal)"

definition zero_demand :: ResourceDemand where
  "zero_demand = \<lparr>Demand_MinCPUClass = CPUClassEmpty, Demand_PreferredCPUClass = CPUClassEmpty,
     Demand_CPUUnits = Fin 0, Demand_MemoryMB = 0, Demand_ScratchMB = 0\<rparr>"

definition AssignmentExecutorDemand :: "Attempt \<Rightarrow> StoredAssignment \<Rightarrow> ResourceDemand \<times> bool" where
  "AssignmentExecutorDemand attempt assignment =
     (if Attempt_TaskID attempt = '''' \<or> IsSupervisionActivation attempt then (zero_demand, True)
      else (case Assigned_ExecutorDemand assignment of
        Some demand \<Rightarrow> (demand, True)
      | None \<Rightarrow> (case Assigned_PlacementDemand assignment of Some demand \<Rightarrow> (demand, True) | None \<Rightarrow> (zero_demand, False))))"

definition ErrExecutorCapacity :: string where
  "ErrExecutorCapacity = ''executor capacity exhausted''"

definition ErrExecutorCapacityEvidence :: string where
  "ErrExecutorCapacityEvidence = ''executor capacity evidence unavailable''"

text \<open>What the check returns: nil, an error that wraps one of the two sentinels, or another one.\<close>

datatype capacity_check =
    CapacityGranted
  | CapacityRefused string go_text
  | CapacityFailed go_error

definition assignment_less :: "StoredAssignment \<Rightarrow> StoredAssignment \<Rightarrow> bool" where
  "assignment_less a b \<longleftrightarrow> Assignment_ID a < Assignment_ID b"

definition load_assignments :: "wait_store \<Rightarrow> StoredAssignment list" where
  "load_assignments st = sort_less assignment_less (Store_assignments st)"

definition sized_governed :: "AllocatableCapacity \<Rightarrow> bool" where
  "sized_governed a \<longleftrightarrow> f_lt (Fin 0) (Alloc_CPUUnits a) \<or> Alloc_MemoryMB a > 0 \<or> Alloc_ScratchMB a > 0"

fun used_capacity ::
  "wait_store \<Rightarrow> string \<Rightarrow> AllocatableCapacity \<Rightarrow> StoredAssignment list \<Rightarrow> int \<Rightarrow> ResourceDemand \<Rightarrow> capacity_check + int \<times> ResourceDemand" where
  "used_capacity st workerID allocatable [] slots used = Inr (slots, used)"
| "used_capacity st workerID allocatable (assignment # rest) slots used =
     (if Assignment_WorkerID assignment \<noteq> workerID then used_capacity st workerID allocatable rest slots used
      else (case loadAttemptTx st (Assignment_AttemptID assignment) of
        Inl err \<Rightarrow> Inl (CapacityFailed err)
      | Inr attempt \<Rightarrow>
          if \<not> AssignmentOwnsExecutorCapacity attempt assignment then used_capacity st workerID allocatable rest slots used
          else (case AssignmentExecutorDemand attempt assignment of
            (demand, known) \<Rightarrow>
              if \<not> known \<and> sized_governed allocatable
              then Inl (CapacityRefused ErrExecutorCapacityEvidence (Sprintf ''%w for worker %q: live assignment %q has no frozen demand''
                     [StrArg ErrExecutorCapacityEvidence, StrArg workerID, StrArg (Assignment_ID assignment)]))
              else if \<not> known then used_capacity st workerID allocatable rest (slots + 1) used
              else
                let owner = GoverningDemand demand allocatable in
                used_capacity st workerID allocatable rest (slots + 1)
                  (used\<lparr>Demand_CPUUnits := f_add (Demand_CPUUnits used) (Demand_CPUUnits owner),
                    Demand_MemoryMB := wrap64 (Demand_MemoryMB used + Demand_MemoryMB owner),
                    Demand_ScratchMB := wrap64 (Demand_ScratchMB used + Demand_ScratchMB owner)\<rparr>))))"

definition evidence_error :: "string \<Rightarrow> string \<Rightarrow> fmt_arg list \<Rightarrow> capacity_check" where
  "evidence_error workerID detail args =
     CapacityRefused ErrExecutorCapacityEvidence
       (Sprintf (''%w for worker %q: '' @ detail) (StrArg ErrExecutorCapacityEvidence # StrArg workerID # args))"

definition exhausted_error :: "string \<Rightarrow> string \<Rightarrow> fmt_arg list \<Rightarrow> capacity_check" where
  "exhausted_error workerID detail args =
     CapacityRefused ErrExecutorCapacity (Sprintf (''%w on worker %q: '' @ detail) (StrArg ErrExecutorCapacity # StrArg workerID # args))"

definition fit_capacity :: "string \<Rightarrow> AllocatableCapacity \<Rightarrow> ResourceDemand \<Rightarrow> int \<Rightarrow> ResourceDemand \<Rightarrow> capacity_check" where
  "fit_capacity workerID allocatable demand0 slots used =
     (let demand = GoverningDemand demand0 allocatable;
          cpu = f_add (Demand_CPUUnits used) (Demand_CPUUnits demand);
          memory = wrap64 (Demand_MemoryMB used + Demand_MemoryMB demand);
          scratch = wrap64 (Demand_ScratchMB used + Demand_ScratchMB demand)
      in if slots \<ge> Alloc_ExecutorSlots allocatable
         then exhausted_error workerID ''%d of %d slots reserved'' [IntArg slots, IntArg (Alloc_ExecutorSlots allocatable)]
         else if f_lt (Alloc_CPUUnits allocatable) cpu
         then exhausted_error workerID ''cpu demand %v exceeds %v'' [FloatArg cpu, FloatArg (Alloc_CPUUnits allocatable)]
         else if memory > Alloc_MemoryMB allocatable
         then exhausted_error workerID ''memory demand %d exceeds %d'' [IntArg memory, IntArg (Alloc_MemoryMB allocatable)]
         else if scratch > Alloc_ScratchMB allocatable
         then exhausted_error workerID ''scratch demand %d exceeds %d'' [IntArg scratch, IntArg (Alloc_ScratchMB allocatable)]
         else CapacityGranted)"

definition demand_refusal :: "string \<Rightarrow> StoredSnapshot \<Rightarrow> ResourceDemand \<Rightarrow> capacity_check option" where
  "demand_refusal workerID snapshot demand =
     (case ResourceDemand_Validate demand of
        Some err \<Rightarrow> Some (evidence_error workerID ''invalid assignment demand: %v'' [TextArg err])
      | None \<Rightarrow>
          if Demand_MinCPUClass demand \<noteq> CPUClassEmpty
             \<and> (\<not> CPUClass_Valid (Stored_CPUClass snapshot)
                \<or> CPUClass_Compare (Stored_CPUClass snapshot) (Demand_MinCPUClass demand) < 0)
          then Some (exhausted_error workerID ''cpu class %q is below minimum %q''
                 [StrArg (CPUClass_text (Stored_CPUClass snapshot)), StrArg (CPUClass_text (Demand_MinCPUClass demand))])
          else None)"

definition requireExecutorCapacityTx ::
  "string \<Rightarrow> instant \<Rightarrow> string \<Rightarrow> ResourceDemand \<Rightarrow> bool \<Rightarrow> wait_store \<Rightarrow> capacity_check" where
  "requireExecutorCapacityTx workerID now expectedWorkerEpoch demand demandKnown st =
     (case loadWorkerSnapshotTx st workerID of
        None \<Rightarrow> evidence_error workerID ''no worker snapshot'' []
      | Some snapshot \<Rightarrow>
          if expectedWorkerEpoch \<noteq> '''' \<and> Stored_WorkerEpoch snapshot \<noteq> expectedWorkerEpoch
          then evidence_error workerID ''snapshot epoch %q replaced assignment epoch %q''
                 [StrArg (Stored_WorkerEpoch snapshot), StrArg expectedWorkerEpoch]
          else if is_zero_time now \<or> \<not> now < Stored_ValidUntil snapshot
          then evidence_error workerID ''snapshot is stale'' []
          else
            let allocatable = Stored_Allocatable snapshot in
            if Alloc_ExecutorSlots allocatable < 1 then CapacityGranted
            else if \<not> demandKnown \<and> (sized_governed allocatable \<or> CPUClass_Valid (Stored_CPUClass snapshot))
            then evidence_error workerID ''assignment demand is not frozen'' []
            else (case (if demandKnown then demand_refusal workerID snapshot demand else None) of
              Some refusal \<Rightarrow> refusal
            | None \<Rightarrow>
                (case used_capacity st workerID allocatable (load_assignments st) 0 zero_demand of
                   Inl refusal \<Rightarrow> refusal
                 | Inr (slots, used) \<Rightarrow> fit_capacity workerID allocatable demand slots used)))"

section \<open>The ready set of an attempt\<close>

definition taskWaitWakeSet :: "TaskWait list \<Rightarrow> TaskWait list option" where
  "taskWaitWakeSet waits =
     (let ready = filter (\<lambda>w. \<not> Wait_Live w \<and> \<not> Wait_Woken w) waits;
          anyEach = list_ex (\<lambda>w. Wait_Wake w = WakeEach) ready;
          anyLive = list_ex Wait_Live waits
      in if ready = [] then None
         else if anyLive \<and> \<not> anyEach then None
         else Some (sort_less wait_less ready))"

definition waits_of :: "string \<Rightarrow> TaskWait list \<Rightarrow> TaskWait list" where
  "waits_of attemptID waits = filter (\<lambda>w. Wait_AttemptID w = attemptID) waits"

definition settled_time :: "TaskWait \<Rightarrow> instant" where
  "settled_time w = (case Wait_SettledAt w of Some t \<Rightarrow> t | None \<Rightarrow> 0)"

definition earliest :: "TaskWait list \<Rightarrow> instant" where
  "earliest ready = fold (\<lambda>w t. if settled_time w < t then settled_time w else t) (tl ready) (settled_time (hd ready))"

definition candidate_less :: "string \<times> instant \<Rightarrow> string \<times> instant \<Rightarrow> bool" where
  "candidate_less a b \<longleftrightarrow> (if snd a \<noteq> snd b then snd a < snd b else fst a < fst b)"

definition wake_candidates :: "TaskWait list \<Rightarrow> (string \<times> instant) list" where
  "wake_candidates waits =
     sort_less candidate_less
       (List.map_filter (\<lambda>i. map_option (\<lambda>ready. (i, earliest ready)) (taskWaitWakeSet (waits_of i waits)))
         (remdups (map Wait_AttemptID waits)))"

definition HasReadyTaskWaits :: "wait_store \<Rightarrow> bool" where
  "HasReadyTaskWaits st =
     list_ex (\<lambda>c. Wait_SettledAt c \<noteq> None \<and> Wait_WokenAt c = None
        \<and> (Wait_Wake c = WakeEach \<or> \<not> list_ex (\<lambda>l. Wait_AttemptID l = Wait_AttemptID c \<and> Wait_SettledAt l = None) (Store_waits st)))
       (Store_waits st)"

section \<open>Evidence a resumption needs\<close>

record TaskWakeWorkerAuthorization =
  Auth_WorkerEpoch :: string
  Auth_SnapshotSequence :: int64
  Auth_CatalogRevision :: string
  Auth_ValidUntil :: instant
  Auth_Providers :: "WorkerProviderInventory list"
  Auth_Projects :: "WorkerProjectInventory list"

record TaskWakeCutoff =
  Cutoff_ReadyAt :: instant
  Cutoff_AttemptID :: string

record TaskWakeCutoffs =
  Cutoffs_Worker :: "(string \<times> TaskWakeCutoff) list"
  Cutoffs_Pool :: "(string \<times> TaskWakeCutoff) list"
  Cutoffs_AuthorizedWorkers :: "(string \<times> TaskWakeWorkerAuthorization) list option"
  Cutoffs_AdmissionValidAfter :: instant
  Cutoffs_ContendingWorker :: string
  Cutoffs_ContendingPool :: string

definition WakeDeferredExecutorCapacity :: string where
  "WakeDeferredExecutorCapacity = ''wake-executor-capacity''"

definition WakeDeferredPoolConcurrency :: string where
  "WakeDeferredPoolConcurrency = ''wake-pool-concurrency''"

definition WakeDeferredQuotaAdmission :: string where
  "WakeDeferredQuotaAdmission = ''wake-quota-admission''"

definition WakeDeferredWorkerUnavailable :: string where
  "WakeDeferredWorkerUnavailable = ''wake-worker-unavailable''"

definition WakeDeferredOlderWork :: string where
  "WakeDeferredOlderWork = ''wake-yields-to-older-work''"

definition workerUnavailableWakeDetail :: "string \<Rightarrow> go_text" where
  "workerUnavailableWakeDetail workerID =
     Sprintf ''worker %q, which holds the parked workspace, has no current authorized snapshot offering this route and project; the wake waits for it, and is abandoned only if the worker returns without the execution'' [StrArg workerID]"

definition authorizedTaskWakeRoute :: "WorkerProviderInventory list \<Rightarrow> ProviderRoute \<Rightarrow> bool" where
  "authorizedTaskWakeRoute providers route =
     list_ex (\<lambda>p. Provider_Available p \<and> Provider_InstanceID p = Route_ProviderInstanceID route
        \<and> Provider_QuotaPoolID p = Route_QuotaPoolID route \<and> Route_Model route \<in> set (Provider_Models p)) providers"

definition authorizedTaskWakeProject :: "WorkerProjectInventory list \<Rightarrow> string \<Rightarrow> bool" where
  "authorizedTaskWakeProject projects project \<longleftrightarrow>
     project \<noteq> '''' \<and> list_ex (\<lambda>c. Project_Name c = project \<and> Project_Available c) projects"

definition frozenTaskWakeProjectTx :: "Attempt \<Rightarrow> StoredAssignment \<Rightarrow> wait_store \<Rightarrow> string go_result" where
  "frozenTaskWakeProjectTx attempt assignment st =
     (case find (\<lambda>r. Run_ID r = Attempt_WorkflowRunID attempt) (Store_runs st) of
        None \<Rightarrow> Inl (Errorf ''load wake workflow run %q: %w'' [Attempt_WorkflowRunID attempt, ''sql: no rows in result set''])
      | Some run \<Rightarrow> (case map_of (Store_projects st) (Run_WorkflowID run) of
          None \<Rightarrow> Inl (Errorf ''load wake workflow %q: %w'' [Run_WorkflowID run, ''sql: no rows in result set''])
        | Some project \<Rightarrow>
            if Assigned_Project assignment \<noteq> '''' \<and> Assigned_Project assignment \<noteq> project
            then Inl (Errorf ''assignment %q frozen project %q disagrees with workflow %q project %q''
                   [Assignment_ID assignment, Assigned_Project assignment, Run_WorkflowID run, project])
            else Inr project))"

text \<open>What a pass decides for a parked attempt: nothing, a recorded deferral, or the resumption.\<close>

datatype wake_verdict =
    WakeSkip
  | WakeDefer string go_text string string
  | WakeAdmit

definition current_snapshot ::
  "TaskWakeWorkerAuthorization \<Rightarrow> StoredAssignment \<Rightarrow> string \<Rightarrow> instant \<Rightarrow> StoredSnapshot option \<Rightarrow> bool" where
  "current_snapshot authorization assignment project now found =
     (case found of
        None \<Rightarrow> False
      | Some snapshot \<Rightarrow>
          Stored_WorkerEpoch snapshot = Auth_WorkerEpoch authorization
          \<and> Stored_Sequence snapshot = Auth_SnapshotSequence authorization
          \<and> Stored_CatalogRevision snapshot = Auth_CatalogRevision authorization
          \<and> \<not> Stored_ValidUntil snapshot < now
          \<and> authorizedTaskWakeRoute (Stored_Providers snapshot) (Assigned_Route assignment)
          \<and> authorizedTaskWakeProject (Stored_Projects snapshot) project)"

definition worker_authorized ::
  "instant \<Rightarrow> TaskWakeCutoffs \<Rightarrow> StoredAssignment \<Rightarrow> string \<Rightarrow> wait_store \<Rightarrow> bool" where
  "worker_authorized now cutoffs assignment project st =
     (case map_of (case Cutoffs_AuthorizedWorkers cutoffs of None \<Rightarrow> [] | Some m \<Rightarrow> m) (Assignment_WorkerID assignment) of
        None \<Rightarrow> False
      | Some authorization \<Rightarrow>
          Auth_WorkerEpoch authorization = Assignment_WorkerEpoch assignment
          \<and> \<not> Auth_ValidUntil authorization < now
          \<and> authorizedTaskWakeProject (Auth_Projects authorization) project
          \<and> current_snapshot authorization assignment project now (loadWorkerSnapshotTx st (Assignment_WorkerID assignment))
          \<and> authorizedTaskWakeRoute (Auth_Providers authorization) (Assigned_Route assignment))"

definition authority_verdict ::
  "instant \<Rightarrow> TaskWakeCutoffs \<Rightarrow> Attempt \<Rightarrow> StoredAssignment \<Rightarrow> wait_store \<Rightarrow> wake_verdict go_result" where
  "authority_verdict now cutoffs attempt assignment st =
     (if Route_ProviderInstanceID (Assigned_Route assignment) = '''' then Inr WakeAdmit
      else bind_result (frozenTaskWakeProjectTx attempt assignment st) (\<lambda>project.
        if worker_authorized now cutoffs assignment project st then Inr WakeAdmit
        else Inr (WakeDefer WakeDeferredWorkerUnavailable (workerUnavailableWakeDetail (Assignment_WorkerID assignment))
               (Assignment_WorkerID assignment) '''')))"

definition newerThan :: "string \<times> instant \<Rightarrow> TaskWakeCutoff \<Rightarrow> bool" where
  "newerThan candidate cutoff \<longleftrightarrow>
     Cutoff_ReadyAt cutoff < snd candidate
     \<or> snd candidate = Cutoff_ReadyAt cutoff \<and> Cutoff_AttemptID cutoff \<le> fst candidate"

definition out_of_scope :: "TaskWakeCutoffs \<Rightarrow> StoredAssignment \<Rightarrow> bool" where
  "out_of_scope cutoffs assignment \<longleftrightarrow>
     (Cutoffs_ContendingWorker cutoffs \<noteq> '''' \<or> Cutoffs_ContendingPool cutoffs \<noteq> '''')
     \<and> Assignment_WorkerID assignment \<noteq> Cutoffs_ContendingWorker cutoffs
     \<and> Route_QuotaPoolID (Assigned_Route assignment) \<noteq> Cutoffs_ContendingPool cutoffs"

definition cutoff_verdict :: "TaskWakeCutoffs \<Rightarrow> string \<times> instant \<Rightarrow> StoredAssignment \<Rightarrow> wake_verdict" where
  "cutoff_verdict cutoffs candidate assignment =
     (let workerID = Assignment_WorkerID assignment; poolID = Route_QuotaPoolID (Assigned_Route assignment);
          beyond = (\<lambda>found. case found of None \<Rightarrow> False | Some cutoff \<Rightarrow> newerThan candidate cutoff);
          owner = (\<lambda>found. case found of None \<Rightarrow> '''' | Some cutoff \<Rightarrow> Cutoff_AttemptID cutoff)
      in if beyond (map_of (Cutoffs_Worker cutoffs) workerID)
         then WakeDefer WakeDeferredOlderWork
                (Sprintf ''attempt %q, ready before this wait settled, is served first on worker %q''
                  [StrArg (owner (map_of (Cutoffs_Worker cutoffs) workerID)), StrArg workerID]) workerID ''''
         else if out_of_scope cutoffs assignment then WakeSkip
         else if beyond (map_of (Cutoffs_Pool cutoffs) poolID)
         then WakeDefer WakeDeferredOlderWork
                (Sprintf ''attempt %q, ready before this wait settled, is served first in quota pool %q''
                  [StrArg (owner (map_of (Cutoffs_Pool cutoffs) poolID)), StrArg poolID]) workerID poolID
         else WakeAdmit)"

definition pool_open :: "TaskWakeCutoffs \<Rightarrow> Attempt \<Rightarrow> StoredPool \<Rightarrow> QuotaAdmissionRecord list \<Rightarrow> bool" where
  "pool_open cutoffs attempt pool admissions \<longleftrightarrow>
     \<not> is_zero_time (Cutoffs_AdmissionValidAfter cutoffs)
     \<and> (Pool_ChecksDisabled pool \<or> has_prefix (rev (Pool_ID pool)) (rev ''-free'')
        \<or> list_ex (\<lambda>a. Admission_QuotaPoolID a = Pool_ID pool
            \<and> \<not> Admission_ObservedAt a < Cutoffs_AdmissionValidAfter cutoffs
            \<and> (Admission_Admission a = AdmissionOpen
               \<or> Attempt_AdminForceStart attempt
                 \<and> (Admission_Admission a = AdmissionConstrained \<or> Admission_Admission a = AdmissionRecovering))) admissions)"

fun pool_active :: "wait_store \<Rightarrow> string \<Rightarrow> StoredAssignment list \<Rightarrow> int \<Rightarrow> int go_result" where
  "pool_active st poolID [] active = Inr active"
| "pool_active st poolID (other # rest) active =
     (if Route_QuotaPoolID (Assigned_Route other) \<noteq> poolID then pool_active st poolID rest active
      else bind_result (loadAttemptTx st (Assignment_AttemptID other)) (\<lambda>owner.
        pool_active st poolID rest (if AssignmentOwnsExecutorCapacity owner other then active + 1 else active)))"

definition pool_verdict ::
  "TaskWakeCutoffs \<Rightarrow> Attempt \<Rightarrow> StoredAssignment \<Rightarrow> wait_store \<Rightarrow> wake_verdict go_result" where
  "pool_verdict cutoffs attempt assignment st =
     (let poolID = Route_QuotaPoolID (Assigned_Route assignment); workerID = Assignment_WorkerID assignment;
          refused = WakeDefer WakeDeferredQuotaAdmission (Sprintf ''quota pool %q has no current open admission'' [StrArg poolID]) workerID poolID
      in if poolID = '''' then Inr WakeAdmit
         else (case find (\<lambda>p. Pool_ID p = poolID) (Store_pools st) of
           None \<Rightarrow> Inr refused
         | Some pool \<Rightarrow>
             if \<not> pool_open cutoffs attempt pool (Store_admissions st) then Inr refused
             else bind_result (pool_active st poolID (load_assignments st) 0) (\<lambda>active.
               if Pool_MaxConcurrent pool > 0 \<and> active \<ge> Pool_MaxConcurrent pool
               then Inr (WakeDefer WakeDeferredPoolConcurrency
                      (Sprintf ''quota pool %q has %d assignments holding slots at its concurrency limit of %d''
                        [StrArg poolID, IntArg active, IntArg (Pool_MaxConcurrent pool)]) workerID poolID)
               else Inr WakeAdmit)))"

definition capacity_verdict :: "instant \<Rightarrow> Attempt \<Rightarrow> StoredAssignment \<Rightarrow> wait_store \<Rightarrow> wake_verdict go_result" where
  "capacity_verdict now attempt assignment st =
     (case AssignmentExecutorDemand attempt assignment of
        (demand, known) \<Rightarrow>
          (case requireExecutorCapacityTx (Assignment_WorkerID assignment) now (Assignment_WorkerEpoch assignment) demand known st of
             CapacityGranted \<Rightarrow> Inr WakeAdmit
           | CapacityRefused sentinel detail \<Rightarrow>
               Inr (WakeDefer WakeDeferredExecutorCapacity detail (Assignment_WorkerID assignment)
                 (Route_QuotaPoolID (Assigned_Route assignment)))
           | CapacityFailed err \<Rightarrow> Inl err))"

definition then_verdict :: "wake_verdict go_result \<Rightarrow> wake_verdict go_result \<Rightarrow> wake_verdict go_result" where
  "then_verdict first next_verdict = bind_result first (\<lambda>v. if v = WakeAdmit then next_verdict else Inr v)"

definition wake_verdict_of ::
  "instant \<Rightarrow> TaskWakeCutoffs \<Rightarrow> string \<times> instant \<Rightarrow> Attempt \<Rightarrow> StoredAssignment \<Rightarrow> wait_store \<Rightarrow> wake_verdict go_result" where
  "wake_verdict_of now cutoffs candidate attempt assignment st =
     then_verdict (authority_verdict now cutoffs attempt assignment st)
       (then_verdict (Inr (cutoff_verdict cutoffs candidate assignment))
         (then_verdict (pool_verdict cutoffs attempt assignment st) (capacity_verdict now attempt assignment st)))"

section \<open>Writing the outcome of a wake\<close>

definition same_deferral :: "TaskWaitWakeDeferral \<Rightarrow> TaskWaitWakeDeferral \<Rightarrow> bool" where
  "same_deferral a b \<longleftrightarrow>
     Deferral_Code a = Deferral_Code b \<and> Deferral_Detail a = Deferral_Detail b
     \<and> Deferral_WorkerID a = Deferral_WorkerID b \<and> Deferral_PoolID a = Deferral_PoolID b"

definition defer_wait :: "TaskWaitWakeDeferral \<Rightarrow> TaskWait \<Rightarrow> TaskWait" where
  "defer_wait deferral wait =
     (case Wait_WakeDeferral wait of
        None \<Rightarrow> wait\<lparr>Wait_WakeDeferral := Some deferral\<rparr>
      | Some previous \<Rightarrow>
          if same_deferral previous deferral then wait
          else if Deferral_Code previous = Deferral_Code deferral
          then wait\<lparr>Wait_WakeDeferral := Some (deferral\<lparr>Deferral_ObservedAt := Deferral_ObservedAt previous\<rparr>)\<rparr>
          else wait\<lparr>Wait_WakeDeferral := Some deferral\<rparr>)"

definition save_waits :: "TaskWait list \<Rightarrow> wait_store \<Rightarrow> wait_store" where
  "save_waits ws st = fold saveTaskWaitTx ws st"

definition deferTaskWakeTx ::
  "go_runtime \<Rightarrow> TaskWakeCutoffs \<Rightarrow> TaskWait list \<Rightarrow> string \<Rightarrow> go_text \<Rightarrow> string \<Rightarrow> string \<Rightarrow> instant \<Rightarrow> wait_store \<Rightarrow> wait_store" where
  "deferTaskWakeTx rt cutoffs ready code detail workerID poolID now st =
     (if Cutoffs_AuthorizedWorkers cutoffs = None then st
      else
        let deferral = \<lparr>Deferral_Code = code, Deferral_Detail = Runtime_text rt detail, Deferral_WorkerID = workerID,
              Deferral_PoolID = poolID, Deferral_ObservedAt = now\<rparr>
        in save_waits (map (defer_wait deferral)
             (filter (\<lambda>w. case Wait_WakeDeferral w of None \<Rightarrow> True | Some previous \<Rightarrow> \<not> same_deferral previous deferral) ready)) st)"

definition woken_wait :: "string \<Rightarrow> Attempt \<Rightarrow> string \<Rightarrow> bool \<Rightarrow> instant \<Rightarrow> TaskWait \<Rightarrow> TaskWait" where
  "woken_wait firstID attempt delivery resumption now wait =
     wait\<lparr>Wait_WokenAt := Some now, Wait_Delivery := delivery, Wait_WakeRevision := Attempt_Revision attempt,
       Wait_Resumption := resumption,
       Wait_DeliveryID := (if Wait_DeliveryID wait = '''' then ''task-wake:'' @ firstID @ '':'' @ show_int (Attempt_Revision attempt)
                           else Wait_DeliveryID wait)\<rparr>"

definition woken_waits :: "TaskWait list \<Rightarrow> Attempt \<Rightarrow> string \<Rightarrow> bool \<Rightarrow> instant \<Rightarrow> TaskWait list" where
  "woken_waits waits attempt delivery resumption now =
     map (woken_wait (case waits of [] \<Rightarrow> '''' | w # _ \<Rightarrow> Wait_ID w) attempt delivery resumption now) waits"

definition markTaskWaitsWokenTx :: "TaskWait list \<Rightarrow> Attempt \<Rightarrow> string \<Rightarrow> bool \<Rightarrow> instant \<Rightarrow> wait_store \<Rightarrow> wait_store" where
  "markTaskWaitsWokenTx waits attempt delivery resumption now st = save_waits (woken_waits waits attempt delivery resumption now) st"

section \<open>Revoking authority\<close>

fun AssignmentState_text :: "AssignmentState \<Rightarrow> string" where
  "AssignmentState_text AssignmentOffered = ''offered''"
| "AssignmentState_text AssignmentClaimed = ''claimed''"
| "AssignmentState_text AssignmentUnknown = ''unknown''"
| "AssignmentState_text AssignmentReleased = ''released''"
| "AssignmentState_text AssignmentCompleted = ''completed''"
| "AssignmentState_text (AssignmentOther label) = label"

definition failed_attempt :: "string \<Rightarrow> instant \<Rightarrow> Attempt \<Rightarrow> Attempt" where
  "failed_attempt reason now attempt =
     attempt\<lparr>Attempt_Revision := wrap64 (Attempt_Revision attempt + 1), Attempt_Progress := ProgressFailed,
       Attempt_Control := ControlStopped, Attempt_Failure := reason, Attempt_CompletedAt := Some now, Attempt_UpdatedAt := now\<rparr>"

definition authorized_for :: "string \<Rightarrow> StoredAssignment \<Rightarrow> bool" where
  "authorized_for attemptID assignment \<longleftrightarrow> Assignment_AttemptID assignment = attemptID \<and> Assigned_DispatchToken assignment \<noteq> ''''"

definition revoke_assignment :: "string \<Rightarrow> instant \<Rightarrow> StoredAssignment \<Rightarrow> StoredAssignment" where
  "revoke_assignment reason now assignment =
     assignment\<lparr>Assigned_DispatchToken := '''', Assigned_DispatchError := ''task authority revoked: '' @ reason,
       Assigned_UpdatedAt := now\<rparr>"

definition revoked_thread :: "Attempt \<Rightarrow> StoredAssignment list \<Rightarrow> string" where
  "revoked_thread attempt assignments =
     fold (\<lambda>a thread. if authorized_for (Attempt_ID attempt) a \<and> Assigned_ThreadID a \<noteq> '''' then Assigned_ThreadID a else thread)
       assignments (Attempt_ThreadID attempt)"

definition revokeTaskAuthorityTx :: "Attempt \<Rightarrow> string \<Rightarrow> instant \<Rightarrow> wait_store \<Rightarrow> wait_store go_result" where
  "revokeTaskAuthorityTx attempt reason now st =
     (let revoked = st\<lparr>Store_assignments := map (\<lambda>a. if authorized_for (Attempt_ID attempt) a then revoke_assignment reason now a else a)
            (Store_assignments st)\<rparr>;
          recorded = recordTaskWaitEventTx
            \<lparr>Event_ID = ''revocation:'' @ Attempt_ID attempt, Event_Kind = TaskWaitReconciliationAuthorityRevoked,
             Event_AttemptID = Attempt_ID attempt, Event_WaitID = '''',
             Event_ThreadID = revoked_thread attempt (load_assignments st), Event_Detail = Sprintf ''%s'' [StrArg reason],
             Event_ObservedAt = now\<rparr> revoked
      in if Terminal (Attempt_Progress attempt) then Inr recorded
         else saveAttemptFencedTx (failed_attempt reason now attempt) (Attempt_Revision attempt) recorded)"

definition RevokeTaskAuthority :: "string \<Rightarrow> string \<Rightarrow> instant \<Rightarrow> wait_store \<Rightarrow> (Attempt \<times> wait_store) go_result" where
  "RevokeTaskAuthority attemptID reason now st =
     (if attemptID = '''' \<or> reason = '''' \<or> is_zero_time now
      then Inl (Errorf ''task authority revocation needs an attempt, a reason and a timestamp'' [])
      else bind_result (loadAttemptTx st attemptID) (\<lambda>attempt.
        bind_result (revokeTaskAuthorityTx attempt reason now st) (\<lambda>st'.
          Inr (if Terminal (Attempt_Progress attempt) then attempt else failed_attempt reason now attempt, st'))))"

definition taskWaitExecutionAbandonedTx :: "go_runtime \<Rightarrow> Attempt \<Rightarrow> wait_store \<Rightarrow> (string option) go_result" where
  "taskWaitExecutionAbandonedTx rt attempt st =
     (if Attempt_AssignmentID attempt = '''' then Inr None
      else bind_result (loadAssignmentTx st (Attempt_AssignmentID attempt)) (\<lambda>assignment.
        if Assignment_AttemptID assignment \<noteq> Attempt_ID attempt
        then Inr (Some (Runtime_text rt (Sprintf ''assignment %q no longer owns parked attempt %q''
               [StrArg (Assignment_ID assignment), StrArg (Attempt_ID attempt)])))
        else if Assignment_State assignment = AssignmentCompleted \<or> Assignment_State assignment = AssignmentReleased
        then Inr (Some (Runtime_text rt (Sprintf ''assignment %q settled as %q while attempt %q was parked on a task-bound wait; the execution cannot be resumed''
               [StrArg (Assignment_ID assignment), StrArg (AssignmentState_text (Assignment_State assignment)), StrArg (Attempt_ID attempt)])))
        else Inr None))"

section \<open>The wake pass\<close>

type_synonym wake_pass = "TaskWaitWakeContext list \<times> wait_store"

definition wake_context :: "Attempt \<Rightarrow> TaskWait list \<Rightarrow> TaskWaitWakeContext" where
  "wake_context attempt ready =
     \<lparr>Wake_WorkerID = '''', Wake_WorkspacePath = '''', Wake_AttemptID = Attempt_ID attempt,
      Wake_ThreadID = Attempt_ThreadID attempt, Wake_AttemptRevision = Attempt_Revision attempt, Wake_Waits = ready\<rparr>"

definition abandon_wake :: "instant \<Rightarrow> Attempt \<Rightarrow> TaskWait list \<Rightarrow> wait_store \<Rightarrow> wait_store" where
  "abandon_wake now attempt ready st =
     recordTaskWaitEventTx
       \<lparr>Event_ID = ''undelivered:'' @ Wait_ID (hd ready), Event_Kind = TaskWaitReconciliationUndelivered,
        Event_AttemptID = Attempt_ID attempt, Event_WaitID = Wait_ID (hd ready), Event_ThreadID = Attempt_ThreadID attempt,
        Event_Detail = Sprintf ''wait settled after attempt %q became %q; the outcome could not be delivered''
          [StrArg (Attempt_ID attempt), StrArg (ProgressState_text (Attempt_Progress attempt))],
        Event_ObservedAt = now\<rparr>
       (markTaskWaitsWokenTx ready attempt ''abandoned'' False now st)"

definition resumed_attempt :: "instant \<Rightarrow> Attempt \<Rightarrow> Attempt" where
  "resumed_attempt now attempt =
     attempt\<lparr>Attempt_Revision := wrap64 (Attempt_Revision attempt + 1), Attempt_Progress := ProgressActive,
       Attempt_Control := ControlResuming, Attempt_LastTurnOutcomeID := '''', Attempt_LastTurnOutcomeMarker := TurnOutcomeNone,
       Attempt_UpdatedAt := now\<rparr>"

definition resume_wake :: "instant \<Rightarrow> Attempt \<Rightarrow> TaskWait list \<Rightarrow> wake_pass \<Rightarrow> wake_pass go_result" where
  "resume_wake now attempt ready acc =
     (let resumed = resumed_attempt now attempt; cleared = map (\<lambda>w. w\<lparr>Wait_WakeDeferral := None\<rparr>) ready in
      bind_result (saveAttemptFencedTx resumed (Attempt_Revision attempt) (snd acc)) (\<lambda>st.
        Inr (fst acc @ [wake_context resumed (woken_waits cleared resumed ''pending'' True now)],
             markTaskWaitsWokenTx cleared resumed ''pending'' True now st)))"

definition wake_parked ::
  "go_runtime \<Rightarrow> instant \<Rightarrow> TaskWakeCutoffs \<Rightarrow> string \<times> instant \<Rightarrow> Attempt \<Rightarrow> TaskWait list \<Rightarrow> wake_pass \<Rightarrow> wake_pass go_result" where
  "wake_parked rt now cutoffs candidate attempt ready acc =
     bind_result (taskWaitExecutionAbandonedTx rt attempt (snd acc)) (\<lambda>abandoned.
       case abandoned of
         Some reason \<Rightarrow>
           bind_result (revokeTaskAuthorityTx attempt reason now (snd acc)) (\<lambda>st.
             Inr (fst acc, markTaskWaitsWokenTx ready attempt ''abandoned'' False now st))
       | None \<Rightarrow>
           bind_result (loadAssignmentTx (snd acc) (Attempt_AssignmentID attempt)) (\<lambda>assignment.
             bind_result (wake_verdict_of now cutoffs candidate attempt assignment (snd acc)) (\<lambda>verdict.
               case verdict of
                 WakeSkip \<Rightarrow> Inr acc
               | WakeDefer code detail workerID poolID \<Rightarrow>
                   Inr (fst acc, deferTaskWakeTx rt cutoffs ready code detail workerID poolID now (snd acc))
               | WakeAdmit \<Rightarrow> resume_wake now attempt ready acc)))"

definition scoped_out :: "TaskWakeCutoffs \<Rightarrow> Attempt \<Rightarrow> wait_store \<Rightarrow> bool go_result" where
  "scoped_out cutoffs attempt st =
     (if Terminal (Attempt_Progress attempt)
         \<or> (Cutoffs_ContendingWorker cutoffs = '''' \<and> Cutoffs_ContendingPool cutoffs = '''') then Inr False
      else if Attempt_AssignmentID attempt = '''' then Inr True
      else bind_result (loadAssignmentTx st (Attempt_AssignmentID attempt)) (\<lambda>scoped.
        Inr (Assignment_WorkerID scoped \<noteq> Cutoffs_ContendingWorker cutoffs
             \<and> Route_QuotaPoolID (Assigned_Route scoped) \<noteq> Cutoffs_ContendingPool cutoffs)))"

definition wake_attempt ::
  "go_runtime \<Rightarrow> instant \<Rightarrow> TaskWakeCutoffs \<Rightarrow> string \<times> instant \<Rightarrow> TaskWait list \<Rightarrow> wake_pass \<Rightarrow> wake_pass go_result" where
  "wake_attempt rt now cutoffs candidate ready acc =
     bind_result (loadAttemptTx (snd acc) (fst candidate)) (\<lambda>attempt.
       bind_result (scoped_out cutoffs attempt (snd acc)) (\<lambda>skip.
         if skip then Inr acc
         else if Terminal (Attempt_Progress attempt) then Inr (fst acc, abandon_wake now attempt ready (snd acc))
         else if Attempt_Progress attempt \<noteq> ProgressWaitingExternal
         then Inr (fst acc @ [wake_context attempt (woken_waits ready attempt ''pending'' False now)],
                   markTaskWaitsWokenTx ready attempt ''pending'' False now (snd acc))
         else wake_parked rt now cutoffs candidate attempt ready acc))"

fun wake_all ::
  "go_runtime \<Rightarrow> instant \<Rightarrow> TaskWakeCutoffs \<Rightarrow> TaskWait list \<Rightarrow> (string \<times> instant) list \<Rightarrow> wake_pass \<Rightarrow> wake_pass go_result" where
  "wake_all rt now cutoffs waits [] acc = Inr acc"
| "wake_all rt now cutoffs waits (candidate # rest) acc =
     (case taskWaitWakeSet (waits_of (fst candidate) waits) of
        None \<Rightarrow> wake_all rt now cutoffs waits rest acc
      | Some ready \<Rightarrow>
          bind_result (wake_attempt rt now cutoffs candidate ready acc) (\<lambda>acc'. wake_all rt now cutoffs waits rest acc'))"

definition WakeTaskWaitsBefore ::
  "go_runtime \<Rightarrow> instant \<Rightarrow> TaskWakeCutoffs \<Rightarrow> wait_store \<Rightarrow> wake_pass go_result" where
  "WakeTaskWaitsBefore rt now cutoffs st =
     (if is_zero_time now then Inl (Errorf ''task-bound wait wake needs a timestamp'' [])
      else wake_all rt now cutoffs (load_waits st) (wake_candidates (load_waits st)) ([], st))"

definition no_cutoffs :: TaskWakeCutoffs where
  "no_cutoffs = \<lparr>Cutoffs_Worker = [], Cutoffs_Pool = [], Cutoffs_AuthorizedWorkers = None, Cutoffs_AdmissionValidAfter = 0,
     Cutoffs_ContendingWorker = '''', Cutoffs_ContendingPool = ''''\<rparr>"

definition WakeTaskWaits :: "go_runtime \<Rightarrow> instant \<Rightarrow> wait_store \<Rightarrow> wake_pass go_result" where
  "WakeTaskWaits rt now st = WakeTaskWaitsBefore rt now no_cutoffs st"

end
