(* ===== verification/TaskWakeDelivery.thy ===== *)
theory TaskWakeDelivery
  imports TaskWakes
begin

text \<open>
  Delivery of a committed wake: the fenced transitions of the message, the claim that names the
  exact group a sender committed to, the reconciliation of groups an older binary moved one wait
  at a time, and the listings of undelivered wakes and parked attempts
  (\<open>internal/store/sqlite/task_wait.go\<close>, \<open>task_wait_group.go\<close>, \<open>ask.go\<close>).
\<close>

section \<open>Group claims\<close>

definition group_claim_kind :: TaskWaitReconciliationKind where
  "group_claim_kind = TaskWaitReconciliationOther ''group-delivery-claim''"

definition taskWakeGroupClaim :: "TaskWait list \<Rightarrow> instant \<Rightarrow> TaskWaitReconciliation" where
  "taskWakeGroupClaim members now =
     (let ids = sort (map Wait_ID members); first = hd members in
      \<lparr>Event_ID = ''group-delivery-claim:'' @ Wait_DeliveryID first, Event_Kind = group_claim_kind,
       Event_AttemptID = Wait_AttemptID first, Event_WaitID = hd ids, Event_ThreadID = Wait_ThreadID first,
       Event_Detail = Sprintf ''%d:%s'' (IntArg (Wait_WakeRevision first) # map StrArg ids), Event_ObservedAt = now\<rparr>)"

definition taskWakeGroupClaimedTx :: "TaskWait list \<Rightarrow> wait_store \<Rightarrow> bool" where
  "taskWakeGroupClaimedTx members st =
     (let expected = taskWakeGroupClaim members 0 in
      case find (\<lambda>e. Event_ID e = Event_ID expected) (Store_events st) of
        None \<Rightarrow> False
      | Some event \<Rightarrow> Event_Kind event = Event_Kind expected \<and> Event_AttemptID event = Event_AttemptID expected
          \<and> Event_ThreadID event = Event_ThreadID expected \<and> Event_Detail event = Event_Detail expected)"

section \<open>Transitions\<close>

definition wake_transition_allowed :: "bool \<Rightarrow> string \<Rightarrow> string \<Rightarrow> bool" where
  "wake_transition_allowed woken source target \<longleftrightarrow> woken \<and>
     (source = ''pending'' \<and> (target = ''held'' \<or> target = ''sending'')
      \<or> source = ''held'' \<and> (target = ''pending'' \<or> target = ''sending'')
      \<or> (source = ''sending'' \<or> source = ''recovery-required'')
        \<and> (target = ''delivered'' \<or> target = ''observed'' \<or> target = ''recovery-required'')
      \<or> source = ''delivered'' \<and> target = ''observed''
      \<or> target = ''abandoned'' \<and> source \<noteq> ''delivered'' \<and> source \<noteq> ''observed'')"

definition same_delivery :: "TaskWait \<Rightarrow> TaskWait \<Rightarrow> bool" where
  "same_delivery wait member \<longleftrightarrow>
     Wait_DeliveryID wait \<noteq> '''' \<and> Wait_DeliveryID member = Wait_DeliveryID wait
     \<and> Wait_AttemptID member = Wait_AttemptID wait \<and> Wait_ThreadID member = Wait_ThreadID wait
     \<and> Wait_WakeRevision member = Wait_WakeRevision wait"

definition delivery_group :: "TaskWait \<Rightarrow> wait_store \<Rightarrow> TaskWait list" where
  "delivery_group wait st = filter (\<lambda>m. Wait_ID m = Wait_ID wait \<or> same_delivery wait m) (load_waits st)"

definition transition_wait :: "string \<Rightarrow> instant \<Rightarrow> TaskWait \<Rightarrow> TaskWait" where
  "transition_wait target now member =
     (let moved = member\<lparr>Wait_Delivery := target\<rparr>;
          delivered = (if target = ''delivered'' then moved\<lparr>Wait_DeliveredAt := Some now\<rparr> else moved)
      in if target = ''observed'' then delivered\<lparr>Wait_DeliveryObservedAt := Some now\<rparr> else delivered)"

definition TransitionTaskWake :: "string \<Rightarrow> string \<Rightarrow> string \<Rightarrow> instant \<Rightarrow> wait_store \<Rightarrow> (bool \<times> wait_store) go_result" where
  "TransitionTaskWake i source target now st =
     (case find (\<lambda>w. Wait_ID w = i) (Store_waits st) of
        None \<Rightarrow> Inl (Errorf ''sql: no rows in result set'' [])
      | Some wait \<Rightarrow>
          if Wait_Delivery wait \<noteq> source then Inr (False, st)
          else if \<not> wake_transition_allowed (Wait_Woken wait) source target
          then Inl (Errorf ''invalid task wake transition %s to %s'' [source, target])
          else
            let members = delivery_group wait st in
            if list_ex (\<lambda>m. Wait_Delivery m \<noteq> source) members then Inr (False, st)
            else
              let moved = save_waits (map (transition_wait target now) members) st in
              if length members > 1 \<and> target = ''sending''
              then Inr (True, recordTaskWaitEventTx (taskWakeGroupClaim members now) moved)
              else if length members > 1 \<and> (target = ''delivered'' \<or> target = ''observed'') \<and> \<not> taskWakeGroupClaimedTx members moved
              then Inr (False, st)
              else Inr (True, moved))"

section \<open>Reconciling groups\<close>

definition group_key :: "go_runtime \<Rightarrow> TaskWait \<Rightarrow> string" where
  "group_key rt w =
     Runtime_text rt (Sprintf ''%q/%q/%d/%q''
       [StrArg (Wait_AttemptID w), StrArg (Wait_ThreadID w), IntArg (Wait_WakeRevision w), StrArg (Wait_DeliveryID w)])"

definition grouped :: "TaskWait \<Rightarrow> bool" where
  "grouped w \<longleftrightarrow> Wait_Woken w \<and> Wait_DeliveryID w \<noteq> ''''"

definition group_keys :: "go_runtime \<Rightarrow> TaskWait list \<Rightarrow> string list" where
  "group_keys rt waits = Runtime_order rt (remdups (map (group_key rt) (filter grouped waits)))"

definition group_target :: "bool \<Rightarrow> string list \<Rightarrow> string option" where
  "group_target claimed states =
     (if ''manual-recovery-required'' \<in> set states
         \<or> \<not> claimed \<and> (''sending'' \<in> set states \<or> ''recovery-required'' \<in> set states \<or> ''delivered'' \<in> set states)
      then Some ''manual-recovery-required''
      else if length (remdups states) = 1 then None
      else if ''delivered'' \<in> set states then Some ''delivered''
      else if ''sending'' \<in> set states \<or> ''recovery-required'' \<in> set states then Some ''recovery-required''
      else if ''abandoned'' \<in> set states then Some ''abandoned''
      else if ''pending'' \<in> set states \<and> ''held'' \<in> set states then Some ''held''
      else Some ''manual-recovery-required'')"

definition ambiguous_event :: "TaskWait \<Rightarrow> instant \<Rightarrow> TaskWaitReconciliation" where
  "ambiguous_event first now =
     \<lparr>Event_ID = ''group-delivery-ambiguous:'' @ Wait_DeliveryID first, Event_Kind = TaskWaitReconciliationOther ''group-delivery-ambiguous'',
      Event_AttemptID = Wait_AttemptID first, Event_WaitID = Wait_ID first, Event_ThreadID = Wait_ThreadID first,
      Event_Detail = Sprintf ''manual recovery required: message existence cannot prove every grouped outcome was delivered'' [],
      Event_ObservedAt = now\<rparr>"

definition retarget_wait :: "string \<Rightarrow> instant \<Rightarrow> TaskWait \<Rightarrow> TaskWait" where
  "retarget_wait target now w =
     (let moved = w\<lparr>Wait_Delivery := target\<rparr> in if target = ''delivered'' then moved\<lparr>Wait_DeliveredAt := Some now\<rparr> else moved)"

definition reconcile_group ::
  "go_runtime \<Rightarrow> instant \<Rightarrow> string \<Rightarrow> TaskWait list \<times> wait_store \<Rightarrow> TaskWait list \<times> wait_store" where
  "reconcile_group rt now key acc =
     (let members = filter (\<lambda>w. grouped w \<and> group_key rt w = key) (fst acc) in
      if length members < 2 then acc
      else (case group_target (taskWakeGroupClaimedTx members (snd acc)) (map Wait_Delivery members) of
        None \<Rightarrow> acc
      | Some target \<Rightarrow>
          let st = (if target = ''manual-recovery-required'' then recordTaskWaitEventTx (ambiguous_event (hd members) now) (snd acc) else snd acc);
              changes = (\<lambda>w. grouped w \<and> group_key rt w = key \<and> Wait_Delivery w \<noteq> target)
          in (map (\<lambda>w. if changes w then retarget_wait target now w else w) (fst acc),
              save_waits (map (retarget_wait target now) (filter changes (fst acc))) st)))"

definition reconcileTaskWakeGroupsTx :: "go_runtime \<Rightarrow> instant \<Rightarrow> TaskWait list \<Rightarrow> wait_store \<Rightarrow> TaskWait list \<times> wait_store" where
  "reconcileTaskWakeGroupsTx rt now waits st = fold (reconcile_group rt now) (group_keys rt waits) (waits, st)"

section \<open>Undelivered wakes\<close>

definition ReviewRoundID :: "TaskWait \<Rightarrow> string" where
  "ReviewRoundID w =
     (if \<not> has_prefix (Wait_RequestID w) ''review-parent:'' \<or> Wait_Kind w \<noteq> WaitKindNode then ''''
      else (case Wait_Node w of None \<Rightarrow> '''' | Some n \<Rightarrow> NodeRef_RunID (NodeCond_Target n)))"

definition askAnswerWorkspaceTx :: "StoredAssignment \<Rightarrow> TaskWait list \<Rightarrow> wait_store \<Rightarrow> string" where
  "askAnswerWorkspaceTx assignment waits st =
     (if \<not> list_ex (\<lambda>w. ReviewRoundID w \<noteq> '''') waits \<or> Assignment_WorkerID assignment = '''' then ''''
      else (case loadWorkerSnapshotTx st (Assignment_WorkerID assignment) of
        None \<Rightarrow> ''''
      | Some snapshot \<Rightarrow> (case map_of (Stored_Workspaces snapshot) (Assignment_ID assignment) of None \<Rightarrow> '''' | Some path \<Rightarrow> path)))"

definition message_uncertain :: "TaskWait \<Rightarrow> bool" where
  "message_uncertain w \<longleftrightarrow>
     Wait_Delivery w = ''sending'' \<or> Wait_Delivery w = ''recovery-required'' \<or> Wait_Delivery w = ''manual-recovery-required''
     \<or> Wait_Delivery w = ''delivered''"

definition awaiting_delivery :: "TaskWait \<Rightarrow> bool" where
  "awaiting_delivery w \<longleftrightarrow>
     \<not> (\<not> Wait_Woken w \<or> Wait_Delivery w = ''observed'' \<or> Wait_Delivery w = ''abandoned'' \<or> Wait_Delivery w = ''delivered'')"

definition wake_stale :: "Attempt \<Rightarrow> TaskWait \<Rightarrow> bool" where
  "wake_stale attempt w \<longleftrightarrow> Terminal (Attempt_Progress attempt) \<or> Wait_WakeRevision w \<noteq> Attempt_Revision attempt"

definition close_stale_wake :: "instant \<Rightarrow> Attempt \<Rightarrow> TaskWait \<Rightarrow> wait_store \<Rightarrow> wait_store" where
  "close_stale_wake now attempt w st =
     recordTaskWaitEventTx
       \<lparr>Event_ID = ''undelivered:'' @ Wait_ID w, Event_Kind = TaskWaitReconciliationUndelivered, Event_AttemptID = Attempt_ID attempt,
        Event_WaitID = Wait_ID w, Event_ThreadID = Wait_ThreadID w,
        Event_Detail = Sprintf ''wake for attempt revision %d could not be delivered: attempt is %q at revision %d''
          [IntArg (Wait_WakeRevision w), StrArg (ProgressState_text (Attempt_Progress attempt)), IntArg (Attempt_Revision attempt)],
        Event_ObservedAt = now\<rparr>
       (saveTaskWaitTx (w\<lparr>Wait_Delivery := ''abandoned''\<rparr>) st)"

definition pending_attempt ::
  "instant \<Rightarrow> TaskWait list \<Rightarrow> string \<Rightarrow> wake_pass \<Rightarrow> wake_pass go_result" where
  "pending_attempt now waits attemptID acc =
     (let members = sort_less wait_less (waits_of attemptID (filter awaiting_delivery waits)) in
      bind_result (loadAttemptTx (snd acc) attemptID) (\<lambda>attempt.
        let closed = filter (\<lambda>w. wake_stale attempt w \<and> \<not> message_uncertain w) members;
            live = sort_less wait_less (filter (\<lambda>w. \<not> wake_stale attempt w) members
                     @ filter (\<lambda>w. wake_stale attempt w \<and> message_uncertain w) members);
            st = fold (close_stale_wake now attempt) closed (snd acc)
        in if live = [] then Inr (fst acc, st)
           else bind_result (loadAssignmentTx st (Attempt_AssignmentID attempt)) (\<lambda>assignment.
             Inr (fst acc @ [(wake_context attempt live)\<lparr>Wake_WorkerID := Assignment_WorkerID assignment,
                    Wake_WorkspacePath := askAnswerWorkspaceTx assignment live st\<rparr>], st))))"

fun pending_attempts :: "instant \<Rightarrow> TaskWait list \<Rightarrow> string list \<Rightarrow> wake_pass \<Rightarrow> wake_pass go_result" where
  "pending_attempts now waits [] acc = Inr acc"
| "pending_attempts now waits (attemptID # rest) acc =
     bind_result (pending_attempt now waits attemptID acc) (pending_attempts now waits rest)"

definition TaskWakesAwaitingDelivery :: "go_runtime \<Rightarrow> instant \<Rightarrow> wait_store \<Rightarrow> wake_pass go_result" where
  "TaskWakesAwaitingDelivery rt now st =
     (case reconcileTaskWakeGroupsTx rt now (load_waits st) st of
        (waits, reconciled) \<Rightarrow>
          pending_attempts now waits (sort (remdups (map Wait_AttemptID (filter awaiting_delivery waits)))) ([], reconciled))"

section \<open>Parked attempts\<close>

definition first_wait_of :: "(TaskWait \<Rightarrow> bool) \<Rightarrow> TaskWait list \<Rightarrow> (string \<times> string) list" where
  "first_wait_of P waits =
     (let chosen = filter P waits in
      map (\<lambda>i. (i, fold min (map Wait_ID (tl (waits_of i chosen))) (Wait_ID (hd (waits_of i chosen))))) (remdups (map Wait_AttemptID chosen)))"

definition attempt_parked :: "wait_store \<Rightarrow> string \<Rightarrow> bool" where
  "attempt_parked st i = (case loadAttemptTx st i of Inl _ \<Rightarrow> False | Inr attempt \<Rightarrow> Attempt_Progress attempt = ProgressWaitingExternal)"

definition LiveTaskWaitAttempts :: "wait_store \<Rightarrow> (string \<times> string) list" where
  "LiveTaskWaitAttempts st = filter (\<lambda>entry. attempt_parked st (fst entry)) (first_wait_of Wait_Live (load_waits st))"

definition parkedTaskWaitAttempts :: "go_runtime \<Rightarrow> instant \<Rightarrow> string \<Rightarrow> wait_store \<Rightarrow> (string \<times> string) list \<times> wait_store" where
  "parkedTaskWaitAttempts rt now workerID st =
     (let selected = filter (\<lambda>w. workerID = '''' \<or> list_ex (\<lambda>a. Assignment_AttemptID a = Wait_AttemptID w \<and> Assignment_WorkerID a = workerID)
                (Store_assignments st)) (load_waits st)
      in case reconcileTaskWakeGroupsTx rt now selected st of
        (waits, reconciled) \<Rightarrow>
          (filter (\<lambda>entry. list_ex (\<lambda>w. Wait_AttemptID w = fst entry \<and> Parking w \<and> Wait_Woken w) waits
                     \<or> attempt_parked reconciled (fst entry))
             (first_wait_of Parking waits), reconciled))"

definition ParkedTaskWaitAttempts :: "go_runtime \<Rightarrow> instant \<Rightarrow> wait_store \<Rightarrow> (string \<times> string) list \<times> wait_store" where
  "ParkedTaskWaitAttempts rt now st = parkedTaskWaitAttempts rt now '''' st"

definition ParkedTaskWaitAttemptsFor :: "go_runtime \<Rightarrow> instant \<Rightarrow> string \<Rightarrow> wait_store \<Rightarrow> ((string \<times> string) list \<times> wait_store) go_result" where
  "ParkedTaskWaitAttemptsFor rt now workerID st =
     (if workerID = '''' then Inl (Errorf ''worker identity is required'' []) else Inr (parkedTaskWaitAttempts rt now workerID st))"

fun record_events :: "TaskWaitReconciliation list \<Rightarrow> wait_store \<Rightarrow> wait_store go_result" where
  "record_events [] st = Inr st"
| "record_events (event # rest) st =
     (if Event_ID event = '''' \<or> Event_AttemptID event = ''''
      then Inl (Errorf ''task wait reconciliation needs an identity and an attempt'' [])
      else record_events rest (recordTaskWaitEventTx event st))"

definition RecordTaskWaitReconciliations :: "TaskWaitReconciliation list \<Rightarrow> wait_store \<Rightarrow> wait_store go_result" where
  "RecordTaskWaitReconciliations events st = record_events events st"

end
