(* ===== verification/TaskWaitSpec.thy ===== *)
theory TaskWaitSpec
  imports TaskWakeDelivery
begin

text \<open>
  What every operation on task-bound waits keeps: the identities of the rows, what is settled and
  what is woken of a wait, and where a message whose send is durable can go. Each operation is
  shown to rewrite the waits row by row, so that the facts about single rows compose.
\<close>

section \<open>How a row may change\<close>

text \<open>A message whose send is durable may have reached its thread, or never will.\<close>

definition sent_states :: "string set" where
  "sent_states = {''recovery-required'', ''manual-recovery-required'', ''delivered'', ''abandoned''}"

definition durable_states :: "string set" where
  "durable_states = insert ''sending'' sent_states"

definition wait_evolves :: "TaskWait \<Rightarrow> TaskWait \<Rightarrow> bool" where
  "wait_evolves w w' \<longleftrightarrow>
     Wait_ID w' = Wait_ID w \<and> Wait_AttemptID w' = Wait_AttemptID w \<and> Wait_Wake w' = Wait_Wake w
     \<and> Wait_Deadline w' = Wait_Deadline w \<and> Wait_RequestID w' = Wait_RequestID w
     \<and> (Wait_Settled w \<longrightarrow> Wait_Result w' = Wait_Result w \<and> Wait_SettledAt w' = Wait_SettledAt w)
     \<and> (Wait_Woken w \<longrightarrow> Wait_WokenAt w' = Wait_WokenAt w \<and> Wait_DeliveryID w' = Wait_DeliveryID w
          \<and> Wait_WakeRevision w' = Wait_WakeRevision w \<and> Wait_Resumption w' = Wait_Resumption w)"

text \<open>A row is named by its request, unsent until it is woken, and woken only once it is settled with
  a result.\<close>

definition wait_wf :: "TaskWait \<Rightarrow> bool" where
  "wait_wf w \<longleftrightarrow>
     Wait_ID w = taskWaitID (Wait_RequestID w)
     \<and> (\<not> Wait_Woken w \<longrightarrow> Wait_Delivery w = '''' \<and> Wait_DeliveryID w = '''')
     \<and> (Wait_Woken w \<longrightarrow> Wait_Settled w)
     \<and> (Wait_Settled w \<longrightarrow> Wait_Result w \<noteq> None)"

definition row_ok :: "TaskWait \<Rightarrow> TaskWait \<Rightarrow> bool" where
  "row_ok w w' \<longleftrightarrow> wait_evolves w w' \<and> (wait_wf w \<longrightarrow> wait_wf w')
     \<and> (Wait_Delivery w \<in> durable_states \<longrightarrow> Wait_Delivery w' = Wait_Delivery w \<or> Wait_Delivery w' \<in> sent_states)"

lemma row_ok_refl [simp]: "row_ok w w"
  by (simp add: row_ok_def wait_evolves_def)

lemma wait_evolves_trans: "wait_evolves u v \<Longrightarrow> wait_evolves v w \<Longrightarrow> wait_evolves u w"
  by (auto simp: wait_evolves_def Wait_Settled_def Wait_Woken_def)

lemma row_ok_trans:
  assumes "row_ok u v" and "row_ok v w"
  shows "row_ok u w"
proof -
  have "Wait_Delivery w = Wait_Delivery u \<or> Wait_Delivery w \<in> sent_states" if "Wait_Delivery u \<in> durable_states"
    using assms that unfolding row_ok_def durable_states_def by (metis insertCI)
  then show ?thesis using assms wait_evolves_trans [of u v w] by (simp add: row_ok_def)
qed

definition store_wf :: "wait_store \<Rightarrow> bool" where
  "store_wf st \<longleftrightarrow>
     distinct (map Wait_ID (Store_waits st)) \<and> distinct (map Attempt_ID (Store_attempts st))
     \<and> (\<forall>w \<in> set (Store_waits st). wait_wf w)"

section \<open>Rewriting the waits row by row\<close>

lemma list_all2_left: "list_all2 P xs ys \<Longrightarrow> x \<in> set xs \<Longrightarrow> \<exists>y \<in> set ys. P x y"
  by (induction rule: list_all2_induct) auto

lemma list_all2_right: "list_all2 P xs ys \<Longrightarrow> y \<in> set ys \<Longrightarrow> \<exists>x \<in> set xs. P x y"
  by (induction rule: list_all2_induct) auto

definition rows :: "(TaskWait \<Rightarrow> TaskWait \<Rightarrow> bool) \<Rightarrow> wait_store \<Rightarrow> wait_store \<Rightarrow> bool" where
  "rows P st st' \<longleftrightarrow> list_all2 P (Store_waits st) (Store_waits st')"

lemma rows_refl: "(\<And>w. P w w) \<Longrightarrow> rows P st st"
  by (simp add: rows_def list_all2_refl)

lemma rows_trans: "rows P a b \<Longrightarrow> rows Q b c \<Longrightarrow> (\<And>u v w. P u v \<Longrightarrow> Q v w \<Longrightarrow> R u w) \<Longrightarrow> rows R a c"
  unfolding rows_def by (rule list_all2_trans)

lemma rows_mono: "rows P a b \<Longrightarrow> (\<And>u v. P u v \<Longrightarrow> Q u v) \<Longrightarrow> rows Q a b"
  unfolding rows_def by (rule list_all2_mono)

lemma rows_member:
  assumes "rows P st st'" and "w \<in> set (Store_waits st)"
  obtains w' where "w' \<in> set (Store_waits st')" and "P w w'"
  using list_all2_left [OF assms(1) [unfolded rows_def] assms(2)] by (elim bexE)

lemma rows_memberD:
  assumes "rows P st st'" and "w' \<in> set (Store_waits st')"
  obtains w where "w \<in> set (Store_waits st)" and "P w w'"
  using list_all2_right [OF assms(1) [unfolded rows_def] assms(2)] by (elim bexE)

lemma rows_ids:
  assumes "rows P st st'" and "\<And>u v. P u v \<Longrightarrow> Wait_ID v = Wait_ID u"
  shows "map Wait_ID (Store_waits st') = map Wait_ID (Store_waits st)"
  using assms unfolding rows_def by (auto simp: list_all2_conv_all_nth list_eq_iff_nth_eq)

lemma same_id: "distinct (map Wait_ID ws) \<Longrightarrow> u \<in> set ws \<Longrightarrow> v \<in> set ws \<Longrightarrow> Wait_ID u = Wait_ID v \<longleftrightarrow> u = v"
  by (auto simp: distinct_map dest: inj_onD)

lemma put_wait_known:
  assumes "distinct (map Wait_ID ws)" and "w \<in> set ws" and "Wait_ID w' = Wait_ID w"
  shows "put_wait w' ws = map (\<lambda>v. if v = w then w' else v) ws"
  using assms by (auto simp: put_wait_def list_ex_iff same_id cong: map_cong)

lemma put_wait_new:
  assumes "\<forall>v \<in> set ws. Wait_ID v \<noteq> Wait_ID w"
  shows "put_wait w ws = ws @ [w]"
  using assms by (auto simp: put_wait_def list_ex_iff)

lemma save_wait_fields [simp]:
  "Store_attempts (saveTaskWaitTx w st) = Store_attempts st"
  "Store_assignments (saveTaskWaitTx w st) = Store_assignments st"
  "Store_waits (saveTaskWaitTx w st) = put_wait w (Store_waits st)"
  by (simp_all add: saveTaskWaitTx_def)

lemma save_waits_fields [simp]:
  "Store_attempts (save_waits ws st) = Store_attempts st"
  "Store_assignments (save_waits ws st) = Store_assignments st"
  by (induction ws arbitrary: st) (simp_all add: save_waits_def)

lemma record_event_fields [simp]:
  "Store_attempts (recordTaskWaitEventTx e st) = Store_attempts st"
  "Store_waits (recordTaskWaitEventTx e st) = Store_waits st"
  "Store_assignments (recordTaskWaitEventTx e st) = Store_assignments st"
  by (simp_all add: recordTaskWaitEventTx_def)

lemma save_waits_snoc: "save_waits (ws @ [w]) st = saveTaskWaitTx w (save_waits ws st)"
  by (simp add: save_waits_def)

lemma save_waits_map:
  assumes "distinct (map Wait_ID (Store_waits st))" and "set R \<subseteq> set (Store_waits st)"
    and "\<And>v. v \<in> set R \<Longrightarrow> Wait_ID (f v) = Wait_ID v"
  shows "Store_waits (save_waits (map f R) st) = map (\<lambda>v. if v \<in> set R then f v else v) (Store_waits st)"
  using assms(2,3)
proof (induction R rule: rev_induct)
  case Nil
  then show ?case by (simp add: save_waits_def)
next
  case (snoc r R)
  let ?g = "\<lambda>v. if v \<in> set R then f v else v" and ?h = "\<lambda>v. if v \<in> set (R @ [r]) then f v else v"
  have old: "Store_waits (save_waits (map f R) st) = map ?g (Store_waits st)" using snoc by simp
  have r: "r \<in> set (Store_waits st)" "Wait_ID (f r) = Wait_ID r" using snoc.prems by auto
  have g: "Wait_ID (?g v) = Wait_ID v" for v using snoc.prems by simp
  have ids: "map Wait_ID (map ?g (Store_waits st)) = map Wait_ID (Store_waits st)" using g by simp
  have "put_wait (f r) (map ?g (Store_waits st)) = map (\<lambda>v. if v = ?g r then f r else v) (map ?g (Store_waits st))"
  proof (rule put_wait_known)
    show "distinct (map Wait_ID (map ?g (Store_waits st)))" using assms(1) ids by metis
    show "?g r \<in> set (map ?g (Store_waits st))" using r(1) by auto
    show "Wait_ID (f r) = Wait_ID (?g r)" using r(2) g [of r] by simp
  qed
  also have "\<dots> = map ?h (Store_waits st)"
  proof (unfold map_map, rule map_cong [OF refl])
    fix v assume v: "v \<in> set (Store_waits st)"
    have "?g v = ?g r \<longleftrightarrow> v = r" using same_id [OF assms(1) v r(1)] g [of v] g [of r] by metis
    then show "((\<lambda>v. if v = ?g r then f r else v) \<circ> ?g) v = ?h v" by auto
  qed
  finally show ?case using old by (simp add: save_waits_snoc)
qed

lemma save_waits_rows:
  assumes "distinct (map Wait_ID (Store_waits st))" and "set R \<subseteq> set (Store_waits st)"
    and "\<And>v. v \<in> set R \<Longrightarrow> Wait_ID (f v) = Wait_ID v"
    and "\<And>v. v \<in> set R \<Longrightarrow> P v (f v)" and "\<And>v. P v v"
  shows "rows P st (save_waits (map f R) st)"
  using save_waits_map [OF assms(1-3)] assms(4,5) by (auto simp: rows_def list_all2_map2 intro!: list_all2_refl list.rel_refl_strong)

section \<open>Attempts\<close>

definition attempts_at :: "string set \<Rightarrow> wait_store \<Rightarrow> wait_store \<Rightarrow> bool" where
  "attempts_at J st st' \<longleftrightarrow>
     list_all2 (\<lambda>a b. Attempt_ID b = Attempt_ID a \<and> (Attempt_ID a \<notin> J \<longrightarrow> b = a)) (Store_attempts st) (Store_attempts st')"

definition unparked :: "string \<Rightarrow> wait_store \<Rightarrow> bool" where
  "unparked i st \<longleftrightarrow> (\<forall>a \<in> set (Store_attempts st). Attempt_ID a = i \<longrightarrow> Attempt_Progress a \<noteq> ProgressWaitingExternal)"

lemma attempts_at_refl: "Store_attempts st' = Store_attempts st \<Longrightarrow> attempts_at J st st'"
  by (simp add: attempts_at_def list_all2_refl)

lemma attempts_at_ids: "attempts_at J st st' \<Longrightarrow> map Attempt_ID (Store_attempts st') = map Attempt_ID (Store_attempts st)"
  by (auto simp: attempts_at_def list_all2_conv_all_nth list_eq_iff_nth_eq)

lemma attempts_at_other:
  assumes "attempts_at J st st'" and "Attempt_ID a \<notin> J"
  shows "a \<in> set (Store_attempts st') \<longleftrightarrow> a \<in> set (Store_attempts st)"
  using list_all2_left [OF assms(1) [unfolded attempts_at_def], of a] list_all2_right [OF assms(1) [unfolded attempts_at_def], of a]
    assms(2) by auto

lemma unparked_other: "attempts_at J st st' \<Longrightarrow> i \<notin> J \<Longrightarrow> unparked i st' \<longleftrightarrow> unparked i st"
  using attempts_at_other by (auto simp: unparked_def)

lemma attempts_at_trans:
  assumes "attempts_at J a b" and "attempts_at K b c"
  shows "attempts_at (J \<union> K) a c"
  unfolding attempts_at_def
  by (rule list_all2_trans [OF _ assms [unfolded attempts_at_def]]) auto

lemma save_attempt_ok:
  assumes "saveAttemptFencedTx attempt expected st = Inr st'"
  shows "Store_waits st' = Store_waits st" and "attempts_at {Attempt_ID attempt} st st'"
    and "Attempt_Progress attempt \<noteq> ProgressWaitingExternal \<Longrightarrow> unparked (Attempt_ID attempt) st'"
    and "Store_attempts st' = map (\<lambda>a. if Attempt_ID a = Attempt_ID attempt then attempt else a) (Store_attempts st)"
  using assms
  by (auto simp: saveAttemptFencedTx_def attempts_at_def unparked_def list_all2_conv_all_nth split: if_splits)

lemma load_attempt_ok:
  assumes "loadAttemptTx st i = Inr a"
  shows "a \<in> set (Store_attempts st)" and "Attempt_ID a = i"
  using assms find_SomeD [of "\<lambda>a. Attempt_ID a = i"] by (auto simp: loadAttemptTx_def split: option.splits)

lemma loaded_unparked:
  assumes "store_wf st" and "loadAttemptTx st i = Inr a" and "Attempt_Progress a \<noteq> ProgressWaitingExternal"
  shows "unparked i st"
  using assms load_attempt_ok [OF assms(2)] unfolding store_wf_def unparked_def
  by (metis distinct_map inj_on_eq_iff)

section \<open>One attempt of a wake pass\<close>

definition wake_row :: "string \<Rightarrow> TaskWait \<Rightarrow> TaskWait \<Rightarrow> bool" where
  "wake_row i w w' \<longleftrightarrow> row_ok w w' \<and> (Wait_AttemptID w \<noteq> i \<or> Wait_Woken w \<longrightarrow> w' = w)"

definition explained :: "TaskWait list \<Rightarrow> wait_store \<Rightarrow> bool" where
  "explained ready st \<longleftrightarrow>
     (\<forall>w \<in> set ready. \<exists>w' \<in> set (Store_waits st). Wait_ID w' = Wait_ID w \<and> Wait_AttemptID w' = Wait_AttemptID w
        \<and> Wait_WakeDeferral w' \<noteq> None)"

definition governed :: "TaskWakeCutoffs \<Rightarrow> bool" where
  "governed cutoffs \<longleftrightarrow> Cutoffs_AuthorizedWorkers cutoffs \<noteq> None \<and> Cutoffs_ContendingWorker cutoffs = ''''
     \<and> Cutoffs_ContendingPool cutoffs = ''''"

definition wake_step_ok :: "TaskWakeCutoffs \<Rightarrow> string \<Rightarrow> TaskWait list \<Rightarrow> wait_store \<Rightarrow> wait_store \<Rightarrow> bool" where
  "wake_step_ok cutoffs i ready st st' \<longleftrightarrow>
     rows (wake_row i) st st' \<and> attempts_at {i} st st'
     \<and> (unparked i st'
        \<or> Store_attempts st' = Store_attempts st \<and> rows (\<lambda>w w'. Wait_AttemptID w' = Wait_AttemptID w \<and> Wait_Woken w' = Wait_Woken w) st st'
          \<and> (governed cutoffs \<longrightarrow> explained ready st'))"

definition ready_of :: "string \<Rightarrow> TaskWait list \<Rightarrow> wait_store \<Rightarrow> bool" where
  "ready_of i ready st \<longleftrightarrow>
     ready \<noteq> [] \<and> (\<forall>w \<in> set ready. w \<in> set (Store_waits st) \<and> Wait_AttemptID w = i \<and> Wait_Settled w \<and> \<not> Wait_Woken w)"

lemma woken_row:
  assumes "wait_wf w" and "Wait_Settled w" and "\<not> Wait_Woken w" and "Wait_AttemptID w = i"
  shows "wake_row i w (woken_wait f a d r now (w\<lparr>Wait_WakeDeferral := x\<rparr>))"
  using assms
  by (auto simp: wake_row_def row_ok_def wait_evolves_def wait_wf_def woken_wait_def Wait_Woken_def Wait_Settled_def durable_states_def
      sent_states_def)

lemma deferred_row: "wake_row i w (defer_wait d w) \<longleftrightarrow> defer_wait d w = w \<or> Wait_AttemptID w = i \<and> \<not> Wait_Woken w"
  by (auto simp: wake_row_def row_ok_def wait_evolves_def wait_wf_def defer_wait_def Wait_Woken_def Wait_Settled_def
      split: option.splits if_splits)

lemma ready_ofD:
  assumes "ready_of i ready st" and "store_wf st" and "w \<in> set ready"
  shows "w \<in> set (Store_waits st)" and "Wait_AttemptID w = i" and "Wait_Settled w" and "\<not> Wait_Woken w" and "wait_wf w"
  using assms by (auto simp: ready_of_def store_wf_def)

lemma ready_of_waits: "Store_waits st' = Store_waits st \<Longrightarrow> ready_of i ready st' = ready_of i ready st"
  by (simp add: ready_of_def)

lemma bind_result_ok: "bind_result r f = Inr y \<longleftrightarrow> (\<exists>x. r = Inr x \<and> f x = Inr y)"
  by (auto simp: bind_result_def split: sum.splits)

lemma marked_rows:
  assumes ready: "ready_of i ready st" and wf: "store_wf st"
    and c: "\<And>w. \<exists>x. c w = w\<lparr>Wait_WakeDeferral := x\<rparr>"
  shows "rows (wake_row i) st (markTaskWaitsWokenTx (map c ready) a d r now st)"
proof -
  obtain f where f: "woken_waits (map c ready) a d r now = map (\<lambda>w. woken_wait f a d r now (c w)) ready"
    by (auto simp: woken_waits_def)
  have cw: "woken_wait f a d r now (c w) = w \<or> True" "Wait_ID (woken_wait f a d r now (c w)) = Wait_ID w" for w
    using c [of w] by (auto simp: woken_wait_def)
  have "wake_row i w (woken_wait f a d r now (c w))" if "w \<in> set ready" for w
    using c [of w] woken_row [OF ready_ofD(5,3,4,2) [OF ready wf that]] by auto
  then have "rows (wake_row i) st (save_waits (map (\<lambda>w. woken_wait f a d r now (c w)) ready) st)"
    using wf ready cw(2) by (intro save_waits_rows) (auto simp: store_wf_def ready_of_def wake_row_def)
  then show ?thesis by (simp add: markTaskWaitsWokenTx_def f)
qed

lemma marked_attempts [simp]: "Store_attempts (markTaskWaitsWokenTx ws a d r now st) = Store_attempts st"
  by (simp add: markTaskWaitsWokenTx_def)

lemma marked_rows_plain:
  assumes "ready_of i ready st" and "store_wf st"
  shows "rows (wake_row i) st (markTaskWaitsWokenTx ready a d r now st)"
proof -
  have "\<exists>x. w = w\<lparr>Wait_WakeDeferral := x\<rparr>" for w :: TaskWait by (rule exI [of _ "Wait_WakeDeferral w"]) simp
  then show ?thesis using marked_rows [OF assms, of "\<lambda>w. w"] by simp
qed

lemma defer_wait_fields [simp]:
  "Wait_ID (defer_wait d w) = Wait_ID w" "Wait_AttemptID (defer_wait d w) = Wait_AttemptID w"
  "Wait_Woken (defer_wait d w) = Wait_Woken w" "Wait_WakeDeferral (defer_wait d w) \<noteq> None"
  by (auto simp: defer_wait_def Wait_Woken_def split: option.splits)

lemma deferred_ok:
  assumes ready: "ready_of i ready st" and wf: "store_wf st"
  shows "wake_step_ok cutoffs i ready st (deferTaskWakeTx rt cutoffs ready code detail workerID poolID now st)"
proof (cases "Cutoffs_AuthorizedWorkers cutoffs")
  case None
  then show ?thesis
    by (auto simp: wake_step_ok_def deferTaskWakeTx_def governed_def attempts_at_refl wake_row_def intro!: rows_refl)
next
  case (Some m)
  define d where "d = \<lparr>Deferral_Code = code, Deferral_Detail = Runtime_text rt detail, Deferral_WorkerID = workerID,
              Deferral_PoolID = poolID, Deferral_ObservedAt = now\<rparr>"
  define R where "R = filter (\<lambda>w. case Wait_WakeDeferral w of None \<Rightarrow> True | Some previous \<Rightarrow> \<not> same_deferral previous d) ready"
  let ?st = "save_waits (map (defer_wait d) R) st"
  have st: "deferTaskWakeTx rt cutoffs ready code detail workerID poolID now st = ?st"
    using Some unfolding R_def d_def deferTaskWakeTx_def Let_def by simp
  have R: "set R \<subseteq> set (Store_waits st)" "set R \<subseteq> set ready" using ready by (auto simp: R_def ready_of_def)
  have ids: "distinct (map Wait_ID (Store_waits st))" using wf by (simp add: store_wf_def)
  have waits: "Store_waits ?st = map (\<lambda>v. if v \<in> set R then defer_wait d v else v) (Store_waits st)"
    by (rule save_waits_map [OF ids R(1)]) simp
  have row: "wake_row i v (defer_wait d v)" if "v \<in> set R" for v
    using ready_ofD [OF ready wf, of v] R(2) that by (auto simp: deferred_row)
  have "rows (wake_row i) st ?st"
    using row by (intro save_waits_rows ids R(1)) (auto simp: wake_row_def)
  moreover have "rows (\<lambda>w w'. Wait_AttemptID w' = Wait_AttemptID w \<and> Wait_Woken w' = Wait_Woken w) st ?st"
    by (intro save_waits_rows ids R(1)) auto
  moreover have "explained ready ?st"
    unfolding explained_def
  proof
    fix w assume w: "w \<in> set ready"
    let ?w = "if w \<in> set R then defer_wait d w else w"
    have "?w \<in> set (Store_waits ?st)" unfolding waits using ready_ofD(1) [OF ready wf w] by auto
    moreover have "Wait_ID ?w = Wait_ID w \<and> Wait_AttemptID ?w = Wait_AttemptID w \<and> Wait_WakeDeferral ?w \<noteq> None"
      using w defer_wait_fields(4) by (cases "w \<in> set R") (simp_all add: R_def del: not_None_eq split: option.splits)
    ultimately show "\<exists>w' \<in> set (Store_waits ?st). Wait_ID w' = Wait_ID w \<and> Wait_AttemptID w' = Wait_AttemptID w
        \<and> Wait_WakeDeferral w' \<noteq> None" by (intro bexI)
  qed
  ultimately show ?thesis unfolding st by (simp add: wake_step_ok_def attempts_at_refl)
qed

lemma rows_same_waits: "Store_waits b = Store_waits a \<Longrightarrow> rows P b c = rows P a c"
  by (simp add: rows_def)



lemma revoke_ok:
  assumes "revokeTaskAuthorityTx attempt reason now st = Inr st'"
  shows "Store_waits st' = Store_waits st" and "attempts_at {Attempt_ID attempt} st st'"
    and "Terminal (Attempt_Progress attempt) \<Longrightarrow> Store_attempts st' = Store_attempts st"
    and "\<not> Terminal (Attempt_Progress attempt) \<Longrightarrow> unparked (Attempt_ID attempt) st'"
proof -
  define r where "r = recordTaskWaitEventTx
      \<lparr>Event_ID = ''revocation:'' @ Attempt_ID attempt, Event_Kind = TaskWaitReconciliationAuthorityRevoked,
        Event_AttemptID = Attempt_ID attempt, Event_WaitID = '''',
        Event_ThreadID = revoked_thread attempt (load_assignments st), Event_Detail = Sprintf ''%s'' [StrArg reason],
        Event_ObservedAt = now\<rparr>
      (st\<lparr>Store_assignments := map (\<lambda>a. if authorized_for (Attempt_ID attempt) a then revoke_assignment reason now a else a)
            (Store_assignments st)\<rparr>)"
  have r: "Store_waits r = Store_waits st" "Store_attempts r = Store_attempts st" by (simp_all add: r_def)
  have st': "(if Terminal (Attempt_Progress attempt) then Inr r
      else saveAttemptFencedTx (failed_attempt reason now attempt) (Attempt_Revision attempt) r) = Inr st'"
    using assms unfolding revokeTaskAuthorityTx_def r_def Let_def .
  have a: "attempts_at {Attempt_ID attempt} st st' = attempts_at {Attempt_ID attempt} r st'" by (simp add: attempts_at_def r)
  show "Store_waits st' = Store_waits st" "attempts_at {Attempt_ID attempt} st st'"
    using st' r save_attempt_ok(1,2) [of "failed_attempt reason now attempt" "Attempt_Revision attempt" r st']
    by (auto simp: a failed_attempt_def attempts_at_refl split: if_splits)
  show "Terminal (Attempt_Progress attempt) \<Longrightarrow> Store_attempts st' = Store_attempts st" using st' r by auto
  show "\<not> Terminal (Attempt_Progress attempt) \<Longrightarrow> unparked (Attempt_ID attempt) st'"
    using st' save_attempt_ok(3) [of "failed_attempt reason now attempt" "Attempt_Revision attempt" r st']
    by (simp add: failed_attempt_def)
qed

lemma skip_ok: "(governed cutoffs \<Longrightarrow> False) \<Longrightarrow> wake_step_ok cutoffs i ready st st"
  by (auto simp: wake_step_ok_def attempts_at_refl wake_row_def intro!: rows_refl)

lemma unparked_ok:
  assumes "rows (wake_row i) st st'" and "attempts_at {i} st st'" and "unparked i st'"
  shows "wake_step_ok cutoffs i ready st st'"
  using assms by (simp add: wake_step_ok_def)

lemma verdict_not_skipped:
  assumes "governed cutoffs" and "wake_verdict_of now cutoffs candidate attempt assignment st = Inr v"
  shows "v \<noteq> WakeSkip"
proof -
  have "cutoff_verdict cutoffs candidate assignment \<noteq> WakeSkip"
    using assms(1) by (auto simp: cutoff_verdict_def governed_def out_of_scope_def Let_def)
  moreover have "authority_verdict now cutoffs attempt assignment st \<noteq> Inr WakeSkip"
    by (auto simp: authority_verdict_def bind_result_def split: sum.splits)
  moreover have "pool_verdict cutoffs attempt assignment st \<noteq> Inr WakeSkip"
    by (auto simp: pool_verdict_def bind_result_def Let_def split: sum.splits option.splits)
  moreover have "capacity_verdict now attempt assignment st \<noteq> Inr WakeSkip"
    by (auto simp: capacity_verdict_def split: prod.splits capacity_check.splits)
  ultimately show ?thesis using assms(2)
    by (auto simp: wake_verdict_of_def then_verdict_def bind_result_ok split: if_splits)
qed

lemma resume_ok:
  assumes "resume_wake now attempt ready acc = Inr acc'" and "ready_of (Attempt_ID attempt) ready (snd acc)" and "store_wf (snd acc)"
  shows "wake_step_ok cutoffs (Attempt_ID attempt) ready (snd acc) (snd acc')"
proof -
  define resumed where "resumed = resumed_attempt now attempt"
  obtain st where st: "saveAttemptFencedTx resumed (Attempt_Revision attempt) (snd acc) = Inr st"
    and acc': "snd acc' = markTaskWaitsWokenTx (map (\<lambda>w. w\<lparr>Wait_WakeDeferral := None\<rparr>) ready) resumed ''pending'' True now st"
    using assms(1) by (auto simp: resume_wake_def resumed_def Let_def bind_result_ok)
  have i: "Attempt_ID resumed = Attempt_ID attempt" "Attempt_Progress resumed \<noteq> ProgressWaitingExternal"
    by (simp_all add: resumed_def resumed_attempt_def)
  note saved = save_attempt_ok [OF st]
  have wf: "store_wf st"
    using assms(3) saved(1) attempts_at_ids [OF saved(2)] by (simp add: store_wf_def)
  have "rows (wake_row (Attempt_ID attempt)) st (snd acc')"
    unfolding acc' using assms(2) saved(1) by (intro marked_rows wf) (auto simp: ready_of_def)
  then have "rows (wake_row (Attempt_ID attempt)) (snd acc) (snd acc')" using rows_same_waits [OF saved(1)] by simp
  moreover have "attempts_at {Attempt_ID attempt} (snd acc) (snd acc')" "unparked (Attempt_ID attempt) (snd acc')"
    using saved(2) saved(3) i by (simp_all add: attempts_at_def unparked_def acc')
  ultimately show ?thesis by (rule unparked_ok)
qed

lemma wake_parked_ok:
  assumes "wake_parked rt now cutoffs candidate attempt ready acc = Inr acc'"
    and ready: "ready_of (Attempt_ID attempt) ready (snd acc)" and wf: "store_wf (snd acc)"
    and "Attempt_Progress attempt = ProgressWaitingExternal"
  shows "wake_step_ok cutoffs (Attempt_ID attempt) ready (snd acc) (snd acc')"
proof -
  obtain abandoned where ab: "taskWaitExecutionAbandonedTx rt attempt (snd acc) = Inr abandoned"
    using assms(1) by (auto simp: wake_parked_def bind_result_ok)
  show ?thesis
  proof (cases abandoned)
    case (Some reason)
    then obtain st where st: "revokeTaskAuthorityTx attempt reason now (snd acc) = Inr st"
      and acc': "snd acc' = markTaskWaitsWokenTx ready attempt ''abandoned'' False now st"
      using assms(1) ab by (auto simp: wake_parked_def bind_result_ok)
    note revoked = revoke_ok [OF st]
    have "\<not> Terminal (Attempt_Progress attempt)" using assms(4) by (simp add: Terminal_def)
    then have "unparked (Attempt_ID attempt) (snd acc')" using revoked(4) by (simp add: acc' unparked_def)
    moreover have "attempts_at {Attempt_ID attempt} (snd acc) (snd acc')" using revoked(2) by (simp add: acc' attempts_at_def)
    moreover have "store_wf st" using wf revoked(1) attempts_at_ids [OF revoked(2)] by (simp add: store_wf_def)
    then have "rows (wake_row (Attempt_ID attempt)) st (snd acc')"
      unfolding acc' using ready revoked(1) by (intro marked_rows_plain) (auto simp: ready_of_def)
    ultimately show ?thesis using rows_same_waits [OF revoked(1)] by (intro unparked_ok) simp_all
  next
    case None
    then obtain assignment v where v: "wake_verdict_of now cutoffs candidate attempt assignment (snd acc) = Inr v"
      and acc': "(case v of WakeSkip \<Rightarrow> Inr acc
               | WakeDefer code detail workerID poolID \<Rightarrow>
                   Inr (fst acc, deferTaskWakeTx rt cutoffs ready code detail workerID poolID now (snd acc))
               | WakeAdmit \<Rightarrow> resume_wake now attempt ready acc) = Inr acc'"
      using assms(1) ab by (auto simp: wake_parked_def bind_result_ok)
    show ?thesis
    proof (cases v)
      case WakeSkip
      then show ?thesis using acc' verdict_not_skipped [OF _ v] by (auto intro!: skip_ok)
    next
      case (WakeDefer code detail workerID poolID)
      then show ?thesis using acc' deferred_ok [OF ready wf] by auto
    next
      case WakeAdmit
      then show ?thesis using acc' resume_ok [OF _ ready wf] by simp
    qed
  qed
qed

lemma wake_attempt_ok:
  assumes ok: "wake_attempt rt now cutoffs candidate ready acc = Inr acc'"
    and ready: "ready_of (fst candidate) ready (snd acc)" and wf: "store_wf (snd acc)"
  shows "wake_step_ok cutoffs (fst candidate) ready (snd acc) (snd acc')"
proof -
  obtain attempt skip where a: "loadAttemptTx (snd acc) (fst candidate) = Inr attempt"
    and s: "scoped_out cutoffs attempt (snd acc) = Inr skip"
    and acc': "(if skip then Inr acc
         else if Terminal (Attempt_Progress attempt) then Inr (fst acc, abandon_wake now attempt ready (snd acc))
         else if Attempt_Progress attempt \<noteq> ProgressWaitingExternal
         then Inr (fst acc @ [wake_context attempt (woken_waits ready attempt ''pending'' False now)],
                   markTaskWaitsWokenTx ready attempt ''pending'' False now (snd acc))
         else wake_parked rt now cutoffs candidate attempt ready acc) = Inr acc'"
    using ok by (auto simp: wake_attempt_def bind_result_ok)
  have i: "Attempt_ID attempt = fst candidate" using load_attempt_ok(2) [OF a] .
  have told: "wake_step_ok cutoffs (fst candidate) ready (snd acc) st'"
    if "Attempt_Progress attempt \<noteq> ProgressWaitingExternal" "rows (wake_row (fst candidate)) (snd acc) st'"
      "Store_attempts st' = Store_attempts (snd acc)" for st'
    using that loaded_unparked [OF wf a that(1)]
    by (intro unparked_ok) (simp_all add: attempts_at_refl unparked_def)
  note marked = marked_rows_plain [OF ready wf]
  consider "skip" | "\<not> skip" "Terminal (Attempt_Progress attempt)"
    | "\<not> skip" "\<not> Terminal (Attempt_Progress attempt)" "Attempt_Progress attempt \<noteq> ProgressWaitingExternal"
    | "\<not> skip" "Attempt_Progress attempt = ProgressWaitingExternal" by auto
  then show ?thesis
  proof cases
    case 1
    then have "governed cutoffs \<Longrightarrow> False" using s by (simp add: scoped_out_def governed_def)
    then show ?thesis using acc' 1 by (auto intro: skip_ok)
  next
    case 2
    then have "Attempt_Progress attempt \<noteq> ProgressWaitingExternal" by (auto simp: Terminal_def)
    moreover have "rows (wake_row (fst candidate)) (snd acc) (abandon_wake now attempt ready (snd acc))"
      using marked by (simp add: abandon_wake_def rows_def)
    ultimately show ?thesis using acc' 2 by (auto simp: abandon_wake_def intro!: told)
  next
    case 3
    then show ?thesis using acc' marked by (auto intro!: told)
  next
    case 4
    then show ?thesis using acc' wake_parked_ok [of rt now cutoffs candidate attempt ready acc acc'] ready wf i
      by (auto simp: Terminal_def)
  qed
qed

section \<open>The whole pass\<close>

definition pass_row :: "string set \<Rightarrow> TaskWait \<Rightarrow> TaskWait \<Rightarrow> bool" where
  "pass_row J w w' \<longleftrightarrow> row_ok w w' \<and> (Wait_AttemptID w \<notin> J \<longrightarrow> w' = w)"

definition parked_covered :: "wait_store \<Rightarrow> bool" where
  "parked_covered st \<longleftrightarrow>
     (\<forall>a \<in> set (Store_attempts st). Attempt_Progress a = ProgressWaitingExternal \<longrightarrow>
        (\<exists>w \<in> set (Store_waits st). Wait_AttemptID w = Attempt_ID a \<and> \<not> Wait_Woken w))"

lemma pass_row_trans:
  assumes "pass_row J u v" and "pass_row K v w"
  shows "pass_row (J \<union> K) u w"
proof -
  have "row_ok u w" using row_ok_trans assms unfolding pass_row_def by auto
  moreover have "w = u" if "Wait_AttemptID u \<notin> J \<union> K" using assms that by (simp add: pass_row_def)
  ultimately show ?thesis by (simp add: pass_row_def)
qed

lemma rows_wf:
  assumes "rows P st st'" and "\<And>u v. P u v \<Longrightarrow> row_ok u v" and "map Attempt_ID (Store_attempts st') = map Attempt_ID (Store_attempts st)"
    and "store_wf st"
  shows "store_wf st'"
proof -
  have ids: "map Wait_ID (Store_waits st') = map Wait_ID (Store_waits st)"
    using assms(2) by (intro rows_ids [OF assms(1)]) (simp add: row_ok_def wait_evolves_def)
  have "wait_wf w'" if w': "w' \<in> set (Store_waits st')" for w'
  proof -
    obtain w where w: "w \<in> set (Store_waits st)" "P w w'" using rows_memberD [OF assms(1) w'] .
    have "wait_wf w" using assms(4) w(1) unfolding store_wf_def by simp
    then show ?thesis using assms(2) [OF w(2)] by (simp add: row_ok_def)
  qed
  then show ?thesis using assms(3,4) ids by (simp add: store_wf_def)
qed

lemma wake_step_wf:
  assumes "wake_step_ok cutoffs i ready st st'" and "store_wf st"
  shows "store_wf st'"
proof (rule rows_wf [OF _ _ _ assms(2)])
  show "rows (wake_row i) st st'" using assms(1) by (simp add: wake_step_ok_def)
  show "row_ok u v" if "wake_row i u v" for u v using that by (simp add: wake_row_def)
  show "map Attempt_ID (Store_attempts st') = map Attempt_ID (Store_attempts st)"
    using attempts_at_ids [of "{i}"] assms(1) unfolding wake_step_ok_def by simp
qed

lemma wake_step_covered:
  assumes ok: "wake_step_ok cutoffs i ready st st'" and cov: "parked_covered st"
  shows "parked_covered st'"
  unfolding parked_covered_def
proof (intro ballI impI)
  fix a assume a: "a \<in> set (Store_attempts st')" and p: "Attempt_Progress a = ProgressWaitingExternal"
  have r: "rows (wake_row i) st st'" and at: "attempts_at {i} st st'" using ok by (simp_all add: wake_step_ok_def)
  show "\<exists>w \<in> set (Store_waits st'). Wait_AttemptID w = Attempt_ID a \<and> \<not> Wait_Woken w"
  proof (cases "Attempt_ID a = i")
    case False
    then have "a \<in> set (Store_attempts st)" using attempts_at_other [OF at] a by simp
    then obtain w where w: "w \<in> set (Store_waits st)" "Wait_AttemptID w = Attempt_ID a" "\<not> Wait_Woken w"
      using cov p by (auto simp: parked_covered_def)
    obtain w' where "w' \<in> set (Store_waits st')" "wake_row i w w'" using rows_member [OF r w(1)] .
    then show ?thesis using w False by (auto simp: wake_row_def)
  next
    case True
    then have "\<not> unparked i st'" using a p by (auto simp: unparked_def)
    then have same: "Store_attempts st' = Store_attempts st"
      and rr: "rows (\<lambda>w w'. Wait_AttemptID w' = Wait_AttemptID w \<and> Wait_Woken w' = Wait_Woken w) st st'"
      using ok by (auto simp: wake_step_ok_def)
    then obtain w where w: "w \<in> set (Store_waits st)" "Wait_AttemptID w = Attempt_ID a" "\<not> Wait_Woken w"
      using cov p a by (auto simp: parked_covered_def)
    obtain w' where w': "w' \<in> set (Store_waits st')" "Wait_AttemptID w' = Wait_AttemptID w \<and> Wait_Woken w' = Wait_Woken w"
      using rows_member [OF rr w(1)] .
    show ?thesis by (rule bexI [OF _ w'(1)]) (use w(2,3) w'(2) in simp)
  qed
qed

definition outcome_of :: "TaskWakeCutoffs \<Rightarrow> string \<Rightarrow> TaskWait list \<Rightarrow> wait_store \<Rightarrow> bool" where
  "outcome_of cutoffs i ready st \<longleftrightarrow> (governed cutoffs \<longrightarrow> unparked i st \<or> explained ready st)"

lemma outcome_kept:
  assumes "outcome_of cutoffs i ready st" and "\<forall>w \<in> set ready. Wait_AttemptID w = i"
    and "rows (pass_row J) st st'" and "attempts_at J st st'" and "i \<notin> J"
  shows "outcome_of cutoffs i ready st'"
proof -
  have kept: "w \<in> set (Store_waits st')" if w: "w \<in> set (Store_waits st)" "Wait_AttemptID w = i" for w
  proof -
    obtain w' where w': "w' \<in> set (Store_waits st')" "pass_row J w w'" using rows_member [OF assms(3) w(1)] .
    then have "w' = w" using assms(5) w(2) by (simp add: pass_row_def)
    then show ?thesis using w'(1) by simp
  qed
  have "explained ready st'" if ex: "explained ready st"
    unfolding explained_def
  proof
    fix w assume w: "w \<in> set ready"
    obtain w' where w': "w' \<in> set (Store_waits st)"
      "Wait_ID w' = Wait_ID w \<and> Wait_AttemptID w' = Wait_AttemptID w \<and> Wait_WakeDeferral w' \<noteq> None"
      using bspec [OF ex [unfolded explained_def] w] by (elim bexE)
    have "w' \<in> set (Store_waits st')" using kept w' assms(2) w by simp
    then show "\<exists>w' \<in> set (Store_waits st'). Wait_ID w' = Wait_ID w \<and> Wait_AttemptID w' = Wait_AttemptID w
        \<and> Wait_WakeDeferral w' \<noteq> None" using w'(2) by (intro bexI)
  qed
  then show ?thesis using assms(1) unparked_other [OF assms(4,5)] unfolding outcome_of_def by auto
qed

lemma pass_member:
  assumes "rows (pass_row J) st st'" and "w \<in> set (Store_waits st)" and "Wait_AttemptID w \<notin> J"
  shows "w \<in> set (Store_waits st')"
proof -
  obtain w' where w': "w' \<in> set (Store_waits st')" "pass_row J w w'" using rows_member [OF assms(1,2)] .
  then have "w' = w" using assms(3) by (simp add: pass_row_def)
  then show ?thesis using w'(1) by simp
qed

lemma ready_of_kept:
  assumes "ready_of j ready st" and "rows (pass_row J) st st'" and "j \<notin> J"
  shows "ready_of j ready st'"
  using assms(1,3) pass_member [OF assms(2)] unfolding ready_of_def by auto

definition ready_candidates :: "TaskWait list \<Rightarrow> (string \<times> instant) list \<Rightarrow> wait_store \<Rightarrow> bool" where
  "ready_candidates waits cs st \<longleftrightarrow>
     (\<forall>c \<in> set cs. \<exists>ready. taskWaitWakeSet (waits_of (fst c) waits) = Some ready \<and> ready_of (fst c) ready st)"

definition pass_ok ::
  "TaskWakeCutoffs \<Rightarrow> TaskWait list \<Rightarrow> (string \<times> instant) list \<Rightarrow> wait_store \<Rightarrow> wait_store \<Rightarrow> bool" where
  "pass_ok cutoffs waits cs st st' \<longleftrightarrow>
     rows (pass_row (fst ` set cs)) st st' \<and> attempts_at (fst ` set cs) st st' \<and> store_wf st'
     \<and> (parked_covered st \<longrightarrow> parked_covered st')
     \<and> (\<forall>c \<in> set cs. \<forall>ready. taskWaitWakeSet (waits_of (fst c) waits) = Some ready \<longrightarrow> outcome_of cutoffs (fst c) ready st')"

lemma wake_step_pass:
  assumes "wake_step_ok cutoffs i ready st st'"
  shows "rows (pass_row {i}) st st'" and "attempts_at {i} st st'" and "outcome_of cutoffs i ready st'"
proof -
  have r: "rows (wake_row i) st st'" using assms by (simp add: wake_step_ok_def)
  show "rows (pass_row {i}) st st'" by (rule rows_mono [OF r]) (simp add: wake_row_def pass_row_def)
  show "attempts_at {i} st st'" using assms by (simp add: wake_step_ok_def)
  show "outcome_of cutoffs i ready st'" using assms unfolding wake_step_ok_def outcome_of_def by auto
qed

lemma ready_candidates_kept:
  assumes "wake_step_ok cutoffs i ready st st'" and "ready_candidates waits (c # cs) st" and "i \<notin> fst ` set cs"
  shows "ready_candidates waits cs st'"
  unfolding ready_candidates_def
proof
  fix d assume d: "d \<in> set cs"
  obtain r where r: "taskWaitWakeSet (waits_of (fst d) waits) = Some r" "ready_of (fst d) r st"
    using assms(2) d by (auto simp: ready_candidates_def)
  have "fst d \<in> fst ` set cs" using d by (rule imageI)
  then have "fst d \<notin> {i}" using assms(3) by (metis singletonD)
  from ready_of_kept [OF r(2) wake_step_pass(1) [OF assms(1)] this] r(1)
  show "\<exists>ready. taskWaitWakeSet (waits_of (fst d) waits) = Some ready \<and> ready_of (fst d) ready st'" by simp
qed

lemma pass_ok_Cons:
  assumes one: "wake_step_ok cutoffs (fst c) ready st mid" and set: "taskWaitWakeSet (waits_of (fst c) waits) = Some ready"
    and mine: "\<forall>w \<in> set ready. Wait_AttemptID w = fst c" and rest: "pass_ok cutoffs waits cs mid st'" and new: "fst c \<notin> fst ` set cs"
  shows "pass_ok cutoffs waits (c # cs) st st'"
proof -
  note step = wake_step_pass [OF one]
  have r: "rows (pass_row (fst ` set cs)) mid st'" and a: "attempts_at (fst ` set cs) mid st'"
    and others: "\<forall>d \<in> set cs. \<forall>ready. taskWaitWakeSet (waits_of (fst d) waits) = Some ready \<longrightarrow> outcome_of cutoffs (fst d) ready st'"
    and wf: "store_wf st'" and cov: "parked_covered mid \<longrightarrow> parked_covered st'"
    using rest by (simp_all add: pass_ok_def)
  have J: "insert (fst c) (fst ` set cs) = {fst c} \<union> fst ` set cs" by simp
  have "rows (pass_row ({fst c} \<union> fst ` set cs)) st st'" by (rule rows_trans [OF step(1) r]) (rule pass_row_trans)
  moreover have "attempts_at ({fst c} \<union> fst ` set cs) st st'" by (rule attempts_at_trans [OF step(2) a])
  moreover have "outcome_of cutoffs (fst c) ready st'" by (rule outcome_kept [OF step(3) mine r a new])
  moreover have "parked_covered st \<longrightarrow> parked_covered st'" using wake_step_covered [OF one] cov by simp
  ultimately show ?thesis using others wf set by (simp add: pass_ok_def)
qed

lemma wake_all_ok:
  assumes "wake_all rt now cutoffs waits cs acc = Inr acc'" and "distinct (map fst cs)" and "store_wf (snd acc)"
    and "ready_candidates waits cs (snd acc)"
  shows "pass_ok cutoffs waits cs (snd acc) (snd acc')"
  using assms
proof (induction cs arbitrary: acc)
  case Nil
  then show ?case by (auto simp: pass_ok_def pass_row_def attempts_at_refl intro!: rows_refl)
next
  case (Cons c cs)
  obtain ready where ready: "taskWaitWakeSet (waits_of (fst c) waits) = Some ready" "ready_of (fst c) ready (snd acc)"
    using Cons.prems(4) by (auto simp: ready_candidates_def)
  obtain mid where mid: "wake_attempt rt now cutoffs c ready acc = Inr mid" "wake_all rt now cutoffs waits cs mid = Inr acc'"
    using Cons.prems(1) ready(1) by (auto simp: bind_result_ok)
  note one = wake_attempt_ok [OF mid(1) ready(2) Cons.prems(3)]
  have new: "fst c \<notin> fst ` set cs" using Cons.prems(2) by simp
  have "ready_candidates waits cs (snd mid)" by (rule ready_candidates_kept [OF one Cons.prems(4) new])
  then have "pass_ok cutoffs waits cs (snd mid) (snd acc')"
    using Cons.IH [OF mid(2)] Cons.prems(2) wake_step_wf [OF one Cons.prems(3)] by simp
  moreover have "\<forall>w \<in> set ready. Wait_AttemptID w = fst c" using ready(2) by (simp add: ready_of_def)
  ultimately show ?case by (intro pass_ok_Cons [OF one ready(1) _ _ new])
qed

lemma wake_set_ready:
  assumes "taskWaitWakeSet (waits_of i (load_waits st)) = Some ready"
  shows "ready_of i ready st"
proof -
  let ?r = "filter (\<lambda>w. \<not> Wait_Live w \<and> \<not> Wait_Woken w) (waits_of i (load_waits st))"
  have r: "ready = sort_less wait_less ?r" "?r \<noteq> []"
    using assms by (auto simp: taskWaitWakeSet_def Let_def split: if_splits)
  have "set ready = set ?r" by (simp add: r(1))
  moreover have "ready \<noteq> []" using r(2) \<open>set ready = set ?r\<close> by (metis set_empty)
  ultimately show ?thesis by (auto simp: ready_of_def waits_of_def load_waits_def Wait_Live_def Wait_Settled_def)
qed

lemma candidates_fst:
  "distinct (map fst (wake_candidates waits))"
  "c \<in> set (wake_candidates waits) \<Longrightarrow> \<exists>ready. taskWaitWakeSet (waits_of (fst c) waits) = Some ready"
  "i \<in> Wait_AttemptID ` set waits \<Longrightarrow> taskWaitWakeSet (waits_of i waits) = Some ready \<Longrightarrow> i \<in> fst ` set (wake_candidates waits)"
proof -
  let ?f = "\<lambda>i. map_option (\<lambda>ready. (i, earliest ready)) (taskWaitWakeSet (waits_of i waits))"
  have sub: "map fst (List.map_filter ?f xs) = filter (\<lambda>i. taskWaitWakeSet (waits_of i waits) \<noteq> None) xs" for xs
    by (induction xs) (auto simp: List.map_filter_def split: option.splits)
  have "mset (map fst (wake_candidates waits)) = mset (map fst (List.map_filter ?f (remdups (map Wait_AttemptID waits))))"
    by (simp add: wake_candidates_def)
  from mset_eq_imp_distinct_iff [OF this] show "distinct (map fst (wake_candidates waits))" unfolding sub by simp
  show "c \<in> set (wake_candidates waits) \<Longrightarrow> \<exists>ready. taskWaitWakeSet (waits_of (fst c) waits) = Some ready"
    by (auto simp: wake_candidates_def List.map_filter_def)
  have "fst ` set (wake_candidates waits) = set (map fst (List.map_filter ?f (remdups (map Wait_AttemptID waits))))"
    by (simp add: wake_candidates_def)
  also have "\<dots> = {i \<in> Wait_AttemptID ` set waits. taskWaitWakeSet (waits_of i waits) \<noteq> None}" unfolding sub by auto
  finally show "i \<in> Wait_AttemptID ` set waits \<Longrightarrow> taskWaitWakeSet (waits_of i waits) = Some ready \<Longrightarrow> i \<in> fst ` set (wake_candidates waits)"
    by simp
qed

lemma candidates_ready: "ready_candidates (load_waits st) (wake_candidates (load_waits st)) st"
  using candidates_fst(2) wake_set_ready unfolding ready_candidates_def by metis

lemma WakeTaskWaitsBefore_ok:
  assumes "WakeTaskWaitsBefore rt now cutoffs st = Inr (wakes, st')" and "store_wf st"
  shows "pass_ok cutoffs (load_waits st) (wake_candidates (load_waits st)) st st'"
proof -
  have "wake_all rt now cutoffs (load_waits st) (wake_candidates (load_waits st)) ([], st) = Inr (wakes, st')"
    using assms(1) by (simp add: WakeTaskWaitsBefore_def split: if_splits)
  then show ?thesis
    using wake_all_ok [of rt now cutoffs "load_waits st" "wake_candidates (load_waits st)" "([], st)" "(wakes, st')"]
      candidates_fst(1) candidates_ready assms(2) by simp
qed

section \<open>The other operations\<close>

text \<open>An operation that leaves the attempts alone and rewrites the waits without waking one.\<close>

definition quiet_row :: "TaskWait \<Rightarrow> TaskWait \<Rightarrow> bool" where
  "quiet_row w w' \<longleftrightarrow> row_ok w w' \<and> Wait_Woken w' = Wait_Woken w"

definition quiet :: "wait_store \<Rightarrow> wait_store \<Rightarrow> bool" where
  "quiet st st' \<longleftrightarrow> rows quiet_row st st' \<and> Store_attempts st' = Store_attempts st"

lemma quiet_refl [simp]: "quiet st st"
  by (simp add: quiet_def quiet_row_def rows_refl)

lemma quiet_row_trans: "quiet_row u v \<Longrightarrow> quiet_row v w \<Longrightarrow> quiet_row u w"
  using row_ok_trans [of u v w] by (simp add: quiet_row_def)

lemma quiet_trans: "quiet a b \<Longrightarrow> quiet b c \<Longrightarrow> quiet a c"
  using rows_trans [of quiet_row a b quiet_row c quiet_row] quiet_row_trans by (simp add: quiet_def)

lemma quiet_event [simp]: "quiet st (recordTaskWaitEventTx e st)"
  by (simp add: quiet_def rows_def quiet_row_def list_all2_refl)

lemma quiet_wf: "quiet st st' \<Longrightarrow> store_wf st \<Longrightarrow> store_wf st'"
  by (rule rows_wf [of quiet_row st st']) (simp_all add: quiet_def quiet_row_def)

lemma quiet_covered:
  assumes "quiet st st'" and "parked_covered st"
  shows "parked_covered st'"
  unfolding parked_covered_def
proof (intro ballI impI)
  fix a assume a: "a \<in> set (Store_attempts st')" and p: "Attempt_Progress a = ProgressWaitingExternal"
  obtain w where w: "w \<in> set (Store_waits st)" "Wait_AttemptID w = Attempt_ID a" "\<not> Wait_Woken w"
    using assms a p by (auto simp: quiet_def parked_covered_def)
  obtain w' where w': "w' \<in> set (Store_waits st')" "quiet_row w w'"
    using rows_member [of quiet_row st st' w] assms(1) w(1) by (auto simp: quiet_def)
  then show "\<exists>w \<in> set (Store_waits st'). Wait_AttemptID w = Attempt_ID a \<and> \<not> Wait_Woken w"
    using w(2,3) by (intro bexI [OF _ w'(1)]) (simp add: quiet_row_def row_ok_def wait_evolves_def)
qed

lemma quiet_save:
  assumes "store_wf st" and "set R \<subseteq> set (Store_waits st)" and "\<And>w. w \<in> set R \<Longrightarrow> quiet_row w (f w)"
  shows "quiet st (save_waits (map f R) st)"
proof -
  have "Wait_ID (f w) = Wait_ID w" if "w \<in> set R" for w
    using assms(3) [OF that] by (simp add: quiet_row_def row_ok_def wait_evolves_def)
  then have "rows quiet_row st (save_waits (map f R) st)"
    using assms by (intro save_waits_rows) (simp_all add: store_wf_def quiet_row_def)
  then show ?thesis by (simp add: quiet_def)
qed

lemma quiet_save_one:
  assumes "store_wf st" and "w \<in> set (Store_waits st)" and "quiet_row w w'"
  shows "quiet st (saveTaskWaitTx w' st)"
  using quiet_save [of st "[w]" "\<lambda>_. w'"] assms by (simp add: save_waits_def)

lemma settle_row: "wait_wf w \<Longrightarrow> \<not> Wait_Settled w \<Longrightarrow> quiet_row w (w\<lparr>Wait_Result := Some r, Wait_SettledAt := Some t\<rparr>)"
  by (auto simp: quiet_row_def row_ok_def wait_evolves_def wait_wf_def Wait_Settled_def Wait_Woken_def)

lemma settle_ok:
  assumes "SettleTaskWait i result now st = Inr (w, st')" and "store_wf st"
  shows "quiet st st'"
proof -
  obtain wait where wait: "find (\<lambda>w. Wait_ID w = i) (Store_waits st) = Some wait" "settleTaskWaitTx wait result now st = (w, st')"
    using assms(1) by (auto simp: SettleTaskWait_def split: if_splits option.splits)
  have m: "wait \<in> set (Store_waits st)" using find_SomeD [OF wait(1)] by simp
  have wf: "wait_wf wait" using assms(2) m by (simp add: store_wf_def)
  show ?thesis
  proof (cases "Wait_Settled wait")
    case True
    then show ?thesis using wait(2) by (simp add: settleTaskWaitTx_def)
  next
    case False
    then have "saveTaskWaitTx (settle_wait result now wait) st = st'" using wait(2) by (auto simp: settleTaskWaitTx_def)
    then show ?thesis
      using quiet_save_one [OF assms(2) m, of "settle_wait result now wait"] settle_row [OF wf False] by (simp add: settle_wait_def)
  qed
qed

lemma cancel_ok: "CancelTaskWait i now st = Inr (w, st') \<Longrightarrow> store_wf st \<Longrightarrow> quiet st st'"
  unfolding CancelTaskWait_def by (rule settle_ok)

text \<open>Rows rewritten one after the other, each of them once.\<close>

definition writes_row :: "(TaskWait \<Rightarrow> bool) \<Rightarrow> (TaskWait \<Rightarrow> wait_store \<Rightarrow> wait_store) \<Rightarrow> bool" where
  "writes_row C U \<longleftrightarrow>
     (\<forall>w st. store_wf st \<and> w \<in> set (Store_waits st) \<and> C w \<longrightarrow>
        quiet st (U w st) \<and> (\<forall>v \<in> set (Store_waits st). v \<noteq> w \<longrightarrow> v \<in> set (Store_waits (U w st))))"

lemma writes_rowI:
  assumes waits: "\<And>w st. Store_waits (U w st) = put_wait (f w) (Store_waits st)"
    and attempts: "\<And>w st. Store_attempts (U w st) = Store_attempts st"
    and row: "\<And>w. C w \<Longrightarrow> wait_wf w \<Longrightarrow> quiet_row w (f w)"
  shows "writes_row C U"
  unfolding writes_row_def
proof (intro allI impI)
  fix w st assume h: "store_wf st \<and> w \<in> set (Store_waits st) \<and> C w"
  then have q: "quiet_row w (f w)" by (intro row) (simp_all add: store_wf_def)
  then have i: "Wait_ID (f w) = Wait_ID w" by (simp add: quiet_row_def row_ok_def wait_evolves_def)
  have put: "put_wait (f w) (Store_waits st) = map (\<lambda>u. if u = w then f w else u) (Store_waits st)"
    using h i by (intro put_wait_known) (simp_all add: store_wf_def)
  have "quiet st (saveTaskWaitTx (f w) st)" using quiet_save_one [OF _ _ q, of st] h by simp
  then show "quiet st (U w st) \<and> (\<forall>v \<in> set (Store_waits st). v \<noteq> w \<longrightarrow> v \<in> set (Store_waits (U w st)))"
    using put by (simp add: quiet_def rows_def waits attempts)
qed

lemma fold_rows:
  assumes U: "writes_row C U" and "store_wf st" and "distinct ws" and "\<forall>w \<in> set ws. w \<in> set (Store_waits st) \<and> C w"
  shows "quiet st (fold U ws st) \<and> (\<forall>v \<in> set (Store_waits st). v \<notin> set ws \<longrightarrow> v \<in> set (Store_waits (fold U ws st)))"
  using assms(2-)
proof (induction ws arbitrary: st)
  case Nil
  then show ?case by simp
next
  case (Cons w ws)
  have one: "quiet st (U w st)" "\<forall>v \<in> set (Store_waits st). v \<noteq> w \<longrightarrow> v \<in> set (Store_waits (U w st))"
    using U Cons.prems by (auto simp: writes_row_def)
  have "store_wf (U w st)" by (rule quiet_wf [OF one(1) Cons.prems(1)])
  moreover have "\<forall>v \<in> set ws. v \<in> set (Store_waits (U w st)) \<and> C v"
  proof
    fix v assume v: "v \<in> set ws"
    then have "v \<noteq> w" "v \<in> set (Store_waits st)" "C v" using Cons.prems(2,3) by auto
    then show "v \<in> set (Store_waits (U w st)) \<and> C v" using one(2) by simp
  qed
  ultimately have rest: "quiet (U w st) (fold U ws (U w st))"
    "\<forall>v \<in> set (Store_waits (U w st)). v \<notin> set ws \<longrightarrow> v \<in> set (Store_waits (fold U ws (U w st)))"
    using Cons.IH [of "U w st"] Cons.prems(2) by simp_all
  then show ?case using quiet_trans [OF one(1) rest(1)] one(2) by simp
qed

lemma expire_writes: "writes_row (\<lambda>w. \<not> Wait_Settled w) (expireTaskWaitTx now)"
  by (rule writes_rowI [where f = "expire_wait now"]) (simp_all add: expireTaskWaitTx_def Let_def expire_wait_def settle_row)

definition due_waits :: "instant \<Rightarrow> wait_store \<Rightarrow> TaskWait list" where
  "due_waits now st = filter (\<lambda>w. Wait_Live w \<and> \<not> now < Wait_Deadline w) (load_waits st)"

lemma due_waits_ok:
  assumes "store_wf st"
  shows "distinct (due_waits now st)"
    and "w \<in> set (due_waits now st) \<longleftrightarrow> w \<in> set (Store_waits st) \<and> \<not> Wait_Settled w \<and> \<not> now < Wait_Deadline w"
  using assms by (auto simp: due_waits_def load_waits_def store_wf_def distinct_map Wait_Live_def Wait_Settled_def)

lemma expire_ok:
  assumes "ExpireTaskWaits now st = Inr (ws, st')" and "store_wf st"
  shows "quiet st st'"
proof -
  have "st' = fold (expireTaskWaitTx now) (due_waits now st) st"
    using assms(1) by (simp add: ExpireTaskWaits_def due_waits_def Let_def split: if_splits)
  then show ?thesis
    using fold_rows [OF expire_writes assms(2) due_waits_ok(1) [OF assms(2)]] due_waits_ok(2) [OF assms(2)] by simp
qed

section \<open>Transitions\<close>

text \<open>A transition may also mark the message observed.\<close>

definition step_row :: "TaskWait \<Rightarrow> TaskWait \<Rightarrow> bool" where
  "step_row w w' \<longleftrightarrow> wait_evolves w w' \<and> (wait_wf w \<longrightarrow> wait_wf w')
     \<and> (Wait_Delivery w \<in> durable_states \<longrightarrow>
          Wait_Delivery w' = Wait_Delivery w \<or> Wait_Delivery w' \<in> insert ''observed'' sent_states)"

lemma row_ok_step: "row_ok w w' \<Longrightarrow> step_row w w'"
  by (auto simp: row_ok_def step_row_def)

lemma transition_durable:
  assumes "wake_transition_allowed b source target" and "source \<in> durable_states"
  shows "target \<in> insert ''observed'' sent_states"
proof -
  have "target = ''delivered'' \<or> target = ''observed'' \<or> target = ''recovery-required'' \<or> target = ''abandoned''"
    using assms unfolding durable_states_def sent_states_def insert_iff empty_iff
    by (elim disjE FalseE) (auto simp: wake_transition_allowed_def)
  then show ?thesis unfolding sent_states_def insert_iff by (elim disjE) simp_all
qed

lemma transition_row:
  assumes "wake_transition_allowed True (Wait_Delivery w) target" and "Wait_Woken w"
  shows "step_row w (transition_wait target now w) \<and> Wait_Woken (transition_wait target now w)"
proof -
  let ?w = "transition_wait target now w"
  have woken: "Wait_Woken ?w" using assms(2) by (simp add: transition_wait_def Wait_Woken_def Let_def)
  have d: "Wait_Delivery ?w = target" by (simp add: transition_wait_def Let_def)
  have "wait_evolves w ?w" by (simp add: wait_evolves_def transition_wait_def Let_def)
  moreover have "wait_wf w \<longrightarrow> wait_wf ?w"
    using woken assms(2) by (simp add: wait_wf_def Wait_Settled_def transition_wait_def Let_def Wait_Woken_def)
  moreover have "Wait_Delivery w \<in> durable_states \<longrightarrow> target \<in> insert ''observed'' sent_states"
    using transition_durable [OF assms(1)] by simp
  ultimately show ?thesis using woken d by (simp add: step_row_def)
qed

lemma group_woken:
  assumes "store_wf st" and "wait \<in> set (Store_waits st)" and "Wait_Woken wait" and "m \<in> set (delivery_group wait st)"
  shows "m \<in> set (Store_waits st)" and "Wait_Woken m"
proof -
  have m: "m \<in> set (Store_waits st)" "Wait_ID m = Wait_ID wait \<or> same_delivery wait m"
    using assms(4) by (simp_all add: delivery_group_def load_waits_def)
  show "m \<in> set (Store_waits st)" by (rule m(1))
  have ids: "distinct (map Wait_ID (Store_waits st))" and wf: "wait_wf m" using assms(1) m(1) by (simp_all add: store_wf_def)
  show "Wait_Woken m"
  proof (cases "Wait_ID m = Wait_ID wait")
    case True
    then show ?thesis using same_id [OF ids m(1) assms(2)] assms(3) by simp
  next
    case False
    then show ?thesis using m(2) wf by (auto simp: same_delivery_def wait_wf_def)
  qed
qed

definition transition_rows :: "wait_store \<Rightarrow> wait_store \<Rightarrow> bool" where
  "transition_rows st st' \<longleftrightarrow>
     rows (\<lambda>w w'. step_row w w' \<and> Wait_Woken w' = Wait_Woken w) st st' \<and> Store_attempts st' = Store_attempts st"

lemma transition_ok:
  assumes "TransitionTaskWake i source target now st = Inr (moved, st')" and wf: "store_wf st"
  shows "transition_rows st st'"
proof (cases "st' = st")
  case True
  then show ?thesis by (simp add: transition_rows_def step_row_def wait_evolves_def rows_refl)
next
  case False
  then obtain wait where wait: "find (\<lambda>w. Wait_ID w = i) (Store_waits st) = Some wait"
    and allowed: "wake_transition_allowed (Wait_Woken wait) source target"
    and uniform: "\<not> list_ex (\<lambda>m. Wait_Delivery m \<noteq> source) (delivery_group wait st)"
    and waits: "Store_waits st' = Store_waits (save_waits (map (transition_wait target now) (delivery_group wait st)) st)"
    and attempts: "Store_attempts st' = Store_attempts st"
    using assms(1) by (auto simp: TransitionTaskWake_def Let_def split: option.splits if_splits)
  have m: "wait \<in> set (Store_waits st)" using find_SomeD [OF wait] by simp
  have woken: "Wait_Woken wait" using allowed by (simp add: wake_transition_allowed_def)
  note group = group_woken [OF wf m woken]
  have "step_row w (transition_wait target now w) \<and> Wait_Woken (transition_wait target now w) = Wait_Woken w"
    if "w \<in> set (delivery_group wait st)" for w
  proof -
    have "Wait_Delivery w = source" using uniform that by (auto simp: list_ex_iff)
    then show ?thesis using transition_row [of w target now] allowed woken group(2) [OF that] by simp
  qed
  then have "rows (\<lambda>w w'. step_row w w' \<and> Wait_Woken w' = Wait_Woken w) st
      (save_waits (map (transition_wait target now) (delivery_group wait st)) st)"
    using wf group(1) by (intro save_waits_rows) (auto simp: store_wf_def step_row_def wait_evolves_def)
  then show ?thesis using waits attempts by (simp add: transition_rows_def rows_def)
qed

end
