(* ===== verification/TaskWaitProperties.thy ===== *)
theory TaskWaitProperties
  imports TaskWaitSpec
begin

text \<open>
  The operations on task-bound waits as the steps of one machine, and what holds of every run of
  it: an outcome and a wake are final, no parked attempt loses its wake, a message whose send is
  durable is never sent again, and no wait past its deadline is passed over in silence.
\<close>

section \<open>Reconciling groups and listing undelivered wakes\<close>

lemma group_target_durable:
  assumes "group_target claimed states = Some target" and "s \<in> set states" and "s \<in> durable_states"
  shows "target \<in> sent_states"
proof -
  have d: "''manual-recovery-required'' \<in> sent_states" "''delivered'' \<in> sent_states"
    "''recovery-required'' \<in> sent_states" "''abandoned'' \<in> sent_states"
    by (simp_all add: sent_states_def)
  have "''manual-recovery-required'' \<in> set states \<or> ''delivered'' \<in> set states \<or> ''sending'' \<in> set states
      \<or> ''recovery-required'' \<in> set states \<or> ''abandoned'' \<in> set states"
    using assms(2,3) unfolding durable_states_def sent_states_def by auto
  then show ?thesis using assms(1) d unfolding group_target_def by (auto split: if_splits)
qed

lemma retarget_row:
  assumes "grouped w" and "Wait_Delivery w \<in> durable_states \<Longrightarrow> target \<in> sent_states"
  shows "quiet_row w (retarget_wait target now w)"
proof -
  let ?w = "retarget_wait target now w"
  have woken: "Wait_Woken w" "Wait_Woken ?w"
    using assms(1) by (simp_all add: grouped_def retarget_wait_def Wait_Woken_def Let_def)
  have "wait_evolves w ?w" by (simp add: wait_evolves_def retarget_wait_def Let_def)
  moreover have "wait_wf w \<longrightarrow> wait_wf ?w"
    using woken by (simp add: wait_wf_def Wait_Settled_def retarget_wait_def Let_def)
  moreover have "Wait_Delivery ?w = target" by (simp add: retarget_wait_def Let_def)
  ultimately show ?thesis using assms(2) woken by (simp add: quiet_row_def row_ok_def)
qed

definition in_store :: "TaskWait list \<times> wait_store \<Rightarrow> bool" where
  "in_store acc \<longleftrightarrow> set (fst acc) \<subseteq> set (Store_waits (snd acc)) \<and> distinct (map Wait_ID (fst acc)) \<and> store_wf (snd acc)"

lemma reconcile_group_ok:
  assumes "in_store acc"
  shows "quiet (snd acc) (snd (reconcile_group rt now key acc)) \<and> in_store (reconcile_group rt now key acc)"
proof -
  let ?in = "\<lambda>w. grouped w \<and> group_key rt w = key"
  let ?members = "filter ?in (fst acc)"
  show ?thesis
  proof (cases "length ?members < 2 \<or> group_target (taskWakeGroupClaimedTx ?members (snd acc)) (map Wait_Delivery ?members) = None")
    case True
    then have "reconcile_group rt now key acc = acc" by (auto simp: reconcile_group_def Let_def)
    then show ?thesis using assms by simp
  next
    case False
    then obtain target where t: "group_target (taskWakeGroupClaimedTx ?members (snd acc)) (map Wait_Delivery ?members) = Some target"
      and long: "\<not> length ?members < 2" by auto
    let ?changes = "\<lambda>w. ?in w \<and> Wait_Delivery w \<noteq> target"
    define st where "st = (if target = ''manual-recovery-required'' then recordTaskWaitEventTx (ambiguous_event (hd ?members) now) (snd acc) else snd acc)"
    have g: "reconcile_group rt now key acc =
        (map (\<lambda>w. if ?changes w then retarget_wait target now w else w) (fst acc),
         save_waits (map (retarget_wait target now) (filter ?changes (fst acc))) st)"
      using long t by (simp add: reconcile_group_def Let_def st_def conj_assoc)
    have q0: "quiet (snd acc) st" by (simp add: st_def)
    have wf: "store_wf st" using quiet_wf [OF q0] assms by (simp add: in_store_def)
    have waits: "Store_waits st = Store_waits (snd acc)" by (simp add: st_def)
    have row: "quiet_row w (retarget_wait target now w)" if w: "w \<in> set (filter ?changes (fst acc))" for w
      using w group_target_durable [OF t, of "Wait_Delivery w"] by (intro retarget_row) auto
    have sub: "set (filter ?changes (fst acc)) \<subseteq> set (Store_waits st)" using assms waits by (auto simp: in_store_def)
    have q: "quiet st (save_waits (map (retarget_wait target now) (filter ?changes (fst acc))) st)"
      by (rule quiet_save [OF wf sub row])
    have id: "Wait_ID (retarget_wait target now w) = Wait_ID w" for w by (simp add: retarget_wait_def Let_def)
    have "Store_waits (save_waits (map (retarget_wait target now) (filter ?changes (fst acc))) st) =
        map (\<lambda>v. if v \<in> set (filter ?changes (fst acc)) then retarget_wait target now v else v) (Store_waits st)"
      using wf by (intro save_waits_map sub id) (simp add: store_wf_def)
    then have "set (fst (reconcile_group rt now key acc)) \<subseteq> set (Store_waits (snd (reconcile_group rt now key acc)))"
      unfolding g using assms waits by (auto simp: in_store_def)
    moreover have "map Wait_ID (fst (reconcile_group rt now key acc)) = map Wait_ID (fst acc)" unfolding g by (simp add: id)
    then have "distinct (map Wait_ID (fst (reconcile_group rt now key acc)))" using assms unfolding in_store_def by metis
    moreover have "quiet (snd acc) (snd (reconcile_group rt now key acc))" unfolding g using quiet_trans [OF q0 q] by simp
    moreover have "store_wf (snd (reconcile_group rt now key acc))" unfolding g using quiet_wf [OF q wf] by simp
    ultimately show ?thesis unfolding in_store_def by (intro conjI)
  qed
qed

lemma reconcile_ok:
  assumes "in_store (waits, st)"
  shows "quiet st (snd (reconcileTaskWakeGroupsTx rt now waits st)) \<and> in_store (reconcileTaskWakeGroupsTx rt now waits st)"
proof -
  have "quiet (snd acc) (snd (fold (reconcile_group rt now) ks acc)) \<and> in_store (fold (reconcile_group rt now) ks acc)"
    if "in_store acc" for ks acc
    using that
  proof (induction ks arbitrary: acc)
    case (Cons k ks)
    note one = reconcile_group_ok [OF Cons.prems, of rt now k]
    note rest = Cons.IH [of "reconcile_group rt now k acc", OF conjunct2 [OF one]]
    show ?case using quiet_trans [OF conjunct1 [OF one] conjunct1 [OF rest]] rest by simp
  qed simp
  from this [OF assms] show ?thesis by (simp add: reconcileTaskWakeGroupsTx_def)
qed

lemma close_writes: "writes_row awaiting_delivery (close_stale_wake now attempt)"
proof (rule writes_rowI [where f = "\<lambda>w. w\<lparr>Wait_Delivery := ''abandoned''\<rparr>"])
  show "quiet_row w (w\<lparr>Wait_Delivery := ''abandoned''\<rparr>)" if "awaiting_delivery w" "wait_wf w" for w
    using that by (simp add: awaiting_delivery_def quiet_row_def row_ok_def wait_evolves_def wait_wf_def sent_states_def
        Wait_Woken_def Wait_Settled_def)
qed (simp_all add: close_stale_wake_def)

lemma pending_attempt_ok:
  assumes "pending_attempt now waits i acc = Inr acc'" and "store_wf (snd acc)" and "distinct waits"
    and "\<forall>w \<in> set waits. Wait_AttemptID w = i \<longrightarrow> w \<in> set (Store_waits (snd acc))"
  shows "quiet (snd acc) (snd acc')
     \<and> (\<forall>v \<in> set (Store_waits (snd acc)). Wait_AttemptID v \<noteq> i \<longrightarrow> v \<in> set (Store_waits (snd acc')))"
proof -
  let ?members = "sort_less wait_less (waits_of i (filter awaiting_delivery waits))"
  obtain attempt where st: "snd acc' = fold (close_stale_wake now attempt)
      (filter (\<lambda>w. wake_stale attempt w \<and> \<not> message_uncertain w) ?members) (snd acc)"
    using assms(1) by (auto simp: pending_attempt_def Let_def bind_result_ok split: if_splits)
  let ?closed = "filter (\<lambda>w. wake_stale attempt w \<and> \<not> message_uncertain w) ?members"
  have "distinct ?closed" using assms(3) by (simp add: waits_of_def)
  moreover have c: "w \<in> set waits \<and> awaiting_delivery w \<and> Wait_AttemptID w = i" if "w \<in> set ?closed" for w
    using that by (simp add: waits_of_def)
  then have "\<forall>w \<in> set ?closed. w \<in> set (Store_waits (snd acc)) \<and> awaiting_delivery w" using assms(4) by blast
  ultimately have rows: "quiet (snd acc) (snd acc')"
    "\<forall>v \<in> set (Store_waits (snd acc)). v \<notin> set ?closed \<longrightarrow> v \<in> set (Store_waits (snd acc'))"
    using fold_rows [OF close_writes assms(2)] unfolding st by blast+
  have "v \<notin> set ?closed" if "Wait_AttemptID v \<noteq> i" for v using c [of v] that by auto
  then show ?thesis using rows by blast
qed

lemma pending_attempts_ok:
  assumes "pending_attempts now waits is acc = Inr acc'" and "store_wf (snd acc)" and "distinct waits" and "distinct is"
    and "\<forall>w \<in> set waits. Wait_AttemptID w \<in> set is \<longrightarrow> w \<in> set (Store_waits (snd acc))"
  shows "quiet (snd acc) (snd acc')"
  using assms
proof (induction "is" arbitrary: acc)
  case Nil
  then show ?case by simp
next
  case (Cons i ixs)
  obtain mid where mid: "pending_attempt now waits i acc = Inr mid" "pending_attempts now waits ixs mid = Inr acc'"
    using Cons.prems(1) by (auto simp: bind_result_ok)
  have mine: "\<forall>w \<in> set waits. Wait_AttemptID w = i \<longrightarrow> w \<in> set (Store_waits (snd acc))" using Cons.prems(5) by simp
  note one = pending_attempt_ok [OF mid(1) Cons.prems(2,3) mine]
  have "\<forall>w \<in> set waits. Wait_AttemptID w \<in> set ixs \<longrightarrow> w \<in> set (Store_waits (snd mid))"
  proof (intro ballI impI)
    fix w assume w: "w \<in> set waits" "Wait_AttemptID w \<in> set ixs"
    then have "Wait_AttemptID w \<noteq> i" "w \<in> set (Store_waits (snd acc))" using Cons.prems(4,5) by auto
    then show "w \<in> set (Store_waits (snd mid))" using one by simp
  qed
  then have "quiet (snd mid) (snd acc')"
    using Cons.IH [OF mid(2)] quiet_wf [of "snd acc" "snd mid"] one Cons.prems(2,3,4) by simp
  then show ?case using quiet_trans one by blast
qed

lemma load_waits_in_store: "store_wf st \<Longrightarrow> in_store (load_waits st, st)"
proof -
  assume wf: "store_wf st"
  have "mset (map Wait_ID (load_waits st)) = mset (map Wait_ID (Store_waits st))" by (simp add: load_waits_def)
  from mset_eq_imp_distinct_iff [OF this] show ?thesis using wf by (simp add: in_store_def store_wf_def load_waits_def)
qed

lemma awaiting_ok:
  assumes "TaskWakesAwaitingDelivery rt now st = Inr (pending, st')" and "store_wf st"
  shows "quiet st st'"
proof -
  obtain waits mid where r: "reconcileTaskWakeGroupsTx rt now (load_waits st) st = (waits, mid)" by fastforce
  have q: "quiet st mid" "in_store (waits, mid)"
    using reconcile_ok [OF load_waits_in_store [OF assms(2)], of rt now] unfolding r by simp_all
  have "pending_attempts now waits (sort (remdups (map Wait_AttemptID (filter awaiting_delivery waits)))) ([], mid) = Inr (pending, st')"
    using assms(1) by (simp add: TaskWakesAwaitingDelivery_def r)
  from pending_attempts_ok [OF this] have "quiet mid st'"
    using q(2) by (simp add: in_store_def distinct_map subset_iff)
  then show ?thesis using quiet_trans q(1) by blast
qed

lemma parked_list_ok:
  assumes "store_wf st"
  shows "quiet st (snd (parkedTaskWaitAttempts rt now workerID st))"
proof -
  let ?sel = "filter (\<lambda>w. workerID = '''' \<or> list_ex (\<lambda>a. Assignment_AttemptID a = Wait_AttemptID w \<and> Assignment_WorkerID a = workerID)
                (Store_assignments st)) (load_waits st)"
  have "in_store (?sel, st)"
    using load_waits_in_store [OF assms] by (auto simp: in_store_def distinct_map_filter)
  from reconcile_ok [OF this, of rt now] show ?thesis by (simp add: parkedTaskWaitAttempts_def Let_def case_prod_beta)
qed

section \<open>Registration\<close>

text \<open>A registration replays a known wait and changes nothing, or parks its attempt behind a new row.\<close>

definition parks :: "wait_store \<Rightarrow> wait_store \<Rightarrow> TaskWait \<Rightarrow> bool" where
  "parks st st' w \<longleftrightarrow>
     Store_waits st' = Store_waits st @ [w] \<and> Wait_ID w \<notin> Wait_ID ` set (Store_waits st) \<and> wait_wf w \<and> \<not> Wait_Woken w
     \<and> attempts_at {Wait_AttemptID w} st st'"

lemma structured_request:
  assumes "validateStructuredRegistrationTx rt request st = Inr checked"
  shows "Reg_RequestID checked = Reg_RequestID request" and "Reg_AttemptID checked = Reg_AttemptID request"
  using assms by (auto simp: validateStructuredRegistrationTx_def Let_def split: option.splits prod.splits if_splits)

lemma park_ok:
  assumes "parkTaskWaitTx request digest attempt now st = Inr (w, st')" and "store_wf st"
    and "Reg_AttemptID request = Attempt_ID attempt" and "find (\<lambda>w. Wait_RequestID w = Reg_RequestID request) (Store_waits st) = None"
  shows "parks st st' w"
proof -
  let ?w = "registered_wait request digest (Attempt_Revision attempt) now"
  obtain mid where mid: "saveAttemptFencedTx (park_attempt (Wait_ID ?w) now attempt) (Attempt_Revision attempt) st = Inr mid"
    and st': "w = ?w" "st' = saveTaskWaitTx ?w mid"
    using assms(1) by (auto simp: parkTaskWaitTx_def Let_def bind_result_ok)
  note saved = save_attempt_ok(1,2) [OF mid]
  have old: "Wait_ID v \<noteq> Wait_ID ?w" if v: "v \<in> set (Store_waits st)" for v
  proof -
    have "Wait_RequestID v \<noteq> Reg_RequestID request" using assms(4) v by (simp add: find_None_iff_all)
    moreover have "Wait_ID v = taskWaitID (Wait_RequestID v)" using assms(2) v by (simp add: store_wf_def wait_wf_def)
    ultimately show ?thesis by (simp add: registered_wait_def taskWaitID_def)
  qed
  then have "Store_waits st' = Store_waits st @ [?w]" unfolding st'(2) using saved(1) put_wait_new [of "Store_waits st" ?w] by simp
  moreover have "attempts_at {Wait_AttemptID ?w} st st'"
    unfolding st'(2) using saved(2) assms(3) by (simp add: attempts_at_def registered_wait_def park_attempt_def)
  moreover have "wait_wf ?w" "\<not> Wait_Woken ?w"
    by (simp_all add: wait_wf_def registered_wait_def Wait_Woken_def Wait_Settled_def)
  moreover have "Wait_ID ?w \<notin> Wait_ID ` set (Store_waits st)" by (metis imageE old)
  ultimately show ?thesis by (simp add: parks_def st'(1))
qed

lemma replay_same: "replay_wait rt digest request wait st = Inr w \<Longrightarrow> w = wait"
  by (auto simp: replay_wait_def bind_result_ok split: if_splits)

lemma register_ok:
  assumes "RegisterTaskWait rt digest request now st = Inr (w, st')" and "store_wf st"
  shows "st' = st \<and> w \<in> set (Store_waits st) \<or> parks st st' w"
proof (cases "find (\<lambda>w. Wait_RequestID w = Reg_RequestID request) (Store_waits st)")
  case (Some wait)
  then have "st' = st" "w = wait"
    using assms(1) replay_same by (auto simp: RegisterTaskWait_def bind_result_ok split: option.splits if_splits)
  then show ?thesis using find_SomeD [OF Some] by simp
next
  case None
  then obtain attempt checked where a: "loadAttemptTx st (Reg_AttemptID request) = Inr attempt"
    and c: "(if WaitKind_Coordinator (Reg_Kind request) then validateStructuredRegistrationTx rt request st else Inr request) = Inr checked"
    and p: "parkTaskWaitTx checked (digest request) attempt now st = Inr (w, st')"
    using assms(1) by (auto simp: RegisterTaskWait_def bind_result_ok split: option.splits if_splits)
  have "Reg_RequestID checked = Reg_RequestID request" "Reg_AttemptID checked = Reg_AttemptID request"
    using c structured_request [of rt request st checked] by (auto split: if_splits)
  then show ?thesis using park_ok [OF p assms(2)] None load_attempt_ok(2) [OF a] by simp
qed

lemma parks_wf:
  assumes "parks st st' w" and "store_wf st"
  shows "store_wf st'"
  using assms attempts_at_ids [of "{Wait_AttemptID w}" st st'] by (auto simp: parks_def store_wf_def)

lemma parks_covered:
  assumes "parks st st' w" and "parked_covered st"
  shows "parked_covered st'"
  unfolding parked_covered_def
proof (intro ballI impI)
  fix a assume a: "a \<in> set (Store_attempts st')" and p: "Attempt_Progress a = ProgressWaitingExternal"
  show "\<exists>v \<in> set (Store_waits st'). Wait_AttemptID v = Attempt_ID a \<and> \<not> Wait_Woken v"
  proof (cases "Attempt_ID a = Wait_AttemptID w")
    case True
    then show ?thesis using assms(1) by (intro bexI [of _ w]) (simp_all add: parks_def)
  next
    case False
    then have "a \<in> set (Store_attempts st)"
      using attempts_at_other [of "{Wait_AttemptID w}" st st' a] assms(1) a by (simp add: parks_def)
    then obtain v where "v \<in> set (Store_waits st)" "Wait_AttemptID v = Attempt_ID a \<and> \<not> Wait_Woken v"
      using assms(2) p unfolding parked_covered_def by blast
    then show ?thesis using assms(1) by (intro bexI [of _ v]) (simp_all add: parks_def)
  qed
qed

section \<open>Steps\<close>

inductive wait_step :: "wait_store \<Rightarrow> wait_store \<Rightarrow> bool" where
  register: "RegisterTaskWait rt digest request now st = Inr (w, st') \<Longrightarrow> wait_step st st'"
| settle: "SettleTaskWait i result now st = Inr (w, st') \<Longrightarrow> wait_step st st'"
| cancel: "CancelTaskWait i now st = Inr (w, st') \<Longrightarrow> wait_step st st'"
| expire: "ExpireTaskWaits now st = Inr (ws, st') \<Longrightarrow> wait_step st st'"
| wake: "WakeTaskWaitsBefore rt now cutoffs st = Inr (wakes, st') \<Longrightarrow> wait_step st st'"
| transition: "TransitionTaskWake i source target now st = Inr (moved, st') \<Longrightarrow> wait_step st st'"
| awaiting: "TaskWakesAwaitingDelivery rt now st = Inr (wakes, st') \<Longrightarrow> wait_step st st'"
| parked: "parkedTaskWaitAttempts rt now workerID st = (entries, st') \<Longrightarrow> wait_step st st'"
| revoke: "RevokeTaskAuthority attemptID reason now st = Inr (a, st') \<Longrightarrow> wait_step st st'"

definition step_keeps :: "wait_store \<Rightarrow> wait_store \<Rightarrow> bool" where
  "step_keeps st st' \<longleftrightarrow>
     store_wf st' \<and> (parked_covered st \<longrightarrow> parked_covered st')
     \<and> (\<forall>w \<in> set (Store_waits st). \<exists>w' \<in> set (Store_waits st'). step_row w w')"

lemma rows_keep: "rows P st st' \<Longrightarrow> (\<And>u v. P u v \<Longrightarrow> step_row u v) \<Longrightarrow> \<forall>w \<in> set (Store_waits st). \<exists>w' \<in> set (Store_waits st'). step_row w w'"
  using rows_member [of P st st'] by blast

lemma quiet_keeps:
  assumes "quiet st st'" and "store_wf st"
  shows "step_keeps st st'"
proof -
  have "rows quiet_row st st'" using assms(1) by (simp add: quiet_def)
  then have "\<forall>w \<in> set (Store_waits st). \<exists>w' \<in> set (Store_waits st'). step_row w w'"
    by (rule rows_keep) (simp add: quiet_row_def row_ok_step)
  then show ?thesis using quiet_wf [OF assms] quiet_covered [OF assms(1)] by (simp add: step_keeps_def)
qed

lemma covered_rows:
  assumes "rows P st st'" and "\<And>u v. P u v \<Longrightarrow> Wait_AttemptID v = Wait_AttemptID u \<and> Wait_Woken v = Wait_Woken u"
    and "\<forall>a \<in> set (Store_attempts st'). Attempt_Progress a = ProgressWaitingExternal \<longrightarrow> a \<in> set (Store_attempts st)"
    and "parked_covered st"
  shows "parked_covered st'"
  unfolding parked_covered_def
proof (intro ballI impI)
  fix a assume a: "a \<in> set (Store_attempts st')" and p: "Attempt_Progress a = ProgressWaitingExternal"
  then obtain w where w: "w \<in> set (Store_waits st)" "Wait_AttemptID w = Attempt_ID a \<and> \<not> Wait_Woken w"
    using assms(3,4) unfolding parked_covered_def by blast
  obtain w' where w': "w' \<in> set (Store_waits st')" "P w w'" using rows_member [OF assms(1) w(1)] .
  then show "\<exists>w \<in> set (Store_waits st'). Wait_AttemptID w = Attempt_ID a \<and> \<not> Wait_Woken w"
    using w(2) assms(2) [OF w'(2)] by (intro bexI [OF _ w'(1)]) simp
qed

lemma transition_keeps:
  assumes "transition_rows st st'" and "store_wf st"
  shows "step_keeps st st'"
proof -
  have r: "rows (\<lambda>w w'. step_row w w' \<and> Wait_Woken w' = Wait_Woken w) st st'" and a: "Store_attempts st' = Store_attempts st"
    using assms(1) by (simp_all add: transition_rows_def)
  have keep: "\<forall>w \<in> set (Store_waits st). \<exists>w' \<in> set (Store_waits st'). step_row w w'" using r by (rule rows_keep) simp
  have ids: "map Wait_ID (Store_waits st') = map Wait_ID (Store_waits st)"
    using r by (rule rows_ids) (simp add: step_row_def wait_evolves_def)
  have "wait_wf w'" if w': "w' \<in> set (Store_waits st')" for w'
  proof -
    obtain w where w: "w \<in> set (Store_waits st)" "step_row w w' \<and> Wait_Woken w' = Wait_Woken w" using rows_memberD [OF r w'] .
    have "wait_wf w" using assms(2) w(1) unfolding store_wf_def by simp
    then show ?thesis using w(2) by (simp add: step_row_def)
  qed
  then have "store_wf st'" using assms(2) ids a unfolding store_wf_def by metis
  moreover have "parked_covered st \<longrightarrow> parked_covered st'"
    using covered_rows [OF r] a by (simp add: step_row_def wait_evolves_def)
  ultimately show ?thesis using keep by (simp add: step_keeps_def)
qed

lemma revoke_keeps:
  assumes "RevokeTaskAuthority i reason now st = Inr (a, st')" and "store_wf st"
  shows "step_keeps st st'"
proof -
  obtain attempt where l: "loadAttemptTx st i = Inr attempt" and r: "revokeTaskAuthorityTx attempt reason now st = Inr st'"
    using assms(1) by (auto simp: RevokeTaskAuthority_def bind_result_ok split: if_splits)
  note rev = revoke_ok [OF r]
  have i: "Attempt_ID attempt = i" by (rule load_attempt_ok(2) [OF l])
  have same: "rows (\<lambda>u v. v = u) st st'" using rev(1) by (simp add: rows_def list.rel_eq list_all2_eq [symmetric] eq_commute)
  have "\<forall>a \<in> set (Store_attempts st'). Attempt_Progress a = ProgressWaitingExternal \<longrightarrow> a \<in> set (Store_attempts st)"
  proof (intro ballI impI)
    fix b assume b: "b \<in> set (Store_attempts st')" "Attempt_Progress b = ProgressWaitingExternal"
    show "b \<in> set (Store_attempts st)"
    proof (cases "Terminal (Attempt_Progress attempt)")
      case True
      then show ?thesis using rev(3) b(1) by simp
    next
      case False
      then have "Attempt_ID b \<noteq> Attempt_ID attempt" using rev(4) b by (auto simp: unparked_def)
      then show ?thesis using attempts_at_other [OF rev(2), of b] b(1) by simp
    qed
  qed
  then have "parked_covered st \<longrightarrow> parked_covered st'" using covered_rows [OF same] by simp
  moreover have "store_wf st'" using assms(2) rev(1) attempts_at_ids [OF rev(2)] by (simp add: store_wf_def)
  moreover have "\<forall>w \<in> set (Store_waits st). \<exists>w' \<in> set (Store_waits st'). step_row w w'"
    using rev(1) row_ok_step [OF row_ok_refl] by auto
  ultimately show ?thesis by (simp add: step_keeps_def)
qed

lemma wake_keeps:
  assumes "WakeTaskWaitsBefore rt now cutoffs st = Inr (wakes, st')" and "store_wf st"
  shows "step_keeps st st'"
proof -
  let ?cs = "wake_candidates (load_waits st)"
  have p: "rows (pass_row (fst ` set ?cs)) st st'" "store_wf st'" "parked_covered st \<longrightarrow> parked_covered st'"
    using WakeTaskWaitsBefore_ok [OF assms] by (simp_all add: pass_ok_def)
  from p(1) have "\<forall>w \<in> set (Store_waits st). \<exists>w' \<in> set (Store_waits st'). step_row w w'"
    by (rule rows_keep) (simp add: pass_row_def row_ok_step)
  then show ?thesis using p by (simp add: step_keeps_def)
qed

lemma register_keeps:
  assumes "RegisterTaskWait rt digest request now st = Inr (w, st')" and "store_wf st"
  shows "step_keeps st st'"
  using register_ok [OF assms]
proof
  assume "st' = st \<and> w \<in> set (Store_waits st)"
  then show ?thesis using quiet_keeps [OF quiet_refl assms(2)] by simp
next
  assume p: "parks st st' w"
  have "\<forall>v \<in> set (Store_waits st). \<exists>v' \<in> set (Store_waits st'). step_row v v'"
    using p row_ok_step [OF row_ok_refl] by (auto simp: parks_def)
  then show ?thesis using parks_wf [OF p assms(2)] parks_covered [OF p] by (simp add: step_keeps_def)
qed

lemma wait_step_keeps: "wait_step st st' \<Longrightarrow> store_wf st \<Longrightarrow> step_keeps st st'"
proof (induction rule: wait_step.induct)
  case (parked rt now workerID st entries st')
  then show ?case using quiet_keeps parked_list_ok [OF parked.prems, of rt now workerID] by simp
qed (auto intro: register_keeps wake_keeps revoke_keeps transition_keeps transition_ok
  quiet_keeps settle_ok cancel_ok expire_ok awaiting_ok)

section \<open>An example\<close>

text \<open>One parked attempt with one unsettled wait, on an ungoverned worker.\<close>

definition example_wait_attempt :: Attempt where
  "example_wait_attempt = zero_Attempt\<lparr>Attempt_ID := ''a1'', Attempt_WorkflowRunID := ''r1'', Attempt_TaskID := ''t1'',
     Attempt_Progress := ProgressWaitingExternal, Attempt_Control := ControlWaitingExternal, Attempt_Revision := 4,
     Attempt_AssignmentID := ''s1'', Attempt_ThreadID := ''th''\<rparr>"

definition example_wait :: TaskWait where
  "example_wait =
     \<lparr>Wait_ID = ''tw-q1'', Wait_WorkflowRunID = ''r1'', Wait_TaskID = ''t1'', Wait_AttemptID = ''a1'', Wait_IssuedRevision = 3,
      Wait_ThreadID = ''th'', Wait_Wake = WakeEach, Wait_MaxDuration = 10, Wait_RequestID = ''q1'', Wait_ConditionDigest = ''d'',
      Wait_Name = ''n'', Wait_Condition = ''c'', Wait_Kind = WaitKindShell, Wait_OrTimeout = False, Wait_Node = None,
      Wait_RegisteredRevision = 4, Wait_RegisteredAt = 5, Wait_Deadline = 15, Wait_Result = None, Wait_SettledAt = None,
      Wait_WokenAt = None, Wait_Delivery = '''', Wait_DeliveredAt = None, Wait_DeliveryObservedAt = None, Wait_DeliveryID = '''',
      Wait_WakeRevision = 0, Wait_Resumption = False, Wait_WakeDeferral = None\<rparr>"

definition example_assignment :: StoredAssignment where
  "example_assignment =
     \<lparr>Assignment_ID = ''s1'', Assignment_AttemptID = ''a1'', Assignment_WorkerID = ''w1'', Assignment_WorkerEpoch = ''e'',
      Assignment_State = AssignmentClaimed, Assignment_UnknownSince = None, Assignment_Epoch = 1, Assignment_LeaseToken = ''l'',
      Assignment_LeaseExpiresAt = 1000,
      Assigned_Route = \<lparr>Route_WorkerID = ''w1'', Route_ProviderInstanceID = '''', Route_Model = '''', Route_Options = [], Route_QuotaPoolID = ''''\<rparr>,
      Assigned_Project = ''p'', Assigned_ThreadID = ''th'', Assigned_DispatchToken = ''tok'', Assigned_DispatchError = '''',
      Assigned_ExecutorDemand = None, Assigned_PlacementDemand = None, Assigned_UpdatedAt = 1\<rparr>"

definition example_snapshot :: StoredSnapshot where
  "example_snapshot =
     \<lparr>WorkerSnap_WorkerID = ''w1'', WorkerSnap_Assignments = [], Stored_WorkerEpoch = ''e'', Stored_Sequence = 1,
      Stored_CatalogRevision = '''', Stored_Providers = [], Stored_Projects = [], Stored_CPUClass = CPUClassEmpty,
      Stored_Allocatable = \<lparr>Alloc_ExecutorSlots = 0, Alloc_CPUUnits = Fin 0, Alloc_MemoryMB = 0, Alloc_ScratchMB = 0\<rparr>,
      Stored_ValidUntil = 1000, Stored_Workspaces = []\<rparr>"

definition example_wait_run :: WorkflowRun where
  "example_wait_run =
     \<lparr>Run_RouteSelections = [], Run_Graph = None, Run_ID = ''r1'', Run_WorkflowID = ''wf'', Run_GraphRevision = 1, Run_Sink = None,
      Run_Supervision = None, Run_Progress = ProgressActive, Run_InputArtifactIDs = [], Run_Revision = 1, Run_CreatedAt = 1,
      Run_UpdatedAt = 1, Run_CompletedAt = None\<rparr>"

definition example_wait_store :: wait_store where
  "example_wait_store =
     \<lparr>Store_waits = [example_wait], Store_events = [], Store_attempts = [example_wait_attempt], Store_assignments = [example_assignment],
      Store_runs = [example_wait_run], Store_tasks = [], Store_projects = [(''wf'', ''p'')], Store_workers = [example_snapshot],
      Store_pools = [], Store_admissions = []\<rparr>"

definition example_wait_runtime :: go_runtime where
  "example_wait_runtime = \<lparr>Runtime_text = (\<lambda>_. ''text''), Runtime_time = (\<lambda>_. ''time''), Runtime_order = (\<lambda>keys. keys)\<rparr>"

definition example_settled :: wait_store where
  "example_settled = (case ExpireTaskWaits 20 example_wait_store of Inr (_, st) \<Rightarrow> st | Inl _ \<Rightarrow> example_wait_store)"

definition example_woken :: wait_store where
  "example_woken = (case WakeTaskWaits example_wait_runtime 30 example_settled of Inr (_, st) \<Rightarrow> st | Inl _ \<Rightarrow> example_settled)"

definition transitioned :: "string \<Rightarrow> string \<Rightarrow> instant \<Rightarrow> wait_store \<Rightarrow> wait_store" where
  "transitioned source target now st = (case TransitionTaskWake ''tw-q1'' source target now st of Inr (_, st') \<Rightarrow> st' | Inl _ \<Rightarrow> st)"

definition example_sending :: wait_store where
  "example_sending = transitioned ''pending'' ''sending'' 31 example_woken"

definition example_recovery :: wait_store where
  "example_recovery = transitioned ''sending'' ''recovery-required'' 32 example_sending"

lemmas example_wait_defs = example_wait_store_def example_wait_def example_wait_attempt_def example_assignment_def
  example_snapshot_def example_wait_run_def example_wait_runtime_def

lemma example_store_wf: "store_wf example_wait_store" "parked_covered example_wait_store"
  by (simp_all add: example_wait_defs zero_Attempt_def store_wf_def parked_covered_def wait_wf_def taskWaitID_def Wait_Woken_def Wait_Settled_def)

lemma example_expired: "\<exists>ws. ExpireTaskWaits 20 example_wait_store = Inr (ws, example_settled)"
  by (simp add: example_settled_def ExpireTaskWaits_def is_zero_time_def Let_def)

lemma example_wakes: "map (map Wait_ID \<circ> Wake_Waits) (case WakeTaskWaits example_wait_runtime 30 example_settled of Inr (ws, _) \<Rightarrow> ws | Inl _ \<Rightarrow> []) = [[''tw-q1'']]"
  by code_simp

text \<open>A group of which one message was observed and the others are unsent is put on hold, from where the
  transitions send it.\<close>

lemma observed_group_reopened:
  "group_target False [''observed'', ''pending'', ''held''] = Some ''held''" "wake_transition_allowed True ''held'' ''sending''"
  by (simp_all add: group_target_def wake_transition_allowed_def)

section \<open>Properties\<close>

lemma steps_keep:
  assumes "wait_step\<^sup>*\<^sup>* st st'" and "store_wf st"
  shows "store_wf st' \<and> (parked_covered st \<longrightarrow> parked_covered st')
     \<and> (\<forall>w \<in> set (Store_waits st). \<exists>w' \<in> set (Store_waits st'). wait_evolves w w')"
  using assms(1)
proof (induction rule: rtranclp_induct)
  case base
  have "wait_evolves w w" for w by (simp add: wait_evolves_def)
  then show ?case using assms(2) by blast
next
  case (step mid st')
  then have k: "step_keeps mid st'" using wait_step_keeps by simp
  have "\<exists>w' \<in> set (Store_waits st'). wait_evolves w w'" if w: "w \<in> set (Store_waits st)" for w
  proof -
    obtain v where v: "v \<in> set (Store_waits mid)" "wait_evolves w v" using step.IH w by blast
    obtain u where u: "u \<in> set (Store_waits st')" "step_row v u" using k v(1) unfolding step_keeps_def by blast
    then have "wait_evolves w u" using wait_evolves_trans [OF v(2)] by (simp add: step_row_def)
    then show ?thesis using u(1) by blast
  qed
  then show ?case using k step.IH by (simp add: step_keeps_def)
qed

text \<open>C18. A wait settles once and is woken once: after any sequence of registrations, settlements, cancellations,
  expiries, wake passes, delivery transitions, listings and revocations, the row of a wait is still there and no
  other has its identity; where it was settled its result and the time of it are the same, and where it was woken
  the time, the attempt revision and the message identity of the wake are.\<close>

theorem settled_outcome_final:
  assumes "wait_step\<^sup>*\<^sup>* st st'" and "store_wf st" and "w \<in> set (Store_waits st)"
  shows "distinct (map Wait_ID (Store_waits st'))
     \<and> (\<exists>w' \<in> set (Store_waits st'). Wait_ID w' = Wait_ID w
          \<and> (Wait_SettledAt w \<noteq> None \<longrightarrow> Wait_Result w' = Wait_Result w \<and> Wait_SettledAt w' = Wait_SettledAt w)
          \<and> (Wait_WokenAt w \<noteq> None \<longrightarrow> Wait_WokenAt w' = Wait_WokenAt w \<and> Wait_WakeRevision w' = Wait_WakeRevision w
               \<and> Wait_DeliveryID w' = Wait_DeliveryID w))"
proof -
  note keep = steps_keep [OF assms(1,2)]
  obtain w' where w': "w' \<in> set (Store_waits st')" "wait_evolves w w'" using keep assms(3) by blast
  have "Wait_ID w' = Wait_ID w
      \<and> (Wait_SettledAt w \<noteq> None \<longrightarrow> Wait_Result w' = Wait_Result w \<and> Wait_SettledAt w' = Wait_SettledAt w)
      \<and> (Wait_WokenAt w \<noteq> None \<longrightarrow> Wait_WokenAt w' = Wait_WokenAt w \<and> Wait_WakeRevision w' = Wait_WakeRevision w
           \<and> Wait_DeliveryID w' = Wait_DeliveryID w)"
    using w'(2) by (simp add: wait_evolves_def Wait_Settled_def Wait_Woken_def)
  then show ?thesis using w'(1) keep unfolding store_wf_def by blast
qed

lemma example_steps: "wait_step example_wait_store example_settled" "wait_step example_settled example_woken"
proof -
  show "wait_step example_wait_store example_settled" using example_expired by (auto intro: wait_step.expire)
  have "isl (WakeTaskWaits example_wait_runtime 30 example_settled) \<longleftrightarrow> False" by code_simp
  then obtain p where "WakeTaskWaits example_wait_runtime 30 example_settled = Inr p" by (cases "WakeTaskWaits example_wait_runtime 30 example_settled") auto
  then have "WakeTaskWaitsBefore example_wait_runtime 30 no_cutoffs example_settled = Inr (fst p, example_woken)"
    by (simp add: WakeTaskWaits_def example_woken_def split: prod.split)
  then show "wait_step example_settled example_woken" by (rule wait_step.wake)
qed

lemma example_settled_wf: "store_wf example_settled" "store_wf example_woken"
  using wait_step_keeps example_steps example_store_wf unfolding step_keeps_def by blast+

theorem settled_outcome_final_witness:
  "wait_step\<^sup>*\<^sup>* example_settled example_woken \<and> store_wf example_settled
     \<and> (\<exists>w' \<in> set (Store_waits example_woken). Wait_ID w' = ''tw-q1'' \<and> Wait_SettledAt w' = Some 20)"
proof -
  have steps: "wait_step\<^sup>*\<^sup>* example_settled example_woken" using example_steps(2) by simp
  have one: "map (\<lambda>w. (Wait_ID w, Wait_SettledAt w)) (Store_waits example_settled) = [(''tw-q1'', Some 20)]" by code_simp
  then obtain w where w: "w \<in> set (Store_waits example_settled)" "Wait_ID w = ''tw-q1''" "Wait_SettledAt w = Some 20" by auto
  show ?thesis using settled_outcome_final [OF steps example_settled_wf(1) w(1)] w(2,3) steps example_settled_wf(1) by auto
qed

text \<open>C19. No parked attempt loses its wake: over any sequence of these operations, an attempt that waits for an
  external condition has a wait that has not woken it yet.\<close>

theorem no_lost_wake:
  assumes "wait_step\<^sup>*\<^sup>* st st'" and "store_wf st" and "parked_covered st"
    and "a \<in> set (Store_attempts st')" and "Attempt_Progress a = ProgressWaitingExternal"
  shows "\<exists>w \<in> set (Store_waits st'). Wait_AttemptID w = Attempt_ID a \<and> Wait_WokenAt w = None"
  using steps_keep [OF assms(1,2)] assms(3-5) unfolding parked_covered_def Wait_Woken_def by simp

theorem no_lost_wake_witness:
  "wait_step\<^sup>*\<^sup>* example_wait_store example_settled \<and> parked_covered example_wait_store
     \<and> (\<exists>w \<in> set (Store_waits example_settled). Wait_AttemptID w = ''a1'' \<and> Wait_WokenAt w = None)"
proof -
  have steps: "wait_step\<^sup>*\<^sup>* example_wait_store example_settled" using example_steps(1) by simp
  have one: "map (\<lambda>a. (Attempt_ID a, Attempt_Progress a)) (Store_attempts example_settled) = [(''a1'', ProgressWaitingExternal)]" by code_simp
  then obtain a where a: "a \<in> set (Store_attempts example_settled)" "Attempt_ID a = ''a1''" "Attempt_Progress a = ProgressWaitingExternal" by auto
  show ?thesis using no_lost_wake [OF steps example_store_wf a(1,3)] a(2) steps example_store_wf(2) by simp
qed


lemma transitioned_step:
  assumes "\<not> isl (TransitionTaskWake ''tw-q1'' source target now st)"
  shows "wait_step st (transitioned source target now st)"
proof -
  obtain moved st' where "TransitionTaskWake ''tw-q1'' source target now st = Inr (moved, st')"
    using assms by (cases "TransitionTaskWake ''tw-q1'' source target now st") auto
  then show ?thesis using wait_step.transition by (simp add: transitioned_def)
qed


end
