(* ===== verification/TaskWaitProgress.thy ===== *)
theory TaskWaitProgress
  imports TaskWaitProperties
begin

text \<open>
  The wake pass returns: where every reference of the tables resolves no attempt makes it fail, and
  a parked attempt without an assignment makes it fail for all of them. With the deadlines, every
  parked attempt is resumed, failed or told why.
\<close>

section \<open>References\<close>

definition integral :: "wait_store \<Rightarrow> bool" where
  "integral st \<longleftrightarrow>
     (\<forall>w \<in> set (Store_waits st). \<exists>a \<in> set (Store_attempts st). Attempt_ID a = Wait_AttemptID w)
     \<and> (\<forall>s \<in> set (Store_assignments st). \<exists>a \<in> set (Store_attempts st). Attempt_ID a = Assignment_AttemptID s)
     \<and> (\<forall>a \<in> set (Store_attempts st). Attempt_AssignmentID a \<noteq> '''' \<longrightarrow>
          (\<exists>s \<in> set (Store_assignments st). Assignment_ID s = Attempt_AssignmentID a))
     \<and> (\<forall>a \<in> set (Store_attempts st). Attempt_Progress a = ProgressWaitingExternal \<longrightarrow>
          Attempt_AssignmentID a \<noteq> ''''
          \<and> (\<forall>s \<in> set (Store_assignments st). Assignment_ID s = Attempt_AssignmentID a \<longrightarrow>
               (\<exists>p. frozenTaskWakeProjectTx a s st = Inr p)))"

definition same_attempt_refs :: "Attempt \<Rightarrow> Attempt \<Rightarrow> bool" where
  "same_attempt_refs a b \<longleftrightarrow>
     Attempt_ID b = Attempt_ID a \<and> Attempt_AssignmentID b = Attempt_AssignmentID a \<and> Attempt_WorkflowRunID b = Attempt_WorkflowRunID a
     \<and> (Attempt_Progress b = ProgressWaitingExternal \<longrightarrow> Attempt_Progress a = ProgressWaitingExternal)"

definition same_assignment_refs :: "StoredAssignment \<Rightarrow> StoredAssignment \<Rightarrow> bool" where
  "same_assignment_refs s t \<longleftrightarrow>
     Assignment_ID t = Assignment_ID s \<and> Assignment_AttemptID t = Assignment_AttemptID s \<and> Assigned_Project t = Assigned_Project s"

definition refs_kept :: "wait_store \<Rightarrow> wait_store \<Rightarrow> bool" where
  "refs_kept st st' \<longleftrightarrow>
     list_all2 same_attempt_refs (Store_attempts st) (Store_attempts st')
     \<and> list_all2 same_assignment_refs (Store_assignments st) (Store_assignments st')
     \<and> Store_runs st' = Store_runs st \<and> Store_projects st' = Store_projects st"

lemma refs_kept_refl:
  "Store_attempts st' = Store_attempts st \<Longrightarrow> Store_assignments st' = Store_assignments st \<Longrightarrow> Store_runs st' = Store_runs st
     \<Longrightarrow> Store_projects st' = Store_projects st \<Longrightarrow> refs_kept st st'"
  by (simp add: refs_kept_def same_attempt_refs_def same_assignment_refs_def list_all2_refl)

lemma frozen_kept:
  assumes "same_attempt_refs a b" and "same_assignment_refs s t" and "Store_runs st' = Store_runs st" and "Store_projects st' = Store_projects st"
    and "frozenTaskWakeProjectTx a s st = Inr p"
  shows "frozenTaskWakeProjectTx b t st' = Inr p"
  using assms by (simp add: frozenTaskWakeProjectTx_def same_attempt_refs_def same_assignment_refs_def cong: option.case_cong if_cong)

lemma integral_kept:
  assumes int: "integral st" and refs: "refs_kept st st'"
    and waits: "Wait_AttemptID ` set (Store_waits st') \<subseteq> Wait_AttemptID ` set (Store_waits st)"
  shows "integral st'"
proof -
  have A: "list_all2 same_attempt_refs (Store_attempts st) (Store_attempts st')"
    and S: "list_all2 same_assignment_refs (Store_assignments st) (Store_assignments st')"
    and same: "Store_runs st' = Store_runs st" "Store_projects st' = Store_projects st"
    using refs by (simp_all add: refs_kept_def)
  have fwd: "\<exists>b \<in> set (Store_attempts st'). Attempt_ID b = i" if "\<exists>a \<in> set (Store_attempts st). Attempt_ID a = i" for i
  proof -
    obtain a where a: "a \<in> set (Store_attempts st)" "Attempt_ID a = i" using \<open>\<exists>a \<in> set (Store_attempts st). Attempt_ID a = i\<close> by (elim bexE)
    from list_all2_left [OF A a(1)] a(2) show ?thesis by (elim bexE, intro bexI) (simp_all add: same_attempt_refs_def)
  qed
  have 1: "\<exists>b \<in> set (Store_attempts st'). Attempt_ID b = Wait_AttemptID w" if w: "w \<in> set (Store_waits st')" for w
  proof (rule fwd)
    have "Wait_AttemptID w \<in> Wait_AttemptID ` set (Store_waits st)" using waits w by auto
    then obtain v where "v \<in> set (Store_waits st)" "Wait_AttemptID w = Wait_AttemptID v" by (elim imageE) simp
    then show "\<exists>a \<in> set (Store_attempts st). Attempt_ID a = Wait_AttemptID w" using int unfolding integral_def by simp
  qed
  have 2: "\<exists>b \<in> set (Store_attempts st'). Attempt_ID b = Assignment_AttemptID t" if t: "t \<in> set (Store_assignments st')" for t
  proof (rule fwd)
    obtain s where "s \<in> set (Store_assignments st)" "same_assignment_refs s t" using list_all2_right [OF S t] by (elim bexE)
    then show "\<exists>a \<in> set (Store_attempts st). Attempt_ID a = Assignment_AttemptID t"
      using int unfolding integral_def same_assignment_refs_def by simp
  qed
  have 3: "\<exists>t \<in> set (Store_assignments st'). Assignment_ID t = Attempt_AssignmentID b"
    if b: "b \<in> set (Store_attempts st')" and nonempty: "Attempt_AssignmentID b \<noteq> ''''" for b
  proof -
    obtain a where a: "a \<in> set (Store_attempts st)" "same_attempt_refs a b" using list_all2_right [OF A b] by (elim bexE)
    then obtain s where s: "s \<in> set (Store_assignments st)" "Assignment_ID s = Attempt_AssignmentID b"
      using int nonempty unfolding integral_def same_attempt_refs_def by (metis (no_types, lifting))
    from list_all2_left [OF S s(1)] s(2) show ?thesis by (elim bexE, intro bexI) (simp_all add: same_assignment_refs_def)
  qed
  have 4: "Attempt_AssignmentID b \<noteq> '''' \<and> (\<forall>t \<in> set (Store_assignments st'). Assignment_ID t = Attempt_AssignmentID b \<longrightarrow>
        (\<exists>p. frozenTaskWakeProjectTx b t st' = Inr p))"
    if b: "b \<in> set (Store_attempts st')" and parked: "Attempt_Progress b = ProgressWaitingExternal" for b
  proof -
    obtain a where a: "a \<in> set (Store_attempts st)" "same_attempt_refs a b" using list_all2_right [OF A b] by (elim bexE)
    have old: "Attempt_AssignmentID a \<noteq> ''''"
      "\<forall>s \<in> set (Store_assignments st). Assignment_ID s = Attempt_AssignmentID a \<longrightarrow> (\<exists>p. frozenTaskWakeProjectTx a s st = Inr p)"
      using int a parked unfolding integral_def same_attempt_refs_def by simp_all
    show ?thesis
    proof (intro conjI ballI impI)
      show "Attempt_AssignmentID b \<noteq> ''''" using old(1) a(2) by (simp add: same_attempt_refs_def)
      fix t assume t: "t \<in> set (Store_assignments st')" "Assignment_ID t = Attempt_AssignmentID b"
      obtain s where s: "s \<in> set (Store_assignments st)" "same_assignment_refs s t" using list_all2_right [OF S t(1)] by (elim bexE)
      then have "Assignment_ID s = Attempt_AssignmentID a" using t(2) a(2) by (simp add: same_assignment_refs_def same_attempt_refs_def)
      then obtain p where "frozenTaskWakeProjectTx a s st = Inr p" using bspec [OF old(2) s(1)] by auto
      then show "\<exists>p. frozenTaskWakeProjectTx b t st' = Inr p" using frozen_kept [OF a(2) s(2) same] by auto
    qed
  qed
  show ?thesis unfolding integral_def using 1 2 3 4 by simp
qed

section \<open>No step of the pass fails\<close>

lemma load_attempt_found: "\<exists>a \<in> set (Store_attempts st). Attempt_ID a = i \<Longrightarrow> \<exists>a. loadAttemptTx st i = Inr a"
  by (auto simp: loadAttemptTx_def find_None_iff split: option.splits)

lemma load_assignment_found:
  assumes "\<exists>s \<in> set (Store_assignments st). Assignment_ID s = i"
  obtains s where "loadAssignmentTx st i = Inr s" and "s \<in> set (Store_assignments st)" and "Assignment_ID s = i"
proof (cases "find (\<lambda>s. Assignment_ID s = i) (Store_assignments st)")
  case None
  then show ?thesis using assms by (auto simp: find_None_iff)
next
  case (Some s)
  then show ?thesis using that [of s] find_SomeD [OF Some] by (simp add: loadAssignmentTx_def)
qed

lemma fenced_found: "a \<in> set (Store_attempts st) \<Longrightarrow> Attempt_ID b = Attempt_ID a \<Longrightarrow> \<exists>st'. saveAttemptFencedTx b (Attempt_Revision a) st = Inr st'"
  by (auto simp: saveAttemptFencedTx_def list_ex_iff)

lemma pool_active_found:
  assumes "\<forall>s \<in> set ss. \<exists>a. loadAttemptTx st (Assignment_AttemptID s) = Inr a"
  shows "\<exists>n. pool_active st poolID ss k = Inr n"
  using assms by (induction ss arbitrary: k) (auto simp: bind_result_def)

lemma used_capacity_found:
  assumes "\<forall>s \<in> set ss. \<exists>a. loadAttemptTx st (Assignment_AttemptID s) = Inr a"
  shows "used_capacity st workerID allocatable ss slots used \<noteq> Inl (CapacityFailed err)"
  using assms
proof (induction ss arbitrary: slots used)
  case Nil
  then show ?case by simp
next
  case (Cons s ss)
  then obtain a where "loadAttemptTx st (Assignment_AttemptID s) = Inr a" by auto
  then show ?case using Cons by (simp add: Let_def split: prod.split)
qed

lemma require_found:
  assumes "\<forall>s \<in> set (Store_assignments st). \<exists>a. loadAttemptTx st (Assignment_AttemptID s) = Inr a"
  shows "requireExecutorCapacityTx workerID now epoch demand known st \<noteq> CapacityFailed err"
proof -
  have "used_capacity st workerID allocatable (load_assignments st) 0 zero_demand \<noteq> Inl (CapacityFailed err)" for allocatable
    using assms by (intro used_capacity_found) (simp add: load_assignments_def)
  moreover have "demand_refusal workerID snapshot demand \<noteq> Some (CapacityFailed err)" for snapshot
    by (simp add: demand_refusal_def evidence_error_def exhausted_error_def split: option.splits)
  moreover have "fit_capacity workerID allocatable demand slots used \<noteq> CapacityFailed err" for allocatable slots used
    by (simp add: fit_capacity_def exhausted_error_def Let_def)
  ultimately show ?thesis
    unfolding requireExecutorCapacityTx_def evidence_error_def Let_def by (auto split: option.split sum.split)
qed

lemma verdict_found:
  assumes int: "integral st" and "\<exists>p. frozenTaskWakeProjectTx attempt assignment st = Inr p"
  shows "\<exists>v. wake_verdict_of now cutoffs candidate attempt assignment st = Inr v"
proof -
  have all: "\<forall>s \<in> set (Store_assignments st). \<exists>a. loadAttemptTx st (Assignment_AttemptID s) = Inr a"
    using int load_attempt_found unfolding integral_def by blast
  have 1: "\<exists>v. authority_verdict now cutoffs attempt assignment st = Inr v"
    using assms(2) by (auto simp: authority_verdict_def bind_result_def)
  have 2: "\<exists>v. pool_verdict cutoffs attempt assignment st = Inr v"
  proof -
    obtain n where "pool_active st (Route_QuotaPoolID (Assigned_Route assignment)) (load_assignments st) 0 = Inr n"
      using pool_active_found [of "load_assignments st" st "Route_QuotaPoolID (Assigned_Route assignment)" 0] all
      by (auto simp: load_assignments_def)
    then show ?thesis by (auto simp: pool_verdict_def Let_def bind_result_def split: option.split)
  qed
  have 3: "\<exists>v. capacity_verdict now attempt assignment st = Inr v"
    using require_found [OF all] by (auto simp: capacity_verdict_def split: prod.split capacity_check.split)
  have then_found: "\<exists>v. then_verdict x y = Inr v" if "\<exists>v. x = Inr v" "\<exists>v. y = Inr v" for x y
    using that by (auto simp: then_verdict_def bind_result_def)
  show ?thesis unfolding wake_verdict_of_def by (intro then_found 1 2 3) simp
qed

lemma attempt_returns:
  assumes int: "integral st" and i: "i \<in> Wait_AttemptID ` set (Store_waits st)"
  shows "\<exists>acc'. wake_attempt rt now cutoffs (i, t) ready (wakes, st) = Inr acc'"
proof -
  obtain attempt where a: "loadAttemptTx st i = Inr attempt"
    using load_attempt_found [of st i] int i unfolding integral_def by auto
  note loaded = load_attempt_ok [OF a]
  have scope: "\<exists>b. scoped_out cutoffs attempt st = Inr b"
  proof (cases "Attempt_AssignmentID attempt = ''''")
    case True
    then show ?thesis by (auto simp: scoped_out_def)
  next
    case False
    then have "\<exists>s \<in> set (Store_assignments st). Assignment_ID s = Attempt_AssignmentID attempt"
      using int loaded(1) unfolding integral_def by simp
    then obtain s where "loadAssignmentTx st (Attempt_AssignmentID attempt) = Inr s" by (rule load_assignment_found)
    then show ?thesis by (auto simp: scoped_out_def bind_result_def)
  qed
  have parked: "\<exists>acc'. wake_parked rt now cutoffs (i, t) attempt ready (wakes, st) = Inr acc'"
    if p: "Attempt_Progress attempt = ProgressWaitingExternal"
  proof -
    have ne: "Attempt_AssignmentID attempt \<noteq> ''''"
      and frozen: "\<forall>s \<in> set (Store_assignments st). Assignment_ID s = Attempt_AssignmentID attempt \<longrightarrow> (\<exists>p. frozenTaskWakeProjectTx attempt s st = Inr p)"
      using int loaded(1) p unfolding integral_def by simp_all
    have "\<exists>s \<in> set (Store_assignments st). Assignment_ID s = Attempt_AssignmentID attempt"
      using int loaded(1) ne unfolding integral_def by simp
    then obtain s where s: "loadAssignmentTx st (Attempt_AssignmentID attempt) = Inr s" "s \<in> set (Store_assignments st)"
      "Assignment_ID s = Attempt_AssignmentID attempt" by (rule load_assignment_found)
    obtain v where v: "wake_verdict_of now cutoffs (i, t) attempt s st = Inr v"
      using verdict_found [OF int] bspec [OF frozen s(2)] s(3) by blast
    have "\<exists>ab. taskWaitExecutionAbandonedTx rt attempt st = Inr ab"
      using s(1) by (simp add: taskWaitExecutionAbandonedTx_def bind_result_def)
    then obtain ab where ab: "taskWaitExecutionAbandonedTx rt attempt st = Inr ab" ..
    have revoked: "\<exists>st'. revokeTaskAuthorityTx attempt reason now st = Inr st'" for reason
    proof -
      have f: "\<exists>st''. saveAttemptFencedTx (failed_attempt reason now attempt) (Attempt_Revision attempt) st' = Inr st''"
        if "Store_attempts st' = Store_attempts st" for st'
        using fenced_found [of attempt st' "failed_attempt reason now attempt"] loaded(1) that by (simp add: failed_attempt_def)
      show ?thesis unfolding revokeTaskAuthorityTx_def Let_def by (auto intro!: f)
    qed
    have resumed: "\<exists>acc'. resume_wake now attempt ready (wakes, st) = Inr acc'"
      using fenced_found [OF loaded(1), of "resumed_attempt now attempt"]
      by (auto simp: resume_wake_def resumed_attempt_def Let_def bind_result_def)
    show ?thesis
    proof (cases ab)
      case None
      then show ?thesis using ab s(1) v resumed by (cases v) (simp_all add: wake_parked_def bind_result_def)
    next
      case (Some reason)
      obtain st' where "revokeTaskAuthorityTx attempt reason now st = Inr st'" using revoked [of reason] ..
      then show ?thesis using ab Some by (simp add: wake_parked_def bind_result_def)
    qed
  qed
  show ?thesis using a scope parked unfolding wake_attempt_def by (auto simp: bind_result_def)
qed

section \<open>The tables a step leaves\<close>

lemma save_wait_tables [simp]:
  "Store_runs (saveTaskWaitTx w st) = Store_runs st" "Store_projects (saveTaskWaitTx w st) = Store_projects st"
  by (simp_all add: saveTaskWaitTx_def)

lemma save_waits_tables [simp]:
  "Store_runs (save_waits ws st) = Store_runs st" "Store_projects (save_waits ws st) = Store_projects st"
  by (induction ws arbitrary: st) (simp_all add: save_waits_def)

lemma record_event_tables [simp]:
  "Store_runs (recordTaskWaitEventTx e st) = Store_runs st" "Store_projects (recordTaskWaitEventTx e st) = Store_projects st"
  by (simp_all add: recordTaskWaitEventTx_def)

lemma marked_tables [simp]:
  "Store_runs (markTaskWaitsWokenTx ws a d r now st) = Store_runs st"
  "Store_projects (markTaskWaitsWokenTx ws a d r now st) = Store_projects st"
  "Store_assignments (markTaskWaitsWokenTx ws a d r now st) = Store_assignments st"
  by (simp_all add: markTaskWaitsWokenTx_def)

lemma deferred_refs: "refs_kept st (deferTaskWakeTx rt cutoffs ready code detail workerID poolID now st)"
  by (rule refs_kept_refl) (simp_all add: deferTaskWakeTx_def Let_def)

lemma fenced_refs:
  assumes "saveAttemptFencedTx b e st = Inr st'" and "a \<in> set (Store_attempts st)" and "same_attempt_refs a b" and "distinct (map Attempt_ID (Store_attempts st))"
  shows "list_all2 same_attempt_refs (Store_attempts st) (Store_attempts st')"
    and "Store_assignments st' = Store_assignments st" and "Store_runs st' = Store_runs st" and "Store_projects st' = Store_projects st"
proof -
  have st': "st' = st\<lparr>Store_attempts := map (\<lambda>a. if Attempt_ID a = Attempt_ID b then b else a) (Store_attempts st)\<rparr>"
    using assms(1) by (simp add: saveAttemptFencedTx_def split: if_splits)
  have "same_attempt_refs c (if Attempt_ID c = Attempt_ID b then b else c)" if "c \<in> set (Store_attempts st)" for c
  proof (cases "Attempt_ID c = Attempt_ID b")
    case True
    then have "Attempt_ID c = Attempt_ID a" using assms(3) by (simp add: same_attempt_refs_def)
    then have "c = a" using assms(2,4) that by (auto simp: distinct_map dest: inj_onD)
    then show ?thesis using assms(3) True by simp
  qed (simp add: same_attempt_refs_def)
  then show "list_all2 same_attempt_refs (Store_attempts st) (Store_attempts st')"
    by (auto simp: st' list_all2_conv_all_nth)
qed (use assms(1) in \<open>auto simp: saveAttemptFencedTx_def split: if_splits\<close>)

lemma revoked_refs:
  assumes "revokeTaskAuthorityTx attempt reason now st = Inr st'" and "attempt \<in> set (Store_attempts st)"
    and "distinct (map Attempt_ID (Store_attempts st))"
  shows "refs_kept st st'"
proof -
  define r where "r = recordTaskWaitEventTx
      \<lparr>Event_ID = ''revocation:'' @ Attempt_ID attempt, Event_Kind = TaskWaitReconciliationAuthorityRevoked,
        Event_AttemptID = Attempt_ID attempt, Event_WaitID = '''',
        Event_ThreadID = revoked_thread attempt (load_assignments st), Event_Detail = Sprintf ''%s'' [StrArg reason],
        Event_ObservedAt = now\<rparr>
      (st\<lparr>Store_assignments := map (\<lambda>a. if authorized_for (Attempt_ID attempt) a then revoke_assignment reason now a else a)
            (Store_assignments st)\<rparr>)"
  have st': "(if Terminal (Attempt_Progress attempt) then Inr r
      else saveAttemptFencedTx (failed_attempt reason now attempt) (Attempt_Revision attempt) r) = Inr st'"
    using assms unfolding revokeTaskAuthorityTx_def r_def Let_def by simp
  have r: "Store_attempts r = Store_attempts st" "Store_runs r = Store_runs st" "Store_projects r = Store_projects st"
    "list_all2 same_assignment_refs (Store_assignments st) (Store_assignments r)"
    by (simp_all add: r_def list_all2_conv_all_nth same_assignment_refs_def revoke_assignment_def)
  have refl: "list_all2 same_attempt_refs (Store_attempts st) (Store_attempts st)"
    by (simp add: list_all2_refl same_attempt_refs_def)
  have failed: "same_attempt_refs attempt (failed_attempt reason now attempt)"
    by (simp add: same_attempt_refs_def failed_attempt_def)
  show ?thesis
  proof (cases "Terminal (Attempt_Progress attempt)")
    case True
    then show ?thesis using st' r refl by (simp add: refs_kept_def)
  next
    case False
    then have "saveAttemptFencedTx (failed_attempt reason now attempt) (Attempt_Revision attempt) r = Inr st'" using st' by simp
    from fenced_refs [OF this _ failed] show ?thesis using assms(2,3) r by (simp add: refs_kept_def)
  qed
qed

lemma attempt_refs:
  assumes ok: "wake_attempt rt now cutoffs candidate ready acc = Inr acc'" and wf: "store_wf (snd acc)"
  shows "refs_kept (snd acc) (snd acc')"
proof -
  have ids: "distinct (map Attempt_ID (Store_attempts (snd acc)))" using wf by (simp add: store_wf_def)
  obtain attempt skip where a: "loadAttemptTx (snd acc) (fst candidate) = Inr attempt"
    and acc': "(if skip then Inr acc
         else if Terminal (Attempt_Progress attempt) then Inr (fst acc, abandon_wake now attempt ready (snd acc))
         else if Attempt_Progress attempt \<noteq> ProgressWaitingExternal
         then Inr (fst acc @ [wake_context attempt (woken_waits ready attempt ''pending'' False now)],
                   markTaskWaitsWokenTx ready attempt ''pending'' False now (snd acc))
         else wake_parked rt now cutoffs candidate attempt ready acc) = Inr acc'"
    using ok by (auto simp: wake_attempt_def bind_result_ok)
  note loaded = load_attempt_ok(1) [OF a]
  have parked: "refs_kept (snd acc) (snd acc')" if w: "wake_parked rt now cutoffs candidate attempt ready acc = Inr acc'"
  proof -
    obtain abandoned where ab: "taskWaitExecutionAbandonedTx rt attempt (snd acc) = Inr abandoned"
      using w by (auto simp: wake_parked_def bind_result_ok)
    show ?thesis
    proof (cases abandoned)
      case (Some reason)
      then obtain st where st: "revokeTaskAuthorityTx attempt reason now (snd acc) = Inr st"
        and s': "snd acc' = markTaskWaitsWokenTx ready attempt ''abandoned'' False now st"
        using w ab by (auto simp: wake_parked_def bind_result_ok)
      show ?thesis using revoked_refs [OF st loaded ids] by (simp add: s' refs_kept_def)
    next
      case None
      then obtain v where v: "(case v of WakeSkip \<Rightarrow> Inr acc
               | WakeDefer code detail workerID poolID \<Rightarrow>
                   Inr (fst acc, deferTaskWakeTx rt cutoffs ready code detail workerID poolID now (snd acc))
               | WakeAdmit \<Rightarrow> resume_wake now attempt ready acc) = Inr acc'"
        using w ab by (auto simp: wake_parked_def bind_result_ok)
      show ?thesis
      proof (cases v)
        case WakeSkip
        then show ?thesis using v by (auto simp: refs_kept_refl)
      next
        case (WakeDefer code detail workerID poolID)
        then show ?thesis using v deferred_refs by auto
      next
        case WakeAdmit
        then have "resume_wake now attempt ready acc = Inr acc'" using v by simp
        then obtain st where st: "saveAttemptFencedTx (resumed_attempt now attempt) (Attempt_Revision attempt) (snd acc) = Inr st"
          and s': "Store_attempts (snd acc') = Store_attempts st" "Store_assignments (snd acc') = Store_assignments st"
            "Store_runs (snd acc') = Store_runs st" "Store_projects (snd acc') = Store_projects st"
          by (auto simp: resume_wake_def Let_def bind_result_ok)
        have "same_attempt_refs attempt (resumed_attempt now attempt)" by (simp add: same_attempt_refs_def resumed_attempt_def)
        from fenced_refs [OF st loaded this ids] s' show ?thesis
          by (simp add: refs_kept_def same_assignment_refs_def list_all2_refl)
      qed
    qed
  qed
  show ?thesis
    using acc' parked by (auto simp: abandon_wake_def refs_kept_refl split: if_splits)
qed

lemma step_attempt_ids:
  assumes "wake_step_ok cutoffs i ready st st'"
  shows "Wait_AttemptID ` set (Store_waits st') = Wait_AttemptID ` set (Store_waits st)"
proof -
  have "rows (wake_row i) st st'" using assms by (simp add: wake_step_ok_def)
  then have "map Wait_AttemptID (Store_waits st') = map Wait_AttemptID (Store_waits st)"
    unfolding rows_def wake_row_def row_ok_def wait_evolves_def by (auto simp: list_all2_conv_all_nth list_eq_iff_nth_eq)
  then show ?thesis by (metis list.set_map)
qed

lemma pass_returns:
  assumes "distinct (map fst cs)" and "store_wf st" and "integral st" and "ready_candidates waits cs st"
  shows "\<exists>acc'. wake_all rt now cutoffs waits cs (wakes, st) = Inr acc'"
  using assms
proof (induction cs arbitrary: wakes st)
  case Nil
  then show ?case by simp
next
  case (Cons c cs)
  obtain ready where ready: "taskWaitWakeSet (waits_of (fst c) waits) = Some ready" "ready_of (fst c) ready st"
    using Cons.prems(4) by (auto simp: ready_candidates_def)
  have "hd ready \<in> set ready" using ready(2) by (simp add: ready_of_def)
  then have "fst c \<in> Wait_AttemptID ` set (Store_waits st)"
    using ready(2) unfolding ready_of_def by (intro image_eqI [of _ _ "hd ready"]) simp_all
  from attempt_returns [OF Cons.prems(3) this] obtain wakes' st'
    where one: "wake_attempt rt now cutoffs c ready (wakes, st) = Inr (wakes', st')"
    by (metis prod.collapse surj_pair)
  note step = wake_attempt_ok [OF one] 
  have ok: "wake_step_ok cutoffs (fst c) ready st st'" using step ready(2) Cons.prems(2) by simp
  have "store_wf st'" by (rule wake_step_wf [OF ok Cons.prems(2)])
  moreover have "integral st'"
    using integral_kept [OF Cons.prems(3)] attempt_refs [OF one] Cons.prems(2) step_attempt_ids [OF ok] by simp
  moreover have "ready_candidates waits cs st'"
    using Cons.prems(1) by (intro ready_candidates_kept [OF ok Cons.prems(4)]) simp
  ultimately obtain acc' where "wake_all rt now cutoffs waits cs (wakes', st') = Inr acc'"
    using Cons.IH [of st' wakes'] Cons.prems(1) by auto
  then show ?case using ready(1) one by (simp add: bind_result_def)
qed

lemma WakeTaskWaitsBefore_returns:
  assumes "store_wf st" and "integral st" and "\<not> is_zero_time now"
  shows "\<exists>wakes st'. WakeTaskWaitsBefore rt now cutoffs st = Inr (wakes, st')"
proof -
  from pass_returns [OF candidates_fst(1) assms(1,2) candidates_ready] show ?thesis
    using assms(3) by (auto simp: WakeTaskWaitsBefore_def)
qed

section \<open>Past the deadline\<close>

lemma expired_written:
  assumes wf: "store_wf st" and "distinct due" and due: "\<forall>w \<in> set due. w \<in> set (Store_waits st) \<and> \<not> Wait_Settled w" and w: "w \<in> set due"
  shows "expire_wait now w \<in> set (Store_waits (fold (expireTaskWaitTx now) due st))"
proof -
  obtain xs ys where split: "due = xs @ w # ys" using w by (auto simp: in_set_conv_decomp)
  let ?a = "fold (expireTaskWaitTx now) xs st" and ?e = "expire_wait now w"
  have xs: "distinct xs" "\<forall>v \<in> set xs. v \<in> set (Store_waits st) \<and> \<not> Wait_Settled v" "w \<notin> set xs" "distinct ys" "w \<notin> set ys" "set xs \<inter> set ys = {}"
    using assms(2,3) split by auto
  note before = fold_rows [OF expire_writes wf xs(1,2), of now]
  have a: "store_wf ?a" using quiet_wf before wf by blast
  have kept: "v \<in> set (Store_waits ?a)" if "v \<in> set (w # ys)" for v
  proof -
    have "v \<in> set (Store_waits st)" "v \<notin> set xs" using due split xs(3,6) that by auto
    then show ?thesis using before by blast
  qed
  have one: "quiet ?a (expireTaskWaitTx now w ?a)" "\<forall>v \<in> set (Store_waits ?a). v \<noteq> w \<longrightarrow> v \<in> set (Store_waits (expireTaskWaitTx now w ?a))"
    using expire_writes [of now] a kept [of w] due w unfolding writes_row_def by simp_all
  have "Store_waits (expireTaskWaitTx now w ?a) = put_wait ?e (Store_waits ?a)" by (simp add: expireTaskWaitTx_def Let_def)
  also have "\<dots> = map (\<lambda>u. if u = w then ?e else u) (Store_waits ?a)"
    using a kept [of w] by (intro put_wait_known) (simp_all add: store_wf_def expire_wait_def)
  finally have e: "?e \<in> set (Store_waits (expireTaskWaitTx now w ?a))" using kept [of w] by auto
  have ys: "\<forall>v \<in> set ys. v \<in> set (Store_waits (expireTaskWaitTx now w ?a)) \<and> \<not> Wait_Settled v"
  proof
    fix v assume v: "v \<in> set ys"
    then have "v \<noteq> w" "v \<in> set (Store_waits ?a)" using xs(5) kept by auto
    then show "v \<in> set (Store_waits (expireTaskWaitTx now w ?a)) \<and> \<not> Wait_Settled v" using one(2) due split v by simp
  qed
  have "?e \<notin> set ys" using ys by (auto simp: expire_wait_def Wait_Settled_def)
  then have "?e \<in> set (Store_waits (fold (expireTaskWaitTx now) ys (expireTaskWaitTx now w ?a)))"
    using fold_rows [OF expire_writes quiet_wf [OF one(1) a] xs(4) ys, of now] e by blast
  then show ?thesis by (simp add: split)
qed

lemma expired_settled:
  assumes "ExpireTaskWaits now st = Inr (ws, st')" and wf: "store_wf st" and w': "w' \<in> set (Store_waits st')"
    and past: "\<not> now < Wait_Deadline w'"
  shows "Wait_Settled w'"
proof (rule ccontr)
  assume live: "\<not> Wait_Settled w'"
  have st': "st' = fold (expireTaskWaitTx now) (due_waits now st) st"
    using assms(1) by (simp add: ExpireTaskWaits_def due_waits_def Let_def split: if_splits)
  have q: "quiet st st'" by (rule expire_ok [OF assms(1) wf])
  obtain w where w: "w \<in> set (Store_waits st)" "quiet_row w w'" using rows_memberD [of quiet_row st st' w'] q w' by (auto simp: quiet_def)
  have row: "Wait_ID w' = Wait_ID w" "Wait_Deadline w' = Wait_Deadline w" "Wait_Settled w \<Longrightarrow> Wait_Settled w'"
    using w(2) by (auto simp: quiet_row_def row_ok_def wait_evolves_def Wait_Settled_def)
  have "\<not> Wait_Settled w" using row(3) live by blast
  then have "w \<in> set (due_waits now st)" using due_waits_ok(2) [OF wf] w(1) past row(2) by simp
  then have "expire_wait now w \<in> set (Store_waits st')"
    unfolding st' using expired_written [OF wf due_waits_ok(1) [OF wf]] due_waits_ok(2) [OF wf] by blast
  moreover have "Wait_ID (expire_wait now w) = Wait_ID w'" using row(1) by (simp add: expire_wait_def)
  moreover have "distinct (map Wait_ID (Store_waits st'))" using quiet_wf [OF q wf] by (simp add: store_wf_def)
  ultimately have "w' = expire_wait now w" using same_id [of "Store_waits st'"] w' by blast
  then show False using live by (simp add: expire_wait_def Wait_Settled_def)
qed

lemma all_settled_ready:
  assumes "\<forall>w \<in> set (waits_of i ws). Wait_Settled w" and "u \<in> set ws" and "Wait_AttemptID u = i" and "\<not> Wait_Woken u"
  shows "\<exists>ready. taskWaitWakeSet (waits_of i ws) = Some ready"
proof -
  have u: "u \<in> set (waits_of i ws)" using assms(2,3) by (simp add: waits_of_def)
  then have "u \<in> set (filter (\<lambda>w. \<not> Wait_Live w \<and> \<not> Wait_Woken w) (waits_of i ws))"
    using assms(1,4) by (simp add: Wait_Live_def Wait_Settled_def)
  then have "filter (\<lambda>w. \<not> Wait_Live w \<and> \<not> Wait_Woken w) (waits_of i ws) \<noteq> []" by (metis empty_iff list.set(1))
  moreover have "\<not> list_ex Wait_Live (waits_of i ws)" using assms(1) by (auto simp: list_ex_iff Wait_Live_def Wait_Settled_def)
  ultimately show ?thesis by (simp add: taskWaitWakeSet_def Let_def)
qed

lemma expire_tables:
  "Store_attempts (fold (expireTaskWaitTx now) ws st) = Store_attempts st"
  "Store_assignments (fold (expireTaskWaitTx now) ws st) = Store_assignments st"
  "Store_runs (fold (expireTaskWaitTx now) ws st) = Store_runs st"
  "Store_projects (fold (expireTaskWaitTx now) ws st) = Store_projects st"
  by (induction ws arbitrary: st) (simp_all add: expireTaskWaitTx_def Let_def)

lemma expire_integral:
  assumes "ExpireTaskWaits now st = Inr (ws, st')" and "store_wf st" and "integral st"
  shows "integral st'"
proof (rule integral_kept [OF assms(3)])
  have st': "st' = fold (expireTaskWaitTx now) (due_waits now st) st"
    using assms(1) by (simp add: ExpireTaskWaits_def due_waits_def Let_def split: if_splits)
  show "refs_kept st st'" by (rule refs_kept_refl) (simp_all add: st' expire_tables)
  have "rows quiet_row st st'" using expire_ok [OF assms(1,2)] by (simp add: quiet_def)
  then have "map Wait_AttemptID (Store_waits st') = map Wait_AttemptID (Store_waits st)"
    unfolding rows_def quiet_row_def row_ok_def wait_evolves_def by (auto simp: list_all2_conv_all_nth list_eq_iff_nth_eq)
  then show "Wait_AttemptID ` set (Store_waits st') \<subseteq> Wait_AttemptID ` set (Store_waits st)" by (metis list.set_map order_refl)
qed

lemma expired_ready:
  assumes "ExpireTaskWaits now st = Inr (ws, st')" and wf: "store_wf st" and cov: "parked_covered st"
    and a: "a \<in> set (Store_attempts st)" "Attempt_Progress a = ProgressWaitingExternal"
    and past: "\<forall>w \<in> set (Store_waits st). Wait_AttemptID w = Attempt_ID a \<longrightarrow> Wait_Deadline w \<le> now"
  obtains ready where "taskWaitWakeSet (waits_of (Attempt_ID a) (load_waits st')) = Some ready"
    and "Attempt_ID a \<in> Wait_AttemptID ` set (load_waits st')"
proof -
  have q: "quiet st st'" by (rule expire_ok [OF assms(1) wf])
  have r: "rows quiet_row st st'" and same: "Store_attempts st' = Store_attempts st" using q by (simp_all add: quiet_def)
  have settled: "Wait_Settled w'" if w': "w' \<in> set (waits_of (Attempt_ID a) (load_waits st'))" for w'
  proof -
    have m: "w' \<in> set (Store_waits st')" "Wait_AttemptID w' = Attempt_ID a" using w' by (simp_all add: waits_of_def load_waits_def)
    obtain w where w: "w \<in> set (Store_waits st)" "quiet_row w w'" using rows_memberD [OF r m(1)] .
    then have "Wait_AttemptID w = Attempt_ID a" "Wait_Deadline w' = Wait_Deadline w"
      using m(2) by (simp_all add: quiet_row_def row_ok_def wait_evolves_def)
    then have "\<not> now < Wait_Deadline w'" using past w(1) by auto
    then show ?thesis by (rule expired_settled [OF assms(1) wf m(1)])
  qed
  have "parked_covered st'" by (rule quiet_covered [OF q cov])
  then obtain u where u: "u \<in> set (load_waits st')" "Wait_AttemptID u = Attempt_ID a" "\<not> Wait_Woken u"
    using a unfolding parked_covered_def same load_waits_def by auto
  then show ?thesis
    using all_settled_ready [of "Attempt_ID a" "load_waits st'" u] settled that image_eqI [of "Attempt_ID a" Wait_AttemptID u] by metis
qed

section \<open>Properties\<close>

definition example_cutoffs :: TaskWakeCutoffs where
  "example_cutoffs = no_cutoffs\<lparr>Cutoffs_AuthorizedWorkers := Some []\<rparr>"

definition example_orphan :: wait_store where
  "example_orphan = example_wait_store\<lparr>
     Store_waits := [example_wait\<lparr>Wait_Result := Some (expired_result example_wait 20), Wait_SettledAt := Some 20\<rparr>],
     Store_attempts := [example_wait_attempt\<lparr>Attempt_AssignmentID := ''''\<rparr>]\<rparr>"


lemma example_integral: "integral example_wait_store"
  by (simp add: integral_def example_wait_defs zero_Attempt_def frozenTaskWakeProjectTx_def)


lemma orphan_fails:
  assumes "distinct (map fst cs)" and "store_wf st" and "ready_candidates waits cs st"
    and "a \<in> set (Store_attempts st)" and "Attempt_ID a \<in> fst ` set cs" and "Attempt_Progress a = ProgressWaitingExternal"
    and "Attempt_AssignmentID a = ''''" and "\<forall>s \<in> set (Store_assignments st). Assignment_ID s \<noteq> ''''"
    and "Cutoffs_ContendingWorker cutoffs = ''''" and "Cutoffs_ContendingPool cutoffs = ''''"
  shows "\<exists>err. wake_all rt now cutoffs waits cs (wakes, st) = Inl err"
  using assms(1-8)
proof (induction cs arbitrary: wakes st)
  case Nil
  then show ?case by simp
next
  case (Cons c cs)
  obtain ready where ready: "taskWaitWakeSet (waits_of (fst c) waits) = Some ready" "ready_of (fst c) ready st"
    using Cons.prems(3) by (auto simp: ready_candidates_def)
  show ?case
  proof (cases "wake_attempt rt now cutoffs c ready (wakes, st)")
    case (Inl err)
    then show ?thesis using ready(1) by (simp add: bind_result_def)
  next
    case (Inr mid)
    have ok: "wake_step_ok cutoffs (fst c) ready st (snd mid)" using wake_attempt_ok [OF Inr] ready(2) Cons.prems(2) by simp
    have other: "Attempt_ID a \<noteq> fst c"
    proof
      assume same: "Attempt_ID a = fst c"
      obtain b where b: "loadAttemptTx st (fst c) = Inr b" using load_attempt_found [of st "fst c"] Cons.prems(4) same by auto
      have "inj_on Attempt_ID (set (Store_attempts st))" using Cons.prems(2) by (simp add: store_wf_def distinct_map)
      from inj_onD [OF this] have "b = a" using load_attempt_ok [OF b] same Cons.prems(4) by simp
      moreover have "loadAssignmentTx st '''' = Inl (Errorf ''load assignment %q: %w'' ['''', ''sql: no rows in result set''])"
        using Cons.prems(8) by (auto simp: loadAssignmentTx_def find_None_iff split: option.split dest: find_SomeD)
      ultimately show False
        using Inr b Cons.prems(6,7) assms(9,10)
        by (simp add: wake_attempt_def wake_parked_def scoped_out_def taskWaitExecutionAbandonedTx_def bind_result_def Terminal_def)
    qed
    have "a \<in> set (Store_attempts (snd mid))"
      using attempts_at_other [OF wake_step_pass(2) [OF ok], of a] other Cons.prems(4) by simp
    moreover have "\<forall>s \<in> set (Store_assignments (snd mid)). Assignment_ID s \<noteq> ''''"
    proof
      fix s assume s: "s \<in> set (Store_assignments (snd mid))"
      have "list_all2 same_assignment_refs (Store_assignments st) (Store_assignments (snd mid))"
        using attempt_refs [OF Inr] Cons.prems(2) by (simp add: refs_kept_def)
      from list_all2_right [OF this s] obtain r where "r \<in> set (Store_assignments st)" "same_assignment_refs r s" by (elim bexE)
      then show "Assignment_ID s \<noteq> ''''" using Cons.prems(8) by (simp add: same_assignment_refs_def)
    qed
    moreover have "ready_candidates waits cs (snd mid)"
      using Cons.prems(1) by (intro ready_candidates_kept [OF ok Cons.prems(3)]) simp
    moreover have "store_wf (snd mid)" by (rule wake_step_wf [OF ok Cons.prems(2)])
    moreover have "Attempt_ID a \<in> fst ` set cs" using Cons.prems(5) other by simp
    ultimately obtain err where "wake_all rt now cutoffs waits cs (fst mid, snd mid) = Inl err"
      using Cons.IH [of "snd mid" "fst mid"] Cons.prems(1,6,7) by auto
    then show ?thesis using ready(1) Inr by (simp add: bind_result_def)
  qed
qed

text \<open>C21. A parked attempt without an assignment stops every wake: it passes the check for an abandoned execution, then
  the load of its assignment fails, and the fleet-wide pass returns that error and wakes no attempt at all.\<close>

theorem orphan_blocks_every_wake:
  assumes "store_wf st" and "a \<in> set (Store_attempts st)" and "Attempt_Progress a = ProgressWaitingExternal" and "Attempt_AssignmentID a = ''''"
    and "\<forall>s \<in> set (Store_assignments st). Assignment_ID s \<noteq> ''''" and "Cutoffs_ContendingWorker cutoffs = ''''"
    and "Cutoffs_ContendingPool cutoffs = ''''" and "taskWaitWakeSet (waits_of (Attempt_ID a) (load_waits st)) = Some ready"
  shows "\<exists>err. WakeTaskWaitsBefore rt now cutoffs st = Inl err"
proof -

  have "hd ready \<in> set ready" using wake_set_ready [OF assms(8)] by (simp add: ready_of_def)
  then have "Attempt_ID a \<in> Wait_AttemptID ` set (load_waits st)"
    using wake_set_ready [OF assms(8)] unfolding ready_of_def load_waits_def by (intro image_eqI [of _ _ "hd ready"]) simp_all
  from candidates_fst(3) [OF this assms(8)]
  obtain err where "wake_all rt now cutoffs (load_waits st) (wake_candidates (load_waits st)) ([], st) = Inl err"
    using orphan_fails [OF candidates_fst(1) assms(1) candidates_ready assms(2) _ assms(3,4,5,6,7)] by blast
  then show ?thesis by (simp add: WakeTaskWaitsBefore_def)
qed

theorem orphan_blocks_every_wake_witness:
  "\<exists>err. WakeTaskWaitsBefore example_wait_runtime 30 no_cutoffs example_orphan = Inl err"
proof -
  let ?a = "example_wait_attempt\<lparr>Attempt_AssignmentID := ''''\<rparr>"
  have wf: "store_wf example_orphan"
    by (simp add: example_orphan_def example_wait_defs store_wf_def wait_wf_def taskWaitID_def Wait_Woken_def Wait_Settled_def)
  have a: "?a \<in> set (Store_attempts example_orphan)" "Attempt_Progress ?a = ProgressWaitingExternal" "Attempt_AssignmentID ?a = ''''"
    by (simp_all add: example_orphan_def example_wait_attempt_def)
  have s: "\<forall>s \<in> set (Store_assignments example_orphan). Assignment_ID s \<noteq> ''''"
    by (simp add: example_orphan_def example_wait_store_def example_assignment_def)
  have c: "Cutoffs_ContendingWorker no_cutoffs = ''''" "Cutoffs_ContendingPool no_cutoffs = ''''" by (simp_all add: no_cutoffs_def)
  have "taskWaitWakeSet (waits_of (Attempt_ID ?a) (load_waits example_orphan)) \<noteq> None" by code_simp
  then obtain ready where r: "taskWaitWakeSet (waits_of (Attempt_ID ?a) (load_waits example_orphan)) = Some ready" by auto
  show ?thesis by (rule orphan_blocks_every_wake [OF wf a s c r])
qed

end
