(* ===== verification/Spec2Isabelle.thy ===== *)
theory Spec2Isabelle
  imports SupervisionProperties ReadinessProperties SinkProperties DagProperties PolicyProperties LeaseProperties
    RegistryProperties PlacementProperties PlannerOrder PlannerCapacity PlannerProperties
    RetryProperties Rerun NodeProperties ProjectionProperties TaskWaitProgress
begin

text \<open>
  A verification development for \<^verbatim>\<open>t3-steward\<close>, a coordinator that runs campaigns of agent tasks on
  a fleet of workers: workflow graphs are executed task by task, their results are reviewed
  under supervision, provider quotas are watched, and shared names are leased to threads.

  \<^bold>\<open>The parts and how they interact.\<close> A workflow run is a graph of tasks with attempts
  (\<open>internal/backlog/dag.go\<close>); \<open>refresh\<close> releases the tasks whose dependencies, verdicts and
  external nodes are there. A supervised run adds gates, holds, activations of an overseer and
  incidents (\<open>internal/domain/supervision.go\<close>); the dispatcher starts a released task only if
  \<open>SupervisionAdmits\<close> (\<open>supervision_readiness.go\<close>) lets it. When all tasks are over and every
  execution is quiescent, the run settles into its sink (\<open>sink.go\<close>), unless the supervision
  barrier withholds it. One boundary of the coordinator (\<open>internal/backlog/projection.go\<close>) does this
  for every open run: it leaves runs alone whose failed task is about to be retried
  (\<open>automatic_retry.go\<close>, \<open>failure_class.go\<close>), builds the execution, ends the tasks that a failed
  dependency rules out, and publishes the run with its sink. A finished run can be repeated from
  one task on (\<open>internal/domain/rerun.go\<close>). A running attempt may park on a condition
  (\<open>internal/store/sqlite/task_wait.go\<close>): it gives up its executor capacity, the condition settles or
  expires, a wake pass resumes the attempt when its worker, its quota pool and the capacity allow it,
  and the outcome is delivered to its thread once. A released task needs a place: the executor registry
  (\<open>internal/backlog/capacity.go\<close>) hands out a worker's slots and sizes as reservations, and the
  capacity session of a planning pass (\<open>capacity_planning.go\<close>) keeps the pass within them. The
  dispatch planner (\<open>planner.go\<close>) brings these together: it orders the open tasks of all runs,
  asks placement (\<open>placement.go\<close>) for the workers a task may use and the router
  (\<open>provider_routing.go\<close>) for its quota pool, and proposes the tasks that nothing blocks.
  Independently of the runs, the policy engine (\<open>internal/policy/policy.go\<close>)
  turns quota readings into warn, drain, stop and rearm actions, and the lease table
  (\<open>internal/store/sqlite/lease.go\<close>) hands out named leases with fencing tokens.

  \<^bold>\<open>Theories.\<close>

  \<^item> \<open>GoPrelude\<close>: \<open>int64\<close> arithmetic with its wrap-around, time and durations with the saturating
    subtraction of \<open>time.Time\<close>, Go strings as bytes with \<open>TrimSpace\<close> and \<open>Split\<close>, sorting by a
    strict weak order (locale \<open>strict_weak_order\<close>, interpreted on the linear orders and on the
    order of supervision blockers), and the simplification collections.
  \<^item> \<open>SupervisionTypes\<close>, \<open>SupervisionMachines\<close>: the records, validators and the four transition
    functions of \<open>supervision.go\<close>, the incident record of \<open>recovery.go\<close> and the authority rule of
    \<open>supervision_authority.go\<close>.
  \<^item> \<open>SupervisionSpec\<close>: the documented transition tables as inductive relations, and the locale
    \<open>guarded_machine\<close> of a transition function that refines a table, interpreted on all four
    machines; \<open>SupervisionProperties\<close>: what any sequence of requests can and cannot do.
  \<^item> \<open>TaskTypes\<close>: directory resources and their conflicts (\<open>internal/directoryresource\<close>), role receipts
    and the other parts of a task definition.
  \<^item> \<open>Orchestrator\<close>: tasks, attempts, assignments and runs (\<open>orchestrator.go\<close>), declared work and
    overseer activations (\<open>supervision_attempt.go\<close>), fix-loop summaries and progress
    (\<open>fix_loop.go\<close>, \<open>fix_loop_progress.go\<close>).
  \<^item> \<open>SupervisionReadiness\<close>, \<open>ReadinessProperties\<close>: admission, the status label, and the standing
    of an acceptance.
  \<^item> \<open>Sink\<close>, \<open>SinkProperties\<close>: binding a sink, quiescence, the supervision barrier and settlement.
  \<^item> \<open>Dag\<close>: \<open>NewDAGExecution\<close> with its validation, \<open>refresh\<close>, the verdict branches of
    \<open>internal/backlog/fix_loop.go\<close>, and the operations of an execution. \<open>DagSpec\<close> characterises
    validation, \<open>DagRefresh\<close> the refresh, \<open>DagOperations\<close> the operations and the reachable
    executions; \<open>DagProperties\<close> states the properties.
  \<^item> \<open>GoFloat\<close>: \<open>float64\<close> as rationals with infinities and NaN, every operation rounded to nearest
    even, conversion to \<open>int64\<close> as amd64 performs it. Signed zeros are not distinguished: no
    modelled operation can tell them apart.
  \<^item> \<open>QuotaDomain\<close>, \<open>Policy\<close>: the quota types of \<open>domain.go\<close> and the policy engine; \<open>PolicySpec\<close> and
    \<open>PolicyProperties\<close>: its invariants and when it acts.
  \<^item> \<open>Capacity\<close>: CPU classes, demands, pools, slots and reservations (\<open>internal/domain/capacity.go\<close>,
    \<open>resource_sizing.go\<close>); \<open>PlanningTypes\<close>: candidates and blockers of a planning pass
    (\<open>planner.go\<close>); \<open>Registry\<close>: the executor registry and the capacity session. \<open>RegistrySpec\<close>
    has the invariant of a registry and what its operations keep, \<open>RegistryProperties\<close> the locale
    \<open>planning_session\<close> of a session that evaluates and then reserves, interpreted on the registry.
    The order in which Go iterates the map of reservations is an argument (\<open>iteration\<close>, any
    permutation); sums of \<open>float64\<close> depend on it, so the bounds are stated for slots, memory and
    scratch.
  \<^item> \<open>Placement\<close>: worker inventories, hard constraints, live-resource floors, scores and the
    selection of a worker; \<open>Routing\<close>: the provider router and the re-resolution of role tasks;
    \<open>Planner\<close>: the planning pass. \<open>PlannerSpec\<close> characterises one task and one step of the pass and
    has the locale \<open>plan_invariant\<close>; \<open>PlannerInvariants\<close> and \<open>PlannerCapacity\<close> interpret it on soundness,
    ownership of locks and checkouts, directories, quota pools and the sessions of the constraints.
    \<open>PlacementProperties\<close>, \<open>PlannerOrder\<close>, \<open>PlannerCapacity\<close> and \<open>PlannerProperties\<close> state the properties,
    with examples on \<open>PlannerSample\<close>. What the Go runtime decides (the text of a formatted value where
    it is compared, the order of a map iteration) is the argument \<open>go_runtime\<close>.
  \<^item> \<open>FailureClass\<close>: failure classes, the classification table and retry policies; \<open>Graph\<close>: the tasks of
    a run, administrative commands and the snapshot of the coordinator; \<open>Nodes\<close>, \<open>NodeProperties\<close>: nodes
    of other runs and what a task that depends on them may rely on; \<open>AutomaticRetry\<close>: the plan of
    automatic retries, with the properties in \<open>RetryProperties\<close>; \<open>Rerun\<close>: the division of a finished run.
  \<^item> \<open>Projection\<close>: one boundary over all runs. \<open>ProjectionSpec\<close> shows that the loop that ends tasks
    reaches its fixed point and changes nothing else; \<open>ProjectionProperties\<close> composes the graph, the
    loop and the settlement: an idle run settles, and started work is left alone.
  \<^item> \<open>TaskWaits\<close>: waits of an attempt, their registration, settlement and expiry; \<open>TaskWakes\<close>: executor
    capacity from the tables, the evidence a resumption needs and the wake pass; \<open>TaskWakeDelivery\<close>: the
    transitions of a wake message and its groups. \<open>TaskWaitSpec\<close> shows that every operation rewrites the
    waits row by row, \<open>TaskWaitProperties\<close> composes them to the relation \<open>wait_step\<close>, and
    \<open>TaskWaitProgress\<close> shows that the pass returns and what is left after the deadlines.
  \<^item> \<open>Leases\<close>, \<open>LeaseProperties\<close>: lease requests, their validation and their execution.

  \<^bold>\<open>How the code is translated.\<close> A struct is a record whose fields carry a prefix, with the
  fields that the modelled operations read or write; a string enum is a datatype with one
  constructor for every other text. A map is a function to \<open>option\<close> or an association list
  where it is iterated. Errors are values: a sentinel where the code wraps one, otherwise the
  format and its arguments. An operation on a pointer receiver returns the changed state; on an
  error the receiver is unchanged, as in the code. The clock is an argument.

  \<^bold>\<open>Loops.\<close> Three loops of the graph code carry fuel. \<open>visit\<close>, the cycle search, gets the number
  of tasks plus one: every call on the stack is at a distinct task. \<open>verdict_loop\<close> gets the
  number of attempts plus one: each pass but the last ends a waiting attempt. \<open>descend_loop\<close>
  gets the number of tasks plus one: each pass but the last selects another task. That the fuel
  is never used up is part of \<open>new_execution_accepts_exactly_valid\<close>, \<open>reachable_execution_consistent\<close>
  and \<open>descendants_exact\<close>.

  \<^bold>\<open>Not modelled.\<close> Parsing of manifests and configuration (YAML and Markdown libraries), SQL
  apart from the tables of leases and task-bound waits, HTTP, SSH and process transports, the worker runtime, command
  line and rendering: code whose effect is input and output, or that only calls libraries.
  Cryptographic digests are parameters. Concurrency is not modelled where the code serialises
  operations by a lock or a transaction: one operation is one step.
\<close>

end
